(* ===== verification/Prelude.thy ===== *)
theory Prelude
  imports Complex_Main "HOL-Library.Word"
begin

text \<open>
  Shared vocabulary of the development: the model's basic types, the form in which Go errors,
  external calls and database transactions appear in every component, and the facts about them
  that the component proofs use.

  \<^item> A \<open>uuid.UUID\<close> is sixteen bytes: a 128-bit word.
  \<^item> A \<open>time.Time\<close> is an instant, counted in nanoseconds: an integer.
  \<^item> An \<open>int16\<close> is a 16-bit word, read with \<open>sint\<close>.
  \<^item> A \<open>decimal.Decimal\<close> (package shopspring/decimal, not part of the repository) is a type
    variable of class \<open>linordered_idom\<close>: the class laws are the package's documented exact
    \<open>Add\<close>, \<open>Mul\<close>, \<open>NewFromInt\<close> and comparisons, and nothing else is known of it.
  \<^item> A Go error is the list of the program's sentinel errors in its \<open>%w\<close> chain, outermost
    first; \<open>errors.Is\<close> is membership. \<open>fmt.Errorf(\"...: %w\", err)\<close> keeps the list,
    \<open>fmt.Errorf(\"%w: %w\", a, b)\<close> appends two. An error that wraps no sentinel of the program
    (of the SQL driver, of a network call) is the empty list.
\<close>

type_synonym uuid = "128 word"
type_synonym time = int
type_synonym int16 = "16 word"
type_synonym ('e, 'a) result = "'e list + 'a"

text \<open>The sentinels of \<open>internal/shared/errors\<close>, which every service declares alike.\<close>

datatype apperr = ErrUnauthorized | ErrForbidden | ErrNotFound | ErrConflict | ErrInvalid

definition errors_is :: "'e list \<Rightarrow> 'e \<Rightarrow> bool" where
  "errors_is err sentinel \<longleftrightarrow> sentinel \<in> set err"

text \<open>
  Every call that leaves the process (a SQL statement, an HTTP or gRPC request, random bytes)
  can fail. A fault oracle \<open>F\<close> says which of the calls of one execution do, by the place of the
  call: \<open>io F site r\<close> is \<open>r\<close>, or the driver's error where \<open>F site\<close>.
\<close>

definition io :: "('c \<Rightarrow> bool) \<Rightarrow> 'c \<Rightarrow> ('e, 'a) result \<Rightarrow> ('e, 'a) result" where
  "io F site r = (if F site then Inl [] else r)"

text \<open>
  An operation on a state \<open>'s\<close> that returns a value or an error, with the state it leaves. \<open>bind\<close> is
  Go's \<open>x, err := m(); if err != nil { return err }; f(x)\<close>; \<open>query\<close> reads, \<open>ensure\<close> is an early
  return on a failed condition.
\<close>

type_synonym ('s, 'e, 'a) op = "'s \<Rightarrow> ('e, 'a) result \<times> 's"

definition ret :: "'a \<Rightarrow> ('s, 'e, 'a) op" where
  "ret x s = (Inr x, s)"

definition fail :: "'e list \<Rightarrow> ('s, 'e, 'a) op" where
  "fail e s = (Inl e, s)"

definition query :: "('s \<Rightarrow> ('e, 'a) result) \<Rightarrow> ('s, 'e, 'a) op" where
  "query f s = (f s, s)"

definition ensure :: "bool \<Rightarrow> 'e list \<Rightarrow> ('s, 'e, unit) op" where
  "ensure b e s = (if b then Inr () else Inl e, s)"

definition bind :: "('s, 'e, 'a) op \<Rightarrow> ('a \<Rightarrow> ('s, 'e, 'b) op) \<Rightarrow> ('s, 'e, 'b) op" where
  "bind m f s = (case m s of (Inl e, s') \<Rightarrow> (Inl e, s') | (Inr x, s') \<Rightarrow> f x s')"

text \<open>\<open>void m\<close> is \<open>m\<close> without its value.\<close>

definition void :: "('s, 'e, 'a) op \<Rightarrow> ('s, 'e, unit) op" where
  "void m = bind m (\<lambda>_. ret ())"

text \<open>
  \<open>db.Transaction(func(tx) error)\<close> of gorm: the body's writes are kept only if it returns no
  error and the commit succeeds.
\<close>

definition transaction :: "('c \<Rightarrow> bool) \<Rightarrow> 'c \<Rightarrow> ('s, 'e, 'a) op \<Rightarrow> ('s, 'e, 'a) op" where
  "transaction F commit body s =
     (case body s of
        (Inl e, _) \<Rightarrow> (Inl e, s)
      | (Inr x, s') \<Rightarrow> if F commit then (Inl [], s) else (Inr x, s'))"

lemma io_no_fault [simp]: "\<not> F c \<Longrightarrow> io F c r = r"
  by (simp add: io_def)

lemma io_Inr [simp]: "io F c r = Inr x \<longleftrightarrow> \<not> F c \<and> r = Inr x"
  by (simp add: io_def)

lemma io_Inl: "io F c r = Inl e \<longleftrightarrow> (F c \<and> e = []) \<or> (\<not> F c \<and> r = Inl e)"
  by (auto simp: io_def)

lemma op_Inr [simp]:
  "ret x s = (Inr y, s') \<longleftrightarrow> y = x \<and> s' = s"
  "fail e s \<noteq> (Inr y, s')"
  "query f s = (Inr y, s') \<longleftrightarrow> f s = Inr y \<and> s' = s"
  "ensure b e s = (Inr u, s') \<longleftrightarrow> b \<and> s' = s"
  by (auto simp: ret_def fail_def query_def ensure_def)

lemma op_Inl [simp]:
  "ret x s \<noteq> (Inl e', s')"
  "fail e s = (Inl e', s') \<longleftrightarrow> e' = e \<and> s' = s"
  "query f s = (Inl e', s') \<longleftrightarrow> f s = Inl e' \<and> s' = s"
  "ensure b e s = (Inl e', s') \<longleftrightarrow> \<not> b \<and> e' = e \<and> s' = s"
  by (auto simp: ret_def fail_def query_def ensure_def)

lemma bind_Inr: "bind m f s = (Inr y, s') \<longleftrightarrow> (\<exists>x s1. m s = (Inr x, s1) \<and> f x s1 = (Inr y, s'))"
  by (auto simp: bind_def split: prod.splits sum.splits)

lemma bind_Inl: "bind m f s = (Inl e, s') \<longleftrightarrow>
    m s = (Inl e, s') \<or> (\<exists>x s1. m s = (Inr x, s1) \<and> f x s1 = (Inl e, s'))"
  by (auto simp: bind_def split: prod.splits sum.splits)

lemma bind_step:
  "m s = (Inr x, s1) \<Longrightarrow> bind m f s = f x s1"
  "m s = (Inl e, s1) \<Longrightarrow> bind m f s = (Inl e, s1)"
  by (simp_all add: bind_def)

lemma bind_simps [simp]:
  "bind (ret x) f s = f x s"
  "bind (fail e) f s = (Inl e, s)"
  "bind (ensure b e) g s = (if b then g () s else (Inl e, s))"
  "bind (query q) f s = (case q s of Inl e \<Rightarrow> (Inl e, s) | Inr x \<Rightarrow> f x s)"
  by (auto simp: bind_def ret_def fail_def ensure_def query_def split: sum.splits)

lemma bind_assoc: "bind (bind m f) g = bind m (\<lambda>x. bind (f x) g)"
  by (rule ext) (simp add: bind_def split: prod.split sum.split)

lemma bind_ret: "bind m ret = m"
  by (rule ext) (simp add: bind_def ret_def split: prod.split sum.split)

lemma void_Inr: "void m s = (Inr (), s') \<longleftrightarrow> (\<exists>x. m s = (Inr x, s'))"
  by (simp add: void_def bind_Inr)

lemma void_Inl: "void m s = (Inl e, s') \<longleftrightarrow> m s = (Inl e, s')"
  by (auto simp: void_def bind_Inl)

lemma transaction_Inl: "transaction F c body s = (Inl e, s') \<Longrightarrow> s' = s"
  by (auto simp: transaction_def split: prod.splits sum.splits if_splits)

lemma transaction_Inr [simp]:
  "transaction F c body s = (Inr x, s') \<longleftrightarrow> body s = (Inr x, s') \<and> \<not> F c"
  by (auto simp: transaction_def split: prod.splits sum.splits if_splits)

text \<open>
  \<open>keeps P m\<close>: whatever \<open>m\<close> returns, it takes a state with \<open>P\<close> to a state with \<open>P\<close>. The rules
  follow the structure of an operation, so that \<open>intro keeps\<close> reduces an invariant of a command
  to the writes it makes.
\<close>

definition keeps :: "('s \<Rightarrow> bool) \<Rightarrow> ('s, 'e, 'a) op \<Rightarrow> bool" where
  "keeps P m \<longleftrightarrow> (\<forall>s. P s \<longrightarrow> P (snd (m s)))"

named_theorems keeps_intro "rules for keeps, by the structure of the operation"

lemma keepsI: "(\<And>s. P s \<Longrightarrow> P (snd (m s))) \<Longrightarrow> keeps P m"
  by (simp add: keeps_def)

lemma keepsD: "keeps P m \<Longrightarrow> m s = (r, s') \<Longrightarrow> P s \<Longrightarrow> P s'"
  by (auto simp: keeps_def dest: spec [of _ s])

lemma keeps_ret [keeps_intro]: "keeps P (ret x)"
  by (simp add: keeps_def ret_def)

lemma keeps_fail [keeps_intro]: "keeps P (fail e)"
  by (simp add: keeps_def fail_def)

lemma keeps_query [keeps_intro]: "keeps P (query f)"
  by (simp add: keeps_def query_def)

lemma keeps_ensure [keeps_intro]: "keeps P (ensure b e)"
  by (simp add: keeps_def ensure_def)

lemma keeps_bind [keeps_intro]: "keeps P m \<Longrightarrow> (\<And>x. keeps P (f x)) \<Longrightarrow> keeps P (bind m f)"
  by (auto simp: keeps_def bind_def split: prod.splits sum.splits)

lemma keeps_transaction [keeps_intro]: "keeps P m \<Longrightarrow> keeps P (transaction F c m)"
  by (auto simp: keeps_def transaction_def split: prod.splits sum.splits)

lemma keeps_if [keeps_intro]: "keeps P m \<Longrightarrow> keeps P m' \<Longrightarrow> keeps P (if b then m else m')"
  by simp

lemma keeps_option [keeps_intro]:
  "keeps P m \<Longrightarrow> (\<And>x. keeps P (f x)) \<Longrightarrow> keeps P (case o' of None \<Rightarrow> m | Some x \<Rightarrow> f x)"
  by (simp split: option.split)

lemma keeps_sum [keeps_intro]:
  "(\<And>e. keeps P (g e)) \<Longrightarrow> (\<And>x. keeps P (f x)) \<Longrightarrow> keeps P (case r of Inl e \<Rightarrow> g e | Inr x \<Rightarrow> f x)"
  by (simp split: sum.split)

lemma keeps_prod [keeps_intro]: "(\<And>x y. keeps P (f x y)) \<Longrightarrow> keeps P (case p of (x, y) \<Rightarrow> f x y)"
  by (simp split: prod.split)

text \<open>
  Strings are byte sequences, UTF-8 where they are texts. Package \<open>strings\<close> is modelled on ASCII: \<open>ToLower\<close> and the white space that
  \<open>Fields\<close> and \<open>TrimSpace\<close> cut at.
\<close>

definition is_space :: "char \<Rightarrow> bool" where
  "is_space c \<longleftrightarrow> of_char c \<in> {9, 10, 11, 12, 13, 32 :: nat}"

definition to_lower :: "char \<Rightarrow> char" where
  "to_lower c = (if 65 \<le> (of_char c :: nat) \<and> (of_char c :: nat) \<le> 90
     then char_of ((of_char c :: nat) + 32) else c)"

definition TrimSpace :: "string \<Rightarrow> string" where
  "TrimSpace s = rev (dropWhile is_space (rev (dropWhile is_space s)))"

definition ToLower :: "string \<Rightarrow> string" where
  "ToLower = List.map to_lower"

lemma to_lower_idem [simp]: "to_lower (to_lower c) = to_lower c"
  by (auto simp: to_lower_def)

lemma ToLower_idem [simp]: "ToLower (ToLower s) = ToLower s"
  by (simp add: ToLower_def)

text \<open>
  The characters of a UTF-8 text: its bytes without the continuation bytes, which have the form \<open>10xxxxxx\<close>.
\<close>

primrec char_count :: "string \<Rightarrow> nat" where
  "char_count [] = 0"
| "char_count (c # s) = (if digit7 c \<and> \<not> digit6 c then char_count s else Suc (char_count s))"

lemma char_count_append [simp]: "char_count (s @ t) = char_count s + char_count t"
  by (induction s) auto

lemma char_count_length: "char_count s \<le> length s"
  by (induction s) auto

lemma char_count_le: "length s \<le> n \<Longrightarrow> char_count s \<le> n"
  using char_count_length [of s] by linarith

text \<open>
  Text codecs of the identifiers, amounts and instants the services exchange: \<open>String\<close> and
  \<open>Parse\<close> of google/uuid, \<open>StringFixed(2)\<close> and \<open>NewFromString\<close> of shopspring/decimal, and the
  layout \<open>time.RFC3339Nano\<close> of package \<open>time\<close> on UTC instants.
\<close>

record 'd lib =
  uuidString :: "uuid \<Rightarrow> string"
  uuidParse :: "string \<Rightarrow> uuid option"
  StringFixed2 :: "'d \<Rightarrow> string"
  NewFromString :: "string \<Rightarrow> 'd option"
  timeFormat :: "time \<Rightarrow> string"
  timeParse :: "string \<Rightarrow> time option"

text \<open>
  The documented behaviour that the services rely on: parsing what \<open>String\<close> or \<open>Format\<close> writes
  gives the value back.
\<close>

definition uuid_codec :: "'d lib \<Rightarrow> bool" where
  "uuid_codec L \<longleftrightarrow> (\<forall>u. uuidParse L (uuidString L u) = Some u)"

definition time_codec :: "'d lib \<Rightarrow> bool" where
  "time_codec L \<longleftrightarrow> (\<forall>t. timeParse L (timeFormat L t) = Some t)"

text \<open>
  The documented behaviour of \<open>StringFixed(2)\<close> and \<open>NewFromString\<close>: the text stands for a number with two decimals that
  is at most half a cent away. \<open>fixed2 L d\<close> is that number. It is the amount itself when that has two decimals.
\<close>

definition fixed_codec :: "'d::linordered_idom lib \<Rightarrow> bool" where
  "fixed_codec L \<longleftrightarrow> (\<forall>d. \<exists>d' k. NewFromString L (StringFixed2 L d) = Some d' \<and>
     100 * d' = of_int k \<and> 200 * \<bar>d' - d\<bar> \<le> 1)"

definition fixed2 :: "'d lib \<Rightarrow> 'd \<Rightarrow> 'd" where
  "fixed2 L d = the (NewFromString L (StringFixed2 L d))"

lemma fixed2_parsed:
  assumes "fixed_codec L"
  obtains k where "NewFromString L (StringFixed2 L d) = Some (fixed2 L d)" "100 * fixed2 L d = of_int k" "200 * \<bar>fixed2 L d - d\<bar> \<le> 1"
  using assms unfolding fixed_codec_def fixed2_def by (metis option.sel)

lemma cents_order:
  fixes x y :: "'d::linordered_idom"
  assumes "100 * x = of_int k" "100 * y = of_int m" "2 * (100 * x) < 2 * (100 * y) + 2"
  shows "x \<le> y"
proof -
  have "of_int (2 * k) < (of_int (2 * m + 2) :: 'd)" using assms by simp
  then have "k \<le> m" unfolding of_int_less_iff by simp
  then have "100 * x \<le> 100 * y" using assms(1,2) by simp
  then show ?thesis by simp
qed

lemma fixed2_exact:
  assumes "fixed_codec L" "100 * d = of_int k"
  shows "fixed2 L d = d"
proof -
  obtain m where m: "100 * fixed2 L d = of_int m" "200 * \<bar>fixed2 L d - d\<bar> \<le> 1"
    using fixed2_parsed [OF assms(1)] by metis
  then have "200 * (fixed2 L d - d) \<le> 1" "200 * (d - fixed2 L d) \<le> 1" by (simp_all add: abs_if split: if_splits)
  then have "fixed2 L d \<le> d" "d \<le> fixed2 L d"
    using cents_order [OF m(1) assms(2)] cents_order [OF assms(2) m(1)] by (auto simp: algebra_simps)
  then show ?thesis by simp
qed

lemma fixed2_nonneg:
  assumes "fixed_codec L" "0 \<le> d"
  shows "0 \<le> fixed2 L d"
proof -
  obtain m where m: "100 * fixed2 L d = of_int m" "200 * \<bar>fixed2 L d - d\<bar> \<le> 1"
    using fixed2_parsed [OF assms(1)] by metis
  then have "200 * (d - fixed2 L d) \<le> 1" by (simp add: abs_if split: if_splits)
  then show ?thesis using cents_order [of 0 0 "fixed2 L d" m] m(1) assms(2) by (auto simp: algebra_simps)
qed

lemma time_codecD [simp]: "time_codec L \<Longrightarrow> timeParse L (timeFormat L t) = Some t"
  by (simp add: time_codec_def)

lemma uuid_codecD [simp]: "uuid_codec L \<Longrightarrow> uuidParse L (uuidString L u) = Some u"
  by (simp add: uuid_codec_def)

end
