(* ===== verification/Json.thy ===== *)
theory Json
  imports Prelude
begin

text \<open>
  The JSON documents the services exchange, as trees, and the part of \<open>encoding/json\<close> they use.
  A Go struct is marshalled to an object with the keys of its tags, in the order of its fields.
  Unmarshalling a field takes the last occurrence of its key; a missing key and \<open>null\<close> leave the
  zero value; a value of another kind, a number out of the field's range and a text that is no
  UUID or time are errors. Keys are compared exactly (Go also accepts another letter case).
\<close>

datatype json =
    JNull
  | JBool bool
  | JInt int
  | JFloat real
  | JStr string
  | JArr "json list"
  | JObj "(string \<times> json) list"

text \<open>The zero \<open>time.Time\<close>, 1 January of the year 1, in nanoseconds from 1970.\<close>

definition zero_time :: time where
  "zero_time = - 62135596800000000000"

definition member :: "json \<Rightarrow> string \<Rightarrow> json" where
  "member j k = (case j of
     JObj kvs \<Rightarrow> (case map_of (rev kvs) k of None \<Rightarrow> JNull | Some v \<Rightarrow> v)
   | _ \<Rightarrow> JNull)"

fun is_struct :: "json \<Rightarrow> bool" where
  "is_struct (JObj _) = True"
| "is_struct JNull = True"
| "is_struct _ = False"

fun dec_str :: "json \<Rightarrow> string option" where
  "dec_str JNull = Some ''''"
| "dec_str (JStr s) = Some s"
| "dec_str _ = None"

fun dec_str_ptr :: "json \<Rightarrow> string option option" where
  "dec_str_ptr JNull = Some None"
| "dec_str_ptr (JStr s) = Some (Some s)"
| "dec_str_ptr _ = None"

fun dec_bool :: "json \<Rightarrow> bool option" where
  "dec_bool JNull = Some False"
| "dec_bool (JBool b) = Some b"
| "dec_bool _ = None"

fun dec_float :: "json \<Rightarrow> real option" where
  "dec_float JNull = Some 0"
| "dec_float (JInt i) = Some (of_int i)"
| "dec_float (JFloat r) = Some r"
| "dec_float _ = None"

definition int16_range :: "int \<Rightarrow> bool" where
  "int16_range i \<longleftrightarrow> - 32768 \<le> i \<and> i \<le> 32767"

fun dec_int16 :: "json \<Rightarrow> int16 option" where
  "dec_int16 JNull = Some 0"
| "dec_int16 (JInt i) = (if int16_range i then Some (word_of_int i) else None)"
| "dec_int16 _ = None"

fun dec_int16_ptr :: "json \<Rightarrow> int16 option option" where
  "dec_int16_ptr JNull = Some None"
| "dec_int16_ptr j = map_option Some (dec_int16 j)"

fun dec_uuid :: "'d lib \<Rightarrow> json \<Rightarrow> uuid option" where
  "dec_uuid L JNull = Some 0"
| "dec_uuid L (JStr s) = uuidParse L s"
| "dec_uuid L _ = None"

fun dec_time :: "'d lib \<Rightarrow> json \<Rightarrow> time option" where
  "dec_time L JNull = Some zero_time"
| "dec_time L (JStr s) = timeParse L s"
| "dec_time L _ = None"

fun dec_time_ptr :: "'d lib \<Rightarrow> json \<Rightarrow> time option option" where
  "dec_time_ptr L JNull = Some None"
| "dec_time_ptr L j = map_option Some (dec_time L j)"

fun dec_list :: "(json \<Rightarrow> 'a option) \<Rightarrow> json \<Rightarrow> 'a list option" where
  "dec_list f JNull = Some []"
| "dec_list f (JArr js) = those (List.map f js)"
| "dec_list f _ = None"

definition enc_uuid :: "'d lib \<Rightarrow> uuid \<Rightarrow> json" where
  "enc_uuid L u = JStr (uuidString L u)"

definition enc_time :: "'d lib \<Rightarrow> time \<Rightarrow> json" where
  "enc_time L t = JStr (timeFormat L t)"

definition enc_int16 :: "int16 \<Rightarrow> json" where
  "enc_int16 i = JInt (sint i)"

lemma dec_enc_uuid [simp]: "uuid_codec L \<Longrightarrow> dec_uuid L (enc_uuid L u) = Some u"
  by (simp add: enc_uuid_def)

lemma dec_enc_time [simp]: "time_codec L \<Longrightarrow> dec_time L (enc_time L t) = Some t"
  by (simp add: enc_time_def)

lemma dec_enc_int16 [simp]: "dec_int16 (enc_int16 i) = Some i"
  using sint_range_size [of i] by (simp add: enc_int16_def int16_range_def word_size)

lemma dec_list_map: "(\<And>x. x \<in> set xs \<Longrightarrow> dec (enc x) = Some x) \<Longrightarrow>
    dec_list dec (JArr (List.map enc xs)) = Some xs"
  by (induction xs) auto

lemma dec_list_encoded: "(\<And>x. dec (enc x) = Some (f x)) \<Longrightarrow> dec_list dec (JArr (List.map enc xs)) = Some (List.map f xs)"
  by (induction xs) auto

lemma member_Cons [simp]:
  "member (JObj ((k, v) # kvs)) k' =
    (if k' \<in> fst ` set kvs then member (JObj kvs) k' else if k = k' then v else JNull)"
proof -
  have "map_of (rev kvs) k' = None \<longleftrightarrow> k' \<notin> fst ` set kvs"
    by (simp add: map_of_eq_None_iff)
  then show ?thesis
    by (cases "map_of (rev kvs) k'") (auto simp: member_def map_add_def)
qed

lemma member_Nil [simp]: "member (JObj []) k = JNull" "member JNull k = JNull"
  by (simp_all add: member_def)

end
