(* ===== verification/Order_Domain.thy ===== *)
theory Order_Domain
  imports Json
begin

text \<open>
  The order aggregate of order-service (\<open>internal/domain/order\<close>): its data, the constructor, the
  four transitions of its life cycle and the event buffer. A method with a pointer receiver takes
  the order and returns the changed one; a method that returns an error leaves the receiver as it
  was. \<open>time.Now()\<close> is the argument \<open>now\<close>.

  The life cycle is stated twice: by the methods, and by the invariant \<open>order_inv\<close> that relates
  the status to the timestamps, with \<open>order_run\<close> the runs of methods under a clock that does not
  go back.
\<close>

subsection \<open>Errors of the service\<close>

datatype order_err =
    App apperr
  | ErrInvalidStatusTransition
  | ErrOutsideDeliveryRadius
  | ErrGeocodingUnavailable
  | ErrPaymentServiceUnavailable
  | ErrFulfillmentNotSupported
  | ErrBelowMinimumOrder
  | ErrCartRestaurantMismatch
  | ErrCartEmpty
  | ErrCartItemUnavailable

subsection \<open>Data\<close>

datatype OrderStatus = StatusPending | StatusConfirmed | StatusReady | StatusCompleted | StatusCancelled

datatype Fulfillment = FulfillmentDelivery | FulfillmentPickup

record Address =
  House :: string
  Street :: string
  PostalCode :: string
  City :: string

record 'd OrderItem =
  oi_ID :: uuid
  oi_OrderID :: uuid
  oi_PizzaID :: uuid
  oi_SizeID :: uuid
  oi_PizzaName :: string
  oi_SizeDiameter :: int16
  oi_ExtraToppingIDs :: "uuid list"
  oi_Quantity :: int16
  oi_UnitPrice :: 'd
  oi_TotalPrice :: 'd

datatype DomainEvent =
    OrderConfirmed (evOrderID: uuid) (evCustomerID: uuid) (evRestaurantID: uuid) (evOccurredAt: time)
  | AddressSaved (evCustomerID: uuid) (evHouse: string) (evStreet: string) (evCity: string)
      (evPostalCode: string) (evOccurredAt: time)

fun event_name :: "DomainEvent \<Rightarrow> string" where
  "event_name (OrderConfirmed _ _ _ _) = ''order.confirmed''"
| "event_name (AddressSaved _ _ _ _ _ _) = ''order.address_saved''"

record 'd Order =
  o_ID :: uuid
  o_CustomerID :: uuid
  o_RestaurantID :: uuid
  o_Status :: OrderStatus
  o_Fulfillment :: Fulfillment
  o_ContactEmail :: string
  o_ContactPhone :: "string option"
  o_DeliveryAddress :: "Address option"
  o_DeliveryLat :: "real option"
  o_DeliveryLon :: "real option"
  o_Items :: "'d OrderItem list"
  o_Subtotal :: 'd
  o_DeliveryFee :: 'd
  o_Total :: 'd
  o_Currency :: string
  o_PaymentID :: "string option"
  o_PlacedAt :: time
  o_ConfirmedAt :: "time option"
  o_ReadyAt :: "time option"
  o_CompletedAt :: "time option"
  o_CancelledAt :: "time option"
  o_events :: "DomainEvent list"

subsection \<open>Operations\<close>

definition NewOrder ::
  "time \<Rightarrow> uuid \<Rightarrow> uuid \<Rightarrow> uuid \<Rightarrow> Fulfillment \<Rightarrow> string \<Rightarrow> string option \<Rightarrow> Address option \<Rightarrow>
   real option \<Rightarrow> real option \<Rightarrow> 'd OrderItem list \<Rightarrow> 'd \<Rightarrow> 'd \<Rightarrow> 'd \<Rightarrow> string \<Rightarrow> bool \<Rightarrow> 'd Order" where
  "NewOrder now ident customerID restaurantID fulfillment contactEmail contactPhone deliveryAddress
     deliveryLat deliveryLon items subtotal deliveryFee tot currency saveAddress =
   \<lparr> o_ID = ident, o_CustomerID = customerID, o_RestaurantID = restaurantID,
     o_Status = StatusPending, o_Fulfillment = fulfillment, o_ContactEmail = contactEmail,
     o_ContactPhone = contactPhone, o_DeliveryAddress = deliveryAddress,
     o_DeliveryLat = deliveryLat, o_DeliveryLon = deliveryLon, o_Items = items,
     o_Subtotal = subtotal, o_DeliveryFee = deliveryFee, o_Total = tot, o_Currency = currency,
     o_PaymentID = None, o_PlacedAt = zero_time, o_ConfirmedAt = None, o_ReadyAt = None,
     o_CompletedAt = None, o_CancelledAt = None,
     o_events = (case deliveryAddress of
         Some a \<Rightarrow> if saveAddress
           then [AddressSaved customerID (House a) (Street a) (City a) (PostalCode a) now] else []
       | None \<Rightarrow> []) \<rparr>"

definition Confirm :: "time \<Rightarrow> 'd Order \<Rightarrow> (order_err, 'd Order) result" where
  "Confirm now ord =
     (if o_Status ord \<noteq> StatusPending then Inl [ErrInvalidStatusTransition]
      else Inr (ord\<lparr> o_Status := StatusConfirmed, o_ConfirmedAt := Some now,
        o_events := o_events ord @
          [OrderConfirmed (o_ID ord) (o_CustomerID ord) (o_RestaurantID ord) now] \<rparr>))"

definition MarkReady :: "time \<Rightarrow> 'd Order \<Rightarrow> (order_err, 'd Order) result" where
  "MarkReady now ord =
     (if o_Status ord \<noteq> StatusConfirmed then Inl [ErrInvalidStatusTransition]
      else Inr (ord\<lparr> o_Status := StatusReady, o_ReadyAt := Some now \<rparr>))"

definition Complete :: "time \<Rightarrow> 'd Order \<Rightarrow> (order_err, 'd Order) result" where
  "Complete now ord =
     (case o_Status ord of
        StatusConfirmed \<Rightarrow> Inr (ord\<lparr> o_Status := StatusCompleted, o_CompletedAt := Some now \<rparr>)
      | StatusReady \<Rightarrow> Inr (ord\<lparr> o_Status := StatusCompleted, o_CompletedAt := Some now \<rparr>)
      | _ \<Rightarrow> Inl [ErrInvalidStatusTransition])"

definition Cancel :: "time \<Rightarrow> 'd Order \<Rightarrow> (order_err, 'd Order) result" where
  "Cancel now ord =
     (if o_Status ord \<noteq> StatusPending then Inl [ErrInvalidStatusTransition]
      else Inr (ord\<lparr> o_Status := StatusCancelled, o_CancelledAt := Some now \<rparr>))"

definition PullEvents :: "'d Order \<Rightarrow> DomainEvent list \<times> 'd Order" where
  "PullEvents ord = (o_events ord, ord\<lparr> o_events := [] \<rparr>)"

text \<open>What a method may report: an illegal transition, and nothing else.\<close>

lemmas transition_defs = Confirm_def MarkReady_def Complete_def Cancel_def

lemma Confirm_Inr [simp]: "Confirm now ord = Inr ord' \<longleftrightarrow> o_Status ord = StatusPending \<and>
    ord' = ord\<lparr> o_Status := StatusConfirmed, o_ConfirmedAt := Some now,
        o_events := o_events ord @
          [OrderConfirmed (o_ID ord) (o_CustomerID ord) (o_RestaurantID ord) now] \<rparr>"
  by (auto simp: Confirm_def)

lemma MarkReady_Inr [simp]: "MarkReady now ord = Inr ord' \<longleftrightarrow> o_Status ord = StatusConfirmed \<and>
    ord' = ord\<lparr> o_Status := StatusReady, o_ReadyAt := Some now \<rparr>"
  by (auto simp: MarkReady_def)

lemma Complete_Inr [simp]: "Complete now ord = Inr ord' \<longleftrightarrow>
    o_Status ord \<in> {StatusConfirmed, StatusReady} \<and>
    ord' = ord\<lparr> o_Status := StatusCompleted, o_CompletedAt := Some now \<rparr>"
  by (auto simp: Complete_def split: OrderStatus.splits)

lemma Cancel_Inr [simp]: "Cancel now ord = Inr ord' \<longleftrightarrow> o_Status ord = StatusPending \<and>
    ord' = ord\<lparr> o_Status := StatusCancelled, o_CancelledAt := Some now \<rparr>"
  by (auto simp: Cancel_def)

subsection \<open>The life cycle\<close>

inductive order_step :: "time \<Rightarrow> 'd Order \<Rightarrow> 'd Order \<Rightarrow> bool" for now where
  confirm: "Confirm now ord = Inr ord' \<Longrightarrow> order_step now ord ord'"
| ready: "MarkReady now ord = Inr ord' \<Longrightarrow> order_step now ord ord'"
| complete: "Complete now ord = Inr ord' \<Longrightarrow> order_step now ord ord'"
| cancel: "Cancel now ord = Inr ord' \<Longrightarrow> order_step now ord ord'"
| pull: "order_step now ord (snd (PullEvents ord))"

inductive_simps order_step_iff: "order_step now ord ord'"

inductive order_run :: "time \<Rightarrow> 'd Order \<Rightarrow> time \<Rightarrow> 'd Order \<Rightarrow> bool" for t0 ord0 where
  start: "order_run t0 ord0 t0 ord0"
| step: "order_run t0 ord0 t ord \<Longrightarrow> t \<le> now \<Longrightarrow> order_step now ord ord' \<Longrightarrow> order_run t0 ord0 now ord'"

text \<open>Which timestamps a status admits.\<close>

definition order_inv :: "'d Order \<Rightarrow> bool" where
  "order_inv ord = (case o_Status ord of
     StatusPending \<Rightarrow> o_ConfirmedAt ord = None \<and> o_ReadyAt ord = None \<and>
       o_CompletedAt ord = None \<and> o_CancelledAt ord = None
   | StatusConfirmed \<Rightarrow> o_ConfirmedAt ord \<noteq> None \<and> o_ReadyAt ord = None \<and>
       o_CompletedAt ord = None \<and> o_CancelledAt ord = None
   | StatusReady \<Rightarrow> o_ConfirmedAt ord \<noteq> None \<and> o_ReadyAt ord \<noteq> None \<and>
       o_CompletedAt ord = None \<and> o_CancelledAt ord = None
   | StatusCompleted \<Rightarrow> o_ConfirmedAt ord \<noteq> None \<and>
       o_CompletedAt ord \<noteq> None \<and> o_CancelledAt ord = None
   | StatusCancelled \<Rightarrow> o_ConfirmedAt ord = None \<and> o_ReadyAt ord = None \<and>
       o_CompletedAt ord = None \<and> o_CancelledAt ord \<noteq> None)"

text \<open>The timestamps that are set never lie after the clock, and follow the order of the stages.\<close>

fun before :: "time option \<Rightarrow> time option \<Rightarrow> bool" where
  "before (Some s) (Some t) = (s \<le> t)"
| "before _ _ = True"

definition times_ordered :: "time \<Rightarrow> 'd Order \<Rightarrow> bool" where
  "times_ordered t ord \<longleftrightarrow>
     before (o_ConfirmedAt ord) (Some t) \<and> before (o_ReadyAt ord) (Some t) \<and>
     before (o_CompletedAt ord) (Some t) \<and> before (o_CancelledAt ord) (Some t) \<and>
     before (o_ConfirmedAt ord) (o_ReadyAt ord) \<and> before (o_ConfirmedAt ord) (o_CompletedAt ord) \<and>
     before (o_ReadyAt ord) (o_CompletedAt ord)"

text \<open>What no method changes: identity, parties, contact, lines and money.\<close>

definition terms :: "'d Order \<Rightarrow> _" where
  "terms ord = ((o_ID ord, o_CustomerID ord, o_RestaurantID ord, o_Fulfillment ord),
     (o_ContactEmail ord, o_ContactPhone ord, o_DeliveryAddress ord),
     (o_Items ord, o_Subtotal ord, o_DeliveryFee ord, o_Total ord, o_Currency ord),
     (o_PaymentID ord, o_PlacedAt ord))"

lemma NewOrder_inv: "order_inv (NewOrder now i c r f e p a lat lon its s d t cur sv)"
  by (simp add: order_inv_def NewOrder_def)

lemma before_None2 [simp]: "before x None"
  by (cases x) auto

lemma before_trans: "before x (Some s) \<Longrightarrow> s \<le> t \<Longrightarrow> before x (Some t)"
  by (cases x) auto

lemma order_inv_update [simp]:
  "order_inv (ord\<lparr> o_events := es \<rparr>) = order_inv ord"
  "order_inv (ord\<lparr> o_Items := its \<rparr>) = order_inv ord"
  "order_inv (ord\<lparr> o_PaymentID := pid \<rparr>) = order_inv ord"
  "order_inv (ord\<lparr> o_PlacedAt := t \<rparr>) = order_inv ord"
  by (auto simp: order_inv_def split: OrderStatus.splits)

lemma order_inv_transition:
  "order_inv ord \<Longrightarrow> Confirm now ord = Inr ord' \<Longrightarrow> order_inv ord'"
  "order_inv ord \<Longrightarrow> MarkReady now ord = Inr ord' \<Longrightarrow> order_inv ord'"
  "order_inv ord \<Longrightarrow> Complete now ord = Inr ord' \<Longrightarrow> order_inv ord'"
  "order_inv ord \<Longrightarrow> Cancel now ord = Inr ord' \<Longrightarrow> order_inv ord'"
  by (auto simp: order_inv_def)

lemma order_step_inv:
  assumes "order_step now ord ord'" and inv: "order_inv ord"
  shows "order_inv ord'"
  using assms(1)
  by cases (simp_all only: order_inv_transition [OF inv] PullEvents_def snd_conv order_inv_update inv)

lemma order_step_terms: "order_step now ord ord' \<Longrightarrow> terms ord' = terms ord"
  by (auto simp: order_step_iff terms_def PullEvents_def)

lemma order_step_times:
  assumes "order_step now ord ord'" "order_inv ord" "times_ordered t ord" "t \<le> now"
  shows "times_ordered now ord'"
  using assms by (auto simp: order_step_iff order_inv_def times_ordered_def PullEvents_def
      elim: before_trans)

text \<open>Rank of a status: a step that is not a pull raises it, so an order changes status at most
  three times.\<close>

fun stage :: "OrderStatus \<Rightarrow> nat" where
  "stage StatusPending = 0"
| "stage StatusConfirmed = 1"
| "stage StatusReady = 2"
| "stage StatusCompleted = 3"
| "stage StatusCancelled = 3"

lemma order_step_stage: "order_step now ord ord' \<Longrightarrow> o_Status ord' \<noteq> o_Status ord \<Longrightarrow>
    stage (o_Status ord) < stage (o_Status ord')"
  by (auto simp: order_step_iff PullEvents_def)

text \<open>
  An order that starts as \<open>NewOrder\<close> makes it and then undergoes any sequence of the methods
  \<open>Confirm\<close>, \<open>MarkReady\<close>, \<open>Complete\<close>, \<open>Cancel\<close> and \<open>PullEvents\<close> (each succeeding or refused) keeps
  the agreement between its status and its timestamps, has its timestamps in the order of the
  stages and not in the future, and still has the parties, lines and money it was created with.
\<close>

theorem order_lifecycle:
  assumes "order_run t0 (NewOrder t0 i c r f e p a lat lon its s d tot cur sv) t ord"
  shows "order_inv ord \<and> times_ordered t ord \<and>
    terms ord = terms (NewOrder t0 i c r f e p a lat lon its s d tot cur sv)"
  using assms
proof (induction)
  case start
  then show ?case by (simp add: NewOrder_inv) (simp add: times_ordered_def NewOrder_def)
next
  case (step t ord now ord')
  then show ?case by (auto dest: order_step_inv order_step_times order_step_terms)
qed

definition sample_order :: "int Order" where
  "sample_order = NewOrder 1 10 20 30 FulfillmentPickup ''a@b'' None None None None [] 12 0 12 ''EUR'' False"

theorem order_lifecycle_witness:
  "\<exists>ord. order_run 1 sample_order 5 ord \<and> o_Status ord = StatusCompleted \<and> times_ordered 5 ord \<and>
     order_inv ord"
proof -
  have "order_run 1 sample_order 3 (projr (Confirm 3 sample_order))"
    by (rule order_run.step [OF order_run.start])
      (auto simp: sample_order_def NewOrder_def Confirm_def intro: order_step.confirm)
  then have run: "order_run 1 sample_order 5 (projr (Complete 5 (projr (Confirm 3 sample_order))))"
    by (rule order_run.step)
      (auto simp: sample_order_def NewOrder_def Confirm_def Complete_def intro: order_step.complete)
  moreover have "o_Status (projr (Complete 5 (projr (Confirm 3 sample_order)))) = StatusCompleted"
    by (simp add: sample_order_def NewOrder_def Confirm_def Complete_def)
  ultimately show ?thesis
    using order_lifecycle [OF run [unfolded sample_order_def]] by (auto simp: sample_order_def)
qed

end
