(* ===== verification/Table.thy ===== *)
theory Table
  imports Prelude "HOL-Library.Multiset"
begin

text \<open>
  A SQL table is the list of its rows, in an order of the server's choosing; the theorems hold
  for every such list. This theory has the statements the repositories issue, the row-versioned
  upsert (\<open>ON CONFLICT DO UPDATE ... WHERE stored.updated_at < excluded.updated_at\<close>) of the
  read models, and the interface locale \<open>versioned_rows\<close>: a table whose rows only move
  forward in time reaches the same rows in whatever order the writes arrive.
\<close>

subsection \<open>Statements\<close>

definition find_row :: "('r \<Rightarrow> 'k) \<Rightarrow> 'k \<Rightarrow> 'r list \<Rightarrow> 'r option" where
  "find_row key k tbl = List.find (\<lambda>r. key r = k) tbl"

definition update_where :: "('r \<Rightarrow> bool) \<Rightarrow> ('r \<Rightarrow> 'r) \<Rightarrow> 'r list \<Rightarrow> 'r list" where
  "update_where P f tbl = map (\<lambda>r. if P r then f r else r) tbl"

definition delete_where :: "('r \<Rightarrow> bool) \<Rightarrow> 'r list \<Rightarrow> 'r list" where
  "delete_where P tbl = filter (\<lambda>r. \<not> P r) tbl"

definition rows_affected :: "('r \<Rightarrow> bool) \<Rightarrow> 'r list \<Rightarrow> nat" where
  "rows_affected P tbl = length (filter P tbl)"

definition upsert_newer :: "('r \<Rightarrow> 'k) \<Rightarrow> ('r \<Rightarrow> time) \<Rightarrow> 'r \<Rightarrow> 'r list \<Rightarrow> 'r list" where
  "upsert_newer key ts r tbl =
     (if find_row key (key r) tbl = None then tbl @ [r]
      else update_where (\<lambda>x. key x = key r \<and> ts x < ts r) (\<lambda>_. r) tbl)"

definition insert_ignore :: "('r \<Rightarrow> 'k) \<Rightarrow> 'r \<Rightarrow> 'r list \<Rightarrow> 'r list" where
  "insert_ignore key r tbl = (if find_row key (key r) tbl = None then tbl @ [r] else tbl)"

lemma find_row_Nil [simp]: "find_row key k [] = None"
  by (simp add: find_row_def)

lemma find_row_Cons [simp]:
  "find_row key k (r # tbl) = (if key r = k then Some r else find_row key k tbl)"
  by (simp add: find_row_def)

lemma find_row_append [simp]:
  "find_row key k (xs @ ys) = (case find_row key k xs of None \<Rightarrow> find_row key k ys | Some r \<Rightarrow> Some r)"
  by (induction xs) auto

lemma find_row_Some: "find_row key k tbl = Some r \<Longrightarrow> r \<in> set tbl \<and> key r = k"
  by (induction tbl) (auto split: if_splits)

lemma find_in: "List.find P xs = Some x \<Longrightarrow> x \<in> set xs \<and> P x"
  by (induction xs) (auto split: if_splits)

lemma find_row_None: "find_row key k tbl = None \<longleftrightarrow> (\<forall>r \<in> set tbl. key r \<noteq> k)"
  by (induction tbl) auto

lemma find_row_None_image: "find_row key k tbl = None \<longleftrightarrow> k \<notin> key ` set tbl"
  by (auto simp: find_row_None)

lemma list_all2_right: "list_all2 P xs ys \<Longrightarrow> y \<in> set ys \<Longrightarrow> \<exists>x. P x y"
  by (induction rule: list_all2_induct) auto

lemma find_key_and:
  "distinct (List.map key tbl) \<Longrightarrow> List.find (\<lambda>r. key r = k \<and> Q r) tbl =
    (case find_row key k tbl of None \<Rightarrow> None | Some r \<Rightarrow> if Q r then Some r else None)"
  by (induction tbl) (auto simp: find_row_None_image [THEN iffD2])

lemma find_row_distinct:
  "distinct (map key tbl) \<Longrightarrow> r \<in> set tbl \<Longrightarrow> find_row key (key r) tbl = Some r"
  by (induction tbl) (auto simp: rev_image_eqI)

lemma find_row_update_key:
  assumes "\<And>r. key (f r) = key r"
  shows "find_row key k (update_where P f tbl) =
    map_option (\<lambda>r. if P r then f r else r) (find_row key k tbl)"
  by (induction tbl) (auto simp: update_where_def assms)

lemma map_key_update: "(\<And>r. P r \<Longrightarrow> key (f r) = key r) \<Longrightarrow> map key (update_where P f tbl) = map key tbl"
  by (auto simp: update_where_def)

lemma set_update_where: "set (update_where P f tbl) = (\<lambda>r. if P r then f r else r) ` set tbl"
  by (simp add: update_where_def)

lemma length_update_where [simp]: "length (update_where P f tbl) = length tbl"
  by (simp add: update_where_def)

lemma update_where_Nil [simp]: "update_where P f [] = []"
  by (simp add: update_where_def)

lemma update_where_Cons [simp]:
  "update_where P f (r # tbl) = (if P r then f r else r) # update_where P f tbl"
  by (simp add: update_where_def)

lemma update_where_append [simp]:
  "update_where P f (xs @ ys) = update_where P f xs @ update_where P f ys"
  by (simp add: update_where_def)

lemma update_where_none [simp]: "(\<And>r. r \<in> set tbl \<Longrightarrow> \<not> P r) \<Longrightarrow> update_where P f tbl = tbl"
  by (induction tbl) (auto simp: update_where_def)

lemma set_delete_where [simp]: "set (delete_where P tbl) = {r \<in> set tbl. \<not> P r}"
  by (auto simp: delete_where_def)

lemma find_row_delete:
  "find_row key k (delete_where (\<lambda>r. key r = k') tbl) =
    (if k = k' then None else find_row key k tbl)"
  by (induction tbl) (auto simp: delete_where_def)

lemma rows_affected_0: "rows_affected P tbl = 0 \<longleftrightarrow> (\<forall>r \<in> set tbl. \<not> P r)"
  by (auto simp: rows_affected_def filter_empty_conv)

subsection \<open>Saving a row\<close>

text \<open>gorm's \<open>Save\<close> writes every column, and inserts the row when there is none with its key.\<close>

definition save_row :: "('r \<Rightarrow> 'k) \<Rightarrow> 'r \<Rightarrow> 'r list \<Rightarrow> 'r list" where
  "save_row key r tbl =
     (if find_row key (key r) tbl = None then tbl @ [r]
      else update_where (\<lambda>x. key x = key r) (\<lambda>_. r) tbl)"

lemma save_row_in:
  "r0 \<in> set tbl \<Longrightarrow> key r0 = key r \<Longrightarrow> save_row key r tbl = update_where (\<lambda>x. key x = key r) (\<lambda>_. r) tbl"
  by (auto simp: save_row_def find_row_None)

lemma save_row_map_key: "r0 \<in> set tbl \<Longrightarrow> key r0 = key r \<Longrightarrow> List.map key (save_row key r tbl) = List.map key tbl"
  by (simp only: save_row_in) (rule map_key_update; simp)

lemma save_row_image: "r0 \<in> set tbl \<Longrightarrow> key r0 = key r \<Longrightarrow> key ` set (save_row key r tbl) = key ` set tbl"
  using save_row_map_key [of r0 tbl key r] by (metis list.set_map)

lemma save_row_set: "x \<in> set (save_row key r tbl) \<Longrightarrow> x = r \<or> x \<in> set tbl \<and> key x \<noteq> key r"
  by (auto simp: save_row_def set_update_where find_row_None split: if_splits)

lemma save_row_mem: "r \<in> set (save_row key r tbl)"
  by (auto simp: save_row_def set_update_where find_row_None)

lemma save_row_other: "x \<in> set tbl \<Longrightarrow> key x \<noteq> key r \<Longrightarrow> x \<in> set (save_row key r tbl)"
  by (force simp: save_row_def set_update_where)

subsection \<open>Sorting and replacing\<close>

lemma find_row_eqI:
  assumes "distinct (List.map key tbl)" "set tbl' = set tbl" "distinct (List.map key tbl')"
  shows "find_row key k tbl' = find_row key k tbl"
proof (cases "find_row key k tbl")
  case None
  then have "find_row key k tbl' = None" using assms(2) by (simp add: find_row_None)
  then show ?thesis using None by simp
next
  case (Some r)
  then have "r \<in> set tbl'" "key r = k" using find_row_Some [OF Some] assms(2) by auto
  then show ?thesis using find_row_distinct [OF assms(3), of r] Some by simp
qed

lemma find_row_sort: "distinct (List.map key tbl) \<Longrightarrow> find_row key k (sort_key f tbl) = find_row key k tbl"
  by (rule find_row_eqI) (simp_all add: distinct_map)

lemma find_row_replace:
  "find_row key (key r) tbl \<noteq> None \<Longrightarrow>
    find_row key (key r) (update_where (\<lambda>x. key x = key r) (\<lambda>_. r) tbl) = Some r"
  by (induction tbl) auto

lemma filter_key_single:
  "distinct (List.map key xs) \<Longrightarrow> x \<in> set xs \<Longrightarrow> filter (\<lambda>y. key y = key x) xs = [x]"
  by (induction xs) (auto simp: filter_empty_conv rev_image_eqI)

lemma insort_key_map: "(\<And>x. f (g x) = f x) \<Longrightarrow> insort_key f (g x) (List.map g xs) = List.map g (insort_key f x xs)"
  by (induction xs) auto

lemma sort_key_map: "(\<And>x. f (g x) = f x) \<Longrightarrow> sort_key f (List.map g xs) = List.map g (sort_key f xs)"
  by (induction xs) (simp_all add: insort_key_map)

lemma find_map_same: "(\<And>x. x \<in> set xs \<Longrightarrow> P (g x) = P x) \<Longrightarrow> List.find P (List.map g xs) = map_option g (List.find P xs)"
  by (induction xs) auto

subsection \<open>Column constraints\<close>

text \<open>
  \<open>NUMERIC(n + 2, 2)\<close> rounds to two decimals and refuses what then has more than \<open>n\<close> digits before the point; the
  rounding of the stored value is not modelled. \<open>VARCHAR(n)\<close> holds \<open>n\<close> characters.
\<close>

definition numeric_fits :: "nat \<Rightarrow> 'd::linordered_idom \<Rightarrow> bool" where
  "numeric_fits n x \<longleftrightarrow> 200 * \<bar>x\<bar> < 200 * of_int (10 ^ n) - 1"

fun in_range :: "real \<Rightarrow> real option \<Rightarrow> bool" where
  "in_range b None = True"
| "in_range b (Some x) = (- b \<le> x \<and> x \<le> b)"

fun fits :: "nat \<Rightarrow> string option \<Rightarrow> bool" where
  "fits n None = True"
| "fits n (Some s) = (char_count s \<le> n)"

subsection \<open>The newest row wins\<close>

fun newer :: "('r \<Rightarrow> time) \<Rightarrow> 'r \<Rightarrow> 'r option \<Rightarrow> 'r option" where
  "newer ts r None = Some r"
| "newer ts r (Some old) = (if ts old < ts r then Some r else Some old)"

lemma find_row_update_newer:
  "find_row key k (update_where (\<lambda>x. key x = key r \<and> ts x < ts r) (\<lambda>_. r) tbl) =
    (case find_row key k tbl of None \<Rightarrow> None
     | Some old \<Rightarrow> if k = key r then newer ts r (Some old) else Some old)"
  by (induction tbl) auto

lemma find_row_upsert_newer:
  "find_row key k (upsert_newer key ts r tbl) =
    (if k = key r then newer ts r (find_row key k tbl) else find_row key k tbl)"
  by (auto simp: upsert_newer_def find_row_update_newer split: option.splits)

lemma distinct_upsert_newer:
  "distinct (map key tbl) \<Longrightarrow> distinct (map key (upsert_newer key ts r tbl))"
  using map_key_update [of "\<lambda>x. key x = key r \<and> ts x < ts r" key "\<lambda>_. r"]
  by (auto simp: upsert_newer_def find_row_None)

lemma newer_commute:
  "ts x \<noteq> ts y \<or> x = y \<Longrightarrow> newer ts x \<circ> newer ts y = newer ts y \<circ> newer ts x"
proof (rule ext)
  fix old assume "ts x \<noteq> ts y \<or> x = y"
  then show "(newer ts x \<circ> newer ts y) old = (newer ts y \<circ> newer ts x) old"
    by (cases old) auto
qed

lemma newer_idem [simp]: "newer ts r (newer ts r old) = newer ts r old"
  by (cases old) auto

text \<open>
  The interface of a table written only through such upserts: what a lookup returns after a
  write. The client lemmas: a redelivered write changes nothing, writes with pairwise different
  timestamps may arrive in any order, and what is stored at the end is at least as new as every
  write for the key.
\<close>

locale versioned_rows =
  fixes lookup :: "'t \<Rightarrow> 'k \<Rightarrow> 'r option"
    and put :: "'r \<Rightarrow> 't \<Rightarrow> 't"
    and key :: "'r \<Rightarrow> 'k"
    and ts :: "'r \<Rightarrow> time"
  assumes lookup_put:
    "lookup (put r t) k = (if k = key r then newer ts r (lookup t k) else lookup t k)"
begin

lemma lookup_put_twice: "lookup (put r (put r t)) k = lookup (put r t) k"
  by (simp add: lookup_put)

lemma lookup_fold:
  "lookup (fold put rs t) k = fold (newer ts) (filter (\<lambda>r. key r = k) rs) (lookup t k)"
  by (induction rs arbitrary: t) (auto simp: lookup_put)

lemma order_irrelevant:
  assumes "mset rs = mset rs'"
    and "\<And>x y. x \<in> set rs \<Longrightarrow> y \<in> set rs \<Longrightarrow> key x = key y \<Longrightarrow> ts x = ts y \<Longrightarrow> x = y"
  shows "lookup (fold put rs t) k = lookup (fold put rs' t) k"
proof -
  let ?f = "filter (\<lambda>r. key r = k)"
  have "fold (newer ts) (?f rs) = fold (newer ts) (?f rs')"
  proof (rule fold_multiset_equiv)
    show "mset (?f rs) = mset (?f rs')" using assms(1) by simp
  next
    fix x y assume "x \<in> set (?f rs)" "y \<in> set (?f rs)"
    then show "newer ts x \<circ> newer ts y = newer ts y \<circ> newer ts x"
      using assms(2) by (intro newer_commute) auto
  qed
  then show ?thesis by (simp add: lookup_fold)
qed

text \<open>Nor does it matter how often a write arrives.\<close>

lemma redelivery_irrelevant:
  assumes "set rs = set rs'"
    and "\<And>x y. x \<in> set rs \<Longrightarrow> y \<in> set rs \<Longrightarrow> key x = key y \<Longrightarrow> ts x = ts y \<Longrightarrow> x = y"
  shows "lookup (fold put rs t) k = lookup (fold put rs' t) k"
proof -
  let ?f = "filter (\<lambda>r. key r = k)"
  let ?S = "set (?f rs)"
  have "newer ts y \<circ> newer ts x = newer ts x \<circ> newer ts y" if "x \<in> ?S" "y \<in> ?S" for x y
    using assms(2) [of y x] that by (intro newer_commute) auto
  then have "comp_fun_idem_on ?S (newer ts)"
    by unfold_locales (auto simp: fun_eq_iff)
  note folds = comp_fun_idem_on.fold_set_fold [OF this]
  have "fold (newer ts) (?f rs) (lookup t k) = fold (newer ts) (?f rs') (lookup t k)"
    using folds [of "?f rs"] folds [of "?f rs'"] assms(1) by simp
  then show ?thesis by (simp add: lookup_fold)
qed

lemma stored_keeps: "lookup t k = Some old \<Longrightarrow> \<exists>r. lookup (fold put rs t) k = Some r \<and> ts old \<le> ts r"
proof (induction rs arbitrary: t old)
  case Nil
  then show ?case by auto
next
  case (Cons x rs)
  have "\<exists>new. lookup (put x t) k = Some new \<and> ts old \<le> ts new"
    using Cons.prems by (auto simp: lookup_put)
  then obtain new where new: "lookup (put x t) k = Some new" "ts old \<le> ts new" by blast
  then show ?case using Cons.IH [OF new(1)] by fastforce
qed

lemma stored_newest:
  "r \<in> set rs \<Longrightarrow> \<exists>s. lookup (fold put rs t) (key r) = Some s \<and> ts r \<le> ts s"
proof (induction rs arbitrary: t)
  case Nil
  then show ?case by simp
next
  case (Cons x rs)
  show ?case
  proof (cases "r \<in> set rs")
    case True
    then show ?thesis using Cons.IH by simp
  next
    case False
    with Cons.prems have x: "x = r" by simp
    have "\<exists>new. lookup (put r t) (key r) = Some new \<and> ts r \<le> ts new"
      by (cases "lookup t (key r)") (auto simp: lookup_put)
    then obtain new where "lookup (put r t) (key r) = Some new" "ts r \<le> ts new" by blast
    then show ?thesis using stored_keeps [of "put r t" "key r" new rs] x by fastforce
  qed
qed

end

interpretation list_table: versioned_rows "\<lambda>tbl k. find_row key k tbl" "upsert_newer key ts" key ts
  for key :: "'r \<Rightarrow> 'k" and ts :: "'r \<Rightarrow> time"
  by unfold_locales (rule find_row_upsert_newer)

end
