(* ===== verification/Outbox.thy ===== *)
theory Outbox
  imports Json Table "HOL-Library.Option_ord" "HOL-Library.Product_Lexorder"
begin

text \<open>
  The transactional outbox (\<open>internal/domain/outbox\<close>, \<open>internal/infrastructure/persistence/outbox.go\<close>,
  the same code in every service): the event rows and the repository's statements on them. The
  identity column is the counter \<open>ob_seq\<close>. \<open>now\<close> stands for \<open>NOW()\<close> and \<open>time.Now()\<close>, which the
  code uses side by side.
\<close>

datatype OutboxStatus = OutboxPending | OutboxProcessing | OutboxProcessed | OutboxFailed

record OutboxEvent =
  ob_ID :: int
  ob_AggregateID :: uuid
  ob_EventName :: string
  ob_Payload :: json
  ob_Status :: OutboxStatus
  ob_Attempts :: int
  ob_LockedUntil :: "time option"
  ob_NextAttemptAt :: "time option"
  ob_LastError :: "string option"
  ob_TraceContext :: "string option"
  ob_CreatedAt :: time
  ob_ProcessedAt :: "time option"

record outbox_table =
  ob_rows :: "OutboxEvent list"
  ob_seq :: int

definition second :: time where
  "second = 1000000000"

definition NewOutboxEvent :: "time \<Rightarrow> uuid \<Rightarrow> string \<Rightarrow> json \<Rightarrow> OutboxEvent" where
  "NewOutboxEvent now aggregateID name payload =
   \<lparr> ob_ID = 0, ob_AggregateID = aggregateID, ob_EventName = name, ob_Payload = payload,
     ob_Status = OutboxPending, ob_Attempts = 0, ob_LockedUntil = None, ob_NextAttemptAt = None,
     ob_LastError = None, ob_TraceContext = None, ob_CreatedAt = now, ob_ProcessedAt = None \<rparr>"

text \<open>\<open>Create\<close>: the trace context of the request goes with the row; the server assigns the key.\<close>

definition outbox_Create :: "string \<Rightarrow> OutboxEvent \<Rightarrow> outbox_table \<Rightarrow> outbox_table" where
  "outbox_Create traceParent e t =
     t\<lparr> ob_rows := ob_rows t @
          [e\<lparr> ob_ID := ob_seq t,
             ob_TraceContext := (if traceParent \<noteq> '''' then Some traceParent else ob_TraceContext e) \<rparr>],
        ob_seq := ob_seq t + 1 \<rparr>"

text \<open>
  \<open>FetchAndMarkProcessing\<close>. \<open>locked\<close> are the keys of rows that other transactions hold, which
  \<open>SKIP LOCKED\<close> passes over; the lease is thirty seconds.
\<close>

definition due :: "time \<Rightarrow> OutboxEvent \<Rightarrow> bool" where
  "due now e \<longleftrightarrow>
     (ob_Status e = OutboxPending \<and>
        (case ob_LockedUntil e of None \<Rightarrow> True | Some l \<Rightarrow> l < now) \<and>
        (case ob_NextAttemptAt e of None \<Rightarrow> True | Some n \<Rightarrow> n \<le> now)) \<or>
     (ob_Status e = OutboxProcessing \<and>
        (case ob_LockedUntil e of None \<Rightarrow> False | Some l \<Rightarrow> l < now))"

definition due_batch :: "time \<Rightarrow> int list \<Rightarrow> nat \<Rightarrow> OutboxEvent list \<Rightarrow> OutboxEvent list" where
  "due_batch now locked limit rows =
     take limit (sort_key (\<lambda>e. (ob_NextAttemptAt e, ob_CreatedAt e))
       (filter (\<lambda>e. due now e \<and> ob_ID e \<notin> set locked) rows))"

definition mark_processing :: "time \<Rightarrow> OutboxEvent \<Rightarrow> OutboxEvent" where
  "mark_processing now e = e\<lparr> ob_Status := OutboxProcessing,
     ob_LockedUntil := Some (now + 30 * second), ob_Attempts := ob_Attempts e + 1 \<rparr>"

definition FetchAndMarkProcessing ::
  "time \<Rightarrow> int list \<Rightarrow> nat \<Rightarrow> outbox_table \<Rightarrow> OutboxEvent list \<times> outbox_table" where
  "FetchAndMarkProcessing now locked limit t =
     (let batch = due_batch now locked limit (ob_rows t) in
      (List.map (mark_processing now) batch,
       t\<lparr> ob_rows := update_where (\<lambda>e. ob_ID e \<in> ob_ID ` set batch) (mark_processing now) (ob_rows t) \<rparr>))"

definition MarkProcessed :: "time \<Rightarrow> int \<Rightarrow> outbox_table \<Rightarrow> outbox_table" where
  "MarkProcessed now ident t =
     t\<lparr> ob_rows := update_where (\<lambda>e. ob_ID e = ident \<and> ob_Status e = OutboxProcessing)
        (\<lambda>e. e\<lparr> ob_Status := OutboxProcessed, ob_ProcessedAt := Some now, ob_LockedUntil := None,
                ob_NextAttemptAt := None \<rparr>) (ob_rows t) \<rparr>"

definition ReleaseForRetry :: "time \<Rightarrow> int \<Rightarrow> string \<Rightarrow> int \<Rightarrow> outbox_table \<Rightarrow> outbox_table" where
  "ReleaseForRetry now ident errMsg delay t =
     t\<lparr> ob_rows := update_where (\<lambda>e. ob_ID e = ident \<and> ob_Status e = OutboxProcessing)
        (\<lambda>e. e\<lparr> ob_Status := OutboxPending, ob_LastError := Some errMsg, ob_LockedUntil := None,
                ob_NextAttemptAt := Some (now + delay) \<rparr>) (ob_rows t) \<rparr>"

text \<open>\<open>MarkFailed\<close> has no guard on the status.\<close>

definition MarkFailed :: "time \<Rightarrow> int \<Rightarrow> string \<Rightarrow> outbox_table \<Rightarrow> outbox_table" where
  "MarkFailed now ident errMsg t =
     t\<lparr> ob_rows := update_where (\<lambda>e. ob_ID e = ident)
        (\<lambda>e. e\<lparr> ob_Status := OutboxFailed, ob_LastError := Some errMsg, ob_LockedUntil := None,
                ob_ProcessedAt := Some now \<rparr>) (ob_rows t) \<rparr>"

subsection \<open>The table's invariant\<close>

text \<open>
  Keys are those the identity column has given out, each once; a row in the hands of a worker has a
  lease; a row that nobody has fetched yet has no attempts.
\<close>

definition outbox_row_inv :: "OutboxEvent \<Rightarrow> bool" where
  "outbox_row_inv e \<longleftrightarrow> 0 \<le> ob_Attempts e \<and>
     (ob_Status e = OutboxProcessing \<longrightarrow> ob_LockedUntil e \<noteq> None \<and> 0 < ob_Attempts e) \<and>
     (ob_Status e \<noteq> OutboxProcessing \<longrightarrow> ob_LockedUntil e = None)"

definition outbox_inv :: "outbox_table \<Rightarrow> bool" where
  "outbox_inv t \<longleftrightarrow> distinct (List.map ob_ID (ob_rows t)) \<and>
     (\<forall>e \<in> set (ob_rows t). ob_ID e < ob_seq t \<and> outbox_row_inv e)"

lemma outbox_inv_update:
  assumes "outbox_inv t" and "\<And>e. ob_ID (f e) = ob_ID e"
    and "\<And>e. outbox_row_inv e \<Longrightarrow> P e \<Longrightarrow> outbox_row_inv (f e)"
  shows "outbox_inv (t\<lparr> ob_rows := update_where P f (ob_rows t) \<rparr>)"
proof -
  have "List.map ob_ID (update_where P f (ob_rows t)) = List.map ob_ID (ob_rows t)"
    using assms(2) by (rule map_key_update)
  then show ?thesis
    using assms by (auto simp: outbox_inv_def set_update_where)
qed

lemma mark_processing_ID [simp]: "ob_ID (mark_processing now e) = ob_ID e"
  by (simp add: mark_processing_def)

lemma outbox_Create_inv:
  "outbox_inv t \<Longrightarrow> outbox_inv (outbox_Create tr (NewOutboxEvent now a n p) t)"
  by (fastforce simp: outbox_inv_def outbox_Create_def outbox_row_inv_def NewOutboxEvent_def)

lemma FetchAndMarkProcessing_inv:
  "outbox_inv t \<Longrightarrow> outbox_inv (snd (FetchAndMarkProcessing now locked limit t))"
  by (simp add: FetchAndMarkProcessing_def Let_def)
    (rule outbox_inv_update; auto simp: mark_processing_def outbox_row_inv_def)

lemma Mark_inv:
  "outbox_inv t \<Longrightarrow> outbox_inv (MarkProcessed now i t)"
  "outbox_inv t \<Longrightarrow> outbox_inv (ReleaseForRetry now i msg d t)"
  "outbox_inv t \<Longrightarrow> outbox_inv (MarkFailed now i msg t)"
  unfolding MarkProcessed_def ReleaseForRetry_def MarkFailed_def
  by (rule outbox_inv_update; auto simp: outbox_row_inv_def)+

end
