(* ===== verification/Order_Store.thy ===== *)
theory Order_Store
  imports Order_Domain Outbox "HOL-Library.List_Lexorder" "HOL-Library.Char_ord"
begin

text \<open>
  The database of order-service and the repositories on it (\<open>internal/infrastructure/persistence\<close>),
  with the read-model rows (\<open>internal/domain/readmodel\<close>) and the carts (\<open>internal/domain/cart\<close>).

  A stored order or cart row has no lines of its own (\<open>o_Items\<close>, \<open>c_Items\<close> and \<open>o_events\<close> are empty):
  lines live in the tables \<open>order_items\<close> and \<open>cart_items\<close>, and \<open>Preload("Items")\<close> fills them in.
  A statement that violates a constraint of the migrations (primary key, unique index, foreign key,
  CHECK, enum value, range of a NUMERIC or SMALLINT, length of a VARCHAR) fails with a driver
  error, the empty error chain, and so does one that the fault oracle picks.
\<close>

subsection \<open>Rows\<close>

record Customer =
  cu_ID :: uuid
  cu_Email :: string
  cu_FirstName :: string
  cu_Phone :: "string option"

record 'd Restaurant =
  r_ID :: uuid
  r_OwnerID :: uuid
  r_Name :: string
  r_OwnerEmail :: string
  r_Lat :: real
  r_Lon :: real
  r_DeliveryKm :: "int16 option"
  r_DeliveryFee :: 'd
  r_MinimumOrder :: 'd
  r_Pickup :: bool
  r_DeliveryType :: string
  r_Currency :: string
  r_UpdatedAt :: time

record Pizza =
  pz_ID :: uuid
  pz_RestaurantID :: uuid
  pz_Name :: string
  pz_Status :: string
  pz_UpdatedAt :: time

record 'd PizzaPrice =
  pp_PizzaID :: uuid
  pp_SizeID :: uuid
  pp_DiameterCm :: int16
  pp_Price :: 'd
  pp_IsActive :: bool
  pp_UpdatedAt :: time

record 'd ToppingPrice =
  tp_RestaurantID :: uuid
  tp_ToppingID :: uuid
  tp_Name :: string
  tp_ExtraPrice :: 'd
  tp_UpdatedAt :: time

record GeocodeEntry =
  g_AddressHash :: string
  g_Lat :: real
  g_Lon :: real

record CartItem =
  ci_ID :: uuid
  ci_CartID :: uuid
  ci_PizzaID :: uuid
  ci_SizeID :: uuid
  ci_Quantity :: int16
  ci_ExtraToppingIDs :: "uuid list"

record Cart =
  c_ID :: uuid
  c_CustomerID :: uuid
  c_RestaurantID :: uuid
  c_Items :: "CartItem list"
  c_CreatedAt :: time

record 'd CreatePaymentRequest =
  cpr_OrderID :: uuid
  cpr_RestaurantID :: uuid
  cpr_CustomerID :: uuid
  cpr_Amount :: 'd
  cpr_Currency :: string
  cpr_RedirectURL :: string

record CreatePaymentResult =
  cps_PaymentID :: string
  cps_CheckoutURL :: string

datatype 'd provider_call = CreatePaymentCall "'d CreatePaymentRequest" | CancelPaymentCall string

record 'd db =
  t_carts :: "Cart list"
  t_cart_items :: "CartItem list"
  t_orders :: "'d Order list"
  t_order_items :: "'d OrderItem list"
  t_customers :: "Customer list"
  t_restaurants :: "'d Restaurant list"
  t_pizzas :: "Pizza list"
  t_pizza_prices :: "'d PizzaPrice list"
  t_topping_prices :: "'d ToppingPrice list"
  t_geocode :: "GeocodeEntry list"
  t_outbox :: outbox_table
  calls :: "'d provider_call list"

text \<open>
  \<open>calls\<close> is not a table: it records the requests sent to payment-service, in order.

  One execution of a command has an environment: which calls fail, the results of \<open>uuid.NewV7()\<close> by
  call number, the clock, and the trace parent of its context.
\<close>

datatype site =
    CartFindByCustomer | CartCreate | CartAddOrMergeItem | CartUpdateItemQuantity
  | CartItemDelete | CartItemCount | CartDelete
  | OrderCreate | OrderUpdate | OrderFind | OrderList
  | CustomerFindByID | CustomerUpsert | CustomerUpdatePhone
  | RestaurantFindByID | RestaurantUpsert
  | PizzaFindByID nat | PizzaUpsert nat | PizzaDelete
  | PriceListByPizza nat | PriceUpsert nat nat
  | ToppingListByRestaurant | ToppingUpsert nat
  | GeocodeFind | GeocodeCreate | OutboxInsert nat | TxCommit

record env =
  fault :: "site \<Rightarrow> bool"
  newV7 :: "nat \<Rightarrow> uuid option"
  clock :: time
  traceParent :: string

subsection \<open>Constraints\<close>

definition order_row_ok :: "'d::linordered_idom db \<Rightarrow> 'd Order \<Rightarrow> bool" where
  "order_row_ok s ord \<longleftrightarrow>
     (\<exists>r \<in> set (t_restaurants s). r_ID r = o_RestaurantID ord) \<and>
     fits 255 (Some (o_ContactEmail ord)) \<and> fits 32 (o_ContactPhone ord) \<and>
     fits 3 (Some (o_Currency ord)) \<and> fits 64 (o_PaymentID ord) \<and>
     in_range 90 (o_DeliveryLat ord) \<and> in_range 180 (o_DeliveryLon ord) \<and>
     numeric_fits 6 (o_Subtotal ord) \<and> numeric_fits 3 (o_DeliveryFee ord) \<and>
     numeric_fits 6 (o_Total ord) \<and>
     0 \<le> o_Subtotal ord \<and> 0 \<le> o_DeliveryFee ord \<and> 0 \<le> o_Total ord \<and>
     o_Total ord = o_Subtotal ord + o_DeliveryFee ord"

definition order_item_row_ok :: "'d::linordered_idom OrderItem \<Rightarrow> bool" where
  "order_item_row_ok it \<longleftrightarrow> fits 128 (Some (oi_PizzaName it)) \<and> 0 < sint (oi_Quantity it) \<and>
     numeric_fits 4 (oi_UnitPrice it) \<and> 0 \<le> oi_UnitPrice it \<and>
     numeric_fits 5 (oi_TotalPrice it) \<and> 0 \<le> oi_TotalPrice it"

definition restaurant_row_ok :: "'d::linordered_idom Restaurant \<Rightarrow> bool" where
  "restaurant_row_ok r \<longleftrightarrow> fits 128 (Some (r_Name r)) \<and> fits 255 (Some (r_OwnerEmail r)) \<and>
     in_range 90 (Some (r_Lat r)) \<and> in_range 180 (Some (r_Lon r)) \<and>
     (case r_DeliveryKm r of None \<Rightarrow> True | Some km \<Rightarrow> 1 \<le> sint km \<and> sint km \<le> 25) \<and>
     numeric_fits 3 (r_DeliveryFee r) \<and> 0 \<le> r_DeliveryFee r \<and>
     numeric_fits 4 (r_MinimumOrder r) \<and> 0 \<le> r_MinimumOrder r \<and>
     r_DeliveryType r \<in> {''own'', ''external'', ''none''} \<and> fits 3 (Some (r_Currency r))"

definition pizza_row_ok :: "Pizza \<Rightarrow> bool" where
  "pizza_row_ok p \<longleftrightarrow> fits 255 (Some (pz_Name p)) \<and>
     pz_Status p \<in> {''available'', ''unavailable'', ''archived''}"

definition price_row_ok :: "'d::linordered_idom PizzaPrice \<Rightarrow> bool" where
  "price_row_ok p \<longleftrightarrow> numeric_fits 4 (pp_Price p) \<and> 0 \<le> pp_Price p"

definition topping_row_ok :: "'d::linordered_idom ToppingPrice \<Rightarrow> bool" where
  "topping_row_ok p \<longleftrightarrow> fits 255 (Some (tp_Name p)) \<and> numeric_fits 4 (tp_ExtraPrice p) \<and>
     0 \<le> tp_ExtraPrice p"

subsection \<open>Carts\<close>

definition preload_cart :: "'d db \<Rightarrow> Cart \<Rightarrow> Cart" where
  "preload_cart s c = c\<lparr> c_Items := filter (\<lambda>i. ci_CartID i = c_ID c) (t_cart_items s) \<rparr>"

definition Cart_FindByCustomer :: "env \<Rightarrow> uuid \<Rightarrow> 'd db \<Rightarrow> (order_err, Cart option) result" where
  "Cart_FindByCustomer E customerID s =
     io (fault E) CartFindByCustomer
       (Inr (map_option (preload_cart s) (find_row c_CustomerID customerID (t_carts s))))"

definition Cart_Create :: "env \<Rightarrow> Cart \<Rightarrow> ('d db, order_err, unit) op" where
  "Cart_Create E c s =
     (if fault E CartCreate \<or> find_row c_ID (c_ID c) (t_carts s) \<noteq> None \<or>
         find_row c_CustomerID (c_CustomerID c) (t_carts s) \<noteq> None
      then (Inl [], s)
      else (Inr (), s\<lparr> t_carts := t_carts s @ [c\<lparr> c_Items := [], c_CreatedAt := clock E \<rparr>] \<rparr>))"

text \<open>The columns of the unique index \<open>uq_cart_items_cart_pizza_size_extra_toppings\<close>.\<close>

definition line_key :: "CartItem \<Rightarrow> uuid \<times> uuid \<times> uuid \<times> uuid list" where
  "line_key i = (ci_CartID i, ci_PizzaID i, ci_SizeID i, ci_ExtraToppingIDs i)"

text \<open>
  \<open>INSERT ... ON CONFLICT (cart_id, pizza_id, size_id, extra_toppings) DO UPDATE SET quantity =
  cart_items.quantity + excluded.quantity\<close>. The sum is a SMALLINT: the server refuses one that does
  not fit rather than let it wrap.
\<close>

definition Cart_AddOrMergeItem ::
  "env \<Rightarrow> uuid \<Rightarrow> CartItem \<Rightarrow> ('d db, order_err, unit) op" where
  "Cart_AddOrMergeItem E cartID item0 s =
     (let item = item0\<lparr> ci_CartID := cartID \<rparr> in
      if fault E CartAddOrMergeItem \<or> sint (ci_Quantity item) \<le> 0 then (Inl [], s)
      else case find_row line_key (line_key item) (t_cart_items s) of
        Some old \<Rightarrow>
          if sint (ci_Quantity old) + sint (ci_Quantity item) > 32767 then (Inl [], s)
          else (Inr (), s\<lparr> t_cart_items := update_where (\<lambda>i. line_key i = line_key item)
                 (\<lambda>i. i\<lparr> ci_Quantity := ci_Quantity i + ci_Quantity item \<rparr>) (t_cart_items s) \<rparr>)
      | None \<Rightarrow>
          if find_row ci_ID (ci_ID item) (t_cart_items s) \<noteq> None \<or>
             find_row c_ID cartID (t_carts s) = None
          then (Inl [], s)
          else (Inr (), s\<lparr> t_cart_items := t_cart_items s @ [item] \<rparr>))"

definition Cart_UpdateItemQuantity ::
  "env \<Rightarrow> uuid \<Rightarrow> uuid \<Rightarrow> int16 \<Rightarrow> ('d db, order_err, unit) op" where
  "Cart_UpdateItemQuantity E cartID itemID quantity s =
     (let P = (\<lambda>i. ci_ID i = itemID \<and> ci_CartID i = cartID) in
      if fault E CartUpdateItemQuantity then (Inl [], s)
      else if rows_affected P (t_cart_items s) = 0 then (Inl [App ErrNotFound], s)
      else if sint quantity \<le> 0 then (Inl [], s)
      else (Inr (), s\<lparr> t_cart_items :=
             update_where P (\<lambda>i. i\<lparr> ci_Quantity := quantity \<rparr>) (t_cart_items s) \<rparr>))"

text \<open>\<open>DELETE FROM carts WHERE id = ?\<close> takes the lines along (\<open>ON DELETE CASCADE\<close>).\<close>

definition delete_cart :: "uuid \<Rightarrow> 'd db \<Rightarrow> 'd db" where
  "delete_cart cartID s =
     s\<lparr> t_carts := delete_where (\<lambda>c. c_ID c = cartID) (t_carts s),
        t_cart_items := delete_where (\<lambda>i. ci_CartID i = cartID) (t_cart_items s) \<rparr>"

definition Cart_Clear :: "env \<Rightarrow> uuid \<Rightarrow> ('d db, order_err, unit) op" where
  "Cart_Clear E cartID s =
     (if fault E CartDelete then (Inl [], s) else (Inr (), delete_cart cartID s))"

definition Cart_DeleteItem :: "env \<Rightarrow> uuid \<Rightarrow> uuid \<Rightarrow> ('d db, order_err, unit) op" where
  "Cart_DeleteItem E cartID itemID s =
     (let P = (\<lambda>i. ci_ID i = itemID \<and> ci_CartID i = cartID) in
      if fault E CartItemDelete then (Inl [], s)
      else if rows_affected P (t_cart_items s) = 0 then (Inl [App ErrNotFound], s)
      else (Inr (), s\<lparr> t_cart_items := delete_where P (t_cart_items s) \<rparr>))"

definition Cart_RemoveItem ::
  "env \<Rightarrow> uuid \<Rightarrow> uuid \<Rightarrow> ('d db, order_err, unit) op" where
  "Cart_RemoveItem E cartID itemID = transaction (fault E) TxCommit
     (bind (Cart_DeleteItem E cartID itemID) (\<lambda>_.
      bind (query (\<lambda>s. io (fault E) CartItemCount
              (Inr (rows_affected (\<lambda>i. ci_CartID i = cartID) (t_cart_items s))))) (\<lambda>remaining.
      if remaining = 0 then Cart_Clear E cartID else ret ())))"

subsection \<open>Orders\<close>

definition preload_order :: "'d db \<Rightarrow> 'd Order \<Rightarrow> 'd Order" where
  "preload_order s ord =
     ord\<lparr> o_Items := filter (\<lambda>i. oi_OrderID i = o_ID ord) (t_order_items s) \<rparr>"

definition stored :: "'d Order \<Rightarrow> 'd Order" where
  "stored ord = ord\<lparr> o_Items := [], o_events := [] \<rparr>"

definition payment_id_free :: "'d db \<Rightarrow> 'd Order \<Rightarrow> bool" where
  "payment_id_free s ord \<longleftrightarrow> (o_PaymentID ord = None \<or>
     (\<forall>x \<in> set (t_orders s). o_PaymentID x = o_PaymentID ord \<longrightarrow> o_ID x = o_ID ord))"

text \<open>
  \<open>Create\<close> inserts the order and its lines in one transaction of gorm, and sets \<open>PlacedAt\<close>
  (\<open>autoCreateTime\<close>) and the lines' \<open>OrderID\<close> in the caller's object.
\<close>

definition Order_Create ::
  "env \<Rightarrow> 'd::linordered_idom Order \<Rightarrow> ('d db, order_err, 'd Order) op" where
  "Order_Create E ord0 s =
     (let items = List.map (\<lambda>i. i\<lparr> oi_OrderID := o_ID ord0 \<rparr>) (o_Items ord0);
          ord = ord0\<lparr> o_Items := items,
            o_PlacedAt := (if o_PlacedAt ord0 = zero_time then clock E else o_PlacedAt ord0) \<rparr> in
      if fault E OrderCreate \<or> find_row o_ID (o_ID ord) (t_orders s) \<noteq> None \<or>
         \<not> order_row_ok s ord \<or> \<not> payment_id_free s ord \<or> \<not> list_all order_item_row_ok items \<or>
         \<not> distinct (List.map oi_ID (t_order_items s @ items))
      then (Inl [], s)
      else (Inr ord, s\<lparr> t_orders := t_orders s @ [stored ord],
                        t_order_items := t_order_items s @ items \<rparr>))"

text \<open>
  \<open>Update\<close> is gorm's \<open>Save\<close>: it writes every column of the order, and inserts the row when there
  is none with its key. The lines are left alone (\<open>Omit(clause.Associations)\<close>).
\<close>

definition save_order :: "'d Order \<Rightarrow> 'd Order list \<Rightarrow> 'd Order list" where
  "save_order ord tbl =
     (if find_row o_ID (o_ID ord) tbl = None then tbl @ [stored ord]
      else update_where (\<lambda>x. o_ID x = o_ID ord) (\<lambda>_. stored ord) tbl)"

definition Order_Update ::
  "env \<Rightarrow> 'd::linordered_idom Order \<Rightarrow> ('d db, order_err, unit) op" where
  "Order_Update E ord s =
     (if fault E OrderUpdate \<or> \<not> order_row_ok s ord \<or> \<not> payment_id_free s ord then (Inl [], s)
      else (Inr (), s\<lparr> t_orders := save_order ord (t_orders s) \<rparr>))"

definition find_order :: "env \<Rightarrow> ('d Order \<Rightarrow> bool) \<Rightarrow> 'd db \<Rightarrow> (order_err, 'd Order) result" where
  "find_order E P s = io (fault E) OrderFind
     (case List.find P (t_orders s) of
        None \<Rightarrow> Inl [App ErrNotFound]
      | Some ord \<Rightarrow> Inr (preload_order s ord))"

definition Order_FindByID :: "env \<Rightarrow> uuid \<Rightarrow> 'd db \<Rightarrow> (order_err, 'd Order) result" where
  "Order_FindByID E ident = find_order E (\<lambda>ord. o_ID ord = ident)"

definition Order_FindByIDAndCustomer ::
  "env \<Rightarrow> uuid \<Rightarrow> uuid \<Rightarrow> 'd db \<Rightarrow> (order_err, 'd Order) result" where
  "Order_FindByIDAndCustomer E ident customerID =
     find_order E (\<lambda>ord. o_ID ord = ident \<and> o_CustomerID ord = customerID)"

definition owned_by :: "'d db \<Rightarrow> uuid \<Rightarrow> 'd Order \<Rightarrow> bool" where
  "owned_by s ownerID ord \<longleftrightarrow>
     (\<exists>r \<in> set (t_restaurants s). r_ID r = o_RestaurantID ord \<and> r_OwnerID r = ownerID)"

definition Order_FindByIDAndRestaurantOwner ::
  "env \<Rightarrow> uuid \<Rightarrow> uuid \<Rightarrow> 'd db \<Rightarrow> (order_err, 'd Order) result" where
  "Order_FindByIDAndRestaurantOwner E ident ownerID s =
     find_order E (\<lambda>ord. o_ID ord = ident \<and> owned_by s ownerID ord) s"

record PageCursor =
  pc_PlacedAt :: time
  pc_ID :: uuid

definition position :: "'d Order \<Rightarrow> time \<times> uuid" where
  "position ord = (o_PlacedAt ord, o_ID ord)"

text \<open>\<open>WHERE (placed_at, id) < (?, ?) ORDER BY placed_at DESC, id DESC LIMIT ?\<close>.\<close>

definition page ::
  "('d Order \<Rightarrow> bool) \<Rightarrow> PageCursor option \<Rightarrow> nat \<Rightarrow> 'd Order list \<Rightarrow> 'd Order list" where
  "page P after limit tbl =
     take limit (rev (sort_key position (filter (\<lambda>ord. P ord \<and>
       (case after of None \<Rightarrow> True | Some c \<Rightarrow> position ord < (pc_PlacedAt c, pc_ID c))) tbl)))"

definition Order_ListByCustomer ::
  "env \<Rightarrow> uuid \<Rightarrow> PageCursor option \<Rightarrow> nat \<Rightarrow> 'd db \<Rightarrow> (order_err, 'd Order list) result" where
  "Order_ListByCustomer E customerID after limit s =
     io (fault E) OrderList (Inr (List.map (preload_order s)
       (page (\<lambda>ord. o_CustomerID ord = customerID) after limit (t_orders s))))"

definition Order_ListByRestaurant ::
  "env \<Rightarrow> uuid \<Rightarrow> uuid \<Rightarrow> PageCursor option \<Rightarrow> nat \<Rightarrow> 'd db \<Rightarrow> (order_err, 'd Order list) result" where
  "Order_ListByRestaurant E restaurantID ownerID after limit s =
     io (fault E) OrderList (Inr (List.map (preload_order s)
       (page (\<lambda>ord. o_RestaurantID ord = restaurantID \<and> owned_by s ownerID ord) after limit
         (t_orders s))))"

end
