(* ===== verification/Readmodel_Store.thy ===== *)
theory Readmodel_Store
  imports Order_Store
begin

text \<open>
  The repositories of the read models order-service keeps of customers, restaurants, pizzas, prices
  and toppings, and of the geocode cache. Restaurants, pizzas and prices are written by upserts that
  only a newer \<open>updated_at\<close> gets through; each of the four is an instance of the interface
  \<open>versioned_rows\<close>. The default of a column replaces a zero value of its field, as gorm does.
\<close>

subsection \<open>Customers\<close>

definition Customer_FindByID :: "env \<Rightarrow> uuid \<Rightarrow> 'd db \<Rightarrow> (order_err, Customer) result" where
  "Customer_FindByID E ident s = io (fault E) CustomerFindByID
     (case find_row cu_ID ident (t_customers s) of None \<Rightarrow> Inl [App ErrNotFound] | Some c \<Rightarrow> Inr c)"

definition Customer_Upsert :: "env \<Rightarrow> Customer \<Rightarrow> ('d db, order_err, unit) op" where
  "Customer_Upsert E c s =
     (if fault E CustomerUpsert \<or> \<not> (fits 255 (Some (cu_Email c)) \<and> fits 128 (Some (cu_FirstName c))
          \<and> fits 32 (cu_Phone c))
      then (Inl [], s)
      else (Inr (), s\<lparr> t_customers := insert_ignore cu_ID c (t_customers s) \<rparr>))"

definition Customer_UpdatePhone ::
  "env \<Rightarrow> uuid \<Rightarrow> string \<Rightarrow> ('d db, order_err, unit) op" where
  "Customer_UpdatePhone E ident phone s =
     (if fault E CustomerUpdatePhone \<or>
         rows_affected (\<lambda>c. cu_ID c = ident) (t_customers s) \<noteq> 0 \<and> \<not> fits 32 (Some phone)
      then (Inl [], s)
      else (Inr (), s\<lparr> t_customers := update_where (\<lambda>c. cu_ID c = ident)
              (\<lambda>c. c\<lparr> cu_Phone := Some phone \<rparr>) (t_customers s) \<rparr>))"

subsection \<open>Restaurants\<close>

definition Restaurant_FindByID :: "env \<Rightarrow> uuid \<Rightarrow> 'd db \<Rightarrow> (order_err, 'd Restaurant) result" where
  "Restaurant_FindByID E ident s = io (fault E) RestaurantFindByID
     (case find_row r_ID ident (t_restaurants s) of None \<Rightarrow> Inl [App ErrNotFound] | Some r \<Rightarrow> Inr r)"

definition with_default :: "string \<Rightarrow> string \<Rightarrow> string" where
  "with_default d v = (if v = '''' then d else v)"

text \<open>
  A zero \<open>updated_at\<close>, which restaurant-service never sends, is stored as it is; gorm would put the current time in its
  place.
\<close>

definition put_restaurant :: "'d Restaurant \<Rightarrow> 'd db \<Rightarrow> 'd db" where
  "put_restaurant r s = s\<lparr> t_restaurants := upsert_newer r_ID r_UpdatedAt r (t_restaurants s) \<rparr>"

definition Restaurant_Upsert ::
  "env \<Rightarrow> 'd::linordered_idom Restaurant \<Rightarrow> ('d db, order_err, unit) op" where
  "Restaurant_Upsert E r0 s =
     (let r = r0\<lparr> r_DeliveryType := with_default ''none'' (r_DeliveryType r0),
                  r_Currency := with_default ''EUR'' (r_Currency r0) \<rparr> in
      if fault E RestaurantUpsert \<or> \<not> restaurant_row_ok r then (Inl [], s)
      else (Inr (), put_restaurant r s))"

subsection \<open>Pizzas\<close>

definition Pizza_FindByID :: "env \<Rightarrow> nat \<Rightarrow> uuid \<Rightarrow> 'd db \<Rightarrow> (order_err, Pizza) result" where
  "Pizza_FindByID E n ident s = io (fault E) (PizzaFindByID n)
     (case find_row pz_ID ident (t_pizzas s) of None \<Rightarrow> Inl [App ErrNotFound] | Some p \<Rightarrow> Inr p)"

definition put_pizza :: "Pizza \<Rightarrow> 'd db \<Rightarrow> 'd db" where
  "put_pizza p s = s\<lparr> t_pizzas := upsert_newer pz_ID pz_UpdatedAt p (t_pizzas s) \<rparr>"

text \<open>The foreign key is looked at only when a row is written.\<close>

definition would_write :: "('r \<Rightarrow> 'k) \<Rightarrow> ('r \<Rightarrow> time) \<Rightarrow> 'r \<Rightarrow> 'r list \<Rightarrow> bool" where
  "would_write key ts r tbl = (case find_row key (key r) tbl of None \<Rightarrow> True | Some old \<Rightarrow> ts old < ts r)"

definition Pizza_Upsert :: "env \<Rightarrow> nat \<Rightarrow> Pizza \<Rightarrow> ('d db, order_err, unit) op" where
  "Pizza_Upsert E n p0 s =
     (let p = p0\<lparr> pz_Status := with_default ''available'' (pz_Status p0) \<rparr> in
      if fault E (PizzaUpsert n) \<or> \<not> pizza_row_ok p \<or>
         would_write pz_ID pz_UpdatedAt p (t_pizzas s) \<and>
           find_row r_ID (pz_RestaurantID p) (t_restaurants s) = None
      then (Inl [], s)
      else (Inr (), put_pizza p s))"

text \<open>\<open>Delete\<close> removes a pizza whose row is older than the event, and its prices with it.\<close>

definition Pizza_Delete :: "env \<Rightarrow> uuid \<Rightarrow> time \<Rightarrow> ('d db, order_err, unit) op" where
  "Pizza_Delete E ident updatedAt s =
     (if fault E PizzaDelete then (Inl [], s)
      else if \<exists>p \<in> set (t_pizzas s). pz_ID p = ident \<and> pz_UpdatedAt p < updatedAt
      then (Inr (), s\<lparr> t_pizzas := delete_where (\<lambda>p. pz_ID p = ident \<and> pz_UpdatedAt p < updatedAt) (t_pizzas s),
                       t_pizza_prices := delete_where (\<lambda>p. pp_PizzaID p = ident) (t_pizza_prices s) \<rparr>)
      else (Inr (), s))"

subsection \<open>Prices and toppings\<close>

definition Price_ListByPizza ::
  "env \<Rightarrow> nat \<Rightarrow> uuid \<Rightarrow> 'd db \<Rightarrow> (order_err, 'd PizzaPrice list) result" where
  "Price_ListByPizza E n pizzaID s = io (fault E) (PriceListByPizza n)
     (Inr (filter (\<lambda>p. pp_PizzaID p = pizzaID) (t_pizza_prices s)))"

definition price_key :: "'d PizzaPrice \<Rightarrow> uuid \<times> uuid" where
  "price_key p = (pp_PizzaID p, pp_SizeID p)"

definition put_price :: "'d PizzaPrice \<Rightarrow> 'd db \<Rightarrow> 'd db" where
  "put_price p s = s\<lparr> t_pizza_prices := upsert_newer price_key pp_UpdatedAt p (t_pizza_prices s) \<rparr>"

definition Price_Upsert ::
  "env \<Rightarrow> nat \<Rightarrow> nat \<Rightarrow> 'd::linordered_idom PizzaPrice \<Rightarrow> ('d db, order_err, unit) op" where
  "Price_Upsert E n m p s =
     (if fault E (PriceUpsert n m) \<or> \<not> price_row_ok p \<or>
         would_write price_key pp_UpdatedAt p (t_pizza_prices s) \<and>
           find_row pz_ID (pp_PizzaID p) (t_pizzas s) = None
      then (Inl [], s)
      else (Inr (), put_price p s))"

definition Topping_ListByRestaurant ::
  "env \<Rightarrow> uuid \<Rightarrow> 'd db \<Rightarrow> (order_err, 'd ToppingPrice list) result" where
  "Topping_ListByRestaurant E restaurantID s = io (fault E) ToppingListByRestaurant
     (Inr (filter (\<lambda>p. tp_RestaurantID p = restaurantID) (t_topping_prices s)))"

definition topping_key :: "'d ToppingPrice \<Rightarrow> uuid \<times> uuid" where
  "topping_key p = (tp_RestaurantID p, tp_ToppingID p)"

definition put_topping :: "'d ToppingPrice \<Rightarrow> 'd db \<Rightarrow> 'd db" where
  "put_topping p s =
     s\<lparr> t_topping_prices := upsert_newer topping_key tp_UpdatedAt p (t_topping_prices s) \<rparr>"

definition Topping_Upsert ::
  "env \<Rightarrow> nat \<Rightarrow> 'd::linordered_idom ToppingPrice \<Rightarrow> ('d db, order_err, unit) op" where
  "Topping_Upsert E n p s =
     (if fault E (ToppingUpsert n) \<or> \<not> topping_row_ok p \<or>
         would_write topping_key tp_UpdatedAt p (t_topping_prices s) \<and>
           find_row r_ID (tp_RestaurantID p) (t_restaurants s) = None
      then (Inl [], s)
      else (Inr (), put_topping p s))"

subsection \<open>The geocode cache\<close>

definition Geocode_FindByHash :: "env \<Rightarrow> string \<Rightarrow> 'd db \<Rightarrow> (order_err, GeocodeEntry option) result" where
  "Geocode_FindByHash E h s = io (fault E) GeocodeFind (Inr (find_row g_AddressHash h (t_geocode s)))"

definition Geocode_Create :: "env \<Rightarrow> GeocodeEntry \<Rightarrow> ('d db, order_err, unit) op" where
  "Geocode_Create E g s =
     (if fault E GeocodeCreate \<or> \<not> in_range 90 (Some (g_Lat g)) \<or> \<not> in_range 180 (Some (g_Lon g))
      then (Inl [], s)
      else (Inr (), s\<lparr> t_geocode := insert_ignore g_AddressHash g (t_geocode s) \<rparr>))"

subsection \<open>The versioned tables\<close>

interpretation restaurant_rows: versioned_rows
  "\<lambda>(s::'d db) k. find_row r_ID k (t_restaurants s)" put_restaurant r_ID r_UpdatedAt
  by unfold_locales (simp add: put_restaurant_def find_row_upsert_newer)

interpretation pizza_rows: versioned_rows
  "\<lambda>(s::'d db) k. find_row pz_ID k (t_pizzas s)" put_pizza pz_ID pz_UpdatedAt
  by unfold_locales (simp add: put_pizza_def find_row_upsert_newer)

interpretation price_rows: versioned_rows
  "\<lambda>(s::'d db) k. find_row price_key k (t_pizza_prices s)" put_price price_key pp_UpdatedAt
  by unfold_locales (simp add: put_price_def find_row_upsert_newer)

interpretation topping_rows: versioned_rows
  "\<lambda>(s::'d db) k. find_row topping_key k (t_topping_prices s)" put_topping topping_key tp_UpdatedAt
  by unfold_locales (simp add: put_topping_def find_row_upsert_newer)

end
