(* ===== verification/Sample.thy ===== *)
theory Sample
  imports Prelude
begin

text \<open>
  A concrete instance of the text codecs, for the witnesses of theorems that assume one: numbers in
  binary, least significant digit first, with a sign.
\<close>

fun nat_bin :: "nat \<Rightarrow> string" where
  "nat_bin n = (if n = 0 then '''' else (if odd n then CHR ''1'' else CHR ''0'') # nat_bin (n div 2))"

declare nat_bin.simps [simp del]

fun bin_nat :: "string \<Rightarrow> nat" where
  "bin_nat [] = 0"
| "bin_nat (c # cs) = (if c = CHR ''1'' then 1 else 0) + 2 * bin_nat cs"

lemma bin_nat_nat_bin [simp]: "bin_nat (nat_bin n) = n"
proof (induction n rule: nat_bin.induct)
  case (1 n)
  then show ?case
    by (cases "n = 0") (auto simp: nat_bin.simps [of n] nat_bin.simps [of 0] elim: oddE)
qed

definition int_bin :: "int \<Rightarrow> string" where
  "int_bin i = (if i < 0 then CHR ''-'' else CHR ''+'') # nat_bin (nat \<bar>i\<bar>)"

fun bin_int :: "string \<Rightarrow> int option" where
  "bin_int [] = None"
| "bin_int (c # cs) = Some (if c = CHR ''-'' then - int (bin_nat cs) else int (bin_nat cs))"

lemma bin_int_int_bin [simp]: "bin_int (int_bin i) = Some i"
  by (simp add: int_bin_def)

definition sample_lib :: "int lib" where
  "sample_lib = \<lparr> uuidString = (\<lambda>u. nat_bin (unat u)), uuidParse = (\<lambda>s. Some (of_nat (bin_nat s))),
     StringFixed2 = int_bin, NewFromString = bin_int, timeFormat = int_bin, timeParse = bin_int \<rparr>"

lemma sample_StringFixed2 [simp]: "NewFromString sample_lib (StringFixed2 sample_lib d) = Some d"
  by (simp add: sample_lib_def)

lemma sample_codecs [simp]:
  "uuid_codec sample_lib" "time_codec sample_lib"
  by (simp_all add: sample_lib_def uuid_codec_def time_codec_def)

end
