(* ===== verification/Cart.thy ===== *)
theory Cart
  imports Readmodel_Store Sample
begin

text \<open>
  The shopping cart of order-service: \<open>internal/domain/cart\<close>, the commands \<open>AddItem\<close>,
  \<open>UpdateItemQuantity\<close>, \<open>RemoveItem\<close> and the query \<open>GetCart\<close> (\<open>internal/application/cart\<close>).
  Inputs are those the HTTP binding lets through. A command is a function of its environment, its
  arguments and the database; \<open>fmt.Errorf("...: %w", err)\<close> keeps the error chain.
\<close>

subsection \<open>Domain\<close>

definition NewCart :: "uuid \<Rightarrow> uuid \<Rightarrow> uuid \<Rightarrow> Cart" where
  "NewCart ident customerID restaurantID =
   \<lparr> c_ID = ident, c_CustomerID = customerID, c_RestaurantID = restaurantID, c_Items = [],
     c_CreatedAt = zero_time \<rparr>"

definition EnsureRestaurant :: "Cart \<Rightarrow> uuid \<Rightarrow> (order_err, unit) result" where
  "EnsureRestaurant c restaurantID =
     (if c_RestaurantID c \<noteq> restaurantID then Inl [ErrCartRestaurantMismatch] else Inr ())"

text \<open>The toppings are kept in the order of their text form, so that equal choices are equal rows.\<close>

definition NewCartItem ::
  "'d lib \<Rightarrow> uuid \<Rightarrow> uuid \<Rightarrow> uuid \<Rightarrow> int16 \<Rightarrow> uuid list \<Rightarrow> CartItem" where
  "NewCartItem L ident pizzaID sizeID quantity extraToppingIDs =
   \<lparr> ci_ID = ident, ci_CartID = 0, ci_PizzaID = pizzaID, ci_SizeID = sizeID, ci_Quantity = quantity,
     ci_ExtraToppingIDs = sort_key (uuidString L) extraToppingIDs \<rparr>"

subsection \<open>Commands\<close>

record AddItemRequest =
  air_PizzaID :: uuid
  air_SizeID :: uuid
  air_Quantity :: int16
  air_ExtraToppingIDs :: "uuid list"

record AddItemResponse =
  ais_PizzaID :: uuid
  ais_SizeID :: uuid
  ais_Quantity :: int16
  ais_ExtraToppingIDs :: "uuid list"

definition find_price :: "uuid \<Rightarrow> 'd PizzaPrice list \<Rightarrow> 'd PizzaPrice option" where
  "find_price sizeID prices = List.find (\<lambda>p. pp_SizeID p = sizeID \<and> pp_IsActive p) prices"

definition AddItem_toppings ::
  "env \<Rightarrow> uuid \<Rightarrow> uuid list \<Rightarrow> 'd db \<Rightarrow> (order_err, unit) result" where
  "AddItem_toppings E restaurantID ids s =
     (if length ids > 0 then
        case Topping_ListByRestaurant E restaurantID s of
          Inl e \<Rightarrow> Inl e
        | Inr tps \<Rightarrow>
            if \<exists>t \<in> set ids. t \<notin> tp_ToppingID ` set tps then Inl [App ErrNotFound] else Inr ()
      else Inr ())"

text \<open>The cart the item goes into, the customer's or a new one, and the calls of \<open>NewV7\<close> made.\<close>

definition AddItem_cart :: "env \<Rightarrow> uuid \<Rightarrow> uuid \<Rightarrow> ('d db, order_err, uuid \<times> nat) op" where
  "AddItem_cart E customerID restaurantID =
     bind (query (Cart_FindByCustomer E customerID)) (\<lambda>existingCart.
     case existingCart of
       None \<Rightarrow>
         (case newV7 E 0 of
            None \<Rightarrow> fail []
          | Some ident \<Rightarrow>
              bind (Cart_Create E (NewCart ident customerID restaurantID)) (\<lambda>_. ret (ident, 1)))
     | Some c \<Rightarrow>
         bind (query (\<lambda>_. EnsureRestaurant c restaurantID)) (\<lambda>_. ret (c_ID c, 0)))"

definition AddItem_Execute ::
  "'d lib \<Rightarrow> env \<Rightarrow> uuid \<Rightarrow> AddItemRequest \<Rightarrow> ('d db, order_err, AddItemResponse) op" where
  "AddItem_Execute L E customerID input =
     bind (query (Pizza_FindByID E 0 (air_PizzaID input))) (\<lambda>pizza.
     bind (query (Price_ListByPizza E 0 (air_PizzaID input))) (\<lambda>prices.
     bind (ensure (find_price (air_SizeID input) prices \<noteq> None) [App ErrNotFound]) (\<lambda>_.
     bind (query (AddItem_toppings E (pz_RestaurantID pizza) (air_ExtraToppingIDs input))) (\<lambda>_.
     bind (AddItem_cart E customerID (pz_RestaurantID pizza)) (\<lambda>(cartID, n).
     case newV7 E n of
       None \<Rightarrow> fail []
     | Some itemID \<Rightarrow>
         let item = NewCartItem L itemID (air_PizzaID input) (air_SizeID input)
                      (air_Quantity input) (air_ExtraToppingIDs input) in
         bind (Cart_AddOrMergeItem E cartID item) (\<lambda>_.
         ret \<lparr> ais_PizzaID = ci_PizzaID item, ais_SizeID = ci_SizeID item,
               ais_Quantity = ci_Quantity item,
               ais_ExtraToppingIDs = ci_ExtraToppingIDs item \<rparr>))))))"

definition UpdateItemQuantity_Execute ::
  "env \<Rightarrow> uuid \<Rightarrow> uuid \<Rightarrow> int16 \<Rightarrow> ('d db, order_err, uuid \<times> int16) op" where
  "UpdateItemQuantity_Execute E customerID itemID quantity =
     bind (query (Cart_FindByCustomer E customerID)) (\<lambda>c.
     case c of
       None \<Rightarrow> fail [App ErrNotFound]
     | Some c \<Rightarrow>
         bind (Cart_UpdateItemQuantity E (c_ID c) itemID quantity) (\<lambda>_. ret (itemID, quantity)))"

definition RemoveItem_Execute :: "env \<Rightarrow> uuid \<Rightarrow> uuid \<Rightarrow> ('d db, order_err, unit) op" where
  "RemoveItem_Execute E customerID itemID =
     bind (query (Cart_FindByCustomer E customerID)) (\<lambda>c.
     case c of
       None \<Rightarrow> fail [App ErrNotFound]
     | Some c \<Rightarrow> Cart_RemoveItem E (c_ID c) itemID)"

subsection \<open>The query\<close>

record 'd CartToppingView =
  ctv_ToppingID :: uuid
  ctv_Name :: string
  ctv_ExtraPrice :: "'d option"

record 'd CartItemView =
  civ_ItemID :: uuid
  civ_PizzaID :: uuid
  civ_PizzaName :: string
  civ_SizeID :: uuid
  civ_DiameterCm :: int16
  civ_Quantity :: int16
  civ_ExtraToppings :: "'d CartToppingView list"
  civ_UnitPrice :: "'d option"
  civ_LineTotal :: "'d option"
  civ_Available :: bool

record 'd GetCartResponse =
  gcr_CartID :: uuid
  gcr_RestaurantID :: uuid
  gcr_Items :: "'d CartItemView list"
  gcr_Subtotal :: 'd

definition topping_map :: "'d ToppingPrice list \<Rightarrow> uuid \<Rightarrow> 'd ToppingPrice option" where
  "topping_map tps = fold (\<lambda>tp m. m(tp_ToppingID tp \<mapsto> tp)) tps Map.empty"

fun topping_views ::
  "(uuid \<Rightarrow> 'd::linordered_idom ToppingPrice option) \<Rightarrow> uuid list \<Rightarrow>
   bool \<times> 'd \<times> 'd CartToppingView list \<Rightarrow> bool \<times> 'd \<times> 'd CartToppingView list" where
  "topping_views tm [] acc = acc"
| "topping_views tm (t # ts) (available, unitPrice, views) =
     (case tm t of
        None \<Rightarrow> topping_views tm ts (False, unitPrice,
          views @ [\<lparr> ctv_ToppingID = t, ctv_Name = '''', ctv_ExtraPrice = None \<rparr>])
      | Some tp \<Rightarrow> topping_views tm ts (available, unitPrice + tp_ExtraPrice tp,
          views @ [\<lparr> ctv_ToppingID = t, ctv_Name = tp_Name tp, ctv_ExtraPrice = Some (tp_ExtraPrice tp) \<rparr>]))"

text \<open>\<open>decimal.NewFromInt(int64(q))\<close>.\<close>

definition quantity_of :: "int16 \<Rightarrow> 'd::linordered_idom" where
  "quantity_of q = of_int (sint q)"

definition finish_view ::
  "CartItem \<Rightarrow> string \<Rightarrow> int16 \<Rightarrow> bool \<times> 'd::linordered_idom \<times> 'd CartToppingView list \<Rightarrow>
   'd CartItemView \<times> 'd" where
  "finish_view item name diameter r =
     (case r of (available, unitPrice, views) \<Rightarrow>
        let lineTotal = unitPrice * quantity_of (ci_Quantity item) in
        (\<lparr> civ_ItemID = ci_ID item, civ_PizzaID = ci_PizzaID item, civ_PizzaName = name,
           civ_SizeID = ci_SizeID item, civ_DiameterCm = diameter, civ_Quantity = ci_Quantity item,
           civ_ExtraToppings = views,
           civ_UnitPrice = (if available then Some unitPrice else None),
           civ_LineTotal = (if available then Some lineTotal else None),
           civ_Available = available \<rparr>,
         if available then lineTotal else 0))"

definition resolveItemView ::
  "env \<Rightarrow> nat \<Rightarrow> CartItem \<Rightarrow> (uuid \<Rightarrow> 'd::linordered_idom ToppingPrice option) \<Rightarrow> 'd db \<Rightarrow>
   (order_err, 'd CartItemView \<times> 'd) result" where
  "resolveItemView E n item tm s =
     (let rest = (\<lambda>name diameter available unitPrice.
        Inr (finish_view item name diameter
          (topping_views tm (ci_ExtraToppingIDs item) (available, unitPrice, [])))) in
      case Pizza_FindByID E n (ci_PizzaID item) s of
        Inl e \<Rightarrow> if \<not> errors_is e (App ErrNotFound) then Inl e else rest '''' 0 False 0
      | Inr pizza \<Rightarrow>
        (case Price_ListByPizza E n (ci_PizzaID item) s of
           Inl e \<Rightarrow> Inl e
         | Inr prices \<Rightarrow>
           (case find_price (ci_SizeID item) prices of
              None \<Rightarrow> rest (pz_Name pizza) 0 False 0
            | Some p \<Rightarrow> rest (pz_Name pizza) (pp_DiameterCm p) True (pp_Price p))))"

fun cart_views ::
  "env \<Rightarrow> (uuid \<Rightarrow> 'd::linordered_idom ToppingPrice option) \<Rightarrow> 'd db \<Rightarrow> nat \<Rightarrow> CartItem list \<Rightarrow>
   'd CartItemView list \<Rightarrow> 'd \<Rightarrow> (order_err, 'd CartItemView list \<times> 'd) result" where
  "cart_views E tm s n [] views subtotal = Inr (views, subtotal)"
| "cart_views E tm s n (item # items) views subtotal =
     (case resolveItemView E n item tm s of
        Inl e \<Rightarrow> Inl e
      | Inr (view, lineTotal) \<Rightarrow>
          cart_views E tm s (Suc n) items (views @ [view]) (subtotal + lineTotal))"

definition GetCart_Execute ::
  "env \<Rightarrow> uuid \<Rightarrow> 'd::linordered_idom db \<Rightarrow> (order_err, 'd GetCartResponse) result" where
  "GetCart_Execute E customerID s =
     (case Cart_FindByCustomer E customerID s of
        Inl e \<Rightarrow> Inl e
      | Inr None \<Rightarrow> Inr \<lparr> gcr_CartID = 0, gcr_RestaurantID = 0, gcr_Items = [], gcr_Subtotal = 0 \<rparr>
      | Inr (Some c) \<Rightarrow>
          (case Topping_ListByRestaurant E (c_RestaurantID c) s of
             Inl e \<Rightarrow> Inl e
           | Inr tps \<Rightarrow>
             (case cart_views E (topping_map tps) s 0 (c_Items c) [] 0 of
                Inl e \<Rightarrow> Inl e
              | Inr (views, subtotal) \<Rightarrow>
                  Inr \<lparr> gcr_CartID = c_ID c, gcr_RestaurantID = c_RestaurantID c,
                        gcr_Items = views, gcr_Subtotal = subtotal \<rparr>)))"

subsection \<open>The cart tables' invariant\<close>

definition cart_inv :: "'d db \<Rightarrow> bool" where
  "cart_inv s \<longleftrightarrow>
     distinct (List.map c_ID (t_carts s)) \<and> distinct (List.map c_CustomerID (t_carts s)) \<and>
     distinct (List.map ci_ID (t_cart_items s)) \<and> distinct (List.map line_key (t_cart_items s)) \<and>
     (\<forall>i \<in> set (t_cart_items s). 0 < sint (ci_Quantity i) \<and>
        find_row c_ID (ci_CartID i) (t_carts s) \<noteq> None)"

text \<open>The quantity stored for a line, and the cart of a customer.\<close>

definition line_quantity :: "'d db \<Rightarrow> uuid \<times> uuid \<times> uuid \<times> uuid list \<Rightarrow> int" where
  "line_quantity s k =
     (case find_row line_key k (t_cart_items s) of None \<Rightarrow> 0 | Some i \<Rightarrow> sint (ci_Quantity i))"

definition cart_of :: "'d db \<Rightarrow> uuid \<Rightarrow> Cart option" where
  "cart_of s customerID = find_row c_CustomerID customerID (t_carts s)"

lemma distinct_filter_map: "distinct (List.map f xs) \<Longrightarrow> distinct (List.map f (filter P xs))"
  by (induction xs) auto

lemma sint_add_int16:
  fixes a b :: int16
  assumes "0 < sint a" "0 < sint b" "sint a + sint b \<le> 32767"
  shows "sint (a + b) = sint a + sint b"
  using assms by (simp add: sint_word_ariths(1) signed_take_bit_int_eq_self)

lemma line_key_quantity [simp]: "line_key (i\<lparr> ci_Quantity := q \<rparr>) = line_key i"
  by (simp add: line_key_def)

lemma Cart_Create_inv:
  "cart_inv s \<Longrightarrow> cart_inv (snd (Cart_Create E c s))"
  by (auto simp: Cart_Create_def cart_inv_def find_row_None)

lemma AddOrMergeItem_Inl: "Cart_AddOrMergeItem E cartID item s = (Inl e, s') \<Longrightarrow> s' = s"
  by (auto simp: Cart_AddOrMergeItem_def Let_def split: if_splits option.splits)

text \<open>The two ways the upsert succeeds: a new row, or the quantity of the old one raised.\<close>

lemma AddOrMergeItem_Inr:
  assumes "Cart_AddOrMergeItem E cartID item s = (Inr u, s')"
  defines "it \<equiv> item\<lparr> ci_CartID := cartID \<rparr>"
  obtains
    (fresh) "0 < sint (ci_Quantity it)" "find_row line_key (line_key it) (t_cart_items s) = None"
      "find_row ci_ID (ci_ID it) (t_cart_items s) = None" "find_row c_ID cartID (t_carts s) \<noteq> None"
      "s' = s\<lparr> t_cart_items := t_cart_items s @ [it] \<rparr>"
  | (merged) old where "0 < sint (ci_Quantity it)"
      "find_row line_key (line_key it) (t_cart_items s) = Some old"
      "sint (ci_Quantity old) + sint (ci_Quantity it) \<le> 32767"
      "s' = s\<lparr> t_cart_items := update_where (\<lambda>i. line_key i = line_key it)
                 (\<lambda>i. i\<lparr> ci_Quantity := ci_Quantity i + ci_Quantity it \<rparr>) (t_cart_items s) \<rparr>"
proof (cases "find_row line_key (line_key it) (t_cart_items s)")
  case None
  show ?thesis
    by (rule fresh) (use assms None in \<open>simp_all add: Cart_AddOrMergeItem_def Let_def split: if_splits\<close>)
next
  case (Some old)
  show ?thesis
    by (rule merged) (use assms Some in \<open>auto simp: Cart_AddOrMergeItem_def Let_def split: if_splits\<close>)
qed

lemma line_unique:
  "cart_inv s \<Longrightarrow> i \<in> set (t_cart_items s) \<Longrightarrow>
    find_row line_key (line_key i) (t_cart_items s) = Some i"
  by (simp add: cart_inv_def find_row_distinct)

lemma AddOrMergeItem_inv:
  assumes inv: "cart_inv s" and step: "Cart_AddOrMergeItem E cartID item s = (Inr u, s')"
  shows "cart_inv s'"
  using step
proof (cases rule: AddOrMergeItem_Inr)
  case fresh
  then show ?thesis using inv by (auto simp: cart_inv_def find_row_None)
next
  case (merged old)
  let ?it = "item\<lparr> ci_CartID := cartID \<rparr>"
  let ?P = "\<lambda>i. line_key i = line_key ?it" and ?f = "\<lambda>i. i\<lparr> ci_Quantity := ci_Quantity i + ci_Quantity ?it \<rparr>"
  have "0 < sint (ci_Quantity i + ci_Quantity item)" if "i \<in> set (t_cart_items s)" "?P i" for i
  proof -
    have "i = old" using line_unique [OF inv that(1)] that(2) merged(2) by simp
    moreover have "0 < sint (ci_Quantity i)" using inv that by (simp add: cart_inv_def)
    ultimately show ?thesis using merged(1,3) by (simp add: sint_add_int16)
  qed
  then show ?thesis
    using inv merged(4) map_key_update [of ?P ci_ID ?f "t_cart_items s"]
      map_key_update [of ?P line_key ?f "t_cart_items s"]
    by (auto simp: cart_inv_def set_update_where)
qed

lemma AddOrMergeItem_keeps [keeps_intro]: "keeps cart_inv (Cart_AddOrMergeItem E cartID item)"
proof (rule keepsI)
  fix s :: "'d db" assume inv: "cart_inv s"
  obtain r s' where step: "Cart_AddOrMergeItem E cartID item s = (r, s')" by (cases "Cart_AddOrMergeItem E cartID item s")
  then show "cart_inv (snd (Cart_AddOrMergeItem E cartID item s))"
    by (cases r) (auto dest: AddOrMergeItem_Inl AddOrMergeItem_inv [OF inv] simp: inv)
qed

lemma Cart_Create_keeps [keeps_intro]: "keeps cart_inv (Cart_Create E c)"
  by (rule keepsI) (auto simp: Cart_Create_def cart_inv_def find_row_None)

lemma Cart_UpdateItemQuantity_keeps [keeps_intro]: "keeps cart_inv (Cart_UpdateItemQuantity E cartID itemID q)"
proof (rule keepsI)
  fix s :: "'d db" assume inv: "cart_inv s"
  let ?P = "\<lambda>i. ci_ID i = itemID \<and> ci_CartID i = cartID"
  show "cart_inv (snd (Cart_UpdateItemQuantity E cartID itemID q s))"
    using inv map_key_update [of ?P ci_ID "\<lambda>i. i\<lparr> ci_Quantity := q \<rparr>" "t_cart_items s"]
      map_key_update [of ?P line_key "\<lambda>i. i\<lparr> ci_Quantity := q \<rparr>" "t_cart_items s"]
    by (auto simp: Cart_UpdateItemQuantity_def Let_def cart_inv_def set_update_where)
qed

lemma delete_cart_inv: "cart_inv s \<Longrightarrow> cart_inv (delete_cart i s)"
  by (auto simp: cart_inv_def delete_cart_def find_row_delete)
    (auto simp: delete_where_def distinct_filter_map)

lemma Cart_Clear_keeps [keeps_intro]: "keeps cart_inv (Cart_Clear E cartID)"
  by (rule keepsI) (simp add: Cart_Clear_def delete_cart_inv)

lemma Cart_DeleteItem_keeps [keeps_intro]: "keeps cart_inv (Cart_DeleteItem E cartID itemID)"
  by (rule keepsI) (auto simp: Cart_DeleteItem_def cart_inv_def delete_where_def distinct_filter_map Let_def)

lemma Cart_RemoveItem_keeps [keeps_intro]: "keeps cart_inv (Cart_RemoveItem E cartID itemID)"
  unfolding Cart_RemoveItem_def by (intro keeps_intro)

lemma AddItem_cart_keeps [keeps_intro]: "keeps cart_inv (AddItem_cart E customerID restaurantID)"
  unfolding AddItem_cart_def by (intro keeps_intro)

lemma cart_commands_keep [keeps_intro]:
  "keeps cart_inv (AddItem_Execute L E customerID input)"
  "keeps cart_inv (UpdateItemQuantity_Execute E customerID itemID q)"
  "keeps cart_inv (RemoveItem_Execute E customerID itemID)"
  unfolding AddItem_Execute_def UpdateItemQuantity_Execute_def RemoveItem_Execute_def Let_def
  by (intro keeps_intro)+

lemma line_quantity_AddOrMerge:
  assumes inv: "cart_inv s" and step: "Cart_AddOrMergeItem E cartID item s = (Inr u, s')"
  shows "line_quantity s' k = line_quantity s k +
    (if k = line_key (item\<lparr> ci_CartID := cartID \<rparr>) then sint (ci_Quantity item) else 0)"
  using step
proof (cases rule: AddOrMergeItem_Inr)
  case fresh
  then show ?thesis by (auto simp: line_quantity_def split: option.splits)
next
  case (merged old)
  have "old \<in> set (t_cart_items s)" "line_key old = line_key (item\<lparr> ci_CartID := cartID \<rparr>)"
    using find_row_Some [OF merged(2)] by auto
  moreover from this have "0 < sint (ci_Quantity old)" using inv by (simp add: cart_inv_def)
  ultimately show ?thesis using merged
    by (auto simp: line_quantity_def find_row_update_key sint_add_int16 dest: find_row_Some split: option.splits)
qed

text \<open>Which cart \<open>AddItem\<close> works on.\<close>

lemma AddItem_cart_Inr:
  assumes step: "AddItem_cart E customerID restaurantID s = (Inr (cartID, n), s')" and inv: "cart_inv s"
  shows "t_cart_items s' = t_cart_items s \<and>
    (\<exists>row. cart_of s' customerID = Some row \<and> c_ID row = cartID \<and> c_RestaurantID row = restaurantID) \<and>
    (cart_of s customerID \<noteq> None \<longrightarrow> s' = s)"
proof (cases "cart_of s customerID")
  case None
  then show ?thesis using step
    by (auto simp: AddItem_cart_def bind_Inr Cart_FindByCustomer_def cart_of_def io_def Cart_Create_def
        NewCart_def split: option.splits if_splits)
next
  case (Some row)
  then show ?thesis using step
    by (auto simp: AddItem_cart_def Cart_FindByCustomer_def io_def cart_of_def EnsureRestaurant_def
        preload_cart_def query_def bind_def ret_def split: if_splits option.splits)
qed

lemma sort_key_mset:
  assumes "mset xs = mset ys" and "inj_on f (set xs)"
  shows "sort_key f xs = sort_key f ys"
  using assms by (intro sort_key_inj_key_eq) auto

text \<open>
  Adding a pizza to the cart adds its quantity, as an integer and without wrapping, to the one
  line of the customer's cart that has that pizza, size and choice of toppings, and to no other
  line; the cart is the customer's own and belongs to the pizza's restaurant.
\<close>

theorem AddItem_adds:
  assumes inv: "cart_inv s"
    and step: "AddItem_Execute L E customerID input s = (Inr resp, s')"
  shows "\<exists>c pizza. cart_of s' customerID = Some c \<and>
    find_row pz_ID (air_PizzaID input) (t_pizzas s) = Some pizza \<and>
    c_RestaurantID c = pz_RestaurantID pizza \<and>
    (\<forall>k. line_quantity s' k = line_quantity s k +
      (if k = (c_ID c, air_PizzaID input, air_SizeID input,
               sort_key (uuidString L) (air_ExtraToppingIDs input))
       then sint (air_Quantity input) else 0))"
proof -
  obtain pizza cartID n s1 itemID u where pizza: "Pizza_FindByID E 0 (air_PizzaID input) s = Inr pizza"
    and cart: "AddItem_cart E customerID (pz_RestaurantID pizza) s = (Inr (cartID, n), s1)"
    and merge: "Cart_AddOrMergeItem E cartID (NewCartItem L itemID (air_PizzaID input)
      (air_SizeID input) (air_Quantity input) (air_ExtraToppingIDs input)) s1 = (Inr u, s')"
    using step unfolding AddItem_Execute_def bind_Inr op_Inr
    by (auto simp: bind_Inr Let_def split: option.splits)
  note c = AddItem_cart_Inr [OF cart inv]
  have "cart_inv s1" using keepsD [OF AddItem_cart_keeps cart inv] .
  note q = line_quantity_AddOrMerge [OF this merge]
  have "t_carts s' = t_carts s1" using merge by (cases rule: AddOrMergeItem_Inr) auto
  moreover have "line_quantity s1 k = line_quantity s k" for k
    using c by (simp add: line_quantity_def)
  ultimately show ?thesis
    using c q pizza by (auto simp: cart_of_def line_key_def NewCartItem_def Pizza_FindByID_def io_def
        split: option.splits if_splits)
qed

end
