(* ===== verification/Geo.thy ===== *)
theory Geo
  imports Readmodel_Store
begin

text \<open>
  Distances and geocoding (\<open>internal/shared/geo\<close>, \<open>internal/infrastructure/geocoder\<close>). \<open>float64\<close> is
  read as the reals: rounding is not modelled. SHA-256 is the parameter \<open>sha256hex\<close>, and letter case
  and white space are those of ASCII. The interface \<open>geocoder\<close> is what \<open>Checkout\<close> relies on: a
  lookup may fill the geocode cache and changes nothing else.
\<close>

subsection \<open>Haversine distance\<close>

definition earthRadiusKm :: real where
  "earthRadiusKm = 6371"

definition atan2 :: "real \<Rightarrow> real \<Rightarrow> real" where
  "atan2 y x =
     (if x > 0 then arctan (y / x)
      else if x < 0 then (if y \<ge> 0 then arctan (y / x) + pi else arctan (y / x) - pi)
      else if y > 0 then pi / 2 else if y < 0 then - pi / 2 else 0)"

definition HaversineKm :: "real \<Rightarrow> real \<Rightarrow> real \<Rightarrow> real \<Rightarrow> real" where
  "HaversineKm lat1 lon1 lat2 lon2 =
     (let lat1Rad = lat1 * pi / 180;
          lat2Rad = lat2 * pi / 180;
          deltaLat = (lat2 - lat1) * pi / 180;
          deltaLon = (lon2 - lon1) * pi / 180;
          a = sin (deltaLat / 2) * sin (deltaLat / 2) +
              cos lat1Rad * cos lat2Rad * sin (deltaLon / 2) * sin (deltaLon / 2);
          c = 2 * atan2 (sqrt a) (sqrt (1 - a)) in
      earthRadiusKm * c)"

lemma HaversineKm_same [simp]: "HaversineKm lat lon lat lon = 0"
  by (simp add: HaversineKm_def atan2_def)

lemma HaversineKm_commute: "HaversineKm lat1 lon1 lat2 lon2 = HaversineKm lat2 lon2 lat1 lon1"
proof -
  have "sin ((x - y) * pi / 180 / 2) * sin ((x - y) * pi / 180 / 2) =
      sin ((y - x) * pi / 180 / 2) * sin ((y - x) * pi / 180 / 2)" for x y :: real
  proof -
    have "(x - y) * pi / 180 / 2 = - ((y - x) * pi / 180 / 2)" by (simp add: field_simps)
    then show ?thesis by (simp only: sin_minus minus_mult_minus)
  qed
  note flip = this
  show ?thesis
    unfolding HaversineKm_def Let_def
    by (simp only: flip [of lat1 lat2] flip [of lon1 lon2] mult.assoc mult.left_commute)
qed

text \<open>The haversine \<open>a\<close> is at most 1, so the square roots are real, and the distance is at least 0
  and at most half the circumference.\<close>

lemma haversine_a_bounds:
  fixes p q h d :: real
  assumes half: "2 * h = q - p" and "0 \<le> cos p" "0 \<le> cos q"
  shows "0 \<le> sin h * sin h + cos p * cos q * sin d * sin d \<and>
    sin h * sin h + cos p * cos q * sin d * sin d \<le> 1"
proof
  have nonneg: "0 \<le> cos p * cos q" using assms by simp
  have d: "0 \<le> sin d * sin d" "sin d * sin d \<le> 1"
    by (simp_all add: power2_eq_square [symmetric] abs_square_le_1)
  have "0 \<le> cos p * cos q * (sin d * sin d)" using nonneg d by simp
  then show "0 \<le> sin h * sin h + cos p * cos q * sin d * sin d" by (simp add: mult.assoc)
  have "cos p * cos q * (sin d * sin d) \<le> cos p * cos q * 1"
    using nonneg d by (intro mult_left_mono)
  moreover have "cos p * cos q + sin p * sin q = 1 - 2 * (sin h * sin h)"
    using cos_double_sin [of h, unfolded half] cos_diff [of q p]
    by (simp add: power2_eq_square mult.commute)
  moreover have "cos p * cos q - sin p * sin q \<le> 1"
    using cos_le_one [of "p + q"] by (simp add: cos_add)
  moreover have "cos p * cos q * sin d * sin d = cos p * cos q * (sin d * sin d)"
    by (simp add: mult.assoc)
  ultimately show "sin h * sin h + cos p * cos q * sin d * sin d \<le> 1"
    by linarith
qed

lemma atan2_quadrant: "0 \<le> y \<Longrightarrow> 0 \<le> x \<Longrightarrow> 0 \<le> atan2 y x \<and> atan2 y x \<le> pi / 2"
  using arctan_ubound [of "y / x"] by (auto simp: atan2_def less_imp_le)

lemma cos_degrees: "\<bar>lat\<bar> \<le> 90 \<Longrightarrow> 0 \<le> cos (lat * pi / 180)"
proof (rule cos_ge_zero)
  assume "\<bar>lat\<bar> \<le> 90"
  then have "-90 * pi \<le> lat * pi" "lat * pi \<le> 90 * pi"
    by (intro mult_right_mono; simp)+
  then show "- (pi / 2) \<le> lat * pi / 180" "lat * pi / 180 \<le> pi / 2"
    by simp_all
qed

subsection \<open>Address normal form\<close>

fun fields_aux :: "string \<Rightarrow> string \<Rightarrow> string list" where
  "fields_aux w [] = (if w = [] then [] else [w])"
| "fields_aux w (c # cs) =
     (if is_space c then (if w = [] then fields_aux [] cs else w # fields_aux [] cs)
      else fields_aux (w @ [c]) cs)"

definition fields :: "string \<Rightarrow> string list" where
  "fields s = fields_aux [] s"

fun join :: "string \<Rightarrow> string list \<Rightarrow> string" where
  "join sep [] = ''''"
| "join sep [x] = x"
| "join sep (x # y # ys) = x @ sep @ join sep (y # ys)"

definition normalizeAddressPart :: "string \<Rightarrow> string" where
  "normalizeAddressPart s = join '' '' (fields (List.map to_lower s))"

definition AddressHash :: "(string \<Rightarrow> string) \<Rightarrow> string \<Rightarrow> string \<Rightarrow> string \<Rightarrow> string \<Rightarrow> string" where
  "AddressHash sha256hex house street city postalCode =
     sha256hex (join ''|'' [normalizeAddressPart house, normalizeAddressPart street,
       normalizeAddressPart city, normalizeAddressPart postalCode])"

subsection \<open>Geocoders\<close>

type_synonym 'd geocode_op = "Address \<Rightarrow> ('d db, order_err, real \<times> real) op"

text \<open>
  \<open>CachingGeocoder\<close> around another geocoder, which asks a web service and leaves the database alone;
  its answers are the parameter \<open>inner\<close>.
\<close>

definition CachingGeocoder_Geocode ::
  "(string \<Rightarrow> string) \<Rightarrow> env \<Rightarrow> (Address \<Rightarrow> (order_err, real \<times> real) result) \<Rightarrow> 'd geocode_op" where
  "CachingGeocoder_Geocode sha256hex E inner addr =
     (let h = AddressHash sha256hex (House addr) (Street addr) (City addr) (PostalCode addr) in
      bind (query (Geocode_FindByHash E h)) (\<lambda>entry.
      case entry of
        Some g \<Rightarrow> ret (g_Lat g, g_Lon g)
      | None \<Rightarrow>
          bind (query (\<lambda>_. inner addr)) (\<lambda>(lat, lon).
          bind (Geocode_Create E \<lparr> g_AddressHash = h, g_Lat = lat, g_Lon = lon \<rparr>) (\<lambda>_.
          ret (lat, lon)))))"

text \<open>Everything but the geocode cache.\<close>

definition but_geocode :: "'d db \<Rightarrow> 'd db" where
  "but_geocode s = s\<lparr> t_geocode := [] \<rparr>"

lemma but_geocode_eqD:
  assumes "but_geocode s' = but_geocode s"
  shows "t_carts s' = t_carts s" "t_cart_items s' = t_cart_items s" "t_orders s' = t_orders s"
    "t_order_items s' = t_order_items s" "t_customers s' = t_customers s"
    "t_restaurants s' = t_restaurants s" "t_pizzas s' = t_pizzas s"
    "t_pizza_prices s' = t_pizza_prices s" "t_topping_prices s' = t_topping_prices s"
    "t_outbox s' = t_outbox s" "calls s' = calls s"
  using assms by (cases s; cases s'; simp add: but_geocode_def)+

text \<open>
  The distance the delivery radius is checked against is the same in both directions, zero from
  a point to itself, never negative and at most half the earth's circumference, for every two points
  whose latitudes the database admits.
\<close>

theorem HaversineKm_distance:
  assumes "\<bar>lat1\<bar> \<le> 90" "\<bar>lat2\<bar> \<le> 90"
  shows "HaversineKm lat1 lon1 lat2 lon2 = HaversineKm lat2 lon2 lat1 lon1 \<and>
    HaversineKm lat1 lon1 lat1 lon1 = 0 \<and>
    0 \<le> HaversineKm lat1 lon1 lat2 lon2 \<and> HaversineKm lat1 lon1 lat2 lon2 \<le> 6371 * pi"
proof -
  let ?p = "lat1 * pi / 180" and ?q = "lat2 * pi / 180"
  let ?h = "(lat2 - lat1) * pi / 180 / 2" and ?d = "(lon2 - lon1) * pi / 180 / 2"
  let ?a = "sin ?h * sin ?h + cos ?p * cos ?q * sin ?d * sin ?d"
  have "0 \<le> ?a \<and> ?a \<le> 1"
    by (rule haversine_a_bounds)
      (simp add: algebra_simps diff_divide_distrib, use assms in \<open>auto intro: cos_degrees\<close>)
  then have "0 \<le> atan2 (sqrt ?a) (sqrt (1 - ?a)) \<and> atan2 (sqrt ?a) (sqrt (1 - ?a)) \<le> pi / 2"
    by (intro atan2_quadrant) auto
  then have "0 \<le> HaversineKm lat1 lon1 lat2 lon2 \<and> HaversineKm lat1 lon1 lat2 lon2 \<le> 6371 * pi"
    unfolding HaversineKm_def Let_def earthRadiusKm_def by simp
  then show ?thesis using HaversineKm_commute by simp
qed

theorem HaversineKm_distance_witness:
  "0 \<le> HaversineKm 52 13 48 11 \<and> HaversineKm 52 13 48 11 \<le> 6371 * pi"
  using HaversineKm_distance [of 52 48 13 11] by simp

locale geocoder =
  fixes geocode :: "'d::linordered_idom geocode_op"
  assumes geocode_frame: "geocode addr s = (r, s') \<Longrightarrow> but_geocode s' = but_geocode s"
begin

lemma geocode_keeps:
  assumes "\<And>s s'. but_geocode s' = but_geocode s \<Longrightarrow> P s \<Longrightarrow> P s'"
  shows "keeps P (geocode addr)"
  using assms geocode_frame by (auto simp: keeps_def) (metis surjective_pairing)

end

interpretation caching: geocoder "CachingGeocoder_Geocode sha256hex E inner"
proof
  fix addr and s s' :: "'d::linordered_idom db" and r
  assume step: "CachingGeocoder_Geocode sha256hex E inner addr s = (r, s')"
  have "keeps (\<lambda>x. but_geocode x = but_geocode s) (CachingGeocoder_Geocode sha256hex E inner addr)"
    unfolding CachingGeocoder_Geocode_def Let_def
    by (intro keeps_intro keepsI) (auto simp: Geocode_Create_def but_geocode_def)
  then show "but_geocode s' = but_geocode s"
    using step by (auto dest: keepsD)
qed

end
