(* ===== verification/Order_Events.thy ===== *)
theory Order_Events
  imports Readmodel_Store
begin

text \<open>
  From domain events to outbox rows (\<open>internal/application/order/events.go\<close>, \<open>dispatch.go\<close>) and
  the view of an order that the API returns (\<open>mapper.go\<close>). An enricher, and \<open>toEventPayload\<close>, give
  the name of an integration event and its document, or decline.
\<close>

record OrderItemPayload =
  oip_Name :: string
  oip_Quantity :: int16

record OrderConfirmedPayload =
  ocp_OrderID :: uuid
  ocp_RestaurantID :: uuid
  ocp_RestaurantName :: string
  ocp_CustomerEmail :: string
  ocp_OwnerEmail :: string
  ocp_Items :: "OrderItemPayload list"
  ocp_Total :: string
  ocp_Currency :: string
  ocp_ConfirmedAt :: time

definition NewOrderConfirmedPayload ::
  "'d lib \<Rightarrow> DomainEvent \<Rightarrow> 'd Order \<Rightarrow> string \<Rightarrow> string \<Rightarrow> OrderItemPayload list \<Rightarrow> OrderConfirmedPayload" where
  "NewOrderConfirmedPayload L e ord restaurantName ownerEmail items =
   \<lparr> ocp_OrderID = evOrderID e, ocp_RestaurantID = evRestaurantID e,
     ocp_RestaurantName = restaurantName, ocp_CustomerEmail = o_ContactEmail ord,
     ocp_OwnerEmail = ownerEmail, ocp_Items = items, ocp_Total = StringFixed2 L (o_Total ord),
     ocp_Currency = o_Currency ord, ocp_ConfirmedAt = evOccurredAt e \<rparr>"

definition marshal_OrderConfirmed :: "'d lib \<Rightarrow> OrderConfirmedPayload \<Rightarrow> json" where
  "marshal_OrderConfirmed L p = JObj
   [(''order_id'', enc_uuid L (ocp_OrderID p)), (''restaurant_id'', enc_uuid L (ocp_RestaurantID p)),
    (''restaurant_name'', JStr (ocp_RestaurantName p)), (''customer_email'', JStr (ocp_CustomerEmail p)),
    (''owner_email'', JStr (ocp_OwnerEmail p)),
    (''items'', JArr (List.map (\<lambda>i. JObj [(''name'', JStr (oip_Name i)),
        (''quantity'', enc_int16 (oip_Quantity i))]) (ocp_Items p))),
    (''total'', JStr (ocp_Total p)), (''currency'', JStr (ocp_Currency p)),
    (''confirmed_at'', enc_time L (ocp_ConfirmedAt p))]"

record AddressSavedPayload =
  asp_CustomerID :: uuid
  asp_House :: string
  asp_Street :: string
  asp_City :: string
  asp_PostalCode :: string
  asp_EventName :: string
  asp_OccurredAt :: time

definition newAddressSavedPayload :: "DomainEvent \<Rightarrow> AddressSavedPayload" where
  "newAddressSavedPayload e =
   \<lparr> asp_CustomerID = evCustomerID e, asp_House = evHouse e, asp_Street = evStreet e,
     asp_City = evCity e, asp_PostalCode = evPostalCode e,
     asp_EventName = ''order.address_saved'', asp_OccurredAt = evOccurredAt e \<rparr>"

definition marshal_AddressSaved :: "'d lib \<Rightarrow> AddressSavedPayload \<Rightarrow> json" where
  "marshal_AddressSaved L p = JObj
   [(''customer_id'', enc_uuid L (asp_CustomerID p)), (''house'', JStr (asp_House p)),
    (''street'', JStr (asp_Street p)), (''city'', JStr (asp_City p)),
    (''postal_code'', JStr (asp_PostalCode p)), (''event_name'', JStr (asp_EventName p)),
    (''occurred_at'', enc_time L (asp_OccurredAt p))]"

type_synonym enricher = "DomainEvent \<Rightarrow> (string \<times> json) option"

fun enrich :: "DomainEvent \<Rightarrow> enricher list \<Rightarrow> (string \<times> json) option" where
  "enrich e [] = None"
| "enrich e (fn # fns) = (case fn e of Some payload \<Rightarrow> Some payload | None \<Rightarrow> enrich e fns)"

fun toEventPayload :: "'d lib \<Rightarrow> enricher" where
  "toEventPayload L (AddressSaved c h st ci pc t) =
     Some (''order.address_saved'',
       marshal_AddressSaved L (newAddressSavedPayload (AddressSaved c h st ci pc t)))"
| "toEventPayload L (OrderConfirmed _ _ _ _) = None"

text \<open>The event a domain event becomes, if any.\<close>

definition integration_event :: "'d lib \<Rightarrow> enricher list \<Rightarrow> enricher" where
  "integration_event L enrichers e =
     (case enrich e enrichers of Some payload \<Rightarrow> Some payload | None \<Rightarrow> toEventPayload L e)"

definition Outbox_Insert :: "env \<Rightarrow> nat \<Rightarrow> OutboxEvent \<Rightarrow> ('d db, order_err, unit) op" where
  "Outbox_Insert E n e s =
     (if fault E (OutboxInsert n) then (Inl [], s)
      else (Inr (), s\<lparr> t_outbox := outbox_Create (traceParent E) e (t_outbox s) \<rparr>))"

fun dispatch_events ::
  "'d lib \<Rightarrow> env \<Rightarrow> enricher list \<Rightarrow> uuid \<Rightarrow> nat \<Rightarrow> DomainEvent list \<Rightarrow> ('d db, order_err, unit) op" where
  "dispatch_events L E enrichers aggregate n [] = ret ()"
| "dispatch_events L E enrichers aggregate n (e # es) =
     (case integration_event L enrichers e of
        None \<Rightarrow> dispatch_events L E enrichers aggregate (Suc n) es
      | Some (name, body) \<Rightarrow>
          bind (Outbox_Insert E n (NewOutboxEvent (clock E) aggregate name body)) (\<lambda>_.
          dispatch_events L E enrichers aggregate (Suc n) es))"

definition DispatchEventsTx ::
  "'d lib \<Rightarrow> env \<Rightarrow> enricher list \<Rightarrow> 'd Order \<Rightarrow> ('d db, order_err, 'd Order) op" where
  "DispatchEventsTx L E enrichers ord =
     (case PullEvents ord of (es, ord') \<Rightarrow>
        bind (dispatch_events L E enrichers (o_ID ord) 0 es) (\<lambda>_. ret ord'))"

text \<open>What a dispatch without failure writes: one pending row per event that has a payload.\<close>

definition outbox_rows_for ::
  "'d lib \<Rightarrow> env \<Rightarrow> enricher list \<Rightarrow> uuid \<Rightarrow> DomainEvent list \<Rightarrow> OutboxEvent list" where
  "outbox_rows_for L E enrichers aggregate es =
     List.map (\<lambda>(name, body). NewOutboxEvent (clock E) aggregate name body)
       (List.map_filter (integration_event L enrichers) es)"

lemma dispatch_events_Inr:
  "dispatch_events L E enrichers aggregate n es s = (Inr u, s') \<Longrightarrow>
    s' = s\<lparr> t_outbox := fold (outbox_Create (traceParent E))
      (outbox_rows_for L E enrichers aggregate es) (t_outbox s) \<rparr>"
proof (induction es arbitrary: n s)
  case Nil
  then show ?case by (simp add: outbox_rows_for_def)
next
  case (Cons e es)
  show ?case
  proof (cases "integration_event L enrichers e")
    case None
    then show ?thesis using Cons.IH [of "Suc n" s] Cons.prems
      by (simp add: outbox_rows_for_def)
  next
    case (Some ev)
    let ?row = "NewOutboxEvent (clock E) aggregate (fst ev) (snd ev)"
    have "dispatch_events L E enrichers aggregate (Suc n) es
        (s\<lparr> t_outbox := outbox_Create (traceParent E) ?row (t_outbox s) \<rparr>) = (Inr u, s')"
      using Cons.prems Some by (auto simp: bind_Inr Outbox_Insert_def split: prod.splits if_splits)
    from Cons.IH [OF this] show ?thesis
      using Some by (simp add: outbox_rows_for_def split_beta)
  qed
qed

lemma DispatchEventsTx_Inr:
  "DispatchEventsTx L E enrichers ord s = (Inr ord', s') \<Longrightarrow>
    ord' = ord\<lparr> o_events := [] \<rparr> \<and>
    s' = s\<lparr> t_outbox := fold (outbox_Create (traceParent E))
      (outbox_rows_for L E enrichers (o_ID ord) (o_events ord)) (t_outbox s) \<rparr>"
  by (auto simp: DispatchEventsTx_def PullEvents_def bind_Inr dest: dispatch_events_Inr)

lemma dispatch_events_keeps:
  assumes "\<And>n e. keeps P (Outbox_Insert E n e)"
  shows "keeps P (dispatch_events L E enrichers aggregate n es)"
  by (induction es arbitrary: n) (auto intro!: keeps_intro assms split: option.split)

lemma DispatchEventsTx_keeps:
  assumes "\<And>n e. keeps P (Outbox_Insert E n e)"
  shows "keeps P (DispatchEventsTx L E enrichers ord)"
  unfolding DispatchEventsTx_def PullEvents_def prod.case
  by (intro keeps_intro dispatch_events_keeps assms)

subsection \<open>The view of an order\<close>

record 'd OrderItemView =
  oiv_ItemID :: uuid
  oiv_PizzaID :: uuid
  oiv_PizzaName :: string
  oiv_SizeID :: uuid
  oiv_DiameterCm :: int16
  oiv_ExtraToppingIDs :: "uuid list"
  oiv_Quantity :: int16
  oiv_UnitPrice :: 'd
  oiv_LineTotal :: 'd

record 'd OrderResponse =
  or_OrderID :: uuid
  or_Status :: OrderStatus
  or_Fulfillment :: Fulfillment
  or_ContactEmail :: string
  or_ContactPhone :: "string option"
  or_DeliveryAddress :: "Address option"
  or_Items :: "'d OrderItemView list"
  or_Subtotal :: 'd
  or_DeliveryFee :: 'd
  or_Total :: 'd
  or_Currency :: string
  or_PlacedAt :: time
  or_ConfirmedAt :: "time option"
  or_ReadyAt :: "time option"
  or_CompletedAt :: "time option"
  or_CancelledAt :: "time option"

definition ToOrderResponse :: "'d Order \<Rightarrow> 'd OrderResponse" where
  "ToOrderResponse ord =
   \<lparr> or_OrderID = o_ID ord, or_Status = o_Status ord, or_Fulfillment = o_Fulfillment ord,
     or_ContactEmail = o_ContactEmail ord, or_ContactPhone = o_ContactPhone ord,
     or_DeliveryAddress = o_DeliveryAddress ord,
     or_Items = List.map (\<lambda>item.
       \<lparr> oiv_ItemID = oi_ID item, oiv_PizzaID = oi_PizzaID item, oiv_PizzaName = oi_PizzaName item,
         oiv_SizeID = oi_SizeID item, oiv_DiameterCm = oi_SizeDiameter item,
         oiv_ExtraToppingIDs = oi_ExtraToppingIDs item, oiv_Quantity = oi_Quantity item,
         oiv_UnitPrice = oi_UnitPrice item, oiv_LineTotal = oi_TotalPrice item \<rparr>) (o_Items ord),
     or_Subtotal = o_Subtotal ord, or_DeliveryFee = o_DeliveryFee ord, or_Total = o_Total ord,
     or_Currency = o_Currency ord, or_PlacedAt = o_PlacedAt ord, or_ConfirmedAt = o_ConfirmedAt ord,
     or_ReadyAt = o_ReadyAt ord, or_CompletedAt = o_CompletedAt ord,
     or_CancelledAt = o_CancelledAt ord \<rparr>"

end
