(* ===== verification/Checkout.thy ===== *)
theory Checkout
  imports Cart Geo Order_Events
begin

text \<open>
  Checkout (\<open>internal/application/order/commands/checkout.go\<close>): the customer's cart becomes a pending
  order, in one transaction with the emptying of the cart and the outbox rows, after which
  payment-service is asked for a payment and its identifier is recorded on the order.

  The geocoder and the payment provider are parameters; \<open>calls\<close> records the requests made to the
  provider. The lines of the cart are numbered from 0, and call number \<open>length items\<close> of \<open>NewV7\<close>
  is the order's.
\<close>

record 'd provider =
  CreatePayment :: "'d CreatePaymentRequest \<Rightarrow> (order_err, CreatePaymentResult) result"
  CancelPayment :: "string \<Rightarrow> (order_err, unit) result"
  GetPaymentStatus :: "string \<Rightarrow> (order_err, string) result"

definition create_payment ::
  "'d provider \<Rightarrow> 'd CreatePaymentRequest \<Rightarrow> ('d db, order_err, CreatePaymentResult) op" where
  "create_payment P req s = (CreatePayment P req, s\<lparr> calls := calls s @ [CreatePaymentCall req] \<rparr>)"

definition cancel_payment :: "'d provider \<Rightarrow> string \<Rightarrow> ('d db, order_err, unit) op" where
  "cancel_payment P pid s = (CancelPayment P pid, s\<lparr> calls := calls s @ [CancelPaymentCall pid] \<rparr>)"

record AddressInput =
  ai_House :: string
  ai_Street :: string
  ai_PostalCode :: string
  ai_City :: string

record CheckoutRequest =
  cr_Fulfillment :: Fulfillment
  cr_DeliveryAddress :: "AddressInput option"
  cr_SaveAddress :: bool

record CheckoutResponse =
  cs_OrderID :: uuid
  cs_CheckoutURL :: string

subsection \<open>The order's lines\<close>

fun add_toppings ::
  "(uuid \<Rightarrow> 'd::linordered_idom ToppingPrice option) \<Rightarrow> uuid list \<Rightarrow> 'd \<Rightarrow> 'd option" where
  "add_toppings tm [] unitPrice = Some unitPrice"
| "add_toppings tm (t # ts) unitPrice =
     (case tm t of None \<Rightarrow> None | Some tp \<Rightarrow> add_toppings tm ts (unitPrice + tp_ExtraPrice tp))"

definition resolveOrderItem ::
  "env \<Rightarrow> nat \<Rightarrow> CartItem \<Rightarrow> (uuid \<Rightarrow> 'd::linordered_idom ToppingPrice option) \<Rightarrow> 'd db \<Rightarrow>
   (order_err, 'd OrderItem \<times> 'd) result" where
  "resolveOrderItem E n ci tm s =
     (case Pizza_FindByID E n (ci_PizzaID ci) s of
        Inl e \<Rightarrow> if \<not> errors_is e (App ErrNotFound) then Inl e else Inl [ErrCartItemUnavailable]
      | Inr pizza \<Rightarrow>
        (case Price_ListByPizza E n (ci_PizzaID ci) s of
           Inl e \<Rightarrow> Inl e
         | Inr prices \<Rightarrow>
           (case find_price (ci_SizeID ci) prices of
              None \<Rightarrow> Inl [ErrCartItemUnavailable]
            | Some p \<Rightarrow>
              (case add_toppings tm (ci_ExtraToppingIDs ci) (pp_Price p) of
                 None \<Rightarrow> Inl [ErrCartItemUnavailable]
               | Some unitPrice \<Rightarrow>
                 (case newV7 E n of
                    None \<Rightarrow> Inl []
                  | Some itemID \<Rightarrow>
                      let lineTotal = unitPrice * quantity_of (ci_Quantity ci) in
                      Inr (\<lparr> oi_ID = itemID, oi_OrderID = 0, oi_PizzaID = ci_PizzaID ci,
                             oi_SizeID = ci_SizeID ci, oi_PizzaName = pz_Name pizza,
                             oi_SizeDiameter = pp_DiameterCm p,
                             oi_ExtraToppingIDs = ci_ExtraToppingIDs ci,
                             oi_Quantity = ci_Quantity ci, oi_UnitPrice = unitPrice,
                             oi_TotalPrice = lineTotal \<rparr>, lineTotal))))))"

fun order_items ::
  "env \<Rightarrow> (uuid \<Rightarrow> 'd::linordered_idom ToppingPrice option) \<Rightarrow> 'd db \<Rightarrow> nat \<Rightarrow> CartItem list \<Rightarrow>
   'd OrderItem list \<Rightarrow> 'd \<Rightarrow> (order_err, 'd OrderItem list \<times> 'd) result" where
  "order_items E tm s n [] items subtotal = Inr (items, subtotal)"
| "order_items E tm s n (ci # rest) items subtotal =
     (case resolveOrderItem E n ci tm s of
        Inl e \<Rightarrow> Inl e
      | Inr (item, lineTotal) \<Rightarrow>
          order_items E tm s (Suc n) rest (items @ [item]) (subtotal + lineTotal))"

subsection \<open>Fulfillment\<close>

definition check_fulfillment ::
  "'d Restaurant \<Rightarrow> CheckoutRequest \<Rightarrow> (order_err, unit) result" where
  "check_fulfillment restaurant input =
     (case cr_Fulfillment input of
        FulfillmentPickup \<Rightarrow>
          if \<not> r_Pickup restaurant then Inl [ErrFulfillmentNotSupported] else Inr ()
      | FulfillmentDelivery \<Rightarrow>
          if r_DeliveryType restaurant = ''none'' then Inl [ErrFulfillmentNotSupported]
          else if cr_DeliveryAddress input = None then Inl [App ErrInvalid] else Inr ())"

definition to_address :: "AddressInput \<Rightarrow> Address" where
  "to_address a = \<lparr> House = ai_House a, Street = ai_Street a, PostalCode = ai_PostalCode a,
     City = ai_City a \<rparr>"

text \<open>The delivery address, its position and the fee; a geocoder's error loses its chain (\<open>%s\<close>).\<close>

definition delivery_terms ::
  "'d::linordered_idom geocode_op \<Rightarrow> 'd Restaurant \<Rightarrow> CheckoutRequest \<Rightarrow>
   ('d db, order_err, Address option \<times> real option \<times> real option \<times> 'd) op" where
  "delivery_terms G restaurant input =
     (case (cr_Fulfillment input, cr_DeliveryAddress input) of
        (FulfillmentDelivery, Some a) \<Rightarrow>
          (\<lambda>s. case G (to_address a) s of
             (Inl e, s') \<Rightarrow> (Inl [ErrGeocodingUnavailable], s')
           | (Inr (lat, lon), s') \<Rightarrow>
             (case r_DeliveryKm restaurant of
                None \<Rightarrow> (Inl [ErrOutsideDeliveryRadius], s')
              | Some km \<Rightarrow>
                if HaversineKm lat lon (r_Lat restaurant) (r_Lon restaurant) > of_int (sint km)
                then (Inl [ErrOutsideDeliveryRadius], s')
                else (Inr (Some (to_address a), Some lat, Some lon, r_DeliveryFee restaurant), s')))
      | _ \<Rightarrow> ret (None, None, None, 0))"

subsection \<open>The command\<close>

definition place_order ::
  "'d lib \<Rightarrow> env \<Rightarrow> uuid \<Rightarrow> 'd::linordered_idom Order \<Rightarrow> ('d db, order_err, 'd Order) op" where
  "place_order L E cartID newOrder = transaction (fault E) TxCommit
     (bind (Order_Create E newOrder) (\<lambda>ord.
      bind (Cart_Clear E cartID) (\<lambda>_.
      DispatchEventsTx L E [] ord)))"

definition redirect_url :: "'d lib \<Rightarrow> string \<Rightarrow> uuid \<Rightarrow> string" where
  "redirect_url L frontendBaseURL orderID = frontendBaseURL @ ''/orders/'' @ uuidString L orderID"

definition pay_order ::
  "'d lib \<Rightarrow> env \<Rightarrow> 'd provider \<Rightarrow> string \<Rightarrow> 'd::linordered_idom Order \<Rightarrow>
   ('d db, order_err, CheckoutResponse) op" where
  "pay_order L E P frontendBaseURL ord =
     bind (create_payment P
        \<lparr> cpr_OrderID = o_ID ord, cpr_RestaurantID = o_RestaurantID ord,
          cpr_CustomerID = o_CustomerID ord, cpr_Amount = o_Total ord, cpr_Currency = o_Currency ord,
          cpr_RedirectURL = redirect_url L frontendBaseURL (o_ID ord) \<rparr>) (\<lambda>paymentResult.
     bind (Order_Update E (ord\<lparr> o_PaymentID := Some (cps_PaymentID paymentResult) \<rparr>)) (\<lambda>_.
     ret \<lparr> cs_OrderID = o_ID ord, cs_CheckoutURL = cps_CheckoutURL paymentResult \<rparr>))"

definition Checkout_Execute ::
  "'d lib \<Rightarrow> env \<Rightarrow> 'd::linordered_idom geocode_op \<Rightarrow> 'd provider \<Rightarrow> string \<Rightarrow> uuid \<Rightarrow> CheckoutRequest \<Rightarrow>
   ('d db, order_err, CheckoutResponse) op" where
  "Checkout_Execute L E G P frontendBaseURL customerID input =
     bind (query (Cart_FindByCustomer E customerID)) (\<lambda>found.
     case found of
       None \<Rightarrow> fail [ErrCartEmpty]
     | Some c \<Rightarrow>
       bind (ensure (c_Items c \<noteq> []) [ErrCartEmpty]) (\<lambda>_.
       bind (query (Restaurant_FindByID E (c_RestaurantID c))) (\<lambda>restaurant.
       bind (query (\<lambda>_. check_fulfillment restaurant input)) (\<lambda>_.
       bind (query (Customer_FindByID E customerID)) (\<lambda>customer.
       bind (ensure (\<not> (cr_Fulfillment input = FulfillmentDelivery \<and>
                          (cu_Phone customer = None \<or> cu_Phone customer = Some '''')))
                    [App ErrInvalid]) (\<lambda>_.
       bind (query (Topping_ListByRestaurant E (c_RestaurantID c))) (\<lambda>toppingPrices.
       bind (query (\<lambda>s. order_items E (topping_map toppingPrices) s 0 (c_Items c) [] 0))
         (\<lambda>(items, subtotal).
       bind (ensure (\<not> subtotal < r_MinimumOrder restaurant) [ErrBelowMinimumOrder]) (\<lambda>_.
       bind (delivery_terms G restaurant input) (\<lambda>(address, lat, lon, deliveryFee).
       case newV7 E (length items) of
         None \<Rightarrow> fail []
       | Some orderID \<Rightarrow>
         bind (place_order L E (c_ID c)
           (NewOrder (clock E) orderID customerID (c_RestaurantID c) (cr_Fulfillment input)
              (cu_Email customer) (cu_Phone customer) address lat lon items subtotal deliveryFee
              (subtotal + deliveryFee) (r_Currency restaurant) (cr_SaveAddress input)))
         (pay_order L E P frontendBaseURL)))))))))))"

end
