(* ===== verification/Pricing.thy ===== *)
theory Pricing
  imports Checkout
begin

text \<open>
  What a cart line costs: the reference price \<open>line_unit\<close>, and that both the view of the cart
  (\<open>resolveItemView\<close>, \<open>GetCart\<close>) and checkout (\<open>resolveOrderItem\<close>) compute it.
\<close>

subsection \<open>What a line costs\<close>

text \<open>
  The reference price of a cart line: the active price of its size plus its toppings, or nothing
  when the pizza, the price or a topping is not on offer.
\<close>

definition toppings_of :: "'d db \<Rightarrow> uuid \<Rightarrow> uuid \<Rightarrow> 'd ToppingPrice option" where
  "toppings_of s restaurantID =
     topping_map (filter (\<lambda>p. tp_RestaurantID p = restaurantID) (t_topping_prices s))"

definition line_unit ::
  "(uuid \<Rightarrow> 'd::linordered_idom ToppingPrice option) \<Rightarrow> 'd db \<Rightarrow> CartItem \<Rightarrow> 'd option" where
  "line_unit tm s ci =
     (if find_row pz_ID (ci_PizzaID ci) (t_pizzas s) = None then None
      else case find_price (ci_SizeID ci) (filter (\<lambda>p. pp_PizzaID p = ci_PizzaID ci) (t_pizza_prices s)) of
        None \<Rightarrow> None
      | Some p \<Rightarrow>
          if \<forall>t \<in> set (ci_ExtraToppingIDs ci). tm t \<noteq> None
          then Some (pp_Price p + (\<Sum>t\<leftarrow>ci_ExtraToppingIDs ci. tp_ExtraPrice (the (tm t))))
          else None)"

definition line_total ::
  "(uuid \<Rightarrow> 'd::linordered_idom ToppingPrice option) \<Rightarrow> 'd db \<Rightarrow> CartItem \<Rightarrow> 'd option" where
  "line_total tm s ci = map_option (\<lambda>u. u * quantity_of (ci_Quantity ci)) (line_unit tm s ci)"

lemma topping_views_eq:
  "topping_views tm ts (av, u, vs) =
    (av \<and> (\<forall>t \<in> set ts. tm t \<noteq> None),
     u + (\<Sum>t\<leftarrow>ts. case tm t of None \<Rightarrow> 0 | Some tp \<Rightarrow> tp_ExtraPrice tp),
     vs @ List.map (\<lambda>t. case tm t of
        None \<Rightarrow> \<lparr> ctv_ToppingID = t, ctv_Name = '''', ctv_ExtraPrice = None \<rparr>
      | Some tp \<Rightarrow> \<lparr> ctv_ToppingID = t, ctv_Name = tp_Name tp, ctv_ExtraPrice = Some (tp_ExtraPrice tp) \<rparr>) ts)"
  by (induction ts arbitrary: av u vs) (auto split: option.split simp: algebra_simps)

lemma priced_sum:
  "\<forall>t \<in> set ts. tm t \<noteq> None \<Longrightarrow>
    (\<Sum>t\<leftarrow>ts. case tm t of None \<Rightarrow> 0 | Some tp \<Rightarrow> tp_ExtraPrice tp) = (\<Sum>t\<leftarrow>ts. tp_ExtraPrice (the (tm t)))"
  by (induction ts) auto

text \<open>Without faults the view of a line shows exactly that price.\<close>

lemma resolveItemView_eq:
  assumes "\<not> fault E (PizzaFindByID n)" "\<not> fault E (PriceListByPizza n)"
  shows "\<exists>view. resolveItemView E n ci tm s =
      Inr (view, case line_total tm s ci of None \<Rightarrow> 0 | Some x \<Rightarrow> x) \<and>
    civ_ItemID view = ci_ID ci \<and> civ_Quantity view = ci_Quantity ci \<and>
    civ_Available view = (line_unit tm s ci \<noteq> None) \<and>
    civ_UnitPrice view = line_unit tm s ci \<and> civ_LineTotal view = line_total tm s ci"
proof (cases "find_row pz_ID (ci_PizzaID ci) (t_pizzas s)")
  case None
  then show ?thesis using assms
    by (simp add: resolveItemView_def Pizza_FindByID_def errors_is_def finish_view_def topping_views_eq
        line_unit_def line_total_def)
next
  case (Some pz)
  show ?thesis
  proof (cases "find_price (ci_SizeID ci) (filter (\<lambda>p. pp_PizzaID p = ci_PizzaID ci) (t_pizza_prices s))")
    case None
    with Some show ?thesis using assms
      by (simp add: resolveItemView_def Pizza_FindByID_def Price_ListByPizza_def finish_view_def
          topping_views_eq line_unit_def line_total_def)
  next
    case price: (Some p)
    with Some show ?thesis using assms
      by (cases "\<forall>t \<in> set (ci_ExtraToppingIDs ci). tm t \<noteq> None")
        (auto simp: resolveItemView_def Pizza_FindByID_def Price_ListByPizza_def finish_view_def
          topping_views_eq line_unit_def line_total_def priced_sum Let_def)
  qed
qed

lemma cart_views_eq:
  assumes "\<And>n. \<not> fault E (PizzaFindByID n)" "\<And>n. \<not> fault E (PriceListByPizza n)"
  shows "\<exists>new. cart_views E tm s n cs views subtotal =
      Inr (views @ new, subtotal + (\<Sum>ci\<leftarrow>cs. case line_total tm s ci of None \<Rightarrow> 0 | Some x \<Rightarrow> x)) \<and>
    List.map civ_ItemID new = List.map ci_ID cs \<and>
    List.map civ_Available new = List.map (\<lambda>ci. line_unit tm s ci \<noteq> None) cs \<and>
    List.map civ_LineTotal new = List.map (line_total tm s) cs"
proof (induction cs arbitrary: n views subtotal)
  case Nil
  then show ?case by simp
next
  case (Cons ci cs)
  obtain view where view: "resolveItemView E n ci tm s =
      Inr (view, case line_total tm s ci of None \<Rightarrow> 0 | Some x \<Rightarrow> x)"
    "civ_ItemID view = ci_ID ci" "civ_Available view = (line_unit tm s ci \<noteq> None)"
    "civ_LineTotal view = line_total tm s ci"
    using resolveItemView_eq [OF assms(1,2), of n ci tm s] by blast
  obtain new where new: "cart_views E tm s (Suc n) cs (views @ [view])
      (subtotal + (case line_total tm s ci of None \<Rightarrow> 0 | Some x \<Rightarrow> x)) =
      Inr ((views @ [view]) @ new, subtotal + (case line_total tm s ci of None \<Rightarrow> 0 | Some x \<Rightarrow> x) +
        (\<Sum>ci\<leftarrow>cs. case line_total tm s ci of None \<Rightarrow> 0 | Some x \<Rightarrow> x))"
    "List.map civ_ItemID new = List.map ci_ID cs"
    "List.map civ_Available new = List.map (\<lambda>ci. line_unit tm s ci \<noteq> None) cs"
    "List.map civ_LineTotal new = List.map (line_total tm s) cs"
    using Cons.IH by blast
  show ?case
    by (rule exI [of _ "view # new"]) (simp add: view new add.assoc)
qed

lemma add_toppings_eq:
  "add_toppings tm ts u =
    (if \<forall>t \<in> set ts. tm t \<noteq> None then Some (u + (\<Sum>t\<leftarrow>ts. tp_ExtraPrice (the (tm t)))) else None)"
  by (induction ts arbitrary: u) (auto split: option.split simp: algebra_simps)

text \<open>An order line is made only for a line with a price, at that price.\<close>

lemma resolveOrderItem_Inr:
  assumes "resolveOrderItem E n ci tm s = Inr (item, tot)"
  shows "line_total tm s ci = Some tot \<and> line_unit tm s ci = Some (oi_UnitPrice item) \<and>
    oi_TotalPrice item = tot \<and> oi_Quantity item = ci_Quantity ci \<and> oi_PizzaID item = ci_PizzaID ci \<and>
    oi_SizeID item = ci_SizeID ci \<and> oi_ExtraToppingIDs item = ci_ExtraToppingIDs ci \<and>
    newV7 E n = Some (oi_ID item)"
proof -
  have faults: "\<not> fault E (PizzaFindByID n)" "\<not> fault E (PriceListByPizza n)"
    using assms by (cases "fault E (PizzaFindByID n)"; cases "fault E (PriceListByPizza n)";
      simp add: resolveOrderItem_def Pizza_FindByID_def Price_ListByPizza_def io_def errors_is_def
      split: option.splits)+
  then obtain pizza where pizza: "find_row pz_ID (ci_PizzaID ci) (t_pizzas s) = Some pizza"
    using assms by (cases "find_row pz_ID (ci_PizzaID ci) (t_pizzas s)")
      (simp_all add: resolveOrderItem_def Pizza_FindByID_def errors_is_def)
  let ?prices = "filter (\<lambda>p. pp_PizzaID p = ci_PizzaID ci) (t_pizza_prices s)"
  obtain p where price: "find_price (ci_SizeID ci) ?prices = Some p"
    using assms faults pizza by (cases "find_price (ci_SizeID ci) ?prices")
      (simp_all add: resolveOrderItem_def Pizza_FindByID_def Price_ListByPizza_def)
  obtain u where u: "add_toppings tm (ci_ExtraToppingIDs ci) (pp_Price p) = Some u"
    using assms faults pizza price by (cases "add_toppings tm (ci_ExtraToppingIDs ci) (pp_Price p)")
      (simp_all add: resolveOrderItem_def Pizza_FindByID_def Price_ListByPizza_def)
  obtain itemID where itemID: "newV7 E n = Some itemID"
    using assms faults pizza price u by (cases "newV7 E n")
      (simp_all add: resolveOrderItem_def Pizza_FindByID_def Price_ListByPizza_def)
  have unit: "line_unit tm s ci = Some u"
    using u pizza price by (simp add: line_unit_def add_toppings_eq split: if_splits)
  show ?thesis
    using assms faults pizza price u itemID unit
    by (auto simp: resolveOrderItem_def Pizza_FindByID_def Price_ListByPizza_def line_total_def Let_def)
qed

text \<open>The correspondence of a cart line and the order line made of it.\<close>

definition priced_line ::
  "(uuid \<Rightarrow> 'd::linordered_idom ToppingPrice option) \<Rightarrow> 'd db \<Rightarrow> CartItem \<Rightarrow> 'd OrderItem \<Rightarrow> bool" where
  "priced_line tm s ci item \<longleftrightarrow>
     oi_PizzaID item = ci_PizzaID ci \<and> oi_SizeID item = ci_SizeID ci \<and>
     oi_ExtraToppingIDs item = ci_ExtraToppingIDs ci \<and> oi_Quantity item = ci_Quantity ci \<and>
     line_unit tm s ci = Some (oi_UnitPrice item) \<and>
     oi_TotalPrice item = oi_UnitPrice item * quantity_of (ci_Quantity ci)"

lemma order_items_Inr:
  assumes "order_items E tm s n cs items subtotal = Inr (items', subtotal')"
  shows "\<exists>new. items' = items @ new \<and> list_all2 (priced_line tm s) cs new \<and>
    subtotal' = subtotal + (\<Sum>i\<leftarrow>new. oi_TotalPrice i)"
  using assms
proof (induction cs arbitrary: n items subtotal)
  case Nil
  then show ?case by simp
next
  case (Cons ci cs)
  obtain item tot where item: "resolveOrderItem E n ci tm s = Inr (item, tot)"
    and rest: "order_items E tm s (Suc n) cs (items @ [item]) (subtotal + tot) = Inr (items', subtotal')"
    using Cons.prems by (auto split: sum.splits)
  note it = resolveOrderItem_Inr [OF item]
  then have line: "priced_line tm s ci item" by (auto simp: priced_line_def line_total_def)
  obtain new where new: "items' = (items @ [item]) @ new" "list_all2 (priced_line tm s) cs new"
      "subtotal' = subtotal + tot + (\<Sum>i\<leftarrow>new. oi_TotalPrice i)"
    using Cons.IH [OF rest] by blast
  show ?case
    by (rule exI [of _ "item # new"]) (use new line it in \<open>simp add: add.assoc\<close>)
qed

lemma priced_lines_total:
  "list_all2 (priced_line tm s) cs items \<Longrightarrow>
    (\<Sum>i\<leftarrow>items. oi_TotalPrice i) = (\<Sum>ci\<leftarrow>cs. case line_total tm s ci of None \<Rightarrow> 0 | Some x \<Rightarrow> x)"
  by (induction rule: list_all2_induct) (auto simp: priced_line_def line_total_def)

lemma priced_lines_available:
  "list_all2 (priced_line tm s) cs items \<Longrightarrow> \<forall>ci \<in> set cs. line_unit tm s ci \<noteq> None"
  by (induction rule: list_all2_induct) (auto simp: priced_line_def)

definition lines_of :: "'d db \<Rightarrow> Cart \<Rightarrow> CartItem list" where
  "lines_of s c = filter (\<lambda>i. ci_CartID i = c_ID c) (t_cart_items s)"

definition no_faults :: "env \<Rightarrow> bool" where
  "no_faults E \<longleftrightarrow> fault E = (\<lambda>_. False)"

lemma no_faultsD [simp]: "no_faults E \<Longrightarrow> \<not> fault E c"
  by (simp add: no_faults_def)

lemma GetCart_eq:
  assumes "no_faults E" and "cart_of s customerID = Some c"
  shows "\<exists>resp. GetCart_Execute E customerID s = Inr resp \<and>
    gcr_CartID resp = c_ID c \<and> gcr_RestaurantID resp = c_RestaurantID c \<and>
    List.map civ_ItemID (gcr_Items resp) = List.map ci_ID (lines_of s c) \<and>
    List.map civ_Available (gcr_Items resp) =
      List.map (\<lambda>ci. line_unit (toppings_of s (c_RestaurantID c)) s ci \<noteq> None) (lines_of s c) \<and>
    List.map civ_LineTotal (gcr_Items resp) =
      List.map (line_total (toppings_of s (c_RestaurantID c)) s) (lines_of s c) \<and>
    gcr_Subtotal resp = (\<Sum>ci\<leftarrow>lines_of s c.
      case line_total (toppings_of s (c_RestaurantID c)) s ci of None \<Rightarrow> 0 | Some x \<Rightarrow> x)"
proof -
  have nf: "\<And>c. \<not> fault E c" using assms(1) by simp
  obtain new where new: "cart_views E (toppings_of s (c_RestaurantID c)) s 0 (lines_of s c) [] 0 =
      Inr ([] @ new, 0 + (\<Sum>ci\<leftarrow>lines_of s c.
        case line_total (toppings_of s (c_RestaurantID c)) s ci of None \<Rightarrow> 0 | Some x \<Rightarrow> x))"
    "List.map civ_ItemID new = List.map ci_ID (lines_of s c)"
    "List.map civ_Available new =
      List.map (\<lambda>ci. line_unit (toppings_of s (c_RestaurantID c)) s ci \<noteq> None) (lines_of s c)"
    "List.map civ_LineTotal new = List.map (line_total (toppings_of s (c_RestaurantID c)) s) (lines_of s c)"
    using cart_views_eq [OF nf nf] by blast
  show ?thesis
    using assms(2) new nf
    by (simp add: GetCart_Execute_def Cart_FindByCustomer_def cart_of_def Topping_ListByRestaurant_def
        preload_cart_def toppings_of_def lines_of_def)
qed


end
