(* ===== verification/Checkout_Props.thy ===== *)
theory Checkout_Props
  imports Pricing
begin

text \<open>
  What a checkout does to the database and asks of payment-service, when it succeeds and when it
  fails, for every geocoder that keeps to its interface; the properties instantiate it with the
  caching geocoder the service runs.
\<close>

subsection \<open>The stages of a checkout that succeeds\<close>

lemma check_fulfillment_Inr:
  "check_fulfillment restaurant input = Inr u \<Longrightarrow>
    (cr_Fulfillment input = FulfillmentPickup \<and> r_Pickup restaurant) \<or>
    (cr_Fulfillment input = FulfillmentDelivery \<and> r_DeliveryType restaurant \<noteq> ''none'' \<and>
     cr_DeliveryAddress input \<noteq> None)"
  by (auto simp: check_fulfillment_def split: Fulfillment.splits if_splits)

text \<open>What the customer gets for a fulfillment: the fee, and for a delivery a point within reach.\<close>

definition fulfilled ::
  "'d::linordered_idom Restaurant \<Rightarrow> CheckoutRequest \<Rightarrow> 'd Order \<Rightarrow> bool" where
  "fulfilled restaurant input ord \<longleftrightarrow>
     o_Fulfillment ord = cr_Fulfillment input \<and>
     (case cr_Fulfillment input of
        FulfillmentPickup \<Rightarrow> r_Pickup restaurant \<and> o_DeliveryFee ord = 0 \<and>
          o_DeliveryAddress ord = None \<and> o_DeliveryLat ord = None \<and> o_DeliveryLon ord = None
      | FulfillmentDelivery \<Rightarrow> r_DeliveryType restaurant \<noteq> ''none'' \<and>
          o_DeliveryFee ord = r_DeliveryFee restaurant \<and>
          o_DeliveryAddress ord = map_option to_address (cr_DeliveryAddress input) \<and>
          (\<exists>lat lon km. o_DeliveryLat ord = Some lat \<and> o_DeliveryLon ord = Some lon \<and>
             r_DeliveryKm restaurant = Some km \<and>
             HaversineKm lat lon (r_Lat restaurant) (r_Lon restaurant) \<le> of_int (sint km)))"

lemma delivery_terms_Inr:
  assumes "delivery_terms G restaurant input s = (Inr (address, lat, lon, fee), s')"
    and "check_fulfillment restaurant input = Inr u"
  shows "fulfilled restaurant input
    (NewOrder now i c r (cr_Fulfillment input) e ph address lat lon its sub fee tot cur sv)"
proof (cases "cr_Fulfillment input")
  case FulfillmentPickup
  then show ?thesis using assms check_fulfillment_Inr [OF assms(2)]
    by (simp add: delivery_terms_def fulfilled_def NewOrder_def)
next
  case FulfillmentDelivery
  with check_fulfillment_Inr [OF assms(2)] obtain a where
    a: "cr_DeliveryAddress input = Some a" "r_DeliveryType restaurant \<noteq> ''none''" by auto
  then show ?thesis using assms(1) FulfillmentDelivery
    by (auto simp: delivery_terms_def fulfilled_def NewOrder_def not_less
        split: prod.splits sum.splits option.splits if_splits)
qed

text \<open>The order as \<open>Create\<close> leaves it in memory.\<close>

definition placed :: "env \<Rightarrow> 'd Order \<Rightarrow> 'd Order" where
  "placed E ord = ord\<lparr> o_Items := List.map (\<lambda>i. i\<lparr> oi_OrderID := o_ID ord \<rparr>) (o_Items ord),
     o_PlacedAt := (if o_PlacedAt ord = zero_time then clock E else o_PlacedAt ord) \<rparr>"

lemma placed_simps [simp]:
  "o_ID (placed E ord) = o_ID ord" "o_events (placed E ord) = o_events ord"
  "o_PaymentID (placed E ord) = o_PaymentID ord" "order_inv (placed E ord) = order_inv ord"
  by (simp_all add: placed_def)

lemma Order_Create_Inr:
  assumes "Order_Create E ord s = (Inr ord', s')"
  shows "ord' = placed E ord \<and>
    s' = s\<lparr> t_orders := t_orders s @ [stored (placed E ord)],
            t_order_items := t_order_items s @ o_Items (placed E ord) \<rparr> \<and>
    find_row o_ID (o_ID ord) (t_orders s) = None \<and> order_row_ok s (placed E ord) \<and>
    payment_id_free s (placed E ord) \<and> list_all order_item_row_ok (o_Items (placed E ord)) \<and>
    distinct (List.map oi_ID (t_order_items s @ o_Items (placed E ord)))"
  using assms unfolding Order_Create_def Let_def
  by (auto simp: placed_def simp del: distinct_append map_append map_map split: if_splits)

lemma Cart_Clear_Inr: "Cart_Clear E cartID s = (Inr u, s') \<longleftrightarrow> \<not> fault E CartDelete \<and> s' = delete_cart cartID s"
  by (auto simp: Cart_Clear_def)

lemma place_order_Inr:
  assumes "place_order L E cartID ord s = (Inr ord', s')"
  shows "ord' = (placed E ord)\<lparr> o_events := [] \<rparr> \<and>
    s' = (delete_cart cartID s)\<lparr> t_orders := t_orders s @ [stored (placed E ord)],
            t_order_items := t_order_items s @ o_Items (placed E ord),
            t_outbox := fold (outbox_Create (traceParent E))
              (outbox_rows_for L E [] (o_ID ord) (o_events ord)) (t_outbox s) \<rparr> \<and>
    find_row o_ID (o_ID ord) (t_orders s) = None \<and> order_row_ok s (placed E ord) \<and>
    list_all order_item_row_ok (o_Items (placed E ord)) \<and>
    distinct (List.map oi_ID (t_order_items s @ o_Items (placed E ord)))"
proof -
  obtain ord1 s1 s2 where create: "Order_Create E ord s = (Inr ord1, s1)"
    and clear: "s2 = delete_cart cartID s1" and dispatch: "DispatchEventsTx L E [] ord1 s2 = (Inr ord', s')"
    using assms by (auto simp: place_order_def bind_Inr Cart_Clear_Inr)
  show ?thesis
    using Order_Create_Inr [OF create] DispatchEventsTx_Inr [OF dispatch]
    by (simp add: clear delete_cart_def del: distinct_append map_append)
qed

definition payment_request :: "'d lib \<Rightarrow> string \<Rightarrow> 'd Order \<Rightarrow> 'd CreatePaymentRequest" where
  "payment_request L base ord =
     \<lparr> cpr_OrderID = o_ID ord, cpr_RestaurantID = o_RestaurantID ord,
       cpr_CustomerID = o_CustomerID ord, cpr_Amount = o_Total ord, cpr_Currency = o_Currency ord,
       cpr_RedirectURL = redirect_url L base (o_ID ord) \<rparr>"

lemma pay_order_Inr:
  assumes "pay_order L E P base ord s = (Inr resp, s')"
  shows "\<exists>result. CreatePayment P (payment_request L base ord) = Inr result \<and>
    resp = \<lparr> cs_OrderID = o_ID ord, cs_CheckoutURL = cps_CheckoutURL result \<rparr> \<and>
    s' = s\<lparr> calls := calls s @ [CreatePaymentCall (payment_request L base ord)],
            t_orders := save_order (ord\<lparr> o_PaymentID := Some (cps_PaymentID result) \<rparr>) (t_orders s) \<rparr>"
  using assms
  by (auto simp: pay_order_def bind_Inr create_payment_def payment_request_def Order_Update_def
      split: if_splits)

text \<open>The order a checkout makes, before it is stored.\<close>

definition checkout_order ::
  "env \<Rightarrow> uuid \<Rightarrow> uuid \<Rightarrow> Cart \<Rightarrow> CheckoutRequest \<Rightarrow> Customer \<Rightarrow> 'd::linordered_idom Restaurant \<Rightarrow>
   Address option \<Rightarrow> real option \<Rightarrow> real option \<Rightarrow> 'd OrderItem list \<Rightarrow> 'd \<Rightarrow> 'd \<Rightarrow> 'd Order" where
  "checkout_order E orderID customerID c input customer restaurant address lat lon items subtotal fee =
     NewOrder (clock E) orderID customerID (c_RestaurantID c) (cr_Fulfillment input)
       (cu_Email customer) (cu_Phone customer) address lat lon items subtotal fee
       (subtotal + fee) (r_Currency restaurant) (cr_SaveAddress input)"

lemma Checkout_Inr:
  assumes "Checkout_Execute L E G P base customerID input s = (Inr resp, s')"
  obtains c restaurant customer items subtotal address lat lon fee orderID s1 ord s2 where
    "Cart_FindByCustomer E customerID s = Inr (Some c)" "c_Items c \<noteq> []"
    "Restaurant_FindByID E (c_RestaurantID c) s = Inr restaurant"
    "check_fulfillment restaurant input = Inr ()"
    "Customer_FindByID E customerID s = Inr customer"
    "order_items E (toppings_of s (c_RestaurantID c)) s 0 (c_Items c) [] 0 = Inr (items, subtotal)"
    "\<not> subtotal < r_MinimumOrder restaurant"
    "delivery_terms G restaurant input s = (Inr (address, lat, lon, fee), s1)"
    "newV7 E (length items) = Some orderID"
    "place_order L E (c_ID c) (checkout_order E orderID customerID c input customer restaurant
       address lat lon items subtotal fee) s1 = (Inr ord, s2)"
    "pay_order L E P base ord s2 = (Inr resp, s')"
  using assms unfolding Checkout_Execute_def bind_Inr op_Inr
  apply (elim exE conjE)
  subgoal for found
    by (cases found)
      (auto simp: bind_Inr Topping_ListByRestaurant_def toppings_of_def checkout_order_def
        simp del: bind_simps split: option.splits)
  done

lemma save_order_last:
  assumes "find_row o_ID (o_ID ord) tbl = None" "o_ID x = o_ID ord"
  shows "save_order ord (tbl @ [x]) = tbl @ [stored ord]"
proof -
  have "\<forall>r \<in> set tbl. o_ID r \<noteq> o_ID ord" using assms(1) by (simp add: find_row_None)
  then have "update_where (\<lambda>r. o_ID r = o_ID ord) (\<lambda>_. stored ord) tbl = tbl" by simp
  with assms show ?thesis by (simp add: save_order_def)
qed

lemma priced_line_OrderID [simp]: "priced_line tm s ci (i\<lparr> oi_OrderID := u \<rparr>) = priced_line tm s ci i"
  by (simp add: priced_line_def)

lemma fulfilled_stored [simp]:
  "fulfilled r input (stored ord) = fulfilled r input ord"
  "fulfilled r input (ord\<lparr> o_PaymentID := p \<rparr>) = fulfilled r input ord"
  "fulfilled r input (ord\<lparr> o_events := es \<rparr>) = fulfilled r input ord"
  "fulfilled r input (placed E ord) = fulfilled r input ord"
  by (simp_all add: fulfilled_def stored_def placed_def split: Fulfillment.split)

lemma order_row_ok_cong:
  "t_restaurants s' = t_restaurants s \<Longrightarrow> order_row_ok s' ord = order_row_ok s ord"
  by (simp add: order_row_ok_def)

lemma effect_combine:
  assumes "but_geocode s1 = but_geocode s"
    and "s2 = (delete_cart i s1)\<lparr> t_orders := a, t_order_items := b, t_outbox := out \<rparr>"
    and "s' = s2\<lparr> calls := d, t_orders := e \<rparr>"
  shows "but_geocode s' = but_geocode ((delete_cart i s)\<lparr> t_orders := e, t_order_items := b,
    t_outbox := out, calls := d \<rparr>)"
  using assms(1) unfolding assms(2,3)
  by (cases s; cases s1) (simp add: but_geocode_def delete_cart_def)

lemma Cart_FindByCustomer_Inr:
  "Cart_FindByCustomer E customerID s = Inr (Some c) \<Longrightarrow>
    \<exists>row. cart_of s customerID = Some row \<and> c = preload_cart s row"
  by (auto simp: Cart_FindByCustomer_def cart_of_def io_def split: if_splits)

text \<open>The row a finished checkout leaves, and the rest of what it changes.\<close>

definition final_row :: "env \<Rightarrow> string \<Rightarrow> 'd Order \<Rightarrow> 'd Order" where
  "final_row E pid ord = stored ((placed E ord)\<lparr> o_events := [], o_PaymentID := Some pid \<rparr>)"

context geocoder
begin

lemma delivery_terms_frame:
  "delivery_terms geocode restaurant input s = (r, s') \<Longrightarrow> but_geocode s' = but_geocode s"
  by (auto simp: delivery_terms_def ret_def split: Fulfillment.splits option.splits prod.splits sum.splits
      if_splits dest: geocode_frame)

lemma checkout_effect:
  assumes "Checkout_Execute L E geocode P base customerID input s = (Inr resp, s')"
  obtains c restaurant customer items subtotal address lat lon fee orderID ord result where
    "cart_of s customerID = Some c" "lines_of s c \<noteq> []"
    "find_row r_ID (c_RestaurantID c) (t_restaurants s) = Some restaurant"
    "find_row cu_ID customerID (t_customers s) = Some customer"
    "order_items E (toppings_of s (c_RestaurantID c)) s 0 (lines_of s c) [] 0 = Inr (items, subtotal)"
    "r_MinimumOrder restaurant \<le> subtotal"
    "ord = checkout_order E orderID customerID c input customer restaurant address lat lon items subtotal fee"
    "fulfilled restaurant input ord" "find_row o_ID orderID (t_orders s) = None"
    "order_row_ok s (placed E ord)" "list_all order_item_row_ok (o_Items (placed E ord))"
    "distinct (List.map oi_ID (t_order_items s @ o_Items (placed E ord)))"
    "CreatePayment P (payment_request L base ord) = Inr result"
    "resp = \<lparr> cs_OrderID = orderID, cs_CheckoutURL = cps_CheckoutURL result \<rparr>"
    "but_geocode s' = but_geocode ((delete_cart (c_ID c) s)\<lparr>
       t_orders := t_orders s @ [final_row E (cps_PaymentID result) ord],
       t_order_items := t_order_items s @ o_Items (placed E ord),
       t_outbox := fold (outbox_Create (traceParent E)) (outbox_rows_for L E [] orderID (o_events ord)) (t_outbox s),
       calls := calls s @ [CreatePaymentCall (payment_request L base ord)] \<rparr>)"
  using assms
proof (cases rule: Checkout_Inr)
  case (1 c restaurant customer items subtotal address lat lon fee orderID s1 ord s2)
  let ?new = "checkout_order E orderID customerID c input customer restaurant address lat lon items subtotal fee"
  obtain row where row: "cart_of s customerID = Some row" "c = preload_cart s row"
    using Cart_FindByCustomer_Inr [OF 1(1)] by blast
  have new: "o_ID ?new = orderID" "?new = checkout_order E orderID customerID row input customer
      restaurant address lat lon items subtotal fee"
    by (simp_all add: checkout_order_def NewOrder_def row(2) preload_cart_def)
  have f: "but_geocode s1 = but_geocode s" using delivery_terms_frame [OF 1(8)] .
  note s1 = but_geocode_eqD [OF f]
  note pl = place_order_Inr [OF 1(10)]
  obtain result where pay: "CreatePayment P (payment_request L base ord) = Inr result"
    "resp = \<lparr> cs_OrderID = o_ID ord, cs_CheckoutURL = cps_CheckoutURL result \<rparr>"
    "s' = s2\<lparr> calls := calls s2 @ [CreatePaymentCall (payment_request L base ord)],
            t_orders := save_order (ord\<lparr> o_PaymentID := Some (cps_PaymentID result) \<rparr>) (t_orders s2) \<rparr>"
    using pay_order_Inr [OF 1(11)] by blast
  have req: "payment_request L base ord = payment_request L base ?new"
    using pl by (simp add: payment_request_def placed_def)
  have ff: "fulfilled restaurant input ?new"
    unfolding checkout_order_def by (rule delivery_terms_Inr [OF 1(8,4)])
  have ok: "order_row_ok s (placed E ?new)"
    using pl order_row_ok_cong [OF s1(6)] by blast
  have ord: "ord = (placed E ?new)\<lparr> o_events := [] \<rparr>" "t_orders s2 = t_orders s @ [stored (placed E ?new)]"
    "find_row o_ID (o_ID ?new) (t_orders s) = None"
    using pl s1(3) by simp_all
  have "save_order (ord\<lparr> o_PaymentID := Some (cps_PaymentID result) \<rparr>) (t_orders s2) =
      t_orders s @ [stored (ord\<lparr> o_PaymentID := Some (cps_PaymentID result) \<rparr>)]"
    unfolding ord(2) by (rule save_order_last) (use ord in \<open>simp_all add: stored_def\<close>)
  then have saved: "save_order (ord\<lparr> o_PaymentID := Some (cps_PaymentID result) \<rparr>) (t_orders s2) =
      t_orders s @ [final_row E (cps_PaymentID result) ?new]"
    by (simp add: final_row_def ord(1))
  show ?thesis
  proof (rule that [where orderID = orderID and ord = ?new and result = result and c = row])
    show "but_geocode s' = but_geocode ((delete_cart (c_ID row) s)\<lparr>
       t_orders := t_orders s @ [final_row E (cps_PaymentID result) ?new],
       t_order_items := t_order_items s @ o_Items (placed E ?new),
       t_outbox := fold (outbox_Create (traceParent E)) (outbox_rows_for L E [] orderID (o_events ?new)) (t_outbox s),
       calls := calls s @ [CreatePaymentCall (payment_request L base ?new)] \<rparr>)"
    proof (rule effect_combine [OF f])
      show "s2 = (delete_cart (c_ID row) s1)\<lparr> t_orders := t_orders s2,
          t_order_items := t_order_items s @ o_Items (placed E ?new),
          t_outbox := fold (outbox_Create (traceParent E)) (outbox_rows_for L E [] orderID (o_events ?new)) (t_outbox s) \<rparr>"
        using pl s1(3,4,10) new(1) row(2) by (simp add: preload_cart_def)
      show "s' = s2\<lparr> calls := calls s @ [CreatePaymentCall (payment_request L base ?new)],
          t_orders := t_orders s @ [final_row E (cps_PaymentID result) ?new] \<rparr>"
        using pay(3) req saved pl s1(11) by (simp add: delete_cart_def)
    qed
    show "lines_of s row \<noteq> []" using 1(2) row(2) by (simp add: lines_of_def preload_cart_def)
    show "find_row r_ID (c_RestaurantID row) (t_restaurants s) = Some restaurant"
      using 1(3) row(2) by (simp add: Restaurant_FindByID_def preload_cart_def split: option.splits)
    show "find_row cu_ID customerID (t_customers s) = Some customer"
      using 1(5) by (simp add: Customer_FindByID_def split: option.splits)
    show "order_items E (toppings_of s (c_RestaurantID row)) s 0 (lines_of s row) [] 0 = Inr (items, subtotal)"
      using 1(6) row(2) by (simp add: lines_of_def preload_cart_def)
    show "r_MinimumOrder restaurant \<le> subtotal" using 1(7) by simp
    show "list_all order_item_row_ok (o_Items (placed E ?new))" using pl by blast
    show "distinct (List.map oi_ID (t_order_items s @ o_Items (placed E ?new)))" using pl s1(4) by metis
    show "CreatePayment P (payment_request L base ?new) = Inr result" using pay(1) req by simp
    show "resp = \<lparr> cs_OrderID = orderID, cs_CheckoutURL = cps_CheckoutURL result \<rparr>"
      using pay(2) ord(1) new(1) by simp
    show "find_row o_ID orderID (t_orders s) = None" using ord(3) new(1) by simp
  qed (fact row(1) new(2) ff ok)+
qed

end

lemma place_order_Inl: "place_order L E cartID ord s = (Inl e, s') \<Longrightarrow> s' = s"
  unfolding place_order_def by (rule transaction_Inl)

lemma pay_order_Inl:
  assumes "pay_order L E P base ord s = (Inl e, s')"
  shows "s' = s\<lparr> calls := calls s @ [CreatePaymentCall (payment_request L base ord)] \<rparr> \<and>
    (\<forall>r. CreatePayment P (payment_request L base ord) = Inr r \<longrightarrow> e = [])"
  using assms
  by (auto simp: pay_order_def bind_Inl create_payment_def payment_request_def Order_Update_def
      split: if_splits)

text \<open>A checkout that fails does so before the order is stored, or in the payment step.\<close>

lemma Checkout_Inl:
  assumes "Checkout_Execute L E G P base customerID input s = (Inl e, s')"
  shows "s' = s \<or>
    (\<exists>restaurant r. delivery_terms G restaurant input s = (r, s')) \<or>
    (\<exists>c restaurant customer items subtotal address lat lon fee orderID s1 ord s2.
       Cart_FindByCustomer E customerID s = Inr (Some c) \<and> c_Items c \<noteq> [] \<and>
       order_items E (toppings_of s (c_RestaurantID c)) s 0 (c_Items c) [] 0 = Inr (items, subtotal) \<and>
       delivery_terms G restaurant input s = (Inr (address, lat, lon, fee), s1) \<and>
       place_order L E (c_ID c) (checkout_order E orderID customerID c input customer restaurant
         address lat lon items subtotal fee) s1 = (Inr ord, s2) \<and>
       pay_order L E P base ord s2 = (Inl e, s'))"
  using assms unfolding Checkout_Execute_def bind_Inl op_Inl op_Inr
  apply (elim disjE exE conjE)
   apply simp
  subgoal for found
    apply (cases found)
     apply simp
    apply (simp add: bind_Inl del: bind_simps)
    apply (elim disjE exE conjE)
            apply blast+
    subgoal premises prems for c restaurant customer tps items subtotal address lat lon fee s1
    proof (cases "newV7 E (length items)")
      case None
      then have "s1 = s'" using prems by simp
      then show ?thesis using prems by blast
    next
      case (Some orderID)
      let ?new = "checkout_order E orderID customerID c input customer restaurant address lat lon items subtotal fee"
      have "place_order L E (c_ID c) ?new s1 = (Inl e, s') \<or>
          (\<exists>ord s2. place_order L E (c_ID c) ?new s1 = (Inr ord, s2) \<and> pay_order L E P base ord s2 = (Inl e, s'))"
        using prems Some by (simp add: bind_Inl checkout_order_def del: bind_simps)
      then show ?thesis
      proof
        assume "place_order L E (c_ID c) ?new s1 = (Inl e, s')"
        then have "s1 = s'" using place_order_Inl by metis
        then show ?thesis using prems by blast
      next
        assume "\<exists>ord s2. place_order L E (c_ID c) ?new s1 = (Inr ord, s2) \<and> pay_order L E P base ord s2 = (Inl e, s')"
        then show ?thesis using prems
          by (auto simp: Topping_ListByRestaurant_def toppings_of_def io_def split: if_splits)
      qed
    qed
    done
  done

lemma final_row_simps [simp]:
  "o_ID (final_row E pid ord) = o_ID ord" "o_CustomerID (final_row E pid ord) = o_CustomerID ord"
  "o_RestaurantID (final_row E pid ord) = o_RestaurantID ord" "o_Status (final_row E pid ord) = o_Status ord"
  "o_Subtotal (final_row E pid ord) = o_Subtotal ord" "o_Total (final_row E pid ord) = o_Total ord"
  "o_DeliveryFee (final_row E pid ord) = o_DeliveryFee ord" "o_Currency (final_row E pid ord) = o_Currency ord"
  "o_PaymentID (final_row E pid ord) = Some pid" "o_events (final_row E pid ord) = []"
  "o_ContactEmail (final_row E pid ord) = o_ContactEmail ord"
  by (simp_all add: final_row_def) (simp_all add: stored_def placed_def)

lemma fulfilled_final [simp]: "fulfilled r input (final_row E pid ord) = fulfilled r input ord"
  by (simp add: final_row_def)

lemma payment_request_final [simp]:
  "payment_request L base (final_row E pid ord) = payment_request L base ord"
  by (simp add: payment_request_def)

lemma checkout_order_simps [simp]:
  "o_ID (checkout_order E i u c input cu r a lat lon its sub fee) = i"
  "o_CustomerID (checkout_order E i u c input cu r a lat lon its sub fee) = u"
  "o_RestaurantID (checkout_order E i u c input cu r a lat lon its sub fee) = c_RestaurantID c"
  "o_Status (checkout_order E i u c input cu r a lat lon its sub fee) = StatusPending"
  "o_Subtotal (checkout_order E i u c input cu r a lat lon its sub fee) = sub"
  "o_DeliveryFee (checkout_order E i u c input cu r a lat lon its sub fee) = fee"
  "o_Total (checkout_order E i u c input cu r a lat lon its sub fee) = sub + fee"
  "o_Items (checkout_order E i u c input cu r a lat lon its sub fee) = its"
  "o_ContactEmail (checkout_order E i u c input cu r a lat lon its sub fee) = cu_Email cu"
  "o_Currency (checkout_order E i u c input cu r a lat lon its sub fee) = r_Currency r"
  "o_PaymentID (checkout_order E i u c input cu r a lat lon its sub fee) = None"
  "order_inv (checkout_order E i u c input cu r a lat lon its sub fee)"
  by (simp_all add: checkout_order_def NewOrder_inv) (simp_all add: NewOrder_def)

lemma but_geocode_simps [simp]:
  "t_carts (but_geocode s) = t_carts s" "t_cart_items (but_geocode s) = t_cart_items s"
  "t_orders (but_geocode s) = t_orders s" "t_order_items (but_geocode s) = t_order_items s"
  "t_customers (but_geocode s) = t_customers s" "t_restaurants (but_geocode s) = t_restaurants s"
  "t_outbox (but_geocode s) = t_outbox s" "calls (but_geocode s) = calls s"
  by (simp_all add: but_geocode_def)

lemma delete_cart_simps [simp]:
  "t_carts (delete_cart i s) = delete_where (\<lambda>c. c_ID c = i) (t_carts s)"
  "t_cart_items (delete_cart i s) = delete_where (\<lambda>x. ci_CartID x = i) (t_cart_items s)"
  "t_orders (delete_cart i s) = t_orders s" "t_order_items (delete_cart i s) = t_order_items s"
  "t_outbox (delete_cart i s) = t_outbox s" "calls (delete_cart i s) = calls s"
  "t_restaurants (delete_cart i s) = t_restaurants s"
  by (simp_all add: delete_cart_def)

text \<open>What the rest of the program can rely on after a checkout.\<close>

definition checked_out ::
  "'d lib \<Rightarrow> string \<Rightarrow> uuid \<Rightarrow> CheckoutRequest \<Rightarrow> 'd::linordered_idom db \<Rightarrow> Cart \<Rightarrow> 'd Order \<Rightarrow>
   'd OrderItem list \<Rightarrow> 'd db \<Rightarrow> bool" where
  "checked_out L base customerID input s c row items s' \<longleftrightarrow>
     t_orders s' = t_orders s @ [row] \<and> t_order_items s' = t_order_items s @ items \<and>
     (\<forall>x \<in> set (t_orders s). o_ID x \<noteq> o_ID row) \<and> (\<forall>i \<in> set items. oi_OrderID i = o_ID row) \<and>
     list_all2 (priced_line (toppings_of s (c_RestaurantID c)) s) (lines_of s c) items \<and>
     lines_of s c \<noteq> [] \<and> list_all order_item_row_ok items \<and>
     distinct (List.map oi_ID (t_order_items s @ items)) \<and>
     o_Status row = StatusPending \<and> order_inv row \<and> o_CustomerID row = customerID \<and>
     o_Items row = [] \<and> o_events row = [] \<and> 0 \<le> o_Subtotal row \<and> 0 \<le> o_DeliveryFee row \<and>
     o_RestaurantID row = c_RestaurantID c \<and>
     o_Subtotal row = (\<Sum>i\<leftarrow>items. oi_TotalPrice i) \<and>
     o_Total row = o_Subtotal row + o_DeliveryFee row \<and>
     t_carts s' = delete_where (\<lambda>x. c_ID x = c_ID c) (t_carts s) \<and>
     t_cart_items s' = delete_where (\<lambda>i. ci_CartID i = c_ID c) (t_cart_items s) \<and>
     calls s' = calls s @ [CreatePaymentCall (payment_request L base row)]"

lemma priced_items_placed:
  "list_all2 (priced_line tm s) cs its \<Longrightarrow>
    list_all2 (priced_line tm s) cs (List.map (\<lambda>i. i\<lparr> oi_OrderID := u \<rparr>) its)"
  by (simp add: list_all2_map2)

context geocoder
begin

lemma checkout_success:
  assumes "Checkout_Execute L E geocode P base customerID input s = (Inr resp, s')"
  shows "\<exists>c restaurant row items result.
    cart_of s customerID = Some c \<and>
    find_row r_ID (c_RestaurantID c) (t_restaurants s) = Some restaurant \<and>
    checked_out L base customerID input s c row items s' \<and>
    fulfilled restaurant input row \<and> r_MinimumOrder restaurant \<le> o_Subtotal row \<and>
    CreatePayment P (payment_request L base row) = Inr result \<and>
    o_PaymentID row = Some (cps_PaymentID result) \<and>
    resp = \<lparr> cs_OrderID = o_ID row, cs_CheckoutURL = cps_CheckoutURL result \<rparr>"
  using assms
proof (cases rule: checkout_effect)
  case (1 c restaurant customer items subtotal address lat lon fee orderID ord result)
  note order_items_Inr [OF 1(5)]
  then have items: "list_all2 (priced_line (toppings_of s (c_RestaurantID c)) s) (lines_of s c) items"
    "subtotal = (\<Sum>i\<leftarrow>items. oi_TotalPrice i)" by auto
  note tables = arg_cong [OF 1(15), of t_orders] arg_cong [OF 1(15), of t_order_items]
    arg_cong [OF 1(15), of t_carts] arg_cong [OF 1(15), of t_cart_items] arg_cong [OF 1(15), of calls]
  have "checked_out L base customerID input s c (final_row E (cps_PaymentID result) ord)
      (o_Items (placed E ord)) s'"
    using tables items 1(2,7,9-12)
    by (auto simp: checked_out_def order_row_ok_def placed_def find_row_None list_all2_map2 comp_def)
      (simp_all add: final_row_def stored_def)
  then show ?thesis using 1(1,3,6-8,13,14) by fastforce
qed

text \<open>A failed checkout has changed nothing, or has left a pending order without a payment.\<close>

lemma checkout_failure:
  assumes "Checkout_Execute L E geocode P base customerID input s = (Inl e, s')"
  shows "but_geocode s' = but_geocode s \<or>
    (\<exists>c row items. cart_of s customerID = Some c \<and>
      checked_out L base customerID input s c row items s' \<and> o_PaymentID row = None \<and>
      (\<forall>r. CreatePayment P (payment_request L base row) = Inr r \<longrightarrow> e = []))"
  using Checkout_Inl [OF assms]
proof (elim disjE exE conjE)
  assume "s' = s" then show ?thesis by simp
next
  fix restaurant r assume "delivery_terms geocode restaurant input s = (r, s')"
  then show ?thesis using delivery_terms_frame by blast
next
  fix c and restaurant :: "'d Restaurant" and customer items subtotal address lat lon fee orderID s1 ord s2
  let ?new = "checkout_order E orderID customerID c input customer restaurant address lat lon items subtotal fee"
  assume c: "Cart_FindByCustomer E customerID s = Inr (Some c)" "c_Items c \<noteq> []"
    and dt: "delivery_terms geocode restaurant input s = (Inr (address, lat, lon, fee), s1)"
    and items: "order_items E (toppings_of s (c_RestaurantID c)) s 0 (c_Items c) [] 0 = Inr (items, subtotal)"
    and place: "place_order L E (c_ID c) ?new s1 = (Inr ord, s2)"
    and pay: "pay_order L E P base ord s2 = (Inl e, s')"
  obtain row where row: "cart_of s customerID = Some row" "c = preload_cart s row"
    using Cart_FindByCustomer_Inr [OF c(1)] by blast
  note s1 = but_geocode_eqD [OF delivery_terms_frame [OF dt]]
  note pl = place_order_Inr [OF place]
  note pi = pay_order_Inl [OF pay]
  have req: "payment_request L base ord = payment_request L base (stored (placed E ?new))"
    using pl by (simp add: payment_request_def stored_def placed_def)
  have "checked_out L base customerID input s row (stored (placed E ?new)) (o_Items (placed E ?new)) s'"
    using pl pi req s1 order_items_Inr [OF items] row(2) c(2)
    by (auto simp: checked_out_def order_row_ok_def placed_def find_row_None list_all2_map2 comp_def preload_cart_def
        lines_of_def stored_def)
  moreover have "o_PaymentID (stored (placed E ?new)) = None" by (simp add: stored_def)
  ultimately show ?thesis using row(1) pi req by auto
qed

end

text \<open>
  C1. A checkout that succeeds turns the customer's cart into one new pending order of the cart's
  restaurant: one order line per cart line at the current price of its size plus its toppings times
  its quantity, subtotal the sum of the lines, total the subtotal plus the restaurant's fee (none for
  a pickup), the minimum order reached, the fulfillment offered and a delivery address within the
  restaurant's radius. The cart and its lines are gone, payment-service was asked exactly once, for
  exactly the total, and its identifier is on the order.
\<close>

theorem checkout_places_order:
  assumes "Checkout_Execute L E (CachingGeocoder_Geocode sha256hex E inner) P base customerID input s =
    (Inr resp, s')"
  shows "\<exists>c restaurant row items result.
    cart_of s customerID = Some c \<and>
    find_row r_ID (c_RestaurantID c) (t_restaurants s) = Some restaurant \<and>
    checked_out L base customerID input s c row items s' \<and>
    fulfilled restaurant input row \<and> r_MinimumOrder restaurant \<le> o_Subtotal row \<and>
    CreatePayment P (payment_request L base row) = Inr result \<and>
    o_PaymentID row = Some (cps_PaymentID result) \<and>
    resp = \<lparr> cs_OrderID = o_ID row, cs_CheckoutURL = cps_CheckoutURL result \<rparr>"
  by (rule caching.checkout_success [OF assms])

text \<open>
  C28. A checkout that fails leaves everything but the geocode cache as it was, unless it fails after
  the order is committed: then the cart has become a pending order that has no payment identifier,
  payment-service was asked once for exactly its total, and the error is payment-service's or a
  database error in recording the identifier. In particular no payment is ever requested for an
  order that is not stored.
\<close>

theorem checkout_failure_leaves:
  assumes "Checkout_Execute L E (CachingGeocoder_Geocode sha256hex E inner) P base customerID input s =
    (Inl e, s')"
  shows "but_geocode s' = but_geocode s \<or>
    (\<exists>c row items. cart_of s customerID = Some c \<and>
      checked_out L base customerID input s c row items s' \<and> o_PaymentID row = None \<and>
      (\<forall>r. CreatePayment P (payment_request L base row) = Inr r \<longrightarrow> e = []))"
  by (rule caching.checkout_failure [OF assms])

text \<open>
  C29. What the customer saw is what is charged: when a checkout succeeds, looking at the cart in the
  state before it shows every line as available, each with the line total of the order that was
  made, and as subtotal the order's subtotal.
\<close>

theorem cart_shows_what_checkout_charges:
  assumes "Checkout_Execute L E (CachingGeocoder_Geocode sha256hex E inner) P base customerID input s =
      (Inr resp, s')"
    and "no_faults E'"
  shows "\<exists>row items view. t_orders s' = t_orders s @ [row] \<and> t_order_items s' = t_order_items s @ items \<and>
    GetCart_Execute E' customerID s = Inr view \<and> gcr_Subtotal view = o_Subtotal row \<and>
    list_all civ_Available (gcr_Items view) \<and>
    List.map civ_LineTotal (gcr_Items view) = List.map (\<lambda>i. Some (oi_TotalPrice i)) items"
proof -
  obtain c row items where c: "cart_of s customerID = Some c"
    and co: "checked_out L base customerID input s c row items s'"
    using caching.checkout_success [OF assms(1)] by blast
  let ?tm = "toppings_of s (c_RestaurantID c)"
  have lines: "list_all2 (priced_line ?tm s) (lines_of s c) items"
    and sub: "o_Subtotal row = (\<Sum>i\<leftarrow>items. oi_TotalPrice i)"
    and tabs: "t_orders s' = t_orders s @ [row]" "t_order_items s' = t_order_items s @ items"
    using co by (auto simp: checked_out_def)
  obtain view where view: "GetCart_Execute E' customerID s = Inr view"
    "List.map civ_Available (gcr_Items view) = List.map (\<lambda>ci. line_unit ?tm s ci \<noteq> None) (lines_of s c)"
    "List.map civ_LineTotal (gcr_Items view) = List.map (line_total ?tm s) (lines_of s c)"
    "gcr_Subtotal view = (\<Sum>ci\<leftarrow>lines_of s c. case line_total ?tm s ci of None \<Rightarrow> 0 | Some x \<Rightarrow> x)"
    using GetCart_eq [OF assms(2) c] by blast
  have "list_all (\<lambda>b. b) (List.map civ_Available (gcr_Items view))"
    using priced_lines_available [OF lines] by (simp add: view(2) list_all_iff)
  then have "list_all civ_Available (gcr_Items view)" by (simp add: list_all_iff)
  moreover have "List.map (line_total ?tm s) (lines_of s c) = List.map (\<lambda>i. Some (oi_TotalPrice i)) items"
    using lines by (induction rule: list_all2_induct) (auto simp: priced_line_def line_total_def)
  ultimately show ?thesis
    using view sub priced_lines_total [OF lines] tabs by auto
qed

end
