(* ===== verification/Order_Commands.thy ===== *)
theory Order_Commands
  imports Checkout_Props
begin

text \<open>
  The rest of the order API: \<open>Cancel\<close>, \<open>MarkReady\<close>, \<open>Complete\<close> (\<open>application/order/commands\<close>), the
  queries \<open>GetOrder\<close>, \<open>ListMyOrders\<close>, \<open>ListRestaurantOrders\<close> (\<open>application/order/queries\<close>), the
  consumers of \<open>payment.succeeded\<close> and \<open>payment.failed\<close> (\<open>application/order/handlers\<close>) and the
  mapping of errors to HTTP statuses (\<open>interfaces/http/response\<close>).
\<close>

subsection \<open>Commands\<close>

text \<open>An order that is not the caller's is reported as forbidden, whether or not it exists.\<close>

definition forbid_missing :: "(order_err, 'a) result \<Rightarrow> (order_err, 'a) result" where
  "forbid_missing r = (case r of
     Inl e \<Rightarrow> if errors_is e (App ErrNotFound) then Inl [App ErrForbidden] else Inl e
   | Inr x \<Rightarrow> Inr x)"

definition conflict :: "(order_err, 'a) result \<Rightarrow> (order_err, 'a) result" where
  "conflict r = (case r of Inl e \<Rightarrow> Inl (e @ [App ErrConflict]) | Inr x \<Rightarrow> Inr x)"

definition find_for_role ::
  "env \<Rightarrow> uuid \<Rightarrow> uuid \<Rightarrow> string \<Rightarrow> 'd db \<Rightarrow> (order_err, 'd Order) result" where
  "find_for_role E orderID userID role s =
     (if role = ''owner'' then Order_FindByIDAndRestaurantOwner E orderID userID s
      else Order_FindByIDAndCustomer E orderID userID s)"

definition check_payment :: "'d provider \<Rightarrow> 'd Order \<Rightarrow> (order_err, unit) result" where
  "check_payment P ord = (case o_PaymentID ord of
     None \<Rightarrow> Inr ()
   | Some pid \<Rightarrow>
       (case GetPaymentStatus P pid of
          Inl e \<Rightarrow> Inl e
        | Inr paymentStatus \<Rightarrow>
            if paymentStatus = ''succeeded'' then Inl [App ErrConflict] else Inr ()))"

text \<open>The cancellation at the gateway is best effort: its error is logged.\<close>

definition cancel_at_gateway :: "'d provider \<Rightarrow> 'd Order \<Rightarrow> ('d db, order_err, unit) op" where
  "cancel_at_gateway P ord s = (case o_PaymentID ord of
     None \<Rightarrow> (Inr (), s)
   | Some pid \<Rightarrow> (Inr (), snd (cancel_payment P pid s)))"

definition Cancel_Execute ::
  "env \<Rightarrow> 'd provider \<Rightarrow> uuid \<Rightarrow> uuid \<Rightarrow> string \<Rightarrow> ('d::linordered_idom db, order_err, 'd OrderResponse) op" where
  "Cancel_Execute E P orderID userID role =
     bind (query (\<lambda>s. forbid_missing (find_for_role E orderID userID role s))) (\<lambda>ord.
     bind (query (\<lambda>_. check_payment P ord)) (\<lambda>_.
     bind (query (\<lambda>_. conflict (Cancel (clock E) ord))) (\<lambda>ord'.
     bind (Order_Update E ord') (\<lambda>_.
     bind (cancel_at_gateway P ord') (\<lambda>_.
     ret (ToOrderResponse ord'))))))"

definition MarkReady_Execute ::
  "env \<Rightarrow> uuid \<Rightarrow> uuid \<Rightarrow> ('d::linordered_idom db, order_err, 'd OrderResponse) op" where
  "MarkReady_Execute E orderID ownerID =
     bind (query (\<lambda>s. forbid_missing (Order_FindByIDAndRestaurantOwner E orderID ownerID s))) (\<lambda>ord.
     bind (query (\<lambda>_. conflict (MarkReady (clock E) ord))) (\<lambda>ord'.
     bind (Order_Update E ord') (\<lambda>_.
     ret (ToOrderResponse ord'))))"

definition Complete_Execute ::
  "env \<Rightarrow> uuid \<Rightarrow> uuid \<Rightarrow> ('d::linordered_idom db, order_err, 'd OrderResponse) op" where
  "Complete_Execute E orderID ownerID =
     bind (query (\<lambda>s. forbid_missing (Order_FindByIDAndRestaurantOwner E orderID ownerID s))) (\<lambda>ord.
     bind (query (\<lambda>_. conflict (Complete (clock E) ord))) (\<lambda>ord'.
     bind (Order_Update E ord') (\<lambda>_.
     ret (ToOrderResponse ord'))))"

subsection \<open>Payment events\<close>

text \<open>
  The body of a message is \<open>None\<close> when it is no JSON document. \<open>paymentEventPayload\<close> has the two
  fields the consumers read.
\<close>

record paymentEventPayload =
  pep_SubjectType :: string
  pep_SubjectID :: uuid

definition unmarshal_payment_event :: "'d lib \<Rightarrow> json option \<Rightarrow> paymentEventPayload option" where
  "unmarshal_payment_event L body = (case body of
     None \<Rightarrow> None
   | Some j \<Rightarrow>
       if \<not> is_struct j then None
       else (case (dec_str (member j ''subject_type''), dec_uuid L (member j ''subject_id'')) of
          (Some t, Some u) \<Rightarrow> Some \<lparr> pep_SubjectType = t, pep_SubjectID = u \<rparr>
        | _ \<Rightarrow> None))"

definition enrichConfirmed ::
  "'d lib \<Rightarrow> 'd Order \<Rightarrow> string \<Rightarrow> string \<Rightarrow> OrderItemPayload list \<Rightarrow> enricher" where
  "enrichConfirmed L ord restaurantName ownerEmail items e = (case e of
     OrderConfirmed _ _ _ _ \<Rightarrow> Some (''order.confirmed'', marshal_OrderConfirmed L
       (NewOrderConfirmedPayload L e ord restaurantName ownerEmail items))
   | AddressSaved _ _ _ _ _ _ \<Rightarrow> None)"

definition item_payloads :: "'d Order \<Rightarrow> OrderItemPayload list" where
  "item_payloads ord =
     List.map (\<lambda>i. \<lparr> oip_Name = oi_PizzaName i, oip_Quantity = oi_Quantity i \<rparr>) (o_Items ord)"

definition PaymentSucceeded_Handle ::
  "'d::linordered_idom lib \<Rightarrow> env \<Rightarrow> json option \<Rightarrow> ('d db, order_err, unit) op" where
  "PaymentSucceeded_Handle L E body = (case unmarshal_payment_event L body of
     None \<Rightarrow> fail []
   | Some payload \<Rightarrow>
       if pep_SubjectType payload \<noteq> ''order'' then ret ()
       else transaction (fault E) TxCommit
         (bind (query (Order_FindByID E (pep_SubjectID payload))) (\<lambda>ord.
          case Confirm (clock E) ord of
            Inl e \<Rightarrow> if errors_is e ErrInvalidStatusTransition then ret () else fail e
          | Inr ord' \<Rightarrow>
              bind (Order_Update E ord') (\<lambda>_.
              bind (query (Restaurant_FindByID E (o_RestaurantID ord'))) (\<lambda>restaurant.
              bind (DispatchEventsTx L E
                 [enrichConfirmed L ord' (r_Name restaurant) (r_OwnerEmail restaurant) (item_payloads ord')]
                 ord') (\<lambda>_.
              ret ()))))))"

definition PaymentFailed_Handle ::
  "'d::linordered_idom lib \<Rightarrow> env \<Rightarrow> json option \<Rightarrow> ('d db, order_err, unit) op" where
  "PaymentFailed_Handle L E body = (case unmarshal_payment_event L body of
     None \<Rightarrow> fail []
   | Some payload \<Rightarrow>
       if pep_SubjectType payload \<noteq> ''order'' then ret ()
       else transaction (fault E) TxCommit
         (bind (query (Order_FindByID E (pep_SubjectID payload))) (\<lambda>ord.
          case Cancel (clock E) ord of
            Inl e \<Rightarrow> if errors_is e ErrInvalidStatusTransition then ret () else fail e
          | Inr ord' \<Rightarrow> Order_Update E ord')))"

subsection \<open>Errors over HTTP\<close>

text \<open>The status \<open>HandleError\<close> answers with: the first sentinel of its switch that the chain has.\<close>

definition HandleError :: "order_err list \<Rightarrow> nat" where
  "HandleError err =
     (if errors_is err (App ErrUnauthorized) then 401
      else if errors_is err (App ErrForbidden) then 403
      else if errors_is err (App ErrNotFound) then 404
      else if errors_is err (App ErrInvalid) then 422
      else if errors_is err ErrCartRestaurantMismatch then 409
      else if errors_is err ErrCartEmpty then 422
      else if errors_is err ErrCartItemUnavailable then 409
      else if errors_is err ErrOutsideDeliveryRadius then 422
      else if errors_is err ErrGeocodingUnavailable then 503
      else if errors_is err ErrPaymentServiceUnavailable then 503
      else if errors_is err ErrFulfillmentNotSupported then 409
      else if errors_is err ErrBelowMinimumOrder then 422
      else if errors_is err (App ErrConflict) then 409
      else 500)"

subsection \<open>Queries\<close>

definition GetOrder_Execute ::
  "env \<Rightarrow> uuid \<Rightarrow> uuid \<Rightarrow> string \<Rightarrow> 'd db \<Rightarrow> (order_err, 'd OrderResponse) result" where
  "GetOrder_Execute E orderID userID role s =
     map_sum id ToOrderResponse (forbid_missing (find_for_role E orderID userID role s))"

definition DefaultOrdersLimit :: int where "DefaultOrdersLimit = 20"

definition MaxOrdersLimit :: int where "MaxOrdersLimit = 100"

definition ClampLimit :: "int \<Rightarrow> int" where
  "ClampLimit limit =
     (if limit \<le> 0 then DefaultOrdersLimit
      else if limit > MaxOrdersLimit then MaxOrdersLimit else limit)"

end
