(* ===== verification/Order_Inv.thy ===== *)
theory Order_Inv
  imports Order_Commands
begin

text \<open>
  The invariant of the tables \<open>orders\<close> and \<open>order_items\<close>, and that every command and handler of the
  order API keeps it: an order's status agrees with its timestamps, its subtotal is the sum of its
  lines, its total the subtotal plus the fee, and every line belongs to an order.
\<close>

subsection \<open>The order tables' invariant\<close>

definition items_of :: "'d db \<Rightarrow> uuid \<Rightarrow> 'd OrderItem list" where
  "items_of s ident = filter (\<lambda>i. oi_OrderID i = ident) (t_order_items s)"

definition order_row_inv :: "'d::linordered_idom db \<Rightarrow> 'd Order \<Rightarrow> bool" where
  "order_row_inv s row \<longleftrightarrow> order_inv row \<and> o_Items row = [] \<and> o_events row = [] \<and>
     items_of s (o_ID row) \<noteq> [] \<and>
     o_Subtotal row = (\<Sum>i\<leftarrow>items_of s (o_ID row). oi_TotalPrice i) \<and>
     o_Total row = o_Subtotal row + o_DeliveryFee row \<and> 0 \<le> o_Subtotal row \<and> 0 \<le> o_DeliveryFee row"

definition item_row_inv :: "'d::linordered_idom OrderItem \<Rightarrow> bool" where
  "item_row_inv i \<longleftrightarrow> 0 < sint (oi_Quantity i) \<and> 0 \<le> oi_UnitPrice i \<and>
     oi_TotalPrice i = oi_UnitPrice i * quantity_of (oi_Quantity i)"

definition orders_inv :: "'d::linordered_idom db \<Rightarrow> bool" where
  "orders_inv s \<longleftrightarrow>
     distinct (List.map o_ID (t_orders s)) \<and> distinct (List.map oi_ID (t_order_items s)) \<and>
     (\<forall>row \<in> set (t_orders s). order_row_inv s row) \<and>
     (\<forall>i \<in> set (t_order_items s). item_row_inv i \<and> find_row o_ID (oi_OrderID i) (t_orders s) \<noteq> None)"

lemma orders_inv_cong:
  "t_orders s' = t_orders s \<Longrightarrow> t_order_items s' = t_order_items s \<Longrightarrow> orders_inv s' = orders_inv s"
  by (simp add: orders_inv_def order_row_inv_def items_of_def)

text \<open>A checked-out order fits in.\<close>

lemma checked_out_orders_inv:
  assumes inv: "orders_inv s" and co: "checked_out L base u input s c row items s'"
  shows "orders_inv s'"
proof -
  have tabs: "t_orders s' = t_orders s @ [row]" "t_order_items s' = t_order_items s @ items"
    and fresh: "\<forall>x \<in> set (t_orders s). o_ID x \<noteq> o_ID row" and own: "\<forall>i \<in> set items. oi_OrderID i = o_ID row"
    using co by (auto simp: checked_out_def)
  have items: "list_all order_item_row_ok items" "items \<noteq> []"
      "distinct (List.map oi_ID (t_order_items s @ items))"
    using co by (auto simp: checked_out_def)
  have no: "items_of s (o_ID row) = []"
    using inv fresh by (fastforce simp: orders_inv_def items_of_def filter_empty_conv dest: find_row_Some)
  have of_new: "items_of s' (o_ID row) = items"
    using no own tabs by (simp add: items_of_def filter_id_conv)
  have of_old: "items_of s' (o_ID x) = items_of s (o_ID x)" if "x \<in> set (t_orders s)" for x
    using own tabs fresh that by (auto simp: items_of_def filter_empty_conv)
  have "order_row_inv s' row"
    using co items of_new by (simp add: order_row_inv_def checked_out_def)
  moreover have "order_row_inv s' x" if "x \<in> set (t_orders s)" for x
    using inv that of_old [OF that] by (auto simp: orders_inv_def order_row_inv_def)
  moreover have "item_row_inv i" if "i \<in> set items" for i
  proof -
    have "list_all2 (priced_line (toppings_of s (c_RestaurantID c)) s) (lines_of s c) items"
      using co by (simp add: checked_out_def)
    from list_all2_right [OF this that]
    obtain ci where "priced_line (toppings_of s (c_RestaurantID c)) s ci i" by blast
    then show ?thesis using items(1) that
      by (auto simp: item_row_inv_def priced_line_def list_all_iff order_item_row_ok_def)
  qed
  ultimately show ?thesis
    using inv items(3) fresh own tabs by (auto simp: orders_inv_def split: option.splits)
qed

text \<open>Saving a changed copy of a stored order keeps the invariant, if the copy is consistent.\<close>

lemma save_order_existing:
  "ord \<in> set tbl \<Longrightarrow> o_ID ord' = o_ID ord \<Longrightarrow>
    save_order ord' tbl = update_where (\<lambda>x. o_ID x = o_ID ord) (\<lambda>_. stored ord') tbl"
  by (auto simp: save_order_def find_row_None)

definition same_terms :: "'d Order \<Rightarrow> 'd Order \<Rightarrow> bool" where
  "same_terms ord ord' \<longleftrightarrow> o_ID ord' = o_ID ord \<and> o_CustomerID ord' = o_CustomerID ord \<and>
     o_RestaurantID ord' = o_RestaurantID ord \<and> o_PlacedAt ord' = o_PlacedAt ord \<and>
     o_Subtotal ord' = o_Subtotal ord \<and> o_DeliveryFee ord' = o_DeliveryFee ord \<and>
     o_Total ord' = o_Total ord"

lemma save_order_inv:
  assumes inv: "orders_inv s" and ord: "ord \<in> set (t_orders s)" and same: "same_terms ord ord'"
    and ok: "order_inv ord'"
  shows "orders_inv (s\<lparr> t_orders := save_order ord' (t_orders s) \<rparr>)"
proof -
  let ?P = "\<lambda>x. o_ID x = o_ID ord"
  have save: "save_order ord' (t_orders s) = update_where ?P (\<lambda>_. stored ord') (t_orders s)"
    using save_order_existing [OF ord] same by (simp add: same_terms_def)
  have keys: "List.map o_ID (update_where ?P (\<lambda>_. stored ord') (t_orders s)) = List.map o_ID (t_orders s)"
    by (rule map_key_update) (use same in \<open>simp add: same_terms_def stored_def\<close>)
  have "(find_row o_ID k (update_where ?P (\<lambda>_. stored ord') (t_orders s)) = None) =
      (find_row o_ID k (t_orders s) = None)" for k
    using arg_cong [OF keys, of set] by (simp add: find_row_None_image)
  moreover have "order_row_inv s (stored ord')"
    using inv ord same ok by (auto simp: orders_inv_def order_row_inv_def same_terms_def stored_def)
  ultimately show ?thesis
    using inv keys save
    by (auto simp: orders_inv_def set_update_where order_row_inv_def items_of_def stored_def)
qed

lemma find_order_Inr:
  "find_order E P s = Inr ord \<Longrightarrow> \<exists>row. row \<in> set (t_orders s) \<and> P row \<and> ord = preload_order s row \<and>
    \<not> fault E OrderFind"
  by (auto simp: find_order_def io_def find_Some_iff in_set_conv_nth split: if_splits option.splits)

lemma forbid_missing_Inr [simp]: "forbid_missing r = Inr x \<longleftrightarrow> r = Inr x"
  by (auto simp: forbid_missing_def split: sum.splits)

lemma conflict_Inr [simp]: "conflict r = Inr x \<longleftrightarrow> r = Inr x"
  by (auto simp: conflict_def split: sum.splits)

lemma Order_Update_Inr:
  "Order_Update E ord s = (Inr u, s') \<longleftrightarrow> \<not> fault E OrderUpdate \<and> order_row_ok s ord \<and>
    payment_id_free s ord \<and> s' = s\<lparr> t_orders := save_order ord (t_orders s) \<rparr>"
  by (auto simp: Order_Update_def)

lemma Order_Update_Inl: "Order_Update E ord s = (Inl e, s') \<Longrightarrow> e = [] \<and> s' = s"
  by (auto simp: Order_Update_def split: if_splits)

lemma transition_same_terms:
  "Confirm now ord = Inr ord' \<Longrightarrow> same_terms ord ord'"
  "MarkReady now ord = Inr ord' \<Longrightarrow> same_terms ord ord'"
  "Complete now ord = Inr ord' \<Longrightarrow> same_terms ord ord'"
  "Cancel now ord = Inr ord' \<Longrightarrow> same_terms ord ord'"
  by (auto simp: same_terms_def)

lemma same_terms_preload [simp]: "same_terms (preload_order s ord) ord' = same_terms ord ord'"
  by (simp add: same_terms_def preload_order_def)

lemma order_inv_preload [simp]: "order_inv (preload_order s ord) = order_inv ord"
  by (simp add: preload_order_def)

text \<open>Read an order, change it by a transition, save it, go on.\<close>

lemma transition_keeps:
  assumes inv: "orders_inv s" and found: "find_order E P s = Inr ord"
    and step: "same_terms ord ord'" "order_inv ord \<Longrightarrow> order_inv ord'"
    and K: "\<And>u. keeps orders_inv (K u)"
  shows "orders_inv (snd (bind (Order_Update E ord') K s))"
proof (cases "Order_Update E ord' s")
  case (Pair r s1)
  obtain row where row: "row \<in> set (t_orders s)" "ord = preload_order s row"
    using find_order_Inr [OF found] by blast
  have "order_inv ord'" using inv row step(2) by (auto simp: orders_inv_def order_row_inv_def)
  then have "orders_inv s1"
    using save_order_inv [OF inv row(1), of ord'] step(1) row(2) Pair inv
    by (cases r) (auto simp: Order_Update_Inr dest: Order_Update_Inl)
  then show ?thesis
    using K Pair by (cases r) (auto simp: bind_def keeps_def)
qed

lemma rmw_keeps:
  fixes F :: "'d::linordered_idom db \<Rightarrow> (order_err, 'd Order) result"
  assumes found: "\<And>s ord. F s = Inr ord \<Longrightarrow> \<exists>P. find_order E P s = Inr ord"
    and T: "\<And>ord ord'. T ord = Inr ord' \<Longrightarrow> same_terms ord ord' \<and> (order_inv ord \<longrightarrow> order_inv ord')"
    and H: "\<And>ord e. keeps orders_inv (H ord e)"
    and K: "\<And>ord' u. keeps orders_inv (K ord' u)"
  shows "keeps orders_inv (bind (query F) (\<lambda>ord. bind (query (\<lambda>_. C ord)) (\<lambda>_.
    case T ord of Inl e \<Rightarrow> H ord e | Inr ord' \<Rightarrow> bind (Order_Update E ord') (K ord'))))"
proof (rule keepsI)
  fix s :: "'d db" assume inv: "orders_inv s"
  show "orders_inv (snd (bind (query F) (\<lambda>ord. bind (query (\<lambda>_. C ord)) (\<lambda>_.
    case T ord of Inl e \<Rightarrow> H ord e | Inr ord' \<Rightarrow> bind (Order_Update E ord') (K ord'))) s))"
  proof (cases "F s")
    case F: (Inr ord)
    then obtain P where P: "find_order E P s = Inr ord" using found by blast
    show ?thesis
    proof (cases "T ord")
      case (Inr ord')
      with transition_keeps [OF inv P, of ord' "K ord'"] T K show ?thesis
        by (cases "C ord") (simp_all add: F inv)
    qed (use H inv in \<open>cases "C ord"; simp add: F keeps_def\<close>)
  qed (simp add: inv)
qed

lemma bind_query_const: "bind (query (\<lambda>_. r)) f = (case r of Inl e \<Rightarrow> fail e | Inr x \<Rightarrow> f x)"
  by (rule ext) (simp add: fail_def split: sum.split)

text \<open>The same without a check between reading and changing.\<close>

lemmas rmw_keeps' = rmw_keeps [where C = "\<lambda>_. Inr ()", simplified bind_query_const sum.case]

lemma found_for_role:
  "forbid_missing (find_for_role E i u role s) = Inr ord \<Longrightarrow> \<exists>P. find_order E P s = Inr ord"
  unfolding forbid_missing_Inr find_for_role_def Order_FindByIDAndRestaurantOwner_def
    Order_FindByIDAndCustomer_def by (split if_splits) blast+

lemma found_by_owner:
  "forbid_missing (Order_FindByIDAndRestaurantOwner E i u s) = Inr ord \<Longrightarrow> \<exists>P. find_order E P s = Inr ord"
  unfolding forbid_missing_Inr Order_FindByIDAndRestaurantOwner_def by blast

lemma found_by_id: "Order_FindByID E i s = Inr ord \<Longrightarrow> \<exists>P. find_order E P s = Inr ord"
  unfolding Order_FindByID_def by blast

lemma transition_ok:
  "Confirm now ord = Inr ord' \<Longrightarrow> same_terms ord ord' \<and> (order_inv ord \<longrightarrow> order_inv ord')"
  "MarkReady now ord = Inr ord' \<Longrightarrow> same_terms ord ord' \<and> (order_inv ord \<longrightarrow> order_inv ord')"
  "Complete now ord = Inr ord' \<Longrightarrow> same_terms ord ord' \<and> (order_inv ord \<longrightarrow> order_inv ord')"
  "Cancel now ord = Inr ord' \<Longrightarrow> same_terms ord ord' \<and> (order_inv ord \<longrightarrow> order_inv ord')"
  by (intro conjI impI, erule transition_same_terms, erule (1) order_inv_transition)+

lemma cancel_at_gateway_keeps [keeps_intro]:
  assumes "\<And>s c. P (s\<lparr> calls := c \<rparr>) = P s"
  shows "keeps P (cancel_at_gateway Pr ord)"
  by (rule keepsI) (simp add: cancel_at_gateway_def cancel_payment_def assms split: option.split)

lemma orders_inv_frames [simp]:
  "orders_inv (s\<lparr> calls := c \<rparr>) = orders_inv s" "orders_inv (s\<lparr> t_outbox := t \<rparr>) = orders_inv s"
  "orders_inv (s\<lparr> t_carts := cs \<rparr>) = orders_inv s" "orders_inv (s\<lparr> t_cart_items := cis' \<rparr>) = orders_inv s"
  by (rule orders_inv_cong; simp)+

lemma Outbox_Insert_keeps:
  assumes "\<And>s t. P (s\<lparr> t_outbox := t \<rparr>) = P s"
  shows "keeps P (Outbox_Insert E n e)"
  by (rule keepsI) (simp add: Outbox_Insert_def assms)

lemma Cancel_Execute_keeps_orders [keeps_intro]: "keeps orders_inv (Cancel_Execute E P i u role)"
  unfolding Cancel_Execute_def bind_query_const [of "conflict _"]
  by (rule rmw_keeps, erule found_for_role, simp only: conflict_Inr, erule transition_ok(4))
    (intro keeps_intro; simp)+

lemma MarkReady_Execute_keeps_orders [keeps_intro]: "keeps orders_inv (MarkReady_Execute E i u)"
  unfolding MarkReady_Execute_def bind_query_const [of "conflict _"]
  by (rule rmw_keeps', erule found_by_owner, simp only: conflict_Inr, erule transition_ok(2))
    (intro keeps_intro)+

lemma Complete_Execute_keeps_orders [keeps_intro]: "keeps orders_inv (Complete_Execute E i u)"
  unfolding Complete_Execute_def bind_query_const [of "conflict _"]
  by (rule rmw_keeps', erule found_by_owner, simp only: conflict_Inr, erule transition_ok(3))
    (intro keeps_intro)+

lemma PaymentFailed_keeps_orders [keeps_intro]: "keeps orders_inv (PaymentFailed_Handle L E body)"
proof -
  have "keeps orders_inv (bind (query (Order_FindByID E i)) (\<lambda>ord. case Cancel (clock E) ord of
      Inl e \<Rightarrow> if errors_is e ErrInvalidStatusTransition then ret () else fail e
    | Inr ord' \<Rightarrow> bind (Order_Update E ord') ret))" for i
    by (rule rmw_keeps', erule found_by_id, erule transition_ok(4)) (intro keeps_intro)+
  then show ?thesis
    unfolding PaymentFailed_Handle_def bind_ret
    by (intro keeps_option keeps_if keeps_transaction keeps_ret keeps_fail)
qed

lemma PaymentSucceeded_keeps_orders [keeps_intro]: "keeps orders_inv (PaymentSucceeded_Handle L E body)"
  unfolding PaymentSucceeded_Handle_def
  by (intro keeps_option keeps_if keeps_transaction keeps_ret keeps_fail, rule rmw_keeps',
      erule found_by_id, erule transition_ok(1))
    (intro keeps_intro DispatchEventsTx_keeps Outbox_Insert_keeps; simp)+

text \<open>Checkout and the cart commands.\<close>

context geocoder
begin

lemma checkout_keeps_orders:
  "keeps orders_inv (Checkout_Execute L E geocode P base customerID input)"
proof (rule keepsI)
  fix s :: "'d db" assume inv: "orders_inv s"
  obtain r s' where run: "Checkout_Execute L E geocode P base customerID input s = (r, s')"
    by (cases "Checkout_Execute L E geocode P base customerID input s")
  have "orders_inv s'"
  proof (cases r)
    case (Inl e)
    from checkout_failure [OF run [unfolded Inl]] show ?thesis
      using checked_out_orders_inv [OF inv] orders_inv_cong inv but_geocode_eqD(3,4) by metis
  next
    case (Inr resp)
    from checkout_success [OF run [unfolded Inr]] show ?thesis
      using checked_out_orders_inv [OF inv] by blast
  qed
  then show "orders_inv (snd (Checkout_Execute L E geocode P base customerID input s))"
    by (simp add: run)
qed

end

end
