(* ===== verification/Sample_Order.thy ===== *)
theory Sample_Order
  imports Checkout_Props
begin

text \<open>
  A small state of order-service and runs of its operations on it, for the witnesses: a restaurant
  with one pizza and one topping, a customer with a cart.
\<close>

definition sample_env :: env where
  "sample_env = \<lparr> fault = (\<lambda>_. False), newV7 = (\<lambda>n. Some (100 + of_nat n)), clock = 50,
     traceParent = '''' \<rparr>"

definition sample_restaurant :: "int Restaurant" where
  "sample_restaurant = \<lparr> r_ID = 1, r_OwnerID = 2, r_Name = ''Roma'', r_OwnerEmail = ''r@x'', r_Lat = 0,
     r_Lon = 0, r_DeliveryKm = Some 5, r_DeliveryFee = 3, r_MinimumOrder = 10, r_Pickup = True,
     r_DeliveryType = ''own'', r_Currency = ''EUR'', r_UpdatedAt = 10 \<rparr>"

definition sample_db :: "int db" where
  "sample_db = \<lparr>
     t_carts = [\<lparr> c_ID = 7, c_CustomerID = 6, c_RestaurantID = 1, c_Items = [], c_CreatedAt = 20 \<rparr>],
     t_cart_items = [\<lparr> ci_ID = 8, ci_CartID = 7, ci_PizzaID = 3, ci_SizeID = 4, ci_Quantity = 2,
        ci_ExtraToppingIDs = [5] \<rparr>],
     t_orders = [], t_order_items = [],
     t_customers = [\<lparr> cu_ID = 6, cu_Email = ''c@x'', cu_FirstName = ''C'', cu_Phone = Some ''1'' \<rparr>],
     t_restaurants = [sample_restaurant],
     t_pizzas = [\<lparr> pz_ID = 3, pz_RestaurantID = 1, pz_Name = ''Napoli'', pz_Status = ''available'',
        pz_UpdatedAt = 10 \<rparr>],
     t_pizza_prices = [\<lparr> pp_PizzaID = 3, pp_SizeID = 4, pp_DiameterCm = 30, pp_Price = 10,
        pp_IsActive = True, pp_UpdatedAt = 10 \<rparr>],
     t_topping_prices = [\<lparr> tp_RestaurantID = 1, tp_ToppingID = 5, tp_Name = ''Olives'',
        tp_ExtraPrice = 2, tp_UpdatedAt = 10 \<rparr>],
     t_geocode = [], t_outbox = \<lparr> ob_rows = [], ob_seq = 1 \<rparr>, calls = [] \<rparr>"

definition sample_provider :: "int provider" where
  "sample_provider = \<lparr> CreatePayment = (\<lambda>_. Inr \<lparr> cps_PaymentID = ''p1'', cps_CheckoutURL = ''u'' \<rparr>),
     CancelPayment = (\<lambda>_. Inr ()), GetPaymentStatus = (\<lambda>_. Inr ''pending'') \<rparr>"

definition sample_checkout :: CheckoutRequest where
  "sample_checkout = \<lparr> cr_Fulfillment = FulfillmentDelivery, cr_DeliveryAddress = Some
     \<lparr> ai_House = ''1'', ai_Street = ''S'', ai_PostalCode = ''2'', ai_City = ''C'' \<rparr>,
     cr_SaveAddress = True \<rparr>"

lemmas sample_defs = sample_env_def sample_restaurant_def sample_db_def sample_provider_def
  sample_checkout_def

lemmas repo_defs = Cart_FindByCustomer_def Restaurant_FindByID_def Customer_FindByID_def
  Pizza_FindByID_def Price_ListByPizza_def Topping_ListByRestaurant_def Geocode_FindByHash_def
  Geocode_Create_def Order_Create_def Order_Update_def Cart_Clear_def io_def

abbreviation sample_run where
  "sample_run P \<equiv> Checkout_Execute sample_lib sample_env
     (CachingGeocoder_Geocode (\<lambda>x. x) sample_env (\<lambda>_. Inr (0, 0))) P ''b'' 6 sample_checkout sample_db"

lemmas run_defs = Checkout_Execute_def sample_defs repo_defs preload_cart_def check_fulfillment_def
     topping_map_def resolveOrderItem_def find_price_def quantity_of_def delivery_terms_def
     CachingGeocoder_Geocode_def to_address_def Let_def insert_ignore_def place_order_def
     bind_def ret_def query_def ensure_def fail_def transaction_def NewOrder_def order_row_ok_def numeric_fits_def
     payment_id_free_def order_item_row_ok_def stored_def delete_cart_def DispatchEventsTx_def
     PullEvents_def integration_event_def Outbox_Insert_def pay_order_def create_payment_def
     save_order_def

lemma sample_checkout_Inr: "\<exists>resp s'. sample_run sample_provider = (Inr resp, s')"
  by (simp add: run_defs)

text \<open>A provider whose payment service is down, and one checkout with it.\<close>

definition failing_provider :: "int provider" where
  "failing_provider = sample_provider\<lparr> CreatePayment := (\<lambda>_. Inl [ErrPaymentServiceUnavailable]) \<rparr>"

lemma failing_checkout_Inl: "\<exists>s'. sample_run failing_provider = (Inl [ErrPaymentServiceUnavailable], s') \<and>
   t_orders s' \<noteq> []"
  by (simp add: run_defs failing_provider_def)

theorem checkout_places_order_witness:
  "\<exists>resp s' c row items. sample_run sample_provider = (Inr resp, s') \<and>
     cart_of sample_db 6 = Some c \<and> checked_out sample_lib ''b'' 6 sample_checkout sample_db c row items s' \<and>
     o_PaymentID row = Some ''p1''"
proof -
  obtain resp s' where run: "sample_run sample_provider = (Inr resp, s')"
    using sample_checkout_Inr by blast
  show ?thesis
    using checkout_places_order [OF run] run by (auto simp: sample_provider_def)
qed

theorem checkout_failure_leaves_witness:
  "\<exists>s' c row items. sample_run failing_provider = (Inl [ErrPaymentServiceUnavailable], s') \<and>
     cart_of sample_db 6 = Some c \<and> checked_out sample_lib ''b'' 6 sample_checkout sample_db c row items s' \<and>
     o_PaymentID row = None"
proof -
  obtain s' where run: "sample_run failing_provider = (Inl [ErrPaymentServiceUnavailable], s')"
    and new: "t_orders s' \<noteq> []"
    using failing_checkout_Inl by blast
  have "but_geocode s' \<noteq> but_geocode sample_db"
    using new by (auto dest: but_geocode_eqD(3) simp: sample_db_def)
  then show ?thesis
    using checkout_failure_leaves [OF run] run by blast
qed

theorem cart_shows_what_checkout_charges_witness:
  "\<exists>row items view. GetCart_Execute sample_env 6 sample_db = Inr view \<and>
     gcr_Subtotal view = o_Subtotal (row :: int Order) \<and> list_all civ_Available (gcr_Items view) \<and>
     List.map civ_LineTotal (gcr_Items view) = List.map (\<lambda>i. Some (oi_TotalPrice i)) (items :: int OrderItem list)"
proof -
  obtain resp s' where run: "sample_run sample_provider = (Inr resp, s')"
    using sample_checkout_Inr by blast
  have "no_faults sample_env" by (simp add: no_faults_def sample_env_def)
  from cart_shows_what_checkout_charges [OF run this] show ?thesis by blast
qed

definition sample_item :: AddItemRequest where
  "sample_item = \<lparr> air_PizzaID = 3, air_SizeID = 4, air_Quantity = 1, air_ExtraToppingIDs = [5] \<rparr>"

theorem AddItem_adds_witness:
  "\<exists>resp s'. AddItem_Execute sample_lib sample_env 6 sample_item sample_db = (Inr resp, s') \<and>
     line_quantity s' (7, 3, 4, [5]) = 3"
proof -
  obtain resp s' where run: "AddItem_Execute sample_lib sample_env 6 sample_item sample_db = (Inr resp, s')"
    and tabs: "t_carts s' = t_carts sample_db"
    by (simp add: AddItem_Execute_def AddItem_toppings_def AddItem_cart_def sample_item_def sample_defs
        repo_defs find_price_def preload_cart_def EnsureRestaurant_def NewCartItem_def
        Cart_AddOrMergeItem_def line_key_def bind_def ret_def query_def ensure_def fail_def Let_def)
  have "cart_inv sample_db"
    by (simp add: cart_inv_def sample_db_def line_key_def)
  from AddItem_adds [OF this run] obtain c where "cart_of s' 6 = Some c" and
    q: "line_quantity s' (c_ID c, 3, 4, [5]) = line_quantity sample_db (c_ID c, 3, 4, [5]) + 1"
    by (force simp: sample_item_def)
  then have "c_ID c = 7" using tabs by (auto simp: cart_of_def sample_db_def)
  moreover have "line_quantity sample_db (7, 3, 4, [5]) = 2"
    by (simp add: line_quantity_def sample_db_def line_key_def)
  ultimately show ?thesis using q run by auto
qed


text \<open>A state with one pending order that awaits its payment.\<close>

definition sample_pending :: "int Order" where
  "sample_pending = (NewOrder 40 9 6 1 FulfillmentPickup ''c@x'' None None None None [] 24 0 24 ''EUR'' False)
     \<lparr> o_PaymentID := Some ''p1'', o_PlacedAt := 40 \<rparr>"

definition sample_order_db :: "int db" where
  "sample_order_db = sample_db\<lparr> t_carts := [], t_cart_items := [], t_orders := [sample_pending],
     t_order_items := [\<lparr> oi_ID = 11, oi_OrderID = 9, oi_PizzaID = 3, oi_SizeID = 4, oi_PizzaName = ''Napoli'',
       oi_SizeDiameter = 30, oi_ExtraToppingIDs = [5], oi_Quantity = 2, oi_UnitPrice = 12,
       oi_TotalPrice = 24 \<rparr>] \<rparr>"

end
