(* ===== verification/Order_Props.thy ===== *)
theory Order_Props
  imports Order_Inv Sample_Order
begin

text \<open>
  What the order commands and the consumers of payment events do: the confirmation of a paid order, who
  may read an order, cancellation, and a cancellation that races with the payment.
\<close>

subsection \<open>Confirming a paid order\<close>

definition confirmed_row :: "time \<Rightarrow> 'd Order \<Rightarrow> 'd Order" where
  "confirmed_row now row = row\<lparr> o_Status := StatusConfirmed, o_ConfirmedAt := Some now \<rparr>"

definition confirmed_event ::
  "'d lib \<Rightarrow> env \<Rightarrow> 'd db \<Rightarrow> 'd Order \<Rightarrow> 'd Restaurant \<Rightarrow> OutboxEvent" where
  "confirmed_event L E s row restaurant =
     NewOutboxEvent (clock E) (o_ID row) ''order.confirmed'' (marshal_OrderConfirmed L
       \<lparr> ocp_OrderID = o_ID row, ocp_RestaurantID = o_RestaurantID row,
         ocp_RestaurantName = r_Name restaurant, ocp_CustomerEmail = o_ContactEmail row,
         ocp_OwnerEmail = r_OwnerEmail restaurant,
         ocp_Items = List.map (\<lambda>i. \<lparr> oip_Name = oi_PizzaName i, oip_Quantity = oi_Quantity i \<rparr>)
           (items_of s (o_ID row)),
         ocp_Total = StringFixed2 L (o_Total row), ocp_Currency = o_Currency row,
         ocp_ConfirmedAt = clock E \<rparr>)"

lemma order_row_found:
  "orders_inv s \<Longrightarrow> row \<in> set (t_orders s) \<Longrightarrow> find_row o_ID (o_ID row) (t_orders s) = Some row"
  by (simp add: orders_inv_def find_row_distinct)

lemma Order_FindByID_Inr:
  "Order_FindByID E i s = Inr ord \<longleftrightarrow> \<not> fault E OrderFind \<and>
    (\<exists>row. find_row o_ID i (t_orders s) = Some row \<and> ord = preload_order s row)"
  by (auto simp: Order_FindByID_def find_order_def find_row_def io_def split: option.splits)

text \<open>What the consumer of \<open>payment.succeeded\<close> does when it reports success.\<close>

lemma save_order_cong: "stored a = stored b \<Longrightarrow> save_order a tbl = save_order b tbl"
proof -
  assume *: "stored a = stored b"
  then have "o_ID (stored a) = o_ID (stored b)" by simp
  then have "o_ID a = o_ID b" by (simp add: stored_def)
  with * show ?thesis by (simp add: save_order_def)
qed

lemma PaymentSucceeded_Inr:
  assumes "PaymentSucceeded_Handle L E body s = (Inr u, s')" and inv: "orders_inv s"
  obtains (other) payload where "unmarshal_payment_event L body = Some payload"
      "pep_SubjectType payload \<noteq> ''order''" "s' = s"
  | (settled) payload row where "unmarshal_payment_event L body = Some payload"
      "pep_SubjectType payload = ''order''"
      "find_row o_ID (pep_SubjectID payload) (t_orders s) = Some row"
      "o_Status row \<noteq> StatusPending" "s' = s"
  | (confirmed) payload row restaurant where "unmarshal_payment_event L body = Some payload"
      "pep_SubjectType payload = ''order''"
      "find_row o_ID (pep_SubjectID payload) (t_orders s) = Some row" "o_Status row = StatusPending"
      "find_row r_ID (o_RestaurantID row) (t_restaurants s) = Some restaurant"
      "s' = s\<lparr> t_orders := save_order (confirmed_row (clock E) row) (t_orders s),
              t_outbox := outbox_Create (traceParent E) (confirmed_event L E s row restaurant) (t_outbox s) \<rparr>"
proof -
  obtain payload where payload: "unmarshal_payment_event L body = Some payload"
    using assms by (auto simp: PaymentSucceeded_Handle_def split: option.splits)
  show ?thesis
  proof (cases "pep_SubjectType payload = ''order''")
    case False
    then show ?thesis using other [OF payload] assms payload by (simp add: PaymentSucceeded_Handle_def)
  next
    case True
    obtain row where row: "find_row o_ID (pep_SubjectID payload) (t_orders s) = Some row"
      and rest: "(case Confirm (clock E) (preload_order s row) of
            Inl e \<Rightarrow> if errors_is e ErrInvalidStatusTransition then ret () else fail e
          | Inr ord' \<Rightarrow>
              bind (Order_Update E ord') (\<lambda>_.
              bind (query (Restaurant_FindByID E (o_RestaurantID ord'))) (\<lambda>restaurant.
              bind (DispatchEventsTx L E
                 [enrichConfirmed L ord' (r_Name restaurant) (r_OwnerEmail restaurant) (item_payloads ord')]
                 ord') (\<lambda>_. ret ())))) s = (Inr u, s')"
      using assms payload True unfolding PaymentSucceeded_Handle_def option.case if_not_P if_P
      by (auto simp: bind_Inr Order_FindByID_Inr simp del: bind_simps)
    show ?thesis
    proof (cases "o_Status row = StatusPending")
      case False
      then have "s' = s" using rest by (simp add: Confirm_def preload_order_def errors_is_def)
      then show ?thesis using settled [OF payload True row False] by simp
    next
      case pending: True
      let ?ord = "(preload_order s row)\<lparr> o_Status := StatusConfirmed, o_ConfirmedAt := Some (clock E),
        o_events := o_events row @ [OrderConfirmed (o_ID row) (o_CustomerID row) (o_RestaurantID row) (clock E)] \<rparr>"
      have conf: "Confirm (clock E) (preload_order s row) = Inr ?ord"
        using pending by (simp add: preload_order_def)
      obtain restaurant ord2 where r: "find_row r_ID (o_RestaurantID row) (t_restaurants s) = Some restaurant"
        and dispatch: "DispatchEventsTx L E
           [enrichConfirmed L ?ord (r_Name restaurant) (r_OwnerEmail restaurant) (item_payloads ?ord)] ?ord
           (s\<lparr> t_orders := save_order ?ord (t_orders s) \<rparr>) = (Inr ord2, s')"
        using rest [unfolded conf sum.case]
        by (auto simp: bind_Inr Order_Update_Inr Restaurant_FindByID_def preload_order_def io_def
            simp del: bind_simps split: option.splits if_splits)
      have ev: "o_events row = []"
        using find_row_Some [OF row] inv by (auto simp: orders_inv_def order_row_inv_def)
      have saved: "save_order ?ord (t_orders s) = save_order (confirmed_row (clock E) row) (t_orders s)"
        by (rule save_order_cong) (simp add: stored_def confirmed_row_def preload_order_def)
      have "s' = s\<lparr> t_orders := save_order (confirmed_row (clock E) row) (t_orders s),
              t_outbox := outbox_Create (traceParent E) (confirmed_event L E s row restaurant) (t_outbox s) \<rparr>"
        using DispatchEventsTx_Inr [OF dispatch] saved ev
        by (simp add: outbox_rows_for_def integration_event_def enrichConfirmed_def confirmed_event_def
            NewOrderConfirmedPayload_def item_payloads_def items_of_def preload_order_def)
      then show ?thesis by (rule confirmed [OF payload True row pending r])
    qed
  qed
qed

text \<open>
  C2. Redelivery of \<open>payment.succeeded\<close> confirms an order once: when the event has been handled
  successfully, handling it again, in whatever environment, changes nothing. The first handling either
  changed nothing (the event was about something else, or the order no longer pending) or it confirmed
  the one pending order the event names and wrote one \<open>order.confirmed\<close> row, with the order's lines
  and total, to the outbox in the same transaction.
\<close>

theorem payment_succeeded_confirms_once:
  assumes inv: "orders_inv s"
    and first: "PaymentSucceeded_Handle L E body s = (Inr (), s1)"
    and again: "PaymentSucceeded_Handle L E' body s1 = (Inr (), s2)"
  shows "s2 = s1 \<and>
    (s1 = s \<or>
     (\<exists>payload row restaurant. unmarshal_payment_event L body = Some payload \<and>
        pep_SubjectType payload = ''order'' \<and>
        find_row o_ID (pep_SubjectID payload) (t_orders s) = Some row \<and> o_Status row = StatusPending \<and>
        s1 = s\<lparr> t_orders := update_where (\<lambda>x. o_ID x = o_ID row)
                   (\<lambda>_. confirmed_row (clock E) row) (t_orders s),
                t_outbox := outbox_Create (traceParent E) (confirmed_event L E s row restaurant)
                   (t_outbox s) \<rparr>))"
proof -
  have inv1: "orders_inv s1" by (rule keepsD [OF PaymentSucceeded_keeps_orders first inv])
  show ?thesis
    using first inv
  proof (cases rule: PaymentSucceeded_Inr)
    case (other payload)
    then show ?thesis using again by (simp add: PaymentSucceeded_Handle_def)
  next
    case (settled payload row)
    from again inv1 show ?thesis
      by (cases rule: PaymentSucceeded_Inr) (use settled in simp_all)
  next
    case (confirmed payload row restaurant)
    have row: "row \<in> set (t_orders s)" "o_Items row = []" "o_events row = []" "o_ID row = pep_SubjectID payload"
      using find_row_Some [OF confirmed(3)] inv by (auto simp: orders_inv_def order_row_inv_def)
    have save: "save_order (confirmed_row (clock E) row) (t_orders s) =
        update_where (\<lambda>x. o_ID x = o_ID row) (\<lambda>_. confirmed_row (clock E) row) (t_orders s)"
    proof -
      have "stored (confirmed_row (clock E) row) = confirmed_row (clock E) row"
        using row(2,3) by (cases row) (simp add: stored_def confirmed_row_def)
      then show ?thesis
        using save_order_existing [OF row(1), of "confirmed_row (clock E) row"]
        by (simp add: confirmed_row_def)
    qed
    have found: "find_row o_ID (pep_SubjectID payload) (t_orders s1) = Some (confirmed_row (clock E) row)"
    proof -
      have "confirmed_row (clock E) row \<in> set (t_orders s1)"
        using row(1) confirmed(6) by (force simp: save set_update_where)
      from order_row_found [OF inv1 this] show ?thesis by (simp add: row(4) confirmed_row_def)
    qed
    have "s2 = s1"
      using again inv1
      by (cases rule: PaymentSucceeded_Inr) (use confirmed found in \<open>simp_all add: confirmed_row_def\<close>)
    then show ?thesis using confirmed save by auto
  qed
qed

subsection \<open>A sample state\<close>

lemma sample_order_db_inv: "orders_inv sample_order_db"
  by (simp add: orders_inv_def sample_order_db_def sample_db_def sample_pending_def NewOrder_def
      order_row_inv_def item_row_inv_def items_of_def order_inv_def quantity_of_def)

definition sample_paid :: "json option" where
  "sample_paid = Some (JObj [(''subject_type'', JStr ''order''), (''subject_id'', enc_uuid sample_lib 9)])"

lemma sample_paid_payload [simp]:
  "unmarshal_payment_event sample_lib sample_paid = Some \<lparr> pep_SubjectType = ''order'', pep_SubjectID = 9 \<rparr>"
  by (simp add: unmarshal_payment_event_def sample_paid_def)

lemmas event_run_defs = PaymentSucceeded_Handle_def sample_order_db_def sample_pending_def NewOrder_def
  sample_defs Order_FindByID_def find_order_def Confirm_def preload_order_def Order_Update_def
  order_row_ok_def numeric_fits_def payment_id_free_def Restaurant_FindByID_def io_def
  DispatchEventsTx_def PullEvents_def integration_event_def Outbox_Insert_def enrichConfirmed_def
  transaction_def bind_def ret_def query_def ensure_def fail_def errors_is_def save_order_def stored_def

lemma sample_paid_Inr:
  "\<exists>s1. PaymentSucceeded_Handle sample_lib sample_env sample_paid sample_order_db = (Inr (), s1) \<and> s1 \<noteq> sample_order_db
    \<and> List.map o_Status (t_orders s1) = [StatusConfirmed]
    \<and> PaymentSucceeded_Handle sample_lib sample_env sample_paid s1 = (Inr (), s1)"
  by (simp add: event_run_defs)

lemma sample_order_db_row [simp]:
  "find_row o_ID 9 (t_orders sample_order_db) = Some sample_pending" "o_ID sample_pending = 9"
  by (simp_all add: sample_order_db_def sample_pending_def NewOrder_def)

theorem payment_succeeded_confirms_once_witness:
  "\<exists>s1 restaurant. PaymentSucceeded_Handle sample_lib sample_env sample_paid sample_order_db = (Inr (), s1) \<and>
     ob_rows (t_outbox s1) = ob_rows (outbox_Create ''''
       (confirmed_event sample_lib sample_env sample_order_db sample_pending restaurant) (t_outbox sample_order_db))"
proof -
  obtain s1 where run: "PaymentSucceeded_Handle sample_lib sample_env sample_paid sample_order_db = (Inr (), s1)"
    "s1 \<noteq> sample_order_db" "PaymentSucceeded_Handle sample_lib sample_env sample_paid s1 = (Inr (), s1)"
    using sample_paid_Inr by blast
  have "traceParent sample_env = ''''" by (simp add: sample_env_def)
  then show ?thesis
    using payment_succeeded_confirms_once [OF sample_order_db_inv run(1,3)] run(1,2) by auto
qed

subsection \<open>Who may see and change an order\<close>

definition may_access :: "'d db \<Rightarrow> string \<Rightarrow> uuid \<Rightarrow> 'd Order \<Rightarrow> bool" where
  "may_access s role userID row \<longleftrightarrow>
     (if role = ''owner'' then owned_by s userID row else o_CustomerID row = userID)"

lemma find_for_role_cases:
  assumes inv: "orders_inv s"
  shows "find_for_role E i userID role s =
    (if fault E OrderFind then Inl []
     else case find_row o_ID i (t_orders s) of
       None \<Rightarrow> Inl [App ErrNotFound]
     | Some row \<Rightarrow> if may_access s role userID row then Inr (preload_order s row)
                   else Inl [App ErrNotFound])"
proof -
  have find: "List.find (\<lambda>ord. o_ID ord = i \<and> Q ord) (t_orders s) =
      (case find_row o_ID i (t_orders s) of None \<Rightarrow> None | Some row \<Rightarrow> if Q row then Some row else None)" for Q
    using inv by (intro find_key_and) (simp add: orders_inv_def)
  show ?thesis
    by (simp add: find_for_role_def Order_FindByIDAndRestaurantOwner_def Order_FindByIDAndCustomer_def
        find_order_def io_def find may_access_def split: option.split)
qed

text \<open>
  Reading an order: the caller gets it, with its stored lines, exactly when it is his (as its
  customer, or as the owner of its restaurant); in every other case the answer is 403, the same for
  an order of somebody else as for one that does not exist, so that identifiers cannot be probed.
\<close>

theorem GetOrder_access:
  assumes inv: "orders_inv s" and up: "\<not> fault E OrderFind"
  shows "(\<forall>row. find_row o_ID i (t_orders s) = Some row \<and> may_access s role userID row \<longrightarrow>
      GetOrder_Execute E i userID role s = Inr (ToOrderResponse (preload_order s row))) \<and>
    ((\<nexists>row. find_row o_ID i (t_orders s) = Some row \<and> may_access s role userID row) \<longrightarrow>
      GetOrder_Execute E i userID role s = Inl [App ErrForbidden] \<and> HandleError [App ErrForbidden] = 403)"
  using up by (auto simp: GetOrder_Execute_def find_for_role_cases [OF inv] forbid_missing_def errors_is_def
      HandleError_def split: option.split)

theorem GetOrder_access_witness:
  "GetOrder_Execute sample_env 9 6 ''customer'' sample_order_db =
     Inr (ToOrderResponse (preload_order sample_order_db sample_pending)) \<and>
   GetOrder_Execute sample_env 9 7 ''customer'' sample_order_db = Inl [App ErrForbidden] \<and>
   GetOrder_Execute sample_env 10 6 ''customer'' sample_order_db = Inl [App ErrForbidden]"
proof -
  have "\<not> fault sample_env OrderFind" by (simp add: sample_env_def)
  note access = GetOrder_access [OF sample_order_db_inv this]
  have "may_access sample_order_db ''customer'' 6 sample_pending"
    "\<not> may_access sample_order_db ''customer'' 7 sample_pending"
    "find_row o_ID 10 (t_orders sample_order_db) = None"
    by (simp_all add: may_access_def sample_order_db_def sample_pending_def NewOrder_def)
  then show ?thesis
    using access [of 9 "''customer''" 6] access [of 9 "''customer''" 7] access [of 10 "''customer''" 6]
    by simp
qed

subsection \<open>Cancelling\<close>

definition cancelled_row :: "time \<Rightarrow> 'd Order \<Rightarrow> 'd Order" where
  "cancelled_row now row = row\<lparr> o_Status := StatusCancelled, o_CancelledAt := Some now \<rparr>"

lemma Cancel_Execute_Inr:
  assumes "Cancel_Execute E P i userID role s = (Inr resp, s')" and inv: "orders_inv s"
  obtains row where "find_row o_ID i (t_orders s) = Some row" "may_access s role userID row"
    "check_payment P row = Inr ()" "o_Status row = StatusPending"
    "s' = s\<lparr> t_orders := update_where (\<lambda>x. o_ID x = i) (\<lambda>_. cancelled_row (clock E) row) (t_orders s),
            calls := calls s @ (case o_PaymentID row of None \<Rightarrow> [] | Some pid \<Rightarrow> [CancelPaymentCall pid]) \<rparr>"
proof -
  obtain row where row: "find_row o_ID i (t_orders s) = Some row" "may_access s role userID row"
    and chk: "check_payment P (preload_order s row) = Inr ()" and pend: "o_Status (preload_order s row) = StatusPending"
    and rest: "bind (Order_Update E (cancelled_row (clock E) (preload_order s row))) (\<lambda>_.
       bind (cancel_at_gateway P (cancelled_row (clock E) (preload_order s row))) (\<lambda>_.
       ret (ToOrderResponse (cancelled_row (clock E) (preload_order s row))))) s = (Inr resp, s')"
    using assms(1) unfolding Cancel_Execute_def
    by (auto simp: bind_Inr find_for_role_cases [OF inv] cancelled_row_def simp del: bind_simps
        split: option.splits if_splits)
  note in_tbl = find_row_Some [OF row(1)]
  have plain: "o_Items row = []" "o_events row = []"
    using in_tbl inv by (auto simp: orders_inv_def order_row_inv_def)
  have "stored (cancelled_row (clock E) (preload_order s row)) = cancelled_row (clock E) row"
    using plain by (cases row) (simp add: stored_def cancelled_row_def preload_order_def)
  then have "save_order (cancelled_row (clock E) (preload_order s row)) (t_orders s) =
      update_where (\<lambda>x. o_ID x = i) (\<lambda>_. cancelled_row (clock E) row) (t_orders s)"
    using save_order_existing [of row "t_orders s" "cancelled_row (clock E) (preload_order s row)"] in_tbl
    by (simp add: cancelled_row_def preload_order_def)
  with rest have "s' = s\<lparr> t_orders := update_where (\<lambda>x. o_ID x = i) (\<lambda>_. cancelled_row (clock E) row) (t_orders s),
            calls := calls s @ (case o_PaymentID row of None \<Rightarrow> [] | Some pid \<Rightarrow> [CancelPaymentCall pid]) \<rparr>"
    by (auto simp: bind_Inr Order_Update_Inr cancel_at_gateway_def cancel_payment_def cancelled_row_def
        preload_order_def simp del: bind_simps split: option.splits)
  moreover have "check_payment P row = Inr ()" using chk by (simp add: check_payment_def preload_order_def)
  ultimately show ?thesis
    using that row pend by (simp add: preload_order_def)
qed

lemma Cancel_Execute_Inl: "Cancel_Execute E P i userID role s = (Inl e, s') \<Longrightarrow> s' = s"
  unfolding Cancel_Execute_def
  by (auto simp: bind_Inl bind_Inr cancel_at_gateway_def simp del: bind_simps dest: Order_Update_Inl split: option.splits)

text \<open>
  Cancelling an order. It succeeds only for a pending order of the caller whose payment the
  gateway does not report as succeeded; then that order, and no other row, becomes cancelled, and
  the gateway is told to drop exactly its payment, if it has one. When it is refused or fails,
  nothing is written and the gateway is not told to cancel.
\<close>

theorem Cancel_effect:
  assumes inv: "orders_inv s" and run: "Cancel_Execute E P i userID role s = (r, s')"
  shows "case r of
      Inl e \<Rightarrow> s' = s
    | Inr resp \<Rightarrow> \<exists>row. find_row o_ID i (t_orders s) = Some row \<and> may_access s role userID row \<and>
        o_Status row = StatusPending \<and>
        (\<forall>pid. o_PaymentID row = Some pid \<longrightarrow>
           (\<exists>status. GetPaymentStatus P pid = Inr status \<and> status \<noteq> ''succeeded'')) \<and>
        s' = s\<lparr> t_orders := update_where (\<lambda>x. o_ID x = i) (\<lambda>_. cancelled_row (clock E) row) (t_orders s),
               calls := calls s @ (case o_PaymentID row of None \<Rightarrow> [] | Some pid \<Rightarrow> [CancelPaymentCall pid]) \<rparr>"
proof (cases r)
  case (Inl e)
  then show ?thesis using run by (auto dest: Cancel_Execute_Inl)
next
  case (Inr resp)
  have "\<exists>row. find_row o_ID i (t_orders s) = Some row \<and> may_access s role userID row \<and>
        o_Status row = StatusPending \<and>
        (\<forall>pid. o_PaymentID row = Some pid \<longrightarrow>
           (\<exists>status. GetPaymentStatus P pid = Inr status \<and> status \<noteq> ''succeeded'')) \<and>
        s' = s\<lparr> t_orders := update_where (\<lambda>x. o_ID x = i) (\<lambda>_. cancelled_row (clock E) row) (t_orders s),
               calls := calls s @ (case o_PaymentID row of None \<Rightarrow> [] | Some pid \<Rightarrow> [CancelPaymentCall pid]) \<rparr>"
    using run [unfolded Inr] inv
  proof (cases rule: Cancel_Execute_Inr)
    case (1 row)
    then show ?thesis
      by (intro exI [of _ row]) (auto simp: check_payment_def split: option.splits sum.splits if_splits)
  qed
  then show ?thesis using Inr by simp
qed

theorem Cancel_effect_witness:
  "\<exists>resp s'. Cancel_Execute sample_env sample_provider 9 6 ''customer'' sample_order_db = (Inr resp, s') \<and>
     List.map o_Status (t_orders s') = [StatusCancelled] \<and> calls s' = [CancelPaymentCall ''p1'']"
proof -
  have "\<exists>resp s'. Cancel_Execute sample_env sample_provider 9 6 ''customer'' sample_order_db = (Inr resp, s')"
    by (simp add: Cancel_Execute_def find_for_role_def Order_FindByIDAndCustomer_def
        forbid_missing_def check_payment_def conflict_def Cancel_def cancel_at_gateway_def cancel_payment_def
        event_run_defs)
  then obtain resp s' where run:
    "Cancel_Execute sample_env sample_provider 9 6 ''customer'' sample_order_db = (Inr resp, s')" by blast
  show ?thesis
    using Cancel_effect [OF sample_order_db_inv run] run
    by (auto simp: sample_order_db_def sample_db_def sample_pending_def NewOrder_def cancelled_row_def)
qed

subsection \<open>A cancellation that races with the payment\<close>

text \<open>\<open>Cancel.Execute\<close> up to its write, and from its write on; it holds no lock in between.\<close>

definition Cancel_prepare ::
  "env \<Rightarrow> 'd provider \<Rightarrow> uuid \<Rightarrow> uuid \<Rightarrow> string \<Rightarrow> ('d::linordered_idom db, order_err, 'd Order) op" where
  "Cancel_prepare E P orderID userID role =
     bind (query (\<lambda>s. forbid_missing (find_for_role E orderID userID role s))) (\<lambda>ord.
     bind (query (\<lambda>_. check_payment P ord)) (\<lambda>_.
     query (\<lambda>_. conflict (Cancel (clock E) ord))))"

definition Cancel_commit ::
  "env \<Rightarrow> 'd provider \<Rightarrow> 'd Order \<Rightarrow> ('d::linordered_idom db, order_err, 'd OrderResponse) op" where
  "Cancel_commit E P ord' =
     bind (Order_Update E ord') (\<lambda>_.
     bind (cancel_at_gateway P ord') (\<lambda>_.
     ret (ToOrderResponse ord')))"

lemma Cancel_Execute_phases:
  "Cancel_Execute E P i u role = bind (Cancel_prepare E P i u role) (Cancel_commit E P)"
  by (simp add: Cancel_Execute_def Cancel_prepare_def Cancel_commit_def [abs_def] bind_assoc)

lemma find_row_saved:
  "find_row o_ID (o_ID ord) tbl = Some old \<Longrightarrow> find_row o_ID (o_ID ord) (save_order ord tbl) = Some (stored ord)"
  unfolding save_order_def by (induction tbl) (auto simp: stored_def split: if_splits)

text \<open>
  C33. The two halves of a cancellation with a \<open>payment.succeeded\<close> handled in between: both report
  success, the order ends up cancelled with no trace of its confirmation (the cancellation saves the
  whole row it read before), and the \<open>order.confirmed\<close> event, with its lines and total, is in the
  outbox nevertheless. The customer has paid for an order that the restaurant is told to make and
  that the service shows as cancelled.
\<close>

theorem cancel_overwrites_confirmation:
  assumes inv: "orders_inv s"
    and prepare: "Cancel_prepare E P i userID role s = (Inr ord', s')"
    and event: "unmarshal_payment_event L body = Some \<lparr> pep_SubjectType = ''order'', pep_SubjectID = i \<rparr>"
    and paid: "PaymentSucceeded_Handle L E1 body s' = (Inr (), s1)"
    and commit: "Cancel_commit E P ord' s1 = (Inr resp, s2)"
  shows "\<exists>row restaurant. find_row o_ID i (t_orders s) = Some row \<and> o_Status row = StatusPending \<and>
    find_row o_ID i (t_orders s1) = Some (confirmed_row (clock E1) row) \<and>
    find_row o_ID i (t_orders s2) = Some (cancelled_row (clock E) row) \<and>
    t_outbox s2 = outbox_Create (traceParent E1) (confirmed_event L E1 s row restaurant) (t_outbox s)"
proof -
  obtain row where row: "find_row o_ID i (t_orders s) = Some row" "o_Status row = StatusPending"
    and s': "s' = s" and ord': "ord' = cancelled_row (clock E) (preload_order s row)"
    using prepare unfolding Cancel_prepare_def
    by (auto simp: bind_Inr find_for_role_cases [OF inv] cancelled_row_def preload_order_def simp del: bind_simps
        split: option.splits if_splits)
  have in_tbl: "row \<in> set (t_orders s)" "o_ID row = i" using find_row_Some [OF row(1)] by auto
  then have plain: "o_Items row = []" "o_events row = []"
    using inv by (auto simp: orders_inv_def order_row_inv_def)
  from paid [unfolded s'] inv show ?thesis
  proof (cases rule: PaymentSucceeded_Inr)
    case (confirmed payload row' restaurant)
    then have same: "row' = row" using event row by auto
    have conf: "stored (confirmed_row (clock E1) row) = confirmed_row (clock E1) row"
      using plain by (cases row) (simp add: stored_def confirmed_row_def)
    have canc: "stored ord' = cancelled_row (clock E) row"
      using plain unfolding ord' by (cases row) (simp add: stored_def cancelled_row_def preload_order_def)
    have 1: "find_row o_ID i (t_orders s1) = Some (confirmed_row (clock E1) row)"
      using find_row_saved [of "confirmed_row (clock E1) row" "t_orders s" row] row(1) in_tbl conf confirmed same
      by (simp add: confirmed_row_def)
    have s2: "t_orders s2 = save_order ord' (t_orders s1)" "t_outbox s2 = t_outbox s1"
      using commit unfolding Cancel_commit_def
      by (auto simp: bind_Inr Order_Update_Inr cancel_at_gateway_def cancel_payment_def simp del: bind_simps
          split: option.splits)
    have "find_row o_ID i (t_orders s2) = Some (cancelled_row (clock E) row)"
      using find_row_saved [of ord' "t_orders s1"] 1 in_tbl canc s2 ord'
      by (simp add: cancelled_row_def preload_order_def)
    then show ?thesis using row 1 s2 confirmed same by auto
  qed (use event row in auto)
qed

lemma sample_race: "\<exists>ord' s1 resp s2.
    Cancel_prepare sample_env sample_provider 9 6 ''customer'' sample_order_db = (Inr ord', sample_order_db) \<and>
    PaymentSucceeded_Handle sample_lib sample_env sample_paid sample_order_db = (Inr (), s1) \<and>
    Cancel_commit sample_env sample_provider ord' s1 = (Inr resp, s2)"
  by (simp add: Cancel_prepare_def Cancel_commit_def find_for_role_def Order_FindByIDAndCustomer_def
        forbid_missing_def check_payment_def conflict_def Cancel_def cancel_at_gateway_def cancel_payment_def
        event_run_defs)

theorem cancel_overwrites_confirmation_witness:
  "\<exists>ord' s1 resp s2 restaurant.
    Cancel_prepare sample_env sample_provider 9 6 ''customer'' sample_order_db = (Inr ord', sample_order_db) \<and>
    PaymentSucceeded_Handle sample_lib sample_env sample_paid sample_order_db = (Inr (), s1) \<and>
    Cancel_commit sample_env sample_provider ord' s1 = (Inr resp, s2) \<and>
    find_row o_ID 9 (t_orders s2) = Some (cancelled_row (clock sample_env) sample_pending) \<and>
    t_outbox s2 = outbox_Create (traceParent sample_env)
      (confirmed_event sample_lib sample_env sample_order_db sample_pending restaurant) (t_outbox sample_order_db)"
proof -
  obtain ord' s1 resp s2 where run:
    "Cancel_prepare sample_env sample_provider 9 6 ''customer'' sample_order_db = (Inr ord', sample_order_db)"
    "PaymentSucceeded_Handle sample_lib sample_env sample_paid sample_order_db = (Inr (), s1)"
    "Cancel_commit sample_env sample_provider ord' s1 = (Inr resp, s2)"
    using sample_race by blast
  show ?thesis
    using cancel_overwrites_confirmation [OF sample_order_db_inv run(1) sample_paid_payload run(2,3)] run
    by auto
qed

end
