(* ===== verification/Order_Cursor.thy ===== *)
theory Order_Cursor
  imports Order_Props
begin

text \<open>
  Keyset pagination: the cursor codec (\<open>application/order/cursor.go\<close>), the queries \<open>ListMyOrders\<close> and
  \<open>ListRestaurantOrders\<close>, and that following the cursors walks through the caller's orders, each once
  and newest first. \<open>base64.RawURLEncoding\<close> of the standard library is written out on bytes.
\<close>

subsection \<open>base64, URL alphabet, no padding\<close>

definition alphabet :: string where
  "alphabet = ''ABCDEFGHIJKLMNOPQRSTUVWXYZabcdefghijklmnopqrstuvwxyz0123456789-_''"

definition digit64 :: "nat \<Rightarrow> char" where
  "digit64 n = alphabet ! n"

fun encode64 :: "nat list \<Rightarrow> nat list" where
  "encode64 [] = []"
| "encode64 [a] = [a div 4, (a mod 4) * 16]"
| "encode64 [a, b] = [a div 4, (a mod 4) * 16 + b div 16, (b mod 16) * 4]"
| "encode64 (a # b # c # rest) =
     [a div 4, (a mod 4) * 16 + b div 16, (b mod 16) * 4 + c div 64, c mod 64] @ encode64 rest"

fun decode64 :: "nat list \<Rightarrow> nat list option" where
  "decode64 [] = Some []"
| "decode64 [p] = None"
| "decode64 [p, q] = Some [p * 4 + q div 16]"
| "decode64 [p, q, r] = Some [p * 4 + q div 16, (q mod 16) * 16 + r div 4]"
| "decode64 (p # q # r # t # rest) =
     map_option (\<lambda>bs. [p * 4 + q div 16, (q mod 16) * 16 + r div 4, (r mod 4) * 64 + t] @ bs)
       (decode64 rest)"

definition EncodeToString :: "string \<Rightarrow> string" where
  "EncodeToString s = List.map digit64 (encode64 (List.map of_char s))"

fun index_of :: "'a \<Rightarrow> 'a list \<Rightarrow> nat option" where
  "index_of x [] = None"
| "index_of x (y # ys) = (if x = y then Some 0 else map_option Suc (index_of x ys))"

text \<open>The decoder skips line breaks; it does not insist on zero trailing bits.\<close>

definition DecodeString :: "string \<Rightarrow> string option" where
  "DecodeString s =
     (case those (List.map (\<lambda>c. index_of c alphabet) (filter (\<lambda>c. of_char c \<notin> {10::nat, 13}) s)) of
        None \<Rightarrow> None
      | Some digits \<Rightarrow> map_option (List.map char_of) (decode64 digits))"

lemma encode64_less: "list_all (\<lambda>b. b < 256) bs \<Longrightarrow> list_all (\<lambda>d. d < 64) (encode64 bs)"
  by (induction bs rule: encode64.induct) auto

lemma decode_encode64: "list_all (\<lambda>b. b < 256) bs \<Longrightarrow> decode64 (encode64 bs) = Some bs"
  by (induction bs rule: encode64.induct) (auto simp: mult.commute [of _ 4] mult.commute [of _ 16])

lemma list_all_64: "(\<forall>n < 64. P n) \<longleftrightarrow> list_all P [0..<64]"
  by (auto simp: list_all_iff)

lemma digit64_props:
  "n < 64 \<Longrightarrow> index_of (digit64 n) alphabet = Some n \<and> of_char (digit64 n) \<notin> {10::nat, 13}"
proof -
  have "list_all (\<lambda>n. index_of (digit64 n) alphabet = Some n \<and> of_char (digit64 n) \<notin> {10::nat, 13}) [0..<64]"
    by code_simp
  then show "n < 64 \<Longrightarrow> ?thesis" by (simp add: list_all_iff)
qed

lemma those_digits:
  "list_all (\<lambda>d. d < 64) ds \<Longrightarrow> those (List.map (\<lambda>c. index_of c alphabet)
     (filter (\<lambda>c. of_char c \<notin> {10::nat, 13}) (List.map digit64 ds))) = Some ds"
  by (induction ds) (use digit64_props in auto)

lemma char_of_of_char_list: "List.map (char_of \<circ> (of_char :: char \<Rightarrow> nat)) s = s"
  by (induction s) auto

lemma Decode_EncodeToString [simp]: "DecodeString (EncodeToString s) = Some s"
proof -
  have bytes: "list_all (\<lambda>b. b < 256) (List.map (of_char :: char \<Rightarrow> nat) s)"
    by (simp add: list_all_iff)
  show ?thesis
    unfolding DecodeString_def EncodeToString_def
    by (simp only: those_digits [OF encode64_less [OF bytes]] option.case decode_encode64 [OF bytes])
      (simp add: char_of_of_char_list)
qed

lemma EncodeToString_Nil [simp]: "EncodeToString s = '''' \<longleftrightarrow> s = ''''"
proof -
  have "EncodeToString '''' = ''''" by (simp add: EncodeToString_def)
  then show ?thesis using Decode_EncodeToString [of s] Decode_EncodeToString [of "''''"]
    by (auto simp del: Decode_EncodeToString)
qed

subsection \<open>Cursors\<close>

text \<open>\<open>strings.SplitN(s, "|", 2)\<close> as the text before and after the first bar.\<close>

fun split_bar :: "string \<Rightarrow> (string \<times> string) option" where
  "split_bar [] = None"
| "split_bar (c # cs) =
     (if c = CHR ''|'' then Some ([], cs) else map_option (\<lambda>(a, b). (c # a, b)) (split_bar cs))"

definition EncodeCursor :: "'d lib \<Rightarrow> PageCursor \<Rightarrow> string" where
  "EncodeCursor L c =
     EncodeToString (timeFormat L (pc_PlacedAt c) @ ''|'' @ uuidString L (pc_ID c))"

definition DecodeCursor :: "'d lib \<Rightarrow> string \<Rightarrow> (order_err, PageCursor option) result" where
  "DecodeCursor L s =
     (if s = '''' then Inr None
      else case DecodeString s of
        None \<Rightarrow> Inl [App ErrInvalid]
      | Some raw \<Rightarrow>
        (case split_bar raw of
           None \<Rightarrow> Inl [App ErrInvalid]
         | Some (t, u) \<Rightarrow>
           (case timeParse L t of
              None \<Rightarrow> Inl [App ErrInvalid]
            | Some placedAt \<Rightarrow>
              (case uuidParse L u of
                 None \<Rightarrow> Inl [App ErrInvalid]
               | Some ident \<Rightarrow> Inr (Some \<lparr> pc_PlacedAt = placedAt, pc_ID = ident \<rparr>)))))"

text \<open>What \<open>time.RFC3339Nano\<close> writes has no bar.\<close>

definition bar_free :: "'d lib \<Rightarrow> bool" where
  "bar_free L \<longleftrightarrow> (\<forall>t. CHR ''|'' \<notin> set (timeFormat L t))"

lemma split_bar_append: "CHR ''|'' \<notin> set a \<Longrightarrow> split_bar (a @ CHR ''|'' # b) = Some (a, b)"
  by (induction a) auto

lemma cursor_codec:
  assumes "uuid_codec L" "time_codec L" "bar_free L"
  shows "EncodeCursor L c \<noteq> ''''" "DecodeCursor L (EncodeCursor L c) = Inr (Some c)"
proof -
  have "split_bar (timeFormat L (pc_PlacedAt c) @ ''|'' @ uuidString L (pc_ID c)) =
      Some (timeFormat L (pc_PlacedAt c), uuidString L (pc_ID c))"
    using split_bar_append assms(3) by (simp add: bar_free_def)
  then show "EncodeCursor L c \<noteq> ''''" "DecodeCursor L (EncodeCursor L c) = Inr (Some c)"
    using assms(1,2) by (simp_all add: DecodeCursor_def EncodeCursor_def)
qed

text \<open>
  C31. A cursor that the service hands out is read back as the position it was made from, and is
  never the empty text that asks for the first page. Any other text is either read as some position
  or refused as invalid input (422).
\<close>

theorem cursor_roundtrip:
  assumes "uuid_codec L" "time_codec L" "bar_free L"
  shows "EncodeCursor L c \<noteq> '''' \<and> DecodeCursor L (EncodeCursor L c) = Inr (Some c) \<and>
    (\<forall>text e. DecodeCursor L text = Inl e \<longrightarrow> HandleError e = 422)"
proof -
  have "HandleError [App ErrInvalid] = 422"
    by (simp add: HandleError_def errors_is_def)
  then show ?thesis
    using cursor_codec [OF assms, of c] by (auto simp: DecodeCursor_def [of L] split: if_splits option.splits)
qed

lemma sample_bar_free: "bar_free sample_lib"
proof -
  have "CHR ''|'' \<notin> set (nat_bin n)" for n
    by (induction n rule: nat_bin.induct) (subst nat_bin.simps, auto)
  then show ?thesis by (auto simp: bar_free_def sample_lib_def int_bin_def)
qed

theorem cursor_roundtrip_witness:
  "DecodeCursor sample_lib (EncodeCursor sample_lib \<lparr> pc_PlacedAt = 40, pc_ID = 9 \<rparr>) =
     Inr (Some \<lparr> pc_PlacedAt = 40, pc_ID = 9 \<rparr>)"
  using cursor_roundtrip [OF sample_codecs sample_bar_free] by blast

subsection \<open>The list queries\<close>

record 'd ListOrdersResponse =
  lor_Orders :: "'d OrderResponse list"
  lor_NextCursor :: string

text \<open>One order more than the page is fetched, to know whether there is a next page.\<close>

definition list_response :: "'d lib \<Rightarrow> nat \<Rightarrow> 'd::linordered_idom Order list \<Rightarrow> 'd ListOrdersResponse" where
  "list_response L limit found =
     (let hasMore = limit < length found;
          orders = (if hasMore then take limit found else found) in
      \<lparr> lor_Orders = List.map ToOrderResponse orders,
        lor_NextCursor = (if hasMore
          then EncodeCursor L \<lparr> pc_PlacedAt = o_PlacedAt (last orders), pc_ID = o_ID (last orders) \<rparr>
          else '''') \<rparr>)"

definition ListMyOrders_Execute ::
  "'d lib \<Rightarrow> env \<Rightarrow> uuid \<Rightarrow> string \<Rightarrow> int \<Rightarrow> 'd::linordered_idom db \<Rightarrow> (order_err, 'd ListOrdersResponse) result" where
  "ListMyOrders_Execute L E customerID cursor limit0 s =
     (case DecodeCursor L cursor of
        Inl e \<Rightarrow> Inl e
      | Inr after \<Rightarrow>
          let limit = nat (ClampLimit limit0) in
          (case Order_ListByCustomer E customerID after (limit + 1) s of
             Inl e \<Rightarrow> Inl e
           | Inr orders \<Rightarrow> Inr (list_response L limit orders)))"

definition ListRestaurantOrders_Execute ::
  "'d lib \<Rightarrow> env \<Rightarrow> uuid \<Rightarrow> uuid \<Rightarrow> string \<Rightarrow> int \<Rightarrow> 'd::linordered_idom db \<Rightarrow>
   (order_err, 'd ListOrdersResponse) result" where
  "ListRestaurantOrders_Execute L E restaurantID ownerID cursor limit0 s =
     (case DecodeCursor L cursor of
        Inl e \<Rightarrow> Inl e
      | Inr after \<Rightarrow>
          let limit = nat (ClampLimit limit0) in
          (case Order_ListByRestaurant E restaurantID ownerID after (limit + 1) s of
             Inl e \<Rightarrow> Inl e
           | Inr orders \<Rightarrow> Inr (list_response L limit orders)))"

lemma ClampLimit_bounds: "1 \<le> ClampLimit l \<and> ClampLimit l \<le> MaxOrdersLimit"
  by (simp add: ClampLimit_def DefaultOrdersLimit_def MaxOrdersLimit_def)

text \<open>The orders a query ranges over, newest first; a page is a piece of that list.\<close>

definition newest :: "('d Order \<Rightarrow> bool) \<Rightarrow> 'd Order list \<Rightarrow> 'd Order list" where
  "newest P tbl = rev (sort_key position (filter P tbl))"

lemma newest_mset: "mset (newest P tbl) = mset (filter P tbl)"
  by (simp add: newest_def)

lemma newest_sorted:
  assumes "distinct (List.map o_ID tbl)"
  shows "sorted_wrt (\<lambda>x y. position y < position x) (newest P tbl)"
proof -
  have "inj_on o_ID (set tbl)" using assms by (simp add: distinct_map)
  then have "inj_on position (set (filter P tbl))"
    by (auto simp: inj_on_def position_def)
  moreover have "distinct (filter P tbl)" using assms by (simp add: distinct_map)
  ultimately have "distinct (List.map position (sort_key position (filter P tbl)))"
    by (simp add: distinct_map)
  moreover have "sorted (List.map position (sort_key position (filter P tbl)))" by simp
  ultimately have "sorted_wrt (<) (List.map position (sort_key position (filter P tbl)))"
    by (simp add: strict_sorted_iff)
  then show ?thesis by (simp add: newest_def sorted_wrt_map sorted_wrt_rev)
qed

lemma page_first: "page P None limit tbl = take limit (newest P tbl)"
  by (simp add: page_def newest_def)

lemma page_after:
  assumes "distinct (List.map o_ID tbl)" "newest P tbl = xs @ x # ys"
  shows "page P (Some \<lparr> pc_PlacedAt = o_PlacedAt x, pc_ID = o_ID x \<rparr>) limit tbl = take limit ys"
proof -
  let ?Q = "\<lambda>ord. position ord < position x"
  have "sorted_wrt (\<lambda>x y. position y < position x) (xs @ x # ys)"
    using newest_sorted [OF assms(1), of P] assms(2) by simp
  then have "filter ?Q (xs @ x # ys) = ys"
    by (auto simp: sorted_wrt_append filter_empty_conv intro!: filter_True dest: less_imp_not_less)
  then have "filter ?Q (newest P tbl) = ys" by (simp add: assms(2))
  moreover have "filter ?Q (newest P tbl) = rev (sort_key position (filter (\<lambda>ord. P ord \<and> ?Q ord) tbl))"
    by (simp add: newest_def rev_filter [symmetric] filter_sort conj_commute)
  ultimately show ?thesis
    by (simp add: page_def position_def)
qed

text \<open>A client that follows the cursors, for at most \<open>fuel\<close> pages.\<close>

fun walk :: "(string \<Rightarrow> ('e, 'd ListOrdersResponse) result) \<Rightarrow> nat \<Rightarrow> string \<Rightarrow> 'd OrderResponse list option" where
  "walk ask 0 cursor = None"
| "walk ask (Suc fuel) cursor =
     (case ask cursor of
        Inl e \<Rightarrow> None
      | Inr r \<Rightarrow>
          if lor_NextCursor r = '''' then Some (lor_Orders r)
          else map_option (\<lambda>rest. lor_Orders r @ rest) (walk ask fuel (lor_NextCursor r)))"

lemma list_response_simps:
  "length found \<le> limit \<Longrightarrow> list_response L limit found =
     \<lparr> lor_Orders = List.map ToOrderResponse found, lor_NextCursor = '''' \<rparr>"
  "0 < limit \<Longrightarrow> limit < length found \<Longrightarrow> list_response L limit found =
     \<lparr> lor_Orders = List.map ToOrderResponse (take limit found),
       lor_NextCursor = EncodeCursor L \<lparr> pc_PlacedAt = o_PlacedAt (found ! (limit - 1)),
         pc_ID = o_ID (found ! (limit - 1)) \<rparr> \<rparr>"
proof -
  assume "0 < limit" "limit < length found"
  moreover from this have "take limit found \<noteq> []" by auto
  ultimately have "last (take limit found) = found ! (limit - 1)"
    by (simp add: last_conv_nth min_def)
  then show "list_response L limit found =
     \<lparr> lor_Orders = List.map ToOrderResponse (take limit found),
       lor_NextCursor = EncodeCursor L \<lparr> pc_PlacedAt = o_PlacedAt (found ! (limit - 1)),
         pc_ID = o_ID (found ! (limit - 1)) \<rparr> \<rparr>"
    using \<open>limit < length found\<close> by (simp add: list_response_def Let_def)
qed (simp add: list_response_def Let_def)

text \<open>The walk from a position, for a ask that answers with pages of \<open>newest P tbl\<close>.\<close>

lemma walk_pages:
  fixes L :: "'d::linordered_idom lib" and f :: "'d Order \<Rightarrow> 'd Order"
  assumes codec: "uuid_codec L" "time_codec L" "bar_free L"
    and keys: "distinct (List.map o_ID tbl)" and pos: "\<And>x. position (f x) = position x" and limit: "0 < limit"
    and pages: "\<And>cursor after. DecodeCursor L cursor = Inr after \<Longrightarrow>
      ask cursor = Inr (list_response L limit (List.map f (page P after (limit + 1) tbl)))"
  shows "newest P tbl = xs @ ys \<Longrightarrow> length ys < fuel \<Longrightarrow>
    DecodeCursor L cursor = Inr (if xs = [] then None
      else Some \<lparr> pc_PlacedAt = o_PlacedAt (last xs), pc_ID = o_ID (last xs) \<rparr>) \<Longrightarrow>
    walk ask fuel cursor = Some (List.map (ToOrderResponse \<circ> f) ys)"
proof (induction fuel arbitrary: xs ys cursor)
  case (Suc fuel)
  have "page P (if xs = [] then None
      else Some \<lparr> pc_PlacedAt = o_PlacedAt (last xs), pc_ID = o_ID (last xs) \<rparr>) (limit + 1) tbl = take (limit + 1) ys"
  proof (cases xs rule: rev_cases)
    case Nil
    then show ?thesis using Suc.prems(1) by (simp add: page_first)
  next
    case (snoc us u)
    then show ?thesis using Suc.prems(1) page_after [OF keys, of P us u ys "limit + 1"] by simp
  qed
  then have q: "ask cursor = Inr (list_response L limit (List.map f (take (limit + 1) ys)))"
    using pages [OF Suc.prems(3)] by simp
  show ?case
  proof (cases "length ys \<le> limit")
    case True
    then show ?thesis using q by (simp add: list_response_simps(1))
  next
    case False
    let ?x = "ys ! (limit - 1)" and ?next = "xs @ take limit ys"
    have "List.map f (take (limit + 1) ys) ! (limit - 1) = f ?x"
      using False limit by (subst nth_map; auto)
    moreover have "take limit (List.map f (take (limit + 1) ys)) = List.map f (take limit ys)"
      by (simp add: take_map min_def)
    ultimately have found: "List.map f (take (limit + 1) ys) ! (limit - 1) = f ?x"
      "take limit (List.map f (take (limit + 1) ys)) = List.map f (take limit ys)"
      by auto
    have next_cursor: "lor_NextCursor (list_response L limit (List.map f (take (limit + 1) ys))) =
        EncodeCursor L \<lparr> pc_PlacedAt = o_PlacedAt ?x, pc_ID = o_ID ?x \<rparr>"
      "lor_Orders (list_response L limit (List.map f (take (limit + 1) ys))) =
        List.map (ToOrderResponse \<circ> f) (take limit ys)"
      using False limit found pos [of ?x] list_response_simps(2) [of limit "List.map f (take (limit + 1) ys)" L]
      by (simp_all add: position_def)
    have "ys \<noteq> []" using False by auto
    then have "last ?next = ?x" using False limit by (simp add: last_append last_conv_nth)
    moreover have "?next \<noteq> []" using False limit by (cases ys) auto
    moreover have "newest P tbl = ?next @ drop limit ys" using Suc.prems(1) by simp
    moreover have "length (drop limit ys) < fuel" using Suc.prems(2) limit False by simp
    ultimately have "walk ask fuel (EncodeCursor L \<lparr> pc_PlacedAt = o_PlacedAt ?x, pc_ID = o_ID ?x \<rparr>) =
        Some (List.map (ToOrderResponse \<circ> f) (drop limit ys))"
      by (intro Suc.IH [of ?next "drop limit ys"]) (simp_all add: cursor_codec [OF codec])
    then show ?thesis
      using q next_cursor cursor_codec [OF codec] by (simp flip: map_append)
  qed
qed simp

lemma preload_order_simps [simp]:
  "o_ID (preload_order s ord) = o_ID ord" "position (preload_order s ord) = position ord"
  by (simp_all add: preload_order_def position_def)

definition my_order :: "uuid \<Rightarrow> 'd Order \<Rightarrow> bool" where
  "my_order customerID ord \<longleftrightarrow> o_CustomerID ord = customerID"

definition restaurant_order :: "'d db \<Rightarrow> uuid \<Rightarrow> uuid \<Rightarrow> 'd Order \<Rightarrow> bool" where
  "restaurant_order s restaurantID ownerID ord \<longleftrightarrow>
     o_RestaurantID ord = restaurantID \<and> owned_by s ownerID ord"

lemma list_queries_page:
  assumes "DecodeCursor L cursor = Inr after" "\<not> fault E OrderList"
  shows "ListMyOrders_Execute L E customerID cursor limit s = Inr (list_response L (nat (ClampLimit limit))
      (List.map (preload_order s) (page (my_order customerID) after (nat (ClampLimit limit) + 1) (t_orders s))))"
    and "ListRestaurantOrders_Execute L E restaurantID ownerID cursor limit s =
      Inr (list_response L (nat (ClampLimit limit)) (List.map (preload_order s)
        (page (restaurant_order s restaurantID ownerID) after (nat (ClampLimit limit) + 1) (t_orders s))))"
  using assms by (simp_all add: ListMyOrders_Execute_def ListRestaurantOrders_Execute_def Order_ListByCustomer_def
      Order_ListByRestaurant_def my_order_def [abs_def] restaurant_order_def [abs_def] Let_def)

text \<open>
  C23. Following the cursors from the first page returns, for any page size the client asks for, every
  order of the caller exactly once, newest first, and nothing else: a customer's own orders, and an
  owner's orders of the one restaurant. One page more than there are orders is always enough.
\<close>

theorem pagination_complete:
  fixes L :: "'d::linordered_idom lib"
  assumes codec: "uuid_codec L" "time_codec L" "bar_free L"
    and inv: "orders_inv s" and up: "\<not> fault E OrderList" and fuel: "length (t_orders s) < fuel"
  shows "(\<exists>orders. walk (\<lambda>cursor. ListMyOrders_Execute L E customerID cursor limit s) fuel '''' =
        Some (List.map (\<lambda>ord. ToOrderResponse (preload_order s ord)) orders) \<and>
      mset orders = mset (filter (\<lambda>ord. o_CustomerID ord = customerID) (t_orders s)) \<and>
      sorted_wrt (\<lambda>x y. (o_PlacedAt y, o_ID y) < (o_PlacedAt x, o_ID x)) orders) \<and>
    (\<exists>orders. walk (\<lambda>cursor. ListRestaurantOrders_Execute L E restaurantID ownerID cursor limit s) fuel '''' =
        Some (List.map (\<lambda>ord. ToOrderResponse (preload_order s ord)) orders) \<and>
      mset orders = mset (filter (\<lambda>ord. o_RestaurantID ord = restaurantID \<and>
        (\<exists>r \<in> set (t_restaurants s). r_ID r = o_RestaurantID ord \<and> r_OwnerID r = ownerID)) (t_orders s)) \<and>
      sorted_wrt (\<lambda>x y. (o_PlacedAt y, o_ID y) < (o_PlacedAt x, o_ID x)) orders)"
proof -
  have keys: "distinct (List.map o_ID (t_orders s))" using inv by (simp add: orders_inv_def)
  have limit: "0 < nat (ClampLimit limit)" using ClampLimit_bounds [of limit] by simp
  have enough: "length (newest P (t_orders s)) < fuel" for P
    using le_less_trans [OF length_filter_le fuel] by (simp add: newest_def)
  have first: "DecodeCursor L '''' = Inr None" by (simp add: DecodeCursor_def)
  have "walk ask fuel '''' = Some (List.map (\<lambda>ord. ToOrderResponse (preload_order s ord)) (newest P (t_orders s)))"
    if "\<And>cursor after. DecodeCursor L cursor = Inr after \<Longrightarrow> ask cursor =
      Inr (list_response L (nat (ClampLimit limit)) (List.map (preload_order s)
        (page P after (nat (ClampLimit limit) + 1) (t_orders s))))" for ask P
    using walk_pages [OF codec keys preload_order_simps(2) limit that, where xs = "[]" and cursor = "''''"]
      first enough by (simp add: comp_def)
  note walked = this
  have mine: "walk (\<lambda>cursor. ListMyOrders_Execute L E customerID cursor limit s) fuel '''' =
      Some (List.map (\<lambda>ord. ToOrderResponse (preload_order s ord)) (newest (my_order customerID) (t_orders s)))"
    by (rule walked) (rule list_queries_page(1) [OF _ up])
  have theirs: "walk (\<lambda>cursor. ListRestaurantOrders_Execute L E restaurantID ownerID cursor limit s) fuel '''' =
      Some (List.map (\<lambda>ord. ToOrderResponse (preload_order s ord))
        (newest (restaurant_order s restaurantID ownerID) (t_orders s)))"
    by (rule walked) (rule list_queries_page(2) [OF _ up])
  show ?thesis
    using newest_sorted [OF keys, unfolded position_def]
    by (intro conjI exI [of _ "newest (my_order customerID) (t_orders s)"]
        exI [of _ "newest (restaurant_order s restaurantID ownerID) (t_orders s)"] mine theirs)
      (auto simp: newest_mset my_order_def restaurant_order_def owned_by_def)
qed

theorem pagination_complete_witness:
  "walk (\<lambda>cursor. ListMyOrders_Execute sample_lib sample_env 6 cursor 1 sample_order_db) 2 '''' =
     Some [ToOrderResponse (preload_order sample_order_db sample_pending)]"
proof -
  have up: "\<not> fault sample_env OrderList" and fuel: "length (t_orders sample_order_db) < 2"
    by (simp_all add: sample_env_def sample_order_db_def)
  have "filter (\<lambda>ord. o_CustomerID ord = 6) (t_orders sample_order_db) = [sample_pending]"
    by (simp add: sample_order_db_def sample_pending_def NewOrder_def)
  then show ?thesis
    using pagination_complete [OF sample_codecs sample_bar_free sample_order_db_inv up fuel, of 6 1] by auto
qed

end
