(* ===== verification/Read_Model.thy ===== *)
theory Read_Model
  imports Order_Cursor
begin

text \<open>
  The consumers that keep order-service's read models in step with the other services
  (\<open>internal/application/readmodel\<close>), the dispatcher they are registered with
  (\<open>internal/container/worker.go\<close>), and what the read models converge to when messages are redelivered
  and reordered. A message has a name and a body, \<open>None\<close> for a body that is no JSON document.
\<close>

subsection \<open>Payloads\<close>

record pizzaPriceWire =
  ppw_SizeID :: uuid
  ppw_DiameterCm :: int16
  ppw_Price :: string
  ppw_IsActive :: bool

definition dec_price_wire :: "'d lib \<Rightarrow> json \<Rightarrow> pizzaPriceWire option" where
  "dec_price_wire L j =
     (if \<not> is_struct j then None
      else case (dec_uuid L (member j ''sizeId''), dec_int16 (member j ''diameterCm''),
                 dec_str (member j ''price''), dec_bool (member j ''isActive'')) of
        (Some sizeID, Some diameter, Some price, Some active) \<Rightarrow>
          Some \<lparr> ppw_SizeID = sizeID, ppw_DiameterCm = diameter, ppw_Price = price, ppw_IsActive = active \<rparr>
      | _ \<Rightarrow> None)"

record pizzaUpdatedPayload =
  pup_RestaurantID :: uuid
  pup_ID :: uuid
  pup_Name :: string
  pup_Status :: string
  pup_Prices :: "pizzaPriceWire list"
  pup_UpdatedAt :: time

definition unmarshal_pizza_updated :: "'d lib \<Rightarrow> json option \<Rightarrow> pizzaUpdatedPayload option" where
  "unmarshal_pizza_updated L body = (case body of
     None \<Rightarrow> None
   | Some j \<Rightarrow>
       let p = member j ''pizza'' in
       if \<not> is_struct j \<or> \<not> is_struct p then None
       else (case (dec_uuid L (member j ''restaurant_id''), dec_uuid L (member p ''id''),
                   dec_str (member p ''name''), dec_str (member p ''status''),
                   dec_list (dec_price_wire L) (member p ''prices''), dec_time L (member j ''updated_at'')) of
          (Some restaurantID, Some ident, Some name, Some status, Some prices, Some updatedAt) \<Rightarrow>
            Some \<lparr> pup_RestaurantID = restaurantID, pup_ID = ident, pup_Name = name, pup_Status = status,
                   pup_Prices = prices, pup_UpdatedAt = updatedAt \<rparr>
        | _ \<Rightarrow> None))"

record launchedPizzaWire =
  lpw_ID :: uuid
  lpw_Name :: string
  lpw_Status :: string
  lpw_Prices :: "pizzaPriceWire list"
  lpw_UpdatedAt :: "time option"

definition dec_launched_pizza :: "'d lib \<Rightarrow> json \<Rightarrow> launchedPizzaWire option" where
  "dec_launched_pizza L j =
     (if \<not> is_struct j then None
      else case (dec_uuid L (member j ''id''), dec_str (member j ''name''), dec_str (member j ''status''),
                 dec_list (dec_price_wire L) (member j ''prices''), dec_time_ptr L (member j ''updatedAt'')) of
        (Some ident, Some name, Some status, Some prices, Some updatedAt) \<Rightarrow>
          Some \<lparr> lpw_ID = ident, lpw_Name = name, lpw_Status = status, lpw_Prices = prices,
                 lpw_UpdatedAt = updatedAt \<rparr>
      | _ \<Rightarrow> None)"

record toppingPriceWire =
  tpw_ToppingID :: uuid
  tpw_Name :: string
  tpw_ExtraPrice :: string

definition dec_topping_wire :: "'d lib \<Rightarrow> json \<Rightarrow> toppingPriceWire option" where
  "dec_topping_wire L j =
     (if \<not> is_struct j then None
      else case (dec_uuid L (member j ''toppingId''), dec_str (member j ''name''),
                 dec_str (member j ''extraPrice'')) of
        (Some ident, Some name, Some price) \<Rightarrow>
          Some \<lparr> tpw_ToppingID = ident, tpw_Name = name, tpw_ExtraPrice = price \<rparr>
      | _ \<Rightarrow> None)"

text \<open>The restaurant part, which \<open>restaurant.launched\<close> and \<open>restaurant.updated\<close> have alike.\<close>

record restaurantPayload =
  rpl_RestaurantID :: uuid
  rpl_OwnerID :: uuid
  rpl_Name :: string
  rpl_Email :: "string option"
  rpl_Lat :: real
  rpl_Lon :: real
  rpl_DeliveryType :: string
  rpl_RadiusKm :: "int16 option"
  rpl_Fee :: string
  rpl_MinimumOrder :: string
  rpl_Currency :: string
  rpl_Pickup :: bool
  rpl_UpdatedAt :: time

definition unmarshal_restaurant :: "'d lib \<Rightarrow> json option \<Rightarrow> restaurantPayload option" where
  "unmarshal_restaurant L body = (case body of
     None \<Rightarrow> None
   | Some j \<Rightarrow>
       let c = member j ''contact''; d = member j ''delivery'' in
       if \<not> is_struct j \<or> \<not> is_struct c \<or> \<not> is_struct d then None
       else (case ((dec_uuid L (member j ''restaurant_id''), dec_uuid L (member j ''owner_id''),
                    dec_str (member j ''restaurant_name''), dec_str_ptr (member c ''email'')),
                   (dec_float (member j ''lat''), dec_float (member j ''lon'')),
                   (dec_str (member d ''type''), dec_int16_ptr (member d ''radiusKm''),
                    dec_str (member d ''fee''), dec_str (member d ''minimumOrder'')),
                   (dec_str (member j ''currency''), dec_bool (member j ''pickup''),
                    dec_time L (member j ''updated_at''))) of
          ((Some restaurantID, Some ownerID, Some name, Some email), (Some lat, Some lon),
           (Some deliveryType, Some radius, Some fee, Some minimum), (Some currency, Some pickup, Some updatedAt)) \<Rightarrow>
            Some \<lparr> rpl_RestaurantID = restaurantID, rpl_OwnerID = ownerID, rpl_Name = name, rpl_Email = email,
                   rpl_Lat = lat, rpl_Lon = lon, rpl_DeliveryType = deliveryType, rpl_RadiusKm = radius,
                   rpl_Fee = fee, rpl_MinimumOrder = minimum, rpl_Currency = currency, rpl_Pickup = pickup,
                   rpl_UpdatedAt = updatedAt \<rparr>
        | _ \<Rightarrow> None))"

text \<open>\<open>restaurant.launched\<close> has the restaurant's pizzas and topping prices as well.\<close>

definition unmarshal_launched ::
  "'d lib \<Rightarrow> json option \<Rightarrow> (restaurantPayload \<times> launchedPizzaWire list \<times> toppingPriceWire list) option" where
  "unmarshal_launched L body = (case (unmarshal_restaurant L body, body) of
     (Some r, Some j) \<Rightarrow>
       (case (dec_list (dec_launched_pizza L) (member j ''pizzas''),
              dec_list (dec_topping_wire L) (member j ''topping_prices'')) of
          (Some pizzas, Some toppings) \<Rightarrow> Some (r, pizzas, toppings)
        | _ \<Rightarrow> None)
   | _ \<Rightarrow> None)"

definition unmarshal_topping_prices ::
  "'d lib \<Rightarrow> json option \<Rightarrow> (uuid \<times> toppingPriceWire list \<times> time) option" where
  "unmarshal_topping_prices L body = (case body of
     None \<Rightarrow> None
   | Some j \<Rightarrow>
       if \<not> is_struct j then None
       else (case (dec_uuid L (member j ''restaurant_id''), dec_list (dec_topping_wire L) (member j ''topping_prices''),
                   dec_time L (member j ''updated_at'')) of
          (Some restaurantID, Some toppings, Some updatedAt) \<Rightarrow> Some (restaurantID, toppings, updatedAt)
        | _ \<Rightarrow> None))"

definition unmarshal_user_registered :: "'d lib \<Rightarrow> json option \<Rightarrow> (uuid \<times> string \<times> string) option" where
  "unmarshal_user_registered L body = (case body of
     None \<Rightarrow> None
   | Some j \<Rightarrow>
       if \<not> is_struct j then None
       else (case (dec_uuid L (member j ''user_id''), dec_str (member j ''email''), dec_str (member j ''first_name'')) of
          (Some userID, Some email, Some firstName) \<Rightarrow> Some (userID, email, firstName)
        | _ \<Rightarrow> None))"

definition unmarshal_phone_updated :: "'d lib \<Rightarrow> json option \<Rightarrow> (uuid \<times> string) option" where
  "unmarshal_phone_updated L body = (case body of
     None \<Rightarrow> None
   | Some j \<Rightarrow>
       if \<not> is_struct j then None
       else (case (dec_uuid L (member j ''customer_id''), dec_str (member j ''phone'')) of
          (Some customerID, Some phone) \<Rightarrow> Some (customerID, phone)
        | _ \<Rightarrow> None))"

subsection \<open>Handlers\<close>

definition hasActivePrice :: "pizzaPriceWire list \<Rightarrow> bool" where
  "hasActivePrice prices = list_ex ppw_IsActive prices"

fun upsert_prices ::
  "'d lib \<Rightarrow> env \<Rightarrow> nat \<Rightarrow> nat \<Rightarrow> uuid \<Rightarrow> time \<Rightarrow> pizzaPriceWire list \<Rightarrow> ('d::linordered_idom db, order_err, unit) op" where
  "upsert_prices L E n m pizzaID updatedAt [] = ret ()"
| "upsert_prices L E n m pizzaID updatedAt (price # rest) =
     (case NewFromString L (ppw_Price price) of
        None \<Rightarrow> fail []
      | Some amount \<Rightarrow>
          bind (Price_Upsert E n m \<lparr> pp_PizzaID = pizzaID, pp_SizeID = ppw_SizeID price,
                  pp_DiameterCm = ppw_DiameterCm price, pp_Price = amount, pp_IsActive = ppw_IsActive price,
                  pp_UpdatedAt = updatedAt \<rparr>) (\<lambda>_.
          upsert_prices L E n (Suc m) pizzaID updatedAt rest))"

definition SyncPizza_Handle ::
  "'d lib \<Rightarrow> env \<Rightarrow> json option \<Rightarrow> ('d::linordered_idom db, order_err, unit) op" where
  "SyncPizza_Handle L E body = (case unmarshal_pizza_updated L body of
     None \<Rightarrow> fail []
   | Some payload \<Rightarrow>
       if pup_Status payload = ''archived'' \<or> \<not> hasActivePrice (pup_Prices payload)
       then Pizza_Delete E (pup_ID payload) (pup_UpdatedAt payload)
       else bind (Pizza_Upsert E 0 \<lparr> pz_ID = pup_ID payload, pz_RestaurantID = pup_RestaurantID payload,
                    pz_Name = pup_Name payload, pz_Status = pup_Status payload,
                    pz_UpdatedAt = pup_UpdatedAt payload \<rparr>) (\<lambda>_.
            upsert_prices L E 0 0 (pup_ID payload) (pup_UpdatedAt payload) (pup_Prices payload)))"

fun upsert_toppings ::
  "'d lib \<Rightarrow> env \<Rightarrow> nat \<Rightarrow> uuid \<Rightarrow> time \<Rightarrow> toppingPriceWire list \<Rightarrow> ('d::linordered_idom db, order_err, unit) op" where
  "upsert_toppings L E n restaurantID updatedAt [] = ret ()"
| "upsert_toppings L E n restaurantID updatedAt (tp # rest) =
     (case NewFromString L (tpw_ExtraPrice tp) of
        None \<Rightarrow> fail []
      | Some extraPrice \<Rightarrow>
          bind (Topping_Upsert E n \<lparr> tp_RestaurantID = restaurantID, tp_ToppingID = tpw_ToppingID tp,
                  tp_Name = tpw_Name tp, tp_ExtraPrice = extraPrice, tp_UpdatedAt = updatedAt \<rparr>) (\<lambda>_.
          upsert_toppings L E (Suc n) restaurantID updatedAt rest))"

definition SyncToppingPrices_Handle ::
  "'d lib \<Rightarrow> env \<Rightarrow> json option \<Rightarrow> ('d::linordered_idom db, order_err, unit) op" where
  "SyncToppingPrices_Handle L E body = (case unmarshal_topping_prices L body of
     None \<Rightarrow> fail []
   | Some (restaurantID, toppings, updatedAt) \<Rightarrow> upsert_toppings L E 0 restaurantID updatedAt toppings)"

definition upsert_restaurant ::
  "'d lib \<Rightarrow> env \<Rightarrow> restaurantPayload \<Rightarrow> ('d::linordered_idom db, order_err, unit) op" where
  "upsert_restaurant L E payload = (case rpl_Email payload of
     None \<Rightarrow> fail []
   | Some email \<Rightarrow>
     (case NewFromString L (rpl_Fee payload) of
        None \<Rightarrow> fail []
      | Some deliveryFee \<Rightarrow>
        (case NewFromString L (rpl_MinimumOrder payload) of
           None \<Rightarrow> fail []
         | Some minimumOrder \<Rightarrow>
             Restaurant_Upsert E \<lparr> r_ID = rpl_RestaurantID payload, r_OwnerID = rpl_OwnerID payload,
               r_Name = rpl_Name payload, r_OwnerEmail = email, r_Lat = rpl_Lat payload, r_Lon = rpl_Lon payload,
               r_DeliveryKm = rpl_RadiusKm payload, r_DeliveryFee = deliveryFee, r_MinimumOrder = minimumOrder,
               r_Pickup = rpl_Pickup payload, r_DeliveryType = rpl_DeliveryType payload,
               r_Currency = rpl_Currency payload, r_UpdatedAt = rpl_UpdatedAt payload \<rparr>)))"

definition UpdateRestaurant_Handle ::
  "'d lib \<Rightarrow> env \<Rightarrow> json option \<Rightarrow> ('d::linordered_idom db, order_err, unit) op" where
  "UpdateRestaurant_Handle L E body = (case unmarshal_restaurant L body of
     None \<Rightarrow> fail []
   | Some payload \<Rightarrow> upsert_restaurant L E payload)"

fun upsert_pizzas ::
  "'d lib \<Rightarrow> env \<Rightarrow> nat \<Rightarrow> uuid \<Rightarrow> launchedPizzaWire list \<Rightarrow> ('d::linordered_idom db, order_err, unit) op" where
  "upsert_pizzas L E n restaurantID [] = ret ()"
| "upsert_pizzas L E n restaurantID (pz # rest) =
     (if lpw_Status pz = ''archived'' \<or> \<not> hasActivePrice (lpw_Prices pz)
      then upsert_pizzas L E (Suc n) restaurantID rest
      else case lpw_UpdatedAt pz of
        None \<Rightarrow> fail []
      | Some updatedAt \<Rightarrow>
          bind (Pizza_Upsert E n \<lparr> pz_ID = lpw_ID pz, pz_RestaurantID = restaurantID, pz_Name = lpw_Name pz,
                  pz_Status = lpw_Status pz, pz_UpdatedAt = updatedAt \<rparr>) (\<lambda>_.
          bind (upsert_prices L E n 0 (lpw_ID pz) updatedAt (lpw_Prices pz)) (\<lambda>_.
          upsert_pizzas L E (Suc n) restaurantID rest)))"

definition UpsertRestaurant_Handle ::
  "'d lib \<Rightarrow> env \<Rightarrow> json option \<Rightarrow> ('d::linordered_idom db, order_err, unit) op" where
  "UpsertRestaurant_Handle L E body = (case unmarshal_launched L body of
     None \<Rightarrow> fail []
   | Some (payload, pizzas, toppings) \<Rightarrow>
       bind (upsert_restaurant L E payload) (\<lambda>_.
       bind (upsert_pizzas L E 0 (rpl_RestaurantID payload) pizzas) (\<lambda>_.
       upsert_toppings L E 0 (rpl_RestaurantID payload) (rpl_UpdatedAt payload) toppings)))"

definition UpsertCustomer_Handle ::
  "'d lib \<Rightarrow> env \<Rightarrow> json option \<Rightarrow> ('d::linordered_idom db, order_err, unit) op" where
  "UpsertCustomer_Handle L E body = (case unmarshal_user_registered L body of
     None \<Rightarrow> fail []
   | Some (userID, email, firstName) \<Rightarrow>
       Customer_Upsert E \<lparr> cu_ID = userID, cu_Email = email, cu_FirstName = firstName, cu_Phone = None \<rparr>)"

definition UpdateCustomerPhone_Handle ::
  "'d lib \<Rightarrow> env \<Rightarrow> json option \<Rightarrow> ('d::linordered_idom db, order_err, unit) op" where
  "UpdateCustomerPhone_Handle L E body = (case unmarshal_phone_updated L body of
     None \<Rightarrow> fail []
   | Some (customerID, phone) \<Rightarrow> Customer_UpdatePhone E customerID phone)"

subsection \<open>The dispatcher\<close>

type_synonym 'd handler = "env \<Rightarrow> json option \<Rightarrow> ('d db, order_err, unit) op"

definition Register :: "string \<Rightarrow> 'd handler \<Rightarrow> (string \<rightharpoonup> 'd handler) \<Rightarrow> (string \<rightharpoonup> 'd handler)" where
  "Register name h handlers = handlers(name \<mapsto> h)"

definition Dispatch :: "(string \<rightharpoonup> 'd handler) \<Rightarrow> string \<Rightarrow> 'd handler" where
  "Dispatch handlers name E body = (case handlers name of None \<Rightarrow> fail [] | Some h \<Rightarrow> h E body)"

definition order_dispatcher :: "'d::linordered_idom lib \<Rightarrow> (string \<rightharpoonup> 'd handler)" where
  "order_dispatcher L =
     Register ''payment.failed'' (PaymentFailed_Handle L)
    (Register ''payment.succeeded'' (PaymentSucceeded_Handle L)
    (Register ''customer.phone_updated'' (UpdateCustomerPhone_Handle L)
    (Register ''user.registered'' (UpsertCustomer_Handle L)
    (Register ''restaurant.topping_prices_updated'' (SyncToppingPrices_Handle L)
    (Register ''restaurant.pizza_updated'' (SyncPizza_Handle L)
    (Register ''restaurant.updated'' (UpdateRestaurant_Handle L)
    (Register ''restaurant.launched'' (UpsertRestaurant_Handle L) Map.empty)))))))"

lemma Dispatch_cases:
  "Dispatch (order_dispatcher L) name E body =
    (if name = ''payment.failed'' then PaymentFailed_Handle L E body
     else if name = ''payment.succeeded'' then PaymentSucceeded_Handle L E body
     else if name = ''customer.phone_updated'' then UpdateCustomerPhone_Handle L E body
     else if name = ''user.registered'' then UpsertCustomer_Handle L E body
     else if name = ''restaurant.topping_prices_updated'' then SyncToppingPrices_Handle L E body
     else if name = ''restaurant.pizza_updated'' then SyncPizza_Handle L E body
     else if name = ''restaurant.updated'' then UpdateRestaurant_Handle L E body
     else if name = ''restaurant.launched'' then UpsertRestaurant_Handle L E body
     else fail [])"
  by (simp add: Dispatch_def order_dispatcher_def Register_def)

subsection \<open>Which rows a message writes\<close>

text \<open>
  \<open>writes table put m rs\<close>: as far as \<open>table\<close> goes, \<open>m\<close> does the upserts \<open>rs\<close> in order, all of them when it
  succeeds and a prefix when it fails.
\<close>

definition writes ::
  "('s \<Rightarrow> 'r list) \<Rightarrow> ('r \<Rightarrow> 'r list \<Rightarrow> 'r list) \<Rightarrow> ('s, 'e, 'a) op \<Rightarrow> 'r list \<Rightarrow> bool" where
  "writes table put m rs \<longleftrightarrow> (\<forall>s. \<exists>n. table (snd (m s)) = fold put (take n rs) (table s) \<and>
     (isl (fst (m s)) \<or> length rs \<le> n))"

named_theorems writes_intro "rules for writes, by the structure of the operation"

lemma writes_fail [writes_intro]: "writes table put (fail e) rs"
  by (auto simp: writes_def fail_def intro: exI [of _ 0])

lemma writes_frame: "(\<And>X. keeps (\<lambda>s. table s = X) m) \<Longrightarrow> writes table put m []"
  by (simp add: writes_def keeps_def)

lemma writes_ret [writes_intro]: "writes table put (ret x) []"
  by (rule writes_frame) (rule keeps_ret)

lemma writes_bind [writes_intro]:
  assumes "writes table put m rs1" and "\<And>x. writes table put (f x) rs2"
  shows "writes table put (bind m f) (rs1 @ rs2)"
  unfolding writes_def
proof
  fix s
  obtain n where n: "table (snd (m s)) = fold put (take n rs1) (table s)" "isl (fst (m s)) \<or> length rs1 \<le> n"
    using assms(1) unfolding writes_def by blast
  show "\<exists>n. table (snd (bind m f s)) = fold put (take n (rs1 @ rs2)) (table s) \<and>
     (isl (fst (bind m f s)) \<or> length (rs1 @ rs2) \<le> n)"
  proof (cases "m s")
    case (Pair r s1)
    show ?thesis
    proof (cases r)
      case (Inl e)
      have "take (min n (length rs1)) (rs1 @ rs2) = take n rs1" by (simp add: min_def)
      then show ?thesis using n Pair Inl
        by (intro exI [of _ "min n (length rs1)"]) (simp add: bind_def)
    next
      case (Inr x)
      obtain n2 where "table (snd (f x s1)) = fold put (take n2 rs2) (table s1)" "isl (fst (f x s1)) \<or> length rs2 \<le> n2"
        using assms(2) [of x] unfolding writes_def by blast
      then show ?thesis using n Pair Inr
        by (intro exI [of _ "length rs1 + n2"]) (auto simp: bind_def)
    qed
  qed
qed

lemma writes_if [writes_intro]:
  "writes table put m rs \<Longrightarrow> writes table put m' rs' \<Longrightarrow>
    writes table put (if b then m else m') (if b then rs else rs')"
  by simp

abbreviation "writes_restaurants \<equiv> writes t_restaurants (upsert_newer r_ID r_UpdatedAt)"
abbreviation "writes_toppings \<equiv> writes t_topping_prices (upsert_newer topping_key tp_UpdatedAt)"

text \<open>The rows a message has for the tables of restaurants and topping prices.\<close>

definition restaurant_row :: "'d lib \<Rightarrow> restaurantPayload \<Rightarrow> 'd Restaurant list" where
  "restaurant_row L payload =
     (case (rpl_Email payload, NewFromString L (rpl_Fee payload), NewFromString L (rpl_MinimumOrder payload)) of
        (Some email, Some fee, Some minimum) \<Rightarrow>
          [\<lparr> r_ID = rpl_RestaurantID payload, r_OwnerID = rpl_OwnerID payload,
             r_Name = rpl_Name payload, r_OwnerEmail = email, r_Lat = rpl_Lat payload, r_Lon = rpl_Lon payload,
             r_DeliveryKm = rpl_RadiusKm payload, r_DeliveryFee = fee, r_MinimumOrder = minimum,
             r_Pickup = rpl_Pickup payload, r_DeliveryType = with_default ''none'' (rpl_DeliveryType payload),
             r_Currency = with_default ''EUR'' (rpl_Currency payload), r_UpdatedAt = rpl_UpdatedAt payload \<rparr>]
      | _ \<Rightarrow> [])"

fun topping_rows_of :: "'d lib \<Rightarrow> uuid \<Rightarrow> time \<Rightarrow> toppingPriceWire list \<Rightarrow> 'd ToppingPrice list" where
  "topping_rows_of L restaurantID updatedAt [] = []"
| "topping_rows_of L restaurantID updatedAt (tp # rest) =
     (case NewFromString L (tpw_ExtraPrice tp) of
        None \<Rightarrow> []
      | Some extraPrice \<Rightarrow>
          \<lparr> tp_RestaurantID = restaurantID, tp_ToppingID = tpw_ToppingID tp, tp_Name = tpw_Name tp,
            tp_ExtraPrice = extraPrice, tp_UpdatedAt = updatedAt \<rparr> # topping_rows_of L restaurantID updatedAt rest)"

definition message_restaurants :: "'d lib \<Rightarrow> string \<times> json option \<Rightarrow> 'd Restaurant list" where
  "message_restaurants L m =
     (if fst m = ''restaurant.updated'' then
        (case unmarshal_restaurant L (snd m) of None \<Rightarrow> [] | Some p \<Rightarrow> restaurant_row L p)
      else if fst m = ''restaurant.launched'' then
        (case unmarshal_launched L (snd m) of None \<Rightarrow> [] | Some (p, _, _) \<Rightarrow> restaurant_row L p)
      else [])"

definition message_toppings :: "'d lib \<Rightarrow> string \<times> json option \<Rightarrow> 'd ToppingPrice list" where
  "message_toppings L m =
     (if fst m = ''restaurant.topping_prices_updated'' then
        (case unmarshal_topping_prices L (snd m) of None \<Rightarrow> []
         | Some (restaurantID, tps, updatedAt) \<Rightarrow> topping_rows_of L restaurantID updatedAt tps)
      else if fst m = ''restaurant.launched'' then
        (case unmarshal_launched L (snd m) of None \<Rightarrow> []
         | Some (p, _, tps) \<Rightarrow> topping_rows_of L (rpl_RestaurantID p) (rpl_UpdatedAt p) tps)
      else [])"

lemma upsert_restaurant_writes: "writes_restaurants (upsert_restaurant L E p) (restaurant_row L p)"
  by (auto simp: upsert_restaurant_def restaurant_row_def Restaurant_Upsert_def put_restaurant_def writes_def
      fail_def Let_def intro: exI [of _ 0] exI [of _ 1] split: option.split)

lemma Topping_Upsert_writes: "writes_toppings (Topping_Upsert E n p) [p]"
  by (auto simp: Topping_Upsert_def put_topping_def writes_def intro: exI [of _ 0] exI [of _ 1])

lemma upsert_toppings_writes:
  "writes_toppings (upsert_toppings L E n i t tps) (topping_rows_of L i t tps)"
proof (induction tps arbitrary: n)
  case Nil
  then show ?case by (simp add: writes_ret)
next
  case (Cons tp tps)
  show ?case
  proof (cases "NewFromString L (tpw_ExtraPrice tp)")
    case None
    then show ?thesis by (simp add: writes_fail)
  next
    case (Some x)
    show ?thesis
      using writes_bind [OF Topping_Upsert_writes Cons.IH] by (simp add: Some)
  qed
qed

text \<open>What leaves those two tables alone.\<close>

definition two_tables :: "'d Restaurant list \<times> 'd ToppingPrice list \<Rightarrow> 'd db \<Rightarrow> bool" where
  "two_tables X s \<longleftrightarrow> t_restaurants s = fst X \<and> t_topping_prices s = snd X"

lemma keeps_one_table:
  assumes "\<And>X. keeps (two_tables X) m"
  shows "keeps (\<lambda>s. t_restaurants s = R) m" "keeps (\<lambda>s. t_topping_prices s = T) m"
proof -
  have "t_restaurants (snd (m s)) = t_restaurants s \<and> t_topping_prices (snd (m s)) = t_topping_prices s" for s
    using assms [of "(t_restaurants s, t_topping_prices s)"] by (simp add: keeps_def two_tables_def)
  then show "keeps (\<lambda>s. t_restaurants s = R) m" "keeps (\<lambda>s. t_topping_prices s = T) m"
    by (simp_all add: keeps_def)
qed

lemma leaves_two_tables:
  "keeps (two_tables X) (Pizza_Upsert E n p)" "keeps (two_tables X) (Pizza_Delete E i t)"
  "keeps (two_tables X) (Price_Upsert E n m pp)" "keeps (two_tables X) (Customer_Upsert E c)"
  "keeps (two_tables X) (Customer_UpdatePhone E i ph)" "keeps (two_tables X) (Order_Update E ord)"
  "keeps (two_tables X) (Outbox_Insert E n oe)"
  unfolding Pizza_Upsert_def Pizza_Delete_def Price_Upsert_def Customer_Upsert_def Customer_UpdatePhone_def
    Order_Update_def Outbox_Insert_def Let_def put_pizza_def put_price_def
  by (rule keepsI; simp add: two_tables_def)+

lemma upsert_prices_two_tables: "keeps (two_tables X) (upsert_prices L E n m i t ps)"
  by (induction ps arbitrary: m) (auto intro!: keeps_intro leaves_two_tables)

lemma upsert_pizzas_two_tables: "keeps (two_tables X) (upsert_pizzas L E n i pzs)"
  by (induction pzs arbitrary: n) (auto intro!: keeps_intro leaves_two_tables upsert_prices_two_tables)

lemma handlers_two_tables:
  "keeps (two_tables X) (SyncPizza_Handle L E body)" "keeps (two_tables X) (UpsertCustomer_Handle L E body)"
  "keeps (two_tables X) (UpdateCustomerPhone_Handle L E body)" "keeps (two_tables X) (PaymentFailed_Handle L E body)"
  "keeps (two_tables X) (PaymentSucceeded_Handle L E body)"
  unfolding SyncPizza_Handle_def UpsertCustomer_Handle_def UpdateCustomerPhone_Handle_def
    PaymentFailed_Handle_def PaymentSucceeded_Handle_def
  by (intro keeps_intro leaves_two_tables upsert_prices_two_tables DispatchEventsTx_keeps)+

lemma writes_pad: "writes table put m [] \<Longrightarrow> writes table put m' rs \<Longrightarrow> writes table put (bind m (\<lambda>_. m')) rs"
  using writes_bind [of table put m "[]" "\<lambda>_. m'" rs] by simp

lemma writes_pad_right: "writes table put m rs \<Longrightarrow> writes table put m' [] \<Longrightarrow> writes table put (bind m (\<lambda>_. m')) rs"
  using writes_bind [of table put m rs "\<lambda>_. m'" "[]"] by simp

lemma upsert_toppings_leaves: "keeps (\<lambda>s. t_restaurants s = R) (upsert_toppings L E n i t tps)"
proof (induction tps arbitrary: n)
  case (Cons tp tps)
  have "keeps (\<lambda>s. t_restaurants s = R) (Topping_Upsert E n p)" for p
    by (rule keepsI) (simp add: Topping_Upsert_def put_topping_def)
  then show ?case using Cons by (auto intro!: keeps_intro)
qed (auto intro: keeps_intro)

lemma upsert_restaurant_leaves: "keeps (\<lambda>s. t_topping_prices s = T) (upsert_restaurant L E p)"
proof -
  have "keeps (\<lambda>s. t_topping_prices s = T) (Restaurant_Upsert E r)" for r :: "'a Restaurant"
    by (rule keepsI) (simp add: Restaurant_Upsert_def put_restaurant_def Let_def)
  then show ?thesis unfolding upsert_restaurant_def by (intro keeps_intro)
qed

lemma launched_writes:
  "writes_restaurants (UpsertRestaurant_Handle L E body) (message_restaurants L (''restaurant.launched'', body))"
  "writes_toppings (UpsertRestaurant_Handle L E body) (message_toppings L (''restaurant.launched'', body))"
proof -
  have pizzas: "writes_restaurants (upsert_pizzas L E n i pzs) []" "writes_toppings (upsert_pizzas L E n i pzs) []" for n i pzs
    by (intro writes_frame keeps_one_table upsert_pizzas_two_tables)+
  have toppings: "writes_restaurants (upsert_toppings L E n i t tps) []" for n i t tps
    by (intro writes_frame upsert_toppings_leaves)
  have restaurant: "writes_toppings (upsert_restaurant L E p) []" for p
    by (intro writes_frame upsert_restaurant_leaves)
  show "writes_restaurants (UpsertRestaurant_Handle L E body) (message_restaurants L (''restaurant.launched'', body))"
    unfolding UpsertRestaurant_Handle_def message_restaurants_def
    by (auto split: option.split intro!: writes_fail writes_pad_right [OF upsert_restaurant_writes]
        writes_pad_right [OF pizzas(1)] toppings)
  show "writes_toppings (UpsertRestaurant_Handle L E body) (message_toppings L (''restaurant.launched'', body))"
    unfolding UpsertRestaurant_Handle_def message_toppings_def
    by (auto split: option.split intro!: writes_fail writes_pad [OF restaurant] writes_pad [OF pizzas(2)]
        upsert_toppings_writes)
qed

lemma writes_cond:
  "(b \<Longrightarrow> writes table put m rs) \<Longrightarrow> (\<not> b \<Longrightarrow> writes table put m' rs) \<Longrightarrow>
    writes table put (if b then m else m') rs"
  by simp

lemma Dispatch_writes:
  "writes_restaurants (Dispatch (order_dispatcher L) name E body) (message_restaurants L (name, body))"
  "writes_toppings (Dispatch (order_dispatcher L) name E body) (message_toppings L (name, body))"
proof -
  have others: "writes_restaurants m []" "writes_toppings m []" if "\<And>X. keeps (two_tables X) m"
    for m :: "('a db, order_err, unit) op"
    by (intro writes_frame keeps_one_table that)+
  have updated: "writes_restaurants (UpdateRestaurant_Handle L E body) (message_restaurants L (''restaurant.updated'', body))"
    unfolding UpdateRestaurant_Handle_def message_restaurants_def
    by (auto split: option.split intro!: writes_fail upsert_restaurant_writes)
  have updated2: "writes_toppings (UpdateRestaurant_Handle L E body) []"
    unfolding UpdateRestaurant_Handle_def
    by (intro writes_frame keeps_intro upsert_restaurant_leaves)
  have topp: "writes_toppings (SyncToppingPrices_Handle L E body)
      (message_toppings L (''restaurant.topping_prices_updated'', body))"
    unfolding SyncToppingPrices_Handle_def message_toppings_def
    by (auto split: option.split intro!: writes_fail upsert_toppings_writes)
  have topp2: "writes_restaurants (SyncToppingPrices_Handle L E body) []"
    unfolding SyncToppingPrices_Handle_def
    by (intro writes_frame keeps_intro upsert_toppings_leaves)
  note none = others [OF handlers_two_tables(1)] others [OF handlers_two_tables(2)]
    others [OF handlers_two_tables(3)] others [OF handlers_two_tables(4)] others [OF handlers_two_tables(5)]
  show "writes_restaurants (Dispatch (order_dispatcher L) name E body) (message_restaurants L (name, body))"
    unfolding Dispatch_cases
    by (intro writes_cond; use none updated topp2 launched_writes(1) in
        \<open>simp add: writes_fail message_restaurants_def\<close>)
  show "writes_toppings (Dispatch (order_dispatcher L) name E body) (message_toppings L (name, body))"
    unfolding Dispatch_cases
    by (intro writes_cond; use none updated2 topp launched_writes(2) in
        \<open>simp add: writes_fail message_toppings_def\<close>)
qed

subsection \<open>Convergence\<close>

text \<open>
  A sequence of deliveries, each in its own environment (its faults and its time); a message whose handler
  fails is delivered again later in the sequence, or never. \<open>deliver\<close> gives the messages that were handled
  successfully and the final state.
\<close>

type_synonym message = "string \<times> json option"

fun deliver ::
  "'d::linordered_idom lib \<Rightarrow> (env \<times> message) list \<Rightarrow> 'd db \<Rightarrow> message list \<times> 'd db" where
  "deliver L [] s = ([], s)"
| "deliver L ((E, m) # ds) s =
     (case Dispatch (order_dispatcher L) (fst m) E (snd m) s of
        (r, s1) \<Rightarrow> (case deliver L ds s1 of
           (handled, s2) \<Rightarrow> (if isl r then handled else m # handled, s2)))"

lemma deliver_writes:
  assumes writes: "\<And>E m. writes table put (Dispatch (order_dispatcher L) (fst m) E (snd m)) (rows m)"
  shows "deliver L ds s = (handled, s') \<Longrightarrow> \<exists>ws. table s' = fold put ws (table s) \<and>
    (\<Union>m \<in> set handled. set (rows m)) \<subseteq> set ws \<and> set ws \<subseteq> (\<Union>m \<in> snd ` set ds. set (rows m))"
proof (induction ds arbitrary: s handled)
  case Nil
  then show ?case by (auto intro: exI [of _ "[]"])
next
  case (Cons d ds)
  obtain E m where d: "d = (E, m)" by (cases d)
  obtain r s1 where step: "Dispatch (order_dispatcher L) (fst m) E (snd m) s = (r, s1)" by fastforce
  obtain handled1 where rest: "deliver L ds s1 = (handled1, s')"
    and handled: "handled = (if isl r then handled1 else m # handled1)"
    using Cons.prems step d by (auto split: prod.splits)
  obtain n where n: "table s1 = fold put (take n (rows m)) (table s)" "isl r \<or> length (rows m) \<le> n"
    using writes [of m E] step unfolding writes_def by (metis fst_conv snd_conv)
  obtain ws where ws: "table s' = fold put ws (table s1)" "(\<Union>m \<in> set handled1. set (rows m)) \<subseteq> set ws"
    "set ws \<subseteq> (\<Union>m \<in> snd ` set ds. set (rows m))"
    using Cons.IH [OF rest] by blast
  have "set (take n (rows m)) \<subseteq> set (rows m)" by (rule set_take_subset)
  moreover have "\<not> isl r \<Longrightarrow> take n (rows m) = rows m" using n(2) by simp
  ultimately show ?case
    using n(1) ws d handled by (intro exI [of _ "take n (rows m) @ ws"]) auto
qed

text \<open>Two messages that carry the same version of a row carry the same row.\<close>

definition consistent_versions :: "('r \<Rightarrow> 'k) \<Rightarrow> ('r \<Rightarrow> time) \<Rightarrow> 'r set \<Rightarrow> bool" where
  "consistent_versions key ts R \<longleftrightarrow> (\<forall>x \<in> R. \<forall>y \<in> R. key x = key y \<and> ts x = ts y \<longrightarrow> x = y)"

lemma deliveries_agree:
  fixes L :: "'d::linordered_idom lib"
  assumes writes: "\<And>E m. writes table (upsert_newer key ts) (Dispatch (order_dispatcher L) (fst m) E (snd m)) (rows m)"
    and runs: "deliver L ds s = (handled, s1)" "deliver L ds' s = (handled', s2)"
    and all: "set handled = snd ` set ds" "set handled' = snd ` set ds'" "snd ` set ds = snd ` set ds'"
    and versions: "consistent_versions key ts (\<Union>m \<in> snd ` set ds. set (rows m))"
  shows "find_row key k (table s1) = find_row key k (table s2)"
    and "m \<in> snd ` set ds \<Longrightarrow> row \<in> set (rows m) \<Longrightarrow>
      \<exists>r. find_row key (key row) (table s1) = Some r \<and> ts row \<le> ts r"
proof -
  obtain ws where ws: "table s1 = fold (upsert_newer key ts) ws (table s)"
    "set ws = (\<Union>m \<in> snd ` set ds. set (rows m))"
    using deliver_writes [OF writes runs(1)] all(1) by blast
  obtain ws' where ws': "table s2 = fold (upsert_newer key ts) ws' (table s)"
    "set ws' = (\<Union>m \<in> snd ` set ds. set (rows m))"
    using deliver_writes [OF writes runs(2)] all by auto
  show "find_row key k (table s1) = find_row key k (table s2)"
    unfolding ws(1) ws'(1)
    by (rule list_table.redelivery_irrelevant)
      (use ws ws' versions in \<open>auto simp: consistent_versions_def\<close>)
  show "\<exists>r. find_row key (key row) (table s1) = Some r \<and> ts row \<le> ts r"
    if "m \<in> snd ` set ds" "row \<in> set (rows m)"
    unfolding ws(1) by (rule list_table.stored_newest) (use that ws in blast)
qed

text \<open>
  The copies of restaurants and topping prices converge. Take two sequences of deliveries of the same
  messages, of whatever kind, in any order, with any repetitions and with any failed attempts in between, in
  each of which every message is handled successfully at least once. Then every restaurant and every topping
  price is the same after both, and at least as new as every message about it; provided only that two messages
  with the same version of a row carry the same row.
\<close>

theorem read_models_converge:
  fixes L :: "'d::linordered_idom lib"
  assumes runs: "deliver L ds s = (handled, s1)" "deliver L ds' s = (handled', s2)"
    and all: "set handled = snd ` set ds" "set handled' = snd ` set ds'" "snd ` set ds = snd ` set ds'"
    and versions: "consistent_versions r_ID r_UpdatedAt (\<Union>m \<in> snd ` set ds. set (message_restaurants L m))"
      "consistent_versions topping_key tp_UpdatedAt (\<Union>m \<in> snd ` set ds. set (message_toppings L m))"
  shows "(\<forall>i. find_row r_ID i (t_restaurants s1) = find_row r_ID i (t_restaurants s2)) \<and>
    (\<forall>k. find_row topping_key k (t_topping_prices s1) = find_row topping_key k (t_topping_prices s2)) \<and>
    (\<forall>m \<in> snd ` set ds.
       (\<forall>row \<in> set (message_restaurants L m).
          \<exists>r. find_row r_ID (r_ID row) (t_restaurants s1) = Some r \<and> r_UpdatedAt row \<le> r_UpdatedAt r) \<and>
       (\<forall>row \<in> set (message_toppings L m).
          \<exists>t. find_row topping_key (topping_key row) (t_topping_prices s1) = Some t \<and> tp_UpdatedAt row \<le> tp_UpdatedAt t))"
proof -
  have "writes_restaurants (Dispatch (order_dispatcher L) (fst m) E (snd m)) (message_restaurants L m)"
    "writes_toppings (Dispatch (order_dispatcher L) (fst m) E (snd m)) (message_toppings L m)" for E m
    using Dispatch_writes [of L "fst m" E "snd m"] by simp_all
  then show ?thesis
    using deliveries_agree [OF _ runs all versions(1)] deliveries_agree [OF _ runs all versions(2)]
    by (intro conjI allI ballI) auto
qed

subsection \<open>Samples\<close>

definition sample_update :: "time \<Rightarrow> string \<Rightarrow> message" where
  "sample_update t name = (''restaurant.updated'', Some (JObj [
     (''restaurant_id'', enc_uuid sample_lib 1), (''owner_id'', enc_uuid sample_lib 2),
     (''restaurant_name'', JStr name), (''contact'', JObj [(''email'', JStr ''r@x'')]),
     (''lat'', JInt 0), (''lon'', JInt 0),
     (''delivery'', JObj [(''type'', JStr ''own''), (''radiusKm'', JInt 5),
        (''fee'', JStr (StringFixed2 sample_lib 3)), (''minimumOrder'', JStr (StringFixed2 sample_lib 10))]),
     (''currency'', JStr ''EUR''), (''pickup'', JBool True), (''updated_at'', enc_time sample_lib t)]))"

lemma sample_update_rows [simp]:
  "message_restaurants sample_lib (sample_update t name) =
     [sample_restaurant\<lparr> r_Name := name, r_UpdatedAt := t \<rparr>]"
  "message_toppings sample_lib (sample_update t name) = []"
  by (simp_all add: message_restaurants_def message_toppings_def sample_update_def unmarshal_restaurant_def
      restaurant_row_def sample_restaurant_def with_default_def Let_def int16_range_def)

lemma sample_update_step [simp]:
  "char_count name \<le> 128 \<Longrightarrow> Dispatch (order_dispatcher sample_lib) (fst (sample_update t name)) E (snd (sample_update t name)) s =
    (if fault E RestaurantUpsert then (Inl [], s)
     else (Inr (), put_restaurant (sample_restaurant\<lparr> r_Name := name, r_UpdatedAt := t \<rparr>) s))"
  by (simp add: Dispatch_cases sample_update_def UpdateRestaurant_Handle_def unmarshal_restaurant_def
      upsert_restaurant_def Restaurant_Upsert_def sample_restaurant_def with_default_def Let_def int16_range_def
      restaurant_row_ok_def numeric_fits_def)

definition faulty_env :: env where
  "faulty_env = sample_env\<lparr> fault := (\<lambda>_. True) \<rparr>"

theorem read_models_converge_witness:
  "\<exists>h1 s1 h2 s2. deliver sample_lib [(sample_env, sample_update 20 ''A''), (sample_env, sample_update 30 ''B'')] sample_db = (h1, s1) \<and>
     deliver sample_lib [(faulty_env, sample_update 20 ''A''), (sample_env, sample_update 30 ''B''),
       (sample_env, sample_update 20 ''A''), (sample_env, sample_update 30 ''B'')] sample_db = (h2, s2) \<and>
     (\<forall>i. find_row r_ID i (t_restaurants s1) = find_row r_ID i (t_restaurants s2))"
proof -
  let ?a = "sample_update 20 ''A''" and ?b = "sample_update 30 ''B''"
  let ?ds = "[(sample_env, ?a), (sample_env, ?b)]"
  let ?ds' = "[(faulty_env, ?a), (sample_env, ?b), (sample_env, ?a), (sample_env, ?b)]"
  obtain h1 s1 where run1: "deliver sample_lib ?ds sample_db = (h1, s1)" by fastforce
  obtain h2 s2 where run2: "deliver sample_lib ?ds' sample_db = (h2, s2)" by fastforce
  have env: "\<not> fault sample_env c" "fault faulty_env c" for c
    by (simp_all add: sample_env_def faulty_env_def)
  have "h1 = [?a, ?b]" "h2 = [?b, ?a, ?b]"
    using run1 run2 by (simp_all add: env)
  then have all: "set h1 = snd ` set ?ds" "set h2 = snd ` set ?ds'" "snd ` set ?ds = snd ` set ?ds'"
    by auto
  have rows: "(\<Union>m \<in> snd ` set ?ds. set (message_restaurants sample_lib m)) =
      {sample_restaurant\<lparr> r_Name := ''A'', r_UpdatedAt := 20 \<rparr>, sample_restaurant\<lparr> r_Name := ''B'', r_UpdatedAt := 30 \<rparr>}"
    "(\<Union>m \<in> snd ` set ?ds. set (message_toppings sample_lib m)) = {}"
    by auto
  have "consistent_versions r_ID r_UpdatedAt (\<Union>m \<in> snd ` set ?ds. set (message_restaurants sample_lib m))"
    "consistent_versions topping_key tp_UpdatedAt (\<Union>m \<in> snd ` set ?ds. set (message_toppings sample_lib m))"
    unfolding rows by (auto simp: consistent_versions_def)
  then show ?thesis
    using read_models_converge [OF run1 run2 all] run1 run2 by auto
qed

subsection \<open>Pizzas do not converge\<close>

lemma upsert_prices_pizzas: "keeps (\<lambda>s. t_pizzas s = X) (upsert_prices L E n m i t ps)"
proof (induction ps arbitrary: m)
  case (Cons p ps)
  have "keeps (\<lambda>s. t_pizzas s = X) (Price_Upsert E n m q)" for q
    by (rule keepsI) (simp add: Price_Upsert_def put_price_def)
  then show ?case using Cons by (auto intro!: keeps_intro)
qed (auto intro: keeps_intro)

lemma Pizza_Upsert_Inr: "Pizza_Upsert E n p s = (Inr u, s') \<Longrightarrow>
    s' = put_pizza (p\<lparr> pz_Status := with_default ''available'' (pz_Status p) \<rparr>) s"
  by (auto simp: Pizza_Upsert_def Let_def split: if_splits)

text \<open>
  A pizza that was archived can come back. Deletion leaves no trace of its version, so an update that is
  older than the archival but is handled after it (the consumer puts a failed message at the back of the queue)
  stores the pizza again and the cart offers it; in the order of their versions the same two messages leave
  no pizza.
\<close>

theorem archived_pizza_returns:
  fixes L :: "'d::linordered_idom lib"
  assumes update: "unmarshal_pizza_updated L body = Some p" "pup_Status p \<noteq> ''archived''" "hasActivePrice (pup_Prices p)"
    and archive: "unmarshal_pizza_updated L body' = Some q" "pup_Status q = ''archived''" "pup_ID q = pup_ID p"
    and older: "pup_UpdatedAt p < pup_UpdatedAt q" and fresh: "find_row pz_ID (pup_ID p) (t_pizzas s) = None"
    and in_order: "SyncPizza_Handle L E body s = (Inr (), s1)" "SyncPizza_Handle L E' body' s1 = (Inr (), s2)"
    and reordered: "SyncPizza_Handle L F' body' s = (Inr (), t1)" "SyncPizza_Handle L F body t1 = (Inr (), t2)"
  shows "find_row pz_ID (pup_ID p) (t_pizzas s2) = None \<and>
    find_row pz_ID (pup_ID p) (t_pizzas t2) = Some \<lparr> pz_ID = pup_ID p, pz_RestaurantID = pup_RestaurantID p,
      pz_Name = pup_Name p, pz_Status = with_default ''available'' (pup_Status p), pz_UpdatedAt = pup_UpdatedAt p \<rparr>"
proof -
  let ?row = "\<lparr> pz_ID = pup_ID p, pz_RestaurantID = pup_RestaurantID p, pz_Name = pup_Name p,
      pz_Status = with_default ''available'' (pup_Status p), pz_UpdatedAt = pup_UpdatedAt p \<rparr>"
  have stored: "t_pizzas y = upsert_newer pz_ID pz_UpdatedAt ?row (t_pizzas x)"
    if "SyncPizza_Handle L G body x = (Inr (), y)" for G and x y :: "'d db"
  proof -
    from that update obtain z where
      z: "Pizza_Upsert G 0 \<lparr> pz_ID = pup_ID p, pz_RestaurantID = pup_RestaurantID p, pz_Name = pup_Name p,
            pz_Status = pup_Status p, pz_UpdatedAt = pup_UpdatedAt p \<rparr> x = (Inr (), z)"
      and rest: "upsert_prices L G 0 0 (pup_ID p) (pup_UpdatedAt p) (pup_Prices p) z = (Inr (), y)"
      by (auto simp: SyncPizza_Handle_def bind_Inr)
    show ?thesis using keepsD [OF upsert_prices_pizzas rest refl] Pizza_Upsert_Inr [OF z]
      by (simp add: put_pizza_def)
  qed
  have deleted: "t_pizzas y = delete_where (\<lambda>r. pz_ID r = pup_ID p \<and> pz_UpdatedAt r < pup_UpdatedAt q) (t_pizzas x)"
    if "SyncPizza_Handle L G body' x = (Inr (), y)" for G and x y :: "'d db"
    using that archive by (auto simp: SyncPizza_Handle_def Pizza_Delete_def delete_where_def split: if_splits
        intro!: filter_True [symmetric])
  have "t_pizzas s1 = t_pizzas s @ [?row]"
    using stored [OF in_order(1)] fresh by (simp add: upsert_newer_def)
  then have "find_row pz_ID (pup_ID p) (t_pizzas s2) = None"
    using deleted [OF in_order(2)] fresh older by (auto simp: find_row_None delete_where_def)
  moreover have "find_row pz_ID (pup_ID p) (t_pizzas t1) = None"
    using deleted [OF reordered(1)] fresh by (auto simp: find_row_None delete_where_def)
  then have "find_row pz_ID (pup_ID p) (t_pizzas t2) = Some ?row"
    using stored [OF reordered(2)] by (simp add: find_row_upsert_newer)
  ultimately show ?thesis by simp
qed

definition sample_pizza_event :: "time \<Rightarrow> string \<Rightarrow> json option" where
  "sample_pizza_event t status = Some (JObj [
     (''restaurant_id'', enc_uuid sample_lib 1),
     (''pizza'', JObj [(''id'', enc_uuid sample_lib 33), (''name'', JStr ''Roma''), (''status'', JStr status),
        (''prices'', JArr [JObj [(''sizeId'', enc_uuid sample_lib 4), (''diameterCm'', JInt 30),
           (''price'', JStr (StringFixed2 sample_lib 9)), (''isActive'', JBool True)]])]),
     (''updated_at'', enc_time sample_lib t)])"

lemma sample_pizza_payload [simp]: "unmarshal_pizza_updated sample_lib (sample_pizza_event t status) =
    Some \<lparr> pup_RestaurantID = 1, pup_ID = 33, pup_Name = ''Roma'', pup_Status = status,
      pup_Prices = [\<lparr> ppw_SizeID = 4, ppw_DiameterCm = 30, ppw_Price = StringFixed2 sample_lib 9,
        ppw_IsActive = True \<rparr>], pup_UpdatedAt = t \<rparr>"
  by (simp add: unmarshal_pizza_updated_def sample_pizza_event_def dec_price_wire_def Let_def int16_range_def)

theorem archived_pizza_returns_witness:
  "\<exists>s1 s2 t1 t2.
     SyncPizza_Handle sample_lib sample_env (sample_pizza_event 20 ''available'') sample_db = (Inr (), s1) \<and>
     SyncPizza_Handle sample_lib sample_env (sample_pizza_event 30 ''archived'') s1 = (Inr (), s2) \<and>
     SyncPizza_Handle sample_lib sample_env (sample_pizza_event 30 ''archived'') sample_db = (Inr (), t1) \<and>
     SyncPizza_Handle sample_lib sample_env (sample_pizza_event 20 ''available'') t1 = (Inr (), t2) \<and>
     find_row pz_ID 33 (t_pizzas s2) = None \<and> find_row pz_ID 33 (t_pizzas t2) \<noteq> None"
proof -
  have "\<exists>s1 s2. SyncPizza_Handle sample_lib sample_env (sample_pizza_event 20 ''available'') sample_db = (Inr (), s1) \<and>
     SyncPizza_Handle sample_lib sample_env (sample_pizza_event 30 ''archived'') s1 = (Inr (), s2)"
    "\<exists>t1 t2. SyncPizza_Handle sample_lib sample_env (sample_pizza_event 30 ''archived'') sample_db = (Inr (), t1) \<and>
     SyncPizza_Handle sample_lib sample_env (sample_pizza_event 20 ''available'') t1 = (Inr (), t2)"
    by (simp_all add: SyncPizza_Handle_def hasActivePrice_def Pizza_Upsert_def pizza_row_ok_def with_default_def
        would_write_def put_pizza_def Price_Upsert_def price_row_ok_def numeric_fits_def put_price_def price_key_def
        Pizza_Delete_def sample_defs bind_def ret_def upsert_newer_def delete_where_def)
  then obtain s1 s2 t1 t2 where runs:
    "SyncPizza_Handle sample_lib sample_env (sample_pizza_event 20 ''available'') sample_db = (Inr (), s1)"
    "SyncPizza_Handle sample_lib sample_env (sample_pizza_event 30 ''archived'') s1 = (Inr (), s2)"
    "SyncPizza_Handle sample_lib sample_env (sample_pizza_event 30 ''archived'') sample_db = (Inr (), t1)"
    "SyncPizza_Handle sample_lib sample_env (sample_pizza_event 20 ''available'') t1 = (Inr (), t2)" by blast
  have "find_row pz_ID 33 (t_pizzas sample_db) = None" by (simp add: sample_db_def)
  then show ?thesis
    using archived_pizza_returns [OF sample_pizza_payload _ _ sample_pizza_payload _ _ _ _ runs] runs
    by (auto simp: hasActivePrice_def)
qed

end
