(* ===== verification/Outbox_Worker.thy ===== *)
theory Outbox_Worker
  imports Read_Model
begin

text \<open>
  The outbox worker (\<open>internal/application/outbox/worker.go\<close>, the same code in every service that has an
  outbox): batches of due rows are leased, published and recorded as processed, released for a retry
  with exponential backoff, or given up.

  A worker is modelled twice: as the function that a batch is (\<open>processBatch\<close>), and as a step relation in
  which any number of workers lease, publish, record, crash and overlap.
\<close>

subsection \<open>The worker\<close>

record WorkerConfig =
  PollInterval :: time
  BatchSize :: int
  Concurrency :: int
  MaxRetries :: int
  StopTimeout :: time
  EventTimeout :: time

definition DefaultConfig :: WorkerConfig where
  "DefaultConfig = \<lparr> PollInterval = 2 * second, BatchSize = 50, Concurrency = 5, MaxRetries = 3,
     StopTimeout = 30 * second, EventTimeout = 30 * second \<rparr>"

text \<open>\<open>int\<close> and \<open>time.Duration\<close> have 64 bits; the shift count is unsigned, and a shift by 64 or more gives 0.\<close>

definition computeBackoff :: "64 word \<Rightarrow> 64 word" where
  "computeBackoff attempts0 =
     (let attempts = (if sint attempts0 < 1 then 1 else attempts0);
          backoff = push_bit (unat (attempts - 1)) 1 * 1000000000;
          backoff1 = (if sint backoff < 1000000000 then 1000000000 else backoff) in
      if sint backoff1 > 300000000000 then 300000000000 else backoff1)"

text \<open>
  The outcome of \<open>relayer.Process\<close> is \<open>None\<close> or the text of an error; \<open>recorded\<close> says whether the write that
  follows reaches the database.
\<close>

definition handleEvent ::
  "WorkerConfig \<Rightarrow> time \<Rightarrow> string option \<Rightarrow> bool \<Rightarrow> OutboxEvent \<Rightarrow> outbox_table \<Rightarrow> outbox_table" where
  "handleEvent cfg now outcome recorded ev t =
     (if \<not> recorded then t
      else case outcome of
        Some err \<Rightarrow>
          if ob_Attempts ev \<ge> MaxRetries cfg
          then MarkFailed now (ob_ID ev) (''max retries reached: '' @ err) t
          else ReleaseForRetry now (ob_ID ev) err (sint (computeBackoff (word_of_int (ob_Attempts ev)))) t
      | None \<Rightarrow> MarkProcessed now (ob_ID ev) t)"

definition releaseUnprocessed :: "time \<Rightarrow> OutboxEvent list \<Rightarrow> outbox_table \<Rightarrow> outbox_table" where
  "releaseUnprocessed now events = fold (\<lambda>ev. ReleaseForRetry now (ob_ID ev) ''worker shutdown'' 0) events"

text \<open>
  What becomes of an event of a batch that was started: its goroutine finds the context cancelled and leaves
  it, or handles it.
\<close>

datatype fate = Abandoned | Handled "string option" bool

definition start_event ::
  "WorkerConfig \<Rightarrow> time \<Rightarrow> (OutboxEvent \<Rightarrow> fate) \<Rightarrow> OutboxEvent \<Rightarrow> outbox_table \<Rightarrow> outbox_table" where
  "start_event cfg now fate_of ev t =
     (case fate_of ev of Abandoned \<Rightarrow> t | Handled outcome recorded \<Rightarrow> handleEvent cfg now outcome recorded ev t)"

text \<open>\<open>cancelled\<close> is the number of events started when the context was cancelled, if it was.\<close>

definition processBatch ::
  "WorkerConfig \<Rightarrow> time \<Rightarrow> int list \<Rightarrow> nat option \<Rightarrow> (OutboxEvent \<Rightarrow> fate) \<Rightarrow> outbox_table \<Rightarrow> outbox_table" where
  "processBatch cfg now locked cancelled fate_of t =
     (case FetchAndMarkProcessing now locked (nat (BatchSize cfg)) t of
        (events, t1) \<Rightarrow>
          let started = (case cancelled of None \<Rightarrow> events | Some k \<Rightarrow> take k events);
              rest = (case cancelled of None \<Rightarrow> [] | Some k \<Rightarrow> drop k events) in
          releaseUnprocessed now rest (fold (start_event cfg now fate_of) started t1))"

subsection \<open>Backoff\<close>

lemma computeBackoff_int:
  assumes "1 \<le> k" "k \<le> 34"
  shows "sint (computeBackoff (of_nat k)) = min (2 ^ (k - 1) * second) (300 * second)"
proof -
  let ?b = "2 ^ (k - 1) * 1000000000 :: int"
  have small: "sint (word_of_int i :: 64 word) = i" if "0 \<le> i" "i < 9223372036854775808" for i
    using that by (simp add: sint_sbintrunc' signed_take_bit_int_eq_self)
  have k: "sint (of_nat k :: 64 word) = int k"
    using assms small [of "int k"] by simp
  have "unat (of_nat k - 1 :: 64 word) = k - 1"
  proof -
    have eq: "of_nat k - 1 = (of_nat (k - 1) :: 64 word)" using assms by (simp add: of_nat_diff)
    show ?thesis unfolding eq unat_of_nat using assms by (intro mod_less) simp
  qed
  then have b: "push_bit (unat (of_nat k - 1 :: 64 word)) 1 * 1000000000 = (word_of_int ?b :: 64 word)"
    by (simp add: push_bit_eq_mult)
  have "(2::int) ^ (k - 1) \<le> 2 ^ 33" using assms by (intro power_increasing) auto
  then have sb: "sint (word_of_int ?b :: 64 word) = ?b" by (intro small) auto
  have c: "(if sint (of_nat k :: 64 word) < 1 then 1 else of_nat k) = (of_nat k :: 64 word)"
    using assms k by simp
  show ?thesis
    unfolding computeBackoff_def Let_def c b if_distrib [of sint] sb
    by (simp add: second_def min_def) (simp add: not_less)
qed

text \<open>
  The backoff is between one second and five minutes for every 64-bit number of attempts, also where the
  shift or the product overflows, and doubles from one second up to that limit as long as they do not (up to
  34 attempts); with the default three tries the delays are one and two seconds.
\<close>

theorem computeBackoff_bounds:
  "second \<le> sint (computeBackoff attempts) \<and> sint (computeBackoff attempts) \<le> 300 * second \<and>
   (1 \<le> sint attempts \<and> sint attempts \<le> 34 \<longrightarrow>
      sint (computeBackoff attempts) = min (2 ^ nat (sint attempts - 1) * second) (300 * second)) \<and>
   sint (computeBackoff 1) = second \<and> sint (computeBackoff 2) = 2 * second"
proof -
  have "second \<le> sint (computeBackoff attempts) \<and> sint (computeBackoff attempts) \<le> 300 * second"
    by (simp add: computeBackoff_def Let_def second_def not_less)
  moreover have "sint (computeBackoff attempts) = min (2 ^ nat (sint attempts - 1) * second) (300 * second)"
    if "1 \<le> sint attempts" "sint attempts \<le> 34"
  proof -
    have "attempts = of_nat (nat (sint attempts))" using that by simp
    then show ?thesis
      using computeBackoff_int [of "nat (sint attempts)"] that by (simp add: nat_diff_distrib)
  qed
  ultimately show ?thesis
    using computeBackoff_int [of 1] computeBackoff_int [of 2] by (simp add: second_def)
qed

theorem computeBackoff_bounds_witness:
  "sint (computeBackoff 4) = 8 * second"
  using computeBackoff_bounds [of 4] by (simp add: second_def)

subsection \<open>Leases\<close>

lemma due_batch_props:
  assumes "b \<in> set (due_batch now locked n rows)"
  shows "b \<in> set rows" "due now b" "ob_ID b \<notin> set locked"
  using set_take_subset [of n] assms by (fastforce simp: due_batch_def)+

lemma due_batch_left:
  assumes "r \<in> set rows" "due now r" "ob_ID r \<notin> set locked" "r \<notin> set (due_batch now locked n rows)"
  shows "length (due_batch now locked n rows) = n"
    and "b \<in> set (due_batch now locked n rows) \<Longrightarrow>
      (ob_NextAttemptAt b, ob_CreatedAt b) \<le> (ob_NextAttemptAt r, ob_CreatedAt r)"
proof -
  let ?k = "\<lambda>e. (ob_NextAttemptAt e, ob_CreatedAt e)"
  let ?s = "sort_key ?k (filter (\<lambda>e. due now e \<and> ob_ID e \<notin> set locked) rows)"
  have "r \<in> set ?s" using assms by simp
  then have r: "r \<in> set (drop n ?s)"
    using assms(4) set_append [of "take n ?s" "drop n ?s"] by (auto simp: due_batch_def simp del: set_append)
  then have "n < length ?s" by (metis drop_all empty_iff leI list.set(1))
  then show "length (due_batch now locked n rows) = n" by (simp add: due_batch_def)
  have "sorted (List.map ?k (take n ?s @ drop n ?s))" by simp
  then show "b \<in> set (due_batch now locked n rows) \<Longrightarrow> ?k b \<le> ?k r"
    using r unfolding map_append sorted_append due_batch_def by auto
qed

lemma due_batch_distinct:
  assumes "distinct (List.map ob_ID rows)"
  shows "distinct (List.map ob_ID (due_batch now locked n rows))"
proof -
  have "distinct (List.map ob_ID (sort_key (\<lambda>e. (ob_NextAttemptAt e, ob_CreatedAt e))
      (filter (\<lambda>e. due now e \<and> ob_ID e \<notin> set locked) rows)))"
    using assms by (simp add: distinct_map inj_on_def)
  then show ?thesis by (simp add: due_batch_def take_map [symmetric])
qed

lemma ID_inj:
  "outbox_inv t \<Longrightarrow> r \<in> set (ob_rows t) \<Longrightarrow> b \<in> set (ob_rows t) \<Longrightarrow> ob_ID r = ob_ID b \<longleftrightarrow> r = b"
  by (auto simp: outbox_inv_def distinct_map inj_on_def)

lemma not_due_leased: "now \<le> now' \<Longrightarrow> now' \<le> now + 30 * second \<Longrightarrow> \<not> due now' (mark_processing now e)"
  by (simp add: due_def mark_processing_def)

text \<open>
  One fetch leases at most the batch size of due rows, each once and with one attempt more, and the
  earliest first: a due row that is free and left out waits behind every row of a full batch. And no row is
  given to two workers during its lease: a fetch by another worker in the next thirty seconds gets none of the
  rows that the first one leased.
\<close>

theorem fetch_leases:
  assumes inv: "outbox_inv t" and first: "FetchAndMarkProcessing now locked n t = (batch, t1)"
    and second_fetch: "FetchAndMarkProcessing now' locked' m t1 = (batch', t2)"
    and lease: "now \<le> now'" "now' \<le> now + 30 * second"
  shows "length batch \<le> n \<and> distinct (List.map ob_ID batch) \<and>
    (\<forall>e \<in> set batch. \<exists>r \<in> set (ob_rows t). due now r \<and> ob_ID r \<notin> set locked \<and> e = mark_processing now r) \<and>
    (\<forall>r \<in> set (ob_rows t). due now r \<and> ob_ID r \<notin> set locked \<and> ob_ID r \<notin> ob_ID ` set batch \<longrightarrow>
       length batch = n \<and> (\<forall>e \<in> set batch. (ob_NextAttemptAt e, ob_CreatedAt e) \<le> (ob_NextAttemptAt r, ob_CreatedAt r))) \<and>
    ob_ID ` set batch \<inter> ob_ID ` set batch' = {}"
proof -
  let ?b = "due_batch now locked n (ob_rows t)"
  have batch: "batch = List.map (mark_processing now) ?b"
    and rows1: "ob_rows t1 = update_where (\<lambda>e. ob_ID e \<in> ob_ID ` set ?b) (mark_processing now) (ob_rows t)"
    and batch': "batch' = List.map (mark_processing now') (due_batch now' locked' m (ob_rows t1))"
    using first second_fetch by (auto simp: FetchAndMarkProcessing_def Let_def)
  have ids: "ob_ID ` set batch = ob_ID ` set ?b" by (simp add: batch image_image)
  have keys: "ob_NextAttemptAt (mark_processing now e) = ob_NextAttemptAt e"
    "ob_CreatedAt (mark_processing now e) = ob_CreatedAt e" for e
    by (simp_all add: mark_processing_def)
  have "length batch \<le> n" by (simp add: batch due_batch_def)
  moreover have "distinct (List.map ob_ID batch)"
    using due_batch_distinct inv by (simp add: batch comp_def outbox_inv_def)
  moreover have "\<forall>e \<in> set batch. \<exists>r \<in> set (ob_rows t). due now r \<and> ob_ID r \<notin> set locked \<and> e = mark_processing now r"
    using due_batch_props by (fastforce simp: batch)
  moreover have "length batch = n \<and>
      (\<forall>e \<in> set batch. (ob_NextAttemptAt e, ob_CreatedAt e) \<le> (ob_NextAttemptAt r, ob_CreatedAt r))"
    if "r \<in> set (ob_rows t)" "due now r" "ob_ID r \<notin> set locked" "ob_ID r \<notin> ob_ID ` set batch" for r
  proof -
    have "r \<notin> set ?b" using that(4) ids by auto
    from due_batch_left [OF that(1-3) this] show ?thesis by (auto simp: batch keys)
  qed
  moreover have "ob_ID e \<noteq> ob_ID e'" if "e \<in> set batch" "e' \<in> set batch'" for e e'
  proof
    assume same: "ob_ID e = ob_ID e'"
    from that(2) obtain x where x: "x \<in> set (ob_rows t1)" "due now' x" "ob_ID x = ob_ID e'"
      using due_batch_props unfolding batch' by fastforce
    have "ob_ID e \<in> ob_ID ` set batch" using that(1) by (rule imageI)
    then have "ob_ID x \<in> ob_ID ` set ?b" using x(3) same by (simp only: ids)
    moreover obtain r where r: "r \<in> set (ob_rows t)"
      and xr: "x = (if ob_ID r \<in> ob_ID ` set ?b then mark_processing now r else r)"
      using x(1) by (auto simp: rows1 set_update_where)
    ultimately have "x = mark_processing now r" by (auto split: if_splits)
    then show False using x(2) not_due_leased [OF lease] by simp
  qed
  ultimately show ?thesis by blast
qed

theorem fetch_leases_witness:
  "\<exists>t batch t1 batch' t2. FetchAndMarkProcessing 10 [] 1 t = (batch, t1) \<and>
     FetchAndMarkProcessing 11 [] 1 t1 = (batch', t2) \<and>
     List.map ob_ID batch = [1] \<and> List.map ob_ID batch' = [2] \<and> ob_ID ` set batch \<inter> ob_ID ` set batch' = {}"
proof -
  let ?t = "outbox_Create '''' (NewOutboxEvent 6 9 ''e'' JNull)
     (outbox_Create '''' (NewOutboxEvent 5 9 ''e'' JNull) \<lparr> ob_rows = [], ob_seq = 1 \<rparr>)"
  obtain batch t1 batch' t2 where runs: "FetchAndMarkProcessing 10 [] 1 ?t = (batch, t1)"
      "FetchAndMarkProcessing 11 [] 1 t1 = (batch', t2)"
    and ids: "List.map ob_ID batch = [1]" "List.map ob_ID batch' = [2]"
    by (simp add: FetchAndMarkProcessing_def outbox_Create_def NewOutboxEvent_def due_batch_def due_def
        mark_processing_def second_def)
  have "outbox_inv \<lparr> ob_rows = [], ob_seq = 1 \<rparr>" by (simp add: outbox_inv_def)
  then have "outbox_inv ?t" by (intro outbox_Create_inv)
  from fetch_leases [OF this runs] ids runs show ?thesis
    by (intro exI [of _ ?t] exI [of _ batch] exI [of _ t1] exI [of _ batch'] exI [of _ t2])
      (simp add: second_def)
qed

subsection \<open>A worker in good health\<close>

definition processed :: "time \<Rightarrow> OutboxEvent \<Rightarrow> OutboxEvent" where
  "processed now e = e\<lparr> ob_Status := OutboxProcessed, ob_ProcessedAt := Some now, ob_LockedUntil := None,
     ob_NextAttemptAt := None \<rparr>"

lemma processed_simps [simp]: "ob_ID (processed now e) = ob_ID e" "\<not> due now' (processed now e)"
  "ob_Status (processed now e) = OutboxProcessed"
  by (simp_all add: processed_def due_def)

lemma MarkProcessed_processed: "MarkProcessed now i t =
    t\<lparr> ob_rows := update_where (\<lambda>r. ob_ID r = i \<and> ob_Status r = OutboxProcessing) (processed now) (ob_rows t) \<rparr>"
  by (simp add: MarkProcessed_def processed_def [abs_def])

lemma fold_MarkProcessed:
  "ob_rows (fold (\<lambda>e. MarkProcessed now (ob_ID e)) es t) =
     update_where (\<lambda>r. ob_ID r \<in> ob_ID ` set es \<and> ob_Status r = OutboxProcessing) (processed now) (ob_rows t)"
  "ob_seq (fold (\<lambda>e. MarkProcessed now (ob_ID e)) es t) = ob_seq t"
  by (induction es arbitrary: t)
    (auto simp: MarkProcessed_processed update_where_def)

abbreviation healthy_batch where
  "healthy_batch cfg now \<equiv> processBatch cfg now [] None (\<lambda>_. Handled None True)"

text \<open>A batch whose events are all published and recorded.\<close>

lemma healthy_batch_rows:
  fixes cfg now t
  defines "B \<equiv> due_batch now [] (nat (BatchSize cfg)) (ob_rows t)"
  assumes inv: "outbox_inv t"
  shows "ob_rows (healthy_batch cfg now t) =
      update_where (\<lambda>r. r \<in> set B) (\<lambda>r. processed now (mark_processing now r)) (ob_rows t)"
    and "ob_seq (healthy_batch cfg now t) = ob_seq t"
proof -
  have B: "set B \<subseteq> set (ob_rows t)" using due_batch_props(1) by (auto simp: B_def)
  have start: "start_event cfg now (\<lambda>_. Handled None True) = (\<lambda>e. MarkProcessed now (ob_ID e))"
    by (simp add: fun_eq_iff start_event_def handleEvent_def)
  let ?t1 = "t\<lparr> ob_rows := update_where (\<lambda>e. ob_ID e \<in> ob_ID ` set B) (mark_processing now) (ob_rows t) \<rparr>"
  have run: "healthy_batch cfg now t =
      fold (\<lambda>e. MarkProcessed now (ob_ID e)) (List.map (mark_processing now) B) ?t1"
    by (simp add: processBatch_def FetchAndMarkProcessing_def Let_def releaseUnprocessed_def start B_def)
  have mem: "ob_ID r \<in> ob_ID ` set B \<longleftrightarrow> r \<in> set B" if "r \<in> set (ob_rows t)" for r
    using ID_inj [OF inv that] B by (auto simp: image_iff)
  have "update_where (\<lambda>r. ob_ID r \<in> ob_ID ` set B \<and> ob_Status r = OutboxProcessing) (processed now)
      (update_where (\<lambda>e. ob_ID e \<in> ob_ID ` set B) (mark_processing now) (ob_rows t)) =
    update_where (\<lambda>r. r \<in> set B) (\<lambda>r. processed now (mark_processing now r)) (ob_rows t)"
    unfolding update_where_def by (auto simp: mem mark_processing_def)
  then show "ob_rows (healthy_batch cfg now t) =
      update_where (\<lambda>r. r \<in> set B) (\<lambda>r. processed now (mark_processing now r)) (ob_rows t)"
    unfolding run fold_MarkProcessed(1) by (simp add: image_image)
  show "ob_seq (healthy_batch cfg now t) = ob_seq t"
    unfolding run fold_MarkProcessed(2) by simp
qed

lemma length_due_left:
  assumes inv: "outbox_inv t"
  shows "length (filter (\<lambda>r. due now r \<and> r \<notin> set (due_batch now [] n (ob_rows t))) (ob_rows t)) =
    length (filter (due now) (ob_rows t)) - n"
proof -
  let ?B = "due_batch now [] n (ob_rows t)" and ?D = "filter (due now) (ob_rows t)"
  have dist: "distinct (ob_rows t)" "distinct ?B"
    using inv due_batch_distinct [of "ob_rows t"] by (simp_all add: outbox_inv_def distinct_map)
  have sub: "set ?B \<subseteq> set ?D" using due_batch_props by fastforce
  have "length ?B = min n (length ?D)" by (simp add: due_batch_def min.commute)
  moreover have "set (filter (\<lambda>r. due now r \<and> r \<notin> set ?B) (ob_rows t)) = set ?D - set ?B" by auto
  ultimately show ?thesis
    using dist sub card_Diff_subset [of "set ?B" "set ?D"]
    by (simp add: distinct_card [symmetric] del: set_filter)
qed

lemma filter_update_where:
  "(\<And>r. \<not> P (f r)) \<Longrightarrow> filter P (update_where Q f tbl) = filter (\<lambda>r. P r \<and> \<not> Q r) tbl"
  by (induction tbl) auto

text \<open>
  A worker whose publisher and database work drains the outbox: as many batches as it takes to cover the
  rows that are due, however many those are, mark exactly these as processed, each with one attempt more, and
  change no other row.
\<close>

theorem healthy_worker_drains:
  assumes "outbox_inv t" and "length (filter (due now) (ob_rows t)) \<le> k * nat (BatchSize cfg)"
  shows "(processBatch cfg now [] None (\<lambda>_. Handled None True) ^^ k) t =
    t\<lparr> ob_rows := update_where (due now) (\<lambda>r. processed now (mark_processing now r)) (ob_rows t) \<rparr>"
  using assms
proof (induction k arbitrary: t)
  case 0
  then have "update_where (due now) (\<lambda>r. processed now (mark_processing now r)) (ob_rows t) = ob_rows t"
    by (intro update_where_none) (auto simp: filter_empty_conv)
  then show ?case by simp
next
  case (Suc k)
  let ?f = "\<lambda>r. processed now (mark_processing now r)"
  let ?n = "nat (BatchSize cfg)"
  let ?B = "due_batch now [] ?n (ob_rows t)"
  let ?t1 = "healthy_batch cfg now t"
  note rows1 = healthy_batch_rows [OF Suc.prems(1), of cfg now]
  have inv1: "outbox_inv ?t1"
  proof -
    have "?t1 = t\<lparr> ob_rows := update_where (\<lambda>r. r \<in> set ?B) ?f (ob_rows t) \<rparr>"
      using rows1 by (intro outbox_table.equality) auto
    moreover have "outbox_inv (t\<lparr> ob_rows := update_where (\<lambda>r. r \<in> set ?B) ?f (ob_rows t) \<rparr>)"
      by (rule outbox_inv_update [OF Suc.prems(1)])
        (auto simp: outbox_row_inv_def processed_def mark_processing_def)
    ultimately show ?thesis by simp
  qed
  have "filter (due now) (ob_rows ?t1) = filter (\<lambda>r. due now r \<and> r \<notin> set ?B) (ob_rows t)"
    unfolding rows1(1) by (rule filter_update_where) simp
  then have "length (filter (due now) (ob_rows ?t1)) \<le> k * ?n"
    using length_due_left [OF Suc.prems(1), of now ?n] Suc.prems(2) by simp
  from Suc.IH [OF inv1 this]
  have "(healthy_batch cfg now ^^ Suc k) t = ?t1\<lparr> ob_rows := update_where (due now) ?f (ob_rows ?t1) \<rparr>"
    by (simp add: funpow_swap1)
  moreover have "update_where (due now) ?f (ob_rows ?t1) = update_where (due now) ?f (ob_rows t)"
    using due_batch_props(2) unfolding rows1(1) update_where_def by auto
  ultimately show ?case
    using rows1(2) by (intro outbox_table.equality) auto
qed

theorem healthy_worker_drains_witness:
  "\<exists>t. ob_rows ((processBatch DefaultConfig 10 [] None (\<lambda>_. Handled None True) ^^ 1) t) \<noteq> [] \<and>
     list_all (\<lambda>r. ob_Status r = OutboxProcessed \<and> ob_Attempts r = 1)
       (ob_rows ((processBatch DefaultConfig 10 [] None (\<lambda>_. Handled None True) ^^ 1) t))"
proof -
  let ?t = "outbox_Create '''' (NewOutboxEvent 6 9 ''e'' JNull)
     (outbox_Create '''' (NewOutboxEvent 5 9 ''e'' JNull) \<lparr> ob_rows = [], ob_seq = 1 \<rparr>)"
  have "outbox_inv \<lparr> ob_rows = [], ob_seq = 1 \<rparr>" by (simp add: outbox_inv_def)
  then have inv: "outbox_inv ?t" by (intro outbox_Create_inv)
  have "length (filter (due 10) (ob_rows ?t)) \<le> 1 * nat (BatchSize DefaultConfig)"
    by (simp add: outbox_Create_def NewOutboxEvent_def DefaultConfig_def due_def)
  note drained = healthy_worker_drains [OF inv this]
  show ?thesis
    by (rule exI [of _ ?t], unfold drained)
      (simp add: outbox_Create_def NewOutboxEvent_def due_def processed_def mark_processing_def)
qed

subsection \<open>Many workers\<close>

text \<open>
  The table, the events that workers hold (as they were when they were fetched, and whether the broker has
  taken the message), the messages the broker has taken, and the clock. An event that a worker holds may be
  recorded as a success only once the broker has taken it; an error may be reported either way, because the
  confirmation can be lost. A worker may also lose an event: it crashes, finds its context cancelled, or its
  write fails.
\<close>

record relay =
  rl_tbl :: outbox_table
  rl_held :: "(OutboxEvent \<times> bool) list"
  rl_published :: "OutboxEvent list"
  rl_now :: time

inductive relay_step :: "WorkerConfig \<Rightarrow> relay \<Rightarrow> relay \<Rightarrow> bool" for cfg where
  tick: "rl_now r \<le> t \<Longrightarrow> relay_step cfg r (r\<lparr> rl_now := t \<rparr>)"
| create: "relay_step cfg r (r\<lparr> rl_tbl := outbox_Create trace (NewOutboxEvent (rl_now r) agg name payload) (rl_tbl r) \<rparr>)"
| fetch: "FetchAndMarkProcessing (rl_now r) locked (nat (BatchSize cfg)) (rl_tbl r) = (events, t) \<Longrightarrow>
    relay_step cfg r (r\<lparr> rl_tbl := t, rl_held := rl_held r @ List.map (\<lambda>e. (e, False)) events \<rparr>)"
| publish: "(e, d) \<in> set (rl_held r) \<Longrightarrow>
    relay_step cfg r (r\<lparr> rl_held := remove1 (e, d) (rl_held r) @ [(e, True)], rl_published := rl_published r @ [e] \<rparr>)"
| written: "(e, d) \<in> set (rl_held r) \<Longrightarrow> outcome = None \<longrightarrow> d \<Longrightarrow>
    relay_step cfg r (r\<lparr> rl_tbl := handleEvent cfg (rl_now r) outcome True e (rl_tbl r), rl_held := remove1 (e, d) (rl_held r) \<rparr>)"
| release: "(e, False) \<in> set (rl_held r) \<Longrightarrow>
    relay_step cfg r (r\<lparr> rl_tbl := releaseUnprocessed (rl_now r) [e] (rl_tbl r), rl_held := remove1 (e, False) (rl_held r) \<rparr>)"
| lose: "(e, d) \<in> set (rl_held r) \<Longrightarrow> relay_step cfg r (r\<lparr> rl_held := remove1 (e, d) (rl_held r) \<rparr>)"

inductive relay_reach :: "WorkerConfig \<Rightarrow> relay \<Rightarrow> bool" for cfg where
  init: "relay_reach cfg \<lparr> rl_tbl = \<lparr> ob_rows = [], ob_seq = 1 \<rparr>, rl_held = [], rl_published = [], rl_now = t \<rparr>"
| step: "relay_reach cfg r \<Longrightarrow> relay_step cfg r r' \<Longrightarrow> relay_reach cfg r'"

text \<open>\<open>same_event\<close>: what identifies an event and what is published of it.\<close>

definition same_event :: "OutboxEvent \<Rightarrow> OutboxEvent \<Rightarrow> bool" where
  "same_event e row \<longleftrightarrow> ob_ID e = ob_ID row \<and> ob_AggregateID e = ob_AggregateID row \<and>
     ob_EventName e = ob_EventName row \<and> ob_Payload e = ob_Payload row"

definition relay_inv :: "WorkerConfig \<Rightarrow> relay \<Rightarrow> bool" where
  "relay_inv cfg r \<longleftrightarrow> outbox_inv (rl_tbl r) \<and>
     (\<forall>(e, d) \<in> set (rl_held r). (d \<longrightarrow> e \<in> set (rl_published r)) \<and>
        (\<exists>row \<in> set (ob_rows (rl_tbl r)). same_event e row \<and> ob_Attempts e \<le> ob_Attempts row)) \<and>
     (\<forall>e \<in> set (rl_published r). \<exists>row \<in> set (ob_rows (rl_tbl r)). same_event e row) \<and>
     (\<forall>row \<in> set (ob_rows (rl_tbl r)).
        (ob_Status row = OutboxProcessed \<longrightarrow> (\<exists>e \<in> set (rl_published r). ob_ID e = ob_ID row)) \<and>
        (ob_Status row = OutboxFailed \<longrightarrow> MaxRetries cfg \<le> ob_Attempts row))"

text \<open>Updates that keep an event's identity and do not lower its attempts.\<close>

lemma relay_inv_update:
  assumes inv: "relay_inv cfg r" and t: "t = (rl_tbl r)\<lparr> ob_rows := update_where P f (ob_rows (rl_tbl r)) \<rparr>"
    and keep: "\<And>row. same_event (f row) row" "\<And>row. ob_Attempts row \<le> ob_Attempts (f row)"
    and row_inv: "\<And>row. outbox_row_inv row \<Longrightarrow> P row \<Longrightarrow> outbox_row_inv (f row)"
    and final: "\<And>row. row \<in> set (ob_rows (rl_tbl r)) \<Longrightarrow> P row \<Longrightarrow> ob_Status (f row) = OutboxProcessed \<Longrightarrow>
        \<exists>e \<in> set (rl_published r). ob_ID e = ob_ID row"
      "\<And>row. row \<in> set (ob_rows (rl_tbl r)) \<Longrightarrow> P row \<Longrightarrow> ob_Status (f row) = OutboxFailed \<Longrightarrow>
        MaxRetries cfg \<le> ob_Attempts row"
  shows "relay_inv cfg (r\<lparr> rl_tbl := t \<rparr>)"
proof -
  have id: "ob_ID (f row) = ob_ID row" for row using keep(1) [of row] by (simp add: same_event_def)
  have same: "same_event e row \<Longrightarrow> same_event e (f row)" for e row
    using keep(1) [of row] by (simp add: same_event_def)
  have "outbox_inv t"
    unfolding t using inv by (intro outbox_inv_update) (auto simp: relay_inv_def id row_inv)
  moreover have rows: "set (ob_rows t) = (\<lambda>row. if P row then f row else row) ` set (ob_rows (rl_tbl r))"
    by (simp add: t set_update_where)
  moreover have "\<exists>row' \<in> set (ob_rows t). same_event e row' \<and> n \<le> ob_Attempts row'"
    if "row \<in> set (ob_rows (rl_tbl r))" "same_event e row" "n \<le> ob_Attempts row" for e row n
    by (rule bexI [of _ "if P row then f row else row"])
      (use that same keep(2) [of row] in \<open>auto simp: rows\<close>)
  moreover have "\<exists>row' \<in> set (ob_rows t). same_event e row'"
    if "row \<in> set (ob_rows (rl_tbl r))" "same_event e row" for e row
    by (rule bexI [of _ "if P row then f row else row"]) (use that same in \<open>auto simp: rows\<close>)
  moreover have "(ob_Status row' = OutboxProcessed \<longrightarrow> (\<exists>e \<in> set (rl_published r). ob_ID e = ob_ID row')) \<and>
      (ob_Status row' = OutboxFailed \<longrightarrow> MaxRetries cfg \<le> ob_Attempts row')" if "row' \<in> set (ob_rows t)" for row'
  proof -
    obtain row where row: "row \<in> set (ob_rows (rl_tbl r))" "row' = (if P row then f row else row)"
      using \<open>row' \<in> set (ob_rows t)\<close> by (auto simp: rows)
    show ?thesis
    proof (cases "P row")
      case True
      then show ?thesis using row final [OF row(1) True] keep(2) [of row] id [of row] by force
    next
      case False
      then show ?thesis using row inv by (auto simp: relay_inv_def)
    qed
  qed
  ultimately show ?thesis
    using inv unfolding relay_inv_def by (fastforce split: prod.splits)
qed

lemma relay_inv_heldD:
  "relay_inv cfg r \<Longrightarrow> (e, d) \<in> set (rl_held r) \<Longrightarrow>
    (d \<longrightarrow> e \<in> set (rl_published r)) \<and>
    (\<exists>row \<in> set (ob_rows (rl_tbl r)). same_event e row \<and> ob_Attempts e \<le> ob_Attempts row)"
  by (auto simp: relay_inv_def)

lemma relay_inv_held_published:
  assumes inv: "relay_inv cfg r"
    and held: "\<And>e d. (e, d) \<in> set held \<Longrightarrow> (\<exists>d0. (e, d0) \<in> set (rl_held r)) \<and> (d \<longrightarrow> e \<in> set pub)"
    and pub: "\<And>e. e \<in> set pub \<Longrightarrow> e \<in> set (rl_published r) \<or> (\<exists>d. (e, d) \<in> set (rl_held r))"
    and mono: "set (rl_published r) \<subseteq> set pub"
  shows "relay_inv cfg (r\<lparr> rl_held := held, rl_published := pub \<rparr>)"
proof -
  have "\<exists>row \<in> set (ob_rows (rl_tbl r)). same_event e row" if "e \<in> set pub" for e
    using pub [OF that] relay_inv_heldD [OF inv, of e] inv by (auto simp: relay_inv_def)
  moreover have "(d \<longrightarrow> e \<in> set pub) \<and>
      (\<exists>row \<in> set (ob_rows (rl_tbl r)). same_event e row \<and> ob_Attempts e \<le> ob_Attempts row)"
    if "(e, d) \<in> set held" for e d
    using held [OF that] relay_inv_heldD [OF inv, of e] by blast
  moreover have "\<exists>e \<in> set pub. ob_ID e = ob_ID row"
    if "row \<in> set (ob_rows (rl_tbl r))" "ob_Status row = OutboxProcessed" for row
  proof -
    have "\<exists>e \<in> set (rl_published r). ob_ID e = ob_ID row" using inv that by (simp add: relay_inv_def)
    then show ?thesis using mono by blast
  qed
  ultimately show ?thesis
    using inv by (auto simp: relay_inv_def)
qed

lemma relay_inv_held:
  assumes "relay_inv cfg r" and "set held \<subseteq> set (rl_held r)"
  shows "relay_inv cfg (r\<lparr> rl_held := held \<rparr>)"
  using relay_inv_held_published [of cfg r held "rl_published r"] assms relay_inv_heldD [OF assms(1)] by force

lemma relay_inv_publish:
  assumes "relay_inv cfg r" and "(e, d) \<in> set (rl_held r)"
  shows "relay_inv cfg (r\<lparr> rl_held := remove1 (e, d) (rl_held r) @ [(e, True)], rl_published := rl_published r @ [e] \<rparr>)"
  by (rule relay_inv_held_published [OF assms(1)])
    (use assms relay_inv_heldD [OF assms(1)] set_remove1_subset [of "(e, d)" "rl_held r"] in force)+

lemma relay_inv_create:
  assumes "relay_inv cfg r"
  shows "relay_inv cfg (r\<lparr> rl_tbl := outbox_Create trace (NewOutboxEvent now agg name payload) (rl_tbl r) \<rparr>)"
  using assms outbox_Create_inv [of "rl_tbl r" trace now agg name payload]
  by (fastforce simp: relay_inv_def outbox_Create_def NewOutboxEvent_def split: prod.splits)

lemma same_event_refl [simp]: "same_event e e"
  by (simp add: same_event_def)

lemma relay_inv_fetch:
  assumes inv: "relay_inv cfg r"
    and fetch: "FetchAndMarkProcessing (rl_now r) locked n (rl_tbl r) = (events, t)"
  shows "relay_inv cfg (r\<lparr> rl_tbl := t, rl_held := rl_held r @ List.map (\<lambda>e. (e, False)) events \<rparr>)"
proof -
  let ?b = "due_batch (rl_now r) locked n (ob_rows (rl_tbl r))"
  have t: "t = (rl_tbl r)\<lparr> ob_rows := update_where (\<lambda>e. ob_ID e \<in> ob_ID ` set ?b) (mark_processing (rl_now r)) (ob_rows (rl_tbl r)) \<rparr>"
    and events: "events = List.map (mark_processing (rl_now r)) ?b"
    using fetch by (auto simp: FetchAndMarkProcessing_def Let_def)
  have inv1: "relay_inv cfg (r\<lparr> rl_tbl := t \<rparr>)"
    by (rule relay_inv_update [OF inv t])
      (simp_all add: same_event_def mark_processing_def outbox_row_inv_def)
  have "e \<in> set (ob_rows t)" if "e \<in> set events" for e
    using that due_batch_props(1) by (fastforce simp: events t set_update_where image_iff)
  then show ?thesis
    using inv1 unfolding relay_inv_def by (auto split: prod.splits intro: same_event_refl)
qed

lemma relay_inv_step:
  assumes step: "relay_step cfg r r'" and inv: "relay_inv cfg r"
  shows "relay_inv cfg r'"
  using step
proof cases
  case (tick t)
  then show ?thesis using inv by (simp add: relay_inv_def)
next
  case create
  then show ?thesis using relay_inv_create [OF inv] by simp
next
  case fetch
  then show ?thesis using relay_inv_fetch [OF inv] by simp
next
  case publish
  then show ?thesis using relay_inv_publish [OF inv] by simp
next
  case (written e d outcome)
  let ?t = "handleEvent cfg (rl_now r) outcome True e (rl_tbl r)"
  have held: "\<exists>row \<in> set (ob_rows (rl_tbl r)). same_event e row \<and> ob_Attempts e \<le> ob_Attempts row"
    "outcome = None \<longrightarrow> e \<in> set (rl_published r)"
    using inv written by (auto simp: relay_inv_def)
  have attempts: "ob_Attempts e \<le> ob_Attempts row" if "row \<in> set (ob_rows (rl_tbl r))" "ob_ID row = ob_ID e" for row
    using held(1) ID_inj [of "rl_tbl r" row] inv that by (auto simp: same_event_def relay_inv_def)
  have "relay_inv cfg (r\<lparr> rl_tbl := ?t \<rparr>)"
  proof (cases outcome)
    case None
    show ?thesis
      by (rule relay_inv_update [OF inv, where P = "\<lambda>x. ob_ID x = ob_ID e \<and> ob_Status x = OutboxProcessing" and f = "processed (rl_now r)"])
        (use None held in \<open>auto simp: handleEvent_def MarkProcessed_processed same_event_def processed_def outbox_row_inv_def\<close>)
  next
    case (Some err)
    show ?thesis
    proof (cases "ob_Attempts e \<ge> MaxRetries cfg")
      case True
      show ?thesis
        by (rule relay_inv_update [OF inv, where P = "\<lambda>x. ob_ID x = ob_ID e" and
              f = "\<lambda>x. x\<lparr> ob_Status := OutboxFailed, ob_LastError := Some (''max retries reached: '' @ err),
                ob_LockedUntil := None, ob_ProcessedAt := Some (rl_now r) \<rparr>"])
          (use Some True in \<open>auto simp: handleEvent_def MarkFailed_def same_event_def outbox_row_inv_def
            intro: order_trans [OF True attempts]\<close>)
    next
      case False
      show ?thesis
        by (rule relay_inv_update [OF inv, where P = "\<lambda>x. ob_ID x = ob_ID e \<and> ob_Status x = OutboxProcessing" and
              f = "\<lambda>x. x\<lparr> ob_Status := OutboxPending, ob_LastError := Some err, ob_LockedUntil := None,
                ob_NextAttemptAt := Some (rl_now r + sint (computeBackoff (word_of_int (ob_Attempts e)))) \<rparr>"])
          (use Some False in \<open>auto simp: handleEvent_def ReleaseForRetry_def same_event_def outbox_row_inv_def\<close>)
    qed
  qed
  from relay_inv_held [OF this, of "remove1 (e, d) (rl_held r)"] show ?thesis
    using set_remove1_subset [of "(e, d)" "rl_held r"] by (simp add: written)
next
  case (release e)
  have "relay_inv cfg (r\<lparr> rl_tbl := releaseUnprocessed (rl_now r) [e] (rl_tbl r) \<rparr>)"
    by (rule relay_inv_update [OF inv, where P = "\<lambda>x. ob_ID x = ob_ID e \<and> ob_Status x = OutboxProcessing" and
          f = "\<lambda>x. x\<lparr> ob_Status := OutboxPending, ob_LastError := Some ''worker shutdown'', ob_LockedUntil := None,
            ob_NextAttemptAt := Some (rl_now r + 0) \<rparr>"])
      (auto simp: releaseUnprocessed_def ReleaseForRetry_def same_event_def outbox_row_inv_def)
  from relay_inv_held [OF this, of "remove1 (e, False) (rl_held r)"] show ?thesis
    using set_remove1_subset [of "(e, False)" "rl_held r"] by (simp add: release)
next
  case (lose e d)
  then show ?thesis
    using relay_inv_held [OF inv set_remove1_subset [of "(e, d)" "rl_held r"]] by simp
qed

lemma relay_reach_inv: "relay_reach cfg r \<Longrightarrow> relay_inv cfg r"
proof (induction rule: relay_reach.induct)
  case (init t)
  then show ?case by (simp add: relay_inv_def outbox_inv_def)
next
  case (step r r')
  then show ?case using relay_inv_step by blast
qed

text \<open>
  C7. At-least-once publishing. However many workers run, crash, overlap and lose their writes: a row is marked
  as processed only after the broker has taken a message with that row's name and payload; the broker gets no
  message that is not that of a stored row; a row is given up only after at least the maximal number of
  attempts; and every other row is still there to be fetched, when its lease and its retry delay are over.
\<close>

theorem relay_at_least_once:
  assumes "relay_reach cfg r"
  shows "(\<forall>row \<in> set (ob_rows (rl_tbl r)).
      case ob_Status row of
        OutboxProcessed \<Rightarrow> \<exists>e \<in> set (rl_published r). same_event e row
      | OutboxFailed \<Rightarrow> MaxRetries cfg \<le> ob_Attempts row
      | _ \<Rightarrow> \<exists>t0. \<forall>now > t0. due now row) \<and>
    (\<forall>e \<in> set (rl_published r). \<exists>row \<in> set (ob_rows (rl_tbl r)). same_event e row)"
proof -
  have inv: "relay_inv cfg r" by (rule relay_reach_inv [OF assms])
  have "\<exists>e \<in> set (rl_published r). same_event e row"
    if row: "row \<in> set (ob_rows (rl_tbl r))" and "ob_Status row = OutboxProcessed" for row
  proof -
    have "\<exists>e \<in> set (rl_published r). ob_ID e = ob_ID row" using inv that by (simp add: relay_inv_def)
    then obtain e where e: "e \<in> set (rl_published r)" "ob_ID e = ob_ID row" by blast
    have "\<exists>row' \<in> set (ob_rows (rl_tbl r)). same_event e row'" using inv e by (simp add: relay_inv_def)
    then obtain row' where row': "row' \<in> set (ob_rows (rl_tbl r))" "same_event e row'" by blast
    then have "row' = row"
      using ID_inj [of "rl_tbl r" row' row] row e(2) inv by (auto simp: relay_inv_def same_event_def)
    then show ?thesis using e row' by blast
  qed
  moreover have "MaxRetries cfg \<le> ob_Attempts row"
    if "row \<in> set (ob_rows (rl_tbl r))" and "ob_Status row = OutboxFailed" for row
    using inv that by (auto simp: relay_inv_def)
  moreover have "\<exists>t0. \<forall>now > t0. due now row"
    if row: "row \<in> set (ob_rows (rl_tbl r))" and st: "ob_Status row \<in> {OutboxPending, OutboxProcessing}" for row
  proof -
    have "outbox_row_inv row" using inv row by (auto simp: relay_inv_def outbox_inv_def)
    then show ?thesis using st
      by (intro exI [of _ "max (the (ob_LockedUntil row)) (the (ob_NextAttemptAt row))"])
        (auto simp: due_def outbox_row_inv_def split: option.splits)
  qed
  ultimately have "case ob_Status row of
        OutboxProcessed \<Rightarrow> \<exists>e \<in> set (rl_published r). same_event e row
      | OutboxFailed \<Rightarrow> MaxRetries cfg \<le> ob_Attempts row
      | _ \<Rightarrow> \<exists>t0. \<forall>now > t0. due now row" if "row \<in> set (ob_rows (rl_tbl r))" for row
    using that by (cases "ob_Status row") simp_all
  moreover have "\<forall>e \<in> set (rl_published r). \<exists>row \<in> set (ob_rows (rl_tbl r)). same_event e row"
    using inv by (auto simp: relay_inv_def)
  ultimately show ?thesis by blast
qed

theorem relay_at_least_once_witness:
  "\<exists>r row. relay_reach DefaultConfig r \<and> ob_rows (rl_tbl r) = [row] \<and> (\<exists>t0. \<forall>now > t0. due now row)"
proof -
  let ?r = "\<lparr> rl_tbl = outbox_Create '''' (NewOutboxEvent 0 9 ''e'' JNull) \<lparr> ob_rows = [], ob_seq = 1 \<rparr>,
      rl_held = [], rl_published = [], rl_now = 0 \<rparr>"
  have "relay_reach DefaultConfig ?r"
    using relay_reach.step [OF relay_reach.init relay_step.create] by simp
  from relay_at_least_once [OF this] this show ?thesis
    by (intro exI [of _ ?r]) (auto simp: outbox_Create_def NewOutboxEvent_def)
qed

subsection \<open>A delivered event that counts as failed\<close>

lemma lapsed: "now + 30 * second < t \<Longrightarrow> due t (mark_processing now e)"
  by (simp add: due_def mark_processing_def)

lemma reach_fetch:
  assumes "relay_reach DefaultConfig \<lparr> rl_tbl = \<lparr> ob_rows = [e], ob_seq = q \<rparr>, rl_held = h, rl_published = p, rl_now = now \<rparr>"
    and "now \<le> t" "due t e"
  shows "relay_reach DefaultConfig \<lparr> rl_tbl = \<lparr> ob_rows = [mark_processing t e], ob_seq = q \<rparr>,
    rl_held = h @ [(mark_processing t e, False)], rl_published = p, rl_now = t \<rparr>"
proof -
  have "relay_reach DefaultConfig \<lparr> rl_tbl = \<lparr> ob_rows = [e], ob_seq = q \<rparr>, rl_held = h, rl_published = p, rl_now = t \<rparr>"
    using relay_reach.step [OF assms(1) relay_step.tick [of _ t]] assms(2) by simp
  moreover have "FetchAndMarkProcessing t [] (nat (BatchSize DefaultConfig)) \<lparr> ob_rows = [e], ob_seq = q \<rparr> =
      ([mark_processing t e], \<lparr> ob_rows = [mark_processing t e], ob_seq = q \<rparr>)"
    using assms(3) by (simp add: FetchAndMarkProcessing_def due_batch_def DefaultConfig_def)
  ultimately show ?thesis
    using relay_reach.step [OF _ relay_step.fetch [where locked = "[]"]] by fastforce
qed

text \<open>
  C37. \<open>MarkFailed\<close> asks neither for the status nor for the lease. In a run of two workers with the default
  configuration, an event whose lease ran out while its third try was under way is leased again, published and
  marked as processed; the first worker's error then turns the row into a failed one.
\<close>

theorem delivered_event_marked_failed:
  "\<exists>r r' row row'. relay_reach DefaultConfig r \<and> relay_step DefaultConfig r r' \<and>
     ob_rows (rl_tbl r) = [row] \<and> ob_Status row = OutboxProcessed \<and> (\<exists>e \<in> set (rl_published r). same_event e row) \<and>
     ob_rows (rl_tbl r') = [row'] \<and> same_event row' row \<and> ob_Status row' = OutboxFailed"
proof -
  define e0 where "e0 = (NewOutboxEvent 0 9 ''e'' JNull)\<lparr> ob_ID := 1 \<rparr>"
  define e1 where "e1 = mark_processing 0 e0"
  define e2 where "e2 = mark_processing (31 * second) e1"
  define e3 where "e3 = mark_processing (62 * second) e2"
  define e4 where "e4 = mark_processing (93 * second) e3"
  let ?S = "\<lambda>row h p t. \<lparr> rl_tbl = \<lparr> ob_rows = [row], ob_seq = 2 \<rparr>, rl_held = h, rl_published = p, rl_now = t \<rparr>"
  have "relay_reach DefaultConfig (?S e0 [] [] 0)"
    using relay_reach.step [OF relay_reach.init [of _ 0] relay_step.create [where trace = "''''" and agg = 9 and name = "''e''" and payload = JNull]]
    by (simp add: outbox_Create_def NewOutboxEvent_def e0_def)
  from reach_fetch [OF this, of 0] have "relay_reach DefaultConfig (?S e1 [(e1, False)] [] 0)"
    by (simp add: e1_def e0_def due_def NewOutboxEvent_def)
  from reach_fetch [OF this, of "31 * second"]
  have "relay_reach DefaultConfig (?S e2 [(e1, False), (e2, False)] [] (31 * second))"
    by (simp add: e2_def e1_def lapsed second_def)
  from reach_fetch [OF this, of "62 * second"]
  have "relay_reach DefaultConfig (?S e3 [(e1, False), (e2, False), (e3, False)] [] (62 * second))"
    by (simp add: e3_def e2_def lapsed second_def)
  from reach_fetch [OF this, of "93 * second"]
  have "relay_reach DefaultConfig (?S e4 [(e1, False), (e2, False), (e3, False), (e4, False)] [] (93 * second))"
    by (simp add: e4_def e3_def lapsed second_def)
  moreover have ne: "e4 \<noteq> e1" "e4 \<noteq> e2" "e4 \<noteq> e3"
    by (auto simp: e4_def e3_def e2_def e1_def e0_def mark_processing_def NewOutboxEvent_def second_def)
  ultimately have "relay_reach DefaultConfig
      (?S e4 [(e1, False), (e2, False), (e3, False), (e4, True)] [e4] (93 * second))"
    using relay_reach.step [OF _ relay_step.publish [of e4 False]] by fastforce
  moreover have "handleEvent DefaultConfig (93 * second) None True e4 \<lparr> ob_rows = [e4], ob_seq = 2 \<rparr> =
      \<lparr> ob_rows = [processed (93 * second) e4], ob_seq = 2 \<rparr>"
    by (simp add: handleEvent_def MarkProcessed_processed e4_def mark_processing_def)
  ultimately have r: "relay_reach DefaultConfig
      (?S (processed (93 * second) e4) [(e1, False), (e2, False), (e3, False)] [e4] (93 * second))"
    using relay_reach.step [OF _ relay_step.written [of e4 True _ None]] ne by fastforce
  let ?r = "?S (processed (93 * second) e4) [(e1, False), (e2, False), (e3, False)] [e4] (93 * second)"
  let ?r' = "?r\<lparr> rl_tbl := handleEvent DefaultConfig (93 * second) (Some ''timeout'') True e3 (rl_tbl ?r),
      rl_held := remove1 (e3, False) (rl_held ?r) \<rparr>"
  have step: "relay_step DefaultConfig ?r ?r'"
    using relay_step.written [of e3 False ?r "Some ''timeout''" DefaultConfig] by simp
  have "ob_Attempts e3 = 3" "ob_ID e3 = 1" "ob_ID e4 = 1"
    by (simp_all add: e4_def e3_def e2_def e1_def e0_def mark_processing_def NewOutboxEvent_def)
  then have "\<exists>row'. ob_rows (rl_tbl ?r') = [row'] \<and> same_event row' (processed (93 * second) e4) \<and> ob_Status row' = OutboxFailed"
    by (simp add: handleEvent_def MarkFailed_def DefaultConfig_def same_event_def)
  moreover have "same_event e4 (processed (93 * second) e4)"
    by (simp add: same_event_def processed_def)
  ultimately show ?thesis
    using r step by (intro exI [of _ ?r] exI [of _ ?r']) auto
qed

end
