(* ===== verification/Payment.thy ===== *)
theory Payment
  imports Outbox
begin

text \<open>
  payment-service: the payment of an order (\<open>internal/domain/payment\<close>), its table
  (\<open>internal/infrastructure/persistence/payment.go\<close>), the commands and the query
  (\<open>internal/application/payment\<close>) and the Mollie client (\<open>internal/infrastructure/gateway\<close>).

  A payment belongs to a subject (an order), and the database admits one per subject. The gateway's
  HTTP interface is a parameter: what it answers to a request, or nothing when the request fails.
  \<open>py_calls\<close> records the calls made to the gateway, in order.
\<close>

subsection \<open>Domain\<close>

datatype PaymentStatus = PaymentPending | PaymentSucceeded | PaymentFailed

fun status_text :: "PaymentStatus \<Rightarrow> string" where
  "status_text PaymentPending = ''pending''"
| "status_text PaymentSucceeded = ''succeeded''"
| "status_text PaymentFailed = ''failed''"

datatype pay_err = ErrPaymentTransition | PayApp apperr | PayPanic

record 'd Payment =
  pm_ID :: uuid
  pm_SubjectType :: string
  pm_SubjectID :: uuid
  pm_RestaurantID :: uuid
  pm_CustomerID :: uuid
  pm_Amount :: 'd
  pm_Currency :: string
  pm_PlatformFee :: 'd
  pm_Status :: PaymentStatus
  pm_Gateway :: string
  pm_GatewayPaymentID :: "string option"
  pm_FailureReason :: "string option"
  pm_CreatedAt :: time
  pm_UpdatedAt :: "time option"

definition NewPayment ::
  "uuid \<Rightarrow> uuid \<Rightarrow> uuid \<Rightarrow> uuid \<Rightarrow> string \<Rightarrow> 'd \<Rightarrow> string \<Rightarrow> 'd \<Rightarrow> string \<Rightarrow> 'd Payment" where
  "NewPayment ident subjectID restaurantID customerID subjectType amount currency platformFee gateway =
   \<lparr> pm_ID = ident, pm_SubjectType = subjectType, pm_SubjectID = subjectID,
     pm_RestaurantID = restaurantID, pm_CustomerID = customerID, pm_Amount = amount,
     pm_Currency = currency, pm_PlatformFee = platformFee, pm_Status = PaymentPending,
     pm_Gateway = gateway, pm_GatewayPaymentID = None, pm_FailureReason = None,
     pm_CreatedAt = zero_time, pm_UpdatedAt = None \<rparr>"

definition AttachGatewayReference :: "string \<Rightarrow> 'd Payment \<Rightarrow> 'd Payment" where
  "AttachGatewayReference gatewayPaymentID p = p\<lparr> pm_GatewayPaymentID := Some gatewayPaymentID \<rparr>"

definition MarkSucceeded :: "'d Payment \<Rightarrow> (pay_err, 'd Payment) result" where
  "MarkSucceeded p =
     (if pm_Status p \<noteq> PaymentPending then Inl [ErrPaymentTransition]
      else Inr (p\<lparr> pm_Status := PaymentSucceeded \<rparr>))"

definition Payment_MarkFailed :: "string \<Rightarrow> 'd Payment \<Rightarrow> (pay_err, 'd Payment) result" where
  "Payment_MarkFailed reason p =
     (if pm_Status p \<noteq> PaymentPending then Inl [ErrPaymentTransition]
      else Inr (p\<lparr> pm_Status := PaymentFailed, pm_FailureReason := Some reason \<rparr>))"

record 'd GatewayRequest =
  gwr_RestaurantID :: uuid
  gwr_Amount :: 'd
  gwr_Currency :: string
  gwr_RedirectURL :: string
  gwr_WebhookURL :: string

record GatewayPayment =
  gwp_GatewayPaymentID :: string
  gwp_CheckoutURL :: string

record PaymentStatusResult =
  psr_Status :: PaymentStatus
  psr_Reason :: string
  psr_CheckoutURL :: string

record 'd gateway =
  gw_CreatePayment :: "'d GatewayRequest \<Rightarrow> (pay_err, GatewayPayment) result"
  gw_CancelPayment :: "string \<Rightarrow> (pay_err, unit) result"
  gw_GetStatus :: "string \<Rightarrow> (pay_err, PaymentStatusResult) result"

subsection \<open>The Mollie client\<close>

text \<open>
  \<open>doJSON\<close>: a request that fails, a status code from 300 on and, where a response is wanted, a body
  that is no JSON document (\<open>None\<close>) are errors. Decoding takes \<open>id\<close>, \<open>status\<close> and
  \<open>_links.checkout.href\<close>.
\<close>

record http_request =
  hr_Method :: string
  hr_Path :: string
  hr_Body :: "json option"

type_synonym http = "http_request \<Rightarrow> (nat \<times> json option) option"

record molliePaymentResponse =
  mpr_ID :: string
  mpr_Status :: string
  mpr_Href :: string

definition doJSON :: "http \<Rightarrow> string \<Rightarrow> string \<Rightarrow> json option \<Rightarrow> (pay_err, json option) result" where
  "doJSON http method path body =
     (case http \<lparr> hr_Method = method, hr_Path = path, hr_Body = body \<rparr> of
        None \<Rightarrow> Inl []
      | Some (code, resp) \<Rightarrow> if code \<ge> 300 then Inl [] else Inr resp)"

definition decode_mollie :: "json option \<Rightarrow> molliePaymentResponse option" where
  "decode_mollie body = (case body of
     None \<Rightarrow> None
   | Some j \<Rightarrow>
       (let links = member j ''_links''; checkout = member links ''checkout'' in
        if \<not> is_struct j \<or> \<not> is_struct links \<or> \<not> is_struct checkout then None
        else (case (dec_str (member j ''id''), dec_str (member j ''status''), dec_str (member checkout ''href'')) of
          (Some i, Some st, Some href) \<Rightarrow> Some \<lparr> mpr_ID = i, mpr_Status = st, mpr_Href = href \<rparr>
        | _ \<Rightarrow> None)))"

definition mollie_payment_body :: "'d lib \<Rightarrow> 'd GatewayRequest \<Rightarrow> json" where
  "mollie_payment_body L req = JObj
     ([(''amount'', JObj [(''currency'', JStr (gwr_Currency req)),
                           (''value'', JStr (StringFixed2 L (gwr_Amount req)))]),
       (''description'', JStr (''Payment for restaurant '' @ uuidString L (gwr_RestaurantID req))),
       (''redirectUrl'', JStr (gwr_RedirectURL req))] @
      (if gwr_WebhookURL req = '''' then [] else [(''webhookUrl'', JStr (gwr_WebhookURL req))]))"

definition mapMollieStatus :: "string \<Rightarrow> PaymentStatus \<times> string" where
  "mapMollieStatus mollieStatus =
     (if mollieStatus = ''paid'' then (PaymentSucceeded, '''')
      else if mollieStatus \<in> {''canceled'', ''expired'', ''failed''}
      then (PaymentFailed, ''payment '' @ mollieStatus)
      else (PaymentPending, ''''))"

definition Mollie_CreatePayment :: "'d lib \<Rightarrow> http \<Rightarrow> 'd GatewayRequest \<Rightarrow> (pay_err, GatewayPayment) result" where
  "Mollie_CreatePayment L http req =
     (case doJSON http ''POST'' ''/payments'' (Some (mollie_payment_body L req)) of
        Inl e \<Rightarrow> Inl e
      | Inr body \<Rightarrow>
        (case decode_mollie body of
           None \<Rightarrow> Inl []
         | Some r \<Rightarrow> Inr \<lparr> gwp_GatewayPaymentID = mpr_ID r, gwp_CheckoutURL = mpr_Href r \<rparr>))"

definition Mollie_CancelPayment :: "http \<Rightarrow> string \<Rightarrow> (pay_err, unit) result" where
  "Mollie_CancelPayment http gatewayPaymentID =
     (case doJSON http ''DELETE'' (''/payments/'' @ gatewayPaymentID) None of
        Inl e \<Rightarrow> Inl e | Inr _ \<Rightarrow> Inr ())"

definition Mollie_GetStatus :: "http \<Rightarrow> string \<Rightarrow> (pay_err, PaymentStatusResult) result" where
  "Mollie_GetStatus http gatewayPaymentID =
     (case doJSON http ''GET'' (''/payments/'' @ gatewayPaymentID) None of
        Inl e \<Rightarrow> Inl e
      | Inr body \<Rightarrow>
        (case decode_mollie body of
           None \<Rightarrow> Inl []
         | Some r \<Rightarrow>
             (case mapMollieStatus (mpr_Status r) of (status, reason) \<Rightarrow>
                Inr \<lparr> psr_Status = status, psr_Reason = reason, psr_CheckoutURL = mpr_Href r \<rparr>)))"

definition MollieGateway :: "'d lib \<Rightarrow> http \<Rightarrow> 'd gateway" where
  "MollieGateway L http = \<lparr> gw_CreatePayment = Mollie_CreatePayment L http,
     gw_CancelPayment = Mollie_CancelPayment http, gw_GetStatus = Mollie_GetStatus http \<rparr>"

subsection \<open>The table\<close>

datatype 'd gateway_call = GwCreate "'d GatewayRequest" | GwCancel string | GwStatus string

record 'd pay_db =
  py_payments :: "'d Payment list"
  py_outbox :: outbox_table
  py_calls :: "'d gateway_call list"

datatype pay_site = PayFind | PayCreate | PayUpdate | PayOutbox | PayCommit

record pay_env =
  py_fault :: "pay_site \<Rightarrow> bool"
  py_newV7 :: "uuid option"
  py_clock :: time
  py_trace :: string

definition payment_row_ok :: "'d::linordered_idom Payment \<Rightarrow> bool" where
  "payment_row_ok p \<longleftrightarrow> fits 32 (Some (pm_SubjectType p)) \<and>
     numeric_fits 8 (pm_Amount p) \<and> 0 \<le> pm_Amount p \<and> fits 3 (Some (pm_Currency p)) \<and>
     numeric_fits 8 (pm_PlatformFee p) \<and> fits 32 (Some (pm_Gateway p)) \<and>
     fits 64 (pm_GatewayPaymentID p) \<and> fits 500 (pm_FailureReason p)"

definition subject :: "'d Payment \<Rightarrow> string \<times> uuid" where
  "subject p = (pm_SubjectType p, pm_SubjectID p)"

text \<open>
  \<open>Create\<close> sets \<open>CreatedAt\<close> (\<open>autoCreateTime\<close>) in the caller's object. \<open>Update\<close> is gorm's \<open>Save\<close>: every
  column is written, \<open>UpdatedAt\<close> with the clock, and a row that is missing is inserted.
\<close>

definition Payment_Create :: "pay_env \<Rightarrow> 'd::linordered_idom Payment \<Rightarrow> ('d pay_db, pay_err, 'd Payment) op" where
  "Payment_Create E p0 s =
     (let p = p0\<lparr> pm_CreatedAt := (if pm_CreatedAt p0 = zero_time then py_clock E else pm_CreatedAt p0) \<rparr> in
      if py_fault E PayCreate \<or> find_row pm_ID (pm_ID p) (py_payments s) \<noteq> None \<or>
         find_row subject (subject p) (py_payments s) \<noteq> None \<or> \<not> payment_row_ok p
      then (Inl [], s)
      else (Inr p, s\<lparr> py_payments := py_payments s @ [p] \<rparr>))"

definition save_payment :: "'d Payment \<Rightarrow> 'd Payment list \<Rightarrow> 'd Payment list" where
  "save_payment p tbl =
     (if find_row pm_ID (pm_ID p) tbl = None then tbl @ [p]
      else update_where (\<lambda>x. pm_ID x = pm_ID p) (\<lambda>_. p) tbl)"

definition subject_free :: "'d Payment \<Rightarrow> 'd Payment list \<Rightarrow> bool" where
  "subject_free p tbl \<longleftrightarrow> (\<forall>x \<in> set tbl. subject x = subject p \<longrightarrow> pm_ID x = pm_ID p)"

definition Payment_Update :: "pay_env \<Rightarrow> 'd::linordered_idom Payment \<Rightarrow> ('d pay_db, pay_err, 'd Payment) op" where
  "Payment_Update E p0 s =
     (let p = p0\<lparr> pm_UpdatedAt := Some (py_clock E) \<rparr> in
      if py_fault E PayUpdate \<or> \<not> payment_row_ok p \<or> \<not> subject_free p (py_payments s) then (Inl [], s)
      else (Inr p, s\<lparr> py_payments := save_payment p (py_payments s) \<rparr>))"

text \<open>\<open>First\<close> takes the row with the smallest key; \<open>gorm.ErrRecordNotFound\<close> becomes a nil payment.\<close>

definition first_payment ::
  "pay_env \<Rightarrow> ('d Payment \<Rightarrow> bool) \<Rightarrow> 'd pay_db \<Rightarrow> (pay_err, 'd Payment option) result" where
  "first_payment E P s =
     io (py_fault E) PayFind (Inr (List.find P (sort_key pm_ID (py_payments s))))"

definition Payment_FindByID :: "pay_env \<Rightarrow> uuid \<Rightarrow> 'd pay_db \<Rightarrow> (pay_err, 'd Payment option) result" where
  "Payment_FindByID E ident = first_payment E (\<lambda>p. pm_ID p = ident)"

definition FindBySubject ::
  "pay_env \<Rightarrow> string \<Rightarrow> uuid \<Rightarrow> 'd pay_db \<Rightarrow> (pay_err, 'd Payment option) result" where
  "FindBySubject E subjectType subjectID =
     first_payment E (\<lambda>p. pm_SubjectType p = subjectType \<and> pm_SubjectID p = subjectID)"

definition FindByGatewayPaymentID ::
  "pay_env \<Rightarrow> string \<Rightarrow> 'd pay_db \<Rightarrow> (pay_err, 'd Payment option) result" where
  "FindByGatewayPaymentID E gatewayPaymentID =
     first_payment E (\<lambda>p. pm_GatewayPaymentID p = Some gatewayPaymentID)"

definition Payment_Outbox_Create :: "pay_env \<Rightarrow> OutboxEvent \<Rightarrow> ('d pay_db, pay_err, unit) op" where
  "Payment_Outbox_Create E e s =
     (if py_fault E PayOutbox then (Inl [], s)
      else (Inr (), s\<lparr> py_outbox := outbox_Create (py_trace E) e (py_outbox s) \<rparr>))"

definition call_gateway :: "'d gateway_call \<Rightarrow> (pay_err, 'a) result \<Rightarrow> ('d pay_db, pay_err, 'a) op" where
  "call_gateway c answer s = (answer, s\<lparr> py_calls := py_calls s @ [c] \<rparr>)"

subsection \<open>Commands and the query\<close>

record 'd PaymentRequest =
  prq_SubjectType :: string
  prq_SubjectID :: uuid
  prq_RestaurantID :: uuid
  prq_CustomerID :: uuid
  prq_Amount :: 'd
  prq_Currency :: string
  prq_RedirectURL :: string

record PaymentResponse =
  prs_PaymentID :: uuid
  prs_CheckoutURL :: string
  prs_Status :: string

definition gateway_request :: "string \<Rightarrow> 'd PaymentRequest \<Rightarrow> 'd GatewayRequest" where
  "gateway_request publicBaseURL req =
   \<lparr> gwr_RestaurantID = prq_RestaurantID req, gwr_Amount = prq_Amount req,
     gwr_Currency = prq_Currency req, gwr_RedirectURL = prq_RedirectURL req,
     gwr_WebhookURL = publicBaseURL @ ''/webhooks/mollie'' \<rparr>"

definition callGatewayAndAttach ::
  "pay_env \<Rightarrow> 'd gateway \<Rightarrow> string \<Rightarrow> 'd::linordered_idom Payment \<Rightarrow> 'd PaymentRequest \<Rightarrow>
   ('d pay_db, pay_err, PaymentResponse) op" where
  "callGatewayAndAttach E G publicBaseURL p req =
     (let greq = gateway_request publicBaseURL req in
      bind (call_gateway (GwCreate greq) (gw_CreatePayment G greq)) (\<lambda>result.
      bind (Payment_Update E (AttachGatewayReference (gwp_GatewayPaymentID result) p)) (\<lambda>p'.
      ret \<lparr> prs_PaymentID = pm_ID p', prs_CheckoutURL = gwp_CheckoutURL result,
            prs_Status = status_text (pm_Status p') \<rparr>)))"

definition handleExisting ::
  "pay_env \<Rightarrow> 'd gateway \<Rightarrow> string \<Rightarrow> 'd::linordered_idom Payment \<Rightarrow> 'd PaymentRequest \<Rightarrow>
   ('d pay_db, pay_err, PaymentResponse) op" where
  "handleExisting E G publicBaseURL existing req =
     (case pm_GatewayPaymentID existing of
        None \<Rightarrow> callGatewayAndAttach E G publicBaseURL existing req
      | Some gid \<Rightarrow>
          bind (call_gateway (GwStatus gid) (gw_GetStatus G gid)) (\<lambda>result.
          ret \<lparr> prs_PaymentID = pm_ID existing, prs_CheckoutURL = psr_CheckoutURL result,
                prs_Status = status_text (pm_Status existing) \<rparr>))"

text \<open>\<open>uuid.Must\<close> panics when there is no identifier.\<close>

definition CreatePayment_Execute ::
  "pay_env \<Rightarrow> 'd gateway \<Rightarrow> string \<Rightarrow> 'd::linordered_idom PaymentRequest \<Rightarrow>
   ('d pay_db, pay_err, PaymentResponse) op" where
  "CreatePayment_Execute E G publicBaseURL req =
     bind (query (FindBySubject E (prq_SubjectType req) (prq_SubjectID req))) (\<lambda>existing.
     case existing of
       Some p \<Rightarrow> handleExisting E G publicBaseURL p req
     | None \<Rightarrow>
       (case py_newV7 E of
          None \<Rightarrow> fail [PayPanic]
        | Some ident \<Rightarrow>
            bind (Payment_Create E (NewPayment ident (prq_SubjectID req) (prq_RestaurantID req)
                    (prq_CustomerID req) (prq_SubjectType req) (prq_Amount req) (prq_Currency req)
                    0 ''mollie'')) (\<lambda>p.
            callGatewayAndAttach E G publicBaseURL p req)))"

definition CancelPayment_Execute ::
  "pay_env \<Rightarrow> 'd gateway \<Rightarrow> uuid \<Rightarrow> ('d::linordered_idom pay_db, pay_err, unit) op" where
  "CancelPayment_Execute E G paymentID =
     bind (query (Payment_FindByID E paymentID)) (\<lambda>found.
     case found of
       None \<Rightarrow> ret ()
     | Some p \<Rightarrow>
       (case pm_GatewayPaymentID p of
          None \<Rightarrow> ret ()
        | Some gid \<Rightarrow> (\<lambda>s. (Inr (), snd (call_gateway (GwCancel gid) (gw_CancelPayment G gid) s)))))"

definition GetPaymentStatus_Execute :: "pay_env \<Rightarrow> uuid \<Rightarrow> 'd pay_db \<Rightarrow> (pay_err, PaymentStatus) result" where
  "GetPaymentStatus_Execute E paymentID s =
     (case Payment_FindByID E paymentID s of
        Inl e \<Rightarrow> Inl e
      | Inr None \<Rightarrow> Inl [PayApp ErrNotFound]
      | Inr (Some p) \<Rightarrow> Inr (pm_Status p))"

text \<open>
  The payloads of \<open>payment.succeeded\<close> and \<open>payment.failed\<close>, which differ in the reason.
\<close>

record PaymentPayload =
  pyp_PaymentID :: uuid
  pyp_SubjectType :: string
  pyp_SubjectID :: uuid
  pyp_RestaurantID :: uuid
  pyp_Amount :: string
  pyp_Currency :: string
  pyp_EventName :: string
  pyp_OccurredAt :: time

definition payment_payload :: "'d lib \<Rightarrow> time \<Rightarrow> string \<Rightarrow> 'd Payment \<Rightarrow> PaymentPayload" where
  "payment_payload L now eventName p =
   \<lparr> pyp_PaymentID = pm_ID p, pyp_SubjectType = pm_SubjectType p, pyp_SubjectID = pm_SubjectID p,
     pyp_RestaurantID = pm_RestaurantID p, pyp_Amount = StringFixed2 L (pm_Amount p),
     pyp_Currency = pm_Currency p, pyp_EventName = eventName, pyp_OccurredAt = now \<rparr>"

definition marshal_payment :: "'d lib \<Rightarrow> (string \<times> json) list \<Rightarrow> PaymentPayload \<Rightarrow> json" where
  "marshal_payment L reason y = JObj
     ([(''payment_id'', enc_uuid L (pyp_PaymentID y)), (''subject_type'', JStr (pyp_SubjectType y)),
       (''subject_id'', enc_uuid L (pyp_SubjectID y)), (''restaurant_id'', enc_uuid L (pyp_RestaurantID y)),
       (''amount'', JStr (pyp_Amount y)), (''currency'', JStr (pyp_Currency y))] @ reason @
      [(''event_name'', JStr (pyp_EventName y)), (''occurred_at'', enc_time L (pyp_OccurredAt y))])"

definition PaymentSucceeded_json :: "'d lib \<Rightarrow> time \<Rightarrow> 'd Payment \<Rightarrow> json" where
  "PaymentSucceeded_json L now p = marshal_payment L [] (payment_payload L now ''payment.succeeded'' p)"

definition PaymentFailed_json :: "'d lib \<Rightarrow> time \<Rightarrow> string \<Rightarrow> 'd Payment \<Rightarrow> json" where
  "PaymentFailed_json L now reason p =
     marshal_payment L [(''reason'', JStr reason)] (payment_payload L now ''payment.failed'' p)"

text \<open>
  The webhook, in the two halves of the code: what is read and asked before the transaction (a
  payment to write with its event, or nothing to do), and the transaction.
\<close>

definition webhook_outcome ::
  "'d lib \<Rightarrow> time \<Rightarrow> 'd Payment \<Rightarrow> PaymentStatusResult \<Rightarrow> (pay_err, ('d Payment \<times> string \<times> json) option) result" where
  "webhook_outcome L now p result =
     (case psr_Status result of
        PaymentSucceeded \<Rightarrow>
          (case MarkSucceeded p of
             Inl e \<Rightarrow> Inl e
           | Inr p' \<Rightarrow> Inr (Some (p', ''payment.succeeded'', PaymentSucceeded_json L now p')))
      | PaymentFailed \<Rightarrow>
          (case Payment_MarkFailed (psr_Reason result) p of
             Inl e \<Rightarrow> Inl e
           | Inr p' \<Rightarrow> Inr (Some (p', ''payment.failed'', PaymentFailed_json L now (psr_Reason result) p')))
      | PaymentPending \<Rightarrow> Inr None)"

definition webhook_prepare ::
  "'d lib \<Rightarrow> pay_env \<Rightarrow> 'd gateway \<Rightarrow> string \<Rightarrow>
   ('d::linordered_idom pay_db, pay_err, ('d Payment \<times> string \<times> json) option) op" where
  "webhook_prepare L E G gatewayPaymentID =
     bind (query (FindByGatewayPaymentID E gatewayPaymentID)) (\<lambda>found.
     case found of
       None \<Rightarrow> ret None
     | Some p \<Rightarrow>
         if pm_Status p \<noteq> PaymentPending then ret None
         else
           bind (call_gateway (GwStatus gatewayPaymentID) (gw_GetStatus G gatewayPaymentID)) (\<lambda>result.
           query (\<lambda>_. webhook_outcome L (py_clock E) p result)))"

definition webhook_commit ::
  "pay_env \<Rightarrow> 'd::linordered_idom Payment \<times> string \<times> json \<Rightarrow> ('d pay_db, pay_err, unit) op" where
  "webhook_commit E = (\<lambda>(p, eventName, payload). transaction (py_fault E) PayCommit
     (bind (Payment_Update E p) (\<lambda>_.
      Payment_Outbox_Create E (NewOutboxEvent (py_clock E) (pm_ID p) eventName payload))))"

definition HandleMollieWebhook_Execute ::
  "'d lib \<Rightarrow> pay_env \<Rightarrow> 'd gateway \<Rightarrow> string \<Rightarrow> ('d::linordered_idom pay_db, pay_err, unit) op" where
  "HandleMollieWebhook_Execute L E G gatewayPaymentID =
     bind (webhook_prepare L E G gatewayPaymentID) (\<lambda>work.
     case work of None \<Rightarrow> ret () | Some w \<Rightarrow> webhook_commit E w)"

subsection \<open>Interfaces\<close>

text \<open>\<open>HandleMollie\<close>: the response to the webhook request, whose form field \<open>id\<close> is \<open>ident\<close>.\<close>

definition HandleMollie ::
  "'d lib \<Rightarrow> pay_env \<Rightarrow> 'd gateway \<Rightarrow> string \<Rightarrow> 'd::linordered_idom pay_db \<Rightarrow> int \<times> 'd pay_db" where
  "HandleMollie L E G ident s =
     (if ident = '''' then (400, s)
      else (case HandleMollieWebhook_Execute L E G ident s of
              (Inl _, s') \<Rightarrow> (500, s') | (Inr _, s') \<Rightarrow> (200, s')))"

text \<open>The gRPC server: the codes it answers with, and the texts of its requests and responses.\<close>

datatype grpc_code = InvalidArgument | NotFound | Internal

record pb_CreatePaymentRequest =
  pb_SubjectType :: string
  pb_SubjectId :: string
  pb_RestaurantId :: string
  pb_CustomerId :: string
  pb_Amount :: string
  pb_Currency :: string
  pb_RedirectUrl :: string

record pb_CreatePaymentResponse =
  pb_PaymentId :: string
  pb_CheckoutUrl :: string
  pb_Status :: string

definition Server_CreatePayment ::
  "'d::linordered_idom lib \<Rightarrow> pay_env \<Rightarrow> 'd gateway \<Rightarrow> string \<Rightarrow> pb_CreatePaymentRequest \<Rightarrow> 'd pay_db \<Rightarrow>
   (grpc_code + pb_CreatePaymentResponse) \<times> 'd pay_db" where
  "Server_CreatePayment L E G publicBaseURL req s =
     (case (uuidParse L (pb_SubjectId req), uuidParse L (pb_RestaurantId req),
            uuidParse L (pb_CustomerId req), NewFromString L (pb_Amount req)) of
        (Some subjectID, Some restaurantID, Some customerID, Some amount) \<Rightarrow>
          (case CreatePayment_Execute E G publicBaseURL
             \<lparr> prq_SubjectType = pb_SubjectType req, prq_SubjectID = subjectID,
               prq_RestaurantID = restaurantID, prq_CustomerID = customerID, prq_Amount = amount,
               prq_Currency = pb_Currency req, prq_RedirectURL = pb_RedirectUrl req \<rparr> s of
             (Inl _, s') \<Rightarrow> (Inl Internal, s')
           | (Inr resp, s') \<Rightarrow> (Inr \<lparr> pb_PaymentId = uuidString L (prs_PaymentID resp),
               pb_CheckoutUrl = prs_CheckoutURL resp, pb_Status = prs_Status resp \<rparr>, s'))
      | _ \<Rightarrow> (Inl InvalidArgument, s))"

definition Server_CancelPayment ::
  "'d::linordered_idom lib \<Rightarrow> pay_env \<Rightarrow> 'd gateway \<Rightarrow> string \<Rightarrow> 'd pay_db \<Rightarrow> (grpc_code + string) \<times> 'd pay_db" where
  "Server_CancelPayment L E G paymentId s =
     (case uuidParse L paymentId of
        None \<Rightarrow> (Inl InvalidArgument, s)
      | Some paymentID \<Rightarrow>
          (case CancelPayment_Execute E G paymentID s of
             (Inl _, s') \<Rightarrow> (Inl Internal, s') | (Inr _, s') \<Rightarrow> (Inr ''canceled'', s')))"

definition Server_GetPaymentStatus ::
  "'d lib \<Rightarrow> pay_env \<Rightarrow> string \<Rightarrow> 'd pay_db \<Rightarrow> grpc_code + string" where
  "Server_GetPaymentStatus L E paymentId s =
     (case uuidParse L paymentId of
        None \<Rightarrow> Inl InvalidArgument
      | Some paymentID \<Rightarrow>
          (case GetPaymentStatus_Execute E paymentID s of
             Inl e \<Rightarrow> if errors_is e (PayApp ErrNotFound) then Inl NotFound else Inl Internal
           | Inr st \<Rightarrow> Inr (status_text st)))"

end
