(* ===== verification/Payment_Inv.thy ===== *)
theory Payment_Inv
  imports Payment
begin

text \<open>
  The payment table's invariant, the repository's statements on tables that have it, and the calls of
  \<open>CreatePayment\<close> and \<open>CancelPayment\<close> by cases: what each returns and stores, and that the invariant is kept
  (\<open>grows\<close>: payments the gateway knows stay as they are).
\<close>

definition payment_inv :: "'d::linordered_idom Payment \<Rightarrow> bool" where
  "payment_inv p \<longleftrightarrow> payment_row_ok p \<and>
     (pm_Status p \<noteq> PaymentPending \<longrightarrow> pm_GatewayPaymentID p \<noteq> None) \<and>
     (pm_FailureReason p \<noteq> None \<longleftrightarrow> pm_Status p = PaymentFailed)"

definition payments_inv :: "'d::linordered_idom pay_db \<Rightarrow> bool" where
  "payments_inv s \<longleftrightarrow> distinct (List.map pm_ID (py_payments s)) \<and>
     distinct (List.map subject (py_payments s)) \<and> (\<forall>p \<in> set (py_payments s). payment_inv p)"

lemma payments_inv_row: "payments_inv s \<Longrightarrow> p \<in> set (py_payments s) \<Longrightarrow> payment_inv p"
  by (simp add: payments_inv_def)

lemma subject_find:
  "(\<lambda>p. pm_SubjectType p = t \<and> pm_SubjectID p = i) = (\<lambda>p. subject p = (t, i))"
  by (simp add: subject_def fun_eq_iff)

lemma FindBySubject_eq:
  "payments_inv s \<Longrightarrow> FindBySubject E t i s =
     (if py_fault E PayFind then Inl [] else Inr (find_row subject (t, i) (py_payments s)))"
  by (simp add: FindBySubject_def first_payment_def subject_find io_def payments_inv_def
      flip: find_row_def [of subject] find_row_sort [of subject _ _ pm_ID])

lemma Payment_FindByID_eq:
  "payments_inv s \<Longrightarrow> Payment_FindByID E i s =
     (if py_fault E PayFind then Inl [] else Inr (find_row pm_ID i (py_payments s)))"
  by (simp add: Payment_FindByID_def first_payment_def io_def payments_inv_def
      flip: find_row_def [of pm_ID] find_row_sort [of pm_ID _ _ pm_ID])

lemma FindByGatewayPaymentID_Some:
  "FindByGatewayPaymentID E gid s = Inr (Some p) \<Longrightarrow>
    p \<in> set (py_payments s) \<and> pm_GatewayPaymentID p = Some gid"
  by (auto simp: FindByGatewayPaymentID_def first_payment_def io_def split: if_splits
      simp flip: find_row_def [of pm_GatewayPaymentID] dest!: find_row_Some)

lemma FindByGatewayPaymentID_None:
  "FindByGatewayPaymentID E gid s = Inr None \<longleftrightarrow> \<not> py_fault E PayFind \<and>
    (\<forall>p \<in> set (py_payments s). pm_GatewayPaymentID p \<noteq> Some gid)"
  by (auto simp: FindByGatewayPaymentID_def first_payment_def find_None_iff io_def)

lemma payment_row_found:
  "payments_inv s \<Longrightarrow> p \<in> set (py_payments s) \<Longrightarrow> find_row pm_ID (pm_ID p) (py_payments s) = Some p"
  by (simp add: payments_inv_def find_row_distinct)

lemma same_subject_same_row:
  "payments_inv s \<Longrightarrow> p \<in> set (py_payments s) \<Longrightarrow> q \<in> set (py_payments s) \<Longrightarrow> subject p = subject q \<Longrightarrow> p = q"
  by (auto simp: payments_inv_def distinct_map dest: inj_onD)

lemma same_id_same_row:
  "payments_inv s \<Longrightarrow> p \<in> set (py_payments s) \<Longrightarrow> q \<in> set (py_payments s) \<Longrightarrow> pm_ID p = pm_ID q \<Longrightarrow> p = q"
  by (auto simp: payments_inv_def distinct_map dest: inj_onD)

definition touched :: "pay_env \<Rightarrow> 'd Payment \<Rightarrow> 'd Payment" where
  "touched E p = p\<lparr> pm_UpdatedAt := Some (py_clock E) \<rparr>"

definition put_payment :: "'d Payment \<Rightarrow> 'd pay_db \<Rightarrow> 'd pay_db" where
  "put_payment p s = s\<lparr> py_payments := update_where (\<lambda>x. pm_ID x = pm_ID p) (\<lambda>_. p) (py_payments s) \<rparr>"

lemma touched_simps [simp]:
  "pm_ID (touched E p) = pm_ID p" "subject (touched E p) = subject p" "pm_Status (touched E p) = pm_Status p"
  "pm_GatewayPaymentID (touched E p) = pm_GatewayPaymentID p" "pm_FailureReason (touched E p) = pm_FailureReason p"
  "pm_Amount (touched E p) = pm_Amount p" "payment_row_ok (touched E p) = payment_row_ok p"
  "payment_inv (touched E p) = payment_inv p"
  by (simp_all add: touched_def subject_def payment_row_ok_def payment_inv_def)

lemma Payment_Update_existing:
  assumes inv: "payments_inv s" and q: "q \<in> set (py_payments s)" and id: "pm_ID p = pm_ID q" and sub: "subject p = subject q"
  shows "Payment_Update E p s =
    (if py_fault E PayUpdate \<or> \<not> payment_row_ok p then (Inl [], s)
     else (Inr (touched E p), put_payment (touched E p) s))"
proof -
  have "subject_free (touched E p) (py_payments s)"
    using same_subject_same_row [OF inv _ q] id sub by (auto simp: subject_free_def)
  then show ?thesis
    using payment_row_found [OF inv q] id
    by (simp add: Payment_Update_def Let_def save_payment_def put_payment_def flip: touched_def)
qed

lemma put_payment_inv:
  assumes inv: "payments_inv s" and q: "q \<in> set (py_payments s)" and id: "pm_ID p = pm_ID q" and sub: "subject p = subject q"
    and p: "payment_inv p"
  shows "payments_inv (put_payment p s)"
proof -
  have "List.map subject (update_where (\<lambda>x. pm_ID x = pm_ID p) (\<lambda>_. p) (py_payments s)) = List.map subject (py_payments s)"
    using same_id_same_row [OF inv _ q] id sub by (auto simp: update_where_def)
  moreover have "List.map pm_ID (update_where (\<lambda>x. pm_ID x = pm_ID p) (\<lambda>_. p) (py_payments s)) = List.map pm_ID (py_payments s)"
    by (auto simp: update_where_def)
  ultimately show ?thesis using inv p by (auto simp: payments_inv_def put_payment_def set_update_where)
qed

lemma Payment_Create_Inr:
  "Payment_Create E p0 s = (Inr p, s') \<longleftrightarrow>
    \<not> py_fault E PayCreate \<and> find_row pm_ID (pm_ID p0) (py_payments s) = None \<and>
    find_row subject (subject p0) (py_payments s) = None \<and> payment_row_ok p0 \<and>
    p = p0\<lparr> pm_CreatedAt := (if pm_CreatedAt p0 = zero_time then py_clock E else pm_CreatedAt p0) \<rparr> \<and>
    s' = s\<lparr> py_payments := py_payments s @ [p] \<rparr>"
  by (auto simp: Payment_Create_def Let_def payment_row_ok_def subject_def)

lemma Payment_Create_Inl: "Payment_Create E p0 s = (Inl e, s') \<Longrightarrow> e = [] \<and> s' = s"
  by (auto simp: Payment_Create_def Let_def split: if_splits)

lemma add_payment_inv:
  "payments_inv s \<Longrightarrow> payment_inv p \<Longrightarrow> find_row pm_ID (pm_ID p) (py_payments s) = None \<Longrightarrow>
    find_row subject (subject p) (py_payments s) = None \<Longrightarrow>
    payments_inv (s\<lparr> py_payments := py_payments s @ [p] \<rparr>)"
  by (auto simp: payments_inv_def find_row_None_image)

definition called :: "'d gateway_call \<Rightarrow> 'd pay_db \<Rightarrow> 'd pay_db" where
  "called c s = s\<lparr> py_calls := py_calls s @ [c] \<rparr>"

lemma called_simps [simp]:
  "py_payments (called c s) = py_payments s" "py_outbox (called c s) = py_outbox s"
  "py_calls (called c s) = py_calls s @ [c]" "payments_inv (called c s) = payments_inv s"
  by (simp_all add: called_def payments_inv_def)

lemma put_payment_simps [simp]:
  "py_payments (put_payment p s) = update_where (\<lambda>x. pm_ID x = pm_ID p) (\<lambda>_. p) (py_payments s)"
  "py_outbox (put_payment p s) = py_outbox s" "py_calls (put_payment p s) = py_calls s"
  by (simp_all add: put_payment_def)

lemma Attach_simps [simp]:
  "pm_ID (AttachGatewayReference g p) = pm_ID p" "subject (AttachGatewayReference g p) = subject p"
  "pm_Status (AttachGatewayReference g p) = pm_Status p" "pm_Amount (AttachGatewayReference g p) = pm_Amount p"
  "pm_GatewayPaymentID (AttachGatewayReference g p) = Some g"
  by (simp_all add: AttachGatewayReference_def subject_def)

lemma Attach_inv [simp]:
  "payment_inv p \<Longrightarrow> payment_inv (AttachGatewayReference g p) \<longleftrightarrow> char_count g \<le> 64"
  "payment_inv p \<Longrightarrow> payment_row_ok (AttachGatewayReference g p) \<longleftrightarrow> char_count g \<le> 64"
  by (auto simp: payment_inv_def payment_row_ok_def AttachGatewayReference_def)

lemma call_gateway_eq: "call_gateway c r s = (r, called c s)"
  by (simp add: call_gateway_def called_def)

text \<open>The row that is saved need not be the stored one: \<open>p\<close> is the copy that the call has read.\<close>

lemma callGatewayAndAttach_stale:
  assumes inv: "payments_inv s" and q: "q \<in> set (py_payments s)" "pm_ID p = pm_ID q" "subject p = subject q"
    and p: "payment_inv p"
  shows "callGatewayAndAttach E G base p req s =
    (let greq = gateway_request base req; s0 = called (GwCreate greq) s in
     case gw_CreatePayment G greq of
       Inl e \<Rightarrow> (Inl e, s0)
     | Inr r \<Rightarrow>
         if py_fault E PayUpdate \<or> 64 < char_count (gwp_GatewayPaymentID r) then (Inl [], s0)
         else (Inr \<lparr> prs_PaymentID = pm_ID p, prs_CheckoutURL = gwp_CheckoutURL r, prs_Status = status_text (pm_Status p) \<rparr>,
               put_payment (touched E (AttachGatewayReference (gwp_GatewayPaymentID r) p)) s0))"
proof -
  have "Payment_Update E (AttachGatewayReference g p) (called c s) =
    (if py_fault E PayUpdate \<or> 64 < char_count g then (Inl [], called c s)
     else (Inr (touched E (AttachGatewayReference g p)),
           put_payment (touched E (AttachGatewayReference g p)) (called c s)))" for g c
    using Payment_Update_existing [of "called c s" q "AttachGatewayReference g p" E] inv q p by (simp add: not_le)
  then show ?thesis
    by (simp add: callGatewayAndAttach_def Let_def call_gateway_eq bind_def ret_def split: sum.split)
qed

lemma callGatewayAndAttach_eq:
  assumes inv: "payments_inv s" and p: "p \<in> set (py_payments s)"
  shows "callGatewayAndAttach E G base p req s =
    (let greq = gateway_request base req; s0 = called (GwCreate greq) s in
     case gw_CreatePayment G greq of
       Inl e \<Rightarrow> (Inl e, s0)
     | Inr r \<Rightarrow>
         if py_fault E PayUpdate \<or> 64 < char_count (gwp_GatewayPaymentID r) then (Inl [], s0)
         else (Inr \<lparr> prs_PaymentID = pm_ID p, prs_CheckoutURL = gwp_CheckoutURL r, prs_Status = status_text (pm_Status p) \<rparr>,
               put_payment (touched E (AttachGatewayReference (gwp_GatewayPaymentID r) p)) s0))"
  by (rule callGatewayAndAttach_stale [OF inv p refl refl payments_inv_row [OF inv p]])

definition new_payment :: "pay_env \<Rightarrow> uuid \<Rightarrow> 'd::linordered_idom PaymentRequest \<Rightarrow> 'd Payment" where
  "new_payment E ident req =
     (NewPayment ident (prq_SubjectID req) (prq_RestaurantID req) (prq_CustomerID req) (prq_SubjectType req)
        (prq_Amount req) (prq_Currency req) 0 ''mollie'')\<lparr> pm_CreatedAt := py_clock E \<rparr>"

lemma new_payment_simps [simp]:
  "pm_ID (new_payment E i req) = i" "subject (new_payment E i req) = (prq_SubjectType req, prq_SubjectID req)"
  "pm_Status (new_payment E i req) = PaymentPending" "pm_GatewayPaymentID (new_payment E i req) = None"
  "pm_Amount (new_payment E i req) = prq_Amount req"
  "payment_inv (new_payment E i req) = payment_row_ok (new_payment E i req)"
  by (simp_all add: new_payment_def NewPayment_def subject_def payment_inv_def)

definition request_subject :: "'d PaymentRequest \<Rightarrow> string \<times> uuid" where
  "request_subject req = (prq_SubjectType req, prq_SubjectID req)"

definition add_payment :: "'d Payment \<Rightarrow> 'd pay_db \<Rightarrow> 'd pay_db" where
  "add_payment p s = s\<lparr> py_payments := py_payments s @ [p] \<rparr>"

lemma add_payment_simps [simp]:
  "py_payments (add_payment p s) = py_payments s @ [p]" "py_outbox (add_payment p s) = py_outbox s"
  "py_calls (add_payment p s) = py_calls s"
  by (simp_all add: add_payment_def)

lemma Payment_Create_new:
  "Payment_Create E (NewPayment ident (prq_SubjectID req) (prq_RestaurantID req) (prq_CustomerID req)
      (prq_SubjectType req) (prq_Amount req) (prq_Currency req) 0 ''mollie'') s =
    (if py_fault E PayCreate \<or> find_row pm_ID ident (py_payments s) \<noteq> None \<or>
        find_row subject (request_subject req) (py_payments s) \<noteq> None \<or> \<not> payment_row_ok (new_payment E ident req)
     then (Inl [], s) else (Inr (new_payment E ident req), add_payment (new_payment E ident req) s))"
  by (simp add: Payment_Create_def Let_def NewPayment_def new_payment_def request_subject_def subject_def
      payment_row_ok_def add_payment_def)

text \<open>One call of \<open>CreatePayment\<close>, by what is stored for the subject.\<close>

lemma CreatePayment_cases:
  assumes inv: "payments_inv s"
  shows "CreatePayment_Execute E G base req s =
    (if py_fault E PayFind then (Inl [], s)
     else case find_row subject (request_subject req) (py_payments s) of
       Some p \<Rightarrow>
         (case pm_GatewayPaymentID p of
            None \<Rightarrow> callGatewayAndAttach E G base p req s
          | Some gid \<Rightarrow>
              (case gw_GetStatus G gid of
                 Inl e \<Rightarrow> (Inl e, called (GwStatus gid) s)
               | Inr result \<Rightarrow> (Inr \<lparr> prs_PaymentID = pm_ID p, prs_CheckoutURL = psr_CheckoutURL result,
                    prs_Status = status_text (pm_Status p) \<rparr>, called (GwStatus gid) s)))
     | None \<Rightarrow>
         (case py_newV7 E of
            None \<Rightarrow> (Inl [PayPanic], s)
          | Some ident \<Rightarrow>
              if py_fault E PayCreate \<or> find_row pm_ID ident (py_payments s) \<noteq> None \<or>
                 \<not> payment_row_ok (new_payment E ident req) then (Inl [], s)
              else callGatewayAndAttach E G base (new_payment E ident req) req (add_payment (new_payment E ident req) s)))"
  by (simp add: CreatePayment_Execute_def FindBySubject_eq [OF inv] Payment_Create_new request_subject_def
      handleExisting_def call_gateway_eq fail_def ret_def bind_def query_def split: option.split sum.split)

lemma add_new_payment_inv:
  assumes "payments_inv s" "find_row pm_ID ident (py_payments s) = None"
    "find_row subject (request_subject req) (py_payments s) = None" "payment_row_ok (new_payment E ident req)"
  shows "payments_inv (add_payment (new_payment E ident req) s)"
  using assms by (simp add: add_payment_def add_payment_inv request_subject_def)

text \<open>
  How a payment table may change while no webhook is handled: rows that the gateway knows stay as
  they are, every other row of the new table is pending, no row disappears, and the outbox stays.
\<close>

definition grows :: "'d::linordered_idom pay_db \<Rightarrow> 'd pay_db \<Rightarrow> bool" where
  "grows s s' \<longleftrightarrow> payments_inv s' \<and> py_outbox s' = py_outbox s \<and>
     (\<forall>p \<in> set (py_payments s). pm_GatewayPaymentID p \<noteq> None \<longrightarrow> p \<in> set (py_payments s')) \<and>
     (\<forall>p \<in> set (py_payments s'). p \<in> set (py_payments s) \<or> pm_Status p = PaymentPending)"

lemma grows_called [simp]: "grows s (called c s') = grows s s'" "grows (called c s) s' = grows s s'"
  by (simp_all add: grows_def)

lemma grows_refl: "payments_inv s \<Longrightarrow> grows s s"
  by (simp add: grows_def)

lemma grows_trans: "grows s s1 \<Longrightarrow> grows s1 s2 \<Longrightarrow> grows s s2"
  by (fastforce simp: grows_def)

lemma grows_put:
  assumes inv: "payments_inv s" and p: "p \<in> set (py_payments s)" and new: "pm_GatewayPaymentID p = None" and g: "char_count g \<le> 64"
  shows "grows s (put_payment (touched E (AttachGatewayReference g p)) s)"
  unfolding grows_def
proof (intro conjI ballI impI)
  have p_inv: "payment_inv p" using inv p by (rule payments_inv_row)
  show "payments_inv (put_payment (touched E (AttachGatewayReference g p)) s)"
    by (rule put_payment_inv [OF inv p]) (use p_inv g in simp_all)
  fix q assume q: "q \<in> set (py_payments s)" "pm_GatewayPaymentID q \<noteq> None"
  then have "pm_ID q \<noteq> pm_ID p" using same_id_same_row [OF inv q(1) p] new by auto
  then show "q \<in> set (py_payments (put_payment (touched E (AttachGatewayReference g p)) s))"
    using q by (force simp: set_update_where)
next
  fix q assume "q \<in> set (py_payments (put_payment (touched E (AttachGatewayReference g p)) s))"
  moreover have "pm_Status p = PaymentPending"
    using payments_inv_row [OF inv p] new by (auto simp: payment_inv_def)
  ultimately show "q \<in> set (py_payments s) \<or> pm_Status q = PaymentPending"
    by (auto simp: set_update_where split: if_splits)
qed simp

lemma grows_attach:
  assumes "payments_inv s" "p \<in> set (py_payments s)" "pm_GatewayPaymentID p = None"
  shows "grows s (snd (callGatewayAndAttach E G base p req s))"
proof -
  have "grows s (put_payment (touched E (AttachGatewayReference g p)) (called c s))" if "char_count g \<le> 64" for g c
    using grows_put [of "called c s" p g E] assms that by simp
  then show ?thesis
    using grows_refl [OF assms(1)] by (simp add: callGatewayAndAttach_eq assms Let_def not_le split: sum.split)
qed

lemma grows_add:
  assumes "payments_inv s" "find_row pm_ID ident (py_payments s) = None"
    "find_row subject (request_subject req) (py_payments s) = None" "payment_row_ok (new_payment E ident req)"
  shows "grows s (add_payment (new_payment E ident req) s)"
  using add_new_payment_inv [OF assms] by (auto simp: grows_def)

lemma CreatePayment_grows:
  assumes inv: "payments_inv s"
  shows "grows s (snd (CreatePayment_Execute E G base req s))"
proof -
  let ?p = "\<lambda>ident. new_payment E ident req"
  have "grows s (snd (callGatewayAndAttach E G base (?p i) req (add_payment (?p i) s)))"
    if "find_row pm_ID i (py_payments s) = None" "find_row subject (request_subject req) (py_payments s) = None"
       "payment_row_ok (?p i)" for i
    using grows_trans [OF grows_add [OF inv that] grows_attach [OF add_new_payment_inv [OF inv that]]] by simp
  moreover have "grows s (snd (callGatewayAndAttach E G base p req s))"
    if "find_row subject (request_subject req) (py_payments s) = Some p" "pm_GatewayPaymentID p = None" for p
    using grows_attach [OF inv] find_row_Some [OF that(1)] that(2) by blast
  ultimately show ?thesis
    using grows_refl [OF inv] by (auto simp: CreatePayment_cases [OF inv] split: option.split sum.split)
qed

end
