(* ===== verification/Payment_Create.thy ===== *)
theory Payment_Create
  imports Payment_Inv
begin

text \<open>
  \<open>CreatePayment\<close>: one payment per subject however often it is called, and recovery from a call that failed.
\<close>

lemma one_payment:
  "payments_inv s \<Longrightarrow> p \<in> set (py_payments s) \<Longrightarrow> filter (\<lambda>q. subject q = subject p) (py_payments s) = [p]"
  by (rule filter_key_single) (simp_all add: payments_inv_def)

lemma find_subject_row:
  "payments_inv s \<Longrightarrow> p \<in> set (py_payments s) \<Longrightarrow> find_row subject (subject p) (py_payments s) = Some p"
  by (simp add: payments_inv_def find_row_distinct)

lemma attach_Inr:
  assumes inv: "payments_inv s" and p: "p \<in> set (py_payments s)"
    and run: "callGatewayAndAttach E G base p req s = (Inr resp, s1)"
  shows "\<exists>q gid. q \<in> set (py_payments s1) \<and> subject q = subject p \<and> pm_ID q = prs_PaymentID resp \<and>
    pm_GatewayPaymentID q = Some gid \<and> prs_Status resp = status_text (pm_Status q)"
proof -
  obtain r where r: "gw_CreatePayment G (gateway_request base req) = Inr r"
    and s1: "s1 = put_payment (touched E (AttachGatewayReference (gwp_GatewayPaymentID r) p)) (called (GwCreate (gateway_request base req)) s)"
    and resp: "prs_PaymentID resp = pm_ID p" "prs_Status resp = status_text (pm_Status p)"
    using run by (auto simp: callGatewayAndAttach_eq [OF inv p] Let_def split: sum.splits if_splits)
  have "touched E (AttachGatewayReference (gwp_GatewayPaymentID r) p) \<in> set (py_payments s1)"
    using p by (force simp: s1 set_update_where)
  then show ?thesis using resp by fastforce
qed

lemma CreatePayment_Inr:
  assumes inv: "payments_inv s" and run: "CreatePayment_Execute E G base req s = (Inr resp, s1)"
  shows "\<exists>p gid. p \<in> set (py_payments s1) \<and> subject p = request_subject req \<and> pm_ID p = prs_PaymentID resp \<and>
    pm_GatewayPaymentID p = Some gid \<and> prs_Status resp = status_text (pm_Status p)"
proof (cases "find_row subject (request_subject req) (py_payments s)")
  case None
  then obtain i where i: "find_row pm_ID i (py_payments s) = None" "payment_row_ok (new_payment E i req)"
    and rest: "callGatewayAndAttach E G base (new_payment E i req) req (add_payment (new_payment E i req) s) = (Inr resp, s1)"
    using run by (auto simp: CreatePayment_cases [OF inv] split: option.splits if_splits)
  show ?thesis
    using attach_Inr [OF add_new_payment_inv [OF inv i(1) None i(2)] _ rest] by (simp add: request_subject_def)
next
  case (Some p)
  have p: "p \<in> set (py_payments s)" "subject p = request_subject req" using find_row_Some [OF Some] by auto
  show ?thesis
  proof (cases "pm_GatewayPaymentID p")
    case None
    then have "callGatewayAndAttach E G base p req s = (Inr resp, s1)"
      using run Some by (auto simp: CreatePayment_cases [OF inv] split: if_splits)
    then show ?thesis using attach_Inr [OF inv p(1)] p(2) by simp
  next
    case gid: (Some gid)
    then show ?thesis
      using run Some p by (auto simp: CreatePayment_cases [OF inv] split: if_splits sum.splits)
  qed
qed

lemma CreatePayment_keeps:
  "payments_inv s \<Longrightarrow> CreatePayment_Execute E G base req s = (r, s1) \<Longrightarrow> payments_inv s1 \<and> grows s s1"
  using CreatePayment_grows [of s E G base req] by (simp add: grows_def)

text \<open>
  C6. \<open>CreatePayment\<close> is idempotent. After a call has succeeded there is exactly one payment of its
  subject, the one of the response, and it has a gateway payment. Any later call for that subject, with
  whatever environment and gateway, changes no payment, writes no event, creates nothing at the gateway (it
  asks at most for the status of that gateway payment) and, when it succeeds, answers with the same payment.
\<close>

theorem CreatePayment_idempotent:
  assumes inv: "payments_inv s"
    and first: "CreatePayment_Execute E G base req s = (Inr resp, s1)"
    and again: "CreatePayment_Execute E' G' base' req' s1 = (r, s2)"
    and same: "request_subject req' = request_subject req"
  shows "\<exists>p gid. filter (\<lambda>q. subject q = request_subject req) (py_payments s1) = [p] \<and>
    pm_ID p = prs_PaymentID resp \<and> pm_GatewayPaymentID p = Some gid \<and>
    prs_Status resp = status_text (pm_Status p) \<and>
    py_payments s2 = py_payments s1 \<and> py_outbox s2 = py_outbox s1 \<and>
    (py_calls s2 = py_calls s1 \<or> py_calls s2 = py_calls s1 @ [GwStatus gid]) \<and>
    (\<forall>resp'. r = Inr resp' \<longrightarrow> prs_PaymentID resp' = prs_PaymentID resp \<and> prs_Status resp' = prs_Status resp)"
proof -
  have inv1: "payments_inv s1" using CreatePayment_keeps [OF inv first] by simp
  obtain p gid where p: "p \<in> set (py_payments s1)" "subject p = request_subject req"
      "pm_ID p = prs_PaymentID resp" "pm_GatewayPaymentID p = Some gid" "prs_Status resp = status_text (pm_Status p)"
    using CreatePayment_Inr [OF inv first] by blast
  have "filter (\<lambda>q. subject q = request_subject req) (py_payments s1) = [p]"
    using one_payment [OF inv1 p(1)] p(2) by simp
  moreover have "find_row subject (request_subject req) (py_payments s1) = Some p"
    using find_subject_row [OF inv1 p(1)] p(2) by simp
  ultimately show ?thesis
    using again same p(3-5) by (auto simp: CreatePayment_cases [OF inv1] split: if_splits sum.splits)
qed

lemma add_new_calls_Inl:
  assumes "callGatewayAndAttach E G base p req s = (Inl e, s1)" "payments_inv s" "p \<in> set (py_payments s)"
  shows "s1 = called (GwCreate (gateway_request base req)) s"
  using assms(1) by (auto simp: callGatewayAndAttach_eq [OF assms(2,3)] Let_def split: sum.splits if_splits)

text \<open>What a failed call leaves: the payments as they were, or with one pending payment of the subject more.\<close>

lemma CreatePayment_Inl:
  assumes inv: "payments_inv s" and run: "CreatePayment_Execute E G base req s = (Inl e, s1)"
  shows "py_outbox s1 = py_outbox s \<and> (py_payments s1 = py_payments s \<or>
    (\<exists>i. find_row subject (request_subject req) (py_payments s) = None \<and>
      py_payments s1 = py_payments s @ [new_payment E i req]))"
proof (cases "find_row subject (request_subject req) (py_payments s)")
  case None
  show ?thesis
  proof (cases "\<exists>i. find_row pm_ID i (py_payments s) = None \<and> payment_row_ok (new_payment E i req) \<and>
     callGatewayAndAttach E G base (new_payment E i req) req (add_payment (new_payment E i req) s) = (Inl e, s1)")
    case True
    then obtain i where i: "find_row pm_ID i (py_payments s) = None" "payment_row_ok (new_payment E i req)"
      and rest: "callGatewayAndAttach E G base (new_payment E i req) req (add_payment (new_payment E i req) s) = (Inl e, s1)"
      by blast
    then show ?thesis using None add_new_calls_Inl [OF rest add_new_payment_inv [OF inv i(1) None i(2)]] by auto
  next
    case False
    then show ?thesis using run None by (auto simp: CreatePayment_cases [OF inv] split: option.splits if_splits)
  qed
next
  case (Some p)
  have p: "p \<in> set (py_payments s)" using find_row_Some [OF Some] by auto
  show ?thesis
    using run Some by (cases "pm_GatewayPaymentID p")
      (auto simp: CreatePayment_cases [OF inv] split: if_splits sum.splits dest: add_new_calls_Inl [OF _ inv p])
qed

definition working :: "'d gateway \<Rightarrow> bool" where
  "working G \<longleftrightarrow> (\<forall>greq. \<exists>r. gw_CreatePayment G greq = Inr r \<and> char_count (gwp_GatewayPaymentID r) \<le> 64) \<and>
     (\<forall>gid. \<exists>r. gw_GetStatus G gid = Inr r)"

lemma attach_working:
  assumes "working G" "\<not> py_fault E PayUpdate" "payments_inv s" "p \<in> set (py_payments s)"
  shows "\<exists>resp s1. callGatewayAndAttach E G base p req s = (Inr resp, s1) \<and> length (py_payments s1) = length (py_payments s)"
proof -
  obtain r where "gw_CreatePayment G (gateway_request base req) = Inr r" "char_count (gwp_GatewayPaymentID r) \<le> 64"
    using assms(1) by (auto simp: working_def)
  then show ?thesis using assms(2) by (simp add: callGatewayAndAttach_eq [OF assms(3,4)] Let_def)
qed

text \<open>
  C25. A failed \<open>CreatePayment\<close> is healed by the next one. It writes no event and leaves at most one payment
  more, a pending one without gateway payment; as soon as database and gateway work, a repetition succeeds and
  then there is exactly one payment of the subject, with its gateway payment, and at most one more than before.
\<close>

theorem CreatePayment_recovers:
  assumes inv: "payments_inv s"
    and failed: "CreatePayment_Execute E G base req s = (Inl e, s1)"
    and healthy: "\<And>c. \<not> py_fault E' c" "working G'"
    and fresh: "py_newV7 E' = Some ident" "find_row pm_ID ident (py_payments s1) = None"
      "payment_row_ok (new_payment E' ident req)"
  shows "py_outbox s1 = py_outbox s \<and>
    (\<exists>resp s2 p. CreatePayment_Execute E' G' base req s1 = (Inr resp, s2) \<and>
      filter (\<lambda>q. subject q = request_subject req) (py_payments s2) = [p] \<and>
      pm_ID p = prs_PaymentID resp \<and> pm_GatewayPaymentID p \<noteq> None \<and>
      length (py_payments s2) \<le> length (py_payments s) + 1)"
proof -
  have inv1: "payments_inv s1" using CreatePayment_keeps [OF inv failed] by simp
  have left: "py_outbox s1 = py_outbox s" and rows: "py_payments s1 = py_payments s \<or>
     (find_row subject (request_subject req) (py_payments s) = None \<and>
      (\<exists>i. py_payments s1 = py_payments s @ [new_payment E i req]))"
    using CreatePayment_Inl [OF inv failed] by auto
  have "\<exists>resp s2. CreatePayment_Execute E' G' base req s1 = (Inr resp, s2) \<and>
      length (py_payments s2) \<le> length (py_payments s) + 1"
  proof (cases "find_row subject (request_subject req) (py_payments s1)")
    case None
    let ?p = "new_payment E' ident req"
    have "py_payments s1 = py_payments s" using rows None by (auto simp: request_subject_def split: option.splits)
    moreover obtain resp s2 where "callGatewayAndAttach E' G' base ?p req (add_payment ?p s1) = (Inr resp, s2)"
        "length (py_payments s2) = length (py_payments (add_payment ?p s1))"
      using attach_working [OF healthy(2) healthy(1) add_new_payment_inv [OF inv1 fresh(2) None fresh(3)], of ?p base req]
      by auto
    ultimately show ?thesis
      using None healthy(1) fresh by (simp add: CreatePayment_cases [OF inv1])
  next
    case (Some p)
    have len: "length (py_payments s1) \<le> length (py_payments s) + 1" using rows by auto
    have p: "p \<in> set (py_payments s1)" using find_row_Some [OF Some] by auto
    show ?thesis
    proof (cases "pm_GatewayPaymentID p")
      case None
      obtain resp s2 where "callGatewayAndAttach E' G' base p req s1 = (Inr resp, s2)"
          "length (py_payments s2) = length (py_payments s1)"
        using attach_working [OF healthy(2) healthy(1) inv1 p, of base req] by auto
      then show ?thesis using Some None healthy(1) len by (simp add: CreatePayment_cases [OF inv1])
    next
      case gid: (Some gid)
      obtain r where "gw_GetStatus G' gid = Inr r" using healthy(2) by (auto simp: working_def)
      then show ?thesis using Some gid healthy(1) len by (simp add: CreatePayment_cases [OF inv1])
    qed
  qed
  then obtain resp s2 where again: "CreatePayment_Execute E' G' base req s1 = (Inr resp, s2)"
      "length (py_payments s2) \<le> length (py_payments s) + 1" by blast
  have inv2: "payments_inv s2" using CreatePayment_keeps [OF inv1 again(1)] by simp
  obtain p gid where p: "p \<in> set (py_payments s2)" "subject p = request_subject req"
      "pm_ID p = prs_PaymentID resp" "pm_GatewayPaymentID p = Some gid"
    using CreatePayment_Inr [OF inv1 again(1)] by blast
  then show ?thesis using left again one_payment [OF inv2 p(1)] by auto
qed

end
