(* ===== verification/Payment_Webhook.thy ===== *)
theory Payment_Webhook
  imports Payment_Create
begin

text \<open>
  The webhook: a payment is settled once, by the gateway's word alone, and its event is written with it; the
  running service with overlapping webhook calls as a step relation with its invariant; a repeated
  \<open>CreatePayment\<close> that overlaps with the settlement; the webhook's answers over HTTP with Mollie's client.
\<close>

text \<open>What the gateway's verdict makes of a payment, and the event that announces it.\<close>

definition settle :: "PaymentStatusResult \<Rightarrow> 'd Payment \<Rightarrow> 'd Payment" where
  "settle result p = p\<lparr> pm_Status := psr_Status result,
     pm_FailureReason := (if psr_Status result = PaymentFailed then Some (psr_Reason result) else pm_FailureReason p) \<rparr>"

definition verdict_name :: "PaymentStatus \<Rightarrow> string" where
  "verdict_name st = (if st = PaymentSucceeded then ''payment.succeeded'' else ''payment.failed'')"

definition verdict_json :: "'d lib \<Rightarrow> time \<Rightarrow> string \<Rightarrow> 'd Payment \<Rightarrow> json" where
  "verdict_json L now reason p =
     (if pm_Status p = PaymentSucceeded then PaymentSucceeded_json L now p else PaymentFailed_json L now reason p)"

definition verdict_event :: "'d lib \<Rightarrow> pay_env \<Rightarrow> PaymentStatusResult \<Rightarrow> 'd Payment \<Rightarrow> OutboxEvent" where
  "verdict_event L E result p = NewOutboxEvent (py_clock E) (pm_ID p) (verdict_name (psr_Status result))
     (verdict_json L (py_clock E) (psr_Reason result) (settle result p))"

lemma settle_simps [simp]:
  "pm_ID (settle r p) = pm_ID p" "subject (settle r p) = subject p" "pm_Status (settle r p) = psr_Status r"
  "pm_GatewayPaymentID (settle r p) = pm_GatewayPaymentID p" "pm_Amount (settle r p) = pm_Amount p"
  by (simp_all add: settle_def subject_def)

lemma settle_inv:
  "payment_inv p \<Longrightarrow> pm_Status p = PaymentPending \<Longrightarrow> pm_GatewayPaymentID p \<noteq> None \<Longrightarrow>
    payment_inv (settle r p) \<longleftrightarrow> payment_row_ok (settle r p)"
  by (auto simp: payment_inv_def settle_def)

lemma webhook_outcome_pending:
  "pm_Status p = PaymentPending \<Longrightarrow> webhook_outcome L now p result =
    Inr (if psr_Status result = PaymentPending then None
         else Some (settle result p, verdict_name (psr_Status result), verdict_json L now (psr_Reason result) (settle result p)))"
  by (cases "psr_Status result")
    (simp_all add: webhook_outcome_def MarkSucceeded_def Payment_MarkFailed_def settle_def verdict_name_def verdict_json_def)

lemma webhook_prepare_eq:
  "webhook_prepare L E G gid s =
    (case FindByGatewayPaymentID E gid s of
       Inl e \<Rightarrow> (Inl e, s)
     | Inr None \<Rightarrow> (Inr None, s)
     | Inr (Some p) \<Rightarrow>
         if pm_Status p \<noteq> PaymentPending then (Inr None, s)
         else (case gw_GetStatus G gid of
             Inl e \<Rightarrow> (Inl e, called (GwStatus gid) s)
           | Inr result \<Rightarrow> (Inr (if psr_Status result = PaymentPending then None
               else Some (settle result p, verdict_name (psr_Status result),
                          verdict_json L (py_clock E) (psr_Reason result) (settle result p))), called (GwStatus gid) s)))"
  by (simp add: webhook_prepare_def call_gateway_eq bind_def query_def ret_def webhook_outcome_pending
      split: sum.split option.split)

lemma webhook_prepare_keeps: "webhook_prepare L E G gid s = (r, s') \<Longrightarrow> s' = s \<or> s' = called (GwStatus gid) s"
  by (auto simp: webhook_prepare_eq split: sum.splits option.splits if_splits)

lemma webhook_prepare_work:
  assumes "webhook_prepare L E G gid s = (Inr (Some w), s')"
  shows "\<exists>p result. p \<in> set (py_payments s) \<and> pm_GatewayPaymentID p = Some gid \<and> pm_Status p = PaymentPending \<and>
    gw_GetStatus G gid = Inr result \<and> psr_Status result \<noteq> PaymentPending \<and> s' = called (GwStatus gid) s \<and>
    w = (settle result p, verdict_name (psr_Status result), verdict_json L (py_clock E) (psr_Reason result) (settle result p))"
  using assms by (auto simp: webhook_prepare_eq dest!: FindByGatewayPaymentID_Some split: sum.splits option.splits if_splits)

lemma webhook_commit_eq:
  assumes "payments_inv s" "q \<in> set (py_payments s)" "pm_ID p = pm_ID q" "subject p = subject q"
  shows "webhook_commit E (p, name, payload) s =
    (if py_fault E PayUpdate \<or> \<not> payment_row_ok p \<or> py_fault E PayOutbox \<or> py_fault E PayCommit then (Inl [], s)
     else (Inr (), (put_payment (touched E p) s)\<lparr> py_outbox :=
        outbox_Create (py_trace E) (NewOutboxEvent (py_clock E) (pm_ID p) name payload) (py_outbox s) \<rparr>))"
  by (auto simp: webhook_commit_def transaction_def bind_def Payment_Update_existing [OF assms] Payment_Outbox_Create_def)

lemma Find_after_settle:
  assumes inv: "payments_inv s" and find: "FindByGatewayPaymentID E gid s = Inr (Some p)" and gid: "pm_GatewayPaymentID p' = Some gid"
    and id: "pm_ID p' = pm_ID p" and rows: "py_payments s' = update_where (\<lambda>x. pm_ID x = pm_ID p) (\<lambda>_. p') (py_payments s)"
  shows "FindByGatewayPaymentID E' gid s' = (if py_fault E' PayFind then Inl [] else Inr (Some p'))"
proof -
  let ?g = "\<lambda>r. if pm_ID r = pm_ID p then p' else r"
  have p: "p \<in> set (py_payments s)" "pm_GatewayPaymentID p = Some gid"
    using FindByGatewayPaymentID_Some [OF find] by auto
  have first: "List.find (\<lambda>p. pm_GatewayPaymentID p = Some gid) (sort_key pm_ID (py_payments s)) = Some p"
    using find by (auto simp: FindByGatewayPaymentID_def first_payment_def io_def split: if_splits)
  have "pm_GatewayPaymentID (?g q) = Some gid \<longleftrightarrow> pm_GatewayPaymentID q = Some gid"
    if "q \<in> set (sort_key pm_ID (py_payments s))" for q
    using same_id_same_row [OF inv _ p(1), of q] that p(2) gid by auto
  then have "List.find (\<lambda>p. pm_GatewayPaymentID p = Some gid) (sort_key pm_ID (List.map ?g (py_payments s))) = map_option ?g (Some p)"
    unfolding first [symmetric] using id by (subst sort_key_map) (auto intro: find_map_same)
  then show ?thesis
    by (simp add: FindByGatewayPaymentID_def first_payment_def io_def rows update_where_def)
qed

definition settled_db :: "'d lib \<Rightarrow> pay_env \<Rightarrow> string \<Rightarrow> PaymentStatusResult \<Rightarrow> 'd Payment \<Rightarrow> 'd pay_db \<Rightarrow> 'd pay_db" where
  "settled_db L E gid result p s = s\<lparr>
     py_payments := update_where (\<lambda>x. pm_ID x = pm_ID p) (\<lambda>_. touched E (settle result p)) (py_payments s),
     py_outbox := outbox_Create (py_trace E) (verdict_event L E result p) (py_outbox s),
     py_calls := py_calls s @ [GwStatus gid] \<rparr>"

lemma HandleMollieWebhook_eq:
  assumes inv: "payments_inv s"
  shows "HandleMollieWebhook_Execute L E G gid s =
    (case FindByGatewayPaymentID E gid s of
       Inl e \<Rightarrow> (Inl e, s)
     | Inr None \<Rightarrow> (Inr (), s)
     | Inr (Some p) \<Rightarrow>
         if pm_Status p \<noteq> PaymentPending then (Inr (), s)
         else (case gw_GetStatus G gid of
             Inl e \<Rightarrow> (Inl e, called (GwStatus gid) s)
           | Inr result \<Rightarrow>
               if psr_Status result = PaymentPending then (Inr (), called (GwStatus gid) s)
               else if py_fault E PayUpdate \<or> \<not> payment_row_ok (settle result p) \<or> py_fault E PayOutbox \<or> py_fault E PayCommit
               then (Inl [], called (GwStatus gid) s)
               else (Inr (), settled_db L E gid result p s)))"
proof -
  have "webhook_commit E (settle result p, name, payload) (called c s) =
      (if py_fault E PayUpdate \<or> \<not> payment_row_ok (settle result p) \<or> py_fault E PayOutbox \<or> py_fault E PayCommit
       then (Inl [], called c s)
       else (Inr (), (put_payment (touched E (settle result p)) (called c s))\<lparr> py_outbox :=
          outbox_Create (py_trace E) (NewOutboxEvent (py_clock E) (pm_ID p) name payload) (py_outbox s) \<rparr>))"
    if "p \<in> set (py_payments s)" for p name payload result c
    using webhook_commit_eq [of "called c s" p "settle result p" E name payload] inv that by simp
  then show ?thesis
    by (auto simp: HandleMollieWebhook_Execute_def webhook_prepare_eq bind_def ret_def settled_db_def verdict_event_def
        put_payment_def called_def dest!: FindByGatewayPaymentID_Some split: sum.split option.split)
qed

lemma settled_db_simps [simp]:
  "py_payments (settled_db L E gid result p s) = update_where (\<lambda>x. pm_ID x = pm_ID p) (\<lambda>_. touched E (settle result p)) (py_payments s)"
  by (simp add: settled_db_def)

lemma settled_db_inv:
  assumes "payments_inv s" "p \<in> set (py_payments s)" "payment_row_ok (settle result p)"
    "pm_Status p = PaymentPending" "pm_GatewayPaymentID p \<noteq> None"
  shows "payments_inv (settled_db L E gid result p s)"
proof -
  have "payment_inv p" using assms(1,2) by (rule payments_inv_row)
  then have "payments_inv (put_payment (touched E (settle result p)) s)"
    using assms by (intro put_payment_inv [OF assms(1,2)]) (simp_all add: settle_inv)
  then show ?thesis by (simp add: payments_inv_def)
qed

lemma webhook_effect:
  assumes inv: "payments_inv s" and run: "HandleMollieWebhook_Execute L E G gid s = (r, s1)"
  shows "s1 = s \<or> s1 = called (GwStatus gid) s \<or>
    (\<exists>p result. FindByGatewayPaymentID E gid s = Inr (Some p) \<and> p \<in> set (py_payments s) \<and> pm_GatewayPaymentID p = Some gid \<and>
      pm_Status p = PaymentPending \<and> gw_GetStatus G gid = Inr result \<and> psr_Status result \<noteq> PaymentPending \<and>
      payment_row_ok (settle result p) \<and> s1 = settled_db L E gid result p s \<and> r = Inr ())"
proof (cases "FindByGatewayPaymentID E gid s")
  case (Inl e)
  then show ?thesis using run by (simp add: HandleMollieWebhook_eq [OF inv])
next
  case (Inr found)
  show ?thesis
  proof (cases found)
    case None
    then show ?thesis using run Inr by (simp add: HandleMollieWebhook_eq [OF inv])
  next
    case (Some p)
    then show ?thesis using run Inr FindByGatewayPaymentID_Some [of E gid s p]
      by (cases "gw_GetStatus G gid") (auto simp: HandleMollieWebhook_eq [OF inv] split: if_splits)
  qed
qed

lemma webhook_keeps:
  assumes inv: "payments_inv s" and run: "HandleMollieWebhook_Execute L E G gid s = (r, s1)"
  shows "payments_inv s1"
  using webhook_effect [OF assms] inv settled_db_inv [OF inv] by auto

text \<open>
  A webhook call settles its payment once. Whatever the call says, only the gateway's own answer counts: a
  call that fails changes no payment and writes no event; one that succeeds changes nothing either (the
  identifier is unknown, the payment settled already, or the gateway still pending), or it moves the one
  pending payment with that identifier to the status the gateway reports and writes one event that announces
  it. From then on, the same call, with whatever environment and gateway, changes nothing and does not even ask
  the gateway.
\<close>

theorem webhook_settles_once:
  assumes inv: "payments_inv s" and run: "HandleMollieWebhook_Execute L E G gid s = (r, s1)"
  shows "payments_inv s1 \<and>
    (s1 = s \<or> s1 = s\<lparr> py_calls := py_calls s @ [GwStatus gid] \<rparr> \<or>
     (r = Inr () \<and> (\<exists>p result. p \<in> set (py_payments s) \<and> pm_GatewayPaymentID p = Some gid \<and> pm_Status p = PaymentPending \<and>
        gw_GetStatus G gid = Inr result \<and> psr_Status result \<noteq> PaymentPending \<and> s1 = settled_db L E gid result p s \<and>
        (\<forall>E' G' r' s2. HandleMollieWebhook_Execute L E' G' gid s1 = (r', s2) \<longrightarrow>
           s2 = s1 \<and> (py_fault E' PayFind \<or> r' = Inr ())))))"
proof -
  have inv1: "payments_inv s1" by (rule webhook_keeps [OF assms])
  have "s2 = s1 \<and> (py_fault E' PayFind \<or> r' = Inr ())"
    if find: "FindByGatewayPaymentID E gid s = Inr (Some p)" and p: "pm_GatewayPaymentID p = Some gid"
      and result: "psr_Status result \<noteq> PaymentPending" and s1: "s1 = settled_db L E gid result p s"
      and again: "HandleMollieWebhook_Execute L E' G' gid s1 = (r', s2)" for p result E' G' r' s2
  proof -
    have "FindByGatewayPaymentID E' gid s1 = (if py_fault E' PayFind then Inl [] else Inr (Some (touched E (settle result p))))"
      by (rule Find_after_settle [OF inv find]) (simp_all add: s1 p)
    then show ?thesis using again result by (auto simp: HandleMollieWebhook_eq [OF inv1] split: if_splits)
  qed
  then show ?thesis using webhook_effect [OF assms] inv1 unfolding called_def by blast
qed

subsection \<open>Overlapping calls\<close>

text \<open>
  The running service. A call of \<open>CreatePayment\<close> runs alone or in its steps, between which every other step may come:
  it finds the payment of its subject or inserts one, asks the gateway, and saves the row it has found or inserted,
  with the reference; it may end after each step. Only two calls for the same subject are taken not to overlap
  (\<open>repeated_create_undoes_settlement\<close> shows what happens if they do). \<open>CancelPayment\<close> and the answer for a payment that has
  its reference read and ask the gateway, and write nothing. A webhook call has two halves, of which the second may be
  lost, and may overlap with any call. The outbox worker changes no row's event. The gateway is taken to stand by
  a verdict once given: per gateway payment it answers with one settled status, or pending.
\<close>

record 'd pay_system =
  ps_db :: "'d pay_db"
  ps_flight :: "('d Payment \<times> string \<times> json) list"
  ps_creating :: "'d Payment list"

definition stands_by :: "(string \<Rightarrow> PaymentStatus) \<Rightarrow> 'd gateway \<Rightarrow> bool" where
  "stands_by verdict G \<longleftrightarrow> (\<forall>gid result. gw_GetStatus G gid = Inr result \<longrightarrow>
     psr_Status result = PaymentPending \<or> psr_Status result = verdict gid)"

definition event_of :: "OutboxEvent \<Rightarrow> uuid \<times> string \<times> json" where
  "event_of e = (ob_AggregateID e, ob_EventName e, ob_Payload e)"

inductive pay_step :: "'d::linordered_idom lib \<Rightarrow> (string \<Rightarrow> PaymentStatus) \<Rightarrow> 'd pay_system \<Rightarrow> 'd pay_system \<Rightarrow> bool"
  for L verdict where
  create: "request_subject req \<notin> subject ` set (ps_creating y) \<Longrightarrow>
    pay_step L verdict y (y\<lparr> ps_db := snd (CreatePayment_Execute E G base req (ps_db y)) \<rparr>)"
| create_finds: "FindBySubject E t i (ps_db y) = Inr (Some p) \<Longrightarrow> pm_GatewayPaymentID p = None \<Longrightarrow>
    subject p \<notin> subject ` set (ps_creating y) \<Longrightarrow> pay_step L verdict y (y\<lparr> ps_creating := p # ps_creating y \<rparr>)"
| create_inserts: "Payment_Create E (NewPayment ident (prq_SubjectID req) (prq_RestaurantID req) (prq_CustomerID req)
      (prq_SubjectType req) (prq_Amount req) (prq_Currency (req :: 'd PaymentRequest)) 0 ''mollie'') (ps_db y) = (Inr p, s) \<Longrightarrow>
    pay_step L verdict y (y\<lparr> ps_db := s, ps_creating := p # ps_creating y \<rparr>)"
| asks: "pay_step L verdict y (y\<lparr> ps_db := snd (call_gateway c (answer :: (pay_err, unit) result) (ps_db y)) \<rparr>)"
| create_saves: "p \<in> set (ps_creating y) \<Longrightarrow>
    pay_step L verdict y (y\<lparr> ps_db := snd (Payment_Update E (AttachGatewayReference gid p) (ps_db y)),
      ps_creating := remove1 p (ps_creating y) \<rparr>)"
| create_ends: "pay_step L verdict y (y\<lparr> ps_creating := remove1 p (ps_creating y) \<rparr>)"
| cancel: "pay_step L verdict y (y\<lparr> ps_db := snd (CancelPayment_Execute E G paymentID (ps_db y)) \<rparr>)"
| webhook_ends: "webhook_prepare L E G gid (ps_db y) = (r, s) \<Longrightarrow> pay_step L verdict y (y\<lparr> ps_db := s \<rparr>)"
| webhook_reads: "stands_by verdict G \<Longrightarrow> webhook_prepare L E G gid (ps_db y) = (Inr (Some w), s) \<Longrightarrow>
    pay_step L verdict y (y\<lparr> ps_db := s, ps_flight := w # ps_flight y \<rparr>)"
| webhook_writes: "w \<in> set (ps_flight y) \<Longrightarrow>
    pay_step L verdict y (y\<lparr> ps_db := snd (webhook_commit E w (ps_db y)), ps_flight := remove1 w (ps_flight y) \<rparr>)"
| relay: "List.map event_of (ob_rows t) = List.map event_of (ob_rows (py_outbox (ps_db y))) \<Longrightarrow>
    pay_step L verdict y (y\<lparr> ps_db := (ps_db y)\<lparr> py_outbox := t \<rparr> \<rparr>)"

inductive pay_reach :: "'d::linordered_idom lib \<Rightarrow> (string \<Rightarrow> PaymentStatus) \<Rightarrow> 'd pay_system \<Rightarrow> bool"
  for L verdict where
  start: "py_payments (ps_db y) = [] \<Longrightarrow> ob_rows (py_outbox (ps_db y)) = [] \<Longrightarrow> ps_flight y = [] \<Longrightarrow>
    ps_creating y = [] \<Longrightarrow> pay_reach L verdict y"
| step: "pay_reach L verdict y \<Longrightarrow> pay_step L verdict y y' \<Longrightarrow> pay_reach L verdict y'"

text \<open>What never changes of a payment that has its gateway payment: all that its events say.\<close>

definition same_payment :: "'d Payment \<Rightarrow> 'd Payment \<Rightarrow> bool" where
  "same_payment p q \<longleftrightarrow> pm_ID p = pm_ID q \<and> subject p = subject q \<and> pm_RestaurantID p = pm_RestaurantID q \<and>
     pm_Amount p = pm_Amount q \<and> pm_Currency p = pm_Currency q \<and>
     (\<exists>gid. pm_GatewayPaymentID p = Some gid \<and> pm_GatewayPaymentID q = Some gid)"

definition events :: "'d pay_db \<Rightarrow> (uuid \<times> string \<times> json) set" where
  "events s = event_of ` set (ob_rows (py_outbox s))"

definition announces :: "'d lib \<Rightarrow> (string \<Rightarrow> PaymentStatus) \<Rightarrow> uuid \<times> string \<times> json \<Rightarrow> 'd Payment \<Rightarrow> bool" where
  "announces L verdict ev p \<longleftrightarrow> (\<exists>now reason gid. pm_GatewayPaymentID p = Some gid \<and> pm_Status p = verdict gid \<and>
     pm_Status p \<noteq> PaymentPending \<and> ev = (pm_ID p, verdict_name (pm_Status p), verdict_json L now reason p))"

definition flight_inv ::
  "'d lib \<Rightarrow> (string \<Rightarrow> PaymentStatus) \<Rightarrow> 'd pay_db \<Rightarrow> 'd Payment \<times> string \<times> json \<Rightarrow> bool" where
  "flight_inv L verdict s w \<longleftrightarrow> announces L verdict (pm_ID (fst w), snd w) (fst w) \<and>
     (pm_FailureReason (fst w) \<noteq> None \<longleftrightarrow> pm_Status (fst w) = PaymentFailed) \<and>
     (\<exists>q \<in> set (py_payments s). same_payment q (fst w))"

definition pay_db_inv :: "'d::linordered_idom lib \<Rightarrow> (string \<Rightarrow> PaymentStatus) \<Rightarrow> 'd pay_db \<Rightarrow> bool" where
  "pay_db_inv L verdict s \<longleftrightarrow> payments_inv s \<and>
     (\<forall>ev \<in> events s. \<exists>p \<in> set (py_payments s). announces L verdict ev p) \<and>
     (\<forall>p \<in> set (py_payments s). pm_Status p \<noteq> PaymentPending \<longrightarrow> pm_ID p \<in> fst ` events s)"

text \<open>The rows that calls of \<open>CreatePayment\<close> have read are the stored ones.\<close>

definition creating_inv :: "'d pay_db \<Rightarrow> 'd Payment list \<Rightarrow> bool" where
  "creating_inv s cs \<longleftrightarrow> distinct (List.map subject cs) \<and>
     (\<forall>p \<in> set cs. p \<in> set (py_payments s) \<and> pm_GatewayPaymentID p = None)"

definition pay_system_inv :: "'d::linordered_idom lib \<Rightarrow> (string \<Rightarrow> PaymentStatus) \<Rightarrow> 'd pay_system \<Rightarrow> bool" where
  "pay_system_inv L verdict y \<longleftrightarrow> pay_db_inv L verdict (ps_db y) \<and>
     (\<forall>w \<in> set (ps_flight y). flight_inv L verdict (ps_db y) w) \<and> creating_inv (ps_db y) (ps_creating y)"

lemma announces_same:
  "announces L verdict ev p \<Longrightarrow> same_payment p q \<Longrightarrow> pm_Status q = pm_Status p \<Longrightarrow> announces L verdict ev q"
  by (fastforce simp: announces_def same_payment_def verdict_json_def PaymentSucceeded_json_def PaymentFailed_json_def
      payment_payload_def subject_def)

lemma same_payment_trans: "same_payment p q \<Longrightarrow> same_payment q r \<Longrightarrow> same_payment p r"
  by (auto simp: same_payment_def)

lemma announces_gateway: "announces L verdict ev p \<Longrightarrow> pm_GatewayPaymentID p \<noteq> None"
  by (auto simp: announces_def)

text \<open>What the in-flight webhooks need of the table: no known payment disappears or is replaced.\<close>

lemma flight_inv_mono:
  assumes "\<And>q. q \<in> set (py_payments s) \<Longrightarrow> pm_GatewayPaymentID q \<noteq> None \<Longrightarrow> \<exists>q' \<in> set (py_payments s'). same_payment q' q"
  shows "flight_inv L verdict s w \<Longrightarrow> flight_inv L verdict s' w"
proof -
  assume w: "flight_inv L verdict s w"
  then obtain q where q: "q \<in> set (py_payments s)" "same_payment q (fst w)" by (auto simp: flight_inv_def)
  then have "pm_GatewayPaymentID q \<noteq> None" by (auto simp: same_payment_def)
  then obtain q' where "q' \<in> set (py_payments s')" "same_payment q' q" using assms [OF q(1)] by blast
  then show ?thesis using w q(2) same_payment_trans by (auto simp: flight_inv_def)
qed

lemma grows_flight: "grows s s' \<Longrightarrow> flight_inv L verdict s w \<Longrightarrow> flight_inv L verdict s' w"
  by (rule flight_inv_mono [of s]) (auto simp: grows_def same_payment_def)

lemma grows_db:
  assumes inv: "pay_db_inv L verdict s" and s: "grows s s'"
  shows "pay_db_inv L verdict s'"
  unfolding pay_db_inv_def
proof (intro conjI ballI impI)
  show "payments_inv s'" using s by (simp add: grows_def)
  have ev: "events s' = events s" using s by (simp add: grows_def events_def)
  fix e assume "e \<in> events s'"
  then obtain p where "p \<in> set (py_payments s)" "announces L verdict e p"
    using inv ev by (auto simp: pay_db_inv_def)
  then show "\<exists>p \<in> set (py_payments s'). announces L verdict e p"
    using s announces_gateway [of L verdict e p] by (auto simp: grows_def)
next
  have ev: "events s' = events s" using s by (simp add: grows_def events_def)
  fix p assume "p \<in> set (py_payments s')" "pm_Status p \<noteq> PaymentPending"
  then have "p \<in> set (py_payments s)" using s by (auto simp: grows_def)
  then show "pm_ID p \<in> fst ` events s'" using inv ev \<open>pm_Status p \<noteq> _\<close> by (auto simp: pay_db_inv_def)
qed

lemma grows_system:
  assumes "pay_system_inv L verdict y" "grows (ps_db y) s" "creating_inv s cs"
  shows "pay_system_inv L verdict (y\<lparr> ps_db := s, ps_creating := cs \<rparr>)"
  using assms grows_db [of L verdict "ps_db y" s] grows_flight [of "ps_db y" s L verdict]
  by (auto simp: pay_system_inv_def)

lemma creating_mono:
  "creating_inv s cs \<Longrightarrow> set (py_payments s) \<subseteq> set (py_payments s') \<Longrightarrow> creating_inv s' cs"
  by (auto simp: creating_inv_def)

lemma creating_remove: "creating_inv s cs \<Longrightarrow> creating_inv s (remove1 p cs)"
  using set_remove1_subset [of p cs] by (auto simp: creating_inv_def distinct_map inj_on_def)

text \<open>A call of \<open>CreatePayment\<close> changes only the payment of its own subject.\<close>

lemma put_others:
  assumes "payments_inv s" "q \<in> set (py_payments s)" "pm_ID r = pm_ID q" "x \<in> set (py_payments s)" "x \<noteq> q"
  shows "x \<in> set (py_payments (put_payment r s))"
  using same_id_same_row [OF assms(1,4,2)] assms(3-5) by (auto simp: set_update_where)

lemma attach_others:
  assumes inv: "payments_inv s" and p: "p \<in> set (py_payments s)" and x: "x \<in> set (py_payments s)" "x \<noteq> p"
  shows "x \<in> set (py_payments (snd (callGatewayAndAttach E G base p req s)))"
proof -
  have "x \<in> set (py_payments (put_payment (touched E (AttachGatewayReference g p)) (called c s)))" for g c
    by (rule put_others [of "called c s" p]) (use inv p x in simp_all)
  then show ?thesis using x by (simp add: callGatewayAndAttach_eq [OF inv p] Let_def split: sum.split)
qed

lemma CreatePayment_others:
  assumes inv: "payments_inv s" and x: "x \<in> set (py_payments s)" "subject x \<noteq> request_subject req"
  shows "x \<in> set (py_payments (snd (CreatePayment_Execute E G base req s)))"
proof -
  let ?p = "\<lambda>ident. new_payment E ident req"
  have "x \<in> set (py_payments (snd (callGatewayAndAttach E G base (?p i) req (add_payment (?p i) s))))"
    if "find_row pm_ID i (py_payments s) = None" "find_row subject (request_subject req) (py_payments s) = None"
       "payment_row_ok (?p i)" for i
    using x by (intro attach_others [OF add_new_payment_inv [OF inv that]]) (auto simp: request_subject_def)
  moreover have "x \<in> set (py_payments (snd (callGatewayAndAttach E G base p req s)))"
    if "find_row subject (request_subject req) (py_payments s) = Some p" for p
    using attach_others [OF inv _ x(1)] find_row_Some [OF that] x(2) by blast
  ultimately show ?thesis using x(1) by (auto simp: CreatePayment_cases [OF inv] split: option.split sum.split)
qed

lemma create_keeps:
  assumes inv: "pay_system_inv L verdict y" and new: "request_subject req \<notin> subject ` set (ps_creating y)"
  shows "pay_system_inv L verdict (y\<lparr> ps_db := snd (CreatePayment_Execute E G base req (ps_db y)) \<rparr>)"
proof -
  have ps: "payments_inv (ps_db y)" using inv by (simp add: pay_system_inv_def pay_db_inv_def)
  have "creating_inv (snd (CreatePayment_Execute E G base req (ps_db y))) (ps_creating y)"
    using inv new CreatePayment_others [OF ps] unfolding pay_system_inv_def creating_inv_def by (metis imageI)
  from grows_system [OF inv CreatePayment_grows [OF ps] this] show ?thesis by simp
qed

lemma create_inserts_keeps:
  assumes inv: "pay_system_inv L verdict y"
    and run: "Payment_Create E (NewPayment ident (prq_SubjectID req) (prq_RestaurantID req) (prq_CustomerID req)
      (prq_SubjectType req) (prq_Amount req) (prq_Currency (req :: 'd::linordered_idom PaymentRequest)) 0 ''mollie'') (ps_db y) = (Inr p, s)"
  shows "pay_system_inv L verdict (y\<lparr> ps_db := s, ps_creating := p # ps_creating y \<rparr>)"
proof -
  have ps: "payments_inv (ps_db y)" using inv by (simp add: pay_system_inv_def pay_db_inv_def)
  have new: "find_row pm_ID ident (py_payments (ps_db y)) = None" "payment_row_ok (new_payment E ident req)"
    "find_row subject (request_subject req) (py_payments (ps_db y)) = None"
    and p: "p = new_payment E ident req" "s = add_payment p (ps_db y)"
    using run by (auto simp: Payment_Create_new split: if_splits)
  have "creating_inv s (p # ps_creating y)"
    using inv new(3) unfolding pay_system_inv_def creating_inv_def p(2)
    by (auto simp: p(1) request_subject_def find_row_None_image)
  then show ?thesis using grows_system [OF inv grows_add [OF ps new(1,3,2)]] p by simp
qed

lemma create_saves_keeps:
  assumes inv: "pay_system_inv L verdict y" and p: "p \<in> set (ps_creating y)"
  shows "pay_system_inv L verdict (y\<lparr> ps_db := snd (Payment_Update E (AttachGatewayReference gid p) (ps_db y)),
    ps_creating := remove1 p (ps_creating y) \<rparr>)"
proof -
  let ?q = "touched E (AttachGatewayReference gid p)"
  have ps: "payments_inv (ps_db y)" and cs: "creating_inv (ps_db y) (ps_creating y)"
    using inv by (simp_all add: pay_system_inv_def pay_db_inv_def)
  have row: "p \<in> set (py_payments (ps_db y))" "pm_GatewayPaymentID p = None" using cs p by (auto simp: creating_inv_def)
  note rest = creating_remove [OF cs, of p]
  have other: "x \<noteq> p" if "x \<in> set (remove1 p (ps_creating y))" for x
    using cs that by (auto simp: creating_inv_def distinct_map)
  have "creating_inv (put_payment ?q (ps_db y)) (remove1 p (ps_creating y))"
    using rest put_others [OF ps row(1), of ?q] other unfolding creating_inv_def by simp
  moreover have "grows (ps_db y) (put_payment ?q (ps_db y))" if "payment_row_ok (AttachGatewayReference gid p)"
    using grows_put [OF ps row] that payments_inv_row [OF ps row(1)] by simp
  ultimately show ?thesis
    using grows_system [OF inv grows_refl [OF ps] rest] grows_system [OF inv]
      Payment_Update_existing [OF ps row(1), of "AttachGatewayReference gid p" E] by simp
qed

lemma CancelPayment_grows:
  "payments_inv s \<Longrightarrow> grows s (snd (CancelPayment_Execute E G i s))"
  by (auto simp: CancelPayment_Execute_def call_gateway_eq Payment_FindByID_eq ret_def grows_refl split: option.split)

lemma CancelPayment_rows: "py_payments (snd (CancelPayment_Execute E G i s)) = py_payments s"
  by (auto simp: CancelPayment_Execute_def call_gateway_eq ret_def bind_def query_def split: option.split sum.split)

lemma webhook_prepare_grows:
  "payments_inv s \<Longrightarrow> webhook_prepare L E G gid s = (r, s') \<Longrightarrow> grows s s'"
  using webhook_prepare_keeps [of L E G gid s r s'] by (auto simp: grows_refl)

lemma webhook_reads_flight:
  assumes inv: "payments_inv s" and gateway: "stands_by verdict G"
    and run: "webhook_prepare L E G gid s = (Inr (Some w), s')"
  shows "flight_inv L verdict s' w"
proof -
  obtain p result where p: "p \<in> set (py_payments s)" "pm_GatewayPaymentID p = Some gid" "pm_Status p = PaymentPending"
    and result: "gw_GetStatus G gid = Inr result" "psr_Status result \<noteq> PaymentPending"
    and s': "s' = called (GwStatus gid) s"
    and w: "w = (settle result p, verdict_name (psr_Status result), verdict_json L (py_clock E) (psr_Reason result) (settle result p))"
    using webhook_prepare_work [OF run] by blast
  have "psr_Status result = verdict gid" using gateway result by (auto simp: stands_by_def)
  then have "announces L verdict (pm_ID (fst w), snd w) (fst w)"
    using p result by (auto simp: announces_def w)
  moreover have "pm_FailureReason (fst w) \<noteq> None \<longleftrightarrow> pm_Status (fst w) = PaymentFailed"
    using payments_inv_row [OF inv p(1)] p(3) by (auto simp: payment_inv_def settle_def w)
  moreover have "same_payment p (fst w)" using p by (simp add: same_payment_def settle_def subject_def w)
  ultimately show ?thesis using p(1) by (auto simp: flight_inv_def s')
qed

lemma webhook_writes_inv:
  assumes inv: "pay_db_inv L verdict s" and w: "flight_inv L verdict s w"
  shows "pay_db_inv L verdict (snd (webhook_commit E w s)) \<and>
    (flight_inv L verdict s v \<longrightarrow> flight_inv L verdict (snd (webhook_commit E w s)) v) \<and>
    (creating_inv s cs \<longrightarrow> creating_inv (snd (webhook_commit E w s)) cs)"
proof -
  obtain p name payload where w_eq: "w = (p, name, payload)" by (cases w)
  obtain q where q: "q \<in> set (py_payments s)" "same_payment q p" using w by (auto simp: flight_inv_def w_eq)
  have ps: "payments_inv s" using inv by (simp add: pay_db_inv_def)
  have id: "pm_ID p = pm_ID q" "subject p = subject q" using q(2) by (auto simp: same_payment_def)
  let ?p = "touched E p"
  let ?e = "NewOutboxEvent (py_clock E) (pm_ID p) name payload"
  let ?s = "(put_payment ?p s)\<lparr> py_outbox := outbox_Create (py_trace E) ?e (py_outbox s) \<rparr>"
  have same: "same_payment p ?p" "same_payment q ?p" using q(2) by (auto simp: same_payment_def touched_def subject_def)
  have rows: "py_payments ?s = update_where (\<lambda>x. pm_ID x = pm_ID q) (\<lambda>_. ?p) (py_payments s)"
    using id by simp
  have rows': "set (py_payments ?s) = insert ?p (set (py_payments s) - {q})"
    using same_id_same_row [OF ps _ q(1)] q(1) unfolding rows set_update_where by auto
  have ev: "events ?s = insert (pm_ID p, name, payload) (events s)"
    by (simp add: events_def outbox_Create_def event_of_def NewOutboxEvent_def)
  have ann: "announces L verdict (pm_ID p, name, payload) ?p"
    using w same(1) by (auto simp: flight_inv_def w_eq intro: announces_same)
  have "pay_db_inv L verdict ?s" if ok: "payment_row_ok p"
    unfolding pay_db_inv_def
  proof (intro conjI ballI impI)
    have "payment_inv p"
      using w ok announces_gateway [of L verdict _ p] by (auto simp: payment_inv_def flight_inv_def w_eq)
    then have "payments_inv (put_payment ?p s)"
      using put_payment_inv [OF ps q(1), of ?p] id by simp
    then show "payments_inv ?s" by (simp add: payments_inv_def)
    fix e assume "e \<in> events ?s"
    then consider "e = (pm_ID p, name, payload)" | "e \<in> events s" using ev by blast
    then show "\<exists>x \<in> set (py_payments ?s). announces L verdict e x"
    proof cases
      case 1
      then show ?thesis using ann unfolding rows' by blast
    next
      case 2
      then obtain x where x: "x \<in> set (py_payments s)" "announces L verdict e x"
        using inv by (auto simp: pay_db_inv_def)
      have "announces L verdict e ?p" if "x = q"
      proof -
        have "pm_Status ?p = pm_Status q"
          using x(2) ann same(2) that by (auto simp: announces_def same_payment_def)
        then show ?thesis using x(2) same(2) that by (auto intro: announces_same)
      qed
      then show ?thesis using x unfolding rows' by (cases "x = q") auto
    qed
  next
    fix x assume x: "x \<in> set (py_payments ?s)" "pm_Status x \<noteq> PaymentPending"
    show "pm_ID x \<in> fst ` events ?s"
    proof (cases "x = ?p")
      case True
      then show ?thesis unfolding ev by simp
    next
      case False
      then have "x \<in> set (py_payments s)" using x(1) unfolding rows' by blast
      then show ?thesis using inv x(2) unfolding ev by (auto simp: pay_db_inv_def)
    qed
  qed
  moreover have "flight_inv L verdict ?s v" if "flight_inv L verdict s v"
  proof (rule flight_inv_mono [OF _ that])
    fix x assume "x \<in> set (py_payments s)" "pm_GatewayPaymentID x \<noteq> None"
    then show "\<exists>x' \<in> set (py_payments ?s). same_payment x' x"
      using same(2) unfolding rows' by (cases "x = q") (auto simp: same_payment_def)
  qed
  moreover have "creating_inv ?s cs" if "creating_inv s cs"
    using that q(2) unfolding creating_inv_def rows' by (auto simp: same_payment_def)
  ultimately show ?thesis
    using inv by (auto simp: w_eq webhook_commit_eq [OF ps q(1) id])
qed

lemma relay_keeps_inv:
  assumes "List.map event_of (ob_rows t) = List.map event_of (ob_rows (py_outbox s))"
  shows "pay_db_inv L verdict (s\<lparr> py_outbox := t \<rparr>) = pay_db_inv L verdict s"
    "flight_inv L verdict (s\<lparr> py_outbox := t \<rparr>) w = flight_inv L verdict s w"
    "creating_inv (s\<lparr> py_outbox := t \<rparr>) cs = creating_inv s cs"
proof -
  have "events (s\<lparr> py_outbox := t \<rparr>) = events s"
    using arg_cong [OF assms, of set] by (simp add: events_def)
  then show "pay_db_inv L verdict (s\<lparr> py_outbox := t \<rparr>) = pay_db_inv L verdict s"
    by (simp add: pay_db_inv_def payments_inv_def)
  show "flight_inv L verdict (s\<lparr> py_outbox := t \<rparr>) w = flight_inv L verdict s w"
    by (simp add: flight_inv_def)
  show "creating_inv (s\<lparr> py_outbox := t \<rparr>) cs = creating_inv s cs" by (simp add: creating_inv_def)
qed

lemma asks_keeps:
  assumes "pay_system_inv L verdict y" "grows (ps_db y) s" "py_payments s = py_payments (ps_db y)"
  shows "pay_system_inv L verdict (y\<lparr> ps_db := s \<rparr>)"
  using grows_system [OF assms(1,2), of "ps_creating y"] assms(1,3) by (simp add: pay_system_inv_def creating_inv_def)

lemma pay_step_inv:
  assumes "pay_step L verdict y y'" "pay_system_inv L verdict y"
  shows "pay_system_inv L verdict y'"
  using assms
proof (induction rule: pay_step.induct)
  case (create req y E G base)
  then show ?case by (intro create_keeps)
next
  case (create_finds E t i y p)
  have ps: "payments_inv (ps_db y)" using create_finds(4) by (simp add: pay_system_inv_def pay_db_inv_def)
  have "p \<in> set (py_payments (ps_db y))"
    using create_finds(1) by (auto simp: FindBySubject_eq [OF ps] split: if_splits dest: find_row_Some)
  then show ?case using create_finds by (auto simp: pay_system_inv_def creating_inv_def)
next
  case (create_inserts E ident req y p s)
  then show ?case by (intro create_inserts_keeps)
next
  case (asks y c answer)
  then show ?case
    by (intro asks_keeps) (simp_all add: call_gateway_eq grows_refl pay_system_inv_def pay_db_inv_def)
next
  case (create_saves p y E gid)
  then show ?case by (intro create_saves_keeps)
next
  case (create_ends y p)
  then show ?case by (auto simp: pay_system_inv_def creating_remove)
next
  case (cancel y E G i)
  then show ?case
    by (intro asks_keeps CancelPayment_grows) (simp_all add: pay_system_inv_def pay_db_inv_def CancelPayment_rows)
next
  case (webhook_ends E G gid y r s)
  then show ?case
    by (intro asks_keeps webhook_prepare_grows) (auto simp: pay_system_inv_def pay_db_inv_def dest: webhook_prepare_keeps)
next
  case (webhook_reads G E gid y w s)
  have inv: "payments_inv (ps_db y)" using webhook_reads(3) by (simp add: pay_system_inv_def pay_db_inv_def)
  have "pay_system_inv L verdict (y\<lparr> ps_db := s \<rparr>)"
    using webhook_prepare_keeps [OF webhook_reads(2)]
    by (intro asks_keeps [OF webhook_reads(3) webhook_prepare_grows [OF inv webhook_reads(2)]]) auto
  then show ?case using webhook_reads_flight [OF inv webhook_reads(1,2)] by (simp add: pay_system_inv_def)
next
  case (webhook_writes w y E)
  have inv: "pay_db_inv L verdict (ps_db y)" and w: "flight_inv L verdict (ps_db y) w"
    using webhook_writes by (auto simp: pay_system_inv_def)
  then show ?case
    using webhook_writes_inv [OF inv w] webhook_writes(2) set_remove1_subset [of w "ps_flight y"]
    by (auto simp: pay_system_inv_def)
next
  case (relay t y)
  then show ?case by (simp add: pay_system_inv_def relay_keeps_inv)
qed

lemma pay_reach_inv: "pay_reach L verdict y \<Longrightarrow> pay_system_inv L verdict y"
proof (induction rule: pay_reach.induct)
  case (start y)
  then show ?case by (simp add: pay_system_inv_def pay_db_inv_def payments_inv_def events_def creating_inv_def)
next
  case (step y y')
  then show ?case by (simp add: pay_step_inv)
qed

lemma event_announces:
  assumes "pay_reach L verdict y" "p \<in> set (py_payments (ps_db y))"
    "e \<in> set (ob_rows (py_outbox (ps_db y)))" "ob_AggregateID e = pm_ID p"
  shows "announces L verdict (event_of e) p"
proof -
  have inv: "pay_db_inv L verdict (ps_db y)" using pay_reach_inv [OF assms(1)] by (simp add: pay_system_inv_def)
  have ps: "payments_inv (ps_db y)" using inv by (simp add: pay_db_inv_def)
  have "event_of e \<in> events (ps_db y)" using assms by (simp add: events_def)
  then obtain q where q: "q \<in> set (py_payments (ps_db y))" "announces L verdict (event_of e) q"
    using inv by (auto simp: pay_db_inv_def)
  then have "pm_ID q = pm_ID p" using assms(4) by (auto simp: announces_def event_of_def)
  then show ?thesis using q same_id_same_row [OF ps q(1) assms(2)] by simp
qed

text \<open>
  C5. Overlapping webhook calls agree. Let the calls of the webhook overlap with each other and with all other calls in
  any way, the calls of \<open>CreatePayment\<close> in any way except two for the same subject, and let the gateway stand by its
  verdicts. Then in every state that the service reaches, a pending payment has no event in the outbox; a settled one has
  the status that the gateway reported and at least one event, and all its events, however many overlapping calls wrote
  one, announce that status and carry the payment's own subject, restaurant and amount.
\<close>

theorem overlapping_webhooks_agree:
  assumes "pay_reach L verdict y" and "p \<in> set (py_payments (ps_db y))"
  shows "(pm_Status p = PaymentPending \<longrightarrow> (\<forall>e \<in> set (ob_rows (py_outbox (ps_db y))). ob_AggregateID e \<noteq> pm_ID p)) \<and>
    (pm_Status p \<noteq> PaymentPending \<longrightarrow>
       (\<exists>gid. pm_GatewayPaymentID p = Some gid \<and> pm_Status p = verdict gid) \<and>
       (\<exists>e \<in> set (ob_rows (py_outbox (ps_db y))). ob_AggregateID e = pm_ID p) \<and>
       (\<forall>e \<in> set (ob_rows (py_outbox (ps_db y))). ob_AggregateID e = pm_ID p \<longrightarrow>
          (\<exists>now reason. event_of e = (pm_ID p, verdict_name (pm_Status p), verdict_json L now reason p))))"
proof -
  have inv: "pay_db_inv L verdict (ps_db y)" using pay_reach_inv [OF assms(1)] by (simp add: pay_system_inv_def)
  note ann = event_announces [OF assms]
  have ex: "\<exists>e \<in> set (ob_rows (py_outbox (ps_db y))). ob_AggregateID e = pm_ID p" if "pm_Status p \<noteq> PaymentPending"
    using inv assms(2) that by (force simp: pay_db_inv_def events_def event_of_def)
  then show ?thesis using ann by (fastforce simp: announces_def)
qed

subsection \<open>A repeated call that overlaps with the settlement\<close>

text \<open>
  C38. \<open>CreatePayment\<close> can undo a settlement. Two calls for the same subject read its payment before it has a
  gateway payment; the first attaches one, the customer pays, and the webhook settles the payment and writes its
  event. The second call then saves the copy it has read: the payment is pending again, with another gateway
  payment to pay, although its event is in the outbox.
\<close>

theorem repeated_create_undoes_settlement:
  assumes inv: "payments_inv s" and p: "p \<in> set (py_payments s)" "pm_GatewayPaymentID p = None"
    and first: "callGatewayAndAttach E G base p req s = (Inr resp, s1)"
    and paid: "HandleMollieWebhook_Execute L E1 G1 gid s1 = (Inr (), s2)"
    and settled: "q \<in> set (py_payments s2)" "pm_ID q = pm_ID p" "pm_Status q \<noteq> PaymentPending"
    and second: "callGatewayAndAttach E2 G2 base p req' s2 = (Inr resp2, s3)"
  shows "\<exists>row gid2. find_row pm_ID (pm_ID p) (py_payments s3) = Some row \<and> pm_Status row = PaymentPending \<and>
    pm_GatewayPaymentID row = Some gid2 \<and>
    (\<exists>e \<in> set (ob_rows (py_outbox s3)). ob_AggregateID e = pm_ID p \<and> ob_EventName e = verdict_name (pm_Status q))"
proof -
  have pending: "pm_Status p = PaymentPending" and p_inv: "payment_inv p"
    using payments_inv_row [OF inv p(1)] p(2) by (auto simp: payment_inv_def)
  have inv1: "payments_inv s1" and "grows s s1"
    using grows_attach [OF inv p, of E G base req] first by (simp_all add: grows_def)
  have unsettled: "x = q \<Longrightarrow> x \<notin> set (py_payments s1)" for x
    using \<open>grows s s1\<close> settled(2,3) pending same_id_same_row [OF inv p(1), of q] by (auto simp: grows_def)
  have inv2: "payments_inv s2" by (rule webhook_keeps [OF inv1 paid])
  obtain p1 result where p1: "p1 \<in> set (py_payments s1)" "s2 = settled_db L E1 gid result p1 s1"
    using webhook_effect [OF inv1 paid] settled(1) unsettled [of q] by auto
  have q: "q = touched E1 (settle result p1)"
    using settled(1) unsettled [of q] p1(2) by (auto simp: set_update_where split: if_splits)
  have same: "pm_ID p1 = pm_ID p" "pm_Status q = psr_Status result" using q settled(2) by auto
  obtain x where x: "x \<in> set (py_payments s1)" "pm_ID x = pm_ID p" "subject x = subject p"
    using first p(1) by (force simp: callGatewayAndAttach_eq [OF inv p(1)] Let_def set_update_where
        split: sum.splits if_splits)
  have sub: "subject p = subject q" using same_id_same_row [OF inv1 x(1) p1(1)] x(2,3) same(1) q by simp
  obtain r where "gw_CreatePayment G2 (gateway_request base req') = Inr r" and s3: "s3 = put_payment (touched E2 (AttachGatewayReference (gwp_GatewayPaymentID r) p)) (called (GwCreate (gateway_request base req')) s2)"
    using second by (auto simp: callGatewayAndAttach_stale [OF inv2 settled(1) settled(2) [symmetric] sub p_inv] Let_def
        split: sum.splits if_splits)
  let ?row = "touched E2 (AttachGatewayReference (gwp_GatewayPaymentID r) p)"
  have "find_row pm_ID (pm_ID p) (py_payments s3) = Some ?row"
    using payment_row_found [OF inv2 settled(1)] settled(2) find_row_replace [of pm_ID ?row "py_payments s2"]
    by (simp add: s3)
  moreover have "\<exists>e \<in> set (ob_rows (py_outbox s3)). ob_AggregateID e = pm_ID p \<and> ob_EventName e = verdict_name (pm_Status q)"
    using same by (simp add: s3 p1(2) settled_db_def outbox_Create_def verdict_event_def NewOutboxEvent_def)
  ultimately show ?thesis using pending by auto
qed

subsection \<open>The webhook over HTTP\<close>

definition mollie_result :: "molliePaymentResponse \<Rightarrow> PaymentStatusResult" where
  "mollie_result r = \<lparr> psr_Status = fst (mapMollieStatus (mpr_Status r)),
     psr_Reason = snd (mapMollieStatus (mpr_Status r)), psr_CheckoutURL = mpr_Href r \<rparr>"

lemma Mollie_GetStatus_eq:
  "Mollie_GetStatus http gid =
    (case http \<lparr> hr_Method = ''GET'', hr_Path = ''/payments/'' @ gid, hr_Body = None \<rparr> of
       None \<Rightarrow> Inl []
     | Some (code, body) \<Rightarrow>
         if code \<ge> 300 then Inl []
         else case decode_mollie body of None \<Rightarrow> Inl [] | Some r \<Rightarrow> Inr (mollie_result r))"
  by (simp add: Mollie_GetStatus_def doJSON_def mollie_result_def split: option.split prod.split)

lemma reason_fits: "char_count (snd (mapMollieStatus st)) \<le> 500"
  by (simp add: mapMollieStatus_def)

text \<open>What a readable answer of Mollie about the pending payment \<open>p\<close> makes of the database.\<close>

definition mollie_says ::
  "'d lib \<Rightarrow> pay_env \<Rightarrow> string \<Rightarrow> 'd Payment \<Rightarrow> 'd pay_db \<Rightarrow> molliePaymentResponse \<Rightarrow> 'd pay_db" where
  "mollie_says L E gid p s r =
     (if mpr_Status r = ''paid'' then settled_db L E gid
        \<lparr> psr_Status = PaymentSucceeded, psr_Reason = '''', psr_CheckoutURL = mpr_Href r \<rparr> p s
      else if mpr_Status r \<in> {''canceled'', ''expired'', ''failed''} then settled_db L E gid
        \<lparr> psr_Status = PaymentFailed, psr_Reason = ''payment '' @ mpr_Status r, psr_CheckoutURL = mpr_Href r \<rparr> p s
      else called (GwStatus gid) s)"

lemma mollie_says_result:
  "mollie_says L E gid p s r =
    (if psr_Status (mollie_result r) = PaymentPending then called (GwStatus gid) s
     else settled_db L E gid (mollie_result r) p s)"
proof -
  consider "mpr_Status r = ''paid''"
    | "mpr_Status r \<noteq> ''paid''" "mpr_Status r \<in> {''canceled'', ''expired'', ''failed''}"
    | "mpr_Status r \<noteq> ''paid''" "mpr_Status r \<notin> {''canceled'', ''expired'', ''failed''}" by blast
  then show ?thesis
    unfolding mollie_says_def mollie_result_def mapMollieStatus_def
    by cases (simp_all only: if_True if_False simp_thms PaymentStatusResult.simps PaymentStatus.distinct fst_conv snd_conv)
qed

text \<open>
  A call of Mollie's webhook without an identifier is answered with 400 and ignored. Otherwise, for a
  pending payment and a working database, what Mollie's own answer says happens: \<open>paid\<close> makes the payment
  succeeded; \<open>canceled\<close>, \<open>expired\<close> and \<open>failed\<close> make it failed, with that as the reason; any other status
  leaves it pending (200 in each case). When Mollie cannot be asked, answers with an error status or with
  something that cannot be read, the answer is 500, so that Mollie calls again, and the payment stays pending.
\<close>

theorem mollie_webhook_outcome:
  assumes inv: "payments_inv s" and up: "\<And>c. \<not> py_fault E c"
    and p: "p \<in> set (py_payments s)" "pm_GatewayPaymentID p = Some gid" "pm_Status p = PaymentPending"
    and unique: "\<And>q. q \<in> set (py_payments s) \<Longrightarrow> pm_GatewayPaymentID q = Some gid \<Longrightarrow> q = p"
  shows "HandleMollie L E (MollieGateway L http) '''' s = (400, s) \<and>
    (gid \<noteq> '''' \<longrightarrow>
      HandleMollie L E (MollieGateway L http) gid s =
       (case http \<lparr> hr_Method = ''GET'', hr_Path = ''/payments/'' @ gid, hr_Body = None \<rparr> of
          None \<Rightarrow> (500, called (GwStatus gid) s)
        | Some (code, body) \<Rightarrow>
            if code \<ge> 300 \<or> decode_mollie body = None then (500, called (GwStatus gid) s)
            else (200, mollie_says L E gid p s (the (decode_mollie body)))))"
proof -
  have find: "FindByGatewayPaymentID E gid s = Inr (Some p)"
  proof (cases "FindByGatewayPaymentID E gid s")
    case (Inl e)
    then show ?thesis using up by (simp add: FindByGatewayPaymentID_def first_payment_def)
  next
    case (Inr found)
    show ?thesis
    proof (cases found)
      case None
      then show ?thesis using Inr p(1,2) FindByGatewayPaymentID_None [of E gid s] by simp
    next
      case (Some q)
      then show ?thesis using Inr unique [of q] FindByGatewayPaymentID_Some [of E gid s q] by simp
    qed
  qed
  have ok: "payment_row_ok (settle (mollie_result r) p)" for r
    using payments_inv_row [OF inv p(1)] reason_fits [of "mpr_Status r"]
    by (auto simp: payment_inv_def payment_row_ok_def settle_def mollie_result_def)
  have status: "gw_GetStatus (MollieGateway L http) gid = Mollie_GetStatus http gid"
    by (simp add: MollieGateway_def)
  have run: "HandleMollieWebhook_Execute L E (MollieGateway L http) gid s =
    (case Mollie_GetStatus http gid of
       Inl e \<Rightarrow> (Inl e, called (GwStatus gid) s)
     | Inr result \<Rightarrow> if psr_Status result = PaymentPending then (Inr (), called (GwStatus gid) s)
         else if payment_row_ok (settle result p) then (Inr (), settled_db L E gid result p s)
         else (Inl [], called (GwStatus gid) s))"
    using up p(3) by (simp add: HandleMollieWebhook_eq [OF inv] find status split: sum.split)
  show ?thesis
    by (simp add: HandleMollie_def run Mollie_GetStatus_eq ok mollie_says_result split: option.split prod.split)
qed

end
