(* ===== verification/Payment_Sample.thy ===== *)
theory Payment_Sample
  imports Payment_Webhook Sample
begin

text \<open>
  A sample payment with Mollie's client on canned answers, and the witnesses of the properties of
  \<open>Payment_Create\<close> and \<open>Payment_Webhook\<close>.
\<close>

subsection \<open>Witnesses\<close>

definition pay_env0 :: pay_env where
  "pay_env0 = \<lparr> py_fault = (\<lambda>_. False), py_newV7 = Some 5, py_clock = 100, py_trace = '''' \<rparr>"

definition mollie_reply :: "string \<Rightarrow> string \<Rightarrow> http" where
  "mollie_reply ident st = (\<lambda>r. Some (200, Some (JObj [(''id'', JStr ident), (''status'', JStr st)])))"

definition mollie_down :: http where
  "mollie_down = (\<lambda>r. None)"

abbreviation mollie :: "http \<Rightarrow> int gateway" where
  "mollie http \<equiv> MollieGateway sample_lib http"

definition pay_request :: "int PaymentRequest" where
  "pay_request = \<lparr> prq_SubjectType = ''order'', prq_SubjectID = 9, prq_RestaurantID = 2, prq_CustomerID = 1,
     prq_Amount = 30, prq_Currency = ''EUR'', prq_RedirectURL = ''r'' \<rparr>"

definition no_payments :: "int pay_db" where
  "no_payments = \<lparr> py_payments = [], py_outbox = \<lparr> ob_rows = [], ob_seq = 1 \<rparr>, py_calls = [] \<rparr>"

definition unattached :: "int pay_db" where
  "unattached = add_payment (new_payment pay_env0 5 pay_request) no_payments"

definition attached_db :: "int pay_db" where
  "attached_db = put_payment (touched pay_env0 (AttachGatewayReference ''tr1'' (new_payment pay_env0 5 pay_request)))
     (called (GwCreate (gateway_request ''b'' pay_request)) unattached)"

lemma pay_env0_simps [simp]:
  "\<not> py_fault pay_env0 c" "py_newV7 pay_env0 = Some 5" "py_trace pay_env0 = ''''"
  by (simp_all add: pay_env0_def)

lemma mollie_up [simp]:
  "gw_CreatePayment (mollie (mollie_reply i st)) greq = Inr \<lparr> gwp_GatewayPaymentID = i, gwp_CheckoutURL = '''' \<rparr>"
  "gw_GetStatus (mollie (mollie_reply i st)) gid = Inr (mollie_result \<lparr> mpr_ID = i, mpr_Status = st, mpr_Href = '''' \<rparr>)"
  by (simp_all add: MollieGateway_def Mollie_CreatePayment_def Mollie_GetStatus_eq doJSON_def mollie_reply_def decode_mollie_def Let_def)

lemma mollie_down_simps [simp]: "gw_CreatePayment (mollie mollie_down) greq = Inl []"
  by (simp add: MollieGateway_def Mollie_CreatePayment_def doJSON_def mollie_down_def)

lemma pay_request_subject [simp]: "request_subject pay_request = (''order'', 9)"
  by (simp add: request_subject_def pay_request_def)

lemma no_payments_inv [simp]: "payments_inv no_payments" "py_payments no_payments = []"
  by (simp_all add: payments_inv_def no_payments_def)

lemma pay_request_ok [simp]: "payment_row_ok (new_payment pay_env0 5 pay_request)"
  by (simp add: payment_row_ok_def new_payment_def NewPayment_def pay_request_def numeric_fits_def)

lemma unattached_inv [simp]: "payments_inv unattached"
  unfolding unattached_def by (rule add_new_payment_inv) simp_all

lemma unattached_row [simp]: "py_payments unattached = [new_payment pay_env0 5 pay_request]"
  by (simp add: unattached_def)

lemma attach_unattached:
  "callGatewayAndAttach pay_env0 (mollie (mollie_reply ''tr1'' ''open'')) ''b'' (new_payment pay_env0 5 pay_request) pay_request unattached =
    (Inr \<lparr> prs_PaymentID = 5, prs_CheckoutURL = '''', prs_Status = ''pending'' \<rparr>, attached_db)"
  by (simp add: callGatewayAndAttach_eq attached_db_def Let_def)

lemma create_sample:
  "CreatePayment_Execute pay_env0 (mollie (mollie_reply ''tr1'' ''open'')) ''b'' pay_request no_payments =
    (Inr \<lparr> prs_PaymentID = 5, prs_CheckoutURL = '''', prs_Status = ''pending'' \<rparr>, attached_db)"
  using attach_unattached by (simp add: CreatePayment_cases unattached_def)

lemma attached_inv [simp]: "payments_inv attached_db"
  using CreatePayment_keeps [OF no_payments_inv(1) create_sample] by simp

lemma attached_row [simp]:
  "py_payments attached_db = [touched pay_env0 (AttachGatewayReference ''tr1'' (new_payment pay_env0 5 pay_request))]"
  by (simp add: attached_db_def)

theorem CreatePayment_idempotent_witness:
  "\<exists>r s2. CreatePayment_Execute pay_env0 (mollie (mollie_reply ''tr2'' ''paid'')) ''b'' pay_request attached_db = (r, s2) \<and>
     py_payments s2 = py_payments attached_db"
proof -
  obtain r s2 where again: "CreatePayment_Execute pay_env0 (mollie (mollie_reply ''tr2'' ''paid'')) ''b'' pay_request attached_db = (r, s2)"
    by fastforce
  then show ?thesis using CreatePayment_idempotent [OF no_payments_inv(1) create_sample again refl] by auto
qed

lemma create_fails:
  "CreatePayment_Execute pay_env0 (mollie mollie_down) ''b'' pay_request no_payments =
    (Inl [], called (GwCreate (gateway_request ''b'' pay_request)) unattached)"
  using unattached_inv by (simp add: CreatePayment_cases callGatewayAndAttach_eq Let_def flip: unattached_def)

theorem CreatePayment_recovers_witness:
  "\<exists>resp s2. CreatePayment_Execute (pay_env0\<lparr> py_newV7 := Some 6 \<rparr>) (mollie (mollie_reply ''tr1'' ''open'')) ''b'' pay_request
      (called (GwCreate (gateway_request ''b'' pay_request)) unattached) = (Inr resp, s2) \<and> length (py_payments s2) \<le> 1"
proof -
  let ?E = "pay_env0\<lparr> py_newV7 := Some 6 \<rparr>"
  have "working (mollie (mollie_reply ''tr1'' ''open''))" by (simp add: working_def)
  moreover have "\<not> py_fault ?E c" for c by (simp add: pay_env0_def)
  moreover have "payment_row_ok (new_payment ?E 6 pay_request)"
    by (simp add: payment_row_ok_def new_payment_def NewPayment_def pay_request_def numeric_fits_def)
  ultimately show ?thesis
    using CreatePayment_recovers [OF no_payments_inv(1) create_fails, of ?E "mollie (mollie_reply ''tr1'' ''open'')" 6] by auto
qed

definition settled_sample :: "int pay_db" where
  "settled_sample = settled_db sample_lib pay_env0 ''tr1'' (mollie_result \<lparr> mpr_ID = ''tr1'', mpr_Status = ''paid'', mpr_Href = '''' \<rparr>)
     (touched pay_env0 (AttachGatewayReference ''tr1'' (new_payment pay_env0 5 pay_request))) attached_db"

lemma mollie_result_paid [simp]:
  "psr_Status (mollie_result \<lparr> mpr_ID = i, mpr_Status = ''paid'', mpr_Href = h \<rparr>) = PaymentSucceeded"
  "psr_Status (mollie_result \<lparr> mpr_ID = i, mpr_Status = ''open'', mpr_Href = h \<rparr>) = PaymentPending"
  by (simp_all add: mollie_result_def mapMollieStatus_def)

lemma settle_sample_ok [simp]:
  "payment_row_ok (settle (mollie_result \<lparr> mpr_ID = ''tr1'', mpr_Status = ''paid'', mpr_Href = '''' \<rparr>)
     (touched pay_env0 (AttachGatewayReference ''tr1'' (new_payment pay_env0 5 pay_request))))"
  by (simp add: payment_row_ok_def settle_def touched_def AttachGatewayReference_def new_payment_def NewPayment_def
      pay_request_def numeric_fits_def)

lemma find_tr1 [simp]:
  "FindByGatewayPaymentID pay_env0 ''tr1'' attached_db =
    Inr (Some (touched pay_env0 (AttachGatewayReference ''tr1'' (new_payment pay_env0 5 pay_request))))"
  by (simp add: FindByGatewayPaymentID_def first_payment_def)

lemma webhook_sample:
  "HandleMollieWebhook_Execute sample_lib pay_env0 (mollie (mollie_reply ''tr1'' ''paid'')) ''tr1'' attached_db = (Inr (), settled_sample)"
  by (simp add: HandleMollieWebhook_eq settled_sample_def)

theorem webhook_settles_once_witness:
  "\<exists>r' s2. HandleMollieWebhook_Execute sample_lib pay_env0 (mollie (mollie_reply ''tr1'' ''failed'')) ''tr1'' settled_sample = (r', s2) \<and>
     s2 = settled_sample"
proof -
  have "settled_sample \<noteq> attached_db" "settled_sample \<noteq> attached_db\<lparr> py_calls := py_calls attached_db @ [GwStatus ''tr1''] \<rparr>"
    by (auto dest!: arg_cong [where f = "\<lambda>s. List.map pm_Status (py_payments s)"] simp: settled_sample_def)
  moreover obtain r' s2 where again: "HandleMollieWebhook_Execute sample_lib pay_env0 (mollie (mollie_reply ''tr1'' ''failed'')) ''tr1'' settled_sample = (r', s2)"
    by fastforce
  ultimately show ?thesis using webhook_settles_once [OF attached_inv webhook_sample] again by blast
qed

definition sample_verdict :: "string \<Rightarrow> PaymentStatus" where
  "sample_verdict gid = PaymentSucceeded"

definition sample_paid_work :: "int Payment \<times> string \<times> json" where
  "sample_paid_work =
     (let p = touched pay_env0 (AttachGatewayReference ''tr1'' (new_payment pay_env0 5 pay_request));
          r = mollie_result \<lparr> mpr_ID = ''tr1'', mpr_Status = ''paid'', mpr_Href = '''' \<rparr> in
      (settle r p, ''payment.succeeded'', verdict_json sample_lib 100 (psr_Reason r) (settle r p)))"

lemma sample_reads:
  "webhook_prepare sample_lib pay_env0 (mollie (mollie_reply ''tr1'' ''paid'')) ''tr1'' attached_db =
    (Inr (Some sample_paid_work), called (GwStatus ''tr1'') attached_db)"
  by (simp add: webhook_prepare_eq sample_paid_work_def Let_def verdict_name_def) (simp add: pay_env0_def)

text \<open>Two overlapping webhook calls for the same payment: both read before either writes.\<close>

definition sample_after :: "int pay_db" where
  "sample_after = snd (webhook_commit pay_env0 sample_paid_work (called (GwStatus ''tr1'') (called (GwStatus ''tr1'') attached_db)))"

lemma sample_overlap:
  "pay_reach sample_lib sample_verdict \<lparr> ps_db = sample_after, ps_flight = [sample_paid_work], ps_creating = [] \<rparr>"
proof -
  let ?y = "\<lambda>s fl. \<lparr> ps_db = s, ps_flight = fl, ps_creating = [] \<rparr>"
  let ?c = "called (GwStatus ''tr1'')"
  have stands: "stands_by sample_verdict (mollie (mollie_reply i ''paid''))" for i
    by (simp add: stands_by_def sample_verdict_def)
  have reads2: "webhook_prepare sample_lib pay_env0 (mollie (mollie_reply ''tr1'' ''paid'')) ''tr1'' (?c attached_db) =
      (Inr (Some sample_paid_work), ?c (?c attached_db))"
    using sample_reads by (simp add: webhook_prepare_eq FindByGatewayPaymentID_def first_payment_def)
  have "pay_reach sample_lib sample_verdict (?y no_payments [])"
    by (rule pay_reach.start) (simp_all add: no_payments_def)
  then have "pay_reach sample_lib sample_verdict (?y attached_db [])"
    using pay_step.create [of pay_request "?y no_payments []" sample_lib sample_verdict pay_env0 "mollie (mollie_reply ''tr1'' ''open'')" "''b''"]
    by (auto simp: create_sample intro: pay_reach.step)
  then have "pay_reach sample_lib sample_verdict (?y (?c attached_db) [sample_paid_work])"
    using pay_step.webhook_reads [OF stands, of sample_lib pay_env0 "''tr1''" "''tr1''" "?y attached_db []"] sample_reads
    by (auto intro: pay_reach.step)
  then have "pay_reach sample_lib sample_verdict (?y (?c (?c attached_db)) [sample_paid_work, sample_paid_work])"
    using pay_step.webhook_reads [OF stands, of sample_lib pay_env0 "''tr1''" "''tr1''" "?y (?c attached_db) [sample_paid_work]"] reads2
    by (auto intro: pay_reach.step)
  then show ?thesis
    using pay_step.webhook_writes [of sample_paid_work "?y (?c (?c attached_db)) [sample_paid_work, sample_paid_work]" sample_lib sample_verdict pay_env0]
    by (auto simp: sample_after_def intro: pay_reach.step)
qed

lemma sample_after_eq:
  "sample_after = (put_payment (touched pay_env0 (fst sample_paid_work)) (called (GwStatus ''tr1'') (called (GwStatus ''tr1'') attached_db)))
     \<lparr> py_outbox := outbox_Create '''' (NewOutboxEvent 100 5 (fst (snd sample_paid_work)) (snd (snd sample_paid_work)))
         (py_outbox attached_db) \<rparr>"
proof -
  let ?p = "touched pay_env0 (AttachGatewayReference ''tr1'' (new_payment pay_env0 5 pay_request))"
  let ?s = "called (GwStatus ''tr1'') (called (GwStatus ''tr1'') attached_db)"
  have "webhook_commit pay_env0 sample_paid_work ?s =
      (Inr (), (put_payment (touched pay_env0 (fst sample_paid_work)) ?s)\<lparr> py_outbox := outbox_Create ''''
         (NewOutboxEvent (py_clock pay_env0) 5 (fst (snd sample_paid_work)) (snd (snd sample_paid_work))) (py_outbox ?s) \<rparr>)"
    by (simp add: sample_paid_work_def Let_def webhook_commit_eq [of ?s ?p])
  then show ?thesis by (simp add: sample_after_def) (simp add: pay_env0_def)
qed

lemma sample_after_row:
  "\<exists>p. py_payments sample_after = [p] \<and> pm_Status p = PaymentSucceeded \<and> pm_ID p = 5 \<and>
     pm_SubjectType p = ''order'' \<and> pm_SubjectID p = 9"
  by (simp add: sample_after_eq sample_paid_work_def Let_def settle_def touched_def AttachGatewayReference_def
      new_payment_def NewPayment_def pay_request_def)

lemma sample_after_event: "\<exists>e. e \<in> set (ob_rows (py_outbox sample_after)) \<and> ob_AggregateID e = 5"
  by (rule exI [of _ "last (ob_rows (py_outbox sample_after))"]) (simp add: sample_after_eq outbox_Create_def NewOutboxEvent_def)

theorem overlapping_webhooks_agree_witness:
  "\<exists>p e. py_payments sample_after = [p] \<and> pm_Status p = PaymentSucceeded \<and>
     e \<in> set (ob_rows (py_outbox sample_after)) \<and> ob_EventName e = ''payment.succeeded''"
proof -
  obtain p where p: "py_payments sample_after = [p]" "pm_Status p = PaymentSucceeded"
    using sample_after_row by blast
  then have "p \<in> set (py_payments (ps_db \<lparr> ps_db = sample_after, ps_flight = [sample_paid_work], ps_creating = [] \<rparr>))" by simp
  from overlapping_webhooks_agree [OF sample_overlap this] p(2)
  have "\<exists>e \<in> set (ob_rows (py_outbox sample_after)). ob_AggregateID e = pm_ID p"
    and "\<And>e. e \<in> set (ob_rows (py_outbox sample_after)) \<Longrightarrow> ob_AggregateID e = pm_ID p \<Longrightarrow> ob_EventName e = ''payment.succeeded''"
    by (auto simp: event_of_def verdict_name_def)
  then show ?thesis using p by blast
qed

theorem repeated_create_undoes_settlement_witness:
  "\<exists>resp s3 row. callGatewayAndAttach pay_env0 (mollie (mollie_reply ''tr2'' ''open'')) ''b'' (new_payment pay_env0 5 pay_request)
      pay_request settled_sample = (Inr resp, s3) \<and>
     find_row pm_ID 5 (py_payments s3) = Some row \<and> pm_Status row = PaymentPending"
proof -
  let ?p = "new_payment pay_env0 5 pay_request"
  let ?q = "touched pay_env0 (settle (mollie_result \<lparr> mpr_ID = ''tr1'', mpr_Status = ''paid'', mpr_Href = '''' \<rparr>)
      (touched pay_env0 (AttachGatewayReference ''tr1'' ?p)))"
  have inv: "payments_inv settled_sample" by (rule webhook_keeps [OF attached_inv webhook_sample])
  have q: "?q \<in> set (py_payments settled_sample)" by (simp add: settled_sample_def)
  have "\<exists>resp s3. callGatewayAndAttach pay_env0 (mollie (mollie_reply ''tr2'' ''open'')) ''b'' ?p pay_request settled_sample = (Inr resp, s3)"
    by (simp add: callGatewayAndAttach_stale [OF inv q] Let_def)
  then obtain resp s3 where second: "callGatewayAndAttach pay_env0 (mollie (mollie_reply ''tr2'' ''open'')) ''b'' ?p pay_request settled_sample = (Inr resp, s3)"
    by blast
  have p: "?p \<in> set (py_payments unattached)" by simp
  show ?thesis
    using repeated_create_undoes_settlement [OF unattached_inv p _ attach_unattached webhook_sample q _ _ second] second by auto
qed

theorem mollie_webhook_outcome_witness:
  "HandleMollie sample_lib pay_env0 (mollie (mollie_reply ''tr1'' ''paid'')) ''tr1'' attached_db = (200, settled_sample) \<and>
   fst (HandleMollie sample_lib pay_env0 (mollie mollie_down) ''tr1'' attached_db) = 500"
proof -
  let ?p = "touched pay_env0 (AttachGatewayReference ''tr1'' (new_payment pay_env0 5 pay_request))"
  have p: "?p \<in> set (py_payments attached_db)" "pm_GatewayPaymentID ?p = Some ''tr1''" "pm_Status ?p = PaymentPending"
    by simp_all
  note outcome = mollie_webhook_outcome [OF attached_inv _ p]
  have "\<And>q. q \<in> set (py_payments attached_db) \<Longrightarrow> pm_GatewayPaymentID q = Some ''tr1'' \<Longrightarrow> q = ?p" by simp
  then show ?thesis
    using outcome [of pay_env0 sample_lib "mollie_reply ''tr1'' ''paid''"] outcome [of pay_env0 sample_lib mollie_down]
    by (simp add: mollie_down_def mollie_reply_def decode_mollie_def Let_def settled_sample_def mollie_says_result)
qed

end
