(* ===== verification/Order_Payment.thy ===== *)
theory Order_Payment
  imports Read_Model Payment_Sample
begin

text \<open>
  order-service and payment-service together: order-service's gRPC client with its circuit breaker
  (\<open>order-service/internal/infrastructure/payment\<close>) over payment-service's server, and the events of
  payment-service as order-service's consumer handles them.
\<close>

subsection \<open>The gRPC client and the circuit breaker\<close>

text \<open>
  The stub generated for payment-service is a parameter per method: the response, or an error (of the
  server or of the transport), whose kind the client does not look at.
\<close>

definition Client_CreatePayment ::
  "'d lib \<Rightarrow> (pb_CreatePaymentRequest \<Rightarrow> 'e + pb_CreatePaymentResponse) \<Rightarrow> 'd CreatePaymentRequest \<Rightarrow>
   (order_err, CreatePaymentResult) result" where
  "Client_CreatePayment L call req =
     (case call \<lparr> pb_SubjectType = ''order'', pb_SubjectId = uuidString L (cpr_OrderID req),
        pb_RestaurantId = uuidString L (cpr_RestaurantID req), pb_CustomerId = uuidString L (cpr_CustomerID req),
        pb_Amount = StringFixed2 L (cpr_Amount req), pb_Currency = cpr_Currency req,
        pb_RedirectUrl = cpr_RedirectURL req \<rparr> of
        Inl _ \<Rightarrow> Inl [ErrPaymentServiceUnavailable]
      | Inr resp \<Rightarrow> Inr \<lparr> cps_PaymentID = pb_PaymentId resp, cps_CheckoutURL = pb_CheckoutUrl resp \<rparr>)"

definition Client_CancelPayment :: "(string \<Rightarrow> 'e + string) \<Rightarrow> string \<Rightarrow> (order_err, unit) result" where
  "Client_CancelPayment call paymentID =
     (case call paymentID of Inl _ \<Rightarrow> Inl [ErrPaymentServiceUnavailable] | Inr _ \<Rightarrow> Inr ())"

definition Client_GetPaymentStatus :: "(string \<Rightarrow> 'e + string) \<Rightarrow> string \<Rightarrow> (order_err, string) result" where
  "Client_GetPaymentStatus call paymentID =
     (case call paymentID of Inl _ \<Rightarrow> Inl [ErrPaymentServiceUnavailable] | Inr st \<Rightarrow> Inr st)"

text \<open>
  \<open>CircuitBreakerProvider\<close>: each of the three breakers (package gobreaker) either runs the call or refuses
  it, as \<open>refuses\<close> says for this execution; a refusal is \<open>ErrPaymentServiceUnavailable\<close>.
\<close>

datatype breaker = CreateBreaker | CancelBreaker | StatusBreaker

definition breaker_run :: "(breaker \<Rightarrow> bool) \<Rightarrow> breaker \<Rightarrow> (order_err, 'a) result \<Rightarrow> (order_err, 'a) result" where
  "breaker_run refuses b r = (if refuses b then Inl [ErrPaymentServiceUnavailable] else r)"

definition CircuitBreakerProvider :: "(breaker \<Rightarrow> bool) \<Rightarrow> 'd provider \<Rightarrow> 'd provider" where
  "CircuitBreakerProvider refuses inner =
   \<lparr> CreatePayment = (\<lambda>req. breaker_run refuses CreateBreaker (CreatePayment inner req)),
     CancelPayment = (\<lambda>pid. breaker_run refuses CancelBreaker (CancelPayment inner pid)),
     GetPaymentStatus = (\<lambda>pid. breaker_run refuses StatusBreaker (GetPaymentStatus inner pid)) \<rparr>"

text \<open>The provider of order-service over payment-service in the state \<open>s\<close>, as far as its answers go.\<close>

definition payment_client ::
  "'d::linordered_idom lib \<Rightarrow> pay_env \<Rightarrow> 'd gateway \<Rightarrow> string \<Rightarrow> (breaker \<Rightarrow> bool) \<Rightarrow> 'd pay_db \<Rightarrow> 'd provider" where
  "payment_client L E G base refuses s = CircuitBreakerProvider refuses
     \<lparr> CreatePayment = Client_CreatePayment L (\<lambda>r. fst (Server_CreatePayment L E G base r s)),
       CancelPayment = Client_CancelPayment (\<lambda>i. fst (Server_CancelPayment L E G i s)),
       GetPaymentStatus = Client_GetPaymentStatus (\<lambda>i. Server_GetPaymentStatus L E i s) \<rparr>"

subsection \<open>From a settled payment to its order\<close>

lemma unmarshal_payment_json:
  assumes "uuid_codec L"
  shows "unmarshal_payment_event L (Some (verdict_json L now reason p)) =
    Some \<lparr> pep_SubjectType = pm_SubjectType p, pep_SubjectID = pm_SubjectID p \<rparr>"
  using assms by (simp add: unmarshal_payment_event_def verdict_json_def PaymentSucceeded_json_def
      PaymentFailed_json_def marshal_payment_def payment_payload_def enc_uuid_def)

lemma stored_plain: "o_Items row = [] \<Longrightarrow> o_events row = [] \<Longrightarrow> stored row = row"
  by (cases row) (simp add: stored_def)

lemma PaymentSucceeded_confirms:
  assumes inv: "orders_inv s" and up: "no_faults E"
    and event: "unmarshal_payment_event L body = Some \<lparr> pep_SubjectType = ''order'', pep_SubjectID = i \<rparr>"
    and row: "find_row o_ID i (t_orders s) = Some row" "o_Status row = StatusPending"
    and ok: "order_row_ok s row" "payment_id_free s row"
    and restaurant: "find_row r_ID (o_RestaurantID row) (t_restaurants s) = Some restaurant"
  shows "PaymentSucceeded_Handle L E body s =
    (Inr (), s\<lparr> t_orders := update_where (\<lambda>x. o_ID x = i) (\<lambda>_. confirmed_row (clock E) row) (t_orders s),
               t_outbox := outbox_Create (traceParent E) (confirmed_event L E s row restaurant) (t_outbox s) \<rparr>)"
proof -
  have in_tbl: "row \<in> set (t_orders s)" "o_ID row = i" using find_row_Some [OF row(1)] by auto
  have plain: "o_Items row = []" "o_events row = []" using in_tbl inv by (auto simp: orders_inv_def order_row_inv_def)
  let ?ord = "(preload_order s row)\<lparr> o_Status := StatusConfirmed, o_ConfirmedAt := Some (clock E),
        o_events := [OrderConfirmed (o_ID row) (o_CustomerID row) (o_RestaurantID row) (clock E)] \<rparr>"
  have "stored ?ord = confirmed_row (clock E) row"
    using plain by (cases row) (simp add: stored_def confirmed_row_def preload_order_def)
  then have save: "save_order ?ord (t_orders s) = update_where (\<lambda>x. o_ID x = i) (\<lambda>_. confirmed_row (clock E) row) (t_orders s)"
    using save_order_existing [of row "t_orders s" ?ord] in_tbl by (simp add: preload_order_def)
  have ok': "order_row_ok s ?ord" "payment_id_free s ?ord"
  proof -
    have "order_row_ok s ?ord = order_row_ok s row" "payment_id_free s ?ord = payment_id_free s row"
      by (simp_all add: order_row_ok_def payment_id_free_def preload_order_def)
    then show "order_row_ok s ?ord" "payment_id_free s ?ord" using ok by auto
  qed
  have conf: "Confirm (clock E) (preload_order s row) = Inr ?ord"
    using row(2) plain by (simp add: Confirm_def preload_order_def)
  have upd: "Order_Update E ?ord s' = (Inr (), s'\<lparr> t_orders := save_order ?ord (t_orders s') \<rparr>)" if "s' = s" for s'
    using up ok' that by (simp add: Order_Update_def)
  have rest: "Restaurant_FindByID E (o_RestaurantID ?ord) s' = Inr restaurant" if "t_restaurants s' = t_restaurants s" for s'
    using up restaurant that by (simp add: Restaurant_FindByID_def preload_order_def)
  have disp: "DispatchEventsTx L E [enrichConfirmed L ?ord (r_Name restaurant) (r_OwnerEmail restaurant) (item_payloads ?ord)] ?ord s' =
     (Inr (?ord\<lparr> o_events := [] \<rparr>), s'\<lparr> t_outbox := outbox_Create (traceParent E) (confirmed_event L E s row restaurant) (t_outbox s') \<rparr>)" for s'
    using up by (simp add: DispatchEventsTx_def PullEvents_def integration_event_def Outbox_Insert_def enrichConfirmed_def
        bind_def ret_def preload_order_def confirmed_event_def NewOrderConfirmedPayload_def item_payloads_def items_of_def)
  show ?thesis
    using up event row(1)
    by (simp add: PaymentSucceeded_Handle_def transaction_def bind_def query_def ret_def Order_FindByID_def find_order_def
        conf upd rest [simplified] disp save flip: find_row_def [of o_ID])
qed

lemma PaymentFailed_cancels:
  assumes inv: "orders_inv s" and up: "no_faults E"
    and event: "unmarshal_payment_event L body = Some \<lparr> pep_SubjectType = ''order'', pep_SubjectID = i \<rparr>"
    and row: "find_row o_ID i (t_orders s) = Some row" "o_Status row = StatusPending"
    and ok: "order_row_ok s row" "payment_id_free s row"
  shows "PaymentFailed_Handle L E body s =
    (Inr (), s\<lparr> t_orders := update_where (\<lambda>x. o_ID x = i) (\<lambda>_. cancelled_row (clock E) row) (t_orders s) \<rparr>)"
proof -
  have in_tbl: "row \<in> set (t_orders s)" "o_ID row = i" using find_row_Some [OF row(1)] by auto
  have plain: "o_Items row = []" "o_events row = []" using in_tbl inv by (auto simp: orders_inv_def order_row_inv_def)
  let ?ord = "cancelled_row (clock E) (preload_order s row)"
  have "stored ?ord = cancelled_row (clock E) row"
    using plain by (cases row) (simp add: stored_def cancelled_row_def preload_order_def)
  then have save: "save_order ?ord (t_orders s) = update_where (\<lambda>x. o_ID x = i) (\<lambda>_. cancelled_row (clock E) row) (t_orders s)"
    using save_order_existing [of row "t_orders s" ?ord] in_tbl by (simp add: cancelled_row_def preload_order_def)
  have ok': "order_row_ok s ?ord" "payment_id_free s ?ord"
  proof -
    have "order_row_ok s ?ord = order_row_ok s row" "payment_id_free s ?ord = payment_id_free s row"
      by (simp_all add: order_row_ok_def payment_id_free_def preload_order_def cancelled_row_def)
    then show "order_row_ok s ?ord" "payment_id_free s ?ord" using ok by auto
  qed
  have canc: "Order_Domain.Cancel (clock E) (preload_order s row) = Inr ?ord"
    using row(2) by (simp add: Cancel_def preload_order_def cancelled_row_def)
  show ?thesis
    using up event row(1) ok'
    by (simp add: PaymentFailed_Handle_def canc transaction_def bind_def query_def ret_def Order_FindByID_def find_order_def
        Order_Update_def save flip: find_row_def [of o_ID])
qed

lemma find_updated_order:
  "find_row o_ID i tbl = Some row \<Longrightarrow> o_ID row' = i \<Longrightarrow>
    find_row o_ID i (update_where (\<lambda>x. o_ID x = i) (\<lambda>_. row') tbl) = Some row'"
  using find_row_replace [of o_ID row' tbl] by auto

text \<open>
  C3. The gateway's verdict reaches the order. Whatever calls overlap in payment-service: when its worker
  has delivered an event about the payment of a pending order, order-service's consumer (its dispatcher with the
  handlers registered there) confirms the order and queues \<open>order.confirmed\<close> if the gateway reported the
  payment as paid, and cancels the order if it reported it as failed.
\<close>

theorem verdict_reaches_order:
  assumes codec: "uuid_codec L" and reach: "pay_reach L verdict y"
    and p: "p \<in> set (py_payments (ps_db y))" "pm_SubjectType p = ''order''"
    and e: "e \<in> set (ob_rows (py_outbox (ps_db y)))" "ob_AggregateID e = pm_ID p"
    and s: "orders_inv s" "no_faults E" "find_row o_ID (pm_SubjectID p) (t_orders s) = Some row" "o_Status row = StatusPending"
      "order_row_ok s row" "payment_id_free s row" "find_row r_ID (o_RestaurantID row) (t_restaurants s) = Some restaurant"
  shows "\<exists>s' gid. Dispatch (order_dispatcher L) (ob_EventName e) E (Some (ob_Payload e)) s = (Inr (), s') \<and>
    pm_GatewayPaymentID p = Some gid \<and>
    (verdict gid = PaymentSucceeded \<and>
       find_row o_ID (pm_SubjectID p) (t_orders s') = Some (confirmed_row (clock E) row) \<and>
       t_outbox s' = outbox_Create (traceParent E) (confirmed_event L E s row restaurant) (t_outbox s) \<or>
     verdict gid = PaymentFailed \<and>
       find_row o_ID (pm_SubjectID p) (t_orders s') = Some (cancelled_row (clock E) row) \<and> t_outbox s' = t_outbox s)"
proof -
  have "pm_Status p \<noteq> PaymentPending" using event_announces [OF reach p(1) e] by (auto simp: announces_def)
  obtain now reason gid where gid: "pm_GatewayPaymentID p = Some gid" "pm_Status p = verdict gid"
    and ev: "ob_EventName e = verdict_name (pm_Status p)" "ob_Payload e = verdict_json L now reason p"
    using event_announces [OF reach p(1) e] by (auto simp: announces_def event_of_def)
  have event: "unmarshal_payment_event L (Some (ob_Payload e)) = Some \<lparr> pep_SubjectType = ''order'', pep_SubjectID = pm_SubjectID p \<rparr>"
    using unmarshal_payment_json [OF codec] ev(2) p(2) by simp
  have id: "o_ID row = pm_SubjectID p" using find_row_Some [OF s(3)] by simp
  show ?thesis
  proof (cases "pm_Status p")
    case PaymentPending
    then show ?thesis using \<open>pm_Status p \<noteq> PaymentPending\<close> by simp
  next
    case PaymentSucceeded
    then have "ob_EventName e = ''payment.succeeded''" using ev by (simp add: verdict_name_def)
    then show ?thesis
      using PaymentSucceeded_confirms [OF s(1,2) event s(3-7)] gid PaymentSucceeded id
        find_updated_order [OF s(3), of "confirmed_row (clock E) row"]
      by (simp add: Dispatch_cases confirmed_row_def)
  next
    case PaymentFailed
    then have "ob_EventName e = ''payment.failed''" using ev by (simp add: verdict_name_def)
    then show ?thesis
      using PaymentFailed_cancels [OF s(1,2) event s(3-6)] gid PaymentFailed id
        find_updated_order [OF s(3), of "cancelled_row (clock E) row"]
      by (simp add: Dispatch_cases cancelled_row_def)
  qed
qed

subsection \<open>From a checkout to its payment\<close>

definition payment_request_of :: "'d CreatePaymentRequest \<Rightarrow> 'd PaymentRequest" where
  "payment_request_of req = \<lparr> prq_SubjectType = ''order'', prq_SubjectID = cpr_OrderID req,
     prq_RestaurantID = cpr_RestaurantID req, prq_CustomerID = cpr_CustomerID req, prq_Amount = cpr_Amount req,
     prq_Currency = cpr_Currency req, prq_RedirectURL = cpr_RedirectURL req \<rparr>"

definition wire_request :: "'d lib \<Rightarrow> 'd CreatePaymentRequest \<Rightarrow> pb_CreatePaymentRequest" where
  "wire_request L req = \<lparr> pb_SubjectType = ''order'', pb_SubjectId = uuidString L (cpr_OrderID req),
        pb_RestaurantId = uuidString L (cpr_RestaurantID req), pb_CustomerId = uuidString L (cpr_CustomerID req),
        pb_Amount = StringFixed2 L (cpr_Amount req), pb_Currency = cpr_Currency req,
        pb_RedirectUrl = cpr_RedirectURL req \<rparr>"

lemma Server_CreatePayment_wire:
  assumes "uuid_codec L" "NewFromString L (StringFixed2 L (cpr_Amount req)) = Some (cpr_Amount req)"
  shows "Server_CreatePayment L E G base (wire_request L req) s =
    (case CreatePayment_Execute E G base (payment_request_of req) s of
       (Inl _, s') \<Rightarrow> (Inl Internal, s')
     | (Inr resp, s') \<Rightarrow> (Inr \<lparr> pb_PaymentId = uuidString L (prs_PaymentID resp),
         pb_CheckoutUrl = prs_CheckoutURL resp, pb_Status = prs_Status resp \<rparr>, s'))"
  using assms by (simp add: Server_CreatePayment_def wire_request_def payment_request_of_def)

text \<open>
  What the checkout asks for is what payment-service stores. When order-service's client, behind the
  circuit breaker, returns a payment for a request, payment-service holds exactly one payment for that order: the
  one whose identifier was returned. If it had none before, its amount, currency, restaurant and customer are
  those of the request, it is pending and it has its gateway payment; and asking for its status with the returned
  identifier answers \<open>pending\<close>. Amounts are assumed to survive their text form, as every amount with two
  decimals does.
\<close>

theorem checkout_payment_stored:
  assumes codec: "uuid_codec L" "NewFromString L (StringFixed2 L (cpr_Amount req)) = Some (cpr_Amount req)"
    and inv: "payments_inv s"
    and client: "CreatePayment (payment_client L E G base refuses s) req = Inr result"
    and server: "Server_CreatePayment L E G base (wire_request L req) s = (answer, s')"
    and new: "find_row subject (''order'', cpr_OrderID req) (py_payments s) = None"
    and later: "\<not> py_fault E' PayFind" "\<not> refuses' StatusBreaker"
  shows "\<exists>p. filter (\<lambda>q. subject q = (''order'', cpr_OrderID req)) (py_payments s') = [p] \<and>
    cps_PaymentID result = uuidString L (pm_ID p) \<and> pm_Amount p = cpr_Amount req \<and> pm_Currency p = cpr_Currency req \<and>
    pm_RestaurantID p = cpr_RestaurantID req \<and> pm_CustomerID p = cpr_CustomerID req \<and>
    pm_Status p = PaymentPending \<and> pm_GatewayPaymentID p \<noteq> None \<and>
    GetPaymentStatus (payment_client L E' G' base' refuses' s') (cps_PaymentID result) = Inr ''pending''"
proof -
  let ?req = "payment_request_of req"
  have sub: "request_subject ?req = (''order'', cpr_OrderID req)" by (simp add: request_subject_def payment_request_of_def)
  obtain resp where run: "CreatePayment_Execute E G base ?req s = (Inr resp, s')" and id: "cps_PaymentID result = uuidString L (prs_PaymentID resp)"
    using client server unfolding Server_CreatePayment_wire [OF codec]
    by (auto simp: payment_client_def CircuitBreakerProvider_def breaker_run_def Client_CreatePayment_def
        Server_CreatePayment_wire [OF codec] simp flip: wire_request_def split: if_splits sum.splits prod.splits)
  obtain i where i: "find_row pm_ID i (py_payments s) = None" "payment_row_ok (new_payment E i ?req)"
    and att: "callGatewayAndAttach E G base (new_payment E i ?req) ?req (add_payment (new_payment E i ?req) s) = (Inr resp, s')"
    using run new by (auto simp: CreatePayment_cases [OF inv] sub split: option.splits if_splits)
  have inv1: "payments_inv (add_payment (new_payment E i ?req) s)"
    by (rule add_new_payment_inv [OF inv i(1) _ i(2)]) (simp add: sub new)
  have mem: "new_payment E i ?req \<in> set (py_payments (add_payment (new_payment E i ?req) s))" by simp
  obtain r where s': "s' = put_payment (touched E (AttachGatewayReference (gwp_GatewayPaymentID r) (new_payment E i ?req)))
      (called (GwCreate (gateway_request base ?req)) (add_payment (new_payment E i ?req) s))"
    and pid: "gw_CreatePayment G (gateway_request base ?req) = Inr r" "prs_PaymentID resp = i"
    using att by (auto simp: callGatewayAndAttach_eq [OF inv1 mem] Let_def split: sum.splits if_splits)
  let ?p = "touched E (AttachGatewayReference (gwp_GatewayPaymentID r) (new_payment E i ?req))"
  have inv': "payments_inv s'" using CreatePayment_keeps [OF inv run] by simp
  have p: "?p \<in> set (py_payments s')" by (simp add: s' set_update_where)
  have "filter (\<lambda>q. subject q = (''order'', cpr_OrderID req)) (py_payments s') = [?p]"
    using one_payment [OF inv' p] sub by (simp add: request_subject_def)
  moreover have "GetPaymentStatus (payment_client L E' G' base' refuses' s') (cps_PaymentID result) = Inr ''pending''"
    using payment_row_found [OF inv' p] later codec(1) id pid
    by (simp add: payment_client_def CircuitBreakerProvider_def breaker_run_def Client_GetPaymentStatus_def
        Server_GetPaymentStatus_def GetPaymentStatus_Execute_def Payment_FindByID_eq [OF inv'])
  moreover have "pm_Currency ?p = cpr_Currency req" "pm_RestaurantID ?p = cpr_RestaurantID req"
      "pm_CustomerID ?p = cpr_CustomerID req" "pm_Amount ?p = cpr_Amount req"
    by (simp_all add: touched_def AttachGatewayReference_def new_payment_def NewPayment_def payment_request_of_def)
  ultimately show ?thesis using id pid by (intro exI [of _ ?p]) simp
qed

text \<open>
  C24. A paid order cannot be cancelled, even before its confirmation has arrived: as long as payment-service
  reports its payment as succeeded, order-service's cancellation fails and changes nothing, whoever asks and
  whatever else fails; the customer or owner of the order is told so (409) whenever the two services can be
  reached.
\<close>

theorem paid_order_not_cancelled:
  assumes codec: "uuid_codec L"
    and order: "orders_inv s" "find_row o_ID i (t_orders s) = Some row" "o_PaymentID row = Some (uuidString L (pm_ID p))"
    and paid: "payments_inv t" "p \<in> set (py_payments t)" "pm_Status p = PaymentSucceeded"
    and run: "Cancel_Execute E (payment_client L E' G base refuses t) i userID role s = (r, s')"
  shows "s' = s \<and> (\<exists>e. r = Inl e) \<and>
    (\<not> fault E OrderFind \<and> may_access s role userID row \<and> \<not> refuses StatusBreaker \<and> \<not> py_fault E' PayFind \<longrightarrow>
       r = Inl [App ErrConflict] \<and> HandleError [App ErrConflict] = 409)"
proof -
  let ?P = "payment_client L E' G base refuses t"
  have status: "GetPaymentStatus ?P (uuidString L (pm_ID p)) =
     (if refuses StatusBreaker \<or> py_fault E' PayFind then Inl [ErrPaymentServiceUnavailable] else Inr ''succeeded'')"
    using codec paid payment_row_found [OF paid(1,2)]
    by (simp add: payment_client_def CircuitBreakerProvider_def breaker_run_def Client_GetPaymentStatus_def
        Server_GetPaymentStatus_def GetPaymentStatus_Execute_def Payment_FindByID_eq errors_is_def)
  have check: "check_payment ?P (preload_order s row) =
     Inl (if refuses StatusBreaker \<or> py_fault E' PayFind then [ErrPaymentServiceUnavailable] else [App ErrConflict])"
    using order(3) status by (simp add: check_payment_def preload_order_def)
  have run': "Cancel_Execute E ?P i userID role s =
    (Inl (if fault E OrderFind then [] else if \<not> may_access s role userID row then [App ErrForbidden]
          else if refuses StatusBreaker \<or> py_fault E' PayFind then [ErrPaymentServiceUnavailable] else [App ErrConflict]), s)"
    using order(2) by (simp add: Cancel_Execute_def find_for_role_cases [OF order(1)] forbid_missing_def errors_is_def check)
  show ?thesis using run unfolding run' by (auto simp: HandleError_def errors_is_def)
qed

subsection \<open>Witnesses\<close>

definition paid_order :: "int Order" where
  "paid_order = sample_pending\<lparr> o_PaymentID := Some (uuidString sample_lib 5) \<rparr>"

definition paid_order_db :: "int db" where
  "paid_order_db = sample_order_db\<lparr> t_orders := [paid_order] \<rparr>"

lemma paid_order_db_inv: "orders_inv paid_order_db" "find_row o_ID 9 (t_orders paid_order_db) = Some paid_order"
  by (simp_all add: orders_inv_def paid_order_db_def paid_order_def sample_order_db_def sample_db_def sample_pending_def NewOrder_def
      order_row_inv_def item_row_inv_def items_of_def order_inv_def quantity_of_def)

lemma settled_sample_paid:
  "payments_inv settled_sample" "\<exists>p. p \<in> set (py_payments settled_sample) \<and> pm_ID p = 5 \<and> pm_Status p = PaymentSucceeded"
  using settled_db_inv [OF attached_inv, of "touched pay_env0 (AttachGatewayReference ''tr1'' (new_payment pay_env0 5 pay_request))"]
  by (simp_all add: settled_sample_def)

theorem paid_order_not_cancelled_witness:
  "Cancel_Execute sample_env (payment_client sample_lib pay_env0 (mollie mollie_down) ''b'' (\<lambda>_. False) settled_sample)
     9 6 ''customer'' paid_order_db = (Inl [App ErrConflict], paid_order_db)"
proof -
  let ?run = "Cancel_Execute sample_env (payment_client sample_lib pay_env0 (mollie mollie_down) ''b'' (\<lambda>_. False) settled_sample)
     9 6 ''customer'' paid_order_db"
  obtain p where p: "p \<in> set (py_payments settled_sample)" "pm_ID p = 5" "pm_Status p = PaymentSucceeded"
    using settled_sample_paid(2) by blast
  have "o_PaymentID paid_order = Some (uuidString sample_lib (pm_ID p))" by (simp add: paid_order_def p(2))
  note not_cancelled = paid_order_not_cancelled [OF sample_codecs(1) paid_order_db_inv this settled_sample_paid(1) p(1,3)]
  have "may_access paid_order_db ''customer'' 6 paid_order" "\<not> fault sample_env OrderFind"
    by (simp_all add: may_access_def paid_order_def sample_pending_def NewOrder_def sample_env_def)
  then show ?thesis
    using not_cancelled [of sample_env pay_env0 "mollie mollie_down" "''b''" "\<lambda>_. False" 6 "''customer''" "fst ?run" "snd ?run"]
    by (simp add: prod_eq_iff)
qed

definition checkout_request :: "int CreatePaymentRequest" where
  "checkout_request = \<lparr> cpr_OrderID = 9, cpr_RestaurantID = 2, cpr_CustomerID = 1, cpr_Amount = 30, cpr_Currency = ''EUR'',
     cpr_RedirectURL = ''r'' \<rparr>"

lemma checkout_request_run:
  "\<exists>resp. CreatePayment_Execute pay_env0 (mollie (mollie_reply ''tr1'' ''open'')) ''b'' (payment_request_of checkout_request) no_payments =
     (Inr resp, attached_db)"
proof -
  have "payment_request_of checkout_request = pay_request"
    by (simp add: payment_request_of_def checkout_request_def pay_request_def)
  then show ?thesis using create_sample by simp
qed

theorem checkout_payment_stored_witness:
  "\<exists>result p. CreatePayment (payment_client sample_lib pay_env0 (mollie (mollie_reply ''tr1'' ''open'')) ''b'' (\<lambda>_. False) no_payments)
      checkout_request = Inr result \<and> py_payments attached_db = [p] \<and> pm_Amount p = 30 \<and> cps_PaymentID result = uuidString sample_lib (pm_ID p)"
proof -
  let ?P = "payment_client sample_lib pay_env0 (mollie (mollie_reply ''tr1'' ''open'')) ''b'' (\<lambda>_. False) no_payments"
  obtain resp where run: "CreatePayment_Execute pay_env0 (mollie (mollie_reply ''tr1'' ''open'')) ''b'' (payment_request_of checkout_request) no_payments =
     (Inr resp, attached_db)" using checkout_request_run by blast
  have codec: "NewFromString sample_lib (StringFixed2 sample_lib (cpr_Amount checkout_request)) = Some (cpr_Amount checkout_request)" by simp
  note wire = Server_CreatePayment_wire [OF sample_codecs(1) codec]
  have server: "\<exists>answer. Server_CreatePayment sample_lib pay_env0 (mollie (mollie_reply ''tr1'' ''open'')) ''b'' (wire_request sample_lib checkout_request)
      no_payments = (answer, attached_db)"
    by (simp add: wire run)
  then obtain answer where server: "Server_CreatePayment sample_lib pay_env0 (mollie (mollie_reply ''tr1'' ''open'')) ''b''
      (wire_request sample_lib checkout_request) no_payments = (answer, attached_db)" by blast
  have "\<exists>result. CreatePayment ?P checkout_request = Inr result"
    by (simp add: payment_client_def CircuitBreakerProvider_def breaker_run_def Client_CreatePayment_def wire run
        flip: wire_request_def)
  then obtain result where client: "CreatePayment ?P checkout_request = Inr result" by blast
  have "find_row subject (''order'', cpr_OrderID checkout_request) (py_payments no_payments) = None" by simp
  from checkout_payment_stored [OF sample_codecs(1) codec no_payments_inv(1) client server this, of pay_env0 "\<lambda>_. False"] client
  show ?thesis by (auto simp: checkout_request_def pay_request_def)
qed

theorem verdict_reaches_order_witness:
  "\<exists>e s' row. e \<in> set (ob_rows (py_outbox sample_after)) \<and>
     Dispatch (order_dispatcher sample_lib) (ob_EventName e) sample_env (Some (ob_Payload e)) sample_order_db = (Inr (), s') \<and>
     find_row o_ID 9 (t_orders s') = Some row \<and> o_Status row = StatusConfirmed"
proof -
  obtain p where p: "py_payments sample_after = [p]" "pm_ID p = 5" "pm_SubjectType p = ''order''" "pm_SubjectID p = 9"
    using sample_after_row by blast
  obtain e where e: "e \<in> set (ob_rows (py_outbox sample_after))" "ob_AggregateID e = pm_ID p"
    using sample_after_event p(2) by auto
  have in_db: "p \<in> set (py_payments (ps_db \<lparr> ps_db = sample_after, ps_flight = [sample_paid_work], ps_creating = [] \<rparr>))"
    "e \<in> set (ob_rows (py_outbox (ps_db \<lparr> ps_db = sample_after, ps_flight = [sample_paid_work], ps_creating = [] \<rparr>)))" using p(1) e(1) by simp_all
  have faults: "no_faults sample_env" by (simp add: no_faults_def sample_env_def)
  have ok: "o_Status sample_pending = StatusPending" "order_row_ok sample_order_db sample_pending" "payment_id_free sample_order_db sample_pending"
    by (simp_all add: order_row_ok_def payment_id_free_def sample_order_db_def sample_pending_def NewOrder_def sample_defs numeric_fits_def)
  have "find_row o_ID (pm_SubjectID p) (t_orders sample_order_db) = Some sample_pending" using p(4) by simp
  moreover have "\<exists>restaurant. find_row r_ID (o_RestaurantID sample_pending) (t_restaurants sample_order_db) = Some restaurant"
    by (simp add: sample_order_db_def sample_pending_def NewOrder_def sample_defs)
  ultimately obtain restaurant where found: "find_row o_ID (pm_SubjectID p) (t_orders sample_order_db) = Some sample_pending"
    "find_row r_ID (o_RestaurantID sample_pending) (t_restaurants sample_order_db) = Some restaurant" by blast
  from verdict_reaches_order [OF sample_codecs(1) sample_overlap in_db(1) p(3) in_db(2) e(2) sample_order_db_inv faults found(1) ok found(2)] e p(4)
  show ?thesis by (auto simp: sample_verdict_def confirmed_row_def)
qed

end
