(* ===== verification/Identity.thy ===== *)
theory Identity
  imports Outbox
begin

text \<open>
  Identity-service: the users, the one-time codes that verify an email, the refresh tokens (\<open>internal/domain\<close>,
  \<open>internal/infrastructure\<close>), and the commands and the query of \<open>internal/application\<close>. PostgreSQL holds users,
  verifications and the outbox; Redis the refresh tokens and the rate limit of the codes, as keys with
  the instant at which they expire.
\<close>

datatype id_err =
    IdApp apperr
  | ErrEmailTaken
  | ErrRefreshTokenInvalid
  | ErrCodeInvalid | ErrCodeExpired | ErrCodeUsed | ErrCodeNotIssued | ErrTooManyAttempts | ErrTooManyRequests

text \<open>\<open>ErrEmailTaken\<close> is the source's \<open>user.ErrEmailAlreadyExists\<close>.\<close>

subsection \<open>Domain\<close>

datatype UserEvent =
    UserRegistered uuid string string string string time
  | RestaurantInitiated uuid uuid string string time

record User =
  us_ID :: uuid
  us_FirstName :: string
  us_LastName :: string
  us_Email :: string
  us_Password :: string
  us_Role :: string
  us_Status :: string
  us_LoggedAt :: "time option"
  us_CreatedAt :: time
  us_UpdatedAt :: "time option"
  us_events :: "UserEvent list"

definition MarkRegistered :: "time \<Rightarrow> User \<Rightarrow> User" where
  "MarkRegistered now u = u\<lparr> us_events := us_events u @
     [UserRegistered (us_ID u) (us_Email u) (us_FirstName u) (us_LastName u) (us_Role u) now] \<rparr>"

definition MarkRestaurantInitiated :: "time \<Rightarrow> uuid \<Rightarrow> string \<Rightarrow> string \<Rightarrow> User \<Rightarrow> User" where
  "MarkRestaurantInitiated now restaurantID businessName vatNumber u = u\<lparr> us_events := us_events u @
     [RestaurantInitiated restaurantID (us_ID u) businessName vatNumber now] \<rparr>"

definition User_PullEvents :: "User \<Rightarrow> UserEvent list \<times> User" where
  "User_PullEvents u = (us_events u, u\<lparr> us_events := [] \<rparr>)"

datatype AuthEvent = EmailVerificationCreated string string time

record EmailVerification =
  ev_ID :: uuid
  ev_Email :: string
  ev_Code :: string
  ev_IsUsed :: bool
  ev_AttemptCount :: int16
  ev_ExpiresAt :: time
  ev_CreatedAt :: time
  ev_events :: "AuthEvent list"

definition MarkCreated :: "time \<Rightarrow> EmailVerification \<Rightarrow> EmailVerification" where
  "MarkCreated now v = v\<lparr> ev_events := ev_events v @ [EmailVerificationCreated (ev_Email v) (ev_Code v) now] \<rparr>"

definition Verification_PullEvents :: "EmailVerification \<Rightarrow> AuthEvent list \<times> EmailVerification" where
  "Verification_PullEvents v = (ev_events v, v\<lparr> ev_events := [] \<rparr>)"

record UserClaims =
  uc_UserID :: string
  uc_Role :: string

subsection \<open>The stores\<close>

record id_db =
  id_users :: "User list"
  id_verifications :: "EmailVerification list"
  id_outbox :: outbox_table
  id_redis_tokens :: "string \<rightharpoonup> json \<times> time"
  id_redis_otp :: "string \<rightharpoonup> time"

datatype id_site =
    IdUserFind | IdUserExists | IdUserCreate | IdUserUpdate
  | IdVerFind | IdVerCreate | IdVerUpdate | IdVerIncrement
  | IdRedisAllow | IdRedisSave | IdRedisFind | IdRedisDelete
  | IdOutboxCreate nat | IdCommit

text \<open>
  What one execution gets from outside: which calls fail, new identifiers, the clock, the bytes of the random
  source, a code of the generator and a salt for bcrypt.
\<close>

record id_env =
  ie_fault :: "id_site \<Rightarrow> bool"
  ie_newV7 :: "nat \<Rightarrow> uuid option"
  ie_clock :: time
  ie_trace :: string
  ie_code :: "string option"
  ie_random :: "8 word list option"
  ie_salt :: nat

text \<open>
  The packages bcrypt (salt and password to a hash or an error, comparison), crypto/sha256 and golang-jwt (claims
  with issue and expiry instants to a token or an error, and back), and the codec of identifiers.
\<close>

record jwtClaims =
  jw_UserID :: string
  jw_Role :: string
  jw_IssuedAt :: time
  jw_NotBefore :: time
  jw_ExpiresAt :: time

record id_lib =
  il_bcrypt :: "nat \<Rightarrow> string \<Rightarrow> string option"
  il_bcryptMatches :: "string \<Rightarrow> string \<Rightarrow> bool"
  il_sha256 :: "string \<Rightarrow> 8 word list"
  il_jwtSign :: "jwtClaims \<Rightarrow> string option"
  il_jwtParse :: "time \<Rightarrow> string \<Rightarrow> jwtClaims option"
  il_dev :: bool

type_synonym 'a id_op = "(id_db, id_err, 'a) op"

subsection \<open>Repositories\<close>

definition user_row_ok :: "User \<Rightarrow> bool" where
  "user_row_ok u \<longleftrightarrow> fits 255 (Some (us_FirstName u)) \<and> fits 255 (Some (us_LastName u)) \<and>
     fits 255 (Some (us_Email u)) \<and> fits 255 (Some (us_Password u)) \<and>
     us_Role u \<in> {''customer'', ''owner'', ''admin''} \<and> us_Status u \<in> {''active'', ''inactive'', ''suspended''}"

definition stored_user :: "User \<Rightarrow> User" where
  "stored_user u = u\<lparr> us_events := [] \<rparr>"

definition FindByEmail :: "id_env \<Rightarrow> string \<Rightarrow> id_db \<Rightarrow> (id_err, User option) result" where
  "FindByEmail E email s = io (ie_fault E) IdUserFind
     (Inr (List.find (\<lambda>u. us_Email u = email) (sort_key us_ID (id_users s))))"

definition User_FindByID :: "id_env \<Rightarrow> uuid \<Rightarrow> id_db \<Rightarrow> (id_err, User option) result" where
  "User_FindByID E ident s = io (ie_fault E) IdUserFind (Inr (find_row us_ID ident (id_users s)))"

definition EmailExists :: "id_env \<Rightarrow> string \<Rightarrow> id_db \<Rightarrow> (id_err, bool) result" where
  "EmailExists E email s = io (ie_fault E) IdUserExists
     (Inr (0 < length (filter (\<lambda>u. us_Email u = email) (id_users s))))"

text \<open>Any unique violation, of the key as well, is reported as a taken email.\<close>

definition User_Create :: "id_env \<Rightarrow> User \<Rightarrow> User id_op" where
  "User_Create E u0 s =
     (let u = u0\<lparr> us_CreatedAt := (if us_CreatedAt u0 = zero_time then ie_clock E else us_CreatedAt u0) \<rparr> in
      if ie_fault E IdUserCreate \<or> \<not> user_row_ok u then (Inl [], s)
      else if find_row us_ID (us_ID u) (id_users s) \<noteq> None \<or> (\<exists>x \<in> set (id_users s). us_Email x = us_Email u)
      then (Inl [ErrEmailTaken], s)
      else (Inr u, s\<lparr> id_users := id_users s @ [stored_user u] \<rparr>))"

text \<open>\<open>Save\<close>; the other rows with the email are refused by the unique index.\<close>

definition User_Update :: "id_env \<Rightarrow> User \<Rightarrow> unit id_op" where
  "User_Update E u0 s =
     (let u = u0\<lparr> us_UpdatedAt := Some (ie_clock E) \<rparr> in
      if ie_fault E IdUserUpdate \<or> \<not> user_row_ok u \<or>
         (\<exists>x \<in> set (id_users s). us_ID x \<noteq> us_ID u \<and> us_Email x = us_Email u)
      then (Inl [], s)
      else (Inr (), s\<lparr> id_users := save_row us_ID (stored_user u) (id_users s) \<rparr>))"

text \<open>The column \<open>code\<close> is CHAR(6): a shorter text is stored with blanks.\<close>

definition char6 :: "string \<Rightarrow> string" where
  "char6 s = s @ replicate (6 - length s) (CHR '' '')"

definition verification_row_ok :: "EmailVerification \<Rightarrow> bool" where
  "verification_row_ok v \<longleftrightarrow> fits 255 (Some (ev_Email v)) \<and> fits 6 (Some (ev_Code v))"

definition stored_verification :: "EmailVerification \<Rightarrow> EmailVerification" where
  "stored_verification v = v\<lparr> ev_Code := char6 (ev_Code v), ev_events := [] \<rparr>"

definition Ver_FindByEmail :: "id_env \<Rightarrow> string \<Rightarrow> id_db \<Rightarrow> (id_err, EmailVerification option) result" where
  "Ver_FindByEmail E email s = io (ie_fault E) IdVerFind
     (Inr (List.find (\<lambda>v. ev_Email v = email) (sort_key ev_ID (id_verifications s))))"

definition Ver_Create :: "id_env \<Rightarrow> EmailVerification \<Rightarrow> EmailVerification id_op" where
  "Ver_Create E v0 s =
     (let v = v0\<lparr> ev_CreatedAt := (if ev_CreatedAt v0 = zero_time then ie_clock E else ev_CreatedAt v0) \<rparr> in
      if ie_fault E IdVerCreate \<or> \<not> verification_row_ok v \<or> find_row ev_ID (ev_ID v) (id_verifications s) \<noteq> None
      then (Inl [], s)
      else (Inr v, s\<lparr> id_verifications := id_verifications s @ [stored_verification v] \<rparr>))"

text \<open>\<open>Updates\<close> writes all columns of the row with the key, if there is one.\<close>

definition Ver_Updates :: "id_env \<Rightarrow> EmailVerification \<Rightarrow> unit id_op" where
  "Ver_Updates E v s =
     (if ie_fault E IdVerUpdate \<or> (find_row ev_ID (ev_ID v) (id_verifications s) \<noteq> None \<and> \<not> verification_row_ok v)
      then (Inl [], s)
      else (Inr (), s\<lparr> id_verifications :=
        update_where (\<lambda>x. ev_ID x = ev_ID v) (\<lambda>_. stored_verification v) (id_verifications s) \<rparr>))"

text \<open>A SMALLINT that would overflow is an error of the statement.\<close>

definition IncrementAttempts :: "id_env \<Rightarrow> uuid \<Rightarrow> unit id_op" where
  "IncrementAttempts E ident s =
     (if ie_fault E IdVerIncrement \<or>
         (\<exists>v \<in> set (id_verifications s). ev_ID v = ident \<and> sint (ev_AttemptCount v) = 32767)
      then (Inl [], s)
      else (Inr (), s\<lparr> id_verifications := update_where (\<lambda>v. ev_ID v = ident)
        (\<lambda>v. v\<lparr> ev_AttemptCount := ev_AttemptCount v + 1 \<rparr>) (id_verifications s) \<rparr>))"

definition id_Outbox_Create :: "id_env \<Rightarrow> nat \<Rightarrow> OutboxEvent \<Rightarrow> unit id_op" where
  "id_Outbox_Create E n e s =
     (if ie_fault E (IdOutboxCreate n) then (Inl [], s)
      else (Inr (), s\<lparr> id_outbox := outbox_Create (ie_trace E) e (id_outbox s) \<rparr>))"

subsection \<open>Redis\<close>

definition redis_get :: "time \<Rightarrow> (string \<rightharpoonup> 'v \<times> time) \<Rightarrow> string \<Rightarrow> 'v option" where
  "redis_get now m key = (case m key of None \<Rightarrow> None | Some (v, expires) \<Rightarrow> if now < expires then Some v else None)"

definition otp_cooldown :: time where
  "otp_cooldown = 60 * second"

text \<open>\<open>SET key 1 NX EX ttl\<close>: the key is set unless it is there and has not expired.\<close>

definition Allow :: "id_env \<Rightarrow> string \<Rightarrow> bool id_op" where
  "Allow E email s =
     (let key = ''otp_request:'' @ email in
      if ie_fault E IdRedisAllow then (Inl [], s)
      else (case id_redis_otp s key of
         Some expires \<Rightarrow>
           if ie_clock E < expires then (Inr False, s)
           else (Inr True, s\<lparr> id_redis_otp := (id_redis_otp s)(key \<mapsto> ie_clock E + otp_cooldown) \<rparr>)
       | None \<Rightarrow> (Inr True, s\<lparr> id_redis_otp := (id_redis_otp s)(key \<mapsto> ie_clock E + otp_cooldown) \<rparr>)))"

definition marshal_claims :: "UserClaims \<Rightarrow> json" where
  "marshal_claims c = JObj [(''user_id'', JStr (uc_UserID c)), (''role'', JStr (uc_Role c))]"

definition unmarshal_claims :: "json \<Rightarrow> UserClaims option" where
  "unmarshal_claims j =
     (if \<not> is_struct j then None
      else case (dec_str (member j ''user_id''), dec_str (member j ''role'')) of
        (Some userID, Some role) \<Rightarrow> Some \<lparr> uc_UserID = userID, uc_Role = role \<rparr>
      | _ \<Rightarrow> None)"

definition Token_Save :: "id_env \<Rightarrow> string \<Rightarrow> UserClaims \<Rightarrow> int \<Rightarrow> unit id_op" where
  "Token_Save E hashedToken claims ttlSeconds s =
     (if ie_fault E IdRedisSave then (Inl [], s)
      else (Inr (), s\<lparr> id_redis_tokens := (id_redis_tokens s)(''refresh:'' @ hashedToken \<mapsto>
              (marshal_claims claims, ie_clock E + ttlSeconds * second)) \<rparr>))"

definition Token_Find :: "id_env \<Rightarrow> string \<Rightarrow> id_db \<Rightarrow> (id_err, UserClaims) result" where
  "Token_Find E hashedToken s = io (ie_fault E) IdRedisFind
     (case redis_get (ie_clock E) (id_redis_tokens s) (''refresh:'' @ hashedToken) of
        None \<Rightarrow> Inl [ErrRefreshTokenInvalid]
      | Some j \<Rightarrow> (case unmarshal_claims j of None \<Rightarrow> Inl [] | Some c \<Rightarrow> Inr c))"

definition Token_Delete :: "id_env \<Rightarrow> string \<Rightarrow> unit id_op" where
  "Token_Delete E hashedToken s =
     (if ie_fault E IdRedisDelete then (Inl [], s)
      else (Inr (), s\<lparr> id_redis_tokens := (id_redis_tokens s)(''refresh:'' @ hashedToken := None) \<rparr>))"

end
