(* ===== verification/Identity_Commands.thy ===== *)
theory Identity_Commands
  imports Identity
begin

text \<open>
  The security services (\<open>internal/infrastructure/security\<close>, \<open>internal/infrastructure/auth\<close>), the commands and the
  query of identity-service (\<open>internal/application\<close>), its forward-auth middleware and its HTTP errors.
\<close>

subsection \<open>Codes and tokens\<close>

fun digits :: "nat \<Rightarrow> nat \<Rightarrow> string" where
  "digits 0 n = ''''"
| "digits (Suc k) n = digits k (n div 10) @ [char_of (48 + n mod 10)]"

text \<open>
  \<open>generateSecureCode\<close> on the results of its reads of the random source: four bytes, or an error. With no
  result left the loop is still running. \<open>int\<close> has 64 bits.
\<close>

definition draw_value :: "8 word \<times> 8 word \<times> 8 word \<times> 8 word \<Rightarrow> 64 word" where
  "draw_value d = (case d of (b0, b1, b2, b3) \<Rightarrow>
     or (or (or (push_bit 24 (ucast b0)) (push_bit 16 (ucast b1))) (push_bit 8 (ucast b2))) (ucast b3))"

definition accepted :: "64 word \<Rightarrow> bool" where
  "accepted n \<longleftrightarrow> 0 \<le> sint n \<and> sint n < 2 ^ 32 - 2 ^ 32 mod 1000000"

fun generateSecureCode :: "(8 word \<times> 8 word \<times> 8 word \<times> 8 word) option list \<Rightarrow> (id_err, string) result option" where
  "generateSecureCode [] = None"
| "generateSecureCode (None # draws) = Some (Inl [])"
| "generateSecureCode (Some d # draws) =
     (if accepted (draw_value d) then Some (Inr (digits 6 (nat (sint (draw_value d) mod 1000000))))
      else generateSecureCode draws)"

definition hex_digit :: "nat \<Rightarrow> char" where
  "hex_digit n = char_of (if n < 10 then 48 + n else 87 + n)"

definition EncodeHex :: "8 word list \<Rightarrow> string" where
  "EncodeHex bs = concat (List.map (\<lambda>b. [hex_digit (unat b div 16), hex_digit (unat b mod 16)]) bs)"

definition RefreshToken_Generate :: "id_env \<Rightarrow> (id_err, string) result" where
  "RefreshToken_Generate E = (case ie_random E of None \<Rightarrow> Inl [] | Some bs \<Rightarrow> Inr (EncodeHex bs))"

definition RefreshToken_Hash :: "id_lib \<Rightarrow> string \<Rightarrow> string" where
  "RefreshToken_Hash I tok = EncodeHex (il_sha256 I tok)"

definition access_lifetime :: "id_lib \<Rightarrow> time" where
  "access_lifetime I = (if il_dev I then 24 * 3600 * second else 30 * 60 * second)"

text \<open>A NumericDate has whole seconds.\<close>

definition NewNumericDate :: "time \<Rightarrow> time" where
  "NewNumericDate t = (t div second) * second"

definition JWT_Generate :: "id_lib \<Rightarrow> id_env \<Rightarrow> string \<Rightarrow> string \<Rightarrow> (id_err, string) result" where
  "JWT_Generate I E userID role =
     (let now = ie_clock E in
      case il_jwtSign I \<lparr> jw_UserID = userID, jw_Role = role, jw_IssuedAt = NewNumericDate now,
             jw_NotBefore = NewNumericDate now, jw_ExpiresAt = NewNumericDate (now + access_lifetime I) \<rparr> of
        None \<Rightarrow> Inl [] | Some t \<Rightarrow> Inr t)"

definition JWT_Parse :: "'d lib \<Rightarrow> id_lib \<Rightarrow> time \<Rightarrow> string \<Rightarrow> UserClaims option" where
  "JWT_Parse L I now tok = (case il_jwtParse I now tok of
     None \<Rightarrow> None
   | Some c \<Rightarrow> (case uuidParse L (jw_UserID c) of
        None \<Rightarrow> None
      | Some _ \<Rightarrow> Some \<lparr> uc_UserID = jw_UserID c, uc_Role = jw_Role c \<rparr>))"

definition Hash :: "id_lib \<Rightarrow> id_env \<Rightarrow> string \<Rightarrow> (id_err, string) result" where
  "Hash I E password = (case il_bcrypt I (ie_salt E) password of None \<Rightarrow> Inl [] | Some h \<Rightarrow> Inr h)"

subsection \<open>Verification of a code\<close>

definition maxVerificationAttempts :: int where
  "maxVerificationAttempts = 3"

text \<open>In two halves, before and after the row has been read, so that other requests can come in between.\<close>

definition Verify_prepare :: "id_env \<Rightarrow> string \<Rightarrow> id_db \<Rightarrow> (id_err, EmailVerification) result" where
  "Verify_prepare E email s = (case Ver_FindByEmail E email s of
     Inl _ \<Rightarrow> Inl [ErrCodeInvalid]
   | Inr None \<Rightarrow> Inl [ErrCodeNotIssued]
   | Inr (Some v) \<Rightarrow>
       if ev_IsUsed v then Inl [ErrCodeUsed]
       else if maxVerificationAttempts \<le> sint (ev_AttemptCount v) then Inl [ErrTooManyAttempts]
       else Inr v)"

definition Verify_commit :: "id_env \<Rightarrow> string \<Rightarrow> EmailVerification \<Rightarrow> unit id_op" where
  "Verify_commit E code v =
     (if ev_Code v \<noteq> code then bind (IncrementAttempts E (ev_ID v)) (\<lambda>_. fail [ErrCodeInvalid])
      else if ev_ExpiresAt v < ie_clock E then fail [ErrCodeExpired]
      else Ver_Updates E (v\<lparr> ev_Code := ''...'', ev_IsUsed := True \<rparr>))"

definition Verify :: "id_env \<Rightarrow> string \<Rightarrow> string \<Rightarrow> unit id_op" where
  "Verify E email code = bind (query (Verify_prepare E email)) (Verify_commit E code)"

subsection \<open>Events\<close>

definition marshal_UserRegistered :: "'d lib \<Rightarrow> uuid \<Rightarrow> string \<Rightarrow> string \<Rightarrow> string \<Rightarrow> string \<Rightarrow> time \<Rightarrow> json" where
  "marshal_UserRegistered L userID email firstName lastName role occurredAt = JObj
   [(''user_id'', enc_uuid L userID), (''email'', JStr email), (''first_name'', JStr firstName),
    (''last_name'', JStr lastName), (''role'', JStr role), (''event_name'', JStr ''user.registered''),
    (''occurred_at'', enc_time L occurredAt)]"

definition marshal_RestaurantInitiated :: "'d lib \<Rightarrow> uuid \<Rightarrow> uuid \<Rightarrow> string \<Rightarrow> string \<Rightarrow> time \<Rightarrow> json" where
  "marshal_RestaurantInitiated L restaurantID ownerID businessName vatNumber occurredAt = JObj
   [(''restaurant_id'', enc_uuid L restaurantID), (''owner_id'', enc_uuid L ownerID),
    (''business_name'', JStr businessName), (''vat_number'', JStr vatNumber),
    (''event_name'', JStr ''restaurant.initiated''), (''occurred_at'', enc_time L occurredAt)]"

definition marshal_EmailVerificationCreated :: "'d lib \<Rightarrow> string \<Rightarrow> string \<Rightarrow> time \<Rightarrow> json" where
  "marshal_EmailVerificationCreated L email code occurredAt = JObj
   [(''email'', JStr email), (''code'', JStr code), (''event_name'', JStr ''email.verification_created''),
    (''occurred_at'', enc_time L occurredAt)]"

fun user_payload :: "'d lib \<Rightarrow> UserEvent \<Rightarrow> uuid \<times> string \<times> json" where
  "user_payload L (UserRegistered i email firstName lastName role t) =
     (i, ''user.registered'', marshal_UserRegistered L i email firstName lastName role t)"
| "user_payload L (RestaurantInitiated r own name vat t) =
     (r, ''restaurant.initiated'', marshal_RestaurantInitiated L r own name vat t)"

fun user_dispatch :: "'d lib \<Rightarrow> id_env \<Rightarrow> nat \<Rightarrow> UserEvent list \<Rightarrow> unit id_op" where
  "user_dispatch L E n [] = ret ()"
| "user_dispatch L E n (e # es) = (case user_payload L e of (aggregate, name, body) \<Rightarrow>
     bind (id_Outbox_Create E n (NewOutboxEvent (ie_clock E) aggregate name body)) (\<lambda>_.
     user_dispatch L E (Suc n) es))"

definition User_DispatchEventsTx :: "'d lib \<Rightarrow> id_env \<Rightarrow> User \<Rightarrow> User id_op" where
  "User_DispatchEventsTx L E u = (case User_PullEvents u of (es, u') \<Rightarrow>
     bind (user_dispatch L E 0 es) (\<lambda>_. ret u'))"

fun auth_payload :: "'d lib \<Rightarrow> AuthEvent \<Rightarrow> string \<times> json" where
  "auth_payload L (EmailVerificationCreated email code t) =
     (''email.verification_created'', marshal_EmailVerificationCreated L email code t)"

fun auth_dispatch :: "'d lib \<Rightarrow> id_env \<Rightarrow> uuid \<Rightarrow> nat \<Rightarrow> AuthEvent list \<Rightarrow> unit id_op" where
  "auth_dispatch L E aggregate n [] = ret ()"
| "auth_dispatch L E aggregate n (e # es) = (case auth_payload L e of (name, body) \<Rightarrow>
     bind (id_Outbox_Create E n (NewOutboxEvent (ie_clock E) aggregate name body)) (\<lambda>_.
     auth_dispatch L E aggregate (Suc n) es))"

definition Auth_DispatchEventsTx :: "'d lib \<Rightarrow> id_env \<Rightarrow> EmailVerification \<Rightarrow> unit id_op" where
  "Auth_DispatchEventsTx L E v = (case Verification_PullEvents v of (es, v') \<Rightarrow>
     auth_dispatch L E (ev_ID v') 0 es)"

subsection \<open>Registration\<close>

record RegisterCustomerRequest =
  rg_FirstName :: string
  rg_LastName :: string
  rg_Email :: string
  rg_Password :: string
  rg_Code :: string

record RegisterOwnerRequest = RegisterCustomerRequest +
  rg_BusinessName :: string
  rg_VATNumber :: string

record UserResponse =
  ur_ID :: uuid
  ur_First :: string
  ur_Last :: string
  ur_Email :: string
  ur_Role :: string
  ur_Status :: string
  ur_LastLogin :: "time option"
  ur_MemberSince :: time
  ur_LastUpdate :: "time option"

definition MapToResponse :: "User \<Rightarrow> UserResponse" where
  "MapToResponse u = \<lparr> ur_ID = us_ID u, ur_First = us_FirstName u, ur_Last = us_LastName u, ur_Email = us_Email u,
     ur_Role = us_Role u, ur_Status = us_Status u, ur_LastLogin = us_LoggedAt u, ur_MemberSince = us_CreatedAt u,
     ur_LastUpdate = us_UpdatedAt u \<rparr>"

definition new_user :: "uuid \<Rightarrow> string \<Rightarrow> string \<Rightarrow> string \<Rightarrow> string \<Rightarrow> string \<Rightarrow> User" where
  "new_user ident firstName lastName email password role =
   \<lparr> us_ID = ident, us_FirstName = TrimSpace firstName, us_LastName = TrimSpace lastName, us_Email = email,
     us_Password = password, us_Role = role, us_Status = ''active'', us_LoggedAt = None,
     us_CreatedAt = zero_time, us_UpdatedAt = None, us_events = [] \<rparr>"

definition create_user :: "'d lib \<Rightarrow> id_env \<Rightarrow> User \<Rightarrow> UserResponse id_op" where
  "create_user L E u =
     bind (transaction (ie_fault E) IdCommit
       (bind (User_Create E u) (\<lambda>u'. User_DispatchEventsTx L E u'))) (\<lambda>u'. ret (MapToResponse u'))"

definition newV7 :: "id_env \<Rightarrow> nat \<Rightarrow> (id_err, uuid) result" where
  "newV7 E n = (case ie_newV7 E n of None \<Rightarrow> Inl [] | Some i \<Rightarrow> Inr i)"

definition RegisterCustomer_Execute ::
  "'d lib \<Rightarrow> id_lib \<Rightarrow> id_env \<Rightarrow> RegisterCustomerRequest \<Rightarrow> UserResponse id_op" where
  "RegisterCustomer_Execute L I E input =
     (let email = ToLower (rg_Email input) in
      bind (Verify E email (rg_Code input)) (\<lambda>_.
      bind (query (\<lambda>_. Hash I E (rg_Password input))) (\<lambda>hashedPassword.
      bind (query (\<lambda>_. newV7 E 0)) (\<lambda>userID.
      create_user L E (MarkRegistered (ie_clock E)
        (new_user userID (rg_FirstName input) (rg_LastName input) email hashedPassword ''customer''))))))"

definition RegisterOwner_Execute ::
  "'d lib \<Rightarrow> id_lib \<Rightarrow> id_env \<Rightarrow> RegisterOwnerRequest \<Rightarrow> UserResponse id_op" where
  "RegisterOwner_Execute L I E input =
     (let email = ToLower (rg_Email input) in
      bind (Verify E email (rg_Code input)) (\<lambda>_.
      bind (query (\<lambda>_. Hash I E (rg_Password input))) (\<lambda>hashedPassword.
      bind (query (\<lambda>_. newV7 E 0)) (\<lambda>userID.
      bind (query (\<lambda>_. newV7 E 1)) (\<lambda>restaurantID.
      create_user L E (MarkRestaurantInitiated (ie_clock E) restaurantID (rg_BusinessName input) (rg_VATNumber input)
        (MarkRegistered (ie_clock E)
          (new_user userID (rg_FirstName input) (rg_LastName input) email hashedPassword ''owner''))))))))"

definition FindByID_Execute :: "id_env \<Rightarrow> uuid \<Rightarrow> UserResponse id_op" where
  "FindByID_Execute E userID =
     bind (query (User_FindByID E userID)) (\<lambda>found. case found of
       None \<Rightarrow> fail [IdApp ErrNotFound] | Some u \<Rightarrow> ret (MapToResponse u))"

subsection \<open>One-time codes\<close>

definition otp_expiry :: time where
  "otp_expiry = 15 * 60 * second"

text \<open>The transaction: a new row, or the email's row with the new code.\<close>

definition issue_code :: "'d lib \<Rightarrow> id_env \<Rightarrow> EmailVerification \<Rightarrow> EmailVerification option \<Rightarrow> unit id_op" where
  "issue_code L E verification existing = (case existing of
     None \<Rightarrow> bind (Ver_Create E verification) (\<lambda>v. Auth_DispatchEventsTx L E (MarkCreated (ie_clock E) v))
   | Some old \<Rightarrow>
       let v = old\<lparr> ev_Code := ev_Code verification, ev_ExpiresAt := ev_ExpiresAt verification,
                    ev_AttemptCount := 0, ev_IsUsed := False \<rparr> in
       bind (Ver_Updates E v) (\<lambda>_. Auth_DispatchEventsTx L E (MarkCreated (ie_clock E) v)))"

definition RequestEmailOTP_Execute :: "'d lib \<Rightarrow> id_env \<Rightarrow> string \<Rightarrow> unit id_op" where
  "RequestEmailOTP_Execute L E emailInput =
     (let email = ToLower emailInput in
      bind (query (EmailExists E email)) (\<lambda>exists.
      bind (ensure (\<not> exists) [ErrEmailTaken]) (\<lambda>_.
      bind (Allow E email) (\<lambda>allowed.
      bind (ensure allowed [ErrTooManyRequests]) (\<lambda>_.
      bind (query (\<lambda>_. case ie_code E of None \<Rightarrow> Inl [] | Some c \<Rightarrow> Inr c)) (\<lambda>code.
      bind (query (\<lambda>_. newV7 E 0)) (\<lambda>verificationID.
      bind (query (Ver_FindByEmail E email)) (\<lambda>existing.
      transaction (ie_fault E) IdCommit (issue_code L E
        \<lparr> ev_ID = verificationID, ev_Email = email, ev_Code = code, ev_IsUsed = False, ev_AttemptCount = 0,
          ev_ExpiresAt = ie_clock E + otp_expiry, ev_CreatedAt = zero_time, ev_events = [] \<rparr> existing)))))))))"

subsection \<open>Sessions\<close>

record TokenResponse =
  tk_AccessToken :: string
  tk_RefreshToken :: string

definition refresh_ttl :: int where
  "refresh_ttl = 7 * 24 * 3600"

text \<open>A failing update of \<open>LoggedAt\<close> is logged and otherwise ignored.\<close>

definition Login_Execute :: "'d lib \<Rightarrow> id_lib \<Rightarrow> id_env \<Rightarrow> string \<Rightarrow> string \<Rightarrow> TokenResponse id_op" where
  "Login_Execute L I E email password =
     bind (query (FindByEmail E (ToLower email))) (\<lambda>found. case found of
       None \<Rightarrow> fail [IdApp ErrUnauthorized]
     | Some u \<Rightarrow>
         if \<not> il_bcryptMatches I (us_Password u) password then fail [IdApp ErrUnauthorized]
         else
           bind (query (\<lambda>_. JWT_Generate I E (uuidString L (us_ID u)) (us_Role u))) (\<lambda>accessToken.
           bind (query (\<lambda>_. RefreshToken_Generate E)) (\<lambda>refreshToken.
           bind (Token_Save E (RefreshToken_Hash I refreshToken)
                  \<lparr> uc_UserID = uuidString L (us_ID u), uc_Role = us_Role u \<rparr> refresh_ttl) (\<lambda>_ s.
           (Inr \<lparr> tk_AccessToken = accessToken, tk_RefreshToken = refreshToken \<rparr>,
            snd (User_Update E (u\<lparr> us_LoggedAt := Some (ie_clock E) \<rparr>) s))))))"

text \<open>The old token is deleted at last, and a failure to do so is ignored.\<close>

definition RefreshToken_Execute :: "id_lib \<Rightarrow> id_env \<Rightarrow> string \<Rightarrow> TokenResponse id_op" where
  "RefreshToken_Execute I E tok =
     (let hashed = RefreshToken_Hash I tok in
      bind (query (Token_Find E hashed)) (\<lambda>claims.
      bind (query (\<lambda>_. JWT_Generate I E (uc_UserID claims) (uc_Role claims))) (\<lambda>accessToken.
      bind (query (\<lambda>_. RefreshToken_Generate E)) (\<lambda>refreshToken.
      bind (Token_Save E (RefreshToken_Hash I refreshToken) claims refresh_ttl) (\<lambda>_ s.
      (Inr \<lparr> tk_AccessToken = accessToken, tk_RefreshToken = refreshToken \<rparr>, snd (Token_Delete E hashed s)))))))"

definition Logout_Execute :: "id_lib \<Rightarrow> id_env \<Rightarrow> string \<Rightarrow> unit id_op" where
  "Logout_Execute I E tok = Token_Delete E (RefreshToken_Hash I tok)"

subsection \<open>HTTP\<close>

text \<open>
  The middleware that answers Traefik's forward-auth requests: the identity it puts into the headers, or \<open>None\<close>
  for 401.
\<close>

definition AuthMiddleware :: "'d lib \<Rightarrow> id_lib \<Rightarrow> time \<Rightarrow> string \<Rightarrow> UserClaims option" where
  "AuthMiddleware L I now header =
     (if take 7 header \<noteq> ''Bearer '' then None else JWT_Parse L I now (drop 7 header))"

definition id_HandleError :: "id_err list \<Rightarrow> nat" where
  "id_HandleError err =
     (if errors_is err (IdApp ErrUnauthorized) \<or> errors_is err ErrRefreshTokenInvalid then 401
      else if errors_is err (IdApp ErrForbidden) then 403
      else if errors_is err (IdApp ErrNotFound) then 404
      else if errors_is err ErrCodeInvalid \<or> errors_is err ErrCodeNotIssued then 400
      else if errors_is err ErrCodeExpired then 410
      else if errors_is err ErrTooManyAttempts \<or> errors_is err ErrTooManyRequests then 429
      else if errors_is err ErrCodeUsed \<or> errors_is err (IdApp ErrConflict) \<or> errors_is err ErrEmailTaken then 409
      else 500)"

end
