(* ===== verification/Identity_Inv.thy ===== *)
theory Identity_Inv
  imports Identity_Commands
begin

text \<open>
  Requests to identity-service, the states they reach, and the invariant of these states: one account per
  email, registered with a code that is used up, announced once; refresh tokens belong to accounts.
\<close>

subsection \<open>Requests and reachable states\<close>

datatype id_request =
    IqRequestOTP string
  | IqRegisterCustomer RegisterCustomerRequest
  | IqRegisterOwner RegisterOwnerRequest
  | IqFindByID uuid
  | IqLogin string string
  | IqRefresh string
  | IqLogout string

fun id_run :: "'d lib \<Rightarrow> id_lib \<Rightarrow> id_env \<Rightarrow> id_request \<Rightarrow> unit id_op" where
  "id_run L I E (IqRequestOTP email) = RequestEmailOTP_Execute L E email"
| "id_run L I E (IqRegisterCustomer input) = void (RegisterCustomer_Execute L I E input)"
| "id_run L I E (IqRegisterOwner input) = void (RegisterOwner_Execute L I E input)"
| "id_run L I E (IqFindByID userID) = void (FindByID_Execute E userID)"
| "id_run L I E (IqLogin email password) = void (Login_Execute L I E email password)"
| "id_run L I E (IqRefresh tok) = void (RefreshToken_Execute I E tok)"
| "id_run L I E (IqLogout tok) = Logout_Execute I E tok"

text \<open>What the outbox relay does to the table between requests.\<close>

datatype relay_move =
    RelayFetch time "int list" nat
  | RelayProcessed time int
  | RelayRelease time int string int
  | RelayFailed time int string

fun relay_run :: "relay_move \<Rightarrow> outbox_table \<Rightarrow> outbox_table" where
  "relay_run (RelayFetch now locked limit) t = snd (FetchAndMarkProcessing now locked limit t)"
| "relay_run (RelayProcessed now i) t = MarkProcessed now i t"
| "relay_run (RelayRelease now i msg d) t = ReleaseForRetry now i msg d t"
| "relay_run (RelayFailed now i msg) t = MarkFailed now i msg t"

text \<open>
  The states that requests reach one after another: each is finished before the next begins, with or without success; the
  relay's statements come in between. Overlapping requests reach more: a request for a code that has looked for the account
  before it was registered resets the row of the code afterwards, so that it is no longer marked as used, and
  \<open>Identity_Props.guess_cap_race\<close> is about overlapping guesses.
\<close>

inductive id_reach :: "'d lib \<Rightarrow> id_lib \<Rightarrow> id_db \<Rightarrow> bool" for L I where
  start: "id_reach L I \<lparr> id_users = [], id_verifications = [], id_outbox = \<lparr> ob_rows = [], ob_seq = 1 \<rparr>,
            id_redis_tokens = Map.empty, id_redis_otp = Map.empty \<rparr>"
| request: "id_reach L I s \<Longrightarrow> id_reach L I (snd (id_run L I E rq s))"
| relay: "id_reach L I s \<Longrightarrow> id_reach L I (s\<lparr> id_outbox := relay_run m (id_outbox s) \<rparr>)"

definition events_named :: "string \<Rightarrow> outbox_table \<Rightarrow> (uuid \<times> json) list" where
  "events_named name t =
     List.map (\<lambda>e. (ob_AggregateID e, ob_Payload e)) (filter (\<lambda>e. ob_EventName e = name) (ob_rows t))"

lemma events_named_Create [simp]:
  "events_named name (outbox_Create tr (NewOutboxEvent now a n p) t) =
    events_named name t @ (if n = name then [(a, p)] else [])"
  by (simp add: events_named_def outbox_Create_def NewOutboxEvent_def)

lemma events_named_update:
  assumes "\<And>e. ob_EventName (f e) = ob_EventName e" "\<And>e. ob_AggregateID (f e) = ob_AggregateID e"
    "\<And>e. ob_Payload (f e) = ob_Payload e"
  shows "events_named name (t\<lparr> ob_rows := update_where P f (ob_rows t) \<rparr>) = events_named name t"
proof -
  have "List.map (\<lambda>e. (ob_AggregateID e, ob_Payload e)) (filter (\<lambda>e. ob_EventName e = name) (update_where P f rows)) =
      List.map (\<lambda>e. (ob_AggregateID e, ob_Payload e)) (filter (\<lambda>e. ob_EventName e = name) rows)" for rows
    by (induction rows) (simp_all add: assms)
  then show ?thesis by (simp add: events_named_def)
qed

lemma events_named_relay [simp]: "events_named name (relay_run m t) = events_named name t"
  by (cases m) (simp_all add: FetchAndMarkProcessing_def Let_def MarkProcessed_def ReleaseForRetry_def MarkFailed_def
      events_named_update mark_processing_def)

subsection \<open>The invariant\<close>

definition users_inv :: "id_db \<Rightarrow> bool" where
  "users_inv s \<longleftrightarrow> distinct (List.map us_ID (id_users s)) \<and> distinct (List.map us_Email (id_users s)) \<and>
     (\<forall>u \<in> set (id_users s). ToLower (us_Email u) = us_Email u \<and> us_Role u \<in> {''customer'', ''owner''} \<and>
        us_Status u = ''active'' \<and> us_events u = [] \<and>
        (\<exists>v \<in> set (id_verifications s). ev_Email v = us_Email u \<and> ev_IsUsed v))"

definition verifications_inv :: "id_db \<Rightarrow> bool" where
  "verifications_inv s \<longleftrightarrow> distinct (List.map ev_ID (id_verifications s)) \<and>
     distinct (List.map ev_Email (id_verifications s)) \<and>
     (\<forall>v \<in> set (id_verifications s). 0 \<le> sint (ev_AttemptCount v) \<and> sint (ev_AttemptCount v) \<le> 3 \<and>
        ev_events v = [])"

definition announced_user :: "'d lib \<Rightarrow> User \<Rightarrow> uuid \<times> json \<Rightarrow> bool" where
  "announced_user L u e \<longleftrightarrow> (\<exists>t. e = (us_ID u,
     marshal_UserRegistered L (us_ID u) (us_Email u) (us_FirstName u) (us_LastName u) (us_Role u) t))"

definition announced_owner :: "'d lib \<Rightarrow> User \<Rightarrow> uuid \<times> json \<Rightarrow> bool" where
  "announced_owner L u e \<longleftrightarrow> (\<exists>r name vat t. e = (r, marshal_RestaurantInitiated L r (us_ID u) name vat t))"

definition announcements_inv :: "'d lib \<Rightarrow> id_db \<Rightarrow> bool" where
  "announcements_inv L s \<longleftrightarrow>
     list_all2 (announced_user L) (id_users s) (events_named ''user.registered'' (id_outbox s)) \<and>
     list_all2 (announced_owner L) (filter (\<lambda>u. us_Role u = ''owner'') (id_users s))
       (events_named ''restaurant.initiated'' (id_outbox s))"

definition user_claims :: "'d lib \<Rightarrow> User \<Rightarrow> UserClaims" where
  "user_claims L u = \<lparr> uc_UserID = uuidString L (us_ID u), uc_Role = us_Role u \<rparr>"

definition tokens_inv :: "'d lib \<Rightarrow> id_db \<Rightarrow> bool" where
  "tokens_inv L s \<longleftrightarrow> (\<forall>j t. (j, t) \<in> ran (id_redis_tokens s) \<longrightarrow>
     (\<exists>u \<in> set (id_users s). j = marshal_claims (user_claims L u)))"

definition id_inv :: "'d lib \<Rightarrow> id_db \<Rightarrow> bool" where
  "id_inv L s \<longleftrightarrow> users_inv s \<and> verifications_inv s \<and> announcements_inv L s \<and> tokens_inv L s"

subsection \<open>The steps of the requests\<close>

lemma find_verification:
  "verifications_inv s \<Longrightarrow> Ver_FindByEmail E email s =
    (if ie_fault E IdVerFind then Inl [] else Inr (find_row ev_Email email (id_verifications s)))"
  by (simp add: Ver_FindByEmail_def io_def verifications_inv_def find_row_def [symmetric] find_row_sort)

lemma find_user:
  "users_inv s \<Longrightarrow> FindByEmail E email s =
    (if ie_fault E IdUserFind then Inl [] else Inr (find_row us_Email email (id_users s)))"
  by (simp add: FindByEmail_def io_def users_inv_def find_row_def [symmetric] find_row_sort)

definition put_verification :: "EmailVerification \<Rightarrow> id_db \<Rightarrow> id_db" where
  "put_verification v s = s\<lparr> id_verifications :=
     update_where (\<lambda>x. ev_ID x = ev_ID v) (\<lambda>_. v) (id_verifications s) \<rparr>"

definition used_up :: "EmailVerification \<Rightarrow> EmailVerification" where
  "used_up v = v\<lparr> ev_Code := ''...   '', ev_IsUsed := True, ev_events := [] \<rparr>"

definition counted :: "EmailVerification \<Rightarrow> EmailVerification" where
  "counted v = v\<lparr> ev_AttemptCount := ev_AttemptCount v + 1 \<rparr>"

definition usable :: "id_env \<Rightarrow> string \<Rightarrow> EmailVerification \<Rightarrow> bool" where
  "usable E code v \<longleftrightarrow> \<not> ev_IsUsed v \<and> sint (ev_AttemptCount v) < 3 \<and> ev_Code v = code \<and> ie_clock E \<le> ev_ExpiresAt v"

lemma put_verification_simps [simp]:
  "id_users (put_verification v s) = id_users s"
  "id_outbox (put_verification v s) = id_outbox s"
  "id_redis_tokens (put_verification v s) = id_redis_tokens s"
  "id_redis_otp (put_verification v s) = id_redis_otp s"
  "ev_ID (used_up v) = ev_ID v" "ev_Email (used_up v) = ev_Email v" "ev_IsUsed (used_up v)"
  "ev_AttemptCount (used_up v) = ev_AttemptCount v" "ev_events (used_up v) = []" "ev_events (counted v) = ev_events v"
  "ev_ID (counted v) = ev_ID v" "ev_Email (counted v) = ev_Email v" "ev_IsUsed (counted v) = ev_IsUsed v"
  "ev_Code (counted v) = ev_Code v" "ev_ExpiresAt (counted v) = ev_ExpiresAt v"
  by (simp_all add: put_verification_def used_up_def counted_def)

lemma Ver_Updates_Inr:
  "Ver_Updates E v s = (Inr (), s') \<Longrightarrow> s' = put_verification (stored_verification v) s"
  by (auto simp: Ver_Updates_def put_verification_def stored_verification_def split: if_splits)

lemma stored_used [simp]: "stored_verification (v\<lparr> ev_Code := ''...'', ev_IsUsed := True \<rparr>) = used_up v"
  by (simp add: stored_verification_def used_up_def char6_def numeral_eq_Suc)

lemma prepared:
  "Verify_prepare E email s = Inr v \<Longrightarrow> v \<in> set (id_verifications s) \<and> ev_Email v = email \<and>
    \<not> ev_IsUsed v \<and> sint (ev_AttemptCount v) < 3"
  by (auto simp: Verify_prepare_def Ver_FindByEmail_def maxVerificationAttempts_def io_Inr
      split: sum.splits option.splits if_splits dest!: find_in)

lemma Verify_Inr:
  "Verify E email code s = (Inr (), s') \<Longrightarrow> \<exists>v. v \<in> set (id_verifications s) \<and> ev_Email v = email \<and>
    usable E code v \<and> s' = put_verification (used_up v) s"
  by (auto simp: Verify_def bind_Inr Verify_commit_def usable_def
      split: if_splits dest!: prepared Ver_Updates_Inr simp del: bind_simps)

lemma update_where_key:
  "distinct (List.map key tbl) \<Longrightarrow> r \<in> set tbl \<Longrightarrow>
    update_where (\<lambda>x. key x = key r) f tbl = update_where (\<lambda>x. key x = key r) (\<lambda>_. f r) tbl"
  by (auto simp: update_where_def distinct_map dest: inj_onD)

lemma IncrementAttempts_cases:
  assumes "IncrementAttempts E (ev_ID v) s = (r, s')" "v \<in> set (id_verifications s)" "verifications_inv s"
  shows "s' = s \<and> r = Inl [] \<or> s' = put_verification (counted v) s \<and> r = Inr ()"
  using assms update_where_key [of ev_ID "id_verifications s" v counted]
  by (auto simp: IncrementAttempts_def put_verification_def counted_def [abs_def] verifications_inv_def split: if_splits)

lemma Verify_Inl:
  assumes "Verify E email code s = (Inl e, s')" "verifications_inv s"
  shows "s' = s \<or> (\<exists>v. v \<in> set (id_verifications s) \<and> ev_Email v = email \<and> \<not> ev_IsUsed v \<and>
    sint (ev_AttemptCount v) < 3 \<and> s' = put_verification (counted v) s)"
proof (cases "Verify_prepare E email s")
  case (Inl x)
  then show ?thesis using assms(1) by (auto simp: Verify_def)
next
  case (Inr v)
  note v = prepared [OF Inr]
  have "Verify_commit E code v s = (Inl e, s')"
    using assms(1) Inr by (simp add: Verify_def)
  then show ?thesis
    using v IncrementAttempts_cases [OF _ _ assms(2), of E v]
    by (auto simp: Verify_commit_def bind_Inl Ver_Updates_def split: if_splits simp del: bind_simps)
qed

text \<open>Creating a user with its events.\<close>

definition dated :: "id_env \<Rightarrow> User \<Rightarrow> User" where
  "dated E u = u\<lparr> us_CreatedAt := (if us_CreatedAt u = zero_time then ie_clock E else us_CreatedAt u), us_events := [] \<rparr>"

definition user_rows :: "'d lib \<Rightarrow> id_env \<Rightarrow> UserEvent list \<Rightarrow> OutboxEvent list" where
  "user_rows L E es = List.map (\<lambda>e. case user_payload L e of (a, name, body) \<Rightarrow>
     NewOutboxEvent (ie_clock E) a name body) es"

definition with_user :: "'d lib \<Rightarrow> id_env \<Rightarrow> User \<Rightarrow> id_db \<Rightarrow> id_db" where
  "with_user L E u s = s\<lparr> id_users := id_users s @ [dated E u],
     id_outbox := fold (outbox_Create (ie_trace E)) (user_rows L E (us_events u)) (id_outbox s) \<rparr>"

lemma user_dispatch_Inr:
  "user_dispatch L E n es s = (Inr (), s') \<Longrightarrow>
    s' = s\<lparr> id_outbox := fold (outbox_Create (ie_trace E)) (user_rows L E es) (id_outbox s) \<rparr>"
proof (induction es arbitrary: n s)
  case Nil
  then show ?case by (simp add: user_rows_def)
next
  case (Cons e es)
  obtain a name body where "user_payload L e = (a, name, body)" by (cases "user_payload L e")
  then show ?case
    using Cons by (auto simp: user_rows_def bind_Inr id_Outbox_Create_def split: if_splits simp del: bind_simps dest!: Cons.IH)
qed

lemma create_user_Inr:
  assumes "create_user L E u s = (Inr resp, s')"
  shows "s' = with_user L E u s \<and> resp = MapToResponse (dated E u) \<and> user_row_ok u \<and>
    us_ID u \<notin> us_ID ` set (id_users s) \<and> us_Email u \<notin> us_Email ` set (id_users s)"
  using assms
  by (auto simp: create_user_def bind_Inr User_Create_def Let_def User_DispatchEventsTx_def User_PullEvents_def
      with_user_def dated_def stored_user_def user_row_ok_def find_row_None_image
      split: if_splits simp del: bind_simps dest!: user_dispatch_Inr)

lemma create_user_Inl: "create_user L E u s = (Inl e, s') \<Longrightarrow> s' = s"
  by (auto simp: create_user_def bind_Inl simp del: bind_simps dest: transaction_Inl)

lemma with_user_simps [simp]:
  "id_users (with_user L E u s) = id_users s @ [dated E u]"
  "id_verifications (with_user L E u s) = id_verifications s"
  "id_redis_tokens (with_user L E u s) = id_redis_tokens s"
  "id_redis_otp (with_user L E u s) = id_redis_otp s"
  "id_outbox (with_user L E u s) = fold (outbox_Create (ie_trace E)) (user_rows L E (us_events u)) (id_outbox s)"
  "us_ID (dated E u) = us_ID u" "us_Email (dated E u) = us_Email u" "us_FirstName (dated E u) = us_FirstName u"
  "us_LastName (dated E u) = us_LastName u" "us_Role (dated E u) = us_Role u" "us_Status (dated E u) = us_Status u"
  "us_Password (dated E u) = us_Password u" "us_events (dated E u) = []"
  by (simp_all add: with_user_def dated_def)

lemma RegisterCustomer_Inr:
  assumes "RegisterCustomer_Execute L I E input s = (Inr resp, s')"
  shows "\<exists>v h i. v \<in> set (id_verifications s) \<and> ev_Email v = ToLower (rg_Email input) \<and>
    usable E (rg_Code input) v \<and> il_bcrypt I (ie_salt E) (rg_Password input) = Some h \<and> ie_newV7 E 0 = Some i \<and>
    create_user L E (MarkRegistered (ie_clock E) (new_user i (rg_FirstName input) (rg_LastName input)
      (ToLower (rg_Email input)) h ''customer'')) (put_verification (used_up v) s) = (Inr resp, s')"
  using assms
  by (auto simp: RegisterCustomer_Execute_def bind_Inr Let_def Hash_def newV7_def
      split: option.splits simp del: bind_simps dest!: Verify_Inr)

lemma RegisterOwner_Inr:
  assumes "RegisterOwner_Execute L I E input s = (Inr resp, s')"
  shows "\<exists>v h i r. v \<in> set (id_verifications s) \<and> ev_Email v = ToLower (rg_Email input) \<and>
    usable E (rg_Code input) v \<and> il_bcrypt I (ie_salt E) (rg_Password input) = Some h \<and> ie_newV7 E 0 = Some i \<and>
    ie_newV7 E 1 = Some r \<and>
    create_user L E (MarkRestaurantInitiated (ie_clock E) r (rg_BusinessName input) (rg_VATNumber input)
      (MarkRegistered (ie_clock E) (new_user i (rg_FirstName input) (rg_LastName input)
        (ToLower (rg_Email input)) h ''owner''))) (put_verification (used_up v) s) = (Inr resp, s')"
  using assms
  by (auto simp: RegisterOwner_Execute_def bind_Inr Let_def Hash_def newV7_def
      split: option.splits simp del: bind_simps dest!: Verify_Inr)

lemma Register_Inl:
  "RegisterCustomer_Execute L I E c s = (Inl e, s') \<Longrightarrow>
    Verify E (ToLower (rg_Email c)) (rg_Code c) s = (Inl e, s') \<or>
    Verify E (ToLower (rg_Email c)) (rg_Code c) s = (Inr (), s')"
  "RegisterOwner_Execute L I E r s = (Inl e, s') \<Longrightarrow>
    Verify E (ToLower (rg_Email r)) (rg_Code r) s = (Inl e, s') \<or>
    Verify E (ToLower (rg_Email r)) (rg_Code r) s = (Inr (), s')"
  by (auto simp: RegisterCustomer_Execute_def RegisterOwner_Execute_def bind_Inl Let_def
      simp del: bind_simps dest!: create_user_Inl)

subsection \<open>Every request keeps the invariant\<close>

lemma id_inv_parts:
  "id_inv L s \<Longrightarrow> users_inv s" "id_inv L s \<Longrightarrow> verifications_inv s"
  "id_inv L s \<Longrightarrow> announcements_inv L s" "id_inv L s \<Longrightarrow> tokens_inv L s"
  by (simp_all add: id_inv_def)

lemma verifications_inv_put:
  assumes "verifications_inv s" "v \<in> set (id_verifications s)" "ev_ID v' = ev_ID v" "ev_Email v' = ev_Email v"
    "0 \<le> sint (ev_AttemptCount v')" "sint (ev_AttemptCount v') \<le> 3" "ev_events v' = []"
  shows "verifications_inv (put_verification v' s)"
proof -
  have same: "x = v" if "x \<in> set (id_verifications s)" "ev_ID x = ev_ID v" for x
    using assms(1,2) that by (auto simp: verifications_inv_def distinct_map dest: inj_onD)
  have "List.map ev_ID (id_verifications (put_verification v' s)) = List.map ev_ID (id_verifications s)"
    by (simp add: put_verification_def map_key_update)
  moreover have "List.map ev_Email (id_verifications (put_verification v' s)) = List.map ev_Email (id_verifications s)"
    using same assms(3,4) by (auto simp: put_verification_def update_where_def)
  ultimately show ?thesis
    using assms by (auto simp: verifications_inv_def put_verification_def set_update_where)
qed

lemma put_verification_inv:
  assumes "id_inv L s" "v \<in> set (id_verifications s)" "ev_ID v' = ev_ID v" "ev_Email v' = ev_Email v"
    "0 \<le> sint (ev_AttemptCount v')" "sint (ev_AttemptCount v') \<le> 3" "ev_events v' = []"
    "ev_IsUsed v \<longrightarrow> ev_IsUsed v' \<or> ev_Email v \<notin> us_Email ` set (id_users s)"
  shows "id_inv L (put_verification v' s)"
proof -
  have same: "x = v" if "x \<in> set (id_verifications s)" "ev_ID x = ev_ID v" for x
    using assms(1,2) that by (auto simp: id_inv_def verifications_inv_def distinct_map dest: inj_onD)
  have "\<exists>y \<in> set (id_verifications (put_verification v' s)). ev_Email y = us_Email u \<and> ev_IsUsed y"
    if u: "u \<in> set (id_users s)" for u
  proof -
    obtain x where x: "x \<in> set (id_verifications s)" "ev_Email x = us_Email u" "ev_IsUsed x"
      using assms(1) u by (auto simp: id_inv_def users_inv_def)
    have "v' \<in> set (id_verifications (put_verification v' s))"
      using assms(2,3) by (auto simp: put_verification_def set_update_where)
    moreover have "x \<in> set (id_verifications (put_verification v' s))" if "x \<noteq> v"
      using that same x(1) assms(3) by (auto simp: put_verification_def set_update_where image_iff intro!: bexI [of _ x])
    ultimately show ?thesis using x u assms(4,8) by (cases "x = v") auto
  qed
  then show ?thesis
    using assms(1) verifications_inv_put [OF id_inv_parts(2) [OF assms(1)] assms(2-7)]
    by (auto simp: id_inv_def users_inv_def announcements_inv_def tokens_inv_def)
qed

lemma sint_succ_small:
  fixes a :: int16
  assumes "0 \<le> sint a" "sint a < 3"
  shows "sint (a + 1) = sint a + 1"
  using assms by (subst sint_word_ariths(1)) (simp add: signed_take_bit_int_eq_self)

lemma used_up_inv:
  assumes "id_inv L s" "v \<in> set (id_verifications s)"
  shows "id_inv L (put_verification (used_up v) s)"
  using assms by (intro put_verification_inv) (auto simp: id_inv_def verifications_inv_def)

lemma counted_inv:
  assumes "id_inv L s" "v \<in> set (id_verifications s)" "sint (ev_AttemptCount v) < 3"
  shows "id_inv L (put_verification (counted v) s)"
  using assms sint_succ_small [of "ev_AttemptCount v"]
  by (intro put_verification_inv) (auto simp: id_inv_def verifications_inv_def counted_def)

lemma announced_userI: "announced_user L u (us_ID u,
    marshal_UserRegistered L (us_ID u) (us_Email u) (us_FirstName u) (us_LastName u) (us_Role u) t)"
  unfolding announced_user_def by blast

lemma announced_ownerI: "announced_owner L u (r, marshal_RestaurantInitiated L r (us_ID u) name vat t)"
  unfolding announced_owner_def by blast

lemma with_user_inv:
  assumes "id_inv L s" "ToLower (us_Email u) = us_Email u" "us_Status u = ''active''"
    and fresh: "us_ID u \<notin> us_ID ` set (id_users s)" "us_Email u \<notin> us_Email ` set (id_users s)"
    and "\<exists>v \<in> set (id_verifications s). ev_Email v = us_Email u \<and> ev_IsUsed v"
    and kind: "us_Role u = ''customer'' \<and>
        us_events u = [UserRegistered (us_ID u) (us_Email u) (us_FirstName u) (us_LastName u) (us_Role u) t] \<or>
      us_Role u = ''owner'' \<and>
        us_events u = [UserRegistered (us_ID u) (us_Email u) (us_FirstName u) (us_LastName u) (us_Role u) t,
                       RestaurantInitiated r (us_ID u) name vat t']"
  shows "id_inv L (with_user L E u s)"
proof -
  have "users_inv (with_user L E u s)" "verifications_inv (with_user L E u s)"
    using assms by (auto simp: id_inv_def users_inv_def verifications_inv_def)
  moreover have "tokens_inv L (with_user L E u s)"
    using assms(1) by (auto simp: id_inv_def tokens_inv_def)
  moreover have "announcements_inv L (with_user L E u s)"
    using id_inv_parts(3) [OF assms(1)] kind announced_userI [of L "dated E u" t]
      announced_ownerI [of L "dated E u" r name vat t']
    by (auto simp: announcements_inv_def user_rows_def intro!: list_all2_appendI)
  ultimately show ?thesis by (simp add: id_inv_def)
qed

lemma new_user_simps [simp]:
  "us_ID (new_user i f l e h role) = i" "us_Email (new_user i f l e h role) = e"
  "us_FirstName (new_user i f l e h role) = TrimSpace f" "us_LastName (new_user i f l e h role) = TrimSpace l"
  "us_Role (new_user i f l e h role) = role" "us_Status (new_user i f l e h role) = ''active''"
  "us_Password (new_user i f l e h role) = h" "us_events (new_user i f l e h role) = []"
  by (simp_all add: new_user_def)

lemma Verify_inv:
  assumes "id_inv L s" "Verify E email code s = (res, s')"
  shows "id_inv L s'"
proof (cases res)
  case (Inl e)
  then show ?thesis
    using Verify_Inl [of E email code s e s'] assms id_inv_parts(2) [OF assms(1)] counted_inv [OF assms(1)] by auto
next
  case (Inr u)
  then show ?thesis
    using Verify_Inr [of E email code s s'] assms used_up_inv [OF assms(1)] by auto
qed

lemma used_up_there:
  assumes "v \<in> set (id_verifications s)"
  shows "\<exists>x \<in> set (id_verifications (put_verification (used_up v) s)). ev_Email x = ev_Email v \<and> ev_IsUsed x"
  by (rule bexI [of _ "used_up v"]) (use assms in \<open>auto simp: put_verification_def set_update_where\<close>)

lemma RegisterCustomer_keeps:
  assumes "id_inv L s" "RegisterCustomer_Execute L I E input s = (res, s')"
  shows "id_inv L s'"
proof (cases res)
  case (Inl e)
  then show ?thesis
    using Register_Inl(1) assms Verify_inv by blast
next
  case (Inr resp)
  then obtain v h i where v: "v \<in> set (id_verifications s)" "ev_Email v = ToLower (rg_Email input)"
    and made: "create_user L E (MarkRegistered (ie_clock E) (new_user i (rg_FirstName input) (rg_LastName input)
      (ToLower (rg_Email input)) h ''customer'')) (put_verification (used_up v) s) = (Inr resp, s')"
    using RegisterCustomer_Inr assms(2) by blast
  have "\<exists>x \<in> set (id_verifications (put_verification (used_up v) s)). ev_Email x = ev_Email v \<and> ev_IsUsed x"
    by (rule used_up_there [OF v(1)])
  with create_user_Inr [OF made] v show ?thesis
    by (auto intro!: with_user_inv used_up_inv assms(1) simp: MarkRegistered_def)
qed

lemma RegisterOwner_keeps:
  assumes "id_inv L s" "RegisterOwner_Execute L I E input s = (res, s')"
  shows "id_inv L s'"
proof (cases res)
  case (Inl e)
  then show ?thesis
    using Register_Inl(2) assms Verify_inv by blast
next
  case (Inr resp)
  then obtain v h i r where v: "v \<in> set (id_verifications s)" "ev_Email v = ToLower (rg_Email input)"
    and made: "create_user L E (MarkRestaurantInitiated (ie_clock E) r (rg_BusinessName input) (rg_VATNumber input)
      (MarkRegistered (ie_clock E) (new_user i (rg_FirstName input) (rg_LastName input)
        (ToLower (rg_Email input)) h ''owner''))) (put_verification (used_up v) s) = (Inr resp, s')"
    using RegisterOwner_Inr assms(2) by blast
  have "\<exists>x \<in> set (id_verifications (put_verification (used_up v) s)). ev_Email x = ev_Email v \<and> ev_IsUsed x"
    by (rule used_up_there [OF v(1)])
  with create_user_Inr [OF made] v show ?thesis
    by (auto intro!: with_user_inv used_up_inv assms(1) simp: MarkRegistered_def MarkRestaurantInitiated_def)
qed

text \<open>Codes.\<close>

lemma id_inv_otp [simp]: "id_inv L (s\<lparr> id_redis_otp := m \<rparr>) = id_inv L s"
  by (simp add: id_inv_def users_inv_def verifications_inv_def announcements_inv_def tokens_inv_def)

lemma Allow_cases: "Allow E email s = (r, s') \<Longrightarrow> \<exists>m. s' = s\<lparr> id_redis_otp := m \<rparr>"
proof -
  have "\<exists>m. s = s\<lparr> id_redis_otp := m \<rparr>" by (rule exI [of _ "id_redis_otp s"]) simp
  then show "Allow E email s = (r, s') \<Longrightarrow> ?thesis"
    by (auto simp: Allow_def Let_def split: if_splits option.splits)
qed

definition code_row :: "'d lib \<Rightarrow> id_env \<Rightarrow> EmailVerification \<Rightarrow> OutboxEvent" where
  "code_row L E v = NewOutboxEvent (ie_clock E) (ev_ID v) ''email.verification_created''
     (marshal_EmailVerificationCreated L (ev_Email v) (ev_Code v) (ie_clock E))"

lemma Auth_DispatchEventsTx_Inr:
  "ev_events v = [] \<Longrightarrow> Auth_DispatchEventsTx L E (MarkCreated (ie_clock E) v) s = (Inr (), s') \<Longrightarrow>
    s' = s\<lparr> id_outbox := outbox_Create (ie_trace E) (code_row L E v) (id_outbox s) \<rparr>"
  by (auto simp: Auth_DispatchEventsTx_def Verification_PullEvents_def MarkCreated_def bind_Inr id_Outbox_Create_def
      code_row_def split: if_splits simp del: bind_simps)

lemma id_inv_code_row [simp]:
  "id_inv L (s\<lparr> id_outbox := outbox_Create tr (code_row L E v) (id_outbox s) \<rparr>) = id_inv L s"
  by (simp add: id_inv_def users_inv_def verifications_inv_def announcements_inv_def tokens_inv_def code_row_def)

lemma id_inv_new_verification:
  assumes "id_inv L s" "ev_ID v \<notin> ev_ID ` set (id_verifications s)"
    "ev_Email v \<notin> ev_Email ` set (id_verifications s)" "ev_AttemptCount v = 0" "ev_events v = []"
  shows "id_inv L (s\<lparr> id_verifications := id_verifications s @ [v] \<rparr>)"
  using assms
  by (auto simp: id_inv_def users_inv_def verifications_inv_def announcements_inv_def tokens_inv_def)

lemma Ver_Create_Inr:
  "Ver_Create E v s = (Inr v', s') \<Longrightarrow> ev_ID v \<notin> ev_ID ` set (id_verifications s) \<and>
    (\<exists>t. v' = v\<lparr> ev_CreatedAt := t \<rparr>) \<and>
    s' = s\<lparr> id_verifications := id_verifications s @ [stored_verification v'] \<rparr>"
  by (auto simp: Ver_Create_def Let_def find_row_None_image split: if_splits
      intro: exI [of _ "ev_CreatedAt v"])

definition code_issued :: "id_env \<Rightarrow> string \<Rightarrow> string \<Rightarrow> EmailVerification \<Rightarrow> bool" where
  "code_issued E email code v \<longleftrightarrow> ev_Email v = email \<and> ev_Code v = char6 code \<and> \<not> ev_IsUsed v \<and>
     ev_AttemptCount v = 0 \<and> ev_ExpiresAt v = ie_clock E + otp_expiry \<and> ev_events v = []"

text \<open>A request for a code stores it in the row of the email and puts it into the outbox.\<close>

lemma RequestEmailOTP_Inr:
  assumes inv: "id_inv L s" and run: "RequestEmailOTP_Execute L E input s = (Inr (), s')"
  obtains v row m code where "ToLower input \<notin> us_Email ` set (id_users s)" "ie_code E = Some code"
    "code_issued E (ToLower input) code v" "ev_Email row = ToLower input" "ev_Code row = code"
    "find_row ev_Email (ToLower input) (id_verifications s) = None \<and> ev_ID v \<notin> ev_ID ` set (id_verifications s) \<and>
       id_verifications s' = id_verifications s @ [v] \<or>
     (\<exists>old \<in> set (id_verifications s). ev_Email old = ToLower input \<and> ev_ID old = ev_ID v \<and>
       id_verifications s' = id_verifications (put_verification v s))"
    "s' = s\<lparr> id_verifications := id_verifications s', id_redis_otp := m,
            id_outbox := outbox_Create (ie_trace E) (code_row L E row) (id_outbox s) \<rparr>"
proof -
  let ?email = "ToLower input"
  obtain s1 code i old where fresh: "\<forall>u \<in> set (id_users s). us_Email u \<noteq> ?email"
    and s1: "Allow E ?email s = (Inr True, s1)" and code: "ie_code E = Some code"
    and found1: "Ver_FindByEmail E ?email s1 = Inr old"
    and issue1: "issue_code L E \<lparr> ev_ID = i, ev_Email = ?email, ev_Code = code, ev_IsUsed = False,
        ev_AttemptCount = 0, ev_ExpiresAt = ie_clock E + otp_expiry, ev_CreatedAt = zero_time, ev_events = [] \<rparr> old s1
        = (Inr (), s')"
    using run
    by (auto simp: RequestEmailOTP_Execute_def Let_def bind_Inr EmailExists_def filter_empty_conv newV7_def
        split: option.splits simp del: bind_simps)
  obtain m where m: "s1 = s\<lparr> id_redis_otp := m \<rparr>" using Allow_cases [OF s1] by blast
  note found = found1 [unfolded m] and issue = issue1 [unfolded m]
  have "verifications_inv (s\<lparr> id_redis_otp := m \<rparr>)"
    using inv by (simp add: id_inv_def verifications_inv_def)
  from find_verification [OF this, of E ?email] found
  have old: "find_row ev_Email ?email (id_verifications s) = old" by (auto split: if_splits)
  show ?thesis
  proof (cases old)
    case None
    let ?v = "\<lambda>t. \<lparr> ev_ID = i, ev_Email = ?email, ev_Code = code, ev_IsUsed = False, ev_AttemptCount = 0,
          ev_ExpiresAt = ie_clock E + otp_expiry, ev_CreatedAt = t, ev_events = [] \<rparr>"
    obtain t where v: "i \<notin> ev_ID ` set (id_verifications s)"
      "s' = s\<lparr> id_redis_otp := m, id_verifications := id_verifications s @ [stored_verification (?v t)],
            id_outbox := outbox_Create (ie_trace E) (code_row L E (?v t)) (id_outbox s) \<rparr>"
      using issue None
      by (auto simp: issue_code_def bind_Inr simp del: bind_simps dest!: Ver_Create_Inr Auth_DispatchEventsTx_Inr [rotated])
    show ?thesis
      by (rule that [of code "stored_verification (?v t)" "?v t" m])
        (use v fresh code old None in \<open>auto simp: code_issued_def stored_verification_def\<close>)
  next
    case (Some o')
    let ?v = "o'\<lparr> ev_Code := code, ev_ExpiresAt := ie_clock E + otp_expiry, ev_AttemptCount := 0, ev_IsUsed := False \<rparr>"
    have o': "o' \<in> set (id_verifications s)" "ev_Email o' = ?email"
      using find_row_Some [of ev_Email ?email "id_verifications s" o'] old Some by auto
    have "ev_events o' = []" using o' inv by (simp add: id_inv_def verifications_inv_def)
    then have s': "s' = (put_verification (stored_verification ?v) (s\<lparr> id_redis_otp := m \<rparr>))\<lparr>
        id_outbox := outbox_Create (ie_trace E) (code_row L E ?v) (id_outbox s) \<rparr>"
      using issue Some
      by (auto simp: issue_code_def bind_Inr Let_def simp del: bind_simps dest!: Ver_Updates_Inr Auth_DispatchEventsTx_Inr [rotated])
    show ?thesis
      by (rule that [of code "stored_verification ?v" ?v m])
        (use s' fresh code o' in \<open>auto simp: code_issued_def stored_verification_def put_verification_def\<close>)
  qed
qed

lemma RequestEmailOTP_Inl:
  "RequestEmailOTP_Execute L E input s = (Inl e, s') \<Longrightarrow> \<exists>m. s' = s\<lparr> id_redis_otp := m \<rparr>"
proof -
  have "\<exists>m. s = s\<lparr> id_redis_otp := m \<rparr>" by (rule exI [of _ "id_redis_otp s"]) simp
  then show "RequestEmailOTP_Execute L E input s = (Inl e, s') \<Longrightarrow> ?thesis"
    by (auto simp: RequestEmailOTP_Execute_def Let_def bind_Inl simp del: bind_simps
        dest!: Allow_cases transaction_Inl)
qed

lemma RequestEmailOTP_keeps:
  assumes inv: "id_inv L s" and run: "RequestEmailOTP_Execute L E input s = (res, s')"
  shows "id_inv L s'"
proof (cases res)
  case (Inl e)
  then show ?thesis using RequestEmailOTP_Inl [of L E input s e s'] assms by auto
next
  case (Inr u)
  then have "RequestEmailOTP_Execute L E input s = (Inr (), s')" using run by simp
  from inv this show ?thesis
  proof (rule RequestEmailOTP_Inr)
    fix v row m code
    assume fresh: "ToLower input \<notin> us_Email ` set (id_users s)" and v: "code_issued E (ToLower input) code v"
      and rows: "find_row ev_Email (ToLower input) (id_verifications s) = None \<and>
          ev_ID v \<notin> ev_ID ` set (id_verifications s) \<and> id_verifications s' = id_verifications s @ [v] \<or>
        (\<exists>old \<in> set (id_verifications s). ev_Email old = ToLower input \<and> ev_ID old = ev_ID v \<and>
          id_verifications s' = id_verifications (put_verification v s))"
      and s': "s' = s\<lparr> id_verifications := id_verifications s', id_redis_otp := m,
            id_outbox := outbox_Create (ie_trace E) (code_row L E row) (id_outbox s) \<rparr>"
    have "id_inv L (s\<lparr> id_verifications := id_verifications s' \<rparr>)"
      using rows
    proof
      assume "find_row ev_Email (ToLower input) (id_verifications s) = None \<and>
          ev_ID v \<notin> ev_ID ` set (id_verifications s) \<and> id_verifications s' = id_verifications s @ [v]"
      then show ?thesis
        using id_inv_new_verification [OF inv, of v] v by (simp add: code_issued_def find_row_None_image)
    next
      assume "\<exists>old \<in> set (id_verifications s). ev_Email old = ToLower input \<and> ev_ID old = ev_ID v \<and>
          id_verifications s' = id_verifications (put_verification v s)"
      then obtain old where "old \<in> set (id_verifications s)" "ev_Email old = ToLower input" "ev_ID old = ev_ID v"
        "id_verifications s' = id_verifications (put_verification v s)" by blast
      then show ?thesis
        using put_verification_inv [OF inv, of old v] v fresh by (simp add: code_issued_def put_verification_def)
    qed
    then have "id_inv L (s\<lparr> id_verifications := id_verifications s',
        id_outbox := outbox_Create (ie_trace E) (code_row L E row) (id_outbox s) \<rparr>)"
      using id_inv_code_row [where L = L and s = "s\<lparr> id_verifications := id_verifications s' \<rparr>"] by simp
    then show ?thesis
      by (subst s') (simp add: id_inv_def users_inv_def verifications_inv_def announcements_inv_def tokens_inv_def)
  qed
qed

text \<open>Sessions.\<close>

lemma unmarshal_marshal_claims [simp]: "unmarshal_claims (marshal_claims c) = Some c"
  by (simp add: unmarshal_claims_def marshal_claims_def)

lemma tokens_inv_add:
  assumes "id_inv L s" "u \<in> set (id_users s)"
  shows "id_inv L (s\<lparr> id_redis_tokens := (id_redis_tokens s)(key \<mapsto> (marshal_claims (user_claims L u), t)) \<rparr>)"
  using assms
  by (fastforce simp: id_inv_def users_inv_def verifications_inv_def announcements_inv_def tokens_inv_def ran_def
      split: if_splits)

lemma Token_Delete_keeps: "id_inv L s \<Longrightarrow> id_inv L (snd (Token_Delete E h s))"
  by (fastforce simp: Token_Delete_def id_inv_def users_inv_def verifications_inv_def announcements_inv_def
      tokens_inv_def ran_def split: if_splits)

lemma list_all2_update_where:
  "list_all2 P xs ys \<Longrightarrow> (\<And>x y. x \<in> set xs \<Longrightarrow> Q x \<Longrightarrow> P x y \<Longrightarrow> P (f x) y) \<Longrightarrow> list_all2 P (update_where Q f xs) ys"
  by (induction rule: list_all2_induct) auto

lemma filter_update_where_keep:
  "(\<And>x. x \<in> set xs \<Longrightarrow> Q x \<Longrightarrow> R (f x) = R x) \<Longrightarrow> filter R (update_where Q f xs) = update_where Q f (filter R xs)"
  by (induction xs) auto

lemma id_inv_login:
  assumes inv: "id_inv L s" and u: "u \<in> set (id_users s)"
    and u': "us_ID u' = us_ID u" "us_Email u' = us_Email u" "us_FirstName u' = us_FirstName u"
      "us_LastName u' = us_LastName u" "us_Role u' = us_Role u" "us_Status u' = us_Status u" "us_events u' = []"
  shows "id_inv L (s\<lparr> id_users := save_row us_ID u' (id_users s) \<rparr>)"
proof -
  have same: "x = u" if "x \<in> set (id_users s)" "us_ID x = us_ID u" for x
    using inv u that by (auto simp: id_inv_def users_inv_def distinct_map dest: inj_onD)
  have saved: "save_row us_ID u' (id_users s) = update_where (\<lambda>x. us_ID x = us_ID u) (\<lambda>_. u') (id_users s)"
    using save_row_in [of u "id_users s" us_ID u'] u u'(1) by simp
  have maps: "List.map us_ID (save_row us_ID u' (id_users s)) = List.map us_ID (id_users s)"
    "List.map us_Email (save_row us_ID u' (id_users s)) = List.map us_Email (id_users s)"
    using same u' by (auto simp: saved update_where_def)
  have claims: "\<exists>x \<in> set (save_row us_ID u' (id_users s)). user_claims L x = user_claims L y"
    if "y \<in> set (id_users s)" for y
  proof (cases "y = u")
    case True
    then have "user_claims L u' = user_claims L y" using u' by (simp add: user_claims_def)
    then show ?thesis using save_row_mem [of u' us_ID "id_users s"] by blast
  next
    case False
    then have "us_ID y \<noteq> us_ID u'" using same [OF that] u'(1) by auto
    from save_row_other [of y "id_users s" us_ID u', OF that this] show ?thesis by blast
  qed
  have announced: "announced_user L u' = announced_user L u" "announced_owner L u' = announced_owner L u"
    using u' by (auto simp: announced_user_def announced_owner_def fun_eq_iff)
  have "list_all2 (announced_user L) (save_row us_ID u' (id_users s)) (events_named ''user.registered'' (id_outbox s))"
    using id_inv_parts(3) [OF inv] announced
    by (auto simp: saved announcements_inv_def intro!: list_all2_update_where dest!: same)
  moreover have "list_all2 (announced_owner L) (filter (\<lambda>u. us_Role u = ''owner'') (save_row us_ID u' (id_users s)))
      (events_named ''restaurant.initiated'' (id_outbox s))"
    unfolding saved using id_inv_parts(3) [OF inv] announced u'(5)
    by (subst filter_update_where_keep) (auto simp: announcements_inv_def intro!: list_all2_update_where dest!: same)
  moreover have "users_inv (s\<lparr> id_users := save_row us_ID u' (id_users s) \<rparr>)"
    using id_inv_parts(1) [OF inv] u u' maps
    by (auto simp: users_inv_def dest!: save_row_set)
  moreover have "tokens_inv L (s\<lparr> id_users := save_row us_ID u' (id_users s) \<rparr>)"
    unfolding tokens_inv_def
  proof (intro allI impI)
    fix j t
    assume "(j, t) \<in> ran (id_redis_tokens (s\<lparr> id_users := save_row us_ID u' (id_users s) \<rparr>))"
    then obtain y where "y \<in> set (id_users s)" "j = marshal_claims (user_claims L y)"
      using id_inv_parts(4) [OF inv] by (auto simp: tokens_inv_def)
    then show "\<exists>x \<in> set (id_users (s\<lparr> id_users := save_row us_ID u' (id_users s) \<rparr>)).
        j = marshal_claims (user_claims L x)"
      using claims [of y] by simp metis
  qed
  ultimately show ?thesis
    using id_inv_parts(2) [OF inv] by (simp add: id_inv_def announcements_inv_def verifications_inv_def)
qed

lemma User_Update_keeps:
  assumes "id_inv L s" "u \<in> set (id_users s)"
  shows "id_inv L (snd (User_Update E (u\<lparr> us_LoggedAt := t \<rparr>) s))"
  using id_inv_login [OF assms, of "stored_user (u\<lparr> us_LoggedAt := t, us_UpdatedAt := Some (ie_clock E) \<rparr>)"] assms(1)
  by (simp add: User_Update_def Let_def stored_user_def)

lemma Token_Find_Inr:
  assumes "id_inv L s" "Token_Find E h s = Inr c"
  shows "\<exists>u \<in> set (id_users s). c = user_claims L u"
proof -
  obtain j t where j: "id_redis_tokens s (''refresh:'' @ h) = Some (j, t)" "unmarshal_claims j = Some c"
    using assms(2) by (auto simp: Token_Find_def redis_get_def split: option.splits if_splits prod.splits)
  then have "(j, t) \<in> ran (id_redis_tokens s)" by (auto simp: ran_def)
  then obtain u where "u \<in> set (id_users s)" "j = marshal_claims (user_claims L u)"
    using id_inv_parts(4) [OF assms(1)] unfolding tokens_inv_def by blast
  then show ?thesis using j(2) by auto
qed

lemma Token_Save_keeps:
  "id_inv L s \<Longrightarrow> u \<in> set (id_users s) \<Longrightarrow> Token_Save E h (user_claims L u) ttl s = (res, s') \<Longrightarrow>
    id_inv L s' \<and> id_users s' = id_users s"
  using tokens_inv_add [of L s u] by (auto simp: Token_Save_def split: if_splits)

lemma Login_keeps:
  assumes inv: "id_inv L s" and run: "Login_Execute L I E email password s = (res, s')"
  shows "id_inv L s'"
proof (cases "s' = s")
  case False
  obtain u where u: "u \<in> set (id_users s)" and
    rest: "bind (query (\<lambda>_. JWT_Generate I E (uuidString L (us_ID u)) (us_Role u))) (\<lambda>accessToken.
           bind (query (\<lambda>_. RefreshToken_Generate E)) (\<lambda>refreshToken.
           bind (Token_Save E (RefreshToken_Hash I refreshToken) (user_claims L u) refresh_ttl) (\<lambda>_ s.
           (Inr \<lparr> tk_AccessToken = accessToken, tk_RefreshToken = refreshToken \<rparr>,
            snd (User_Update E (u\<lparr> us_LoggedAt := Some (ie_clock E) \<rparr>) s))))) s = (res, s')"
    using run False id_inv_parts(1) [OF inv]
    by (auto simp: Login_Execute_def find_user user_claims_def fail_def dest!: find_row_Some
        split: option.splits if_splits)
  then obtain r s1 tok where s1: "Token_Save E (RefreshToken_Hash I tok) (user_claims L u) refresh_ttl s = (r, s1)"
    "s' = s1 \<or> s' = snd (User_Update E (u\<lparr> us_LoggedAt := Some (ie_clock E) \<rparr>) s1)"
    using False by (auto simp: bind_def split: sum.splits prod.splits)
  with Token_Save_keeps [OF inv u s1(1)] User_Update_keeps [of L s1 u E "Some (ie_clock E)"] u show ?thesis by auto
qed (simp add: inv)

lemma RefreshToken_keeps:
  assumes inv: "id_inv L s" and run: "RefreshToken_Execute I E tok s = (res, s')"
  shows "id_inv L s'"
proof (cases "s' = s")
  case False
  then obtain c where c: "Token_Find E (RefreshToken_Hash I tok) s = Inr c"
    using run by (auto simp: RefreshToken_Execute_def Let_def split: sum.splits)
  then obtain u where u: "u \<in> set (id_users s)" "c = user_claims L u" using Token_Find_Inr [OF inv] by blast
  obtain r s1 t where s1: "Token_Save E (RefreshToken_Hash I t) (user_claims L u) refresh_ttl s = (r, s1)"
    "s' = s1 \<or> s' = snd (Token_Delete E (RefreshToken_Hash I tok) s1)"
    using run False c u(2) by (auto simp: RefreshToken_Execute_def Let_def bind_def split: sum.splits prod.splits)
  with Token_Save_keeps [OF inv u(1) s1(1)] Token_Delete_keeps [of L s1] show ?thesis by auto
qed (simp add: inv)

lemma id_run_keeps:
  assumes "id_inv L s"
  shows "id_inv L (snd (id_run L I E rq s))"
proof -
  obtain res s' where run: "id_run L I E rq s = (res, s')" by fastforce
  have void: "\<exists>res'. m s = (res', s')" if "void m s = (res, s')" for m :: "'x id_op"
    using that by (cases "m s") (auto simp: void_def bind_def ret_def split: sum.splits)
  have "id_inv L s'"
  proof (cases rq)
    case (IqRequestOTP email)
    then show ?thesis using run RequestEmailOTP_keeps [OF assms] by simp
  next
    case (IqRegisterCustomer input)
    then show ?thesis using run RegisterCustomer_keeps [OF assms] by (auto dest!: void)
  next
    case (IqRegisterOwner input)
    then show ?thesis using run RegisterOwner_keeps [OF assms] by (auto dest!: void)
  next
    case (IqFindByID userID)
    then have "s' = s" using run by (auto simp: FindByID_Execute_def fail_def ret_def bind_def query_def split: sum.splits option.splits
        simp del: bind_simps dest!: void)
    then show ?thesis using assms by simp
  next
    case (IqLogin email password)
    then show ?thesis using run Login_keeps [OF assms] by (auto dest!: void)
  next
    case (IqRefresh tok)
    then show ?thesis using run RefreshToken_keeps [OF assms] by (auto dest!: void)
  next
    case (IqLogout tok)
    then show ?thesis using run Token_Delete_keeps [OF assms, of E] by (simp add: Logout_Execute_def) (metis snd_conv)
  qed
  then show ?thesis by (simp add: run)
qed

lemma id_reach_inv: "id_reach L I s \<Longrightarrow> id_inv L s"
proof (induction rule: id_reach.induct)
  case start
  then show ?case
    by (simp add: id_inv_def users_inv_def verifications_inv_def announcements_inv_def events_named_def tokens_inv_def)
next
  case (request s E rq)
  then show ?case by (simp add: id_run_keeps)
next
  case (relay s m)
  then show ?case
    by (simp add: id_inv_def users_inv_def verifications_inv_def announcements_inv_def tokens_inv_def)
qed

end
