(* ===== verification/Identity_Props.thy ===== *)
theory Identity_Props
  imports Identity_Inv
begin

text \<open>
  What identity-service promises: one account per verified email, announced once; a code that is needed, guessed
  at most three times by consecutive requests and used once; sessions that rotate and end; access tokens that the
  forward-auth middleware reads back; codes that are uniform.
\<close>

subsection \<open>Accounts\<close>

text \<open>
  C17. In every state that requests reach one after another the accounts have different identifiers and emails in lower
  case, each is a customer or an owner whose email has been verified by a code that is used up; the outbox announces exactly the accounts, in
  order, each once, and exactly the owners' restaurants; and every refresh token that is accepted speaks for an
  account in its role.
\<close>

theorem identity_accounts:
  assumes "id_reach L I s"
  shows "distinct (List.map us_ID (id_users s)) \<and> distinct (List.map us_Email (id_users s)) \<and>
    (\<forall>u \<in> set (id_users s). ToLower (us_Email u) = us_Email u \<and> us_Role u \<in> {''customer'', ''owner''} \<and>
       (\<exists>v \<in> set (id_verifications s). ev_Email v = us_Email u \<and> ev_IsUsed v)) \<and>
    list_all2 (\<lambda>u e. \<exists>t. e = (us_ID u, marshal_UserRegistered L (us_ID u) (us_Email u) (us_FirstName u)
         (us_LastName u) (us_Role u) t)) (id_users s) (events_named ''user.registered'' (id_outbox s)) \<and>
    list_all2 (\<lambda>u e. \<exists>r name vat t. e = (r, marshal_RestaurantInitiated L r (us_ID u) name vat t))
      (filter (\<lambda>u. us_Role u = ''owner'') (id_users s)) (events_named ''restaurant.initiated'' (id_outbox s)) \<and>
    (\<forall>E h c. Token_Find E h s = Inr c \<longrightarrow> (\<exists>u \<in> set (id_users s). c = user_claims L u))"
proof -
  have inv: "id_inv L s" using assms by (rule id_reach_inv)
  show ?thesis
    using id_inv_parts(1,3) [OF inv] Token_Find_Inr [OF inv]
    by (simp add: users_inv_def announcements_inv_def announced_user_def [abs_def] announced_owner_def [abs_def])
qed

subsection \<open>Registration\<close>

definition event_entry :: "OutboxEvent \<Rightarrow> string \<times> uuid \<times> json" where
  "event_entry e = (ob_EventName e, ob_AggregateID e, ob_Payload e)"

lemma event_entry_Create [simp]:
  "List.map event_entry (ob_rows (outbox_Create tr (NewOutboxEvent now a n p) t)) =
    List.map event_entry (ob_rows t) @ [(n, a, p)]"
  by (simp add: event_entry_def outbox_Create_def NewOutboxEvent_def)

lemma used_up_refused:
  assumes inv: "verifications_inv s" and v: "v \<in> set (id_verifications s)" "ev_IsUsed v"
    and E: "\<not> ie_fault E IdVerFind"
  shows "Verify E (ev_Email v) code s = (Inl [ErrCodeUsed], s)"
proof -
  have "find_row ev_Email (ev_Email v) (id_verifications s) = Some v"
    using inv v(1) by (intro find_row_distinct) (auto simp: verifications_inv_def)
  then show ?thesis
    using find_verification [OF inv, of E "ev_Email v"] E v(2) by (simp add: Verify_def Verify_prepare_def)
qed

lemma register_refused:
  "Verify E (ToLower (rg_Email c)) (rg_Code c) s = (Inl e, s) \<Longrightarrow> RegisterCustomer_Execute L I E c s = (Inl e, s)"
  "Verify E (ToLower (rg_Email r)) (rg_Code r) s = (Inl e, s) \<Longrightarrow> RegisterOwner_Execute L I E r s = (Inl e, s)"
  by (simp_all add: RegisterCustomer_Execute_def RegisterOwner_Execute_def Let_def bind_step)

text \<open>
  C18. A registration as an owner succeeds only with the code stored for the email, unused, guessed wrongly less
  than three times and not expired; it stores one account, with the hash of the password, and the
  events user.registered and restaurant.initiated, in this order, and nothing else in the outbox; from then on
  every registration with the email is answered with 409 and changes nothing. A registration that fails leaves
  the accounts, the outbox and the sessions as they were.
\<close>

theorem registration_needs_code:
  assumes reach: "id_reach L I s" and run: "RegisterOwner_Execute L I E input s = (res, s')"
  shows "case res of
      Inl e \<Rightarrow> id_users s' = id_users s \<and> id_outbox s' = id_outbox s \<and> id_redis_tokens s' = id_redis_tokens s
    | Inr resp \<Rightarrow> \<exists>v u r.
        find_row ev_Email (ToLower (rg_Email input)) (id_verifications s) = Some v \<and>
        \<not> ev_IsUsed v \<and> sint (ev_AttemptCount v) < 3 \<and> ev_Code v = rg_Code input \<and> ie_clock E \<le> ev_ExpiresAt v \<and>
        id_users s' = id_users s @ [u] \<and> us_Email u = ToLower (rg_Email input) \<and> us_Role u = ''owner'' \<and>
        us_FirstName u = TrimSpace (rg_FirstName input) \<and> us_LastName u = TrimSpace (rg_LastName input) \<and>
        il_bcrypt I (ie_salt E) (rg_Password input) = Some (us_Password u) \<and> resp = MapToResponse u \<and>
        List.map event_entry (ob_rows (id_outbox s')) = List.map event_entry (ob_rows (id_outbox s)) @
          [(''user.registered'', us_ID u, marshal_UserRegistered L (us_ID u) (us_Email u) (us_FirstName u)
             (us_LastName u) ''owner'' (ie_clock E)),
           (''restaurant.initiated'', r, marshal_RestaurantInitiated L r (us_ID u) (rg_BusinessName input)
             (rg_VATNumber input) (ie_clock E))] \<and>
        (\<forall>E' c o'. \<not> ie_fault E' IdVerFind \<longrightarrow>
           (ToLower (rg_Email c) = us_Email u \<longrightarrow> RegisterCustomer_Execute L I E' c s' = (Inl [ErrCodeUsed], s')) \<and>
           (ToLower (rg_Email o') = us_Email u \<longrightarrow> RegisterOwner_Execute L I E' o' s' = (Inl [ErrCodeUsed], s'))) \<and>
        id_HandleError [ErrCodeUsed] = 409"
proof (cases res)
  case (Inl e)
  have inv: "id_inv L s" using reach by (rule id_reach_inv)
  from Register_Inl(2) [of L I E input s e s'] run Inl
  show ?thesis
    using Verify_Inl [OF _ id_inv_parts(2) [OF inv], of E "ToLower (rg_Email input)" "rg_Code input" e s']
      Verify_Inr [of E "ToLower (rg_Email input)" "rg_Code input" s s'] by auto
next
  case (Inr resp)
  have inv: "id_inv L s" using reach by (rule id_reach_inv)
  obtain v h i r where v: "v \<in> set (id_verifications s)" "ev_Email v = ToLower (rg_Email input)"
      "usable E (rg_Code input) v"
    and h: "il_bcrypt I (ie_salt E) (rg_Password input) = Some h"
    and made: "create_user L E (MarkRestaurantInitiated (ie_clock E) r (rg_BusinessName input) (rg_VATNumber input)
      (MarkRegistered (ie_clock E) (new_user i (rg_FirstName input) (rg_LastName input)
        (ToLower (rg_Email input)) h ''owner''))) (put_verification (used_up v) s) = (Inr resp, s')"
    using RegisterOwner_Inr [of L I E input s resp s'] run Inr by blast
  let ?u = "dated E (MarkRestaurantInitiated (ie_clock E) r (rg_BusinessName input) (rg_VATNumber input)
      (MarkRegistered (ie_clock E) (new_user i (rg_FirstName input) (rg_LastName input)
        (ToLower (rg_Email input)) h ''owner'')))"
  note made = create_user_Inr [OF made]
  have "verifications_inv s'" using RegisterOwner_keeps [OF inv run] by (rule id_inv_parts(2))
  moreover have "used_up v \<in> set (id_verifications s')"
    using made v(1) by (auto simp: put_verification_def set_update_where)
  ultimately have refused: "Verify E' (ToLower (rg_Email input)) code s' = (Inl [ErrCodeUsed], s')"
    if "\<not> ie_fault E' IdVerFind" for E' code
    using used_up_refused [of s' "used_up v" E' code] that v(2) by simp
  have "find_row ev_Email (ToLower (rg_Email input)) (id_verifications s) = Some v"
    using id_inv_parts(2) [OF inv] v(1,2) find_row_distinct [of ev_Email "id_verifications s" v]
    by (simp add: verifications_inv_def)
  moreover have "List.map event_entry (ob_rows (id_outbox s')) = List.map event_entry (ob_rows (id_outbox s)) @
          [(''user.registered'', us_ID ?u, marshal_UserRegistered L (us_ID ?u) (us_Email ?u) (us_FirstName ?u)
             (us_LastName ?u) ''owner'' (ie_clock E)),
           (''restaurant.initiated'', r, marshal_RestaurantInitiated L r (us_ID ?u) (rg_BusinessName input)
             (rg_VATNumber input) (ie_clock E))]"
    using made by (simp add: user_rows_def MarkRegistered_def MarkRestaurantInitiated_def)
  ultimately show ?thesis
    using Inr made v(3) h refused
    by (auto simp: usable_def id_HandleError_def errors_is_def MarkRegistered_def MarkRestaurantInitiated_def
        intro!: exI [of _ v] exI [of _ ?u] exI [of _ r] register_refused)
qed

subsection \<open>Guessing a code\<close>

lemma find_put_verification:
  assumes "verifications_inv s" "v \<in> set (id_verifications s)" "ev_ID v' = ev_ID v" "ev_Email v' = ev_Email v"
    "0 \<le> sint (ev_AttemptCount v')" "sint (ev_AttemptCount v') \<le> 3" "ev_events v' = []"
  shows "find_row ev_Email (ev_Email v) (id_verifications (put_verification v' s)) = Some v'"
proof -
  have "v' \<in> set (id_verifications (put_verification v' s))"
    using assms(2,3) by (auto simp: put_verification_def set_update_where)
  moreover have "distinct (List.map ev_Email (id_verifications (put_verification v' s)))"
    using verifications_inv_put [OF assms] by (simp add: verifications_inv_def)
  ultimately show ?thesis using find_row_distinct [of ev_Email _ v'] assms(4) by metis
qed

lemma put_put_verification [simp]:
  "ev_ID v' = ev_ID v \<Longrightarrow> put_verification v (put_verification v' s) = put_verification v s"
  by (simp add: put_verification_def update_where_def)

lemma wrong_guess:
  assumes inv: "verifications_inv s" and v: "find_row ev_Email email (id_verifications s) = Some v" "\<not> ev_IsUsed v"
    and E: "\<not> ie_fault E IdVerFind" "\<not> ie_fault E IdVerIncrement" and wrong: "code \<noteq> ev_Code v"
  shows "Verify E email code s =
    (if sint (ev_AttemptCount v) < 3 then (Inl [ErrCodeInvalid], put_verification (counted v) s)
     else (Inl [ErrTooManyAttempts], s))"
proof -
  have v': "v \<in> set (id_verifications s)" using find_row_Some [OF v(1)] by simp
  then have "\<forall>x \<in> set (id_verifications s). sint (ev_AttemptCount x) \<noteq> 32767"
    using inv by (auto simp: verifications_inv_def)
  then have "IncrementAttempts E (ev_ID v) s = (Inr (), put_verification (counted v) s)"
    using update_where_key [of ev_ID "id_verifications s" v counted] v' inv E(2)
    by (simp add: IncrementAttempts_def put_verification_def counted_def [abs_def] verifications_inv_def)
  then show ?thesis
    using find_verification [OF inv, of E email] v E wrong
    by (auto simp: Verify_def Verify_prepare_def Verify_commit_def maxVerificationAttempts_def bind_step fail_def)
qed

text \<open>Consecutive registrations, with their answers.\<close>

fun register_all :: "'d lib \<Rightarrow> id_lib \<Rightarrow> (id_env \<times> RegisterCustomerRequest) list \<Rightarrow> id_db \<Rightarrow>
    (id_err, UserResponse) result list \<times> id_db" where
  "register_all L I [] s = ([], s)"
| "register_all L I ((E, input) # gs) s = (case RegisterCustomer_Execute L I E input s of (r, s1) \<Rightarrow>
     case register_all L I gs s1 of (rs, s2) \<Rightarrow> (r # rs, s2))"

lemma register_wrong:
  assumes inv: "verifications_inv s" and v: "find_row ev_Email email (id_verifications s) = Some v" "\<not> ev_IsUsed v"
    and E: "\<not> ie_fault E IdVerFind" "\<not> ie_fault E IdVerIncrement" and wrong: "rg_Code c \<noteq> ev_Code v"
    and email: "ToLower (rg_Email c) = email"
  shows "RegisterCustomer_Execute L I E c s =
    (if sint (ev_AttemptCount v) < 3 then (Inl [ErrCodeInvalid], put_verification (counted v) s)
     else (Inl [ErrTooManyAttempts], s))"
  using wrong_guess [OF inv v E wrong] email
  by (simp add: RegisterCustomer_Execute_def Let_def bind_step)

lemma exhausted_refused:
  assumes "verifications_inv s" "find_row ev_Email email (id_verifications s) = Some v" "\<not> ev_IsUsed v"
    "3 \<le> sint (ev_AttemptCount v)" "\<not> ie_fault E IdVerFind"
  shows "Verify E email code s = (Inl [ErrTooManyAttempts], s)"
  using assms find_verification [OF assms(1), of E email]
  by (simp add: Verify_def Verify_prepare_def maxVerificationAttempts_def)

lemma wrong_guesses:
  assumes "verifications_inv s" and "find_row ev_Email email (id_verifications s) = Some v" "\<not> ev_IsUsed v"
    and "\<forall>(E, c) \<in> set gs. \<not> ie_fault E IdVerFind \<and> \<not> ie_fault E IdVerIncrement \<and> rg_Code c \<noteq> ev_Code v \<and>
      ToLower (rg_Email c) = email"
    and "register_all L I gs s = (rs, s')" and "n = nat (3 - sint (ev_AttemptCount v))"
  shows "rs = replicate (min (length gs) n) (Inl [ErrCodeInvalid]) @
      replicate (length gs - n) (Inl [ErrTooManyAttempts]) \<and> verifications_inv s' \<and>
    (\<exists>v'. find_row ev_Email email (id_verifications s') = Some v' \<and> \<not> ev_IsUsed v' \<and>
       sint (ev_AttemptCount v') = sint (ev_AttemptCount v) + int (min (length gs) n))"
  using assms
proof (induction gs arbitrary: s v n rs)
  case Nil
  then show ?case by auto
next
  case (Cons g gs)
  obtain E c where g: "g = (E, c)" by fastforce
  have v: "v \<in> set (id_verifications s)" "ev_Email v = email" using find_row_Some [OF Cons.prems(2)] by auto
  have range: "0 \<le> sint (ev_AttemptCount v)" "sint (ev_AttemptCount v) \<le> 3" "ev_events v = []"
    using Cons.prems(1) v(1) by (auto simp: verifications_inv_def)
  have one: "RegisterCustomer_Execute L I E c s =
    (if sint (ev_AttemptCount v) < 3 then (Inl [ErrCodeInvalid], put_verification (counted v) s)
     else (Inl [ErrTooManyAttempts], s))"
    using Cons.prems g by (intro register_wrong) auto
  show ?case
  proof (cases "sint (ev_AttemptCount v) < 3")
    case True
    have a: "sint (ev_AttemptCount (counted v)) = sint (ev_AttemptCount v) + 1"
      using sint_succ_small [OF range(1) True] by (simp add: counted_def)
    have inv1: "verifications_inv (put_verification (counted v) s)"
      using range True a by (intro verifications_inv_put [OF Cons.prems(1) v(1)]) auto
    have found1: "find_row ev_Email email (id_verifications (put_verification (counted v) s)) = Some (counted v)"
      using find_put_verification [OF Cons.prems(1) v(1), of "counted v"] range True a v(2) by auto
    obtain rs1 where rs1: "register_all L I gs (put_verification (counted v) s) = (rs1, s')"
      "rs = Inl [ErrCodeInvalid] # rs1"
      using Cons.prems(5) one True g by (auto split: prod.splits)
    obtain m where n: "n = Suc m" "m = nat (3 - sint (ev_AttemptCount (counted v)))"
      using True a Cons.prems(6) by (metis Suc_nat_eq_nat_zadd1 add.commute diff_diff_add diff_ge_0_iff_ge zle_iff_zadd
        diff_add_cancel zless_imp_add1_zle)
    show ?thesis
      using Cons.IH [OF inv1 found1 _ _ rs1(1) n(2)] Cons.prems(3,4) g rs1(2) n(1) a by auto
  next
    case False
    then have n: "n = 0" using Cons.prems(6) by simp
    obtain rs1 where rs1: "register_all L I gs s = (rs1, s')" "rs = Inl [ErrTooManyAttempts] # rs1"
      using Cons.prems(5) one False g by (auto split: prod.splits)
    show ?thesis
      using Cons.IH [OF Cons.prems(1-3) _ rs1(1) Cons.prems(6)] Cons.prems(4) g rs1(2) n by auto
  qed
qed

text \<open>
  C19. Of consecutive registrations with wrong codes for an email, at most three (fewer when some of the three are used
  up) are told that the code is wrong; all others are answered with 429 without a comparison, and so is then the
  right code, whoever sends it, until a new code is requested.
\<close>

theorem guess_cap:
  assumes reach: "id_reach L I s"
    and v: "find_row ev_Email email (id_verifications s) = Some v" "\<not> ev_IsUsed v"
    and gs: "\<forall>(E, c) \<in> set gs. \<not> ie_fault E IdVerFind \<and> \<not> ie_fault E IdVerIncrement \<and> rg_Code c \<noteq> ev_Code v \<and>
      ToLower (rg_Email c) = email"
    and run: "register_all L I gs s = (rs, s')" and n: "n = nat (3 - sint (ev_AttemptCount v))"
  shows "rs = replicate (min (length gs) n) (Inl [ErrCodeInvalid]) @
      replicate (length gs - n) (Inl [ErrTooManyAttempts]) \<and> n \<le> 3 \<and>
    (n \<le> length gs \<longrightarrow> (\<forall>E c. \<not> ie_fault E IdVerFind \<longrightarrow> ToLower (rg_Email c) = email \<longrightarrow>
       RegisterCustomer_Execute L I E c s' = (Inl [ErrTooManyAttempts], s'))) \<and>
    id_HandleError [ErrCodeInvalid] = 400 \<and> id_HandleError [ErrTooManyAttempts] = 429"
proof -
  have inv: "verifications_inv s" using id_inv_parts(2) [OF id_reach_inv [OF reach]] .
  have "v \<in> set (id_verifications s)" using find_row_Some [OF v(1)] by simp
  then have a: "0 \<le> sint (ev_AttemptCount v)" "sint (ev_AttemptCount v) \<le> 3" using inv by (auto simp: verifications_inv_def)
  from wrong_guesses [OF inv v gs run n] obtain v' where
    rs: "rs = replicate (min (length gs) n) (Inl [ErrCodeInvalid]) @ replicate (length gs - n) (Inl [ErrTooManyAttempts])"
    and v': "verifications_inv s'" "find_row ev_Email email (id_verifications s') = Some v'" "\<not> ev_IsUsed v'"
      "sint (ev_AttemptCount v') = sint (ev_AttemptCount v) + int (min (length gs) n)" by blast
  have "RegisterCustomer_Execute L I E c s' = (Inl [ErrTooManyAttempts], s')"
    if "n \<le> length gs" "\<not> ie_fault E IdVerFind" "ToLower (rg_Email c) = email" for E c
    using exhausted_refused [OF v'(1-3) _ that(2)] v'(4) that n a by (intro register_refused) (auto simp: min_def)
  then show ?thesis using rs n a by (auto simp: id_HandleError_def errors_is_def)
qed

text \<open>Requests that have all read the row before one of them writes, in the order of their writes.\<close>

fun commit_all :: "EmailVerification \<Rightarrow> (id_env \<times> string) list \<Rightarrow> id_db \<Rightarrow> (id_err, unit) result list \<times> id_db" where
  "commit_all v [] s = ([], s)"
| "commit_all v ((E, code) # gs) s = (case Verify_commit E code v s of (r, s1) \<Rightarrow>
     case commit_all v gs s1 of (rs, s2) \<Rightarrow> (r # rs, s2))"


definition after_guesses :: "nat \<Rightarrow> EmailVerification \<Rightarrow> EmailVerification" where
  "after_guesses k v = v\<lparr> ev_AttemptCount := ev_AttemptCount v + of_nat k \<rparr>"

lemma sint_add_small:
  fixes a :: int16
  assumes "0 \<le> sint a" "sint a < 3" "k \<le> 30000"
  shows "sint (a + of_nat k) = sint a + int k"
proof -
  have "sint (of_nat k :: int16) = int k"
    using assms(3) by (simp add: sint_uint unat_of_nat uint_nat signed_take_bit_int_eq_self take_bit_nat_eq_self flip: of_nat_take_bit)
  then show ?thesis
    using assms by (subst sint_word_ariths(1)) (simp add: signed_take_bit_int_eq_self)
qed

lemma commit_wrong:
  assumes "0 \<le> sint (ev_AttemptCount v)" "sint (ev_AttemptCount v) < 3" "k < 30000"
    and "\<not> ie_fault E IdVerIncrement" "code \<noteq> ev_Code v"
  shows "Verify_commit E code v (put_verification (after_guesses k v) s) =
    (Inl [ErrCodeInvalid], put_verification (after_guesses (Suc k) v) s)"
proof -
  let ?s = "put_verification (after_guesses k v) s"
  have "sint (ev_AttemptCount x) \<noteq> 32767" if "x \<in> set (id_verifications ?s)" "ev_ID x = ev_ID v" for x
    using that assms(1-3) sint_add_small [of "ev_AttemptCount v" k]
    by (auto simp: put_verification_def set_update_where after_guesses_def)
  then have "IncrementAttempts E (ev_ID v) ?s = (Inr (), put_verification (after_guesses (Suc k) v) s)"
    using assms(4) by (auto simp: IncrementAttempts_def put_verification_def after_guesses_def update_where_def add.assoc)
  then show ?thesis using assms(5) by (simp add: Verify_commit_def bind_step fail_def)
qed

lemma commit_all_wrong:
  assumes "0 \<le> sint (ev_AttemptCount v)" "sint (ev_AttemptCount v) < 3"
    and "\<forall>(E, code) \<in> set gs. \<not> ie_fault E IdVerIncrement \<and> code \<noteq> ev_Code v" "k + length gs \<le> 30000"
  shows "commit_all v (gs @ hs) (put_verification (after_guesses k v) s) =
    (case commit_all v hs (put_verification (after_guesses (k + length gs) v) s) of
       (rs, s') \<Rightarrow> (replicate (length gs) (Inl [ErrCodeInvalid]) @ rs, s'))"
  using assms(3,4)
proof (induction gs arbitrary: k)
  case Nil
  then show ?case by simp
next
  case (Cons g gs)
  obtain E code where g: "g = (E, code)" by fastforce
  have "Verify_commit E code v (put_verification (after_guesses k v) s) =
      (Inl [ErrCodeInvalid], put_verification (after_guesses (Suc k) v) s)"
    using Cons.prems g by (intro commit_wrong [OF assms(1,2)]) auto
  then show ?case using Cons.IH [of "Suc k"] Cons.prems g by (simp split: prod.splits)
qed

text \<open>
  C40. The three attempts do not bound concurrent guesses: when requests have read the row before one of them has
  written, each of them is compared with the code, however many they are (up to thirty thousand here), and
  after all these wrong guesses one of them with the right code still succeeds; its write also puts the count of
  attempts back to what it has read.
\<close>

theorem guess_cap_race:
  assumes reach: "id_reach L I s"
    and read: "\<forall>(E, code) \<in> set gs. Verify_prepare E email s = Inr v \<and> \<not> ie_fault E IdVerIncrement \<and> code \<noteq> ev_Code v"
      "Verify_prepare E email s = Inr v" "length gs \<le> 30000"
    and right: "\<not> ie_fault E IdVerUpdate" "ie_clock E \<le> ev_ExpiresAt v" "char_count email \<le> 255"
  shows "\<exists>s'. commit_all v (gs @ [(E, ev_Code v)]) s = (replicate (length gs) (Inl [ErrCodeInvalid]) @ [Inr ()], s') \<and>
    find_row ev_Email email (id_verifications s') = Some (used_up v)"
proof -
  have inv: "id_inv L s" by (rule id_reach_inv [OF reach])
  note v = prepared [OF read(2)]
  then have a: "0 \<le> sint (ev_AttemptCount v)" "sint (ev_AttemptCount v) < 3" "ev_events v = []"
    using id_inv_parts(2) [OF inv] by (auto simp: verifications_inv_def)
  have "update_where (\<lambda>x. ev_ID x = ev_ID v) (\<lambda>_. v) (id_verifications s) =
      update_where (\<lambda>x. ev_ID x = ev_ID v) (\<lambda>x. x) (id_verifications s)"
    using update_where_key [of ev_ID "id_verifications s" v "\<lambda>x. x"] v id_inv_parts(2) [OF inv]
    by (simp add: verifications_inv_def)
  then have start: "put_verification (after_guesses 0 v) s = s"
    by (simp add: put_verification_def after_guesses_def update_where_def)
  let ?s = "put_verification (after_guesses (length gs) v) s"
  have "Verify_commit E (ev_Code v) v ?s = (Inr (), put_verification (used_up v) s)"
  proof -
    have "Ver_Updates E (v\<lparr> ev_Code := ''...'', ev_IsUsed := True \<rparr>) ?s = (Inr (), put_verification (used_up v) ?s)"
      using right(1,3) v by (simp add: Ver_Updates_def verification_row_ok_def put_verification_def)
    then show ?thesis using right(2) by (simp add: Verify_commit_def after_guesses_def)
  qed
  then have "commit_all v (gs @ [(E, ev_Code v)]) (put_verification (after_guesses 0 v) s) =
      (replicate (length gs) (Inl [ErrCodeInvalid]) @ [Inr ()], put_verification (used_up v) s)"
    using commit_all_wrong [OF a(1,2), of gs 0 "[(E, ev_Code v)]" s] read(1,3) by fastforce
  moreover have "find_row ev_Email email (id_verifications (put_verification (used_up v) s)) = Some (used_up v)"
    using find_put_verification [OF id_inv_parts(2) [OF inv], of v "used_up v"] v a by simp
  ultimately show ?thesis using start by auto
qed

subsection \<open>Sessions\<close>

text \<open>The claims that a refresh token gives at an instant.\<close>

lemma Token_Find_saved:
  "\<not> ie_fault E' IdRedisFind \<Longrightarrow> id_redis_tokens s (''refresh:'' @ h) = Some (marshal_claims c, t) \<Longrightarrow>
    Token_Find E' h s = (if ie_clock E' < t then Inr c else Inl [ErrRefreshTokenInvalid])"
  by (simp add: Token_Find_def redis_get_def)

lemma Token_Find_none:
  "\<not> ie_fault E' IdRedisFind \<Longrightarrow> id_redis_tokens s (''refresh:'' @ h) = None \<Longrightarrow>
    Token_Find E' h s = Inl [ErrRefreshTokenInvalid]"
  by (simp add: Token_Find_def redis_get_def)

lemma RefreshToken_Inr:
  assumes "RefreshToken_Execute I E tok s = (Inr resp, s')"
  obtains c where "Token_Find E (RefreshToken_Hash I tok) s = Inr c"
    "JWT_Generate I E (uc_UserID c) (uc_Role c) = Inr (tk_AccessToken resp)"
    "RefreshToken_Generate E = Inr (tk_RefreshToken resp)"
    "s' = snd (Token_Delete E (RefreshToken_Hash I tok) (s\<lparr> id_redis_tokens := (id_redis_tokens s)
       (''refresh:'' @ RefreshToken_Hash I (tk_RefreshToken resp) \<mapsto>
          (marshal_claims c, ie_clock E + refresh_ttl * second)) \<rparr>))"
  using assms
  by (auto simp: RefreshToken_Execute_def Let_def bind_Inr Token_Save_def split: if_splits simp del: bind_simps)

lemma refused_token:
  "\<not> ie_fault E IdRedisFind \<Longrightarrow> id_redis_tokens s (''refresh:'' @ RefreshToken_Hash I tok) = None \<Longrightarrow>
    RefreshToken_Execute I E tok s = (Inl [ErrRefreshTokenInvalid], s)"
  by (simp add: RefreshToken_Execute_def Let_def Token_Find_none)

text \<open>
  C20. A refresh rotates the token: the new one is accepted with the claims of the old one for seven days and not
  longer, the old one is answered with 401 from then on and changes nothing, and all other sessions stay as they
  are; a logout ends exactly the session of its token. (When Redis refuses to delete the old token, it stays
  valid: the code ignores this error.)
\<close>

theorem refresh_rotates:
  assumes run: "RefreshToken_Execute I E tok s = (Inr resp, s')"
    and ok: "\<not> ie_fault E IdRedisDelete"
    and new: "RefreshToken_Hash I (tk_RefreshToken resp) \<noteq> RefreshToken_Hash I tok"
  shows "\<exists>c. Token_Find E (RefreshToken_Hash I tok) s = Inr c \<and>
    (\<forall>E'. \<not> ie_fault E' IdRedisFind \<longrightarrow>
       Token_Find E' (RefreshToken_Hash I (tk_RefreshToken resp)) s' =
         (if ie_clock E' < ie_clock E + 7 * 24 * 3600 * second then Inr c else Inl [ErrRefreshTokenInvalid]) \<and>
       RefreshToken_Execute I E' tok s' = (Inl [ErrRefreshTokenInvalid], s')) \<and>
    (\<forall>E' h. h \<noteq> RefreshToken_Hash I tok \<longrightarrow> h \<noteq> RefreshToken_Hash I (tk_RefreshToken resp) \<longrightarrow>
       Token_Find E' h s' = Token_Find E' h s) \<and>
    (\<forall>E' E'' h. \<not> ie_fault E' IdRedisDelete \<longrightarrow> \<not> ie_fault E'' IdRedisFind \<longrightarrow>
       (case Logout_Execute I E' (tk_RefreshToken resp) s' of (r, s'') \<Rightarrow>
          r = Inr () \<and>
          RefreshToken_Execute I E'' (tk_RefreshToken resp) s'' = (Inl [ErrRefreshTokenInvalid], s'') \<and>
          (h \<noteq> RefreshToken_Hash I (tk_RefreshToken resp) \<longrightarrow> Token_Find E'' h s'' = Token_Find E'' h s'))) \<and>
    id_HandleError [ErrRefreshTokenInvalid] = 401"
proof -
  let ?h = "RefreshToken_Hash I tok" and ?h' = "RefreshToken_Hash I (tk_RefreshToken resp)"
  obtain c where c: "Token_Find E ?h s = Inr c"
    and s': "s' = snd (Token_Delete E ?h (s\<lparr> id_redis_tokens := (id_redis_tokens s)
       (''refresh:'' @ ?h' \<mapsto> (marshal_claims c, ie_clock E + refresh_ttl * second)) \<rparr>))"
    using RefreshToken_Inr [OF run] by blast
  have tokens: "id_redis_tokens s' = (id_redis_tokens s)
       (''refresh:'' @ ?h' \<mapsto> (marshal_claims c, ie_clock E + refresh_ttl * second), ''refresh:'' @ ?h := None)"
    using s' ok by (simp add: Token_Delete_def)
  have "Token_Find E' ?h' s' = (if ie_clock E' < ie_clock E + 7 * 24 * 3600 * second then Inr c else Inl [ErrRefreshTokenInvalid])"
    if "\<not> ie_fault E' IdRedisFind" for E'
    using Token_Find_saved [OF that, of s' ?h' c] tokens new by (simp add: refresh_ttl_def)
  moreover have "RefreshToken_Execute I E' tok s' = (Inl [ErrRefreshTokenInvalid], s')" if "\<not> ie_fault E' IdRedisFind" for E'
    using refused_token [OF that, of s' I tok] tokens by simp
  moreover have "Token_Find E' h s' = Token_Find E' h s" if "h \<noteq> ?h" "h \<noteq> ?h'" for E' h
    using tokens that by (simp add: Token_Find_def redis_get_def)
  moreover have "case Logout_Execute I E' (tk_RefreshToken resp) s' of (r, s'') \<Rightarrow> r = Inr () \<and>
          RefreshToken_Execute I E'' (tk_RefreshToken resp) s'' = (Inl [ErrRefreshTokenInvalid], s'') \<and>
          (h \<noteq> ?h' \<longrightarrow> Token_Find E'' h s'' = Token_Find E'' h s')"
    if "\<not> ie_fault E' IdRedisDelete" "\<not> ie_fault E'' IdRedisFind" for E' E'' h
    using that by (auto simp: Logout_Execute_def Token_Delete_def refused_token Token_Find_def redis_get_def)
  ultimately show ?thesis using c by (auto simp: id_HandleError_def errors_is_def)
qed


text \<open>
  The documented checks of golang-jwt: a token it has signed is parsed back as its claims from \<open>nbf\<close> on until
  before \<open>exp\<close>.
\<close>

definition jwt_law :: "id_lib \<Rightarrow> bool" where
  "jwt_law I \<longleftrightarrow> (\<forall>c tok now. il_jwtSign I c = Some tok \<longrightarrow>
     il_jwtParse I now tok = (if jw_NotBefore c \<le> now \<and> now < jw_ExpiresAt c then Some c else None))"

lemma Login_Inr:
  assumes "users_inv s" "Login_Execute L I E email password s = (Inr resp, s')"
  obtains u where "find_row us_Email (ToLower email) (id_users s) = Some u"
    "il_bcryptMatches I (us_Password u) password"
    "JWT_Generate I E (uuidString L (us_ID u)) (us_Role u) = Inr (tk_AccessToken resp)"
    "s' = snd (User_Update E (u\<lparr> us_LoggedAt := Some (ie_clock E) \<rparr>) (s\<lparr> id_redis_tokens := (id_redis_tokens s)
       (''refresh:'' @ RefreshToken_Hash I (tk_RefreshToken resp) \<mapsto>
          (marshal_claims (user_claims L u), ie_clock E + refresh_ttl * second)) \<rparr>))"
  using assms
  by (auto simp: Login_Execute_def Let_def bind_Inr Token_Save_def find_user user_claims_def
      split: if_splits option.splits simp del: bind_simps)

lemma User_Update_tokens: "id_redis_tokens (snd (User_Update E u s)) = id_redis_tokens s"
  by (simp add: User_Update_def Let_def)

text \<open>
  A login opens a session of the account that has the email and the password: its access token is accepted by the
  forward-auth middleware with the identifier and the role of the account from the second of the login until the
  thirty minutes (a day in development) are over, and refused at all other times; its refresh token is accepted
  for seven days. A wrong password and an unknown email are both answered with 401, and nothing changes.
\<close>

theorem login_session:
  assumes reach: "id_reach L I s" and run: "Login_Execute L I E email password s = (Inr resp, s')"
    and lib: "jwt_law I" "uuid_codec L"
  shows "\<exists>u. u \<in> set (id_users s) \<and> us_Email u = ToLower email \<and> il_bcryptMatches I (us_Password u) password \<and>
    (\<forall>now. AuthMiddleware L I now (''Bearer '' @ tk_AccessToken resp) =
       (if NewNumericDate (ie_clock E) \<le> now \<and> now < NewNumericDate (ie_clock E + access_lifetime I)
        then Some \<lparr> uc_UserID = uuidString L (us_ID u), uc_Role = us_Role u \<rparr> else None)) \<and>
    (\<forall>E'. \<not> ie_fault E' IdRedisFind \<longrightarrow> Token_Find E' (RefreshToken_Hash I (tk_RefreshToken resp)) s' =
       (if ie_clock E' < ie_clock E + 7 * 24 * 3600 * second
        then Inr \<lparr> uc_UserID = uuidString L (us_ID u), uc_Role = us_Role u \<rparr> else Inl [ErrRefreshTokenInvalid])) \<and>
    (\<forall>E' email' password'. \<not> ie_fault E' IdUserFind \<longrightarrow>
       (\<forall>x \<in> set (id_users s). us_Email x = ToLower email' \<longrightarrow> \<not> il_bcryptMatches I (us_Password x) password') \<longrightarrow>
       Login_Execute L I E' email' password' s = (Inl [IdApp ErrUnauthorized], s)) \<and>
    id_HandleError [IdApp ErrUnauthorized] = 401"
proof -
  have users: "users_inv s" using id_inv_parts(1) [OF id_reach_inv [OF reach]] .
  obtain u where u: "find_row us_Email (ToLower email) (id_users s) = Some u"
    "il_bcryptMatches I (us_Password u) password"
    and jwt: "JWT_Generate I E (uuidString L (us_ID u)) (us_Role u) = Inr (tk_AccessToken resp)"
    and s': "s' = snd (User_Update E (u\<lparr> us_LoggedAt := Some (ie_clock E) \<rparr>) (s\<lparr> id_redis_tokens := (id_redis_tokens s)
       (''refresh:'' @ RefreshToken_Hash I (tk_RefreshToken resp) \<mapsto>
          (marshal_claims (user_claims L u), ie_clock E + refresh_ttl * second)) \<rparr>))"
    using Login_Inr [OF users run] by blast
  have "AuthMiddleware L I now (''Bearer '' @ tk_AccessToken resp) =
       (if NewNumericDate (ie_clock E) \<le> now \<and> now < NewNumericDate (ie_clock E + access_lifetime I)
        then Some \<lparr> uc_UserID = uuidString L (us_ID u), uc_Role = us_Role u \<rparr> else None)" for now
    using jwt lib by (auto simp: AuthMiddleware_def JWT_Parse_def JWT_Generate_def Let_def jwt_law_def split: option.splits)
  moreover have "Token_Find E' (RefreshToken_Hash I (tk_RefreshToken resp)) s' =
       (if ie_clock E' < ie_clock E + 7 * 24 * 3600 * second
        then Inr \<lparr> uc_UserID = uuidString L (us_ID u), uc_Role = us_Role u \<rparr> else Inl [ErrRefreshTokenInvalid])"
    if "\<not> ie_fault E' IdRedisFind" for E'
    using Token_Find_saved [OF that, of s' "RefreshToken_Hash I (tk_RefreshToken resp)" "user_claims L u"] s'
    by (simp add: refresh_ttl_def user_claims_def User_Update_tokens)
  moreover have "Login_Execute L I E' email' password' s = (Inl [IdApp ErrUnauthorized], s)"
    if "\<not> ie_fault E' IdUserFind"
      "\<forall>x \<in> set (id_users s). us_Email x = ToLower email' \<longrightarrow> \<not> il_bcryptMatches I (us_Password x) password'"
    for E' email' password'
    using that find_user [OF users, of E' "ToLower email'"]
      find_row_Some [of us_Email "ToLower email'" "id_users s"]
    by (cases "find_row us_Email (ToLower email') (id_users s)") (auto simp: Login_Execute_def fail_def)
  ultimately show ?thesis
    using find_row_Some [OF u(1)] u(2) by (auto simp: id_HandleError_def errors_is_def)
qed

end
