(* ===== verification/Identity_Sample.thy ===== *)
theory Identity_Sample
  imports Identity_Props Sample
begin

text \<open>A run of identity-service: a code is requested, an owner registers with it and logs in. Witnesses.\<close>

definition sample_claims :: jwtClaims where
  "sample_claims = \<lparr> jw_UserID = nat_bin 10, jw_Role = ''owner'', jw_IssuedAt = 120 * second,
     jw_NotBefore = 120 * second, jw_ExpiresAt = (120 + 1800) * second \<rparr>"

definition sample_id_lib :: id_lib where
  "sample_id_lib = \<lparr> il_bcrypt = (\<lambda>salt pw. Some (''#'' @ pw)), il_bcryptMatches = (\<lambda>h pw. h = ''#'' @ pw),
     il_sha256 = (\<lambda>tok. List.map (\<lambda>c. of_nat (of_char c)) tok),
     il_jwtSign = (\<lambda>c. if c = sample_claims then Some ''token'' else None),
     il_jwtParse = (\<lambda>now tok. if tok = ''token'' \<and> 120 * second \<le> now \<and> now < (120 + 1800) * second
       then Some sample_claims else None), il_dev = False \<rparr>"

definition sample_id_env :: "int \<Rightarrow> id_env" where
  "sample_id_env t = \<lparr> ie_fault = (\<lambda>_. False), ie_newV7 = (\<lambda>n. Some (of_nat (10 + n))), ie_clock = t * second,
     ie_trace = '''', ie_code = Some ''123456'', ie_random = Some [of_int t, 7], ie_salt = 0 \<rparr>"

definition sample_owner :: RegisterOwnerRequest where
  "sample_owner = \<lparr> rg_FirstName = '' Ann'', rg_LastName = ''Bo'', rg_Email = ''A@b.eu'', rg_Password = ''pw'',
     rg_Code = ''123456'', rg_BusinessName = ''Pizza'', rg_VATNumber = ''DE123456789'' \<rparr>"

definition sample_guess :: "string \<Rightarrow> RegisterCustomerRequest" where
  "sample_guess code = \<lparr> rg_FirstName = ''X'', rg_LastName = ''Y'', rg_Email = ''a@b.eu'', rg_Password = ''pw'',
     rg_Code = code \<rparr>"

definition empty_id_db :: id_db where
  "empty_id_db = \<lparr> id_users = [], id_verifications = [], id_outbox = \<lparr> ob_rows = [], ob_seq = 1 \<rparr>,
     id_redis_tokens = Map.empty, id_redis_otp = Map.empty \<rparr>"

definition sample_otp :: id_db where
  "sample_otp = snd (id_run sample_lib sample_id_lib (sample_id_env 0) (IqRequestOTP ''A@b.eu'') empty_id_db)"

definition sample_registered :: id_db where
  "sample_registered = snd (id_run sample_lib sample_id_lib (sample_id_env 60) (IqRegisterOwner sample_owner) sample_otp)"

definition sample_logged_in :: id_db where
  "sample_logged_in =
     snd (id_run sample_lib sample_id_lib (sample_id_env 120) (IqLogin ''a@B.eu'' ''pw'') sample_registered)"

lemma sample_id_reach:
  "id_reach sample_lib sample_id_lib sample_otp" "id_reach sample_lib sample_id_lib sample_registered"
  "id_reach sample_lib sample_id_lib sample_logged_in"
proof -
  have "id_reach sample_lib sample_id_lib empty_id_db" unfolding empty_id_db_def by (rule id_reach.start)
  then show a: "id_reach sample_lib sample_id_lib sample_otp" unfolding sample_otp_def by (rule id_reach.request)
  then show b: "id_reach sample_lib sample_id_lib sample_registered"
    unfolding sample_registered_def by (rule id_reach.request)
  then show "id_reach sample_lib sample_id_lib sample_logged_in"
    unfolding sample_logged_in_def by (rule id_reach.request)
qed

lemma sample_text:
  "ToLower ''A@b.eu'' = ''a@b.eu''" "ToLower ''a@B.eu'' = ''a@b.eu''" "ToLower ''a@b.eu'' = ''a@b.eu''"
  "TrimSpace '' Ann'' = ''Ann''" "TrimSpace ''Bo'' = ''Bo''"
  "char6 ''...'' = ''...   ''" "char6 ''123456'' = ''123456''"
  by code_simp+

lemma sample_id_env_simps [simp]:
  "\<not> ie_fault (sample_id_env t) c" "ie_newV7 (sample_id_env t) n = Some (of_nat (10 + n))"
  "ie_clock (sample_id_env t) = t * second" "ie_trace (sample_id_env t) = ''''" "ie_code (sample_id_env t) = Some ''123456''"
  "ie_random (sample_id_env t) = Some [of_int t, 7]" "ie_salt (sample_id_env t) = 0"
  by (simp_all add: sample_id_env_def)

lemmas id_operations = bind_def ret_def query_def ensure_def fail_def void_def transaction_def Let_def newV7_def

definition sample_code :: EmailVerification where
  "sample_code = \<lparr> ev_ID = 10, ev_Email = ''a@b.eu'', ev_Code = ''123456'', ev_IsUsed = False, ev_AttemptCount = 0,
     ev_ExpiresAt = 15 * 60 * second, ev_CreatedAt = 0, ev_events = [] \<rparr>"

lemma sample_otp_eq:
  "sample_otp = empty_id_db\<lparr> id_verifications := [sample_code],
     id_outbox := outbox_Create '''' (code_row sample_lib (sample_id_env 0) sample_code) (id_outbox empty_id_db),
     id_redis_otp := [''otp_request:a@b.eu'' \<mapsto> 60 * second] \<rparr>"
  by (simp add: id_operations sample_otp_def empty_id_db_def RequestEmailOTP_Execute_def EmailExists_def Allow_def
      sample_text Ver_FindByEmail_def issue_code_def Ver_Create_def verification_row_ok_def
      Auth_DispatchEventsTx_def Verification_PullEvents_def MarkCreated_def id_Outbox_Create_def stored_verification_def
      sample_code_def code_row_def otp_cooldown_def otp_expiry_def zero_time_def)

lemmas register_operations = RegisterOwner_Execute_def Verify_def Verify_prepare_def Ver_FindByEmail_def
  Verify_commit_def Ver_Updates_def verification_row_ok_def create_user_def User_Create_def user_row_ok_def
  User_DispatchEventsTx_def User_PullEvents_def MarkRegistered_def MarkRestaurantInitiated_def new_user_def
  id_Outbox_Create_def Hash_def maxVerificationAttempts_def zero_time_def

definition sample_user :: User where
  "sample_user = \<lparr> us_ID = 10, us_FirstName = ''Ann'', us_LastName = ''Bo'', us_Email = ''a@b.eu'', us_Password = ''#pw'',
     us_Role = ''owner'', us_Status = ''active'', us_LoggedAt = None, us_CreatedAt = 60 * second, us_UpdatedAt = None,
     us_events = [] \<rparr>"

lemma sample_registered_run:
  "\<exists>resp. RegisterOwner_Execute sample_lib sample_id_lib (sample_id_env 60) sample_owner sample_otp =
    (Inr resp, sample_registered)"
  by (simp add: id_operations register_operations sample_registered_def sample_otp_eq sample_owner_def sample_text
      sample_code_def sample_id_lib_def second_def empty_id_db_def)

lemma sample_registered_db:
  "id_users sample_registered = [sample_user] \<and> id_verifications sample_registered = [used_up sample_code] \<and>
    id_redis_tokens sample_registered = Map.empty"
  by (simp add: id_operations register_operations sample_registered_def sample_otp_eq sample_owner_def sample_text
      sample_code_def sample_id_lib_def second_def empty_id_db_def sample_user_def stored_user_def used_up_def
      stored_verification_def)

lemma sample_hex: "EncodeHex [0x78, 7] = ''7807''" "EncodeHex [0x37, 0x38, 0x30, 0x37] = ''37383037''"
  by code_simp+

lemma sample_login_run:
  "\<exists>resp. Login_Execute sample_lib sample_id_lib (sample_id_env 120) ''a@B.eu'' ''pw'' sample_registered =
      (Inr resp, sample_logged_in) \<and>
    tk_RefreshToken resp = ''7807'' \<and> List.map us_Email (id_users sample_logged_in) = [''a@b.eu''] \<and>
    id_redis_tokens sample_logged_in = [''refresh:37383037'' \<mapsto>
      (marshal_claims \<lparr> uc_UserID = nat_bin 10, uc_Role = ''owner'' \<rparr>, (120 + 7 * 24 * 3600) * second)]"
proof -
  have "NewNumericDate (120 * second) = 120 * second" "NewNumericDate (120 * second + 1800 * second) = 1920 * second"
    by (simp_all add: NewNumericDate_def second_def)
  then have jwt: "JWT_Generate sample_id_lib (sample_id_env 120) (nat_bin 10) ''owner'' = Inr ''token''"
    by (simp add: JWT_Generate_def access_lifetime_def Let_def sample_id_lib_def sample_claims_def)
  show ?thesis
    using sample_registered_db jwt
    by (simp add: id_operations sample_logged_in_def Login_Execute_def FindByEmail_def sample_text RefreshToken_Generate_def
        sample_hex RefreshToken_Hash_def Token_Save_def User_Update_def sample_user_def user_row_ok_def save_row_def
        stored_user_def sample_lib_def refresh_ttl_def sample_id_lib_def second_def)
qed

lemma identity_accounts_witness:
  "List.map us_Email (id_users sample_logged_in) = [''a@b.eu''] \<and> distinct (List.map us_Email (id_users sample_logged_in))"
  using identity_accounts [OF sample_id_reach(3)] sample_login_run by blast

lemma registration_needs_code_witness:
  "\<exists>v u. find_row ev_Email ''a@b.eu'' (id_verifications sample_otp) = Some v \<and> ev_Code v = ''123456'' \<and>
    id_users sample_registered = id_users sample_otp @ [u] \<and> us_FirstName u = ''Ann''"
proof -
  obtain resp where run: "RegisterOwner_Execute sample_lib sample_id_lib (sample_id_env 60) sample_owner sample_otp =
    (Inr resp, sample_registered)" using sample_registered_run by blast
  show ?thesis
    using registration_needs_code [OF sample_id_reach(1) run]
    by (auto simp: sample_owner_def sample_text)
qed

lemma guess_cap_witness:
  "fst (register_all sample_lib sample_id_lib (replicate 5 (sample_id_env 60, sample_guess ''000000'')) sample_otp) =
    replicate 3 (Inl [ErrCodeInvalid]) @ replicate 2 (Inl [ErrTooManyAttempts])"
proof -
  let ?gs = "replicate 5 (sample_id_env 60, sample_guess ''000000'')"
  obtain rs s' where run: "register_all sample_lib sample_id_lib ?gs sample_otp = (rs, s')" by fastforce
  have v: "find_row ev_Email ''a@b.eu'' (id_verifications sample_otp) = Some sample_code"
    by (simp add: sample_otp_eq sample_code_def)
  have "rs = replicate (min (length ?gs) 3) (Inl [ErrCodeInvalid]) @ replicate (length ?gs - 3) (Inl [ErrTooManyAttempts])"
    using guess_cap [OF sample_id_reach(1) v _ _ run, of 3]
    by (simp add: sample_code_def sample_guess_def sample_text)
  then show ?thesis by (simp add: run)
qed

lemma guess_cap_race_witness:
  "\<exists>s'. commit_all sample_code (replicate 100 (sample_id_env 60, ''000000'') @ [(sample_id_env 60, ''123456'')]) sample_otp =
    (replicate 100 (Inl [ErrCodeInvalid]) @ [Inr ()], s')"
proof -
  have read: "Verify_prepare (sample_id_env 60) ''a@b.eu'' sample_otp = Inr sample_code"
    by (simp add: Verify_prepare_def Ver_FindByEmail_def sample_otp_eq sample_code_def maxVerificationAttempts_def)
  show ?thesis
    using guess_cap_race [OF sample_id_reach(1) _ read, of "replicate 100 (sample_id_env 60, ''000000'')"]
      read by (auto simp: sample_code_def second_def)
qed

lemma login_session_witness:
  "\<exists>resp. fst (Login_Execute sample_lib sample_id_lib (sample_id_env 120) ''a@B.eu'' ''pw'' sample_registered) = Inr resp \<and>
    AuthMiddleware sample_lib sample_id_lib (500 * second) (''Bearer '' @ tk_AccessToken resp) =
      Some \<lparr> uc_UserID = nat_bin 10, uc_Role = ''owner'' \<rparr>"
proof -
  obtain resp where run: "Login_Execute sample_lib sample_id_lib (sample_id_env 120) ''a@B.eu'' ''pw'' sample_registered =
      (Inr resp, sample_logged_in)" using sample_login_run by blast
  have "jwt_law sample_id_lib"
    by (auto simp: jwt_law_def sample_id_lib_def sample_claims_def)
  from login_session [OF sample_id_reach(2) run this sample_codecs(1)] run show ?thesis
    using sample_registered_db
    by (auto simp: sample_user_def NewNumericDate_def access_lifetime_def sample_id_lib_def second_def sample_lib_def)
qed

lemma refresh_rotates_witness:
  "\<exists>resp s'. RefreshToken_Execute (sample_id_lib\<lparr> il_jwtSign := \<lambda>_. Some ''t'' \<rparr>) (sample_id_env 121) ''7807'' sample_logged_in =
      (Inr resp, s') \<and>
    RefreshToken_Execute (sample_id_lib\<lparr> il_jwtSign := \<lambda>_. Some ''t'' \<rparr>) (sample_id_env 700) ''7807'' s' =
      (Inl [ErrRefreshTokenInvalid], s')"
proof -
  let ?I = "sample_id_lib\<lparr> il_jwtSign := \<lambda>_. Some ''t'' \<rparr>"
  have hex: "EncodeHex [0x79, 7] = ''7907''" "EncodeHex [0x37, 0x39, 0x30, 0x37] = ''37393037''" by code_simp+
  obtain s' resp where run: "RefreshToken_Execute ?I (sample_id_env 121) ''7807'' sample_logged_in = (Inr resp, s')"
    "tk_RefreshToken resp = ''7907''"
    using sample_login_run
    by (auto simp: id_operations RefreshToken_Execute_def RefreshToken_Hash_def Token_Find_def redis_get_def
        sample_hex hex JWT_Generate_def Token_Save_def Token_Delete_def RefreshToken_Generate_def sample_id_lib_def second_def)
  show ?thesis
    using refresh_rotates [OF run(1)] run sample_hex hex
    by (auto simp: RefreshToken_Hash_def sample_id_lib_def)
qed

end
