(* ===== verification/Customer_Service.thy ===== *)
theory Customer_Service
  imports Outbox
begin

text \<open>
  Customer-service: customers and their saved addresses (\<open>internal/domain/customer\<close>), the repositories, the
  commands and queries of \<open>internal/application\<close>, and the two inbound events. Names that order-service
  uses already have the suffix \<open>_cs\<close>.
\<close>

datatype cs_err = CsApp apperr

subsection \<open>Data\<close>

record Customer_cs =
  cc_ID :: uuid
  cc_Email :: string
  cc_FirstName :: string
  cc_LastName :: string
  cc_Phone :: "string option"
  cc_UpdatedAt :: "time option"

definition SetPhone :: "string \<Rightarrow> Customer_cs \<Rightarrow> Customer_cs" where
  "SetPhone phone c = c\<lparr> cc_Phone := Some phone \<rparr>"

record Address_cs =
  ca_ID :: uuid
  ca_CustomerID :: uuid
  ca_House :: string
  ca_Street :: string
  ca_City :: string
  ca_PostalCode :: string
  ca_IsDefault :: bool
  ca_CreatedAt :: time
  ca_UpdatedAt :: "time option"

definition NewAddress :: "uuid option \<Rightarrow> uuid \<Rightarrow> string \<Rightarrow> string \<Rightarrow> string \<Rightarrow> string \<Rightarrow> bool \<Rightarrow>
    (cs_err, Address_cs) result" where
  "NewAddress newV7 customerID house street city postalCode isDefault = (case newV7 of
     None \<Rightarrow> Inl []
   | Some ident \<Rightarrow> Inr \<lparr> ca_ID = ident, ca_CustomerID = customerID, ca_House = house, ca_Street = street,
       ca_City = city, ca_PostalCode = postalCode, ca_IsDefault = isDefault, ca_CreatedAt = zero_time,
       ca_UpdatedAt = None \<rparr>)"

record cs_db =
  ct_customers :: "Customer_cs list"
  ct_addresses :: "Address_cs list"
  ct_outbox :: outbox_table

datatype cs_site =
    CsCustomerFind | CsCustomerUpsert | CsCustomerUpdate
  | CsAddressCreate | CsAddressDelete | CsAddressFind | CsAddressList | CsAddressUnset | CsAddressSet | CsAddressExists
  | CsOutboxCreate | CsCommit

record cs_env =
  ce_fault :: "cs_site \<Rightarrow> bool"
  ce_newV7 :: "uuid option"
  ce_clock :: time
  ce_trace :: string

type_synonym 'a cs_op = "(cs_db, cs_err, 'a) op"

subsection \<open>Repositories\<close>

definition customer_cs_row_ok :: "Customer_cs \<Rightarrow> bool" where
  "customer_cs_row_ok c \<longleftrightarrow> fits 255 (Some (cc_Email c)) \<and> fits 128 (Some (cc_FirstName c)) \<and>
     fits 128 (Some (cc_LastName c)) \<and> fits 32 (cc_Phone c)"

definition Upsert_cs :: "cs_env \<Rightarrow> Customer_cs \<Rightarrow> unit cs_op" where
  "Upsert_cs E c s =
     (if ce_fault E CsCustomerUpsert \<or> \<not> customer_cs_row_ok c then (Inl [], s)
      else (Inr (), s\<lparr> ct_customers := insert_ignore cc_ID c (ct_customers s) \<rparr>))"

text \<open>\<open>Save\<close> stamps \<open>UpdatedAt\<close> in the caller's object as well, which it therefore returns.\<close>

definition Update_cs :: "cs_env \<Rightarrow> Customer_cs \<Rightarrow> Customer_cs cs_op" where
  "Update_cs E c0 s =
     (let c = c0\<lparr> cc_UpdatedAt := Some (ce_clock E) \<rparr> in
      if ce_fault E CsCustomerUpdate \<or> \<not> customer_cs_row_ok c then (Inl [], s)
      else (Inr c, s\<lparr> ct_customers := save_row cc_ID c (ct_customers s) \<rparr>))"

definition FindByID_cs :: "cs_env \<Rightarrow> uuid \<Rightarrow> cs_db \<Rightarrow> (cs_err, Customer_cs option) result" where
  "FindByID_cs E ident s = io (ce_fault E) CsCustomerFind (Inr (find_row cc_ID ident (ct_customers s)))"

definition address_row_ok :: "Address_cs \<Rightarrow> bool" where
  "address_row_ok a \<longleftrightarrow> fits 20 (Some (ca_House a)) \<and> fits 255 (Some (ca_Street a)) \<and> fits 100 (Some (ca_City a)) \<and>
     fits 20 (Some (ca_PostalCode a))"

text \<open>The foreign key and the partial unique index: a customer has at most one default address.\<close>

definition other_default :: "Address_cs \<Rightarrow> Address_cs list \<Rightarrow> bool" where
  "other_default a rows \<longleftrightarrow> (\<exists>x \<in> set rows. ca_ID x \<noteq> ca_ID a \<and> ca_CustomerID x = ca_CustomerID a \<and> ca_IsDefault x)"

definition Address_Create :: "cs_env \<Rightarrow> Address_cs \<Rightarrow> unit cs_op" where
  "Address_Create E a0 s =
     (let a = a0\<lparr> ca_CreatedAt := (if ca_CreatedAt a0 = zero_time then ce_clock E else ca_CreatedAt a0) \<rparr> in
      if ce_fault E CsAddressCreate \<or> \<not> address_row_ok a \<or>
         find_row cc_ID (ca_CustomerID a) (ct_customers s) = None \<or>
         find_row ca_ID (ca_ID a) (ct_addresses s) \<noteq> None \<or>
         (ca_IsDefault a \<and> other_default a (ct_addresses s))
      then (Inl [], s)
      else (Inr (), s\<lparr> ct_addresses := ct_addresses s @ [a] \<rparr>))"

definition Address_Delete :: "cs_env \<Rightarrow> uuid \<Rightarrow> uuid \<Rightarrow> unit cs_op" where
  "Address_Delete E ident customerID s =
     (let P = \<lambda>a. ca_ID a = ident \<and> ca_CustomerID a = customerID in
      if ce_fault E CsAddressDelete then (Inl [], s)
      else if rows_affected P (ct_addresses s) = 0 then (Inl [CsApp ErrNotFound], s)
      else (Inr (), s\<lparr> ct_addresses := delete_where P (ct_addresses s) \<rparr>))"

definition Address_FindByID :: "cs_env \<Rightarrow> uuid \<Rightarrow> uuid \<Rightarrow> cs_db \<Rightarrow> (cs_err, Address_cs option) result" where
  "Address_FindByID E ident customerID s = io (ce_fault E) CsAddressFind
     (Inr (List.find (\<lambda>a. ca_ID a = ident \<and> ca_CustomerID a = customerID) (ct_addresses s)))"

definition ListByCustomer :: "cs_env \<Rightarrow> uuid \<Rightarrow> cs_db \<Rightarrow> (cs_err, Address_cs list) result" where
  "ListByCustomer E customerID s = io (ce_fault E) CsAddressList
     (Inr (sort_key (\<lambda>a. (\<not> ca_IsDefault a, ca_CreatedAt a))
       (filter (\<lambda>a. ca_CustomerID a = customerID) (ct_addresses s))))"

text \<open>\<open>Update\<close> of one column stamps \<open>updated_at\<close> as well.\<close>

definition UnsetDefault :: "cs_env \<Rightarrow> uuid \<Rightarrow> unit cs_op" where
  "UnsetDefault E customerID s =
     (if ce_fault E CsAddressUnset then (Inl [], s)
      else (Inr (), s\<lparr> ct_addresses := update_where (\<lambda>a. ca_CustomerID a = customerID \<and> ca_IsDefault a)
        (\<lambda>a. a\<lparr> ca_IsDefault := False, ca_UpdatedAt := Some (ce_clock E) \<rparr>) (ct_addresses s) \<rparr>))"

definition Address_SetDefault :: "cs_env \<Rightarrow> uuid \<Rightarrow> unit cs_op" where
  "Address_SetDefault E ident s =
     (if ce_fault E CsAddressSet \<or> (\<exists>a \<in> set (ct_addresses s). ca_ID a = ident \<and> other_default a (ct_addresses s))
      then (Inl [], s)
      else if rows_affected (\<lambda>a. ca_ID a = ident) (ct_addresses s) = 0 then (Inl [CsApp ErrNotFound], s)
      else (Inr (), s\<lparr> ct_addresses := update_where (\<lambda>a. ca_ID a = ident)
        (\<lambda>a. a\<lparr> ca_IsDefault := True, ca_UpdatedAt := Some (ce_clock E) \<rparr>) (ct_addresses s) \<rparr>))"

definition same_address :: "uuid \<Rightarrow> string \<Rightarrow> string \<Rightarrow> string \<Rightarrow> string \<Rightarrow> Address_cs \<Rightarrow> bool" where
  "same_address customerID house street city postalCode a \<longleftrightarrow> ca_CustomerID a = customerID \<and> ca_House a = house \<and>
     ca_Street a = street \<and> ca_City a = city \<and> ca_PostalCode a = postalCode"

definition ExistsForCustomer :: "cs_env \<Rightarrow> uuid \<Rightarrow> string \<Rightarrow> string \<Rightarrow> string \<Rightarrow> string \<Rightarrow> cs_db \<Rightarrow>
    (cs_err, bool) result" where
  "ExistsForCustomer E customerID house street city postalCode s = io (ce_fault E) CsAddressExists
     (Inr (0 < length (filter (same_address customerID house street city postalCode) (ct_addresses s))))"

definition cs_Outbox_Create :: "cs_env \<Rightarrow> OutboxEvent \<Rightarrow> unit cs_op" where
  "cs_Outbox_Create E e s =
     (if ce_fault E CsOutboxCreate then (Inl [], s)
      else (Inr (), s\<lparr> ct_outbox := outbox_Create (ce_trace E) e (ct_outbox s) \<rparr>))"

subsection \<open>Commands and queries\<close>

record GetProfileResponse =
  gp_ID :: uuid
  gp_Email :: string
  gp_FirstName :: string
  gp_LastName :: string
  gp_Phone :: "string option"
  gp_UpdatedAt :: "time option"

definition ToProfileResponse :: "Customer_cs \<Rightarrow> GetProfileResponse" where
  "ToProfileResponse c = \<lparr> gp_ID = cc_ID c, gp_Email = cc_Email c, gp_FirstName = cc_FirstName c,
     gp_LastName = cc_LastName c, gp_Phone = cc_Phone c, gp_UpdatedAt = cc_UpdatedAt c \<rparr>"

definition marshal_PhoneUpdated :: "'d lib \<Rightarrow> uuid \<Rightarrow> string \<Rightarrow> time \<Rightarrow> json" where
  "marshal_PhoneUpdated L customerID phone occurredAt = JObj
   [(''customer_id'', enc_uuid L customerID), (''phone'', JStr phone),
    (''event_name'', JStr ''customer.phone_updated''), (''occurred_at'', enc_time L occurredAt)]"

definition found_customer :: "cs_env \<Rightarrow> uuid \<Rightarrow> Customer_cs cs_op" where
  "found_customer E customerID =
     bind (query (FindByID_cs E customerID)) (\<lambda>found. case found of
       None \<Rightarrow> fail [CsApp ErrNotFound] | Some c \<Rightarrow> ret c)"

definition UpdatePhone_Execute :: "'d lib \<Rightarrow> cs_env \<Rightarrow> uuid \<Rightarrow> string \<Rightarrow> GetProfileResponse cs_op" where
  "UpdatePhone_Execute L E customerID phone =
     bind (found_customer E customerID) (\<lambda>c.
     bind (transaction (ce_fault E) CsCommit
       (bind (Update_cs E (SetPhone phone c)) (\<lambda>c'.
        bind (cs_Outbox_Create E (NewOutboxEvent (ce_clock E) (cc_ID c) ''customer.phone_updated''
               (marshal_PhoneUpdated L (cc_ID c) phone (ce_clock E)))) (\<lambda>_. ret c')))) (\<lambda>c'.
     ret (ToProfileResponse c')))"

definition GetProfile_Execute :: "cs_env \<Rightarrow> uuid \<Rightarrow> GetProfileResponse cs_op" where
  "GetProfile_Execute E customerID = bind (found_customer E customerID) (\<lambda>c. ret (ToProfileResponse c))"

record AddressResponse_cs =
  ar_ID :: uuid
  ar_House :: string
  ar_Street :: string
  ar_City :: string
  ar_PostalCode :: string
  ar_IsDefault :: bool
  ar_CreatedAt :: time

definition ToAddressResponse :: "Address_cs \<Rightarrow> AddressResponse_cs" where
  "ToAddressResponse a = \<lparr> ar_ID = ca_ID a, ar_House = ca_House a, ar_Street = ca_Street a, ar_City = ca_City a,
     ar_PostalCode = ca_PostalCode a, ar_IsDefault = ca_IsDefault a, ar_CreatedAt = ca_CreatedAt a \<rparr>"

definition DeleteAddress_Execute :: "cs_env \<Rightarrow> uuid \<Rightarrow> uuid \<Rightarrow> unit cs_op" where
  "DeleteAddress_Execute E customerID addressID = Address_Delete E addressID customerID"

definition SetDefault_Execute :: "cs_env \<Rightarrow> uuid \<Rightarrow> uuid \<Rightarrow> AddressResponse_cs cs_op" where
  "SetDefault_Execute E customerID addressID =
     bind (query (Address_FindByID E addressID customerID)) (\<lambda>found. case found of
       None \<Rightarrow> fail [CsApp ErrNotFound]
     | Some a \<Rightarrow>
         bind (transaction (ce_fault E) CsCommit
           (bind (UnsetDefault E customerID) (\<lambda>_. Address_SetDefault E addressID))) (\<lambda>_.
         ret (ToAddressResponse (a\<lparr> ca_IsDefault := True \<rparr>))))"

definition ListAddresses_Execute :: "cs_env \<Rightarrow> uuid \<Rightarrow> AddressResponse_cs list cs_op" where
  "ListAddresses_Execute E customerID =
     bind (query (ListByCustomer E customerID)) (\<lambda>rows. ret (List.map ToAddressResponse rows))"

subsection \<open>Inbound events\<close>

definition UserRegistered_Handle :: "'d lib \<Rightarrow> cs_env \<Rightarrow> json option \<Rightarrow> unit cs_op" where
  "UserRegistered_Handle L E body = (case body of
     None \<Rightarrow> fail []
   | Some j \<Rightarrow>
       if \<not> is_struct j then fail []
       else (case (dec_uuid L (member j ''user_id''), dec_str (member j ''email''), dec_str (member j ''first_name''),
                   dec_str (member j ''last_name'')) of
          (Some userID, Some email, Some firstName, Some lastName) \<Rightarrow>
            Upsert_cs E \<lparr> cc_ID = userID, cc_Email = email, cc_FirstName = firstName, cc_LastName = lastName,
              cc_Phone = None, cc_UpdatedAt = None \<rparr>
        | _ \<Rightarrow> fail []))"

definition save_address :: "cs_env \<Rightarrow> uuid \<Rightarrow> string \<Rightarrow> string \<Rightarrow> string \<Rightarrow> string \<Rightarrow> unit cs_op" where
  "save_address E customerID house street city postalCode =
     bind (query (ExistsForCustomer E customerID house street city postalCode)) (\<lambda>exists.
     if exists then ret ()
     else
       bind (query (ListByCustomer E customerID)) (\<lambda>existing.
       bind (query (\<lambda>_. NewAddress (ce_newV7 E) customerID house street city postalCode (existing = [])))
         (Address_Create E)))"

definition AddressSaved_Handle :: "'d lib \<Rightarrow> cs_env \<Rightarrow> json option \<Rightarrow> unit cs_op" where
  "AddressSaved_Handle L E body = (case body of
     None \<Rightarrow> fail []
   | Some j \<Rightarrow>
       if \<not> is_struct j then fail []
       else (case (dec_uuid L (member j ''customer_id''), dec_str (member j ''house''), dec_str (member j ''street''),
                   dec_str (member j ''city''), dec_str (member j ''postal_code'')) of
          (Some customerID, Some house, Some street, Some city, Some postalCode) \<Rightarrow>
            save_address E customerID house street city postalCode
        | _ \<Rightarrow> fail []))"

definition cs_Dispatch :: "'d lib \<Rightarrow> string \<Rightarrow> cs_env \<Rightarrow> json option \<Rightarrow> unit cs_op" where
  "cs_Dispatch L name E body =
     (if name = ''order.address_saved'' then AddressSaved_Handle L E body
      else if name = ''user.registered'' then UserRegistered_Handle L E body
      else fail [])"

subsection \<open>HTTP\<close>

definition cs_HandleError :: "cs_err list \<Rightarrow> nat" where
  "cs_HandleError err =
     (if errors_is err (CsApp ErrUnauthorized) then 401
      else if errors_is err (CsApp ErrForbidden) then 403
      else if errors_is err (CsApp ErrNotFound) then 404
      else if errors_is err (CsApp ErrInvalid) then 422
      else if errors_is err (CsApp ErrConflict) then 409
      else 500)"

end
