(* ===== verification/Customer_Props.thy ===== *)
theory Customer_Props
  imports Customer_Service
begin

text \<open>
  The states customer-service reaches, with their invariant: the address book has no duplicates, at most one default
  address per customer and no address without its customer; and what SetDefault does.
\<close>

datatype cs_request =
    CqUpdatePhone uuid string
  | CqGetProfile uuid
  | CqDelete uuid uuid
  | CqSetDefault uuid uuid
  | CqList uuid
  | CqMessage string "json option"

fun cs_run :: "'d lib \<Rightarrow> cs_env \<Rightarrow> cs_request \<Rightarrow> unit cs_op" where
  "cs_run L E (CqUpdatePhone customerID phone) = void (UpdatePhone_Execute L E customerID phone)"
| "cs_run L E (CqGetProfile customerID) = void (GetProfile_Execute E customerID)"
| "cs_run L E (CqDelete customerID addressID) = DeleteAddress_Execute E customerID addressID"
| "cs_run L E (CqSetDefault customerID addressID) = void (SetDefault_Execute E customerID addressID)"
| "cs_run L E (CqList customerID) = void (ListAddresses_Execute E customerID)"
| "cs_run L E (CqMessage name body) = cs_Dispatch L name E body"

inductive cs_reach :: "'d lib \<Rightarrow> cs_db \<Rightarrow> bool" for L where
  start: "ct_customers s = [] \<Longrightarrow> ct_addresses s = [] \<Longrightarrow> ct_outbox s = \<lparr> ob_rows = [], ob_seq = 1 \<rparr> \<Longrightarrow> cs_reach L s"
| request: "cs_reach L s \<Longrightarrow> cs_reach L (snd (cs_run L E rq s))"

subsection \<open>The invariant\<close>

definition address_text :: "Address_cs \<Rightarrow> uuid \<times> string \<times> string \<times> string \<times> string" where
  "address_text a = (ca_CustomerID a, ca_House a, ca_Street a, ca_City a, ca_PostalCode a)"

definition one_default :: "Address_cs list \<Rightarrow> bool" where
  "one_default rows \<longleftrightarrow> (\<forall>a \<in> set rows. \<forall>x \<in> set rows. ca_IsDefault a \<longrightarrow> ca_IsDefault x \<longrightarrow>
     ca_CustomerID a = ca_CustomerID x \<longrightarrow> ca_ID a = ca_ID x)"

definition cs_inv :: "cs_db \<Rightarrow> bool" where
  "cs_inv s \<longleftrightarrow> distinct (List.map cc_ID (ct_customers s)) \<and>
     distinct (List.map ca_ID (ct_addresses s)) \<and> distinct (List.map address_text (ct_addresses s)) \<and>
     (\<forall>a \<in> set (ct_addresses s). ca_CustomerID a \<in> cc_ID ` set (ct_customers s)) \<and> one_default (ct_addresses s)"

lemma keeps_void [keeps_intro]: "keeps P m \<Longrightarrow> keeps P (void m)"
  unfolding void_def by (intro keeps_intro)

lemma keeps_ensure_inv:
  assumes "\<And>s r s'. m s = (r, s') \<Longrightarrow> P s \<Longrightarrow> P s'"
  shows "keeps P m"
proof (rule keepsI)
  fix s
  assume "P s"
  then show "P (snd (m s))" using assms [of s "fst (m s)" "snd (m s)"] by simp
qed

lemma cs_inv_outbox [simp]: "cs_inv (s\<lparr> ct_outbox := t \<rparr>) = cs_inv s"
  by (simp add: cs_inv_def)

lemma Update_cs_keeps [keeps_intro]:
  "keeps cs_inv (Update_cs E c)"
proof (rule keeps_ensure_inv)
  fix s r s'
  assume run: "Update_cs E c s = (r, s')" and inv: "cs_inv s"
  let ?c = "c\<lparr> cc_UpdatedAt := Some (ce_clock E) \<rparr>"
  have "distinct (List.map cc_ID (save_row cc_ID ?c (ct_customers s)))"
    using inv save_row_map_key [of _ "ct_customers s" cc_ID ?c]
    by (cases "find_row cc_ID (cc_ID ?c) (ct_customers s)")
      (auto simp: cs_inv_def save_row_def find_row_None_image map_key_update)
  moreover have sub: "cc_ID ` set (ct_customers s) \<subseteq> cc_ID ` set (save_row cc_ID ?c (ct_customers s))"
  proof
    fix i
    assume "i \<in> cc_ID ` set (ct_customers s)"
    then obtain x where "x \<in> set (ct_customers s)" "i = cc_ID x" by blast
    then show "i \<in> cc_ID ` set (save_row cc_ID ?c (ct_customers s))"
      using save_row_mem [of ?c cc_ID "ct_customers s"] save_row_other [of x "ct_customers s" cc_ID ?c]
      by (cases "cc_ID x = cc_ID ?c") (auto intro: rev_image_eqI)
  qed
  ultimately show "cs_inv s'"
    using run inv by (auto simp: Update_cs_def Let_def cs_inv_def split: if_splits intro!: subsetD [OF sub])
qed

lemma cs_Outbox_Create_keeps [keeps_intro]: "keeps cs_inv (cs_Outbox_Create E e)"
  by (rule keeps_ensure_inv) (auto simp: cs_Outbox_Create_def split: if_splits)

lemma Upsert_cs_keeps [keeps_intro]: "keeps cs_inv (Upsert_cs E c)"
  by (rule keeps_ensure_inv)
    (auto simp: Upsert_cs_def cs_inv_def insert_ignore_def find_row_None_image split: if_splits)

lemma Address_Delete_keeps [keeps_intro]: "keeps cs_inv (Address_Delete E i c)"
proof (rule keeps_ensure_inv)
  fix s r s'
  assume run: "Address_Delete E i c s = (r, s')" and inv: "cs_inv s"
  have "cs_inv (s\<lparr> ct_addresses := filter P (ct_addresses s) \<rparr>)" for P
    using inv by (simp add: cs_inv_def distinct_map_filter one_default_def)
  then show "cs_inv s'"
    using run inv by (auto simp: Address_Delete_def Let_def delete_where_def split: if_splits)
qed

lemma UnsetDefault_keeps [keeps_intro]: "keeps cs_inv (UnsetDefault E c)"
proof (rule keeps_ensure_inv)
  fix s r s'
  assume run: "UnsetDefault E c s = (r, s')" and inv: "cs_inv s"
  let ?P = "\<lambda>a. ca_CustomerID a = c \<and> ca_IsDefault a"
  let ?f = "\<lambda>a. a\<lparr> ca_IsDefault := False, ca_UpdatedAt := Some (ce_clock E) \<rparr>"
  have "List.map ca_ID (update_where ?P ?f rows) = List.map ca_ID rows"
    "List.map address_text (update_where ?P ?f rows) = List.map address_text rows" for rows
    by (rule map_key_update; simp add: address_text_def)+
  moreover have "one_default (update_where ?P ?f (ct_addresses s))"
    unfolding one_default_def set_update_where
  proof (intro ballI impI)
    fix a x
    assume "a \<in> (\<lambda>r. if ?P r then ?f r else r) ` set (ct_addresses s)"
      "x \<in> (\<lambda>r. if ?P r then ?f r else r) ` set (ct_addresses s)"
      "ca_IsDefault a" "ca_IsDefault x" "ca_CustomerID a = ca_CustomerID x"
    then have "a \<in> set (ct_addresses s)" "x \<in> set (ct_addresses s)" by (auto split: if_splits)
    then show "ca_ID a = ca_ID x"
      using inv \<open>ca_IsDefault a\<close> \<open>ca_IsDefault x\<close> \<open>ca_CustomerID a = ca_CustomerID x\<close>
      unfolding cs_inv_def one_default_def by blast
  qed
  ultimately show "cs_inv s'"
    using run inv by (auto simp: UnsetDefault_def cs_inv_def set_update_where split: if_splits)
qed

lemma Address_SetDefault_keeps [keeps_intro]: "keeps cs_inv (Address_SetDefault E i)"
proof (rule keeps_ensure_inv)
  fix s r s'
  assume run: "Address_SetDefault E i s = (r, s')" and inv: "cs_inv s"
  let ?P = "\<lambda>a. ca_ID a = i"
  let ?f = "\<lambda>a. a\<lparr> ca_IsDefault := True, ca_UpdatedAt := Some (ce_clock E) \<rparr>"
  have maps: "List.map ca_ID (update_where ?P ?f rows) = List.map ca_ID rows"
    "List.map address_text (update_where ?P ?f rows) = List.map address_text rows" for rows
    by (rule map_key_update; simp add: address_text_def)+
  show "cs_inv s'"
  proof (cases r)
    case (Inr u)
    then have ok: "\<forall>a \<in> set (ct_addresses s). ca_ID a = i \<longrightarrow> \<not> other_default a (ct_addresses s)"
      and s': "s' = s\<lparr> ct_addresses := update_where ?P ?f (ct_addresses s) \<rparr>"
      using run by (auto simp: Address_SetDefault_def split: if_splits)
    have "one_default (update_where ?P ?f (ct_addresses s))"
      unfolding one_default_def set_update_where
    proof (intro ballI impI)
      fix a x
      assume "a \<in> (\<lambda>r. if ?P r then ?f r else r) ` set (ct_addresses s)"
        "x \<in> (\<lambda>r. if ?P r then ?f r else r) ` set (ct_addresses s)"
        "ca_IsDefault a" "ca_IsDefault x" "ca_CustomerID a = ca_CustomerID x"
      then obtain a0 x0 where "a0 \<in> set (ct_addresses s)" "x0 \<in> set (ct_addresses s)"
        "ca_ID a0 = ca_ID a" "ca_ID x0 = ca_ID x" "ca_CustomerID a0 = ca_CustomerID x0"
        "ca_IsDefault a0 \<or> ca_ID a = i" "ca_IsDefault x0 \<or> ca_ID x = i"
        by (auto split: if_splits)
      then show "ca_ID a = ca_ID x"
        using ok inv unfolding other_default_def cs_inv_def one_default_def by metis
    qed
    then show ?thesis using inv maps s' by (auto simp: cs_inv_def set_update_where)
  qed (use run inv in \<open>auto simp: Address_SetDefault_def split: if_splits\<close>)
qed

lemma sort_key_Nil: "sort_key f xs = [] \<longleftrightarrow> xs = []"
  by (metis length_0_conv length_sort)

text \<open>Saving an address: nothing when the customer has it, a new row otherwise.\<close>

definition new_address :: "cs_env \<Rightarrow> uuid \<Rightarrow> uuid \<Rightarrow> string \<Rightarrow> string \<Rightarrow> string \<Rightarrow> string \<Rightarrow> Address_cs list \<Rightarrow> Address_cs" where
  "new_address E i c h st ci pc rows = \<lparr> ca_ID = i, ca_CustomerID = c, ca_House = h, ca_Street = st, ca_City = ci,
     ca_PostalCode = pc, ca_IsDefault = (\<forall>a \<in> set rows. ca_CustomerID a \<noteq> c), ca_CreatedAt = ce_clock E,
     ca_UpdatedAt = None \<rparr>"

lemma known_address: "(filter (same_address c h st ci pc) rows = []) = ((c, h, st, ci, pc) \<notin> address_text ` set rows)"
  by (auto simp: filter_empty_conv same_address_def address_text_def)

lemma no_addresses:
  "(sort_key f (filter (\<lambda>a. ca_CustomerID a = c) rows) = []) = (\<forall>a \<in> set rows. ca_CustomerID a \<noteq> c)"
  by (simp add: sort_key_Nil filter_empty_conv)

lemma save_address_cases:
  assumes "save_address E c h st ci pc s = (r, s')"
  shows "r = Inl [] \<and> s' = s \<or> r = Inr () \<and> s' = s \<and> (c, h, st, ci, pc) \<in> address_text ` set (ct_addresses s) \<or>
    r = Inr () \<and> (c, h, st, ci, pc) \<notin> address_text ` set (ct_addresses s) \<and>
    (\<exists>i. ce_newV7 E = Some i \<and> i \<notin> ca_ID ` set (ct_addresses s) \<and> c \<in> cc_ID ` set (ct_customers s) \<and>
      address_row_ok (new_address E i c h st ci pc (ct_addresses s)) \<and>
      s' = s\<lparr> ct_addresses := ct_addresses s @ [new_address E i c h st ci pc (ct_addresses s)] \<rparr>)"
proof -
  show ?thesis
    using assms unfolding save_address_def ExistsForCustomer_def ListByCustomer_def
    by (simp add: Let_def known_address no_addresses NewAddress_def Address_Create_def new_address_def ret_def io_def find_row_None_image
        address_row_ok_def split: if_splits option.splits)
qed

lemma one_default_append:
  assumes "one_default rows" "ca_IsDefault a \<Longrightarrow> \<forall>x \<in> set rows. ca_CustomerID x \<noteq> ca_CustomerID a"
  shows "one_default (rows @ [a])"
  unfolding one_default_def
proof (intro ballI impI)
  fix u w
  assume "u \<in> set (rows @ [a])" "w \<in> set (rows @ [a])" and d: "ca_IsDefault u" "ca_IsDefault w"
    "ca_CustomerID u = ca_CustomerID w"
  then consider "u \<in> set rows" "w \<in> set rows" | "u = a" "w = a" | "u = a" "w \<in> set rows" | "u \<in> set rows" "w = a"
    by auto
  then show "ca_ID u = ca_ID w"
  proof cases
    case 1
    then show ?thesis using d assms(1) unfolding one_default_def by blast
  next
    case 2
    then show ?thesis by simp
  next
    case 3
    then show ?thesis using d assms(2) by metis
  next
    case 4
    then show ?thesis using d assms(2) by metis
  qed
qed

lemma save_address_keeps [keeps_intro]: "keeps cs_inv (save_address E c h st ci pc)"
proof (rule keeps_ensure_inv)
  fix s r s'
  assume run: "save_address E c h st ci pc s = (r, s')" and inv: "cs_inv s"
  have add: "cs_inv (s\<lparr> ct_addresses := ct_addresses s @ [new_address E i c h st ci pc (ct_addresses s)] \<rparr>)"
    if "i \<notin> ca_ID ` set (ct_addresses s)" "c \<in> cc_ID ` set (ct_customers s)"
      "(c, h, st, ci, pc) \<notin> address_text ` set (ct_addresses s)" for i
  proof -
    have "address_text (new_address E i c h st ci pc (ct_addresses s)) = (c, h, st, ci, pc)"
      by (simp add: address_text_def new_address_def)
    moreover have "one_default (ct_addresses s @ [new_address E i c h st ci pc (ct_addresses s)])"
      using inv by (intro one_default_append) (simp_all add: cs_inv_def new_address_def)
    ultimately show ?thesis
      using inv that by (simp add: cs_inv_def) (simp add: new_address_def)
  qed
  from save_address_cases [OF run] show "cs_inv s'"
    using inv add by blast
qed

lemma AddressSaved_keeps [keeps_intro]: "keeps cs_inv (AddressSaved_Handle L E body)"
  unfolding AddressSaved_Handle_def by (intro keeps_intro)

lemma cs_run_keeps: "keeps cs_inv (cs_run L E rq)"
  by (cases rq) (simp_all add: UpdatePhone_Execute_def found_customer_def GetProfile_Execute_def DeleteAddress_Execute_def
      SetDefault_Execute_def ListAddresses_Execute_def cs_Dispatch_def UserRegistered_Handle_def,
    (intro keeps_intro impI conjI | simp split: option.split)+)

lemma cs_reach_inv: "cs_reach L s \<Longrightarrow> cs_inv s"
proof (induction rule: cs_reach.induct)
  case (start s)
  then show ?case by (simp add: cs_inv_def one_default_def)
next
  case (request s E rq)
  then show ?case using cs_run_keeps [of L E rq] by (simp add: keeps_def)
qed

subsection \<open>Properties\<close>

text \<open>
  However customer-service is used, no customer has the same address twice, a customer has at most one default
  address, and every address belongs to a customer that exists; the list of a customer's addresses has exactly
  these, the default one first.
\<close>

theorem address_book:
  assumes "cs_reach L s"
  shows "distinct (List.map address_text (ct_addresses s)) \<and>
    (\<forall>c. length (filter (\<lambda>a. ca_CustomerID a = c \<and> ca_IsDefault a) (ct_addresses s)) \<le> 1) \<and>
    (\<forall>a \<in> set (ct_addresses s). \<exists>c \<in> set (ct_customers s). cc_ID c = ca_CustomerID a) \<and>
    (\<forall>E c res s'. ListAddresses_Execute E c s = (Inr res, s') \<longrightarrow> s' = s \<and>
       mset res = mset (List.map ToAddressResponse (filter (\<lambda>a. ca_CustomerID a = c) (ct_addresses s))) \<and>
       (\<forall>r \<in> set (tl res). \<not> ar_IsDefault r))"
proof -
  have inv: "cs_inv s" by (rule cs_reach_inv [OF assms])
  have ids: "distinct (List.map ca_ID (filter P (ct_addresses s)))" for P
    using inv by (simp add: cs_inv_def distinct_map_filter)
  have same: "ca_ID a = ca_ID b" if "a \<in> set (ct_addresses s)" "b \<in> set (ct_addresses s)" "ca_IsDefault a" "ca_IsDefault b"
    "ca_CustomerID a = ca_CustomerID b" for a b
    using inv that unfolding cs_inv_def one_default_def by blast
  have "length (filter (\<lambda>a. ca_CustomerID a = c \<and> ca_IsDefault a) (ct_addresses s)) \<le> 1" for c
  proof (cases "filter (\<lambda>a. ca_CustomerID a = c \<and> ca_IsDefault a) (ct_addresses s)")
    case (Cons x xs)
    have mem: "a \<in> set (ct_addresses s) \<and> ca_CustomerID a = c \<and> ca_IsDefault a" if "a \<in> set (x # xs)" for a
      using that unfolding Cons [symmetric] by simp
    have "xs = []"
    proof (cases xs)
      case c2: (Cons y ys)
      then have "ca_ID x = ca_ID y" using same [of x y] mem [of x] mem [of y] by simp
      moreover have "distinct (List.map ca_ID (x # xs))" using ids unfolding Cons [symmetric] by simp
      ultimately show ?thesis using c2 by simp
    qed
    then show ?thesis by (simp add: Cons)
  qed simp
  moreover have "s' = s \<and> mset res = mset (List.map ToAddressResponse (filter (\<lambda>a. ca_CustomerID a = c) (ct_addresses s))) \<and>
       (\<forall>r \<in> set (tl res). \<not> ar_IsDefault r)"
    if run: "ListAddresses_Execute E c s = (Inr res, s')" for E c res s'
  proof -
    let ?key = "\<lambda>a. (\<not> ca_IsDefault a, ca_CreatedAt a)"
    let ?rows = "sort_key ?key (filter (\<lambda>a. ca_CustomerID a = c) (ct_addresses s))"
    have res: "res = List.map ToAddressResponse ?rows" "s' = s"
      using run by (auto simp: ListAddresses_Execute_def ListByCustomer_def bind_Inr simp del: bind_simps)
    have "\<not> ca_IsDefault a" if a: "a \<in> set (tl ?rows)" for a
    proof
      assume d: "ca_IsDefault a"
      obtain h t where rows: "?rows = h # t" using a by (cases ?rows) auto
      then have "a \<in> set t" using a by simp
      moreover have "sorted (List.map ?key (h # t))" unfolding rows [symmetric] by simp
      ultimately have "?key h \<le> ?key a" by auto
      then have "ca_IsDefault h" using d by (auto simp: less_eq_prod_def split: if_splits)
      moreover have "set (h # t) \<subseteq> {x \<in> set (ct_addresses s). ca_CustomerID x = c}" unfolding rows [symmetric] by auto
      ultimately have "ca_ID h = ca_ID a" using same [of h a] d \<open>a \<in> set t\<close> by auto
      moreover have "distinct (List.map ca_ID (h # t))"
        unfolding rows [symmetric] using ids [of "\<lambda>a. ca_CustomerID a = c"] by (simp add: distinct_map)
      ultimately show False using \<open>a \<in> set t\<close> by (auto simp: image_iff)
    qed
    then show ?thesis using res by (auto simp: ToAddressResponse_def map_tl [symmetric])
  qed
  ultimately show ?thesis using inv by (fastforce simp: cs_inv_def)
qed

text \<open>
  SetDefault succeeds exactly for an address of the customer, and then this address is the customer's only default
  one, and nothing else changes: not the text of an address, not the defaults of other customers. An address that
  is not the customer's is answered with 404 and nothing changes, and nothing changes when the call fails.
\<close>

theorem SetDefault_effect:
  assumes reach: "cs_reach L s" and run: "SetDefault_Execute E c i s = (res, s')"
  shows "(case res of
      Inl e \<Rightarrow> s' = s
    | Inr resp \<Rightarrow> ar_ID resp = i \<and> ar_IsDefault resp \<and> (\<exists>a \<in> set (ct_addresses s). ca_ID a = i \<and> ca_CustomerID a = c) \<and>
        ct_customers s' = ct_customers s \<and> ct_outbox s' = ct_outbox s \<and>
        list_all2 (\<lambda>a b. ca_ID b = ca_ID a \<and> address_text b = address_text a \<and> ca_CreatedAt b = ca_CreatedAt a \<and>
          ca_IsDefault b = (if ca_CustomerID a = c then ca_ID a = i else ca_IsDefault a))
          (ct_addresses s) (ct_addresses s')) \<and>
    ((\<forall>a \<in> set (ct_addresses s). ca_ID a = i \<longrightarrow> ca_CustomerID a \<noteq> c) \<and> \<not> ce_fault E CsAddressFind \<longrightarrow>
      res = Inl [CsApp ErrNotFound] \<and> s' = s \<and> cs_HandleError [CsApp ErrNotFound] = 404)"
proof -
  have inv: "cs_inv s" by (rule cs_reach_inv [OF reach])
  let ?a = "Address_FindByID E i c s"
  have none: "?a = Inr None" if "\<forall>a \<in> set (ct_addresses s). ca_ID a = i \<longrightarrow> ca_CustomerID a \<noteq> c" "\<not> ce_fault E CsAddressFind"
    using that by (auto simp: Address_FindByID_def find_None_iff)
  show ?thesis
  proof (cases "\<exists>a. ?a = Inr (Some a)")
    case False
    then have "(res = Inl [] \<or> res = Inl [CsApp ErrNotFound]) \<and> s' = s \<and> (?a = Inr None \<longrightarrow> res = Inl [CsApp ErrNotFound])"
      using run by (auto simp: SetDefault_Execute_def Address_FindByID_def io_def fail_def split: if_splits option.splits)
    then show ?thesis using none by (auto simp: cs_HandleError_def errors_is_def)
  next
    case True
    then obtain a where a: "?a = Inr (Some a)" by blast
    then have mem: "a \<in> set (ct_addresses s)" "ca_ID a = i" "ca_CustomerID a = c"
      by (auto simp: Address_FindByID_def dest: find_in)
    have only: "x = a" if "x \<in> set (ct_addresses s)" "ca_ID x = i" for x
      using inv mem that by (auto simp: cs_inv_def distinct_map dest: inj_onD)
    have tx: "bind (transaction (ce_fault E) CsCommit (bind (UnsetDefault E c) (\<lambda>_. Address_SetDefault E i))) (\<lambda>_.
         ret (ToAddressResponse (a\<lparr> ca_IsDefault := True \<rparr>))) s = (res, s')"
      using run a by (simp add: SetDefault_Execute_def)
    show ?thesis
    proof (cases res)
      case (Inl e)
      then have "s' = s" using tx by (auto simp: bind_Inl dest: transaction_Inl)
      then show ?thesis using Inl mem by auto
    next
      case (Inr resp)
      let ?t = "Some (ce_clock E)"
      let ?f = "\<lambda>x. if ca_CustomerID x = c \<and> ca_IsDefault x then x\<lparr> ca_IsDefault := False, ca_UpdatedAt := ?t \<rparr> else x"
      let ?g = "\<lambda>x. if ca_ID x = i then x\<lparr> ca_IsDefault := True, ca_UpdatedAt := ?t \<rparr> else x"
      have resp: "resp = ToAddressResponse (a\<lparr> ca_IsDefault := True \<rparr>)"
        and s': "s' = s\<lparr> ct_addresses := List.map (\<lambda>x. ?g (?f x)) (ct_addresses s) \<rparr>"
        using tx Inr
        by (auto simp: bind_Inr UnsetDefault_def Address_SetDefault_def update_where_def comp_def
            split: if_splits simp del: bind_simps)
      have "list_all2 (\<lambda>a b. ca_ID b = ca_ID a \<and> address_text b = address_text a \<and> ca_CreatedAt b = ca_CreatedAt a \<and>
          ca_IsDefault b = (if ca_CustomerID a = c then ca_ID a = i else ca_IsDefault a))
          (ct_addresses s) (List.map (\<lambda>x. ?g (?f x)) (ct_addresses s))"
        unfolding list_all2_map2
      proof (rule list.rel_refl_strong)
        fix x
        assume x: "x \<in> set (ct_addresses s)"
        show "ca_ID (?g (?f x)) = ca_ID x \<and> address_text (?g (?f x)) = address_text x \<and>
          ca_CreatedAt (?g (?f x)) = ca_CreatedAt x \<and>
          ca_IsDefault (?g (?f x)) = (if ca_CustomerID x = c then ca_ID x = i else ca_IsDefault x)"
        proof (cases "ca_ID x = i")
          case True
          then have "ca_CustomerID x = c" using only [OF x] mem(3) by simp
          then show ?thesis using True by (simp add: address_text_def)
        qed (simp add: address_text_def)
      qed
      then show ?thesis using Inr resp s' mem by (auto simp: ToAddressResponse_def)
    qed
  qed
qed

end
