(* ===== verification/Customer_Sample.thy ===== *)
theory Customer_Sample
  imports Customer_Props Sample
begin

text \<open>A customer with two addresses, and the witnesses.\<close>

definition sample_cs_env :: "uuid \<Rightarrow> cs_env" where
  "sample_cs_env i = \<lparr> ce_fault = (\<lambda>_. False), ce_newV7 = Some i, ce_clock = 5, ce_trace = '''' \<rparr>"

definition cs_empty :: cs_db where
  "cs_empty = \<lparr> ct_customers = [], ct_addresses = [], ct_outbox = \<lparr> ob_rows = [], ob_seq = 1 \<rparr> \<rparr>"

definition sample_cs_user :: json where
  "sample_cs_user = JObj [(''user_id'', enc_uuid sample_lib 7), (''email'', JStr ''a@b''), (''first_name'', JStr ''Ann''),
     (''last_name'', JStr ''Bo'')]"

definition sample_cs_address :: "string \<Rightarrow> json" where
  "sample_cs_address house = JObj [(''customer_id'', enc_uuid sample_lib 7), (''house'', JStr house),
     (''street'', JStr ''Main''), (''city'', JStr ''Bonn''), (''postal_code'', JStr ''53111'')]"

definition sample_cs1 :: cs_db where
  "sample_cs1 = cs_empty\<lparr> ct_customers := [\<lparr> cc_ID = 7, cc_Email = ''a@b'', cc_FirstName = ''Ann'', cc_LastName = ''Bo'',
     cc_Phone = None, cc_UpdatedAt = None \<rparr>] \<rparr>"

definition sample_cs2 :: cs_db where
  "sample_cs2 = sample_cs1\<lparr> ct_addresses := [new_address (sample_cs_env 20) 20 7 ''1'' ''Main'' ''Bonn'' ''53111'' []] \<rparr>"

definition sample_cs3 :: cs_db where
  "sample_cs3 = sample_cs2\<lparr> ct_addresses := ct_addresses sample_cs2 @
     [new_address (sample_cs_env 21) 21 7 ''2'' ''Main'' ''Bonn'' ''53111'' (ct_addresses sample_cs2)] \<rparr>"

lemma sample_cs_runs:
  "snd (cs_run sample_lib (sample_cs_env 0) (CqMessage ''user.registered'' (Some sample_cs_user)) cs_empty) = sample_cs1"
  "snd (cs_run sample_lib (sample_cs_env 20) (CqMessage ''order.address_saved'' (Some (sample_cs_address ''1''))) sample_cs1)
    = sample_cs2"
  "snd (cs_run sample_lib (sample_cs_env 21) (CqMessage ''order.address_saved'' (Some (sample_cs_address ''2''))) sample_cs2)
    = sample_cs3"
  by code_simp+

lemma sample_cs_reach: "cs_reach sample_lib sample_cs3"
proof -
  have "cs_reach sample_lib cs_empty" by (rule cs_reach.start) (simp_all add: cs_empty_def)
  then have "cs_reach sample_lib sample_cs1" unfolding sample_cs_runs(1) [symmetric] by (rule cs_reach.request)
  then have "cs_reach sample_lib sample_cs2" unfolding sample_cs_runs(2) [symmetric] by (rule cs_reach.request)
  then show ?thesis unfolding sample_cs_runs(3) [symmetric] by (rule cs_reach.request)
qed

lemma address_book_witness:
  "length (ct_addresses sample_cs3) = 2 \<and> distinct (List.map address_text (ct_addresses sample_cs3))"
proof
  show "length (ct_addresses sample_cs3) = 2" by code_simp
  show "distinct (List.map address_text (ct_addresses sample_cs3))"
    using address_book [OF sample_cs_reach] by blast
qed

lemma SetDefault_effect_witness:
  "\<exists>resp s'. SetDefault_Execute (sample_cs_env 0) 7 21 sample_cs3 = (Inr resp, s') \<and> ar_ID resp = 21 \<and>
    list_all2 (\<lambda>a b. ca_IsDefault b = (ca_ID a = 21)) (ct_addresses sample_cs3) (ct_addresses s')"
proof -
  obtain res s' where run: "SetDefault_Execute (sample_cs_env 0) 7 21 sample_cs3 = (res, s')" by fastforce
  have "\<not> isl (fst (SetDefault_Execute (sample_cs_env 0) 7 21 sample_cs3))" by code_simp
  then obtain resp where res: "res = Inr resp" using run by (cases res) auto
  have all: "list_all (\<lambda>a. ca_CustomerID a = 7) (ct_addresses sample_cs3)" by code_simp
  have "list_all2 (\<lambda>a b. ca_IsDefault b = (if ca_CustomerID a = 7 then ca_ID a = 21 else ca_IsDefault a))
      (ct_addresses sample_cs3) (ct_addresses s')"
    using SetDefault_effect [OF sample_cs_reach run] res by (auto elim: list_all2_mono)
  then have "list_all2 (\<lambda>a b. ca_IsDefault b = (ca_ID a = 21)) (ct_addresses sample_cs3) (ct_addresses s')"
    using all by (auto simp: list_all2_conv_all_nth list_all_length)
  then show ?thesis using SetDefault_effect [OF sample_cs_reach run] res run by auto
qed

end
