(* ===== verification/Restaurant_Domain.thy ===== *)
theory Restaurant_Domain
  imports Outbox
begin

text \<open>
  The restaurant aggregate of restaurant-service (\<open>internal/domain/restaurant\<close>) with the entities of its
  menu and its payout details (\<open>internal/domain/pizza\<close>, \<open>topping\<close>, \<open>payout\<close>). The names of entities that
  order-service has as well end in \<open>_rs\<close>. A Go panic (a nil pointer followed, an index out of range) is the error \<open>RsPanic\<close>:
  it ends the request, and gorm rolls an open transaction back, as for an error.
\<close>

datatype rs_err =
    RsApp apperr
  | ErrEmailAlreadyExists | ErrChecklistIncomplete | ErrNotPendingReview | ErrNotReadyToLaunch
  | ErrLaunchReadinessNotApplicable | ErrNotEnoughPizzas
  | ErrDuplicateTopping
  | ErrUnverifiedPayoutExists | ErrNoUnverifiedPayout
  | RsPanic

subsection \<open>The onboarding checklist\<close>

datatype ChecklistItem =
    ChecklistBasic | ChecklistContact | ChecklistAddress | ChecklistDelivery | ChecklistPayout
  | ChecklistOpeningHours

type_synonym Checklist = "ChecklistItem \<rightharpoonup> bool"

definition checklist_items :: "ChecklistItem list" where
  "checklist_items = [ChecklistBasic, ChecklistContact, ChecklistAddress, ChecklistDelivery, ChecklistPayout,
     ChecklistOpeningHours]"

definition NewChecklist :: Checklist where
  "NewChecklist = map_of (List.map (\<lambda>item. (item, False)) checklist_items)"

definition Checklist_Complete :: "ChecklistItem \<Rightarrow> Checklist \<Rightarrow> Checklist" where
  "Checklist_Complete item c = c(item \<mapsto> True)"

definition Checklist_Reopen :: "ChecklistItem \<Rightarrow> Checklist \<Rightarrow> Checklist" where
  "Checklist_Reopen item c = c(item \<mapsto> False)"

text \<open>Indexing a Go map with a missing key gives the zero value.\<close>

definition checked :: "Checklist \<Rightarrow> ChecklistItem \<Rightarrow> bool" where
  "checked c item = (case c item of None \<Rightarrow> False | Some b \<Rightarrow> b)"

definition IsCompleted :: "Checklist \<Rightarrow> bool" where
  "IsCompleted c \<longleftrightarrow> list_all (checked c) checklist_items"

subsection \<open>The aggregate\<close>

text \<open>\<open>StatusUnset\<close> is the zero value, which gorm replaces by the column's default on insertion.\<close>

datatype RestaurantStatus =
    StatusUnset
  | StatusDraft | StatusReview | StatusApproved | StatusActive | StatusInactive | StatusDisabled | StatusRejected

fun restaurant_status_text :: "RestaurantStatus \<Rightarrow> string" where
  "restaurant_status_text StatusUnset = ''''"
| "restaurant_status_text StatusDraft = ''draft''"
| "restaurant_status_text StatusReview = ''review''"
| "restaurant_status_text StatusApproved = ''approved''"
| "restaurant_status_text StatusActive = ''active''"
| "restaurant_status_text StatusInactive = ''inactive''"
| "restaurant_status_text StatusDisabled = ''disabled''"
| "restaurant_status_text StatusRejected = ''rejected''"

record Address_rs =
  ra_House :: string
  ra_Street :: string
  ra_PostalCode :: string
  ra_City :: string

record DayRange =
  dr_Open :: string
  dr_Close :: string

record OpeningHours =
  oh_Monday :: "DayRange list"
  oh_Tuesday :: "DayRange list"
  oh_Wednesday :: "DayRange list"
  oh_Thursday :: "DayRange list"
  oh_Friday :: "DayRange list"
  oh_Saturday :: "DayRange list"
  oh_Sunday :: "DayRange list"

datatype RestaurantEvent =
    RestaurantReadyForReview uuid string time
  | RestaurantApproved uuid string string time
  | RestaurantLaunched uuid time
  | RestaurantUpdated uuid time
  | PizzaUpdated uuid time
  | ToppingPricesUpdated uuid time

record 'd Restaurant_rs =
  rs_ID :: uuid
  rs_OwnerID :: uuid
  rs_Name :: string
  rs_VATNumber :: string
  rs_Slug :: "string option"
  rs_Email :: "string option"
  rs_Phone :: "string option"
  rs_Website :: "string option"
  rs_Checklist :: Checklist
  rs_Status :: RestaurantStatus
  rs_Address :: Address_rs
  rs_Lat :: "real option"
  rs_Lon :: "real option"
  rs_Timezone :: "string option"
  rs_OpeningHours :: OpeningHours
  rs_Tags :: "string list"
  rs_Pickup :: bool
  rs_Currency :: string
  rs_DeliveryKm :: "int16 option"
  rs_DeliveryTimeMin :: "int16 option"
  rs_DeliveryTimeMax :: "int16 option"
  rs_DeliveryType :: string
  rs_DeliveryFee :: 'd
  rs_MinimumOrder :: 'd
  rs_Rating :: real
  rs_TotalReviews :: "32 word"
  rs_CreatedAt :: time
  rs_UpdatedAt :: "time option"
  rs_events :: "RestaurantEvent list"

definition zero_address :: Address_rs where
  "zero_address = \<lparr> ra_House = '''', ra_Street = '''', ra_PostalCode = '''', ra_City = '''' \<rparr>"

definition no_hours :: OpeningHours where
  "no_hours = \<lparr> oh_Monday = [], oh_Tuesday = [], oh_Wednesday = [], oh_Thursday = [], oh_Friday = [],
     oh_Saturday = [], oh_Sunday = [] \<rparr>"

definition NewRestaurant :: "uuid \<Rightarrow> uuid \<Rightarrow> string \<Rightarrow> string \<Rightarrow> Checklist \<Rightarrow> 'd::zero Restaurant_rs" where
  "NewRestaurant ident ownerID name vatNumber checklist =
   \<lparr> rs_ID = ident, rs_OwnerID = ownerID, rs_Name = name, rs_VATNumber = vatNumber, rs_Slug = None,
     rs_Email = None, rs_Phone = None, rs_Website = None, rs_Checklist = checklist, rs_Status = StatusUnset,
     rs_Address = zero_address, rs_Lat = None, rs_Lon = None, rs_Timezone = None, rs_OpeningHours = no_hours,
     rs_Tags = [], rs_Pickup = True, rs_Currency = '''', rs_DeliveryKm = None, rs_DeliveryTimeMin = None,
     rs_DeliveryTimeMax = None, rs_DeliveryType = '''', rs_DeliveryFee = 0, rs_MinimumOrder = 0, rs_Rating = 0,
     rs_TotalReviews = 0, rs_CreatedAt = zero_time, rs_UpdatedAt = None, rs_events = [] \<rparr>"

definition WithSlug :: "string \<Rightarrow> 'd Restaurant_rs \<Rightarrow> 'd Restaurant_rs" where
  "WithSlug slug r = r\<lparr> rs_Slug := Some slug \<rparr>"

definition WithContact ::
  "string option \<Rightarrow> string option \<Rightarrow> string option \<Rightarrow> 'd Restaurant_rs \<Rightarrow> 'd Restaurant_rs" where
  "WithContact email phone website r = r\<lparr> rs_Email := email, rs_Phone := phone, rs_Website := website \<rparr>"

definition WithAddress :: "Address_rs \<Rightarrow> 'd Restaurant_rs \<Rightarrow> 'd Restaurant_rs" where
  "WithAddress address r = r\<lparr> rs_Address := address \<rparr>"

definition WithCoordinates :: "real \<Rightarrow> real \<Rightarrow> string \<Rightarrow> 'd Restaurant_rs \<Rightarrow> 'd Restaurant_rs" where
  "WithCoordinates lat lon timezone r =
     r\<lparr> rs_Lat := Some lat, rs_Lon := Some lon, rs_Timezone := Some timezone \<rparr>"

definition WithDelivery ::
  "bool \<Rightarrow> string \<Rightarrow> int16 option \<Rightarrow> int16 option \<Rightarrow> int16 option \<Rightarrow> 'd \<Rightarrow> 'd \<Rightarrow> 'd Restaurant_rs \<Rightarrow> 'd Restaurant_rs" where
  "WithDelivery pickup deliveryType km timeMin timeMax fee minimumOrder r =
     r\<lparr> rs_Pickup := pickup, rs_DeliveryType := deliveryType, rs_DeliveryKm := km, rs_DeliveryTimeMin := timeMin,
        rs_DeliveryTimeMax := timeMax, rs_DeliveryFee := fee, rs_MinimumOrder := minimumOrder \<rparr>"

definition WithOpeningHours :: "OpeningHours \<Rightarrow> 'd Restaurant_rs \<Rightarrow> 'd Restaurant_rs" where
  "WithOpeningHours hours r = r\<lparr> rs_OpeningHours := hours \<rparr>"

definition WithTags :: "string list \<Rightarrow> 'd Restaurant_rs \<Rightarrow> 'd Restaurant_rs" where
  "WithTags tags r = r\<lparr> rs_Tags := tags \<rparr>"

definition raise :: "RestaurantEvent \<Rightarrow> 'd Restaurant_rs \<Rightarrow> 'd Restaurant_rs" where
  "raise e r = r\<lparr> rs_events := rs_events r @ [e] \<rparr>"

definition CompleteChecklistItem :: "time \<Rightarrow> ChecklistItem \<Rightarrow> 'd Restaurant_rs \<Rightarrow> 'd Restaurant_rs" where
  "CompleteChecklistItem now item r0 =
     (let r = r0\<lparr> rs_Checklist := Checklist_Complete item (rs_Checklist r0) \<rparr> in
      if rs_Status r = StatusDraft \<and> IsCompleted (rs_Checklist r)
      then raise (RestaurantReadyForReview (rs_ID r) (rs_Name r) now) (r\<lparr> rs_Status := StatusReview \<rparr>)
      else r)"

definition Approve :: "time \<Rightarrow> 'd Restaurant_rs \<Rightarrow> (rs_err, 'd Restaurant_rs) result" where
  "Approve now r =
     (if rs_Status r \<noteq> StatusReview then Inl [ErrNotPendingReview]
      else (case rs_Email r of
        None \<Rightarrow> Inl [RsPanic]
      | Some email \<Rightarrow>
          Inr (raise (RestaurantApproved (rs_ID r) (rs_Name r) email now) (r\<lparr> rs_Status := StatusApproved \<rparr>))))"

definition Launch :: "time \<Rightarrow> 'd Restaurant_rs \<Rightarrow> (rs_err, 'd Restaurant_rs) result" where
  "Launch now r =
     (if rs_Status r \<noteq> StatusApproved then Inl [ErrNotReadyToLaunch]
      else Inr (raise (RestaurantLaunched (rs_ID r) now) (r\<lparr> rs_Status := StatusActive \<rparr>)))"

definition listed :: "RestaurantStatus \<Rightarrow> bool" where
  "listed st \<longleftrightarrow> st = StatusActive \<or> st = StatusInactive"

definition NotifyUpdated :: "time \<Rightarrow> 'd Restaurant_rs \<Rightarrow> 'd Restaurant_rs" where
  "NotifyUpdated now r = (if \<not> listed (rs_Status r) then r else raise (RestaurantUpdated (rs_ID r) now) r)"

definition NotifyPizzaUpdated :: "time \<Rightarrow> 'd Restaurant_rs \<Rightarrow> 'd Restaurant_rs" where
  "NotifyPizzaUpdated now r = (if \<not> listed (rs_Status r) then r else raise (PizzaUpdated (rs_ID r) now) r)"

definition NotifyToppingPricesUpdated :: "time \<Rightarrow> 'd Restaurant_rs \<Rightarrow> 'd Restaurant_rs" where
  "NotifyToppingPricesUpdated now r =
     (if \<not> listed (rs_Status r) then r else raise (ToppingPricesUpdated (rs_ID r) now) r)"

definition Restaurant_PullEvents :: "'d Restaurant_rs \<Rightarrow> RestaurantEvent list \<times> 'd Restaurant_rs" where
  "Restaurant_PullEvents r = (rs_events r, r\<lparr> rs_events := [] \<rparr>)"

subsection \<open>Menu and payout details\<close>

datatype PizzaStatus = PizzaUnset | PizzaAvailable | PizzaUnavailable | PizzaArchived

fun pizza_status_text :: "PizzaStatus \<Rightarrow> string" where
  "pizza_status_text PizzaUnset = ''''"
| "pizza_status_text PizzaAvailable = ''available''"
| "pizza_status_text PizzaUnavailable = ''unavailable''"
| "pizza_status_text PizzaArchived = ''archived''"

text \<open>
  The column \<open>toppings\<close> holds the JSON array of topping identifiers; \<open>SetToppingIDs\<close> and \<open>ToppingIDs\<close> write and
  read it. \<open>PizzaUnset\<close> and \<open>JNull\<close> are the zero values, which the column's default replaces on insertion.
\<close>

record Pizza_rs =
  rz_ID :: uuid
  rz_RestaurantID :: uuid
  rz_Name :: string
  rz_Image :: "string option"
  rz_IsVegetarian :: bool
  rz_Status :: PizzaStatus
  rz_SortOrder :: "64 word"
  rz_Toppings :: json
  rz_CreatedAt :: time
  rz_UpdatedAt :: "time option"

definition NewPizza :: "uuid \<Rightarrow> uuid \<Rightarrow> Pizza_rs" where
  "NewPizza ident restaurantID =
   \<lparr> rz_ID = ident, rz_RestaurantID = restaurantID, rz_Name = [], rz_Image = None,
     rz_IsVegetarian = False, rz_Status = PizzaUnset, rz_SortOrder = 0, rz_Toppings = JNull,
     rz_CreatedAt = zero_time, rz_UpdatedAt = None \<rparr>"

definition WithDetails ::
  "string \<Rightarrow> string option \<Rightarrow> bool \<Rightarrow> PizzaStatus \<Rightarrow> 64 word \<Rightarrow> Pizza_rs \<Rightarrow> Pizza_rs" where
  "WithDetails name img isVegetarian status sortOrder p =
     p\<lparr> rz_Name := name, rz_Image := img, rz_IsVegetarian := isVegetarian, rz_Status := status,
        rz_SortOrder := sortOrder \<rparr>"

definition ToppingIDs :: "'d lib \<Rightarrow> Pizza_rs \<Rightarrow> (rs_err, uuid list) result" where
  "ToppingIDs L p = (case dec_list (dec_uuid L) (rz_Toppings p) of None \<Rightarrow> Inl [] | Some ids \<Rightarrow> Inr ids)"

definition SetToppingIDs :: "'d lib \<Rightarrow> uuid list \<Rightarrow> Pizza_rs \<Rightarrow> (rs_err, Pizza_rs) result" where
  "SetToppingIDs L ids p =
     (if \<not> distinct ids then Inl [ErrDuplicateTopping]
      else Inr (p\<lparr> rz_Toppings := JArr (List.map (enc_uuid L) ids) \<rparr>))"

record 'd PizzaPrice_rs =
  rp_ID :: uuid
  rp_PizzaID :: uuid
  rp_SizeID :: uuid
  rp_Price :: 'd
  rp_IsActive :: bool
  rp_CreatedAt :: time
  rp_UpdatedAt :: "time option"

definition NewPizzaPrice :: "uuid option \<Rightarrow> uuid \<Rightarrow> uuid \<Rightarrow> 'd \<Rightarrow> (rs_err, 'd PizzaPrice_rs) result" where
  "NewPizzaPrice newV7 pizzaID sizeID price = (case newV7 of
     None \<Rightarrow> Inl []
   | Some ident \<Rightarrow> Inr \<lparr> rp_ID = ident, rp_PizzaID = pizzaID, rp_SizeID = sizeID, rp_Price = price,
       rp_IsActive = True, rp_CreatedAt = zero_time, rp_UpdatedAt = None \<rparr>)"

record PizzaSize =
  sz_ID :: uuid
  sz_DiameterCm :: int16

record Topping =
  tg_ID :: uuid
  tg_Name :: string
  tg_IsVegetarian :: bool

record 'd ToppingPrice_rs =
  rt_ID :: uuid
  rt_RestaurantID :: uuid
  rt_ToppingID :: uuid
  rt_ExtraPrice :: 'd
  rt_CreatedAt :: time
  rt_UpdatedAt :: "time option"

definition NewToppingPrice :: "uuid option \<Rightarrow> uuid \<Rightarrow> uuid \<Rightarrow> 'd \<Rightarrow> (rs_err, 'd ToppingPrice_rs) result" where
  "NewToppingPrice newV7 restaurantID toppingID extraPrice = (case newV7 of
     None \<Rightarrow> Inl []
   | Some ident \<Rightarrow> Inr \<lparr> rt_ID = ident, rt_RestaurantID = restaurantID, rt_ToppingID = toppingID,
       rt_ExtraPrice = extraPrice, rt_CreatedAt = zero_time, rt_UpdatedAt = None \<rparr>)"

datatype PayoutStatus = PayoutUnverified | PayoutActive | PayoutSuperseded

record PayoutDetails =
  pd_ID :: uuid
  pd_RestaurantID :: uuid
  pd_AccountHolder :: string
  pd_IBAN :: string
  pd_BIC :: string
  pd_BankName :: string
  pd_Status :: PayoutStatus
  pd_CreatedAt :: time
  pd_UpdatedAt :: "time option"

definition NewPayoutDetails ::
  "uuid option \<Rightarrow> uuid \<Rightarrow> string \<Rightarrow> string \<Rightarrow> string \<Rightarrow> string \<Rightarrow> (rs_err, PayoutDetails) result" where
  "NewPayoutDetails newV7 restaurantID accountHolder iban bic bankName = (case newV7 of
     None \<Rightarrow> Inl []
   | Some ident \<Rightarrow> Inr \<lparr> pd_ID = ident, pd_RestaurantID = restaurantID, pd_AccountHolder = accountHolder,
       pd_IBAN = iban, pd_BIC = bic, pd_BankName = bankName, pd_Status = PayoutUnverified,
       pd_CreatedAt = zero_time, pd_UpdatedAt = None \<rparr>)"

subsection \<open>Basic facts\<close>

lemma checked_Complete [simp]: "checked (Checklist_Complete item c) i \<longleftrightarrow> i = item \<or> checked c i"
  by (simp add: checked_def Checklist_Complete_def)

lemma IsCompleted_Complete: "IsCompleted c \<Longrightarrow> IsCompleted (Checklist_Complete item c)"
  by (simp add: IsCompleted_def checklist_items_def)

lemma IsCompleted_checked: "IsCompleted c \<Longrightarrow> checked c item"
  by (cases item) (simp_all add: IsCompleted_def checklist_items_def)

lemma ToppingIDs_Set: "uuid_codec L \<Longrightarrow> SetToppingIDs L ids p = Inr p' \<Longrightarrow> ToppingIDs L p' = Inr ids \<and> distinct ids"
  by (auto simp: SetToppingIDs_def ToppingIDs_def split: if_splits
      simp del: dec_list.simps simp add: dec_list_map)

end
