(* ===== verification/Restaurant_Store.thy ===== *)
theory Restaurant_Store
  imports Restaurant_Domain
begin

text \<open>
  restaurant-service's database and the repositories on it (\<open>internal/infrastructure/persistence\<close>) with the
  constraints of the migrations. The clock of an execution stands for \<open>time.Now()\<close> and gorm's time of writing.
\<close>

record 'd rs_db =
  rd_restaurants :: "'d Restaurant_rs list"
  rd_payouts :: "PayoutDetails list"
  rd_pizzas :: "Pizza_rs list"
  rd_prices :: "'d PizzaPrice_rs list"
  rd_sizes :: "PizzaSize list"
  rd_toppings :: "Topping list"
  rd_topping_prices :: "'d ToppingPrice_rs list"
  rd_outbox :: outbox_table

datatype rs_site =
    RsFind | RsFindBySlug nat | RsCreate | RsUpdate
  | RsPayoutCreate | RsPayoutUpdate | RsPayoutPromote | RsPayoutFind
  | RsPizzaCreate | RsPizzaUpdate | RsPizzaFind | RsPizzaList
  | RsPriceReplace | RsPriceList nat | RsSizeList
  | RsToppingList | RsToppingFind | RsToppingPriceUpsert | RsToppingPriceList
  | RsOutboxCreate nat | RsCommit

record rs_env =
  re_fault :: "rs_site \<Rightarrow> bool"
  re_newV7 :: "nat \<Rightarrow> uuid option"
  re_clock :: time
  re_trace :: string

type_synonym ('d, 'a) rs_op = "('d rs_db, rs_err, 'a) op"

definition created :: "rs_env \<Rightarrow> time \<Rightarrow> time" where
  "created E t = (if t = zero_time then re_clock E else t)"

subsection \<open>Restaurants\<close>

fun between :: "int \<Rightarrow> int \<Rightarrow> int16 option \<Rightarrow> bool" where
  "between lo hi None = True"
| "between lo hi (Some i) = (lo \<le> sint i \<and> sint i \<le> hi)"

definition restaurant_rs_row_ok :: "'d::linordered_idom Restaurant_rs \<Rightarrow> bool" where
  "restaurant_rs_row_ok r \<longleftrightarrow> fits 128 (Some (rs_Name r)) \<and> fits 16 (Some (rs_VATNumber r)) \<and>
     fits 255 (rs_Slug r) \<and> fits 255 (rs_Email r) \<and> fits 32 (rs_Phone r) \<and> fits 255 (rs_Website r) \<and>
     rs_Status r \<noteq> StatusUnset \<and> in_range 90 (rs_Lat r) \<and> in_range 180 (rs_Lon r) \<and> fits 64 (rs_Timezone r) \<and>
     set (rs_Tags r) \<subseteq> {''vegetarian'', ''vegan'', ''glutenfree'', ''halal''} \<and> fits 3 (Some (rs_Currency r)) \<and>
     between 1 25 (rs_DeliveryKm r) \<and> between 5 120 (rs_DeliveryTimeMin r) \<and> between 5 120 (rs_DeliveryTimeMax r) \<and>
     (case (rs_DeliveryTimeMin r, rs_DeliveryTimeMax r) of
        (Some lo, Some hi) \<Rightarrow> sint lo < sint hi | _ \<Rightarrow> True) \<and>
     rs_DeliveryType r \<in> {''own'', ''external'', ''none''} \<and>
     numeric_fits 3 (rs_DeliveryFee r) \<and> 0 \<le> rs_DeliveryFee r \<and>
     numeric_fits 4 (rs_MinimumOrder r) \<and> 0 \<le> rs_MinimumOrder r \<and>
     0 \<le> rs_Rating r \<and> rs_Rating r \<le> 5 \<and> 0 \<le> sint (rs_TotalReviews r)"

text \<open>The partial unique indexes: no other row has the slug, the email or the phone number.\<close>

definition unique_in :: "('r \<Rightarrow> uuid) \<Rightarrow> ('r \<Rightarrow> 'v option) \<Rightarrow> 'r \<Rightarrow> 'r list \<Rightarrow> bool" where
  "unique_in key col r tbl \<longleftrightarrow> (\<forall>x \<in> set tbl. key x \<noteq> key r \<longrightarrow> col x \<noteq> None \<longrightarrow> col x \<noteq> col r)"

definition restaurant_unique :: "'d Restaurant_rs \<Rightarrow> 'd Restaurant_rs list \<Rightarrow> bool" where
  "restaurant_unique r tbl \<longleftrightarrow>
     unique_in rs_ID rs_Slug r tbl \<and> unique_in rs_ID rs_Email r tbl \<and> unique_in rs_ID rs_Phone r tbl"

definition stored_rs :: "'d Restaurant_rs \<Rightarrow> 'd Restaurant_rs" where
  "stored_rs r = r\<lparr> rs_events := [] \<rparr>"

definition restaurant_defaults :: "'d Restaurant_rs \<Rightarrow> 'd Restaurant_rs" where
  "restaurant_defaults r = r\<lparr>
     rs_Status := (if rs_Status r = StatusUnset then StatusDraft else rs_Status r),
     rs_Currency := (if rs_Currency r = '''' then ''EUR'' else rs_Currency r),
     rs_DeliveryType := (if rs_DeliveryType r = '''' then ''none'' else rs_DeliveryType r) \<rparr>"

definition Restaurant_Create :: "rs_env \<Rightarrow> 'd::linordered_idom Restaurant_rs \<Rightarrow> ('d, unit) rs_op" where
  "Restaurant_Create E r0 s =
     (let r = (restaurant_defaults r0)\<lparr> rs_CreatedAt := created E (rs_CreatedAt r0) \<rparr> in
      if re_fault E RsCreate \<or> \<not> restaurant_rs_row_ok r \<or>
         find_row rs_ID (rs_ID r) (rd_restaurants s) \<noteq> None \<or> \<not> restaurant_unique r (rd_restaurants s)
      then (Inl [], s)
      else (Inr (), s\<lparr> rd_restaurants := rd_restaurants s @ [stored_rs r] \<rparr>))"

text \<open>\<open>Update\<close> stamps \<open>UpdatedAt\<close> in the caller's object as well, which it therefore returns.\<close>

definition Restaurant_Update :: "rs_env \<Rightarrow> 'd::linordered_idom Restaurant_rs \<Rightarrow> ('d, 'd Restaurant_rs) rs_op" where
  "Restaurant_Update E r0 s =
     (let r = r0\<lparr> rs_UpdatedAt := Some (re_clock E) \<rparr> in
      if re_fault E RsUpdate \<or> \<not> restaurant_rs_row_ok r \<or> \<not> restaurant_unique r (rd_restaurants s)
      then (Inl [], s)
      else (Inr r, s\<lparr> rd_restaurants := save_row rs_ID (stored_rs r) (rd_restaurants s) \<rparr>))"

definition take_restaurant ::
  "rs_env \<Rightarrow> rs_site \<Rightarrow> ('d Restaurant_rs \<Rightarrow> bool) \<Rightarrow> 'd rs_db \<Rightarrow> (rs_err, 'd Restaurant_rs option) result" where
  "take_restaurant E site P s = io (re_fault E) site (Inr (List.find P (rd_restaurants s)))"

definition FindBySlug ::
  "rs_env \<Rightarrow> nat \<Rightarrow> string \<Rightarrow> 'd rs_db \<Rightarrow> (rs_err, 'd Restaurant_rs option) result" where
  "FindBySlug E n slug = take_restaurant E (RsFindBySlug n) (\<lambda>r. rs_Slug r = Some slug)"

definition Restaurant_rs_FindByID ::
  "rs_env \<Rightarrow> uuid \<Rightarrow> 'd rs_db \<Rightarrow> (rs_err, 'd Restaurant_rs option) result" where
  "Restaurant_rs_FindByID E ident = take_restaurant E RsFind (\<lambda>r. rs_ID r = ident)"

definition FindByIDAndOwner ::
  "rs_env \<Rightarrow> uuid \<Rightarrow> uuid \<Rightarrow> 'd rs_db \<Rightarrow> (rs_err, 'd Restaurant_rs option) result" where
  "FindByIDAndOwner E restaurantID ownerID =
     take_restaurant E RsFind (\<lambda>r. rs_ID r = restaurantID \<and> rs_OwnerID r = ownerID)"

subsection \<open>Payout details\<close>

definition payout_row_ok :: "PayoutDetails \<Rightarrow> bool" where
  "payout_row_ok p \<longleftrightarrow> fits 100 (Some (pd_AccountHolder p)) \<and> fits 34 (Some (pd_IBAN p)) \<and>
     fits 11 (Some (pd_BIC p)) \<and> fits 100 (Some (pd_BankName p))"

definition payout_where :: "uuid \<Rightarrow> PayoutStatus \<Rightarrow> PayoutDetails \<Rightarrow> bool" where
  "payout_where restaurantID st p \<longleftrightarrow> pd_RestaurantID p = restaurantID \<and> pd_Status p = st"

definition has_payout :: "uuid \<Rightarrow> PayoutStatus \<Rightarrow> PayoutDetails list \<Rightarrow> bool" where
  "has_payout restaurantID st tbl \<longleftrightarrow> list_ex (payout_where restaurantID st) tbl"

text \<open>
  A new row is unverified. Any unique violation, of the key as well, is \<open>ErrUnverifiedPayoutExists\<close>; the
  foreign key is checked after the indexes.
\<close>

definition Payout_Create :: "rs_env \<Rightarrow> PayoutDetails \<Rightarrow> ('d, unit) rs_op" where
  "Payout_Create E p0 s =
     (let p = p0\<lparr> pd_CreatedAt := created E (pd_CreatedAt p0) \<rparr> in
      if re_fault E RsPayoutCreate \<or> \<not> payout_row_ok p then (Inl [], s)
      else if find_row pd_ID (pd_ID p) (rd_payouts s) \<noteq> None \<or>
         pd_Status p \<noteq> PayoutSuperseded \<and> has_payout (pd_RestaurantID p) (pd_Status p) (rd_payouts s)
      then (Inl [ErrUnverifiedPayoutExists], s)
      else if find_row rs_ID (pd_RestaurantID p) (rd_restaurants s) = None then (Inl [], s)
      else (Inr (), s\<lparr> rd_payouts := rd_payouts s @ [p] \<rparr>))"

definition UpdateUnverified ::
  "rs_env \<Rightarrow> uuid \<Rightarrow> string \<Rightarrow> string \<Rightarrow> string \<Rightarrow> string \<Rightarrow> ('d, unit) rs_op" where
  "UpdateUnverified E restaurantID accountHolder iban bic bankName s =
     (let P = payout_where restaurantID PayoutUnverified;
          tbl = update_where P (\<lambda>p. p\<lparr> pd_AccountHolder := accountHolder, pd_IBAN := iban, pd_BIC := bic,
                  pd_BankName := bankName, pd_UpdatedAt := Some (re_clock E) \<rparr>) (rd_payouts s) in
      if re_fault E RsPayoutUpdate \<or> \<not> list_all payout_row_ok tbl then (Inl [], s)
      else if rows_affected P (rd_payouts s) = 0 then (Inl [ErrNoUnverifiedPayout], s)
      else (Inr (), s\<lparr> rd_payouts := tbl \<rparr>))"

definition PromoteToActive :: "rs_env \<Rightarrow> uuid \<Rightarrow> ('d, unit) rs_op" where
  "PromoteToActive E restaurantID s =
     (let P = payout_where restaurantID PayoutUnverified in
      if re_fault E RsPayoutPromote then (Inl [], s)
      else if rows_affected P (rd_payouts s) = 0 then (Inl [ErrNoUnverifiedPayout], s)
      else if has_payout restaurantID PayoutActive (rd_payouts s) then (Inl [], s)
      else (Inr (), s\<lparr> rd_payouts := update_where P
              (\<lambda>p. p\<lparr> pd_Status := PayoutActive, pd_UpdatedAt := Some (re_clock E) \<rparr>) (rd_payouts s) \<rparr>))"

definition FindActiveByRestaurant :: "rs_env \<Rightarrow> uuid \<Rightarrow> 'd rs_db \<Rightarrow> (rs_err, PayoutDetails option) result" where
  "FindActiveByRestaurant E restaurantID s =
     io (re_fault E) RsPayoutFind (Inr (List.find (payout_where restaurantID PayoutActive) (rd_payouts s)))"

subsection \<open>Pizzas and their prices\<close>

definition pizza_rs_row_ok :: "'d rs_db \<Rightarrow> Pizza_rs \<Rightarrow> bool" where
  "pizza_rs_row_ok s p \<longleftrightarrow> find_row rs_ID (rz_RestaurantID p) (rd_restaurants s) \<noteq> None \<and>
     fits 255 (Some (rz_Name p)) \<and> fits 255 (rz_Image p) \<and> rz_Status p \<noteq> PizzaUnset \<and>
     0 \<le> sint (rz_SortOrder p) \<and> sint (rz_SortOrder p) < 2147483648 \<and> rz_Toppings p \<noteq> JNull"

definition Pizza_Create :: "rs_env \<Rightarrow> Pizza_rs \<Rightarrow> ('d, Pizza_rs) rs_op" where
  "Pizza_Create E p0 s =
     (let p = p0\<lparr> rz_CreatedAt := created E (rz_CreatedAt p0),
                  rz_Status := (if rz_Status p0 = PizzaUnset then PizzaAvailable else rz_Status p0),
                  rz_Toppings := (if rz_Toppings p0 = JNull then JArr [] else rz_Toppings p0) \<rparr> in
      if re_fault E RsPizzaCreate \<or> \<not> pizza_rs_row_ok s p \<or> find_row rz_ID (rz_ID p) (rd_pizzas s) \<noteq> None
      then (Inl [], s)
      else (Inr p, s\<lparr> rd_pizzas := rd_pizzas s @ [p] \<rparr>))"

definition Pizza_Update :: "rs_env \<Rightarrow> Pizza_rs \<Rightarrow> ('d, Pizza_rs) rs_op" where
  "Pizza_Update E p0 s =
     (let p = p0\<lparr> rz_UpdatedAt := Some (re_clock E) \<rparr> in
      if re_fault E RsPizzaUpdate \<or> \<not> pizza_rs_row_ok s p then (Inl [], s)
      else (Inr p, s\<lparr> rd_pizzas := save_row rz_ID p (rd_pizzas s) \<rparr>))"

definition FindByIDAndRestaurant ::
  "rs_env \<Rightarrow> uuid \<Rightarrow> uuid \<Rightarrow> 'd rs_db \<Rightarrow> (rs_err, Pizza_rs option) result" where
  "FindByIDAndRestaurant E pizzaID restaurantID s = io (re_fault E) RsPizzaFind
     (Inr (List.find (\<lambda>p. rz_ID p = pizzaID \<and> rz_RestaurantID p = restaurantID) (rd_pizzas s)))"

definition ListByRestaurant :: "rs_env \<Rightarrow> uuid \<Rightarrow> 'd rs_db \<Rightarrow> (rs_err, Pizza_rs list) result" where
  "ListByRestaurant E restaurantID s = io (re_fault E) RsPizzaList
     (Inr (sort_key (\<lambda>p. sint (rz_SortOrder p)) (filter (\<lambda>p. rz_RestaurantID p = restaurantID) (rd_pizzas s))))"

definition rp_key :: "'d PizzaPrice_rs \<Rightarrow> uuid \<times> uuid" where
  "rp_key p = (rp_PizzaID p, rp_SizeID p)"

definition rp_row_ok :: "'d::linordered_idom rs_db \<Rightarrow> 'd PizzaPrice_rs \<Rightarrow> bool" where
  "rp_row_ok s p \<longleftrightarrow> find_row rz_ID (rp_PizzaID p) (rd_pizzas s) \<noteq> None \<and>
     find_row sz_ID (rp_SizeID p) (rd_sizes s) \<noteq> None \<and> numeric_fits 4 (rp_Price p) \<and> 0 \<le> rp_Price p"

definition upsert_rp :: "'d PizzaPrice_rs \<Rightarrow> 'd PizzaPrice_rs list \<Rightarrow> 'd PizzaPrice_rs list" where
  "upsert_rp p tbl =
     (if find_row rp_key (rp_key p) tbl = None then tbl @ [p]
      else update_where (\<lambda>x. rp_key x = rp_key p)
        (\<lambda>x. x\<lparr> rp_Price := rp_Price p, rp_IsActive := rp_IsActive p, rp_UpdatedAt := rp_UpdatedAt p \<rparr>) tbl)"

text \<open>The rows a batch inserts, those without a row to update, need primary keys of their own.\<close>

definition keys_free :: "('r \<Rightarrow> 'k) \<Rightarrow> ('r \<Rightarrow> uuid) \<Rightarrow> 'r list \<Rightarrow> 'r list \<Rightarrow> bool" where
  "keys_free key ident rows tbl \<longleftrightarrow>
     (let fresh = filter (\<lambda>r. find_row key (key r) tbl = None) rows in
      distinct (List.map ident fresh) \<and> set (List.map ident fresh) \<inter> set (List.map ident tbl) = {})"

text \<open>
  One statement cannot write a row twice, so a batch with a repeated key is refused. Prices of
  other sizes are switched off.
\<close>

definition ReplacePrices ::
  "rs_env \<Rightarrow> uuid \<Rightarrow> 'd::linordered_idom PizzaPrice_rs list \<Rightarrow> ('d, unit) rs_op" where
  "ReplacePrices E pizzaID prices0 s =
     (let now = re_clock E;
          prices = List.map (\<lambda>p. p\<lparr> rp_CreatedAt := created E (rp_CreatedAt p), rp_UpdatedAt := Some now \<rparr>) prices0;
          sizeIDs = List.map rp_SizeID prices in
      if re_fault E RsPriceReplace \<or> \<not> list_all (rp_row_ok s) prices \<or>
         \<not> distinct (List.map rp_key prices) \<or> \<not> keys_free rp_key rp_ID prices (rd_prices s)
      then (Inl [], s)
      else (Inr (), s\<lparr> rd_prices :=
        update_where (\<lambda>p. rp_PizzaID p = pizzaID \<and> rp_SizeID p \<notin> set sizeIDs)
          (\<lambda>p. p\<lparr> rp_IsActive := False, rp_UpdatedAt := Some now \<rparr>)
          (fold upsert_rp prices (rd_prices s)) \<rparr>))"

definition rs_ListByPizza :: "rs_env \<Rightarrow> nat \<Rightarrow> uuid \<Rightarrow> 'd rs_db \<Rightarrow> (rs_err, 'd PizzaPrice_rs list) result" where
  "rs_ListByPizza E n pizzaID s = io (re_fault E) (RsPriceList n)
     (Inr (filter (\<lambda>p. rp_PizzaID p = pizzaID) (rd_prices s)))"

text \<open>The catalogues of sizes and toppings; the callers put them into maps, so their order does not matter.\<close>

definition Size_List :: "rs_env \<Rightarrow> 'd rs_db \<Rightarrow> (rs_err, PizzaSize list) result" where
  "Size_List E s = io (re_fault E) RsSizeList (Inr (sort_key (\<lambda>z. sint (sz_DiameterCm z)) (rd_sizes s)))"

definition Topping_List :: "rs_env \<Rightarrow> 'd rs_db \<Rightarrow> (rs_err, Topping list) result" where
  "Topping_List E s = io (re_fault E) RsToppingList (Inr (rd_toppings s))"

definition Topping_FindByID :: "rs_env \<Rightarrow> uuid \<Rightarrow> 'd rs_db \<Rightarrow> (rs_err, Topping option) result" where
  "Topping_FindByID E ident s = io (re_fault E) RsToppingFind (Inr (find_row tg_ID ident (rd_toppings s)))"

subsection \<open>Topping prices\<close>

definition rt_key :: "'d ToppingPrice_rs \<Rightarrow> uuid \<times> uuid" where
  "rt_key p = (rt_RestaurantID p, rt_ToppingID p)"

definition rt_row_ok :: "'d::linordered_idom rs_db \<Rightarrow> 'd ToppingPrice_rs \<Rightarrow> bool" where
  "rt_row_ok s p \<longleftrightarrow> find_row rs_ID (rt_RestaurantID p) (rd_restaurants s) \<noteq> None \<and>
     find_row tg_ID (rt_ToppingID p) (rd_toppings s) \<noteq> None \<and>
     numeric_fits 4 (rt_ExtraPrice p) \<and> 1 \<le> rt_ExtraPrice p"

definition upsert_rt :: "'d ToppingPrice_rs \<Rightarrow> 'd ToppingPrice_rs list \<Rightarrow> 'd ToppingPrice_rs list" where
  "upsert_rt p tbl =
     (if find_row rt_key (rt_key p) tbl = None then tbl @ [p]
      else update_where (\<lambda>x. rt_key x = rt_key p)
        (\<lambda>x. x\<lparr> rt_ExtraPrice := rt_ExtraPrice p, rt_UpdatedAt := rt_UpdatedAt p \<rparr>) tbl)"

text \<open>\<open>UpsertPrices\<close> stamps the caller's rows, which it therefore returns.\<close>

definition UpsertPrices ::
  "rs_env \<Rightarrow> 'd::linordered_idom ToppingPrice_rs list \<Rightarrow> ('d, 'd ToppingPrice_rs list) rs_op" where
  "UpsertPrices E prices0 s =
     (let prices = List.map (\<lambda>p. p\<lparr> rt_CreatedAt := created E (rt_CreatedAt p),
            rt_UpdatedAt := Some (re_clock E) \<rparr>) prices0 in
      if prices0 = [] then (Inr [], s)
      else if re_fault E RsToppingPriceUpsert \<or> \<not> list_all (rt_row_ok s) prices \<or>
         \<not> distinct (List.map rt_key prices) \<or> \<not> keys_free rt_key rt_ID prices (rd_topping_prices s)
      then (Inl [], s)
      else (Inr prices, s\<lparr> rd_topping_prices := fold upsert_rt prices (rd_topping_prices s) \<rparr>))"

definition rt_ListByRestaurant :: "rs_env \<Rightarrow> uuid \<Rightarrow> 'd rs_db \<Rightarrow> (rs_err, 'd ToppingPrice_rs list) result" where
  "rt_ListByRestaurant E restaurantID s = io (re_fault E) RsToppingPriceList
     (Inr (filter (\<lambda>p. rt_RestaurantID p = restaurantID) (rd_topping_prices s)))"

subsection \<open>The outbox\<close>

definition rs_Outbox_Create :: "rs_env \<Rightarrow> nat \<Rightarrow> OutboxEvent \<Rightarrow> ('d, unit) rs_op" where
  "rs_Outbox_Create E n e s =
     (if re_fault E (RsOutboxCreate n) then (Inl [], s)
      else (Inr (), s\<lparr> rd_outbox := outbox_Create (re_trace E) e (rd_outbox s) \<rparr>))"

end
