(* ===== verification/Restaurant_Events.thy ===== *)
theory Restaurant_Events
  imports Restaurant_Store
begin

text \<open>
  What restaurant-service answers and announces: the response types with their mappers
  (\<open>application/restaurant/schema.go\<close>, \<open>mapper.go\<close>, \<open>application/pizza\<close>, \<open>topping\<close>, \<open>payout\<close>), the payloads of its events
  (\<open>application/restaurant/events.go\<close>) and their dispatch to the outbox (\<open>dispatch.go\<close>).
\<close>

subsection \<open>Responses\<close>

record 'd PizzaPriceResponse =
  ppr_SizeID :: uuid
  ppr_DiameterCm :: int16
  ppr_Price :: 'd
  ppr_IsActive :: bool

record 'd ToppingResponse =
  tor_ToppingID :: uuid
  tor_Name :: string
  tor_ExtraPrice :: "'d option"

record 'd PizzaResponse =
  pzr_ID :: uuid
  pzr_Name :: string
  pzr_Image :: "string option"
  pzr_IsVegetarian :: bool
  pzr_Status :: PizzaStatus
  pzr_SortOrder :: "64 word"
  pzr_Prices :: "'d PizzaPriceResponse list"
  pzr_Toppings :: "'d ToppingResponse list"
  pzr_CreatedAt :: time
  pzr_UpdatedAt :: "time option"

record 'd ToppingPriceResponse =
  tpr_ToppingID :: uuid
  tpr_Name :: string
  tpr_ExtraPrice :: 'd

definition HasActivePrice :: "'d PizzaResponse \<Rightarrow> bool" where
  "HasActivePrice p \<longleftrightarrow> list_ex ppr_IsActive (pzr_Prices p)"

text \<open>The maps the handlers build from a list; a missing key gives the zero value of the field that is read.\<close>

definition index_by :: "('r \<Rightarrow> uuid) \<Rightarrow> 'r list \<Rightarrow> (uuid \<rightharpoonup> 'r)" where
  "index_by key rows = fold (\<lambda>r m. m(key r \<mapsto> r)) rows Map.empty"

definition diameter :: "(uuid \<rightharpoonup> PizzaSize) \<Rightarrow> uuid \<Rightarrow> int16" where
  "diameter sizeByID i = (case sizeByID i of None \<Rightarrow> 0 | Some z \<Rightarrow> sz_DiameterCm z)"

definition topping_name :: "(uuid \<rightharpoonup> Topping) \<Rightarrow> uuid \<Rightarrow> string" where
  "topping_name toppingByID i = (case toppingByID i of None \<Rightarrow> '''' | Some t \<Rightarrow> tg_Name t)"

definition ToPizzaResponse ::
  "Pizza_rs \<Rightarrow> 'd PizzaPrice_rs list \<Rightarrow> (uuid \<rightharpoonup> PizzaSize) \<Rightarrow> uuid list \<Rightarrow> (uuid \<rightharpoonup> Topping) \<Rightarrow> (uuid \<rightharpoonup> 'd) \<Rightarrow>
    'd PizzaResponse" where
  "ToPizzaResponse p prices sizeByID toppingIDs toppingByID priceByToppingID =
   \<lparr> pzr_ID = rz_ID p, pzr_Name = rz_Name p, pzr_Image = rz_Image p, pzr_IsVegetarian = rz_IsVegetarian p,
     pzr_Status = rz_Status p, pzr_SortOrder = rz_SortOrder p,
     pzr_Prices = List.map (\<lambda>price. \<lparr> ppr_SizeID = rp_SizeID price,
       ppr_DiameterCm = diameter sizeByID (rp_SizeID price), ppr_Price = rp_Price price,
       ppr_IsActive = rp_IsActive price \<rparr>) prices,
     pzr_Toppings = List.map (\<lambda>i. \<lparr> tor_ToppingID = i, tor_Name = topping_name toppingByID i,
       tor_ExtraPrice = priceByToppingID i \<rparr>) toppingIDs,
     pzr_CreatedAt = rz_CreatedAt p, pzr_UpdatedAt = rz_UpdatedAt p \<rparr>"

definition ToToppingPriceResponse :: "'d ToppingPrice_rs \<Rightarrow> string \<Rightarrow> 'd ToppingPriceResponse" where
  "ToToppingPriceResponse price toppingName =
   \<lparr> tpr_ToppingID = rt_ToppingID price, tpr_Name = toppingName, tpr_ExtraPrice = rt_ExtraPrice price \<rparr>"

definition topping_price_responses ::
  "(uuid \<rightharpoonup> Topping) \<Rightarrow> 'd ToppingPrice_rs list \<Rightarrow> 'd ToppingPriceResponse list" where
  "topping_price_responses toppingByID prices =
     List.map (\<lambda>price. ToToppingPriceResponse price (topping_name toppingByID (rt_ToppingID price))) prices"

record PayoutResponse =
  por_AccountHolder :: string
  por_IBAN :: string
  por_BIC :: string
  por_BankName :: string
  por_Status :: "PayoutStatus option"

fun ToPayoutResponse :: "PayoutDetails option \<Rightarrow> PayoutResponse" where
  "ToPayoutResponse None = \<lparr> por_AccountHolder = '''', por_IBAN = '''', por_BIC = '''', por_BankName = '''',
     por_Status = None \<rparr>"
| "ToPayoutResponse (Some p) = \<lparr> por_AccountHolder = pd_AccountHolder p, por_IBAN = pd_IBAN p,
     por_BIC = pd_BIC p, por_BankName = pd_BankName p, por_Status = Some (pd_Status p) \<rparr>"

record ContactResponse =
  cor_Email :: "string option"
  cor_Phone :: "string option"
  cor_Website :: "string option"

record 'd DeliveryResponse =
  der_Type :: string
  der_RadiusKm :: "int16 option"
  der_EstimatedMinutesMin :: "int16 option"
  der_EstimatedMinutesMax :: "int16 option"
  der_Fee :: 'd
  der_MinimumOrder :: 'd

definition contact_response :: "'d Restaurant_rs \<Rightarrow> ContactResponse" where
  "contact_response r = \<lparr> cor_Email = rs_Email r, cor_Phone = rs_Phone r, cor_Website = rs_Website r \<rparr>"

definition delivery_response :: "'d Restaurant_rs \<Rightarrow> 'd DeliveryResponse" where
  "delivery_response r = \<lparr> der_Type = rs_DeliveryType r, der_RadiusKm = rs_DeliveryKm r,
     der_EstimatedMinutesMin = rs_DeliveryTimeMin r, der_EstimatedMinutesMax = rs_DeliveryTimeMax r,
     der_Fee = rs_DeliveryFee r, der_MinimumOrder = rs_MinimumOrder r \<rparr>"

text \<open>The verb \<open>%d\<close>.\<close>

fun show_nat :: "nat \<Rightarrow> string" where
  "show_nat n = (if n < 10 then '''' else show_nat (n div 10)) @ [char_of (48 + n mod 10)]"

declare show_nat.simps [simp del]

definition show_int :: "int \<Rightarrow> string" where
  "show_int i = (if i < 0 then ''-'' @ show_nat (nat (- i)) else show_nat (nat i))"

definition formatAddress :: "Address_rs \<Rightarrow> string" where
  "formatAddress a = ra_Street a @ '' '' @ ra_House a @ '', '' @ ra_PostalCode a @ '' '' @ ra_City a"

fun formatDeliveryTime :: "int16 option \<Rightarrow> int16 option \<Rightarrow> string" where
  "formatDeliveryTime (Some lo) (Some hi) = show_int (sint lo) @ ''-'' @ show_int (sint hi) @ '' min''"
| "formatDeliveryTime _ _ = ''''"

record 'd RestaurantResponse =
  rr_ID :: uuid
  rr_Name :: string
  rr_Slug :: "string option"
  rr_Contact :: ContactResponse
  rr_Address :: Address_rs
  rr_DisplayAddress :: string
  rr_EstimatedDelivery :: string
  rr_Lat :: "real option"
  rr_Lon :: "real option"
  rr_Timezone :: "string option"
  rr_Delivery :: "'d DeliveryResponse"
  rr_Payout :: PayoutResponse
  rr_Currency :: string
  rr_Rating :: real
  rr_TotalReviews :: "32 word"
  rr_Pickup :: bool
  rr_Tags :: "string list"
  rr_OpeningHours :: OpeningHours
  rr_Status :: RestaurantStatus
  rr_CreatedAt :: time
  rr_UpdatedAt :: "time option"

definition ToRestaurantResponse :: "'d Restaurant_rs \<Rightarrow> PayoutDetails option \<Rightarrow> 'd RestaurantResponse" where
  "ToRestaurantResponse r pd =
   \<lparr> rr_ID = rs_ID r, rr_Name = rs_Name r, rr_Slug = rs_Slug r, rr_Contact = contact_response r,
     rr_Address = rs_Address r, rr_DisplayAddress = formatAddress (rs_Address r),
     rr_EstimatedDelivery = formatDeliveryTime (rs_DeliveryTimeMin r) (rs_DeliveryTimeMax r),
     rr_Lat = rs_Lat r, rr_Lon = rs_Lon r, rr_Timezone = rs_Timezone r, rr_Delivery = delivery_response r,
     rr_Payout = ToPayoutResponse pd, rr_Currency = rs_Currency r, rr_Rating = rs_Rating r,
     rr_TotalReviews = rs_TotalReviews r, rr_Pickup = rs_Pickup r, rr_Tags = rs_Tags r,
     rr_OpeningHours = rs_OpeningHours r, rr_Status = rs_Status r, rr_CreatedAt = rs_CreatedAt r,
     rr_UpdatedAt = rs_UpdatedAt r \<rparr>"

subsection \<open>Documents\<close>

text \<open>A pointer field with \<open>omitempty\<close>. A nil slice and an empty one are not told apart.\<close>

definition omitempty :: "string \<Rightarrow> ('a \<Rightarrow> json) \<Rightarrow> 'a option \<Rightarrow> (string \<times> json) list" where
  "omitempty key enc v = (case v of None \<Rightarrow> [] | Some x \<Rightarrow> [(key, enc x)])"

definition marshal_price :: "'d lib \<Rightarrow> 'd PizzaPriceResponse \<Rightarrow> json" where
  "marshal_price L p = JObj
   [(''sizeId'', enc_uuid L (ppr_SizeID p)), (''diameterCm'', enc_int16 (ppr_DiameterCm p)),
    (''price'', JStr (StringFixed2 L (ppr_Price p))), (''isActive'', JBool (ppr_IsActive p))]"

definition marshal_topping :: "'d lib \<Rightarrow> 'd ToppingResponse \<Rightarrow> json" where
  "marshal_topping L t = JObj
   ([(''toppingId'', enc_uuid L (tor_ToppingID t)), (''name'', JStr (tor_Name t))] @
    omitempty ''extraPrice'' (\<lambda>x. JStr (StringFixed2 L x)) (tor_ExtraPrice t))"

definition marshal_pizza :: "'d lib \<Rightarrow> 'd PizzaResponse \<Rightarrow> json" where
  "marshal_pizza L p = JObj
   ([(''id'', enc_uuid L (pzr_ID p)), (''name'', JStr (pzr_Name p))] @
    omitempty ''image'' JStr (pzr_Image p) @
    [(''isVegetarian'', JBool (pzr_IsVegetarian p)), (''status'', JStr (pizza_status_text (pzr_Status p))),
     (''sortOrder'', JInt (sint (pzr_SortOrder p))),
     (''prices'', JArr (List.map (marshal_price L) (pzr_Prices p))),
     (''toppings'', JArr (List.map (marshal_topping L) (pzr_Toppings p))),
     (''createdAt'', enc_time L (pzr_CreatedAt p))] @
    omitempty ''updatedAt'' (enc_time L) (pzr_UpdatedAt p))"

definition marshal_topping_price :: "'d lib \<Rightarrow> 'd ToppingPriceResponse \<Rightarrow> json" where
  "marshal_topping_price L p = JObj
   [(''toppingId'', enc_uuid L (tpr_ToppingID p)), (''name'', JStr (tpr_Name p)),
    (''extraPrice'', JStr (StringFixed2 L (tpr_ExtraPrice p)))]"

definition marshal_contact :: "ContactResponse \<Rightarrow> json" where
  "marshal_contact c = JObj (omitempty ''email'' JStr (cor_Email c) @ omitempty ''phone'' JStr (cor_Phone c) @
     omitempty ''website'' JStr (cor_Website c))"

definition marshal_address :: "Address_rs \<Rightarrow> json" where
  "marshal_address a = JObj [(''house'', JStr (ra_House a)), (''street'', JStr (ra_Street a)),
     (''postalCode'', JStr (ra_PostalCode a)), (''city'', JStr (ra_City a))]"

definition marshal_delivery :: "'d lib \<Rightarrow> 'd DeliveryResponse \<Rightarrow> json" where
  "marshal_delivery L d = JObj
   ([(''type'', JStr (der_Type d))] @ omitempty ''radiusKm'' enc_int16 (der_RadiusKm d) @
    omitempty ''estimatedMinutesMin'' enc_int16 (der_EstimatedMinutesMin d) @
    omitempty ''estimatedMinutesMax'' enc_int16 (der_EstimatedMinutesMax d) @
    [(''fee'', JStr (StringFixed2 L (der_Fee d))), (''minimumOrder'', JStr (StringFixed2 L (der_MinimumOrder d)))])"

definition marshal_day :: "DayRange list \<Rightarrow> json" where
  "marshal_day ds = JArr (List.map (\<lambda>d. JObj [(''open'', JStr (dr_Open d)), (''close'', JStr (dr_Close d))]) ds)"

definition marshal_hours :: "OpeningHours \<Rightarrow> json" where
  "marshal_hours h = JObj [(''monday'', marshal_day (oh_Monday h)), (''tuesday'', marshal_day (oh_Tuesday h)),
     (''wednesday'', marshal_day (oh_Wednesday h)), (''thursday'', marshal_day (oh_Thursday h)),
     (''friday'', marshal_day (oh_Friday h)), (''saturday'', marshal_day (oh_Saturday h)),
     (''sunday'', marshal_day (oh_Sunday h))]"

subsection \<open>Payloads\<close>

text \<open>
  \<open>RestaurantUpdatedPayload\<close> and \<open>RestaurantLaunchedPayload\<close> have these fields in common; the second has pizzas and
  topping prices as well.
\<close>

record 'd RestaurantUpdatedPayload =
  rup_RestaurantID :: uuid
  rup_OwnerID :: uuid
  rup_RestaurantName :: string
  rup_Slug :: string
  rup_Contact :: ContactResponse
  rup_Address :: Address_rs
  rup_Lat :: real
  rup_Lon :: real
  rup_Timezone :: string
  rup_Delivery :: "'d DeliveryResponse"
  rup_Currency :: string
  rup_Rating :: real
  rup_TotalReviews :: "32 word"
  rup_Pickup :: bool
  rup_Tags :: "string list"
  rup_OpeningHours :: OpeningHours
  rup_UpdatedAt :: time
  rup_OccurredAt :: time

definition NewRestaurantUpdatedPayload ::
  "uuid \<Rightarrow> time \<Rightarrow> 'd Restaurant_rs \<Rightarrow> (rs_err, 'd RestaurantUpdatedPayload) result" where
  "NewRestaurantUpdatedPayload restaurantID occurredAt r =
     (case (rs_Slug r, rs_Lat r, rs_Lon r, rs_Timezone r, rs_UpdatedAt r) of
        (Some slug, Some lat, Some lon, Some timezone, Some updatedAt) \<Rightarrow>
          Inr \<lparr> rup_RestaurantID = restaurantID, rup_OwnerID = rs_OwnerID r, rup_RestaurantName = rs_Name r,
                rup_Slug = slug, rup_Contact = contact_response r, rup_Address = rs_Address r, rup_Lat = lat,
                rup_Lon = lon, rup_Timezone = timezone, rup_Delivery = delivery_response r,
                rup_Currency = rs_Currency r, rup_Rating = rs_Rating r, rup_TotalReviews = rs_TotalReviews r,
                rup_Pickup = rs_Pickup r, rup_Tags = rs_Tags r, rup_OpeningHours = rs_OpeningHours r,
                rup_UpdatedAt = updatedAt, rup_OccurredAt = occurredAt \<rparr>
      | _ \<Rightarrow> Inl [RsPanic])"

definition restaurant_fields :: "'d lib \<Rightarrow> string \<Rightarrow> 'd RestaurantUpdatedPayload \<Rightarrow> (string \<times> json) list" where
  "restaurant_fields L eventName p =
   [(''restaurant_id'', enc_uuid L (rup_RestaurantID p)), (''owner_id'', enc_uuid L (rup_OwnerID p)),
    (''restaurant_name'', JStr (rup_RestaurantName p)), (''event_name'', JStr eventName),
    (''slug'', JStr (rup_Slug p)), (''contact'', marshal_contact (rup_Contact p)),
    (''address'', marshal_address (rup_Address p)), (''lat'', JFloat (rup_Lat p)), (''lon'', JFloat (rup_Lon p)),
    (''timezone'', JStr (rup_Timezone p)), (''delivery'', marshal_delivery L (rup_Delivery p)),
    (''currency'', JStr (rup_Currency p)), (''rating'', JFloat (rup_Rating p)),
    (''total_reviews'', JInt (sint (rup_TotalReviews p))), (''pickup'', JBool (rup_Pickup p)),
    (''tags'', JArr (List.map JStr (rup_Tags p))), (''opening_hours'', marshal_hours (rup_OpeningHours p))]"

definition marshal_updated :: "'d lib \<Rightarrow> 'd RestaurantUpdatedPayload \<Rightarrow> json" where
  "marshal_updated L p = JObj (restaurant_fields L ''restaurant.updated'' p @
   [(''updated_at'', enc_time L (rup_UpdatedAt p)), (''occurred_at'', enc_time L (rup_OccurredAt p))])"

definition marshal_launched ::
  "'d lib \<Rightarrow> 'd RestaurantUpdatedPayload \<Rightarrow> 'd PizzaResponse list \<Rightarrow> 'd ToppingPriceResponse list \<Rightarrow> json" where
  "marshal_launched L p pizzas toppingPrices = JObj (restaurant_fields L ''restaurant.launched'' p @
   [(''pizzas'', JArr (List.map (marshal_pizza L) pizzas)),
    (''topping_prices'', JArr (List.map (marshal_topping_price L) toppingPrices)),
    (''updated_at'', enc_time L (rup_UpdatedAt p)), (''occurred_at'', enc_time L (rup_OccurredAt p))])"

definition marshal_pizza_updated :: "'d lib \<Rightarrow> uuid \<Rightarrow> 'd PizzaResponse \<Rightarrow> time \<Rightarrow> time \<Rightarrow> json" where
  "marshal_pizza_updated L restaurantID p updatedAt occurredAt = JObj
   [(''restaurant_id'', enc_uuid L restaurantID), (''event_name'', JStr ''restaurant.pizza_updated''),
    (''pizza'', marshal_pizza L p), (''updated_at'', enc_time L updatedAt), (''occurred_at'', enc_time L occurredAt)]"

definition marshal_toppings_updated ::
  "'d lib \<Rightarrow> uuid \<Rightarrow> 'd ToppingPriceResponse list \<Rightarrow> time \<Rightarrow> time \<Rightarrow> json" where
  "marshal_toppings_updated L restaurantID ts updatedAt occurredAt = JObj
   [(''restaurant_id'', enc_uuid L restaurantID), (''event_name'', JStr ''restaurant.topping_prices_updated''),
    (''topping_prices'', JArr (List.map (marshal_topping_price L) ts)), (''updated_at'', enc_time L updatedAt),
    (''occurred_at'', enc_time L occurredAt)]"

definition marshal_ready_for_review :: "'d lib \<Rightarrow> uuid \<Rightarrow> string \<Rightarrow> time \<Rightarrow> json" where
  "marshal_ready_for_review L restaurantID name occurredAt = JObj
   [(''restaurant_id'', enc_uuid L restaurantID), (''restaurant_name'', JStr name),
    (''event_name'', JStr ''restaurant.ready_for_review''), (''occurred_at'', enc_time L occurredAt)]"

definition marshal_approved :: "'d lib \<Rightarrow> uuid \<Rightarrow> string \<Rightarrow> string \<Rightarrow> time \<Rightarrow> json" where
  "marshal_approved L restaurantID name email occurredAt = JObj
   [(''restaurant_id'', enc_uuid L restaurantID), (''restaurant_name'', JStr name), (''email'', JStr email),
    (''event_name'', JStr ''restaurant.approved''), (''occurred_at'', enc_time L occurredAt)]"

subsection \<open>Dispatch\<close>

text \<open>An enricher declines an event, or makes its name and document, and may panic on the way.\<close>

type_synonym rs_enricher = "RestaurantEvent \<Rightarrow> (rs_err, string \<times> json) result option"

fun rs_enrich :: "RestaurantEvent \<Rightarrow> rs_enricher list \<Rightarrow> (rs_err, string \<times> json) result option" where
  "rs_enrich e [] = None"
| "rs_enrich e (fn # fns) = (case fn e of Some payload \<Rightarrow> Some payload | None \<Rightarrow> rs_enrich e fns)"

fun rs_toEventPayload :: "'d lib \<Rightarrow> rs_enricher" where
  "rs_toEventPayload L (RestaurantReadyForReview i name t) =
     Some (Inr (''restaurant.ready_for_review'', marshal_ready_for_review L i name t))"
| "rs_toEventPayload L (RestaurantApproved i name email t) =
     Some (Inr (''restaurant.approved'', marshal_approved L i name email t))"
| "rs_toEventPayload L _ = None"

definition rs_integration :: "'d lib \<Rightarrow> rs_enricher list \<Rightarrow> rs_enricher" where
  "rs_integration L enrichers e =
     (case rs_enrich e enrichers of Some payload \<Rightarrow> Some payload | None \<Rightarrow> rs_toEventPayload L e)"

fun rs_dispatch_events ::
  "'d lib \<Rightarrow> rs_env \<Rightarrow> rs_enricher list \<Rightarrow> uuid \<Rightarrow> nat \<Rightarrow> RestaurantEvent list \<Rightarrow> ('d, unit) rs_op" where
  "rs_dispatch_events L E enrichers aggregate n [] = ret ()"
| "rs_dispatch_events L E enrichers aggregate n (e # es) =
     (case rs_integration L enrichers e of
        None \<Rightarrow> rs_dispatch_events L E enrichers aggregate (Suc n) es
      | Some (Inl err) \<Rightarrow> fail err
      | Some (Inr (name, body)) \<Rightarrow>
          bind (rs_Outbox_Create E n (NewOutboxEvent (re_clock E) aggregate name body)) (\<lambda>_.
          rs_dispatch_events L E enrichers aggregate (Suc n) es))"

definition rs_DispatchEventsTx ::
  "'d lib \<Rightarrow> rs_env \<Rightarrow> rs_enricher list \<Rightarrow> 'd Restaurant_rs \<Rightarrow> ('d, 'd Restaurant_rs) rs_op" where
  "rs_DispatchEventsTx L E enrichers r =
     (case Restaurant_PullEvents r of (es, r') \<Rightarrow>
        bind (rs_dispatch_events L E enrichers (rs_ID r) 0 es) (\<lambda>_. ret r'))"

fun enrichUpdated :: "'d lib \<Rightarrow> 'd Restaurant_rs \<Rightarrow> rs_enricher" where
  "enrichUpdated L r (RestaurantUpdated i t) =
     Some (case NewRestaurantUpdatedPayload i t r of
       Inl e \<Rightarrow> Inl e | Inr p \<Rightarrow> Inr (''restaurant.updated'', marshal_updated L p))"
| "enrichUpdated L r _ = None"

fun enrichLaunched ::
  "'d lib \<Rightarrow> 'd Restaurant_rs \<Rightarrow> 'd PizzaResponse list \<Rightarrow> 'd ToppingPriceResponse list \<Rightarrow> rs_enricher" where
  "enrichLaunched L r pizzas toppingPrices (RestaurantLaunched i t) =
     Some (case NewRestaurantUpdatedPayload i t r of
       Inl e \<Rightarrow> Inl e | Inr p \<Rightarrow> Inr (''restaurant.launched'', marshal_launched L p pizzas toppingPrices))"
| "enrichLaunched L r pizzas toppingPrices _ = None"

fun enrichPizzaUpdated :: "'d lib \<Rightarrow> 'd PizzaResponse \<Rightarrow> rs_enricher" where
  "enrichPizzaUpdated L output (PizzaUpdated i t) =
     Some (case pzr_UpdatedAt output of
       None \<Rightarrow> Inl [RsPanic]
     | Some updatedAt \<Rightarrow> Inr (''restaurant.pizza_updated'', marshal_pizza_updated L i output updatedAt t))"
| "enrichPizzaUpdated L output _ = None"

fun enrichToppingPricesUpdated :: "'d lib \<Rightarrow> 'd ToppingPriceResponse list \<Rightarrow> time \<Rightarrow> rs_enricher" where
  "enrichToppingPricesUpdated L toppingPrices updatedAt (ToppingPricesUpdated i t) =
     Some (Inr (''restaurant.topping_prices_updated'', marshal_toppings_updated L i toppingPrices updatedAt t))"
| "enrichToppingPricesUpdated L toppingPrices updatedAt _ = None"

end
