(* ===== verification/Restaurant_Commands.thy ===== *)
theory Restaurant_Commands
  imports Restaurant_Events
begin

text \<open>
  The commands and queries of restaurant-service (\<open>internal/application\<close>) and the handler of
  \<open>restaurant.initiated\<close>. A command checks that the caller owns the restaurant, changes the aggregate in memory,
  and in one transaction saves it and writes its events to the outbox.
\<close>

subsection \<open>Shared steps\<close>

text \<open>\<open>FindByIDAndOwner\<close> with the refusal every owner command starts with.\<close>

definition owned_restaurant :: "rs_env \<Rightarrow> uuid \<Rightarrow> uuid \<Rightarrow> ('d, 'd Restaurant_rs) rs_op" where
  "owned_restaurant E restaurantID ownerID =
     bind (query (FindByIDAndOwner E restaurantID ownerID)) (\<lambda>found. case found of
       None \<Rightarrow> fail [RsApp ErrForbidden]
     | Some r \<Rightarrow> ret r)"

text \<open>
  The end of the five update commands: \<open>Update\<close> and \<open>DispatchEventsTx\<close> in a transaction, then the payout details
  for the answer. The enricher gets the object as \<open>Update\<close> has stamped it.
\<close>

definition save_and_dispatch ::
  "'d::linordered_idom lib \<Rightarrow> rs_env \<Rightarrow> ('d Restaurant_rs \<Rightarrow> rs_enricher list) \<Rightarrow> 'd Restaurant_rs \<Rightarrow>
    ('d, 'd Restaurant_rs) rs_op" where
  "save_and_dispatch L E enrichers r =
     bind (Restaurant_Update E r) (\<lambda>r'. rs_DispatchEventsTx L E (enrichers r') r')"

definition restaurant_answer :: "rs_env \<Rightarrow> 'd Restaurant_rs \<Rightarrow> ('d, 'd RestaurantResponse) rs_op" where
  "restaurant_answer E r =
     bind (query (FindActiveByRestaurant E (rs_ID r))) (\<lambda>pd. ret (ToRestaurantResponse r pd))"

definition finish_update ::
  "'d::linordered_idom lib \<Rightarrow> rs_env \<Rightarrow> 'd Restaurant_rs \<Rightarrow> ('d, 'd RestaurantResponse) rs_op" where
  "finish_update L E r =
     bind (transaction (re_fault E) RsCommit (save_and_dispatch L E (\<lambda>r'. [enrichUpdated L r']) r)) (\<lambda>r'.
     restaurant_answer E r')"

subsection \<open>Profile\<close>

record UpdateAddressRequest =
  uar_House :: string
  uar_Street :: string
  uar_City :: string
  uar_PostalCode :: string

record UpdateContactRequest =
  ucr_Email :: "string option"
  ucr_Phone :: "string option"
  ucr_Website :: "string option"

record 'd UpdateDeliveryRequest =
  udr_Pickup :: bool
  udr_DeliveryType :: string
  udr_DeliveryKm :: "int16 option"
  udr_DeliveryTimeMin :: "int16 option"
  udr_DeliveryTimeMax :: "int16 option"
  udr_DeliveryFee :: 'd
  udr_MinimumOrder :: 'd

definition UpdateContact_Execute ::
  "'d::linordered_idom lib \<Rightarrow> rs_env \<Rightarrow> uuid \<Rightarrow> uuid \<Rightarrow> UpdateContactRequest \<Rightarrow> ('d, 'd RestaurantResponse) rs_op" where
  "UpdateContact_Execute L E restaurantID ownerID input =
     bind (owned_restaurant E restaurantID ownerID) (\<lambda>r.
       finish_update L E (WithContact (ucr_Email input) (ucr_Phone input) (ucr_Website input)
         (NotifyUpdated (re_clock E) (CompleteChecklistItem (re_clock E) ChecklistContact r))))"

definition UpdateDelivery_Execute ::
  "'d::linordered_idom lib \<Rightarrow> rs_env \<Rightarrow> uuid \<Rightarrow> uuid \<Rightarrow> 'd UpdateDeliveryRequest \<Rightarrow> ('d, 'd RestaurantResponse) rs_op" where
  "UpdateDelivery_Execute L E restaurantID ownerID input =
     bind (owned_restaurant E restaurantID ownerID) (\<lambda>r.
       finish_update L E (WithDelivery (udr_Pickup input) (udr_DeliveryType input) (udr_DeliveryKm input)
         (udr_DeliveryTimeMin input) (udr_DeliveryTimeMax input) (udr_DeliveryFee input) (udr_MinimumOrder input)
         (NotifyUpdated (re_clock E) (CompleteChecklistItem (re_clock E) ChecklistDelivery r))))"

text \<open>The request's opening hours have the shape of the domain's, which \<open>toDomainOpeningHours\<close> copies.\<close>

definition toDomainDayRanges :: "DayRange list \<Rightarrow> DayRange list" where
  "toDomainDayRanges ranges = List.map (\<lambda>r. \<lparr> dr_Open = dr_Open r, dr_Close = dr_Close r \<rparr>) ranges"

definition toDomainOpeningHours :: "OpeningHours \<Rightarrow> OpeningHours" where
  "toDomainOpeningHours h = \<lparr> oh_Monday = toDomainDayRanges (oh_Monday h),
     oh_Tuesday = toDomainDayRanges (oh_Tuesday h), oh_Wednesday = toDomainDayRanges (oh_Wednesday h),
     oh_Thursday = toDomainDayRanges (oh_Thursday h), oh_Friday = toDomainDayRanges (oh_Friday h),
     oh_Saturday = toDomainDayRanges (oh_Saturday h), oh_Sunday = toDomainDayRanges (oh_Sunday h) \<rparr>"

definition UpdateOpeningHours_Execute ::
  "'d::linordered_idom lib \<Rightarrow> rs_env \<Rightarrow> uuid \<Rightarrow> uuid \<Rightarrow> OpeningHours \<Rightarrow> ('d, 'd RestaurantResponse) rs_op" where
  "UpdateOpeningHours_Execute L E restaurantID ownerID input =
     bind (owned_restaurant E restaurantID ownerID) (\<lambda>r.
       finish_update L E (WithOpeningHours (toDomainOpeningHours input)
         (NotifyUpdated (re_clock E) (CompleteChecklistItem (re_clock E) ChecklistOpeningHours r))))"

text \<open>
  A request without tags has a nil slice. The JSON serializer of gorm writes it as \<open>NULL\<close>, which the column refuses, so
  that the transaction fails.
\<close>

definition UpdateTags_Execute ::
  "'d::linordered_idom lib \<Rightarrow> rs_env \<Rightarrow> uuid \<Rightarrow> uuid \<Rightarrow> string list option \<Rightarrow> ('d, 'd RestaurantResponse) rs_op" where
  "UpdateTags_Execute L E restaurantID ownerID input =
     bind (owned_restaurant E restaurantID ownerID) (\<lambda>r. case input of
       None \<Rightarrow> fail []
     | Some tags \<Rightarrow> finish_update L E (WithTags tags (NotifyUpdated (re_clock E) r)))"

text \<open>
  \<open>generateUniqueSlug\<close> tries the slug of name, city and street, then its extensions by \<open>-2\<close> to \<open>-9\<close>. \<open>goslug\<close> is
  package gosimple/slug.
\<close>

definition slug_free :: "uuid \<Rightarrow> 'd Restaurant_rs option \<Rightarrow> bool" where
  "slug_free restaurantID found = (case found of None \<Rightarrow> True | Some r \<Rightarrow> rs_ID r = restaurantID)"

fun try_slugs ::
  "rs_env \<Rightarrow> uuid \<Rightarrow> nat \<Rightarrow> string list \<Rightarrow> 'd rs_db \<Rightarrow> (rs_err, string) result" where
  "try_slugs E restaurantID n [] s = Inl []"
| "try_slugs E restaurantID n (slug # slugs) s =
     (case FindBySlug E n slug s of
        Inl e \<Rightarrow> Inl e
      | Inr found \<Rightarrow> if slug_free restaurantID found then Inr slug else try_slugs E restaurantID (Suc n) slugs s)"

definition slug_candidates :: "string \<Rightarrow> string list" where
  "slug_candidates base = base # List.map (\<lambda>i. base @ ''-'' @ show_int i) [2..9]"

definition generateUniqueSlug ::
  "(string \<Rightarrow> string) \<Rightarrow> rs_env \<Rightarrow> uuid \<Rightarrow> string \<Rightarrow> string \<Rightarrow> string \<Rightarrow> 'd rs_db \<Rightarrow> (rs_err, string) result" where
  "generateUniqueSlug goslug E restaurantID name city street =
     try_slugs E restaurantID 0 (slug_candidates (goslug (name @ ''-'' @ city @ ''-'' @ street)))"

type_synonym rs_geocoder = "Address_rs \<Rightarrow> (rs_err, real \<times> real \<times> string) result"

definition coordinates ::
  "rs_geocoder \<Rightarrow> Address_rs \<Rightarrow> 'd Restaurant_rs \<Rightarrow> (rs_err, real \<times> real \<times> string) result" where
  "coordinates geocoder addr r =
     (if rs_Address r = addr then
        (case (rs_Lat r, rs_Lon r, rs_Timezone r) of
           (Some lat, Some lon, Some timezone) \<Rightarrow> Inr (lat, lon, timezone)
         | _ \<Rightarrow> Inl [RsPanic])
      else geocoder addr)"

definition UpdateAddress_Execute ::
  "'d::linordered_idom lib \<Rightarrow> (string \<Rightarrow> string) \<Rightarrow> rs_geocoder \<Rightarrow> rs_env \<Rightarrow> uuid \<Rightarrow> uuid \<Rightarrow> UpdateAddressRequest \<Rightarrow>
    ('d, 'd RestaurantResponse) rs_op" where
  "UpdateAddress_Execute L goslug geocoder E restaurantID ownerID input =
     bind (owned_restaurant E restaurantID ownerID) (\<lambda>r.
     let addr = \<lparr> ra_House = uar_House input, ra_Street = uar_Street input, ra_PostalCode = uar_PostalCode input,
                  ra_City = uar_City input \<rparr> in
     bind (query (\<lambda>_. coordinates geocoder addr r)) (\<lambda>(lat, lon, timezone).
     bind (query (generateUniqueSlug goslug E (rs_ID r) (rs_Name r) (uar_City input) (uar_Street input))) (\<lambda>slug.
       finish_update L E (WithCoordinates lat lon timezone (WithAddress addr (WithSlug slug
         (NotifyUpdated (re_clock E) (CompleteChecklistItem (re_clock E) ChecklistAddress r))))))))"

subsection \<open>Payout details\<close>

record CreatePayoutRequest =
  cpr_AccountHolder :: string
  cpr_IBAN :: string
  cpr_BIC :: string
  cpr_BankName :: string

definition CreatePayout_Execute ::
  "'d::linordered_idom lib \<Rightarrow> rs_env \<Rightarrow> uuid \<Rightarrow> uuid \<Rightarrow> CreatePayoutRequest \<Rightarrow> ('d, 'd RestaurantResponse) rs_op" where
  "CreatePayout_Execute L E restaurantID ownerID input =
     bind (owned_restaurant E restaurantID ownerID) (\<lambda>r.
     bind (query (\<lambda>_. NewPayoutDetails (re_newV7 E 0) (rs_ID r) (cpr_AccountHolder input) (cpr_IBAN input)
            (cpr_BIC input) (cpr_BankName input))) (\<lambda>pd.
     bind (transaction (re_fault E) RsCommit (
            bind (Payout_Create E pd) (\<lambda>_.
            save_and_dispatch L E (\<lambda>_. []) (CompleteChecklistItem (re_clock E) ChecklistPayout r)))) (\<lambda>r'.
     ret (ToRestaurantResponse r' (Some pd)))))"

definition UpdatePayout_Execute ::
  "rs_env \<Rightarrow> uuid \<Rightarrow> uuid \<Rightarrow> CreatePayoutRequest \<Rightarrow> ('d, 'd RestaurantResponse) rs_op" where
  "UpdatePayout_Execute E restaurantID ownerID input =
     bind (owned_restaurant E restaurantID ownerID) (\<lambda>r.
     bind (UpdateUnverified E (rs_ID r) (cpr_AccountHolder input) (cpr_IBAN input) (cpr_BIC input)
            (cpr_BankName input)) (\<lambda>_.
     ret (ToRestaurantResponse r (Some \<lparr> pd_ID = 0, pd_RestaurantID = 0, pd_AccountHolder = cpr_AccountHolder input,
            pd_IBAN = cpr_IBAN input, pd_BIC = cpr_BIC input, pd_BankName = cpr_BankName input,
            pd_Status = PayoutUnverified, pd_CreatedAt = zero_time, pd_UpdatedAt = None \<rparr>))))"

subsection \<open>Approval\<close>

text \<open>
  The command in two halves, before and after its transaction, so that other requests can come in between.
\<close>

definition Approve_prepare :: "rs_env \<Rightarrow> uuid \<Rightarrow> 'd rs_db \<Rightarrow> (rs_err, 'd Restaurant_rs) result" where
  "Approve_prepare E restaurantID s =
     (case Restaurant_rs_FindByID E restaurantID s of
        Inl e \<Rightarrow> Inl e
      | Inr None \<Rightarrow> Inl [RsApp ErrNotFound]
      | Inr (Some r) \<Rightarrow>
          (case Approve (re_clock E) r of
             Inl e \<Rightarrow> Inl (if RsPanic \<in> set e then e else e @ [RsApp ErrConflict])
           | Inr r' \<Rightarrow> Inr r'))"

definition Approve_commit ::
  "'d::linordered_idom lib \<Rightarrow> rs_env \<Rightarrow> 'd Restaurant_rs \<Rightarrow> ('d, 'd RestaurantResponse) rs_op" where
  "Approve_commit L E r =
     bind (transaction (re_fault E) RsCommit (
            bind (Restaurant_Update E r) (\<lambda>r'.
            bind (PromoteToActive E (rs_ID r')) (\<lambda>_.
            rs_DispatchEventsTx L E [] r')))) (\<lambda>r'.
     restaurant_answer E r')"

definition ApproveRestaurant_Execute ::
  "'d::linordered_idom lib \<Rightarrow> rs_env \<Rightarrow> uuid \<Rightarrow> ('d, 'd RestaurantResponse) rs_op" where
  "ApproveRestaurant_Execute L E restaurantID = bind (query (Approve_prepare E restaurantID)) (Approve_commit L E)"

subsection \<open>The menu\<close>

text \<open>\<open>PizzaCatalog\<close>: the restaurant's pizzas with their prices and toppings, without the archived ones.\<close>

fun catalog_pizzas ::
  "'d lib \<Rightarrow> rs_env \<Rightarrow> (uuid \<rightharpoonup> PizzaSize) \<Rightarrow> (uuid \<rightharpoonup> Topping) \<Rightarrow> (uuid \<rightharpoonup> 'd) \<Rightarrow> nat \<Rightarrow> Pizza_rs list \<Rightarrow>
    'd rs_db \<Rightarrow> (rs_err, 'd PizzaResponse list) result" where
  "catalog_pizzas L E sizeByID toppingByID priceByToppingID n [] s = Inr []"
| "catalog_pizzas L E sizeByID toppingByID priceByToppingID n (p # ps) s =
     (if rz_Status p = PizzaArchived then catalog_pizzas L E sizeByID toppingByID priceByToppingID (Suc n) ps s
      else case rs_ListByPizza E n (rz_ID p) s of
        Inl e \<Rightarrow> Inl e
      | Inr prices \<Rightarrow>
        (case ToppingIDs L p of
           Inl e \<Rightarrow> Inl e
         | Inr toppingIDs \<Rightarrow>
           (case catalog_pizzas L E sizeByID toppingByID priceByToppingID (Suc n) ps s of
              Inl e \<Rightarrow> Inl e
            | Inr rest \<Rightarrow>
                Inr (ToPizzaResponse p prices sizeByID toppingIDs toppingByID priceByToppingID # rest))))"

definition PizzaCatalog_Execute :: "'d lib \<Rightarrow> rs_env \<Rightarrow> uuid \<Rightarrow> ('d, 'd PizzaResponse list) rs_op" where
  "PizzaCatalog_Execute L E restaurantID =
     bind (query (ListByRestaurant E restaurantID)) (\<lambda>pizzas.
     bind (query (Size_List E)) (\<lambda>sizes.
     bind (query (Topping_List E)) (\<lambda>toppings.
     bind (query (rt_ListByRestaurant E restaurantID)) (\<lambda>toppingPrices.
     query (catalog_pizzas L E (index_by sz_ID sizes) (index_by tg_ID toppings)
       (map_option rt_ExtraPrice \<circ> index_by rt_ToppingID toppingPrices) 0 pizzas)))))"

definition ListPizzas_Execute :: "'d lib \<Rightarrow> rs_env \<Rightarrow> uuid \<Rightarrow> uuid \<Rightarrow> ('d, 'd PizzaResponse list) rs_op" where
  "ListPizzas_Execute L E restaurantID ownerID =
     bind (owned_restaurant E restaurantID ownerID) (\<lambda>_. PizzaCatalog_Execute L E restaurantID)"

definition GetRestaurant_Execute ::
  "'d lib \<Rightarrow> rs_env \<Rightarrow> uuid \<Rightarrow> uuid \<Rightarrow> ('d, 'd RestaurantResponse \<times> 'd PizzaResponse list) rs_op" where
  "GetRestaurant_Execute L E restaurantID ownerID =
     bind (owned_restaurant E restaurantID ownerID) (\<lambda>r.
     bind (query (FindActiveByRestaurant E (rs_ID r))) (\<lambda>pd.
     bind (PizzaCatalog_Execute L E (rs_ID r)) (\<lambda>pizzas.
     ret (ToRestaurantResponse r pd, pizzas))))"

record CreatePizzaRequest =
  czr_Name :: string
  czr_Image :: "string option"
  czr_IsVegetarian :: "bool option"
  czr_Status :: "PizzaStatus option"
  czr_SortOrder :: "64 word"
  czr_ToppingIDs :: "uuid list option"

definition given :: "'a \<Rightarrow> 'a option \<Rightarrow> 'a" where
  "given d v = (case v of None \<Rightarrow> d | Some x \<Rightarrow> x)"

definition ValidateToppingSelections :: "uuid list \<Rightarrow> (uuid \<rightharpoonup> Topping) \<Rightarrow> (rs_err, unit) result" where
  "ValidateToppingSelections toppingIDs toppingByID =
     (if \<exists>i \<in> set toppingIDs. toppingByID i = None then Inl [RsApp ErrNotFound] else Inr ())"

text \<open>Both commands on pizzas check and store a selection alike; a repeated topping is a conflict.\<close>

definition select_toppings ::
  "'d lib \<Rightarrow> uuid list \<Rightarrow> (uuid \<rightharpoonup> Topping) \<Rightarrow> Pizza_rs \<Rightarrow> (rs_err, Pizza_rs) result" where
  "select_toppings L toppingIDs toppingByID p =
     (case ValidateToppingSelections toppingIDs toppingByID of
        Inl e \<Rightarrow> Inl e
      | Inr _ \<Rightarrow>
        (case SetToppingIDs L toppingIDs p of
           Inl e \<Rightarrow> Inl (if ErrDuplicateTopping \<in> set e then e @ [RsApp ErrConflict] else e)
         | Inr p' \<Rightarrow> Inr p'))"

text \<open>A nil list of toppings and an empty one are treated alike on creation.\<close>

definition CreatePizza_Execute ::
  "'d lib \<Rightarrow> rs_env \<Rightarrow> uuid \<Rightarrow> uuid \<Rightarrow> CreatePizzaRequest \<Rightarrow> ('d, 'd PizzaResponse) rs_op" where
  "CreatePizza_Execute L E restaurantID ownerID input =
     bind (owned_restaurant E restaurantID ownerID) (\<lambda>r.
     bind (ensure (IsCompleted (rs_Checklist r)) [ErrChecklistIncomplete, RsApp ErrForbidden]) (\<lambda>_.
     bind (query (\<lambda>_. case re_newV7 E 0 of None \<Rightarrow> Inl [] | Some i \<Rightarrow> Inr i)) (\<lambda>ident.
     let p = WithDetails (czr_Name input) (czr_Image input) (given False (czr_IsVegetarian input))
               (given PizzaAvailable (czr_Status input)) (czr_SortOrder input) (NewPizza ident restaurantID);
         ids = given [] (czr_ToppingIDs input) in
     if ids \<noteq> [] then
       bind (query (Topping_List E)) (\<lambda>toppings.
       bind (query (\<lambda>_. select_toppings L ids (index_by tg_ID toppings) p)) (\<lambda>p'.
       bind (Pizza_Create E p') (\<lambda>p''.
       ret (ToPizzaResponse p'' [] Map.empty ids (index_by tg_ID toppings) Map.empty))))
     else
       bind (Pizza_Create E p) (\<lambda>p'.
       ret (ToPizzaResponse p' [] Map.empty [] Map.empty Map.empty)))))"

definition owned_pizza :: "rs_env \<Rightarrow> uuid \<Rightarrow> uuid \<Rightarrow> ('d, Pizza_rs) rs_op" where
  "owned_pizza E pizzaID restaurantID =
     bind (query (FindByIDAndRestaurant E pizzaID restaurantID)) (\<lambda>found. case found of
       None \<Rightarrow> fail [RsApp ErrNotFound]
     | Some p \<Rightarrow> ret p)"

definition UpdatePizza_Execute ::
  "'d::linordered_idom lib \<Rightarrow> rs_env \<Rightarrow> uuid \<Rightarrow> uuid \<Rightarrow> uuid \<Rightarrow> CreatePizzaRequest \<Rightarrow> ('d, 'd PizzaResponse) rs_op" where
  "UpdatePizza_Execute L E restaurantID pizzaID ownerID input =
     bind (owned_restaurant E restaurantID ownerID) (\<lambda>r.
     bind (owned_pizza E pizzaID restaurantID) (\<lambda>p0.
     let p1 = WithDetails (czr_Name input) (czr_Image input) (given (rz_IsVegetarian p0) (czr_IsVegetarian input))
                (given (rz_Status p0) (czr_Status input)) (czr_SortOrder input) p0 in
     bind (query (Topping_List E)) (\<lambda>toppings.
     bind (query (\<lambda>_. case czr_ToppingIDs input of
              None \<Rightarrow> Inr p1
            | Some ids \<Rightarrow> select_toppings L ids (index_by tg_ID toppings) p1)) (\<lambda>p.
     bind (query (\<lambda>_. ToppingIDs L p)) (\<lambda>toppingIDs.
     bind (query (rs_ListByPizza E 0 (rz_ID p))) (\<lambda>prices.
     bind (query (Size_List E)) (\<lambda>sizes.
     transaction (re_fault E) RsCommit (
       bind (Pizza_Update E p) (\<lambda>p'.
       let output = ToPizzaResponse p' prices (index_by sz_ID sizes) toppingIDs (index_by tg_ID toppings) Map.empty in
       bind (rs_DispatchEventsTx L E [enrichPizzaUpdated L output] (NotifyPizzaUpdated (re_clock E) r)) (\<lambda>_.
       ret output))))))))))"

text \<open>
  The requested prices become rows one by one: an unknown size, a size given twice or a failing identifier ends
  the request.
\<close>

fun new_prices ::
  "rs_env \<Rightarrow> uuid \<Rightarrow> (uuid \<rightharpoonup> PizzaSize) \<Rightarrow> nat \<Rightarrow> uuid list \<Rightarrow> (uuid \<times> 'd) list \<Rightarrow> (rs_err, 'd PizzaPrice_rs list) result" where
  "new_prices E pizzaID sizeByID n seen [] = Inr []"
| "new_prices E pizzaID sizeByID n seen ((sizeID, price) # rest) =
     (if sizeByID sizeID = None then Inl [RsApp ErrNotFound]
      else if sizeID \<in> set seen then Inl [RsApp ErrConflict]
      else case NewPizzaPrice (re_newV7 E n) pizzaID sizeID price of
        Inl e \<Rightarrow> Inl e
      | Inr p \<Rightarrow>
        (case new_prices E pizzaID sizeByID (Suc n) (sizeID # seen) rest of
           Inl e \<Rightarrow> Inl e | Inr ps \<Rightarrow> Inr (p # ps)))"

definition SetPizzaPrices_Execute ::
  "'d::linordered_idom lib \<Rightarrow> rs_env \<Rightarrow> uuid \<Rightarrow> uuid \<Rightarrow> uuid \<Rightarrow> (uuid \<times> 'd) list \<Rightarrow> ('d, 'd PizzaResponse) rs_op" where
  "SetPizzaPrices_Execute L E restaurantID pizzaID ownerID input =
     bind (owned_restaurant E restaurantID ownerID) (\<lambda>r.
     bind (owned_pizza E pizzaID restaurantID) (\<lambda>p.
     bind (query (Size_List E)) (\<lambda>sizes.
     bind (query (\<lambda>_. new_prices E pizzaID (index_by sz_ID sizes) 0 [] input)) (\<lambda>prices.
     bind (query (\<lambda>_. ToppingIDs L p)) (\<lambda>toppingIDs.
     bind (query (Topping_List E)) (\<lambda>toppings.
     transaction (re_fault E) RsCommit (
       bind (ReplacePrices E pizzaID prices) (\<lambda>_.
       bind (Pizza_Update E p) (\<lambda>p'.
       bind (query (rs_ListByPizza E 0 pizzaID)) (\<lambda>updated.
       let output = ToPizzaResponse p' updated (index_by sz_ID sizes) toppingIDs (index_by tg_ID toppings) Map.empty in
       bind (rs_DispatchEventsTx L E [enrichPizzaUpdated L output] (NotifyPizzaUpdated (re_clock E) r)) (\<lambda>_.
       ret output)))))))))))"

fun new_topping_prices ::
  "rs_env \<Rightarrow> uuid \<Rightarrow> (uuid \<rightharpoonup> Topping) \<Rightarrow> nat \<Rightarrow> uuid list \<Rightarrow> (uuid \<times> 'd::linordered_idom) list \<Rightarrow>
    (rs_err, 'd ToppingPrice_rs list) result" where
  "new_topping_prices E restaurantID toppingByID n seen [] = Inr []"
| "new_topping_prices E restaurantID toppingByID n seen ((toppingID, extraPrice) # rest) =
     (if toppingByID toppingID = None then Inl [RsApp ErrNotFound]
      else if toppingID \<in> set seen then Inl [RsApp ErrConflict]
      else if extraPrice < 1 \<or> 3 < extraPrice then Inl [RsApp ErrInvalid]
      else case NewToppingPrice (re_newV7 E n) restaurantID toppingID extraPrice of
        Inl e \<Rightarrow> Inl e
      | Inr p \<Rightarrow>
        (case new_topping_prices E restaurantID toppingByID (Suc n) (toppingID # seen) rest of
           Inl e \<Rightarrow> Inl e | Inr ps \<Rightarrow> Inr (p # ps)))"

definition SetToppingPrices_Execute ::
  "'d::linordered_idom lib \<Rightarrow> rs_env \<Rightarrow> uuid \<Rightarrow> uuid \<Rightarrow> (uuid \<times> 'd) list \<Rightarrow> ('d, 'd ToppingPriceResponse list) rs_op" where
  "SetToppingPrices_Execute L E restaurantID ownerID input =
     bind (owned_restaurant E restaurantID ownerID) (\<lambda>r.
     bind (query (Topping_List E)) (\<lambda>toppings.
     bind (query (\<lambda>_. new_topping_prices E restaurantID (index_by tg_ID toppings) 0 [] input)) (\<lambda>prices0.
     transaction (re_fault E) RsCommit (
       bind (UpsertPrices E prices0) (\<lambda>prices.
       bind (query (rt_ListByRestaurant E restaurantID)) (\<lambda>updated.
       let responses = topping_price_responses (index_by tg_ID toppings) updated in
       case prices of
         [] \<Rightarrow> fail [RsPanic]
       | price # _ \<Rightarrow>
         (case rt_UpdatedAt price of
            None \<Rightarrow> fail [RsPanic]
          | Some updatedAt \<Rightarrow>
              bind (rs_DispatchEventsTx L E [enrichToppingPricesUpdated L responses updatedAt]
                      (NotifyToppingPricesUpdated (re_clock E) r)) (\<lambda>_.
              ret responses))))))))"

subsection \<open>Launch\<close>

definition MinPizzasToLaunch :: nat where
  "MinPizzasToLaunch = 2"

text \<open>\<open>EvaluateLaunchReadiness\<close>: the pizzas with and those without an active price.\<close>

definition EvaluateLaunchReadiness :: "'d PizzaResponse list \<Rightarrow> 'd PizzaResponse list \<times> 'd PizzaResponse list" where
  "EvaluateLaunchReadiness pizzas =
     (filter HasActivePrice pizzas, filter (\<lambda>p. \<not> HasActivePrice p) pizzas)"

definition MeetsMinimum :: "'d PizzaResponse list \<times> 'd PizzaResponse list \<Rightarrow> bool" where
  "MeetsMinimum readiness \<longleftrightarrow> MinPizzasToLaunch \<le> length (fst readiness)"

definition buildToppingPriceResponses :: "rs_env \<Rightarrow> uuid \<Rightarrow> ('d, 'd ToppingPriceResponse list) rs_op" where
  "buildToppingPriceResponses E restaurantID =
     bind (query (Topping_List E)) (\<lambda>toppings.
     bind (query (rt_ListByRestaurant E restaurantID)) (\<lambda>prices.
     ret (topping_price_responses (index_by tg_ID toppings) prices)))"

definition LaunchRestaurant_Execute ::
  "'d::linordered_idom lib \<Rightarrow> rs_env \<Rightarrow> uuid \<Rightarrow> uuid \<Rightarrow> ('d, 'd RestaurantResponse) rs_op" where
  "LaunchRestaurant_Execute L E restaurantID ownerID =
     bind (owned_restaurant E restaurantID ownerID) (\<lambda>r.
     bind (PizzaCatalog_Execute L E (rs_ID r)) (\<lambda>pizzas.
     let readiness = EvaluateLaunchReadiness pizzas in
     bind (ensure (MeetsMinimum readiness) [ErrNotEnoughPizzas, RsApp ErrConflict]) (\<lambda>_.
     bind (buildToppingPriceResponses E (rs_ID r)) (\<lambda>toppingPrices.
     bind (query (\<lambda>_. case Launch (re_clock E) r of
              Inl e \<Rightarrow> Inl (e @ [RsApp ErrConflict]) | Inr r' \<Rightarrow> Inr r')) (\<lambda>launched.
     bind (transaction (re_fault E) RsCommit (
            save_and_dispatch L E (\<lambda>r'. [enrichLaunched L r' (fst readiness) toppingPrices]) launched)) (\<lambda>r'.
     restaurant_answer E r'))))))"

record 'd LaunchReadinessResponse =
  lrr_Name :: string
  lrr_Status :: RestaurantStatus
  lrr_ReadyToLaunch :: bool
  lrr_MinPizzasRequired :: nat
  lrr_ReadyPizzas :: "'d PizzaResponse list"
  lrr_IncompletePizzas :: "'d PizzaResponse list"
  lrr_Comment :: string

definition launchReadinessComment ::
  "RestaurantStatus \<Rightarrow> bool \<Rightarrow> 'd PizzaResponse list \<times> 'd PizzaResponse list \<Rightarrow> string" where
  "launchReadinessComment st readyToLaunch readiness =
     (if readyToLaunch then ''Welcome to launch! Your restaurant is ready to go live.''
      else if st = StatusDraft then ''Complete your onboarding checklist before you can be reviewed for launch.''
      else if st = StatusReview then ''Waiting for admin approval before you can launch.''
      else ''Add '' @ show_int (int MinPizzasToLaunch - int (length (fst readiness))) @
           '' more priced pizza(s) to reach the minimum of '' @ show_int (int MinPizzasToLaunch) @ ''.'')"

definition ToLaunchReadinessResponse ::
  "'d Restaurant_rs \<Rightarrow> 'd PizzaResponse list \<times> 'd PizzaResponse list \<Rightarrow> 'd LaunchReadinessResponse" where
  "ToLaunchReadinessResponse r readiness =
     (let readyToLaunch = (rs_Status r = StatusApproved \<and> MeetsMinimum readiness) in
      \<lparr> lrr_Name = rs_Name r, lrr_Status = rs_Status r, lrr_ReadyToLaunch = readyToLaunch,
        lrr_MinPizzasRequired = MinPizzasToLaunch, lrr_ReadyPizzas = fst readiness,
        lrr_IncompletePizzas = snd readiness,
        lrr_Comment = launchReadinessComment (rs_Status r) readyToLaunch readiness \<rparr>)"

definition GetLaunchReadiness_Execute ::
  "'d lib \<Rightarrow> rs_env \<Rightarrow> uuid \<Rightarrow> uuid \<Rightarrow> ('d, 'd LaunchReadinessResponse) rs_op" where
  "GetLaunchReadiness_Execute L E restaurantID ownerID =
     bind (owned_restaurant E restaurantID ownerID) (\<lambda>r.
     bind (ensure (rs_Status r \<in> {StatusDraft, StatusReview, StatusApproved})
            [ErrLaunchReadinessNotApplicable, RsApp ErrConflict]) (\<lambda>_.
     bind (PizzaCatalog_Execute L E (rs_ID r)) (\<lambda>pizzas.
     ret (ToLaunchReadinessResponse r (EvaluateLaunchReadiness pizzas)))))"

subsection \<open>The inbound event and the answers over HTTP\<close>

text \<open>The payload's identifiers are parsed as texts, so a missing one is an error.\<close>

definition RestaurantInitiated_Handle ::
  "'d::linordered_idom lib \<Rightarrow> rs_env \<Rightarrow> json option \<Rightarrow> ('d, unit) rs_op" where
  "RestaurantInitiated_Handle L E body = (case body of
     None \<Rightarrow> fail []
   | Some j \<Rightarrow>
       if \<not> is_struct j then fail []
       else (case (dec_str (member j ''restaurant_id''), dec_str (member j ''owner_id''),
                   dec_str (member j ''business_name''), dec_str (member j ''vat_number'')) of
          (Some i, Some own, Some name, Some vat) \<Rightarrow>
            (case (uuidParse L i, uuidParse L own) of
               (Some restaurantID, Some ownerID) \<Rightarrow>
                 Restaurant_Create E (NewRestaurant restaurantID ownerID name vat
                   (Checklist_Complete ChecklistBasic NewChecklist))
             | _ \<Rightarrow> fail [])
        | _ \<Rightarrow> fail []))"

definition rs_Dispatch :: "'d::linordered_idom lib \<Rightarrow> string \<Rightarrow> rs_env \<Rightarrow> json option \<Rightarrow> ('d, unit) rs_op" where
  "rs_Dispatch L name E body =
     (if name = ''restaurant.initiated'' then RestaurantInitiated_Handle L E body else fail [])"

definition rs_HandleError :: "rs_err list \<Rightarrow> nat" where
  "rs_HandleError err =
     (if errors_is err (RsApp ErrUnauthorized) then 401
      else if errors_is err (RsApp ErrForbidden) then 403
      else if errors_is err (RsApp ErrNotFound) then 404
      else if errors_is err (RsApp ErrInvalid) then 422
      else if errors_is err ErrNoUnverifiedPayout then 404
      else if errors_is err ErrUnverifiedPayoutExists then 409
      else if errors_is err (RsApp ErrConflict) \<or> errors_is err ErrEmailAlreadyExists then 409
      else 500)"

end
