(* ===== verification/Consumer.thy ===== *)
theory Consumer
  imports Read_Model
begin

text \<open>
  The consumer of RabbitMQ (\<open>order-service/internal/infrastructure/messaging/rabbitmq_consumer.go\<close>; customer-,
  restaurant-, notification- and search-service have the same code with other names): what becomes of a message,
  the queue and its dead-letter queue as a step relation in which the consumer may die at any point, that no
  message is lost, and that the queue drains. Connecting, and the pause before a message is put back, are left out.
\<close>

subsection \<open>One message\<close>

text \<open>
  A delivery of the broker. Header values are of the wire's types; only strings and 32-bit integers are told
  apart here. The body is \<open>None\<close> when it is no JSON document.
\<close>

datatype header = HString string | HInt32 "32 word" | HOther

record delivery =
  dl_RoutingKey :: string
  dl_Headers :: "string \<rightharpoonup> header"
  dl_Body :: "json option"
  dl_ContentType :: string
  dl_MessageId :: string

definition QueueName :: string where
  "QueueName = ''order_queue''"

definition MaxRetryAttempts :: int where
  "MaxRetryAttempts = 3"

text \<open>The events that the queue is bound to, by exchange.\<close>

definition Exchanges :: "(string \<times> string list) list" where
  "Exchanges =
     [(''restaurant.events'', [''restaurant.launched'', ''restaurant.updated'', ''restaurant.pizza_updated'',
        ''restaurant.topping_prices_updated'']),
      (''identity.events'', [''user.registered'']),
      (''payment.events'', [''payment.succeeded'', ''payment.failed'']),
      (''customer.events'', [''customer.phone_updated''])]"

definition getEventName :: "delivery \<Rightarrow> string" where
  "getEventName msg = (case dl_Headers msg ''x-original-routing-key'' of
     Some (HString name) \<Rightarrow> if name \<noteq> '''' then name else dl_RoutingKey msg
   | _ \<Rightarrow> dl_RoutingKey msg)"

definition getRetryCount :: "delivery \<Rightarrow> int" where
  "getRetryCount msg = (case dl_Headers msg ''x-retry-count'' of
     Some (HInt32 n) \<Rightarrow> sint n
   | _ \<Rightarrow> 0)"

definition Republish :: "delivery \<Rightarrow> int \<Rightarrow> delivery" where
  "Republish msg retryCount =
     (let headers = (dl_Headers msg)(''x-retry-count'' \<mapsto> HInt32 (word_of_int retryCount)) in
      msg\<lparr> dl_RoutingKey := QueueName,
           dl_Headers := (if headers ''x-original-routing-key'' = None
             then headers(''x-original-routing-key'' \<mapsto> HString (dl_RoutingKey msg)) else headers) \<rparr>)"

text \<open>
  The broker's queue and dead-letter queue, the state of the service, and what the proofs speak of: what was
  published, which dispatches succeeded and which failed. \<open>handle\<close> is the dispatcher in the environment of one
  dispatch.
\<close>

type_synonym ('s, 'e) dispatch = "string \<Rightarrow> json option \<Rightarrow> ('s, 'e, unit) op"

record 's broker =
  bk_queue :: "delivery list"
  bk_dlq :: "delivery list"
  bk_db :: 's
  bk_published :: "message list"
  bk_handled :: "message list"
  bk_failed :: "message list"

definition event_payload :: "delivery \<Rightarrow> message" where
  "event_payload msg = (getEventName msg, dl_Body msg)"

text \<open>What the loop of \<open>runOnce\<close> does with a message; \<open>republished\<close> says whether \<open>Republish\<close> succeeds.\<close>

datatype settlement = Acked | DeadLettered | Retried delivery | Requeued

definition settle_message :: "bool \<Rightarrow> bool \<Rightarrow> delivery \<Rightarrow> settlement" where
  "settle_message ok republished msg =
     (if ok then Acked
      else if getRetryCount msg \<ge> MaxRetryAttempts then DeadLettered
      else if republished then Retried (Republish msg (getRetryCount msg + 1))
      else Requeued)"

definition dispatched :: "('s, 'e) dispatch \<Rightarrow> delivery \<Rightarrow> 's broker \<Rightarrow> bool \<times> 's broker" where
  "dispatched handle msg b =
     (case handle (getEventName msg) (dl_Body msg) (bk_db b) of
        (Inr _, s) \<Rightarrow> (True, b\<lparr> bk_db := s, bk_handled := bk_handled b @ [event_payload msg] \<rparr>)
      | (Inl _, s) \<Rightarrow> (False, b\<lparr> bk_db := s, bk_failed := bk_failed b @ [event_payload msg] \<rparr>))"

fun settled :: "settlement \<Rightarrow> delivery \<Rightarrow> 's broker \<Rightarrow> 's broker" where
  "settled Acked msg b = b"
| "settled DeadLettered msg b = b\<lparr> bk_dlq := bk_dlq b @ [msg] \<rparr>"
| "settled (Retried msg') msg b = b\<lparr> bk_queue := bk_queue b @ [msg'] \<rparr>"
| "settled Requeued msg b = b\<lparr> bk_queue := msg # bk_queue b \<rparr>"

definition runOnce :: "('s, 'e) dispatch \<Rightarrow> bool \<Rightarrow> 's broker \<Rightarrow> 's broker" where
  "runOnce handle republished b =
     (case bk_queue b of
        [] \<Rightarrow> b
      | msg # rest \<Rightarrow>
          (case dispatched handle msg (b\<lparr> bk_queue := rest \<rparr>) of
             (ok, b') \<Rightarrow> settled (settle_message ok republished msg) msg b'))"

text \<open>
  A message that keeps its name when it is put back: its routing key is not empty, and the header is not there
  or holds one that is not empty. The publisher of every service makes such messages.
\<close>

definition well_keyed :: "delivery \<Rightarrow> bool" where
  "well_keyed msg \<longleftrightarrow> dl_RoutingKey msg \<noteq> '''' \<and>
     (case dl_Headers msg ''x-original-routing-key'' of
        None \<Rightarrow> True | Some (HString name) \<Rightarrow> name \<noteq> '''' | Some _ \<Rightarrow> False)"

lemma Republish_name: "well_keyed msg \<Longrightarrow> getEventName (Republish msg n) = getEventName msg"
  by (auto simp: well_keyed_def Republish_def getEventName_def Let_def split: option.splits header.splits)

lemma Republish_well_keyed: "well_keyed msg \<Longrightarrow> well_keyed (Republish msg n)"
  by (auto simp: well_keyed_def Republish_def Let_def QueueName_def split: option.splits header.splits)

lemma Republish_simps [simp]: "dl_Body (Republish msg n) = dl_Body msg" "dl_MessageId (Republish msg n) = dl_MessageId msg"
  by (simp_all add: Republish_def Let_def)

lemma Republish_payload: "well_keyed msg \<Longrightarrow> event_payload (Republish msg n) = event_payload msg"
  by (simp add: event_payload_def Republish_name)

lemma Republish_count: "- 2147483648 \<le> n \<Longrightarrow> n \<le> 2147483647 \<Longrightarrow> getRetryCount (Republish msg n) = n"
  by (auto simp: Republish_def getRetryCount_def Let_def sint_sbintrunc' signed_take_bit_int_eq_self)

lemma getRetryCount_ge: "- 2147483648 \<le> getRetryCount msg"
proof -
  have "- 2147483648 \<le> sint c" for c :: "32 word"
    using sint_ge [of c] by simp
  then show ?thesis by (simp add: getRetryCount_def split: option.split header.split)
qed

lemma Retry_count: "getRetryCount msg < MaxRetryAttempts \<Longrightarrow> getRetryCount (Republish msg (getRetryCount msg + 1)) = getRetryCount msg + 1"
  using getRetryCount_ge [of msg] by (intro Republish_count) (simp_all add: MaxRetryAttempts_def)

subsection \<open>The queue drains\<close>

text \<open>Messages are handled by whatever dispatcher; putting back succeeds.\<close>

fun consume :: "(nat \<Rightarrow> ('s, 'e) dispatch) \<Rightarrow> nat \<Rightarrow> 's broker \<Rightarrow> 's broker" where
  "consume handle 0 b = b"
| "consume handle (Suc n) b = runOnce (handle n) True (consume handle n b)"

definition tries_left :: "delivery \<Rightarrow> nat" where
  "tries_left msg = nat (MaxRetryAttempts + 1 - getRetryCount msg)"

definition work_left :: "'s broker \<Rightarrow> nat" where
  "work_left b = (\<Sum>msg\<leftarrow>bk_queue b. max 1 (tries_left msg))"

lemma settled_fields [simp]:
  "bk_published (settled t msg b) = bk_published b" "bk_handled (settled t msg b) = bk_handled b"
  "bk_failed (settled t msg b) = bk_failed b" "bk_db (settled t msg b) = bk_db b"
  by (cases t; simp)+

lemma dispatched_fields:
  "dispatched handle msg b = (ok, b') \<Longrightarrow> bk_queue b' = bk_queue b \<and> bk_dlq b' = bk_dlq b \<and> bk_published b' = bk_published b \<and>
    bk_handled b' = bk_handled b @ (if ok then [event_payload msg] else []) \<and>
    bk_failed b' = bk_failed b @ (if ok then [] else [event_payload msg])"
  by (auto simp: dispatched_def split: prod.splits sum.splits)

lemma runOnce_cases:
  assumes "bk_queue b = msg # rest"
  obtains ok b' where "dispatched handle msg (b\<lparr> bk_queue := rest \<rparr>) = (ok, b')"
    "runOnce handle republished b = settled (settle_message ok republished msg) msg b'" "bk_queue b' = rest" "bk_dlq b' = bk_dlq b"
    "bk_published b' = bk_published b" "bk_handled b' = bk_handled b @ (if ok then [event_payload msg] else [])"
    "bk_failed b' = bk_failed b @ (if ok then [] else [event_payload msg])"
proof -
  obtain ok b' where run: "dispatched handle msg (b\<lparr> bk_queue := rest \<rparr>) = (ok, b')" by fastforce
  show ?thesis
    by (rule that [OF run]) (use assms dispatched_fields [OF run] run in \<open>simp_all add: runOnce_def\<close>)
qed

lemma runOnce_work:
  assumes "bk_queue b \<noteq> []"
  shows "work_left (runOnce handle True b) < work_left b"
proof -
  obtain msg rest where q: "bk_queue b = msg # rest" using assms by (cases "bk_queue b") auto
  then show ?thesis
  proof (rule runOnce_cases [where handle = handle and republished = True])
    fix ok b' assume run: "runOnce handle True b = settled (settle_message ok True msg) msg b'" and rest: "bk_queue b' = rest"
    show ?thesis
    proof (cases "ok \<or> getRetryCount msg \<ge> MaxRetryAttempts")
      case True
      then show ?thesis using run rest q by (auto simp: settle_message_def work_left_def)
    next
      case False
      then have "tries_left msg = Suc (tries_left (Republish msg (getRetryCount msg + 1)))" "1 \<le> tries_left (Republish msg (getRetryCount msg + 1))"
        using Retry_count [of msg] by (auto simp: tries_left_def not_le)
      then show ?thesis using run rest q False by (simp add: settle_message_def work_left_def)
    qed
  qed
qed

lemma runOnce_empty: "bk_queue b = [] \<Longrightarrow> runOnce handle r b = b"
  by (simp add: runOnce_def)

lemma consume_work: "bk_queue (consume handle n b) = [] \<or> work_left (consume handle n b) + n \<le> work_left b"
proof (induction n)
  case 0
  then show ?case by simp
next
  case (Suc n)
  then show ?case
    using runOnce_work [of "consume handle n b" "handle n"] runOnce_empty [of "consume handle n b" "handle n" True]
    by (cases "bk_queue (consume handle n b) = []") auto
qed

subsection \<open>The consumer with its broker\<close>

text \<open>
  All that can happen: a service publishes a message (with no retry count); the consumer takes the first message,
  dispatches it in some environment and settles it, with a \<open>Republish\<close> that succeeds or fails; or it dies
  between the dispatch and the settlement, or between \<open>Republish\<close> and the acknowledgement, so that the broker keeps the
  message; or the broker, for which the messages of a reconnected consumer are new, reorders the queue.
\<close>

definition fresh_message :: "delivery \<Rightarrow> bool" where
  "fresh_message msg \<longleftrightarrow> well_keyed msg \<and> dl_Headers msg ''x-retry-count'' = None"

inductive broker_step :: "('x \<Rightarrow> ('s, 'e) dispatch) \<Rightarrow> 's broker \<Rightarrow> 's broker \<Rightarrow> bool"
  for handle where
  publish: "fresh_message msg \<Longrightarrow>
    broker_step handle b (b\<lparr> bk_queue := bk_queue b @ [msg], bk_published := bk_published b @ [event_payload msg] \<rparr>)"
| message: "broker_step handle b (runOnce (handle x) republished b)"
| dies: "bk_queue b = msg # rest \<Longrightarrow> dispatched (handle x) msg b = (ok, b') \<Longrightarrow> broker_step handle b b'"
| dies_after_republish: "bk_queue b = msg # rest \<Longrightarrow> dispatched (handle x) msg b = (False, b') \<Longrightarrow>
    settle_message False True msg = Retried msg' \<Longrightarrow> broker_step handle b (b'\<lparr> bk_queue := bk_queue b' @ [msg'] \<rparr>)"
| reorder: "set q = set (bk_queue b) \<Longrightarrow> broker_step handle b (b\<lparr> bk_queue := q \<rparr>)"

inductive broker_reach :: "('x \<Rightarrow> ('s, 'e) dispatch) \<Rightarrow> 's \<Rightarrow> 's broker \<Rightarrow> bool"
  for handle s0 where
  start: "broker_reach handle s0 \<lparr> bk_queue = [], bk_dlq = [], bk_db = s0, bk_published = [], bk_handled = [], bk_failed = [] \<rparr>"
| step: "broker_reach handle s0 b \<Longrightarrow> broker_step handle b b' \<Longrightarrow> broker_reach handle s0 b'"

text \<open>
  A stored copy of a message: it is of a published message, and its retry count is the number of failed
  dispatches that it has behind it, so no more than there were.
\<close>

definition copy_inv :: "'s broker \<Rightarrow> delivery \<Rightarrow> bool" where
  "copy_inv b msg \<longleftrightarrow> well_keyed msg \<and> event_payload msg \<in> set (bk_published b) \<and> 0 \<le> getRetryCount msg \<and>
     getRetryCount msg \<le> MaxRetryAttempts \<and> getRetryCount msg \<le> int (count_list (bk_failed b) (event_payload msg))"

definition broker_inv :: "'s broker \<Rightarrow> bool" where
  "broker_inv b \<longleftrightarrow> (\<forall>msg \<in> set (bk_queue b). copy_inv b msg) \<and>
     (\<forall>msg \<in> set (bk_dlq b). copy_inv b msg \<and> MaxRetryAttempts < int (count_list (bk_failed b) (event_payload msg))) \<and>
     set (bk_handled b) \<subseteq> set (bk_published b) \<and> set (bk_failed b) \<subseteq> set (bk_published b) \<and>
     (\<forall>m \<in> set (bk_published b). m \<in> set (bk_handled b) \<or> m \<in> event_payload ` (set (bk_queue b) \<union> set (bk_dlq b)))"

lemma copy_inv_mono:
  assumes "copy_inv b msg" "bk_published b' = bk_published b @ ps" "bk_failed b' = bk_failed b @ fs"
  shows "copy_inv b' msg"
  using assms by (auto simp: copy_inv_def)

lemma copy_inv_queues [simp]:
  "copy_inv (b\<lparr> bk_queue := q \<rparr>) m = copy_inv b m" "copy_inv (b\<lparr> bk_dlq := q \<rparr>) m = copy_inv b m"
  by (simp_all add: copy_inv_def)

lemma retried_copy:
  assumes "copy_inv b msg" "bk_published b' = bk_published b" "bk_failed b' = bk_failed b @ [event_payload msg]"
    "getRetryCount msg < MaxRetryAttempts"
  shows "copy_inv b' (Republish msg (getRetryCount msg + 1))"
  using assms Retry_count [OF assms(4)] by (simp add: copy_inv_def Republish_well_keyed Republish_payload)

text \<open>What has to be shown of a step: its new copies are copies, and every waiting message is handled or still there.\<close>

lemma broker_invI:
  assumes inv: "broker_inv b" and b': "bk_published b' = bk_published b" "bk_handled b' = bk_handled b @ hs" "bk_failed b' = bk_failed b @ fs"
    and of_published: "set hs \<subseteq> set (bk_published b)" "set fs \<subseteq> set (bk_published b)"
    and queue: "\<And>m. m \<in> set (bk_queue b') \<Longrightarrow> m \<in> set (bk_queue b) \<or> copy_inv b' m"
    and dlq: "\<And>m. m \<in> set (bk_dlq b') \<Longrightarrow> m \<in> set (bk_dlq b) \<or>
      copy_inv b' m \<and> MaxRetryAttempts < int (count_list (bk_failed b') (event_payload m))"
    and waiting: "\<And>m. m \<in> set (bk_queue b) \<Longrightarrow> event_payload m \<in> set hs \<or> event_payload m \<in> event_payload ` (set (bk_queue b') \<union> set (bk_dlq b'))"
    and dead: "set (bk_dlq b) \<subseteq> set (bk_dlq b')"
  shows "broker_inv b'"
  unfolding broker_inv_def
proof (intro conjI ballI)
  have keep: "copy_inv b' m" if "copy_inv b m" for m
    using b' by (intro copy_inv_mono [OF that, of _ "[]"]) simp_all
  show "copy_inv b' m" if "m \<in> set (bk_queue b')" for m
    using queue [OF that] inv keep by (auto simp: broker_inv_def)
  show "copy_inv b' m" if "m \<in> set (bk_dlq b')" for m
    using dlq [OF that] inv keep by (auto simp: broker_inv_def)
  show "MaxRetryAttempts < int (count_list (bk_failed b') (event_payload m))" if "m \<in> set (bk_dlq b')" for m
    using dlq [OF that] inv by (auto simp: broker_inv_def b'(3))
  show "set (bk_handled b') \<subseteq> set (bk_published b')" "set (bk_failed b') \<subseteq> set (bk_published b')"
    using inv of_published b' by (simp_all add: broker_inv_def)
  show "m \<in> set (bk_handled b') \<or> m \<in> event_payload ` (set (bk_queue b') \<union> set (bk_dlq b'))" if "m \<in> set (bk_published b')" for m
  proof -
    have "m \<in> set (bk_handled b) \<or> m \<in> event_payload ` (set (bk_queue b) \<union> set (bk_dlq b))"
      using inv that b'(1) by (simp add: broker_inv_def)
    then consider "m \<in> set (bk_handled b)" | x where "x \<in> set (bk_queue b)" "m = event_payload x"
      | x where "x \<in> set (bk_dlq b)" "m = event_payload x" by blast
    then show ?thesis
      by cases (use b'(2) waiting dead in fastforce)+
  qed
qed

lemma runOnce_inv: "broker_inv b \<Longrightarrow> broker_inv (runOnce handle republished b)"
proof (cases "bk_queue b")
  case Nil
  then show "broker_inv b \<Longrightarrow> ?thesis" by (simp add: runOnce_empty)
next
  case (Cons msg rest)
  assume inv: "broker_inv b"
  have msg: "copy_inv b msg" using inv Cons by (simp add: broker_inv_def)
  then have pub: "event_payload msg \<in> set (bk_published b)" by (simp add: copy_inv_def)
  show ?thesis
  proof (rule runOnce_cases [OF Cons, of handle republished])
    fix ok b'
    let ?t = "settle_message ok republished msg"
    assume run: "runOnce handle republished b = settled ?t msg b'"
      and b': "bk_queue b' = rest" "bk_dlq b' = bk_dlq b" "bk_published b' = bk_published b"
        "bk_handled b' = bk_handled b @ (if ok then [event_payload msg] else [])"
        "bk_failed b' = bk_failed b @ (if ok then [] else [event_payload msg])"
    have again: "copy_inv b' msg" using b'(3,5) by (intro copy_inv_mono [OF msg, of _ "[]"]) simp_all
    have failed: "int (count_list (bk_failed b') (event_payload msg)) = int (count_list (bk_failed b) (event_payload msg)) + 1" if "\<not> ok"
      using that b'(5) by simp
    have retried: "copy_inv b' (Republish msg (getRetryCount msg + 1))" "event_payload (Republish msg (getRetryCount msg + 1)) = event_payload msg"
      if "\<not> ok" "getRetryCount msg < MaxRetryAttempts"
      using retried_copy [OF msg _ _ that(2), of b'] b' that(1) msg by (simp_all add: copy_inv_def Republish_payload)
    show ?thesis unfolding run
    proof (rule broker_invI [OF inv])
      show "bk_published (settled ?t msg b') = bk_published b"
        "bk_handled (settled ?t msg b') = bk_handled b @ (if ok then [event_payload msg] else [])"
        "bk_failed (settled ?t msg b') = bk_failed b @ (if ok then [] else [event_payload msg])" using b' by simp_all
      show "set (if ok then [event_payload msg] else []) \<subseteq> set (bk_published b)"
        "set (if ok then [] else [event_payload msg]) \<subseteq> set (bk_published b)" using pub by (cases ok; simp)+
      show "m \<in> set (bk_queue b) \<or> copy_inv (settled ?t msg b') m" if "m \<in> set (bk_queue (settled ?t msg b'))" for m
        using that b' Cons again retried by (auto simp: settle_message_def split: if_splits)
      show "m \<in> set (bk_dlq b) \<or> copy_inv (settled ?t msg b') m \<and>
          MaxRetryAttempts < int (count_list (bk_failed (settled ?t msg b')) (event_payload m))"
        if "m \<in> set (bk_dlq (settled ?t msg b'))" for m
        using that b' again failed msg by (auto simp: settle_message_def copy_inv_def split: if_splits)
      show "event_payload m \<in> set (if ok then [event_payload msg] else []) \<or>
          event_payload m \<in> event_payload ` (set (bk_queue (settled ?t msg b')) \<union> set (bk_dlq (settled ?t msg b')))"
        if "m \<in> set (bk_queue b)" for m
        using that b' Cons retried by (cases "m = msg") (auto simp: settle_message_def)
      show "set (bk_dlq b) \<subseteq> set (bk_dlq (settled ?t msg b'))" using b' by (auto simp: settle_message_def)
    qed
  qed
qed

lemma runOnce_published [simp]: "bk_published (runOnce handle r b) = bk_published b"
proof (cases "bk_queue b")
  case (Cons msg rest)
  show ?thesis by (rule runOnce_cases [OF Cons, of handle r]) simp
qed (simp add: runOnce_empty)

lemma dies_inv:
  assumes inv: "broker_inv b" and q: "bk_queue b = msg # rest" and run: "dispatched handle msg b = (ok, b')"
  shows "broker_inv b'"
proof -
  note f = dispatched_fields [OF run]
  have "event_payload msg \<in> set (bk_published b)" using inv q by (auto simp: broker_inv_def copy_inv_def)
  then show ?thesis by (intro broker_invI [OF inv]) (use f in \<open>auto split: if_splits\<close>)
qed

lemma broker_step_inv: "broker_step handle b b' \<Longrightarrow> broker_inv b \<Longrightarrow> broker_inv b'"
proof (induction rule: broker_step.induct)
  case (publish msg b)
  let ?b = "b\<lparr> bk_queue := bk_queue b @ [msg], bk_published := bk_published b @ [event_payload msg] \<rparr>"
  have "copy_inv ?b m" if "copy_inv b m" for m
    by (intro copy_inv_mono [OF that, of _ _ "[]"]) simp_all
  moreover have "copy_inv ?b msg"
    using publish(1) by (simp add: copy_inv_def fresh_message_def getRetryCount_def MaxRetryAttempts_def)
  ultimately show ?case using publish(2) by (auto simp: broker_inv_def)
next
  case (message b x republished)
  then show ?case by (rule runOnce_inv)
next
  case (dies b msg rest x ok b')
  show ?case by (rule dies_inv [OF dies(3,1,2)])
next
  case (dies_after_republish b msg rest x b' msg')
  have inv': "broker_inv b'" by (rule dies_inv [OF dies_after_republish(4,1,2)])
  have left: "getRetryCount msg < MaxRetryAttempts" and msg': "msg' = Republish msg (getRetryCount msg + 1)"
    using dies_after_republish(3) by (auto simp: settle_message_def split: if_splits)
  have msg: "copy_inv b msg" using dies_after_republish(1,4) by (simp add: broker_inv_def)
  have "copy_inv b' msg'"
    using retried_copy [OF msg _ _ left, of b'] dispatched_fields [OF dies_after_republish(2)] msg' by simp
  then show ?case using inv' by (auto simp: broker_inv_def)
next
  case (reorder q b)
  then show ?case by (simp add: broker_inv_def)
qed

lemma broker_reach_inv: "broker_reach handle s0 b \<Longrightarrow> broker_inv b"
  by (induction rule: broker_reach.induct) (auto simp: broker_step_inv, simp add: broker_inv_def)

text \<open>
  What the messages do to the service: a property of its state, of what was handled and of what was published, that a
  dispatch of a published message keeps, holds in every history.
\<close>

lemma broker_reach_keeps:
  assumes start: "Q s0 [] {}" and mono: "\<And>s H A A'. Q s H A \<Longrightarrow> A \<subseteq> A' \<Longrightarrow> Q s H A'"
    and dispatch: "\<And>x m s H A r s'. Q s H A \<Longrightarrow> m \<in> A \<Longrightarrow> handle x (fst m) (snd m) s = (r, s') \<Longrightarrow>
      Q s' (if isl r then H else H @ [m]) A"
  shows "broker_reach handle s0 b \<Longrightarrow> Q (bk_db b) (bk_handled b) (set (bk_published b))"
proof (induction rule: broker_reach.induct)
  case (step b b')
  have queued: "event_payload msg \<in> set (bk_published b)" if "msg \<in> set (bk_queue b)" for msg
    using broker_reach_inv [OF step(1)] that by (auto simp: broker_inv_def copy_inv_def)
  have disp: "Q (bk_db b1) (bk_handled b1) (set (bk_published b1))"
    if "dispatched (handle x) msg b0 = (ok, b1)" "msg \<in> set (bk_queue b)" "bk_db b0 = bk_db b"
      "bk_handled b0 = bk_handled b" "bk_published b0 = bk_published b" for x msg b0 ok b1
  proof -
    obtain r s' where r: "handle x (getEventName msg) (dl_Body msg) (bk_db b) = (r, s')" by fastforce
    then show ?thesis
      using that dispatch [OF step.IH queued [OF that(2)], of x r s']
      by (auto simp: dispatched_def event_payload_def split: sum.splits)
  qed
  from step(2) show ?case
  proof (cases rule: broker_step.cases)
    case (publish msg)
    then show ?thesis by (auto intro: mono [OF step.IH])
  next
    case (message x republished)
    show ?thesis
    proof (cases "bk_queue b")
      case Nil
      then show ?thesis using message step.IH by (simp add: runOnce_empty)
    next
      case (Cons msg rest)
      obtain ok b1 where run: "dispatched (handle x) msg (b\<lparr> bk_queue := rest \<rparr>) = (ok, b1)" by fastforce
      show ?thesis unfolding message runOnce_def using Cons run disp [OF run] by simp
    qed
  next
    case (dies msg rest x ok)
    then show ?thesis using disp [OF dies(2)] by simp
  next
    case (dies_after_republish msg rest x b1 msg')
    then show ?thesis using disp [OF dies_after_republish(3)] by simp
  next
    case (reorder q)
    then show ?thesis using step.IH by simp
  qed
qed (simp add: start)

text \<open>
  C22. No message is lost and none is given up early. However often handlers fail, the consumer dies or \<open>Republish\<close>
  fails: every published message has been handled successfully, or there is a copy of it, with its event name and
  body, in the queue or in the dead-letter queue; a copy is dead-lettered only after at least four failed attempts;
  and nothing is handled that was not published.
\<close>

theorem messages_kept:
  assumes "broker_reach handle s0 b"
  shows "(\<forall>m \<in> set (bk_published b). m \<in> set (bk_handled b) \<or>
       (\<exists>msg \<in> set (bk_queue b) \<union> set (bk_dlq b). getEventName msg = fst m \<and> dl_Body msg = snd m)) \<and>
    (\<forall>msg \<in> set (bk_dlq b). 4 \<le> count_list (bk_failed b) (getEventName msg, dl_Body msg)) \<and>
    set (bk_handled b) \<subseteq> set (bk_published b)"
proof -
  have inv: "broker_inv b" by (rule broker_reach_inv [OF assms])
  have "4 \<le> count_list (bk_failed b) (getEventName msg, dl_Body msg)" if "msg \<in> set (bk_dlq b)" for msg
  proof -
    have "MaxRetryAttempts < int (count_list (bk_failed b) (event_payload msg))" using inv that by (simp add: broker_inv_def)
    then show ?thesis by (simp add: MaxRetryAttempts_def event_payload_def)
  qed
  then show ?thesis using inv by (fastforce simp: broker_inv_def event_payload_def)
qed

text \<open>
  C27. A message that keeps failing does not block the queue. If no message arrives and \<open>Republish\<close> works, then
  after at most four dispatches per waiting message the queue is empty, whatever the handlers do, and every
  message that was in it has been handled successfully or lies in the dead-letter queue.
\<close>

theorem queue_drains:
  assumes reach: "broker_reach handle s0 b" and calls: "4 * length (bk_queue b) \<le> n"
  shows "bk_queue (consume (\<lambda>i. handle (x i)) n b) = [] \<and>
    (\<forall>msg \<in> set (bk_queue b). event_payload msg \<in> set (bk_handled (consume (\<lambda>i. handle (x i)) n b)) \<union>
       event_payload ` set (bk_dlq (consume (\<lambda>i. handle (x i)) n b)))"
proof -
  let ?c = "\<lambda>n. consume (\<lambda>i. handle (x i)) n b"
  have inv: "broker_inv b" by (rule broker_reach_inv [OF reach])
  have tries: "max 1 (tries_left msg) \<le> 4" if "msg \<in> set (bk_queue b)" for msg
    using inv that by (auto simp: broker_inv_def copy_inv_def tries_left_def MaxRetryAttempts_def)
  have "work_left b \<le> sum_list (map (\<lambda>_. 4) (bk_queue b))"
    unfolding work_left_def by (rule sum_list_mono) (rule tries)
  then have "work_left b \<le> n" using calls by (simp add: sum_list_triv mult.commute)
  moreover have pos: "0 < work_left (?c n)" if "bk_queue (?c n) \<noteq> []"
    using that by (cases "bk_queue (?c n)") (simp_all add: work_left_def max_def)
  ultimately have empty: "bk_queue (?c n) = []" using consume_work [of "\<lambda>i. handle (x i)" n b] by fastforce
  have "broker_inv (?c k) \<and> bk_published (?c k) = bk_published b" for k
    by (induction k) (simp_all add: inv runOnce_inv)
  then have "broker_inv (?c n)" "bk_published (?c n) = bk_published b" by auto
  moreover have "event_payload msg \<in> set (bk_published b)" if "msg \<in> set (bk_queue b)" for msg
    using inv that by (simp add: broker_inv_def copy_inv_def)
  ultimately show ?thesis using empty by (auto simp: broker_inv_def)
qed

end
