(* ===== verification/Order_Consumer.thy ===== *)
theory Order_Consumer
  imports Consumer
begin

text \<open>
  The consumer with order-service's dispatcher: a history of the consumer is a sequence of deliveries, so the
  read models of two histories agree; and the witnesses of the properties of \<open>Consumer\<close>.
\<close>

subsection \<open>The consumer of order-service\<close>

definition order_handle :: "'d::linordered_idom lib \<Rightarrow> env \<Rightarrow> ('d db, order_err) dispatch" where
  "order_handle L E name body = Dispatch (order_dispatcher L) name E body"

text \<open>
  The queue is bound to exactly the events that have a handler: no message can arrive that the dispatcher
  refuses for want of one, and no handler waits for an event that never comes.
\<close>

theorem bound_events_have_handlers:
  "(\<exists>exchange names. (exchange, names) \<in> set Exchanges \<and> name \<in> set names) \<longleftrightarrow> name \<in> dom (order_dispatcher L)"
proof -
  have "dom (order_dispatcher L) = (\<Union>(exchange, names) \<in> set Exchanges. set names)"
    by (simp add: order_dispatcher_def Register_def Exchanges_def insert_commute)
  then show ?thesis by auto
qed

lemma deliver_snoc:
  "deliver L ds s = (handled, s1) \<Longrightarrow>
    deliver L (ds @ [(E, m)]) s = (case Dispatch (order_dispatcher L) (fst m) E (snd m) s1 of
      (r, s2) \<Rightarrow> (if isl r then handled else handled @ [m], s2))"
  by (induction ds arbitrary: s handled) (auto split: prod.splits)

text \<open>Whatever happens at the broker, the database is that of a sequence of deliveries of published messages.\<close>

definition delivered_db :: "'d::linordered_idom lib \<Rightarrow> 'd db \<Rightarrow> 'd db broker \<Rightarrow> bool" where
  "delivered_db L s0 b \<longleftrightarrow> (\<exists>ds. deliver L ds s0 = (bk_handled b, bk_db b) \<and> snd ` set ds \<subseteq> set (bk_published b))"

lemma order_reach_delivered: "broker_reach (order_handle L) s0 b \<Longrightarrow> delivered_db L s0 b"
  unfolding delivered_db_def
proof (rule broker_reach_keeps [where Q = "\<lambda>s H A. \<exists>ds. deliver L ds s0 = (H, s) \<and> snd ` set ds \<subseteq> A"])
  show "\<exists>ds. deliver L ds s0 = ([], s0) \<and> snd ` set ds \<subseteq> {}" by (rule exI [of _ "[]"]) simp
next
  fix E m s H A r s'
  assume run: "\<exists>ds. deliver L ds s0 = (H, s) \<and> snd ` set ds \<subseteq> A" "m \<in> A" "order_handle L E (fst m) (snd m) s = (r, s')"
  then obtain ds where ds: "deliver L ds s0 = (H, s)" "snd ` set ds \<subseteq> A" by blast
  then show "\<exists>ds. deliver L ds s0 = (if isl r then H else H @ [m], s') \<and> snd ` set ds \<subseteq> A"
    using deliver_snoc [OF ds(1), of E m] run(2,3) by (intro exI [of _ "ds @ [(E, m)]"]) (simp add: order_handle_def)
qed blast

text \<open>
  C26. Two histories of the consumer agree. Take two histories, with any failures, deaths, redeliveries and
  orders that have left nothing in the queue and nothing in the dead-letter queue (so that every message was handled in the
  end), that start from the same database and in which the same messages were published; and let two messages with the
  same version of a row carry the same row. Then both have stored the same restaurants and the same topping
  prices, as new as every published message about them.
\<close>

theorem consumer_histories_agree:
  fixes L :: "'d::linordered_idom lib"
  assumes runs: "broker_reach (order_handle L) s0 b" "broker_reach (order_handle L) s0 b'"
    and over: "bk_queue b = []" "bk_dlq b = []" "bk_queue b' = []" "bk_dlq b' = []"
    and same: "set (bk_published b) = set (bk_published b')"
    and versions: "consistent_versions r_ID r_UpdatedAt (\<Union>m \<in> set (bk_published b). set (message_restaurants L m))"
      "consistent_versions topping_key tp_UpdatedAt (\<Union>m \<in> set (bk_published b). set (message_toppings L m))"
  shows "(\<forall>i. find_row r_ID i (t_restaurants (bk_db b)) = find_row r_ID i (t_restaurants (bk_db b'))) \<and>
    (\<forall>k. find_row topping_key k (t_topping_prices (bk_db b)) = find_row topping_key k (t_topping_prices (bk_db b'))) \<and>
    (\<forall>m \<in> set (bk_published b). \<forall>row \<in> set (message_restaurants L m).
       \<exists>r. find_row r_ID (r_ID row) (t_restaurants (bk_db b)) = Some r \<and> r_UpdatedAt row \<le> r_UpdatedAt r)"
proof -
  obtain ds ds' where ds: "deliver L ds s0 = (bk_handled b, bk_db b)" "snd ` set ds \<subseteq> set (bk_published b)"
      "deliver L ds' s0 = (bk_handled b', bk_db b')" "snd ` set ds' \<subseteq> set (bk_published b')"
    using order_reach_delivered [OF runs(1)] order_reach_delivered [OF runs(2)] by (auto simp: delivered_db_def)
  have all: "set (bk_published c) \<subseteq> set (bk_handled c)" "set (bk_handled c) \<subseteq> snd ` set cs"
    if "broker_reach (order_handle L) s0 c" "bk_queue c = []" "bk_dlq c = []" "deliver L cs s0 = (bk_handled c, bk_db c)" for c cs
  proof -
    show "set (bk_published c) \<subseteq> set (bk_handled c)"
      using broker_reach_inv [OF that(1)] that(2,3) by (auto simp: broker_inv_def)
    have "set handled \<subseteq> snd ` set cs" if "deliver L cs s = (handled, s')" for cs s handled s'
      using that by (induction cs arbitrary: s handled) (fastforce split: prod.splits if_splits)+
    then show "set (bk_handled c) \<subseteq> snd ` set cs" using that(4) by blast
  qed
  have eq: "snd ` set ds = set (bk_published b)" "set (bk_handled b) = snd ` set ds"
    "set (bk_handled b') = snd ` set ds'" "snd ` set ds = snd ` set ds'"
    using all [OF runs(1) over(1,2) ds(1)] all [OF runs(2) over(3,4) ds(3)] ds(2,4) same by auto
  have "writes_restaurants (Dispatch (order_dispatcher L) (fst m) E (snd m)) (message_restaurants L m)"
    "writes_toppings (Dispatch (order_dispatcher L) (fst m) E (snd m)) (message_toppings L m)" for E m
    using Dispatch_writes [of L "fst m" E "snd m"] by simp_all
  then show ?thesis
    using deliveries_agree [OF _ ds(1,3) eq(2,3,4), of t_restaurants r_ID r_UpdatedAt "message_restaurants L"]
      deliveries_agree [OF _ ds(1,3) eq(2,3,4), of t_topping_prices topping_key tp_UpdatedAt "message_toppings L"] versions
    unfolding eq(1) by (intro conjI allI ballI) auto
qed

subsection \<open>Witnesses\<close>

definition sample_message :: "string \<Rightarrow> json option \<Rightarrow> delivery" where
  "sample_message name body = \<lparr> dl_RoutingKey = name, dl_Headers = Map.empty, dl_Body = body,
     dl_ContentType = ''application/json'', dl_MessageId = ''m'' \<rparr>"

definition empty_broker :: "'s \<Rightarrow> 's broker" where
  "empty_broker s = \<lparr> bk_queue = [], bk_dlq = [], bk_db = s, bk_published = [], bk_handled = [], bk_failed = [] \<rparr>"

definition with_message :: "string \<Rightarrow> 's \<Rightarrow> 's broker" where
  "with_message name s = (empty_broker s)\<lparr> bk_queue := [sample_message name None], bk_published := [(name, None)] \<rparr>"

lemma sample_message_name [simp]: "getEventName (sample_message name body) = name"
  by (simp add: getEventName_def sample_message_def)

lemma sample_message_payload [simp]: "event_payload (sample_message name body) = (name, body)"
  by (simp add: event_payload_def) (simp add: sample_message_def)

lemma sample_message_fresh [simp]: "name \<noteq> '''' \<Longrightarrow> fresh_message (sample_message name body)"
  by (simp add: fresh_message_def well_keyed_def sample_message_def)

lemma with_message_reach: "name \<noteq> '''' \<Longrightarrow> broker_reach handle s (with_message name s)"
  using broker_reach.step [OF broker_reach.start broker_step.publish [of "sample_message name None"]]
  by (simp add: with_message_def empty_broker_def)

definition sample_sequence :: "nat \<Rightarrow> (int db, order_err) dispatch" where
  "sample_sequence n = order_handle sample_lib sample_env"

lemma consume_reach: "broker_reach handle s b \<Longrightarrow> broker_reach handle s (consume (\<lambda>i. handle (x i)) n b)"
  by (induction n) (auto intro: broker_reach.step broker_step.message)

text \<open>An event that nobody handles is dispatched four times and then dead-lettered.\<close>

lemma unknown_event:
  "\<exists>msg. consume (\<lambda>i. order_handle sample_lib sample_env) 4 (with_message ''x'' sample_db) =
     (with_message ''x'' sample_db)\<lparr> bk_queue := [], bk_dlq := [msg], bk_failed := replicate 4 (''x'', None) \<rparr>"
  by (simp add: numeral_nat with_message_def empty_broker_def sample_message_def runOnce_def dispatched_def order_handle_def
      Dispatch_cases fail_def settle_message_def getRetryCount_def getEventName_def event_payload_def MaxRetryAttempts_def
      Republish_def Let_def)

theorem messages_kept_witness:
  "\<exists>b msg. broker_reach (order_handle sample_lib) sample_db b \<and> bk_dlq b = [msg] \<and>
     4 \<le> count_list (bk_failed b) (getEventName msg, dl_Body msg)"
proof -
  obtain msg where b: "consume (\<lambda>i. order_handle sample_lib sample_env) 4 (with_message ''x'' sample_db) =
     (with_message ''x'' sample_db)\<lparr> bk_queue := [], bk_dlq := [msg], bk_failed := replicate 4 (''x'', None) \<rparr>" (is "?b = _")
    using unknown_event by blast
  have "broker_reach (order_handle sample_lib) sample_db ?b"
    by (intro consume_reach with_message_reach) simp
  then show ?thesis using messages_kept b by (intro exI [of _ ?b] exI [of _ msg]) fastforce
qed

theorem queue_drains_witness:
  "bk_queue (consume (\<lambda>i. order_handle sample_lib sample_env) 4 (with_message ''x'' sample_db)) = []"
proof -
  have "broker_reach (order_handle sample_lib) sample_db (with_message ''x'' sample_db)" by (intro with_message_reach) simp
  moreover have "4 * length (bk_queue (with_message ''x'' sample_db)) \<le> 4" by (simp add: with_message_def)
  ultimately show ?thesis by (rule queue_drains [THEN conjunct1])
qed

text \<open>Two updates of a restaurant, handled in either order.\<close>

definition two_updates :: "message list \<Rightarrow> int db \<Rightarrow> int db broker" where
  "two_updates ms s = (empty_broker s)\<lparr> bk_queue := List.map (\<lambda>m. sample_message (fst m) (snd m)) ms, bk_published := ms \<rparr>"

lemma two_updates_reach:
  "list_all (\<lambda>m. fst m \<noteq> '''') ms \<Longrightarrow> broker_reach (order_handle sample_lib) s (two_updates ms s)"
proof (induction ms rule: rev_induct)
  case Nil
  then show ?case using broker_reach.start [of "order_handle sample_lib" s] by (simp add: two_updates_def empty_broker_def)
next
  case (snoc m ms)
  then have "broker_reach (order_handle sample_lib) s (two_updates ms s)" "fst m \<noteq> ''''" by simp_all
  then show ?case
    using broker_reach.step [OF _ broker_step.publish [of "sample_message (fst m) (snd m)"]]
    by (fastforce simp: two_updates_def empty_broker_def)
qed

theorem consumer_histories_agree_witness:
  "let a = sample_update 20 ''A''; c = sample_update 30 ''B'';
       run = (\<lambda>ms. bk_db (consume (\<lambda>i. order_handle sample_lib sample_env) 2 (two_updates ms sample_db))) in
   \<forall>i. find_row r_ID i (t_restaurants (run [a, c])) = find_row r_ID i (t_restaurants (run [c, a]))"
proof -
  let ?a = "sample_update 20 ''A''" and ?c = "sample_update 30 ''B''"
  let ?run = "\<lambda>ms. consume (\<lambda>i. order_handle sample_lib sample_env) 2 (two_updates ms sample_db)"
  have env: "\<not> fault sample_env x" for x by (simp add: sample_env_def)
  have reach: "broker_reach (order_handle sample_lib) sample_db (?run ms)" if "set ms = {?a, ?c}" for ms
    using that by (intro consume_reach two_updates_reach) (auto simp: list_all_iff sample_update_def)
  have runs: "bk_queue (?run ms) = [] \<and> bk_dlq (?run ms) = [] \<and> bk_published (?run ms) = ms" if "ms = [?a, ?c] \<or> ms = [?c, ?a]" for ms
  proof -
    have step: "runOnce (order_handle sample_lib sample_env) True b = b\<lparr> bk_queue := q,
        bk_db := put_restaurant (sample_restaurant\<lparr> r_Name := name, r_UpdatedAt := t \<rparr>) (bk_db b),
        bk_handled := bk_handled b @ [sample_update t name] \<rparr>"
      if "bk_queue b = sample_message (fst (sample_update t name)) (snd (sample_update t name)) # q" "char_count name \<le> 128" for b q t name
    proof -
      have "dl_Body (sample_message n body) = body" for n body by (simp add: sample_message_def)
      then show ?thesis
        using that env by (simp add: runOnce_def dispatched_def order_handle_def settle_message_def)
    qed
    show ?thesis using that by (auto simp: numeral_nat two_updates_def empty_broker_def step)
  qed
  have over: "bk_queue (?run [?a, ?c]) = []" "bk_dlq (?run [?a, ?c]) = []" "bk_queue (?run [?c, ?a]) = []" "bk_dlq (?run [?c, ?a]) = []"
    and pub: "bk_published (?run [?a, ?c]) = [?a, ?c]" "bk_published (?run [?c, ?a]) = [?c, ?a]"
    using runs [of "[?a, ?c]"] runs [of "[?c, ?a]"] by simp_all
  have rows: "(\<Union>m \<in> set (bk_published (?run [?a, ?c])). set (message_restaurants sample_lib m)) =
      {sample_restaurant\<lparr> r_Name := ''A'', r_UpdatedAt := 20 \<rparr>, sample_restaurant\<lparr> r_Name := ''B'', r_UpdatedAt := 30 \<rparr>}"
    "(\<Union>m \<in> set (bk_published (?run [?a, ?c])). set (message_toppings sample_lib m)) = {}"
    unfolding pub by auto
  have "consistent_versions r_ID r_UpdatedAt (\<Union>m \<in> set (bk_published (?run [?a, ?c])). set (message_restaurants sample_lib m))"
    "consistent_versions topping_key tp_UpdatedAt (\<Union>m \<in> set (bk_published (?run [?a, ?c])). set (message_toppings sample_lib m))"
    unfolding rows by (auto simp: consistent_versions_def)
  note agree = consumer_histories_agree [OF reach reach over _ this]
  have "set (bk_published (?run [?a, ?c])) = set (bk_published (?run [?c, ?a]))" unfolding pub by auto
  then show ?thesis using agree by (simp add: Let_def insert_commute)
qed

end
