(* ===== verification/Accounts.thy ===== *)
theory Accounts
  imports Identity_Sample Customer_Sample Restaurant_Commands Order_Consumer
begin

text \<open>
  Identity-, customer-, restaurant- and order-service together: what becomes of the events of a registration, of a
  change of phone number and of a saved address in the services that read them.
\<close>

lemma dec_enc_uuid_str: "uuid_codec L \<Longrightarrow> dec_str (enc_uuid L u) = Some (uuidString L u)"
  by (simp add: enc_uuid_def)

lemma registered_customer_cs:
  assumes "uuid_codec L" "\<not> ce_fault E CsCustomerUpsert"
  shows "cs_Dispatch L ''user.registered'' E (Some (marshal_UserRegistered L i email f l role t)) s =
    (let c = \<lparr> cc_ID = i, cc_Email = email, cc_FirstName = f, cc_LastName = l, cc_Phone = None, cc_UpdatedAt = None \<rparr> in
     if customer_cs_row_ok c then (Inr (), s\<lparr> ct_customers := insert_ignore cc_ID c (ct_customers s) \<rparr>)
     else (Inl [], s))"
  using assms
  by (simp add: cs_Dispatch_def UserRegistered_Handle_def marshal_UserRegistered_def Upsert_cs_def Let_def)

lemma registered_customer_order:
  assumes "uuid_codec L" "\<not> fault E CustomerUpsert"
  shows "Dispatch (order_dispatcher L) ''user.registered'' E (Some (marshal_UserRegistered L i email f l role t)) s =
    (if char_count email \<le> 255 \<and> char_count f \<le> 128
     then (Inr (), s\<lparr> t_customers := insert_ignore cu_ID
       \<lparr> cu_ID = i, cu_Email = email, cu_FirstName = f, cu_Phone = None \<rparr> (t_customers s) \<rparr>)
     else (Inl [], s))"
  using assms
  by (auto simp: Dispatch_cases UpsertCustomer_Handle_def unmarshal_user_registered_def marshal_UserRegistered_def
      Customer_Upsert_def)

lemma new_restaurant_ok:
  "char_count name \<le> 128 \<Longrightarrow> char_count vat \<le> 16 \<Longrightarrow>
    restaurant_rs_row_ok ((restaurant_defaults (NewRestaurant r own name vat chk))\<lparr> rs_CreatedAt := t \<rparr>)"
  "restaurant_unique ((restaurant_defaults (NewRestaurant r own name vat chk))\<lparr> rs_CreatedAt := t \<rparr>) rows"
  by (simp_all add: restaurant_rs_row_ok_def restaurant_defaults_def NewRestaurant_def numeric_fits_def
      restaurant_unique_def unique_in_def)

lemma initiated_restaurant:
  assumes "uuid_codec L" "\<not> re_fault E RsCreate" "r \<notin> rs_ID ` set (rd_restaurants s)" "char_count name \<le> 128" "char_count vat \<le> 16"
  shows "\<exists>x. rs_Dispatch L ''restaurant.initiated'' E (Some (marshal_RestaurantInitiated L r own name vat t)) s =
      (Inr (), s\<lparr> rd_restaurants := rd_restaurants s @ [x] \<rparr>) \<and>
    rs_ID x = r \<and> rs_OwnerID x = own \<and> rs_Name x = name \<and> rs_VATNumber x = vat \<and> rs_Status x = StatusDraft"
proof -
  let ?n = "NewRestaurant r own name vat (Checklist_Complete ChecklistBasic NewChecklist) :: 'a Restaurant_rs"
  let ?x = "(restaurant_defaults ?n)\<lparr> rs_CreatedAt := created E (rs_CreatedAt ?n) \<rparr>"
  have id: "rs_ID ?x = r" by (simp add: restaurant_defaults_def NewRestaurant_def)
  have "Restaurant_Create E ?n s = (Inr (), s\<lparr> rd_restaurants := rd_restaurants s @ [stored_rs ?x] \<rparr>)"
    unfolding Restaurant_Create_def Let_def using assms(2-5) id
    by (simp add: find_row_None_image new_restaurant_ok)
  then have "rs_Dispatch L ''restaurant.initiated'' E (Some (marshal_RestaurantInitiated L r own name vat t)) s =
      (Inr (), s\<lparr> rd_restaurants := rd_restaurants s @ [stored_rs ?x] \<rparr>)"
    using assms(1) by (simp add: rs_Dispatch_def RestaurantInitiated_Handle_def marshal_RestaurantInitiated_def dec_enc_uuid_str)
  then show ?thesis
    by (intro exI [of _ "stored_rs ?x"]) (simp add: stored_rs_def restaurant_defaults_def NewRestaurant_def)
qed

text \<open>
  C16. The two events of an owner's registration create, in the services that read them and when these have their
  databases, what they announce: the restaurant, as a draft of this owner, in restaurant-service, and the customer
  in customer-service and order-service, with the registered name and email. The exception are names longer than
  128 characters, which identity-service accepts up to 255: order-service refuses the event for such a first name and
  customer-service for such a first or last name, whenever it is delivered.
\<close>

theorem registration_reaches_services:
  assumes run: "RegisterOwner_Execute L I E input s = (Inr resp, s')" and codec: "uuid_codec (L :: 'd::linordered_idom lib)"
    and valid: "char_count (rg_BusinessName input) \<le> 128" "char_count (rg_VATNumber input) = 11"
  shows "\<exists>e1 e2. ob_rows (id_outbox s') = ob_rows (id_outbox s) @ [e1, e2] \<and>
    (\<forall>Er sr. \<not> re_fault Er RsCreate \<and> ob_AggregateID e2 \<notin> rs_ID ` set (rd_restaurants sr) \<longrightarrow>
       (\<exists>x. rs_Dispatch L (ob_EventName e2) Er (Some (ob_Payload e2)) sr =
          (Inr (), sr\<lparr> rd_restaurants := rd_restaurants sr @ [x] \<rparr>) \<and>
        rs_ID x = ob_AggregateID e2 \<and> rs_OwnerID x = ur_ID resp \<and> rs_Name x = rg_BusinessName input \<and>
        rs_VATNumber x = rg_VATNumber input \<and> rs_Status x = StatusDraft)) \<and>
    (\<forall>Eo so. \<not> fault Eo CustomerUpsert \<longrightarrow>
       Dispatch (order_dispatcher L) (ob_EventName e1) Eo (Some (ob_Payload e1)) so =
         (if char_count (ur_First resp) \<le> 128 then (Inr (), so\<lparr> t_customers := insert_ignore cu_ID
            \<lparr> cu_ID = ur_ID resp, cu_Email = ur_Email resp, cu_FirstName = ur_First resp, cu_Phone = None \<rparr>
            (t_customers so) \<rparr>)
          else (Inl [], so))) \<and>
    (\<forall>Ec sc. \<not> ce_fault Ec CsCustomerUpsert \<longrightarrow>
       cs_Dispatch L (ob_EventName e1) Ec (Some (ob_Payload e1)) sc =
         (if char_count (ur_First resp) \<le> 128 \<and> char_count (ur_Last resp) \<le> 128 then (Inr (), sc\<lparr> ct_customers := insert_ignore cc_ID
            \<lparr> cc_ID = ur_ID resp, cc_Email = ur_Email resp, cc_FirstName = ur_First resp, cc_LastName = ur_Last resp,
              cc_Phone = None, cc_UpdatedAt = None \<rparr> (ct_customers sc) \<rparr>)
          else (Inl [], sc)))"
proof -
  obtain v h i r where
    made: "create_user L E (MarkRestaurantInitiated (ie_clock E) r (rg_BusinessName input) (rg_VATNumber input)
      (MarkRegistered (ie_clock E) (new_user i (rg_FirstName input) (rg_LastName input)
        (ToLower (rg_Email input)) h ''owner''))) (put_verification (used_up v) s) = (Inr resp, s')"
    using RegisterOwner_Inr [OF run] by blast
  note made = create_user_Inr [OF made]
  define j1 where "j1 = marshal_UserRegistered L i (ur_Email resp) (ur_First resp) (ur_Last resp) ''owner'' (ie_clock E)"
  define j2 where "j2 = marshal_RestaurantInitiated L r i (rg_BusinessName input) (rg_VATNumber input) (ie_clock E)"
  have ids: "ur_ID resp = i" "char_count (ur_Email resp) \<le> 255"
    using made by (simp_all add: MapToResponse_def MarkRegistered_def MarkRestaurantInitiated_def user_row_ok_def)
  obtain e1 e2 where rows: "ob_rows (id_outbox s') = ob_rows (id_outbox s) @ [e1, e2]"
    "ob_EventName e1 = ''user.registered''" "ob_Payload e1 = j1"
    "ob_EventName e2 = ''restaurant.initiated''" "ob_Payload e2 = j2" "ob_AggregateID e2 = r"
    using made by (simp add: j1_def j2_def user_rows_def MapToResponse_def MarkRegistered_def MarkRestaurantInitiated_def
        outbox_Create_def NewOutboxEvent_def)
  show ?thesis
    using registered_customer_cs [OF codec] registered_customer_order [OF codec] initiated_restaurant [OF codec]
      rows ids valid by - (rule exI [of _ e1], rule exI [of _ e2], simp add: j1_def j2_def customer_cs_row_ok_def)
qed

text \<open>
  A number that a customer has given is announced with the row of the customer.
\<close>

lemma UpdatePhone_Inr:
  assumes "UpdatePhone_Execute L E c phone s = (Inr resp, s')"
  obtains x where "find_row cc_ID c (ct_customers s) = Some x" "char_count phone \<le> 32" "gp_ID resp = c" "gp_Phone resp = Some phone"
    "s' = s\<lparr> ct_customers := save_row cc_ID (x\<lparr> cc_Phone := Some phone, cc_UpdatedAt := Some (ce_clock E) \<rparr>) (ct_customers s),
       ct_outbox := outbox_Create (ce_trace E) (NewOutboxEvent (ce_clock E) c ''customer.phone_updated''
         (marshal_PhoneUpdated L c phone (ce_clock E))) (ct_outbox s) \<rparr>"
  using assms
  by (auto simp: UpdatePhone_Execute_def found_customer_def FindByID_cs_def bind_Inr Update_cs_def Let_def SetPhone_def
      cs_Outbox_Create_def ToProfileResponse_def customer_cs_row_ok_def
      split: option.splits if_splits simp del: bind_simps dest!: find_row_Some)

lemma phone_message:
  assumes "uuid_codec L" "\<not> fault E CustomerUpdatePhone" "char_count phone \<le> 32"
  shows "Dispatch (order_dispatcher L) ''customer.phone_updated'' E (Some (marshal_PhoneUpdated L c phone t)) s =
    (Inr (), s\<lparr> t_customers := update_where (\<lambda>x. cu_ID x = c) (\<lambda>x. x\<lparr> cu_Phone := Some phone \<rparr>) (t_customers s) \<rparr>)"
  using assms
  by (simp add: Dispatch_cases UpdateCustomerPhone_Handle_def unmarshal_phone_updated_def marshal_PhoneUpdated_def
      Customer_UpdatePhone_def)

text \<open>
  A change of the phone number reaches the copy of the customer that order-service puts on orders, when order-service has
  the customer. But nothing orders the events: when the change is handled before the registration it is taken for
  done and the copy has no number afterwards; and of two changes it keeps the one handled last, so a change that is
  retried behind a later one brings the old number back.
\<close>

theorem phone_update_lost:
  fixes L :: "'d::linordered_idom lib"
  assumes codec: "uuid_codec L"
    and run: "UpdatePhone_Execute L E c phone s = (Inr resp, s')" "UpdatePhone_Execute L E' c phone' s' = (Inr resp', s'')"
    and ok: "\<not> fault Eo CustomerUpdatePhone" "\<not> fault Eo CustomerUpsert" "char_count email \<le> 255" "char_count firstName \<le> 128"
  shows "\<exists>e1 e2. ob_rows (ct_outbox s'') = ob_rows (ct_outbox s) @ [e1, e2] \<and>
    (let handle = (\<lambda>e. Dispatch (order_dispatcher L) (ob_EventName e) Eo (Some (ob_Payload e)));
         registered = Dispatch (order_dispatcher L) ''user.registered'' Eo
           (Some (marshal_UserRegistered L c email firstName lastName role t));
         phone_of = (\<lambda>s. map_option cu_Phone (find_row cu_ID c (t_customers s))) in
     (\<forall>so x. find_row cu_ID c (t_customers so) = Some x \<longrightarrow>
        handle e1 so = (Inr (), snd (handle e1 so)) \<and> phone_of (snd (handle e1 so)) = Some (Some phone) \<and>
        phone_of (snd (handle e2 (snd (handle e1 so)))) = Some (Some phone') \<and>
        phone_of (snd (handle e1 (snd (handle e2 so)))) = Some (Some phone)) \<and>
     (\<forall>so. find_row cu_ID c (t_customers so) = None \<longrightarrow>
        handle e1 so = (Inr (), so) \<and> phone_of (snd (registered (snd (handle e1 so)))) = Some None \<and>
        phone_of (snd (handle e1 (snd (registered so)))) = Some (Some phone)))"
proof -
  obtain e1 where e1: "ob_rows (ct_outbox s') = ob_rows (ct_outbox s) @ [e1]" "ob_EventName e1 = ''customer.phone_updated''"
    "ob_Payload e1 = marshal_PhoneUpdated L c phone (ce_clock E)" "char_count phone \<le> 32"
    using UpdatePhone_Inr [OF run(1)] by (force simp: outbox_Create_def NewOutboxEvent_def)
  obtain e2 where e2: "ob_rows (ct_outbox s'') = ob_rows (ct_outbox s') @ [e2]" "ob_EventName e2 = ''customer.phone_updated''"
    "ob_Payload e2 = marshal_PhoneUpdated L c phone' (ce_clock E')" "char_count phone' \<le> 32"
    using UpdatePhone_Inr [OF run(2)] by (force simp: outbox_Create_def NewOutboxEvent_def)
  have found: "find_row cu_ID c (update_where (\<lambda>x. cu_ID x = c) (\<lambda>x. x\<lparr> cu_Phone := p \<rparr>) tbl) =
      map_option (\<lambda>x. x\<lparr> cu_Phone := p \<rparr>) (find_row cu_ID c tbl)" for p tbl
    by (cases "find_row cu_ID c tbl") (auto simp: find_row_update_key dest: find_row_Some)
  have none: "update_where (\<lambda>x. cu_ID x = c) (\<lambda>x. x\<lparr> cu_Phone := p \<rparr>) tbl = tbl" if "find_row cu_ID c tbl = None" for p tbl
    using that by (intro update_where_none) (simp add: find_row_None)
  note handle = phone_message [OF codec ok(1) e1(4), of c "ce_clock E"] phone_message [OF codec ok(1) e2(4), of c "ce_clock E'"]
  show ?thesis
    using e1 e2 ok(3,4)
    by - (rule exI [of _ e1], rule exI [of _ e2],
      simp add: Let_def handle registered_customer_order [OF codec ok(2)] found none insert_ignore_def, auto)
qed

text \<open>
  C21. The address that a checkout saves is in the address book after the event order.address_saved has been handled:
  once, however often the event is delivered, and as the default when it is the customer's first. The exception
  are texts longer than customer-service's columns, which order-service's checkout accepts: this event is refused
  at every delivery.
\<close>

theorem saved_address:
  fixes L :: "'d::linordered_idom lib"
  assumes codec: "uuid_codec L"
    and event: "toEventPayload L (AddressSaved c h st ci pc t) = Some (name, body)"
    and s: "c \<in> cc_ID ` set (ct_customers s)" "\<forall>site. \<not> ce_fault E site" "ce_newV7 E = Some i"
      "i \<notin> ca_ID ` set (ct_addresses s)"
  shows "cs_Dispatch L name E (Some body) s =
      (if (c, h, st, ci, pc) \<in> address_text ` set (ct_addresses s) then (Inr (), s)
       else if char_count h \<le> 20 \<and> char_count st \<le> 255 \<and> char_count ci \<le> 100 \<and> char_count pc \<le> 20
       then (Inr (), s\<lparr> ct_addresses := ct_addresses s @
         [\<lparr> ca_ID = i, ca_CustomerID = c, ca_House = h, ca_Street = st, ca_City = ci, ca_PostalCode = pc,
            ca_IsDefault = (\<forall>a \<in> set (ct_addresses s). ca_CustomerID a \<noteq> c), ca_CreatedAt = ce_clock E,
            ca_UpdatedAt = None \<rparr>] \<rparr>)
       else (Inl [], s)) \<and>
    (\<forall>E' s'. \<not> ce_fault E' CsAddressExists \<and> (c, h, st, ci, pc) \<in> address_text ` set (ct_addresses s') \<longrightarrow>
       cs_Dispatch L name E' (Some body) s' = (Inr (), s'))"
proof -
  have handle: "cs_Dispatch L name E' (Some body) s' = save_address E' c h st ci pc s'" for E' s'
    using event codec
    by (auto simp: marshal_AddressSaved_def newAddressSavedPayload_def cs_Dispatch_def AddressSaved_Handle_def)
  have "save_address E' c h st ci pc s' = (Inr (), s')"
    if "\<not> ce_fault E' CsAddressExists" "(c, h, st, ci, pc) \<in> address_text ` set (ct_addresses s')" for E' s'
    using that by (simp add: save_address_def ExistsForCustomer_def known_address ret_def)
  moreover have "save_address E c h st ci pc s =
      (if char_count h \<le> 20 \<and> char_count st \<le> 255 \<and> char_count ci \<le> 100 \<and> char_count pc \<le> 20
       then (Inr (), s\<lparr> ct_addresses := ct_addresses s @ [new_address E i c h st ci pc (ct_addresses s)] \<rparr>)
       else (Inl [], s))"
    if "(c, h, st, ci, pc) \<notin> address_text ` set (ct_addresses s)"
    using that s
    by (simp add: save_address_def ExistsForCustomer_def known_address ListByCustomer_def no_addresses NewAddress_def
        Address_Create_def Let_def find_row_None_image address_row_ok_def other_default_def new_address_def) blast
  ultimately show ?thesis using s(2) by (auto simp: handle new_address_def)
qed

subsection \<open>Witnesses\<close>

lemma registration_reaches_services_witness:
  "\<exists>e1 e2. ob_rows (id_outbox sample_registered) = ob_rows (id_outbox sample_otp) @ [e1, e2] \<and>
    (\<exists>sc. cs_Dispatch sample_lib (ob_EventName e1) (sample_cs_env 0) (Some (ob_Payload e1)) cs_empty = (Inr (), sc))"
proof -
  obtain resp where run: "RegisterOwner_Execute sample_lib sample_id_lib (sample_id_env 60) sample_owner sample_otp =
    (Inr resp, sample_registered)" using sample_registered_run by blast
  have short: "ur_First resp = ''Ann''" "ur_Last resp = ''Bo''"
    using RegisterOwner_Inr [OF run] by (auto dest!: create_user_Inr simp: MapToResponse_def MarkRegistered_def
        MarkRestaurantInitiated_def sample_owner_def sample_text)
  have env: "\<not> ce_fault (sample_cs_env 0) CsCustomerUpsert" by (simp add: sample_cs_env_def)
  have "char_count (rg_BusinessName sample_owner) \<le> 128" "char_count (rg_VATNumber sample_owner) = 11"
    by (simp_all add: sample_owner_def)
  from registration_reaches_services [OF run sample_codecs(1) this] obtain e1 e2 where
    rows: "ob_rows (id_outbox sample_registered) = ob_rows (id_outbox sample_otp) @ [e1, e2]"
    and cs: "\<forall>Ec sc. \<not> ce_fault Ec CsCustomerUpsert \<longrightarrow>
       cs_Dispatch sample_lib (ob_EventName e1) Ec (Some (ob_Payload e1)) sc =
         (if char_count (ur_First resp) \<le> 128 \<and> char_count (ur_Last resp) \<le> 128 then (Inr (), sc\<lparr> ct_customers := insert_ignore cc_ID
            \<lparr> cc_ID = ur_ID resp, cc_Email = ur_Email resp, cc_FirstName = ur_First resp, cc_LastName = ur_Last resp,
              cc_Phone = None, cc_UpdatedAt = None \<rparr> (ct_customers sc) \<rparr>)
          else (Inl [], sc))" by blast
  show ?thesis using rows cs [rule_format, OF env, of cs_empty] short by auto
qed

lemma phone_update_lost_witness:
  "\<exists>resp resp' s' s''. UpdatePhone_Execute sample_lib (sample_cs_env 0) 7 ''1'' sample_cs3 = (Inr resp, s') \<and>
    UpdatePhone_Execute sample_lib (sample_cs_env 0) 7 ''2'' s' = (Inr resp', s'') \<and>
    (\<exists>e1 e2. ob_rows (ct_outbox s'') = ob_rows (ct_outbox sample_cs3) @ [e1, e2])"
proof -
  obtain r s' where run: "UpdatePhone_Execute sample_lib (sample_cs_env 0) 7 ''1'' sample_cs3 = (r, s')" by fastforce
  obtain r' s'' where run': "UpdatePhone_Execute sample_lib (sample_cs_env 0) 7 ''2'' s' = (r', s'')" by fastforce
  have "(case UpdatePhone_Execute sample_lib (sample_cs_env 0) 7 ''1'' sample_cs3 of (r, s) \<Rightarrow>
      \<not> isl r \<and> \<not> isl (fst (UpdatePhone_Execute sample_lib (sample_cs_env 0) 7 ''2'' s)))" by code_simp
  then obtain resp resp' where res: "r = Inr resp" "r' = Inr resp'" using run run' by (cases r; cases r') auto
  let ?E = "\<lparr> fault = (\<lambda>_. False), newV7 = (\<lambda>_. None), clock = 0, traceParent = '''' \<rparr>"
  have ok: "\<not> fault ?E CustomerUpdatePhone" "\<not> fault ?E CustomerUpsert" "char_count ''a'' \<le> 255" "char_count ''b'' \<le> 128"
    by simp_all
  from phone_update_lost [OF sample_codecs(1) run [unfolded res(1)] run' [unfolded res(2)] ok,
      where lastName = "''c''" and role = "''customer''" and t = 0]
  obtain e1 e2 where "ob_rows (ct_outbox s'') = ob_rows (ct_outbox sample_cs3) @ [e1, e2]" by (elim exE conjE)
  then show ?thesis using run run' res by blast
qed

lemma saved_address_witness:
  "\<exists>body. toEventPayload sample_lib (AddressSaved 7 ''3'' ''Main'' ''Bonn'' ''53111'' 9) = Some (''order.address_saved'', body) \<and>
    (\<exists>s'. cs_Dispatch sample_lib ''order.address_saved'' (sample_cs_env 22) (Some body) sample_cs3 = (Inr (), s') \<and>
      length (ct_addresses s') = 3)"
proof -
  obtain body where event: "toEventPayload sample_lib (AddressSaved 7 ''3'' ''Main'' ''Bonn'' ''53111'' 9) =
    Some (''order.address_saved'', body)" by simp
  have rows: "length (ct_addresses sample_cs3) = 2 \<and> 22 \<notin> set (List.map ca_ID (ct_addresses sample_cs3)) \<and>
      (7, ''3'', ''Main'', ''Bonn'', ''53111'') \<notin> set (List.map address_text (ct_addresses sample_cs3))" by code_simp
  have c: "7 \<in> cc_ID ` set (ct_customers sample_cs3)" by (simp add: sample_cs3_def sample_cs2_def sample_cs1_def cs_empty_def)
  have "\<forall>site. \<not> ce_fault (sample_cs_env 22) site" "ce_newV7 (sample_cs_env 22) = Some 22" by (simp_all add: sample_cs_env_def)
  from saved_address [OF sample_codecs(1) event c this] rows event show ?thesis by (auto simp: image_iff)
qed

end
