(* ===== verification/Identity_Code.thy ===== *)
theory Identity_Code
  imports Identity_Commands
begin

text \<open>The one-time codes: six digits, each code from the same number of draws of the random source.\<close>

definition draw_nat :: "8 word \<times> 8 word \<times> 8 word \<times> 8 word \<Rightarrow> nat" where
  "draw_nat d = (case d of (b0, b1, b2, b3) \<Rightarrow> unat b0 * 2 ^ 24 + unat b1 * 2 ^ 16 + unat b2 * 2 ^ 8 + unat b3)"

lemma or_add:
  fixes x y :: "64 word"
  assumes "\<And>n. bit x n \<Longrightarrow> k \<le> n" "\<And>n. bit y n \<Longrightarrow> n < k"
  shows "or x y = x + y"
  by (rule disjunctive_add [symmetric]) (use assms in \<open>force simp: not_le\<close>)

lemma bit_ucast8: "bit (ucast (b :: 8 word) :: 64 word) n \<Longrightarrow> n < 8"
  by (auto simp: bit_ucast_iff dest: bit_imp_le_length)

lemma byte_less: "unat (b :: 8 word) < 256"
  using unsigned_less [of b] by simp

lemma unat_draw: "unat (draw_value d) = draw_nat d"
proof -
  obtain b0 b1 b2 b3 where d: "d = (b0, b1, b2, b3)" by (metis prod_cases4)
  let ?u = "\<lambda>b :: 8 word. ucast b :: 64 word"
  have "or (push_bit 24 (?u b0)) (push_bit 16 (?u b1)) = push_bit 24 (?u b0) + push_bit 16 (?u b1)"
    by (rule or_add [of _ 24]) (auto simp: bit_push_bit_iff dest!: bit_ucast8)
  moreover have "or (or (push_bit 24 (?u b0)) (push_bit 16 (?u b1))) (push_bit 8 (?u b2)) =
      or (push_bit 24 (?u b0)) (push_bit 16 (?u b1)) + push_bit 8 (?u b2)"
    by (rule or_add [of _ 16]) (auto simp: bit_push_bit_iff bit_or_iff dest!: bit_ucast8)
  moreover have "or (or (or (push_bit 24 (?u b0)) (push_bit 16 (?u b1))) (push_bit 8 (?u b2))) (?u b3) =
      or (or (push_bit 24 (?u b0)) (push_bit 16 (?u b1))) (push_bit 8 (?u b2)) + ?u b3"
    by (rule or_add [of _ 8]) (auto simp: bit_push_bit_iff bit_or_iff dest!: bit_ucast8)
  ultimately have "draw_value d = push_bit 24 (?u b0) + push_bit 16 (?u b1) + push_bit 8 (?u b2) + ?u b3"
    by (simp add: draw_value_def d)
  also have "\<dots> = of_nat (draw_nat d)"
    by (simp add: d draw_nat_def push_bit_eq_mult ac_simps)
  finally have "draw_value d = of_nat (draw_nat d)" .
  moreover have "draw_nat d < 2 ^ 32"
    using byte_less [of b0] byte_less [of b1] byte_less [of b2] byte_less [of b3] by (simp add: d draw_nat_def)
  ultimately show ?thesis by (simp add: unat_of_nat)
qed

lemma draw_nat_less: "draw_nat d < 2 ^ 32"
proof -
  obtain b0 b1 b2 b3 where d: "d = (b0, b1, b2, b3)" by (metis prod_cases4)
  show ?thesis
    using byte_less [of b0] byte_less [of b1] byte_less [of b2] byte_less [of b3] by (simp add: d draw_nat_def)
qed

lemma draw_bytes:
  "unat b3 = draw_nat (b0, b1, b2, b3) mod 256 \<and> unat b2 = draw_nat (b0, b1, b2, b3) div 256 mod 256 \<and>
   unat b1 = draw_nat (b0, b1, b2, b3) div 256 div 256 mod 256 \<and>
   unat b0 = draw_nat (b0, b1, b2, b3) div 256 div 256 div 256"
proof -
  have n: "draw_nat (b0, b1, b2, b3) = ((unat b0 * 256 + unat b1) * 256 + unat b2) * 256 + unat b3"
    by (simp add: draw_nat_def)
  have step: "(x * 256 + unat b) mod 256 = unat b" "(x * 256 + unat b) div 256 = x" for x and b :: "8 word"
    using byte_less [of b] by simp_all
  show ?thesis unfolding n step by simp
qed

lemma draw_nat_bij: "bij_betw draw_nat UNIV {..<2 ^ 32}"
proof -
  have inj: "inj draw_nat"
  proof (rule injI)
    fix d e
    assume eq: "draw_nat d = draw_nat e"
    obtain a0 a1 a2 a3 where d: "d = (a0, a1, a2, a3)" by (metis prod_cases4)
    obtain b0 b1 b2 b3 where e: "e = (b0, b1, b2, b3)" by (metis prod_cases4)
    have "unat a0 = unat b0 \<and> unat a1 = unat b1 \<and> unat a2 = unat b2 \<and> unat a3 = unat b3"
      using draw_bytes [of a3 a0 a1 a2] draw_bytes [of b3 b0 b1 b2] eq d e by simp
    then show "d = e" by (simp add: d e word_unat_eq_iff)
  qed
  have "card (UNIV :: (8 word \<times> 8 word \<times> 8 word \<times> 8 word) set) = 2 ^ 32"
    by (simp add: card_cartesian_product card_word flip: UNIV_Times_UNIV)
  then have "card (range draw_nat) = card {..<2 ^ 32 :: nat}" using card_image [OF inj] by simp
  moreover have "range draw_nat \<subseteq> {..<2 ^ 32}" using draw_nat_less by auto
  ultimately have "range draw_nat = {..<2 ^ 32}" by (intro card_subset_eq) auto
  then show ?thesis using inj by (simp add: bij_betw_def)
qed

lemma accepted_draw: "accepted (draw_value d) \<longleftrightarrow> draw_nat d < 4294000000"
  and draw_code: "nat (sint (draw_value d) mod 1000000) = draw_nat d mod 1000000"
proof -
  have "sint (draw_value d) = int (draw_nat d)"
    using draw_nat_less [of d] unat_draw [of d]
    by (simp add: sint_uint uint_nat signed_take_bit_int_eq_self)
  then show "accepted (draw_value d) \<longleftrightarrow> draw_nat d < 4294000000"
    "nat (sint (draw_value d) mod 1000000) = draw_nat d mod 1000000"
    by (simp_all add: accepted_def nat_mod_distrib)
qed

lemma digits_length: "length (digits k n) = k"
  by (induction k n rule: digits.induct) auto

lemma digits_decimal: "c \<in> set (digits k n) \<Longrightarrow> c \<in> set ''0123456789''"
proof (induction k n rule: digits.induct)
  case (2 k n)
  have "list_all (\<lambda>i. char_of (48 + i) \<in> set ''0123456789'') [0..<10 :: nat]" by code_simp
  then have "char_of (48 + n mod 10) \<in> set ''0123456789''" by (simp only: list_all_iff) simp
  then show ?case using 2 by auto
qed simp

lemma char_of_inj:
  assumes "(char_of x :: char) = char_of y" "x < 256" "y < (256 :: nat)"
  shows "x = y"
proof -
  have "(of_char (char_of x :: char) :: nat) = of_char (char_of y :: char)" using assms(1) by simp
  then show ?thesis using assms(2,3) by (simp only: of_char_of) simp
qed

lemma digits_inj: "digits k n = digits k m \<Longrightarrow> n mod 10 ^ k = m mod 10 ^ k"
proof (induction k arbitrary: n m)
  case (Suc k)
  have low: "n mod 10 = m mod 10"
    using char_of_inj [of "48 + n mod 10" "48 + m mod 10"] Suc.prems by simp
  have high: "n div 10 mod 10 ^ k = m div 10 mod 10 ^ k"
    using Suc.IH [of "n div 10" "m div 10"] Suc.prems by simp
  show ?case unfolding power_Suc mod_mult2_eq low high ..
qed simp

lemma card_code_draws:
  assumes "k < 1000000"
  shows "card {n :: nat. n < 4294000000 \<and> n mod 1000000 = k} = 4294"
proof -
  have "{n :: nat. n < 4294000000 \<and> n mod 1000000 = k} = (\<lambda>q. q * 1000000 + k) ` {..<4294}"
  proof (intro equalityI subsetI)
    fix n :: nat assume "n \<in> {n. n < 4294000000 \<and> n mod 1000000 = k}"
    then have "n < 4294000000" "n mod 1000000 = k" by auto
    then have "n = (n div 1000000) * 1000000 + k" "n div 1000000 \<in> {..<4294}" by auto
    then show "n \<in> (\<lambda>q. q * 1000000 + k) ` {..<4294}" by blast
  next
    fix n :: nat assume "n \<in> (\<lambda>q. q * 1000000 + k) ` {..<4294}"
    then show "n \<in> {n. n < 4294000000 \<and> n mod 1000000 = k}" using assms by auto
  qed
  moreover have "inj_on (\<lambda>q. q * 1000000 + k) {..<4294}" by (auto intro: inj_onI)
  ultimately show ?thesis by (simp add: card_image)
qed

text \<open>
  C32. The generator of one-time codes is uniform: each of the million texts of six digits comes from 4294 of the
  draws of four bytes, and from no draw comes anything else; a draw outside them is repeated, and the first draw
  inside them decides.
\<close>

theorem secure_code_uniform:
  "(\<forall>k < 1000000. card {d. generateSecureCode [Some d] = Some (Inr (digits 6 k))} = 4294) \<and>
   (\<forall>draws code. generateSecureCode draws = Some (Inr code) \<longrightarrow>
      length code = 6 \<and> set code \<subseteq> set ''0123456789'' \<and>
      (\<exists>rejected d rest. draws = List.map Some rejected @ Some d # rest \<and>
         (\<forall>r \<in> set rejected. generateSecureCode [Some r] = None) \<and> generateSecureCode [Some d] = Some (Inr code))) \<and>
   card {d. generateSecureCode [Some d] = None} = 967296"
proof (intro conjI allI impI)
  fix k :: nat assume k: "k < 1000000"
  have "generateSecureCode [Some d] = Some (Inr (digits 6 k)) \<longleftrightarrow>
      draw_nat d < 4294000000 \<and> draw_nat d mod 1000000 = k" for d
    using digits_inj [of 6 "draw_nat d mod 1000000" k] k by (auto simp: accepted_draw draw_code)
  then have "{d. generateSecureCode [Some d] = Some (Inr (digits 6 k))} =
      draw_nat -` {n. n < 4294000000 \<and> n mod 1000000 = k}" by auto
  moreover have "card (draw_nat -` {n. n < 4294000000 \<and> n mod 1000000 = k}) =
      card {n. n < 4294000000 \<and> n mod 1000000 = k}"
    using draw_nat_bij by (intro card_vimage_inj) (auto simp: bij_betw_def)
  ultimately show "card {d. generateSecureCode [Some d] = Some (Inr (digits 6 k))} = 4294"
    using card_code_draws [OF k] by simp
next
  fix draws code assume run: "generateSecureCode draws = Some (Inr code)"
  then show "length code = 6"
    by (induction draws rule: generateSecureCode.induct) (auto simp: digits_length split: if_splits)
  show "set code \<subseteq> set ''0123456789''"
    using run by (induction draws rule: generateSecureCode.induct) (auto dest: digits_decimal split: if_splits)
  show "\<exists>rejected d rest. draws = List.map Some rejected @ Some d # rest \<and>
         (\<forall>r \<in> set rejected. generateSecureCode [Some r] = None) \<and> generateSecureCode [Some d] = Some (Inr code)"
    using run
  proof (induction draws rule: generateSecureCode.induct)
    case (3 d draws)
    show ?case
    proof (cases "accepted (draw_value d)")
      case True
      then show ?thesis using 3 by (intro exI [of _ "[]"] exI [of _ d] exI [of _ draws]) auto
    next
      case False
      then obtain rejected d' rest where "draws = List.map Some rejected @ Some d' # rest"
        "\<forall>r \<in> set rejected. generateSecureCode [Some r] = None" "generateSecureCode [Some d'] = Some (Inr code)"
        using 3 by auto
      then show ?thesis using False by (intro exI [of _ "d # rejected"] exI [of _ d'] exI [of _ rest]) auto
    qed
  qed auto
next
  have "{d. generateSecureCode [Some d] = None} = draw_nat -` {4294000000..<2 ^ 32}"
    using draw_nat_less by (auto simp: accepted_draw not_less)
  moreover have "card (draw_nat -` {4294000000..<2 ^ 32}) = card {4294000000..<2 ^ 32 :: nat}"
    using draw_nat_bij by (intro card_vimage_inj) (auto simp: bij_betw_def)
  ultimately show "card {d. generateSecureCode [Some d] = None} = 967296" by simp
qed

text \<open>At the code 000042.\<close>

theorem secure_code_uniform_witness:
  "card {d. generateSecureCode [Some d] = Some (Inr (digits 6 42))} = 4294"
  using conjunct1 [OF secure_code_uniform, rule_format, of 42] by simp

end
