(* ===== verification/Restaurant_Inv.thy ===== *)
theory Restaurant_Inv
  imports Restaurant_Commands
begin

text \<open>
  The invariants of restaurant-service's tables, and what the end of the update commands (\<open>Update\<close> and
  \<open>DispatchEventsTx\<close> in a transaction) does to them.
\<close>

subsection \<open>Dispatch\<close>

definition rs_rows ::
  "'d lib \<Rightarrow> rs_env \<Rightarrow> rs_enricher list \<Rightarrow> uuid \<Rightarrow> RestaurantEvent list \<Rightarrow> OutboxEvent list" where
  "rs_rows L E enrichers aggregate es =
     List.map (\<lambda>(name, body). NewOutboxEvent (re_clock E) aggregate name body)
       (List.map_filter (\<lambda>e. case rs_integration L enrichers e of Some (Inr p) \<Rightarrow> Some p | _ \<Rightarrow> None) es)"

definition append_outbox :: "rs_env \<Rightarrow> OutboxEvent list \<Rightarrow> 'd rs_db \<Rightarrow> 'd rs_db" where
  "append_outbox E rows s = s\<lparr> rd_outbox := fold (outbox_Create (re_trace E)) rows (rd_outbox s) \<rparr>"

lemma append_outbox_simps [simp]:
  "rd_restaurants (append_outbox E rows s) = rd_restaurants s"
  "rd_payouts (append_outbox E rows s) = rd_payouts s"
  "rd_pizzas (append_outbox E rows s) = rd_pizzas s"
  "rd_prices (append_outbox E rows s) = rd_prices s"
  "rd_sizes (append_outbox E rows s) = rd_sizes s"
  "rd_toppings (append_outbox E rows s) = rd_toppings s"
  "rd_topping_prices (append_outbox E rows s) = rd_topping_prices s"
  "rd_outbox (append_outbox E rows s) = fold (outbox_Create (re_trace E)) rows (rd_outbox s)"
  by (simp_all add: append_outbox_def)

lemma append_outbox_Nil [simp]: "append_outbox E [] s = s"
  by (simp add: append_outbox_def)

lemma rs_rows_Nil [simp]: "rs_rows L E enrichers a [] = []"
  by (simp add: rs_rows_def)

lemma rs_rows_Cons [simp]: "rs_rows L E enrichers a (e # es) =
    (case rs_integration L enrichers e of
       Some (Inr p) \<Rightarrow> [NewOutboxEvent (re_clock E) a (fst p) (snd p)] | _ \<Rightarrow> []) @ rs_rows L E enrichers a es"
  by (auto simp: rs_rows_def split: option.splits sum.splits)

lemma rs_dispatch_Inr:
  "rs_dispatch_events L E enrichers a n es s = (Inr u, s') \<Longrightarrow>
    s' = append_outbox E (rs_rows L E enrichers a es) s \<and>
    (\<forall>e \<in> set es. \<forall>x. rs_integration L enrichers e \<noteq> Some (Inl x))"
proof (induction es arbitrary: n s)
  case Nil
  then show ?case by simp
next
  case (Cons e es)
  show ?case
  proof (cases "rs_integration L enrichers e")
    case None
    then show ?thesis using Cons.IH [of "Suc n" s] Cons.prems by simp
  next
    case (Some p)
    show ?thesis
    proof (cases p)
      case (Inl x)
      then show ?thesis using Cons.prems Some by simp
    next
      case (Inr q)
      obtain name body where q: "q = (name, body)" by fastforce
      from Cons.prems Some Inr q obtain s1 where
        "rs_Outbox_Create E n (NewOutboxEvent (re_clock E) a name body) s = (Inr (), s1)"
        "rs_dispatch_events L E enrichers a (Suc n) es s1 = (Inr u, s')"
        by (auto simp: bind_Inr)
      then show ?thesis using Cons.IH [of "Suc n" s1] Some Inr q
        by (auto simp: rs_Outbox_Create_def append_outbox_def split: if_splits)
    qed
  qed
qed

lemma rs_dispatch_Inl:
  "rs_dispatch_events L E enrichers a n es s = (Inl x, s') \<Longrightarrow>
    x = [] \<or> (\<exists>e \<in> set es. rs_integration L enrichers e = Some (Inl x))"
proof (induction es arbitrary: n s)
  case Nil
  then show ?case by simp
next
  case (Cons e es)
  show ?case
  proof (cases "rs_integration L enrichers e")
    case None
    then show ?thesis using Cons.IH [of "Suc n" s] Cons.prems by simp
  next
    case (Some p)
    then show ?thesis using Cons.prems Cons.IH
      by (cases p) (auto simp: bind_Inl rs_Outbox_Create_def split: if_splits)
  qed
qed

lemma rs_DispatchEventsTx_Inr:
  "rs_DispatchEventsTx L E enrichers r s = (Inr r', s') \<Longrightarrow>
    r' = stored_rs r \<and> s' = append_outbox E (rs_rows L E enrichers (rs_ID r) (rs_events r)) s \<and>
    (\<forall>e \<in> set (rs_events r). \<forall>x. rs_integration L enrichers e \<noteq> Some (Inl x))"
  by (auto simp: rs_DispatchEventsTx_def Restaurant_PullEvents_def bind_Inr stored_rs_def dest: rs_dispatch_Inr)

lemma rs_DispatchEventsTx_Inl:
  "rs_DispatchEventsTx L E enrichers r s = (Inl x, s') \<Longrightarrow>
    x = [] \<or> (\<exists>e \<in> set (rs_events r). rs_integration L enrichers e = Some (Inl x))"
  by (auto simp: rs_DispatchEventsTx_def Restaurant_PullEvents_def bind_Inl dest: rs_dispatch_Inl)

subsection \<open>Reading\<close>

lemma owned_restaurant_Inr:
  "owned_restaurant E i own s = (Inr r, s') \<Longrightarrow>
    s' = s \<and> r \<in> set (rd_restaurants s) \<and> rs_ID r = i \<and> rs_OwnerID r = own"
  by (auto simp: owned_restaurant_def FindByIDAndOwner_def take_restaurant_def split: option.splits sum.splits
      dest: find_in)

lemma owned_restaurant_Inl: "owned_restaurant E i own s = (Inl e, s') \<Longrightarrow> s' = s \<and> (e = [] \<or> e = [RsApp ErrForbidden])"
  by (auto simp: owned_restaurant_def FindByIDAndOwner_def take_restaurant_def io_Inl split: option.splits sum.splits)

text \<open>A command that ends before it writes.\<close>

lemma restaurant_answer_state [simp]: "snd (restaurant_answer E r s) = s"
  by (simp add: restaurant_answer_def ret_def split: sum.split)

subsection \<open>Saving a restaurant\<close>

definition stamp :: "rs_env \<Rightarrow> 'd Restaurant_rs \<Rightarrow> 'd Restaurant_rs" where
  "stamp E r = r\<lparr> rs_UpdatedAt := Some (re_clock E) \<rparr>"

definition put_rs :: "rs_env \<Rightarrow> 'd Restaurant_rs \<Rightarrow> 'd rs_db \<Rightarrow> 'd rs_db" where
  "put_rs E r s = s\<lparr> rd_restaurants := save_row rs_ID (stored_rs (stamp E r)) (rd_restaurants s) \<rparr>"

lemma put_rs_simps [simp]:
  "rd_restaurants (put_rs E r s) = save_row rs_ID (stored_rs (stamp E r)) (rd_restaurants s)"
  "rd_payouts (put_rs E r s) = rd_payouts s" "rd_pizzas (put_rs E r s) = rd_pizzas s"
  "rd_prices (put_rs E r s) = rd_prices s" "rd_sizes (put_rs E r s) = rd_sizes s"
  "rd_toppings (put_rs E r s) = rd_toppings s" "rd_topping_prices (put_rs E r s) = rd_topping_prices s"
  "rd_outbox (put_rs E r s) = rd_outbox s"
  by (simp_all add: put_rs_def)

lemma Restaurant_Update_Inr:
  "Restaurant_Update E r s = (Inr r', s') \<longleftrightarrow> r' = stamp E r \<and> s' = put_rs E r s \<and>
    \<not> re_fault E RsUpdate \<and> restaurant_rs_row_ok (stamp E r) \<and> restaurant_unique (stamp E r) (rd_restaurants s)"
  by (auto simp: Restaurant_Update_def stamp_def put_rs_def Let_def)

lemma Restaurant_Update_Inl: "Restaurant_Update E r s = (Inl e, s') \<Longrightarrow> e = []"
  by (auto simp: Restaurant_Update_def Let_def split: if_splits)

lemma stamp_simps [simp]:
  "rs_ID (stamp E r) = rs_ID r" "rs_OwnerID (stamp E r) = rs_OwnerID r" "rs_events (stamp E r) = rs_events r"
  "rs_Status (stamp E r) = rs_Status r" "rs_UpdatedAt (stamp E r) = Some (re_clock E)"
  "rs_Checklist (stamp E r) = rs_Checklist r" "rs_Email (stamp E r) = rs_Email r" "rs_Slug (stamp E r) = rs_Slug r"
  "rs_Lat (stamp E r) = rs_Lat r" "rs_Lon (stamp E r) = rs_Lon r" "rs_Timezone (stamp E r) = rs_Timezone r"
  "rs_Address (stamp E r) = rs_Address r"
  by (simp_all add: stamp_def)

lemma stored_rs_simps [simp]:
  "rs_ID (stored_rs r) = rs_ID r" "rs_OwnerID (stored_rs r) = rs_OwnerID r" "rs_events (stored_rs r) = []"
  "rs_Status (stored_rs r) = rs_Status r" "rs_UpdatedAt (stored_rs r) = rs_UpdatedAt r"
  "rs_Checklist (stored_rs r) = rs_Checklist r" "rs_Email (stored_rs r) = rs_Email r" "rs_Slug (stored_rs r) = rs_Slug r"
  "rs_Lat (stored_rs r) = rs_Lat r" "rs_Lon (stored_rs r) = rs_Lon r" "rs_Timezone (stored_rs r) = rs_Timezone r"
  "rs_Address (stored_rs r) = rs_Address r"
  by (simp_all add: stored_rs_def)

lemma stored_rs_row_ok [simp]: "restaurant_rs_row_ok (stored_rs r) = restaurant_rs_row_ok r"
  by (simp add: stored_rs_def restaurant_rs_row_ok_def)

text \<open>What \<open>Update\<close> and \<open>DispatchEventsTx\<close> leave when they succeed, with their enrichers on the stamped object.\<close>

definition saved ::
  "'d lib \<Rightarrow> rs_env \<Rightarrow> ('d Restaurant_rs \<Rightarrow> rs_enricher list) \<Rightarrow> 'd Restaurant_rs \<Rightarrow> 'd rs_db \<Rightarrow> 'd rs_db" where
  "saved L E enrichers r s =
     append_outbox E (rs_rows L E (enrichers (stamp E r)) (rs_ID r) (rs_events r)) (put_rs E r s)"

definition may_save :: "rs_env \<Rightarrow> 'd::linordered_idom Restaurant_rs \<Rightarrow> 'd rs_db \<Rightarrow> bool" where
  "may_save E r s \<longleftrightarrow> restaurant_rs_row_ok (stamp E r) \<and> restaurant_unique (stamp E r) (rd_restaurants s)"

lemma save_and_dispatch_Inr:
  "save_and_dispatch L E enrichers r s = (Inr r', s') \<Longrightarrow>
    r' = stored_rs (stamp E r) \<and> s' = saved L E enrichers r s \<and> may_save E r s \<and>
    (\<forall>e \<in> set (rs_events r). \<forall>x. rs_integration L (enrichers (stamp E r)) e \<noteq> Some (Inl x))"
  by (auto simp: save_and_dispatch_def bind_Inr Restaurant_Update_Inr saved_def may_save_def
      dest!: rs_DispatchEventsTx_Inr)

lemma save_and_dispatch_Inl:
  "save_and_dispatch L E enrichers r s = (Inl x, s') \<Longrightarrow>
    x = [] \<or> (\<exists>e \<in> set (rs_events r). rs_integration L (enrichers (stamp E r)) e = Some (Inl x))"
  by (auto simp: save_and_dispatch_def bind_Inl Restaurant_Update_Inr dest!: rs_DispatchEventsTx_Inl Restaurant_Update_Inl)

lemma transaction_cases:
  assumes "transaction F c body s = (res, s')"
  obtains (rolled_back) e where "res = Inl e" "s' = s" "e = [] \<or> (\<exists>s1. body s = (Inl e, s1))"
    | (committed) x where "res = Inr x" "body s = (Inr x, s')"
  using assms by (auto simp: transaction_def split: prod.splits sum.splits if_splits)

lemma finish_update_cases:
  assumes "finish_update L E r s = (res, s')"
  shows "s' = s \<and> (\<exists>e. res = Inl e \<and> (e = [] \<or> (\<exists>v \<in> set (rs_events r).
            rs_integration L [enrichUpdated L (stamp E r)] v = Some (Inl e)))) \<or>
    s' = saved L E (\<lambda>r'. [enrichUpdated L r']) r s \<and> may_save E r s \<and> (res = Inl [] \<or>
      (\<exists>pd. res = Inr (ToRestaurantResponse (stored_rs (stamp E r)) pd)))"
proof -
  let ?body = "save_and_dispatch L E (\<lambda>r'. [enrichUpdated L r']) r"
  obtain res1 s1 where tx: "transaction (re_fault E) RsCommit ?body s = (res1, s1)" by fastforce
  then show ?thesis
  proof (cases rule: transaction_cases)
    case (rolled_back e)
    then show ?thesis
      using assms tx by (auto simp: finish_update_def bind_step dest!: save_and_dispatch_Inl)
  next
    case (committed x)
    then have "restaurant_answer E x s1 = (res, s')"
      using assms tx by (simp add: finish_update_def bind_step)
    then show ?thesis
      using save_and_dispatch_Inr [OF committed(2)]
      by (auto simp: restaurant_answer_def FindActiveByRestaurant_def io_Inl ret_def split: sum.splits)
  qed
qed

subsection \<open>The invariants\<close>

definition located :: "'d Restaurant_rs \<Rightarrow> bool" where
  "located r \<longleftrightarrow> rs_Slug r \<noteq> None \<and> rs_Lat r \<noteq> None \<and> rs_Lon r \<noteq> None \<and> rs_Timezone r \<noteq> None"

definition restaurant_inv :: "'d::linordered_idom Restaurant_rs \<Rightarrow> bool" where
  "restaurant_inv r \<longleftrightarrow> rs_events r = [] \<and> restaurant_rs_row_ok r \<and>
     rs_Status r \<in> {StatusDraft, StatusReview, StatusApproved, StatusActive} \<and>
     (rs_Status r = StatusDraft \<longleftrightarrow> \<not> IsCompleted (rs_Checklist r)) \<and>
     (checked (rs_Checklist r) ChecklistContact \<longrightarrow> rs_Email r \<noteq> None) \<and>
     (located r \<or> \<not> checked (rs_Checklist r) ChecklistAddress \<and> rs_Address r = zero_address)"

definition restaurants_inv :: "'d::linordered_idom rs_db \<Rightarrow> bool" where
  "restaurants_inv s \<longleftrightarrow> distinct (List.map rs_ID (rd_restaurants s)) \<and>
     (\<forall>r \<in> set (rd_restaurants s). restaurant_inv r)"

text \<open>At most one unverified and one active payout each; the active one exactly from the approval on.\<close>

definition payouts_inv :: "'d rs_db \<Rightarrow> bool" where
  "payouts_inv s \<longleftrightarrow>
     (\<forall>i st. length (filter (payout_where i st) (rd_payouts s)) \<le> 1) \<and>
     (\<forall>p \<in> set (rd_payouts s). pd_Status p \<noteq> PayoutSuperseded \<and> pd_RestaurantID p \<in> rs_ID ` set (rd_restaurants s)) \<and>
     (\<forall>r \<in> set (rd_restaurants s).
        (has_payout (rs_ID r) PayoutActive (rd_payouts s) \<longleftrightarrow> rs_Status r \<in> {StatusApproved, StatusActive}) \<and>
        (checked (rs_Checklist r) ChecklistPayout \<longrightarrow> rs_Status r \<in> {StatusDraft, StatusReview} \<longrightarrow>
           has_payout (rs_ID r) PayoutUnverified (rd_payouts s)))"

definition announced :: "outbox_table \<Rightarrow> uuid \<Rightarrow> string \<Rightarrow> nat" where
  "announced t i name = length (filter (\<lambda>e. ob_AggregateID e = i \<and> ob_EventName e = name) (ob_rows t))"

definition milestones_inv :: "'d rs_db \<Rightarrow> bool" where
  "milestones_inv s \<longleftrightarrow>
     (\<forall>e \<in> set (ob_rows (rd_outbox s)). ob_AggregateID e \<in> rs_ID ` set (rd_restaurants s)) \<and>
     (\<forall>r \<in> set (rd_restaurants s).
        announced (rd_outbox s) (rs_ID r) ''restaurant.ready_for_review'' =
          of_bool (rs_Status r \<in> {StatusReview, StatusApproved, StatusActive}) \<and>
        announced (rd_outbox s) (rs_ID r) ''restaurant.approved'' = of_bool (rs_Status r \<in> {StatusApproved, StatusActive}) \<and>
        announced (rd_outbox s) (rs_ID r) ''restaurant.launched'' = of_bool (rs_Status r = StatusActive))"

definition menu_inv :: "'d::linordered_idom lib \<Rightarrow> 'd rs_db \<Rightarrow> bool" where
  "menu_inv L s \<longleftrightarrow> distinct (List.map rz_ID (rd_pizzas s)) \<and> distinct (List.map rp_key (rd_prices s)) \<and>
     distinct (List.map rt_key (rd_topping_prices s)) \<and>
     (\<forall>p \<in> set (rd_pizzas s). \<exists>ids. ToppingIDs L p = Inr ids \<and> distinct ids) \<and>
     (\<forall>p \<in> set (rd_prices s). rp_IsActive p \<longrightarrow>
        (\<exists>z \<in> set (rd_pizzas s). rz_ID z = rp_PizzaID p \<and> rz_UpdatedAt z \<noteq> None)) \<and>
     (\<forall>p \<in> set (rd_topping_prices s). 1 \<le> rt_ExtraPrice p \<and> rt_ExtraPrice p \<le> 3)"

definition rs_inv :: "'d::linordered_idom lib \<Rightarrow> 'd rs_db \<Rightarrow> bool" where
  "rs_inv L s \<longleftrightarrow> restaurants_inv s \<and> payouts_inv s \<and> milestones_inv s \<and> menu_inv L s"

subsection \<open>Replacing one restaurant\<close>

lemma announced_fold:
  "announced (fold (outbox_Create tr) rows t) i name =
    announced t i name + length (filter (\<lambda>e. ob_AggregateID e = i \<and> ob_EventName e = name) rows)"
  by (induction rows arbitrary: t) (auto simp: announced_def outbox_Create_def)

lemma fold_outbox_aggregates:
  "ob_AggregateID ` set (ob_rows (fold (outbox_Create tr) rows t)) =
    ob_AggregateID ` set (ob_rows t) \<union> ob_AggregateID ` set rows"
  by (induction rows arbitrary: t) (auto simp: outbox_Create_def)

lemma restaurants_inv_save:
  assumes "restaurants_inv s" "r0 \<in> set (rd_restaurants s)" "rs_ID r = rs_ID r0" "restaurant_inv r"
  shows "restaurants_inv (s\<lparr> rd_restaurants := save_row rs_ID r (rd_restaurants s) \<rparr>)"
  using assms save_row_map_key [of r0 "rd_restaurants s" rs_ID r]
  by (auto simp: restaurants_inv_def dest: save_row_set)

text \<open>The announcements of a restaurant are those of its new status; those of others do not change.\<close>

definition milestone :: "RestaurantStatus \<Rightarrow> string \<Rightarrow> nat" where
  "milestone st name =
     (if name = ''restaurant.ready_for_review'' then of_bool (st \<in> {StatusReview, StatusApproved, StatusActive})
      else if name = ''restaurant.approved'' then of_bool (st \<in> {StatusApproved, StatusActive})
      else of_bool (st = StatusActive))"

definition milestone_names :: "string set" where
  "milestone_names = {''restaurant.ready_for_review'', ''restaurant.approved'', ''restaurant.launched''}"

lemma milestones_alt: "milestones_inv s \<longleftrightarrow>
    ob_AggregateID ` set (ob_rows (rd_outbox s)) \<subseteq> rs_ID ` set (rd_restaurants s) \<and>
    (\<forall>r \<in> set (rd_restaurants s). \<forall>name \<in> milestone_names.
      announced (rd_outbox s) (rs_ID r) name = milestone (rs_Status r) name)"
  by (auto simp: milestones_inv_def milestone_def milestone_names_def)

lemma milestones_inv_save:
  assumes inv: "milestones_inv s" and r0: "r0 \<in> set (rd_restaurants s)" "rs_ID r = rs_ID r0"
    and s': "rd_restaurants s' = save_row rs_ID r (rd_restaurants s)"
      "rd_outbox s' = fold (outbox_Create tr) rows (rd_outbox s)"
    and rows: "\<forall>e \<in> set rows. ob_AggregateID e = rs_ID r"
    and names: "\<forall>name \<in> milestone_names.
      length (filter (\<lambda>e. ob_EventName e = name) rows) + milestone (rs_Status r0) name = milestone (rs_Status r) name"
  shows "milestones_inv s'"
  unfolding milestones_alt s'
proof (intro conjI ballI)
  show "ob_AggregateID ` set (ob_rows (fold (outbox_Create tr) rows (rd_outbox s)))
      \<subseteq> rs_ID ` set (save_row rs_ID r (rd_restaurants s))"
    using inv rows r0 save_row_image [of r0 "rd_restaurants s" rs_ID r]
    by (auto simp: fold_outbox_aggregates milestones_alt rev_image_eqI)
next
  fix x name
  assume x: "x \<in> set (save_row rs_ID r (rd_restaurants s))"
    and name: "name \<in> milestone_names"
  show "announced (fold (outbox_Create tr) rows (rd_outbox s)) (rs_ID x) name = milestone (rs_Status x) name"
  proof (cases "rs_ID x = rs_ID r")
    case True
    then have "x = r" using save_row_set [OF x] by auto
    moreover have "filter (\<lambda>e. ob_AggregateID e = rs_ID r \<and> ob_EventName e = name) rows =
        filter (\<lambda>e. ob_EventName e = name) rows"
      using rows by (auto intro: filter_cong)
    moreover have "announced (rd_outbox s) (rs_ID r) name = milestone (rs_Status r0) name"
      using inv r0 name unfolding milestones_alt by auto
    moreover have "length (filter (\<lambda>e. ob_EventName e = name) rows) + milestone (rs_Status r0) name =
        milestone (rs_Status r) name"
      using names name by blast
    ultimately show ?thesis by (simp add: announced_fold)
  next
    case False
    then have "x \<in> set (rd_restaurants s)" using save_row_set [OF x] by auto
    moreover have "filter (\<lambda>e. ob_AggregateID e = rs_ID x \<and> ob_EventName e = name) rows = []"
      using rows False by (auto simp: filter_empty_conv)
    ultimately show ?thesis
      using inv name unfolding milestones_alt by (simp add: announced_fold)
  qed
qed

text \<open>A change of a restaurant that keeps its status among those before or those after the approval.\<close>

definition past_review :: "RestaurantStatus \<Rightarrow> bool" where
  "past_review st \<longleftrightarrow> st \<in> {StatusApproved, StatusActive}"

lemma payouts_inv_save:
  assumes inv: "payouts_inv s" and r0: "r0 \<in> set (rd_restaurants s)" "rs_ID r = rs_ID r0"
    and s': "rd_restaurants s' = save_row rs_ID r (rd_restaurants s)" "rd_payouts s' = rd_payouts s"
    and st: "past_review (rs_Status r) = past_review (rs_Status r0)"
      "rs_Status r \<in> {StatusDraft, StatusReview} \<longrightarrow> rs_Status r0 \<in> {StatusDraft, StatusReview}"
    and chk: "checked (rs_Checklist r) ChecklistPayout = checked (rs_Checklist r0) ChecklistPayout"
  shows "payouts_inv s'"
  unfolding payouts_inv_def s'
proof (intro conjI ballI)
  show "\<forall>i st. length (filter (payout_where i st) (rd_payouts s)) \<le> 1"
    using inv by (simp add: payouts_inv_def)
next
  fix p assume "p \<in> set (rd_payouts s)"
  then show "pd_Status p \<noteq> PayoutSuperseded" "pd_RestaurantID p \<in> rs_ID ` set (save_row rs_ID r (rd_restaurants s))"
    using inv save_row_image [of r0 "rd_restaurants s" rs_ID r] r0 by (auto simp: payouts_inv_def)
next
  fix x assume x: "x \<in> set (save_row rs_ID r (rd_restaurants s))"
  have rows: "y \<in> set (rd_restaurants s) \<Longrightarrow>
      has_payout (rs_ID y) PayoutActive (rd_payouts s) = past_review (rs_Status y) \<and>
      (checked (rs_Checklist y) ChecklistPayout \<longrightarrow> rs_Status y \<in> {StatusDraft, StatusReview} \<longrightarrow>
       has_payout (rs_ID y) PayoutUnverified (rd_payouts s))" for y
    using inv unfolding payouts_inv_def past_review_def by blast
  have "x = r \<or> x \<in> set (rd_restaurants s)" using x by (auto dest: save_row_set)
  then have "has_payout (rs_ID x) PayoutActive (rd_payouts s) = past_review (rs_Status x) \<and>
      (checked (rs_Checklist x) ChecklistPayout \<longrightarrow> rs_Status x \<in> {StatusDraft, StatusReview} \<longrightarrow>
       has_payout (rs_ID x) PayoutUnverified (rd_payouts s))"
    using rows [OF r0(1)] rows [of x] r0(2) st chk by metis
  then show "has_payout (rs_ID x) PayoutActive (rd_payouts s) = (rs_Status x \<in> {StatusApproved, StatusActive})"
    "checked (rs_Checklist x) ChecklistPayout \<longrightarrow> rs_Status x \<in> {StatusDraft, StatusReview} \<longrightarrow>
       has_payout (rs_ID x) PayoutUnverified (rd_payouts s)"
    unfolding past_review_def by blast+
qed

subsection \<open>What the aggregate's methods do to a row\<close>

text \<open>
  The change of a row by an update command: the checklist item is done, the status moves from draft to review
  exactly when that was the last item, and the one event, if any, fits.
\<close>

definition row_step :: "'d Restaurant_rs \<Rightarrow> 'd Restaurant_rs \<Rightarrow> bool" where
  "row_step r0 r \<longleftrightarrow> rs_ID r = rs_ID r0 \<and>
     (rs_Status r0 = StatusDraft \<and> rs_Status r = StatusReview \<and>
        (\<exists>t. rs_events r = [RestaurantReadyForReview (rs_ID r0) (rs_Name r0) t]) \<or>
      rs_Status r = rs_Status r0 \<and>
        (rs_events r = [] \<or> listed (rs_Status r) \<and> (\<exists>t. rs_events r = [RestaurantUpdated (rs_ID r0) t])))"

lemma row_step_update:
  assumes "rs_events r = []"
  shows "row_step r (NotifyUpdated now (CompleteChecklistItem now item r))"
    "row_step r (NotifyUpdated now r)" "row_step r (CompleteChecklistItem now item r)"
  using assms by (auto simp: row_step_def NotifyUpdated_def CompleteChecklistItem_def raise_def listed_def Let_def)

lemma row_step_With:
  "row_step r0 r \<Longrightarrow> row_step r0 (WithSlug slug r)"
  "row_step r0 r \<Longrightarrow> row_step r0 (WithContact email phone website r)"
  "row_step r0 r \<Longrightarrow> row_step r0 (WithAddress addr r)"
  "row_step r0 r \<Longrightarrow> row_step r0 (WithCoordinates lat lon tz r)"
  "row_step r0 r \<Longrightarrow> row_step r0 (WithDelivery b ty km tmin tmax fee mo r)"
  "row_step r0 r \<Longrightarrow> row_step r0 (WithOpeningHours h r)"
  "row_step r0 r \<Longrightarrow> row_step r0 (WithTags tags r)"
  unfolding row_step_def by (auto split: if_splits simp: WithSlug_def WithContact_def WithAddress_def WithCoordinates_def WithDelivery_def
      WithOpeningHours_def WithTags_def)

lemma NewOutboxEvent_simps [simp]:
  "ob_EventName (NewOutboxEvent now a name body) = name"
  "ob_AggregateID (NewOutboxEvent now a name body) = a"
  "ob_Payload (NewOutboxEvent now a name body) = body"
  by (simp_all add: NewOutboxEvent_def)

lemma rs_rows_aggregate: "\<forall>e \<in> set (rs_rows L E enrichers a es). ob_AggregateID e = a"
  by (auto simp: rs_rows_def split: prod.splits)

lemma row_step_rows:
  assumes "row_step r0 r" "name \<in> milestone_names" "encs \<in> {[], [enrichUpdated L r']}"
  shows "length (filter (\<lambda>e. ob_EventName e = name) (rs_rows L E encs (rs_ID r) (rs_events r))) +
    milestone (rs_Status r0) name = milestone (rs_Status r) name"
proof -
  have rows: "rs_rows L E encs (rs_ID r) [RestaurantReadyForReview (rs_ID r0) (rs_Name r0) t] =
      [NewOutboxEvent (re_clock E) (rs_ID r) ''restaurant.ready_for_review''
         (marshal_ready_for_review L (rs_ID r0) (rs_Name r0) t)]"
    "filter (\<lambda>e. ob_EventName e = name) (rs_rows L E encs (rs_ID r) [RestaurantUpdated (rs_ID r0) t]) = []"
    for t
    using assms(2,3) by (auto simp: rs_integration_def milestone_names_def split: sum.split)
  from assms(1) consider (ready) t where "rs_Status r0 = StatusDraft" "rs_Status r = StatusReview"
      "rs_events r = [RestaurantReadyForReview (rs_ID r0) (rs_Name r0) t]"
    | (updated) t where "rs_Status r = rs_Status r0" "rs_events r = [RestaurantUpdated (rs_ID r0) t]"
    | (quiet) "rs_Status r = rs_Status r0" "rs_events r = []"
    unfolding row_step_def by (auto split: if_splits)
  then show ?thesis
  proof cases
    case ready
    then show ?thesis using assms(2) rows(1) [of t] by (auto simp: milestone_def milestone_names_def)
  next
    case updated
    then show ?thesis using rows(2) [of t] by simp
  next
    case quiet
    then show ?thesis by simp
  qed
qed

lemma rs_inv_menu_frame:
  "menu_inv L s \<Longrightarrow> rd_pizzas s' = rd_pizzas s \<Longrightarrow> rd_prices s' = rd_prices s \<Longrightarrow>
    rd_topping_prices s' = rd_topping_prices s \<Longrightarrow> menu_inv L s'"
  by (simp add: menu_inv_def)

lemma rs_inv_saved:
  assumes inv: "rs_inv L s" and r0: "r0 \<in> set (rd_restaurants s)" and step: "row_step r0 r"
    and ok: "restaurant_inv (stored_rs (stamp E r))"
    and chk: "checked (rs_Checklist r) ChecklistPayout = checked (rs_Checklist r0) ChecklistPayout"
  shows "rs_inv L (saved L E (\<lambda>r'. [enrichUpdated L r']) r s)"
proof -
  let ?r = "stored_rs (stamp E r)" and ?s = "saved L E (\<lambda>r'. [enrichUpdated L r']) r s"
  have id: "rs_ID r = rs_ID r0" using step by (simp add: row_step_def)
  have "restaurants_inv ?s"
    using restaurants_inv_save [of s r0 ?r] inv r0 id ok by (simp add: rs_inv_def restaurants_inv_def saved_def)
  moreover have "payouts_inv ?s"
  proof (rule payouts_inv_save [where r = ?r])
    show "payouts_inv s" using inv by (simp add: rs_inv_def)
  qed (use r0 id step chk in \<open>auto simp: saved_def row_step_def past_review_def\<close>)
  moreover have "milestones_inv ?s"
  proof (rule milestones_inv_save [where r = ?r])
    show "milestones_inv s" using inv by (simp add: rs_inv_def)
  qed (use r0 id row_step_rows [OF step, where r' = "stamp E r"] in \<open>auto simp: saved_def rs_rows_aggregate\<close>)
  moreover have "menu_inv L ?s"
    using inv by (auto simp: rs_inv_def saved_def intro: rs_inv_menu_frame)
  ultimately show ?thesis by (simp add: rs_inv_def)
qed

end
