(* ===== verification/Restaurant_Keeps.thy ===== *)
theory Restaurant_Keeps
  imports Restaurant_Inv
begin

text \<open>
  The commands on restaurants and payout details keep restaurant-service's invariants and do not panic: the
  profile updates, the payout commands, approval and launch.
\<close>

subsection \<open>The update commands\<close>

definition restaurant_core :: "'d Restaurant_rs \<Rightarrow> bool" where
  "restaurant_core r \<longleftrightarrow> rs_Status r \<in> {StatusDraft, StatusReview, StatusApproved, StatusActive} \<and>
     (rs_Status r = StatusDraft \<longleftrightarrow> \<not> IsCompleted (rs_Checklist r)) \<and>
     (checked (rs_Checklist r) ChecklistContact \<longrightarrow> rs_Email r \<noteq> None) \<and>
     (located r \<or> \<not> checked (rs_Checklist r) ChecklistAddress \<and> rs_Address r = zero_address)"

lemma restaurant_inv_core: "restaurant_inv r \<longleftrightarrow> rs_events r = [] \<and> restaurant_rs_row_ok r \<and> restaurant_core r"
  by (auto simp: restaurant_inv_def restaurant_core_def)

lemma core_stored [simp]: "restaurant_core (stored_rs (stamp E r)) = restaurant_core r"
  by (simp add: restaurant_core_def located_def stored_rs_def stamp_def)

lemma notify_simps [simp]:
  "rs_ID (NotifyUpdated now r) = rs_ID r" "rs_Checklist (NotifyUpdated now r) = rs_Checklist r"
  "rs_Status (NotifyUpdated now r) = rs_Status r" "rs_Email (NotifyUpdated now r) = rs_Email r"
  "rs_Address (NotifyUpdated now r) = rs_Address r" "located (NotifyUpdated now r) = located r"
  by (simp_all add: NotifyUpdated_def raise_def located_def)

lemma complete_simps [simp]:
  "rs_ID (CompleteChecklistItem now item r) = rs_ID r"
  "rs_Checklist (CompleteChecklistItem now item r) = Checklist_Complete item (rs_Checklist r)"
  "rs_Status (CompleteChecklistItem now item r) =
     (if rs_Status r = StatusDraft \<and> IsCompleted (Checklist_Complete item (rs_Checklist r)) then StatusReview else rs_Status r)"
  "rs_Email (CompleteChecklistItem now item r) = rs_Email r"
  "rs_Address (CompleteChecklistItem now item r) = rs_Address r"
  "located (CompleteChecklistItem now item r) = located r"
  by (simp_all add: CompleteChecklistItem_def raise_def located_def Let_def)

lemma with_simps [simp]:
  "rs_ID (WithContact e p w r) = rs_ID r" "rs_Checklist (WithContact e p w r) = rs_Checklist r"
  "rs_Status (WithContact e p w r) = rs_Status r" "rs_Email (WithContact e p w r) = e"
  "rs_Address (WithContact e p w r) = rs_Address r" "located (WithContact e p w r) = located r"
  "rs_Checklist (WithDelivery b ty km lo hi fee mo r) = rs_Checklist r"
  "rs_Checklist (WithOpeningHours h r) = rs_Checklist r" "rs_Checklist (WithTags tags r) = rs_Checklist r"
  "rs_Checklist (WithCoordinates lat lon tz (WithAddress addr (WithSlug slug r))) = rs_Checklist r"
  "restaurant_core (WithDelivery b ty km lo hi fee mo r) = restaurant_core r"
  "restaurant_core (WithOpeningHours h r) = restaurant_core r"
  "restaurant_core (WithTags tags r) = restaurant_core r"
  "located (WithCoordinates lat lon tz (WithAddress addr (WithSlug slug r)))"
  "rs_Status (WithCoordinates lat lon tz (WithAddress addr (WithSlug slug r))) = rs_Status r"
  "rs_Email (WithCoordinates lat lon tz (WithAddress addr (WithSlug slug r))) = rs_Email r"
  by (simp_all add: WithContact_def WithDelivery_def WithOpeningHours_def WithTags_def WithCoordinates_def
      WithAddress_def WithSlug_def located_def restaurant_core_def)

lemma core_complete:
  assumes "restaurant_core r" "item \<notin> {ChecklistContact, ChecklistAddress}"
  shows "restaurant_core (NotifyUpdated now (CompleteChecklistItem now item r))"
  using assms IsCompleted_Complete [of "rs_Checklist r" item] by (auto simp: restaurant_core_def)

lemma core_notify: "restaurant_core (NotifyUpdated now r) = restaurant_core r"
  by (simp add: restaurant_core_def)

lemma core_contact:
  assumes "restaurant_core r" "e \<noteq> None"
  shows "restaurant_core (WithContact e p w (NotifyUpdated now (CompleteChecklistItem now ChecklistContact r)))"
  using assms IsCompleted_Complete [of "rs_Checklist r" ChecklistContact] by (auto simp: restaurant_core_def)

lemma core_address:
  assumes "restaurant_core r"
  shows "restaurant_core (WithCoordinates lat lon tz (WithAddress addr (WithSlug slug
    (NotifyUpdated now (CompleteChecklistItem now ChecklistAddress r)))))"
  using assms IsCompleted_Complete [of "rs_Checklist r" ChecklistAddress] by (auto simp: restaurant_core_def)

definition no_panic :: "(rs_err, 'a) result \<Rightarrow> bool" where
  "no_panic res \<longleftrightarrow> (case res of Inl e \<Rightarrow> RsPanic \<notin> set e | Inr _ \<Rightarrow> True)"

lemma no_panic_simps [simp]: "no_panic (Inr x)" "no_panic (Inl e) \<longleftrightarrow> RsPanic \<notin> set e"
  by (simp_all add: no_panic_def)

text \<open>
  A listed restaurant has its checklist done, so everything the payload follows a pointer to is there.
\<close>

lemma core_listed: "restaurant_core r \<Longrightarrow> listed (rs_Status r) \<Longrightarrow> located r"
  using IsCompleted_checked by (auto simp: restaurant_core_def listed_def)

lemma updated_payload: "located r \<Longrightarrow> rs_UpdatedAt r \<noteq> None \<Longrightarrow> \<exists>p. NewRestaurantUpdatedPayload i t r = Inr p"
  by (auto simp: NewRestaurantUpdatedPayload_def located_def)

lemma row_step_no_panic:
  assumes "row_step r0 r" "restaurant_core r" "v \<in> set (rs_events r)"
  shows "rs_integration L [enrichUpdated L (stamp E r)] v \<noteq> Some (Inl e)"
proof -
  have "located (stamp E r) = located r" by (simp add: located_def)
  note same = this
  from assms(1,3) consider (ready) t where "v = RestaurantReadyForReview (rs_ID r0) (rs_Name r0) t"
    | (updated) t where "v = RestaurantUpdated (rs_ID r0) t" "listed (rs_Status r)"
    unfolding row_step_def by (auto split: if_splits)
  then show ?thesis
  proof cases
    case ready
    then show ?thesis by (simp add: rs_integration_def)
  next
    case updated
    then have "located (stamp E r)" using same core_listed [OF assms(2)] by simp
    then obtain p where "NewRestaurantUpdatedPayload (rs_ID r0) t (stamp E r) = Inr p"
      using updated_payload [of "stamp E r"] by auto
    then show ?thesis using updated by (simp add: rs_integration_def)
  qed
qed

lemma finish_update_keeps:
  assumes "finish_update L E r s = (res, s')" and inv: "rs_inv L s" "r0 \<in> set (rd_restaurants s)"
    and r: "row_step r0 r" "restaurant_core r"
      "checked (rs_Checklist r) ChecklistPayout = checked (rs_Checklist r0) ChecklistPayout"
  shows "rs_inv L s' \<and> no_panic res"
  using finish_update_cases [OF assms(1)]
proof (elim disjE conjE exE)
  assume "s' = s"
  fix e assume "res = Inl e" "e = []"
  then show ?thesis using inv \<open>s' = s\<close> by simp
next
  assume "s' = s"
  fix e assume "\<exists>v \<in> set (rs_events r). rs_integration L [enrichUpdated L (stamp E r)] v = Some (Inl e)"
  then show ?thesis using row_step_no_panic [OF r(1,2)] by blast
next
  assume s': "s' = saved L E (\<lambda>r'. [enrichUpdated L r']) r s" and ok: "may_save E r s"
  have "restaurant_inv (stored_rs (stamp E r))" using r(2) ok by (simp add: restaurant_inv_core may_save_def)
  then have "rs_inv L s'" using rs_inv_saved [OF inv r(1) _ r(3)] s' by blast
  then show "res = Inl [] \<Longrightarrow> ?thesis" "res = Inr (ToRestaurantResponse (stored_rs (stamp E r)) pd) \<Longrightarrow> ?thesis" for pd
    by simp_all
qed

lemma rs_inv_row: "rs_inv L s \<Longrightarrow> r \<in> set (rd_restaurants s) \<Longrightarrow> rs_events r = [] \<and> restaurant_core r"
  by (auto simp: rs_inv_def restaurants_inv_def restaurant_inv_core)

text \<open>An owner command: either the caller does not own the restaurant, and nothing happens, or the rest runs.\<close>

lemma owned_cases:
  assumes "bind (owned_restaurant E i own) f s = (res, s')"
  obtains (refused) e where "res = Inl e" "s' = s" "e = [] \<or> e = [RsApp ErrForbidden]"
    | (owner) r where "r \<in> set (rd_restaurants s)" "rs_ID r = i" "rs_OwnerID r = own" "f r s = (res, s')"
proof (cases "owned_restaurant E i own s")
  case (Pair res1 s1)
  show ?thesis
  proof (cases res1)
    case (Inl e)
    then show ?thesis using assms Pair owned_restaurant_Inl [of E i own s e s1] by (auto simp: bind_def intro: refused)
  next
    case (Inr r)
    then show ?thesis using assms Pair owned_restaurant_Inr [of E i own s r s1] by (auto simp: bind_def intro: owner)
  qed
qed

lemma UpdateContact_keeps:
  assumes "UpdateContact_Execute L E i own input s = (res, s')" "rs_inv L s" "ucr_Email input \<noteq> None"
  shows "rs_inv L s' \<and> no_panic res"
  using assms(1) unfolding UpdateContact_Execute_def
proof (cases rule: owned_cases)
  case (owner r)
  show ?thesis
    using owner(4) assms(2) owner(1)
    by (rule finish_update_keeps) (use rs_inv_row [OF assms(2) owner(1)] assms(3) in
      \<open>auto intro!: row_step_With row_step_update core_contact\<close>)
qed (use assms in auto)

lemma UpdateDelivery_keeps:
  assumes "UpdateDelivery_Execute L E i own input s = (res, s')" "rs_inv L s"
  shows "rs_inv L s' \<and> no_panic res"
  using assms(1) unfolding UpdateDelivery_Execute_def
proof (cases rule: owned_cases)
  case (owner r)
  show ?thesis
    using owner(4) assms(2) owner(1)
    by (rule finish_update_keeps) (use rs_inv_row [OF assms(2) owner(1)] in
      \<open>auto intro!: row_step_With row_step_update core_complete\<close>)
qed (use assms in auto)

lemma UpdateOpeningHours_keeps:
  assumes "UpdateOpeningHours_Execute L E i own input s = (res, s')" "rs_inv L s"
  shows "rs_inv L s' \<and> no_panic res"
  using assms(1) unfolding UpdateOpeningHours_Execute_def
proof (cases rule: owned_cases)
  case (owner r)
  show ?thesis
    using owner(4) assms(2) owner(1)
    by (rule finish_update_keeps) (use rs_inv_row [OF assms(2) owner(1)] in
      \<open>auto intro!: row_step_With row_step_update core_complete\<close>)
qed (use assms in auto)

lemma UpdateTags_keeps:
  assumes "UpdateTags_Execute L E i own input s = (res, s')" "rs_inv L s"
  shows "rs_inv L s' \<and> no_panic res"
  using assms(1) unfolding UpdateTags_Execute_def
proof (cases rule: owned_cases)
  case (owner r)
  show ?thesis
  proof (cases input)
    case None
    then show ?thesis using owner(4) assms(2) by (auto simp: fail_def)
  next
    case (Some tags)
    then have "finish_update L E (WithTags tags (NotifyUpdated (re_clock E) r)) s = (res, s')" using owner(4) by simp
    then show ?thesis
      using assms(2) owner(1)
      by (rule finish_update_keeps) (use rs_inv_row [OF assms(2) owner(1)] in
        \<open>auto intro!: row_step_With row_step_update simp: core_notify\<close>)
  qed
qed (use assms in auto)

definition geocoder_returns :: "rs_geocoder \<Rightarrow> bool" where
  "geocoder_returns geocoder \<longleftrightarrow> (\<forall>a. no_panic (geocoder a))"

lemma coordinates_no_panic:
  assumes "restaurant_core r" "geocoder_returns geocoder" "addr \<noteq> zero_address" "coordinates geocoder addr r = Inl e"
  shows "RsPanic \<notin> set e"
proof -
  have "no_panic (geocoder addr)" using assms(2) by (simp add: geocoder_returns_def)
  then show ?thesis
    using assms by (auto simp: coordinates_def restaurant_core_def located_def split: if_splits option.splits)
qed

lemma try_slugs_Inl: "try_slugs E i n slugs s = Inl e \<Longrightarrow> e = []"
  by (induction slugs arbitrary: n)
    (auto simp: FindBySlug_def take_restaurant_def io_Inl split: sum.splits if_splits)

lemma UpdateAddress_keeps:
  assumes "UpdateAddress_Execute L goslug geocoder E i own input s = (res, s')" "rs_inv L s"
    and "geocoder_returns geocoder" "uar_Street input \<noteq> ''''"
  shows "rs_inv L s' \<and> no_panic res"
  using assms(1) unfolding UpdateAddress_Execute_def
proof (cases rule: owned_cases)
  case (owner r)
  let ?addr = "\<lparr> ra_House = uar_House input, ra_Street = uar_Street input, ra_PostalCode = uar_PostalCode input,
    ra_City = uar_City input \<rparr>"
  let ?slug = "generateUniqueSlug goslug E (rs_ID r) (rs_Name r) (uar_City input) (uar_Street input) s"
  have core: "rs_events r = [] \<and> restaurant_core r" by (rule rs_inv_row [OF assms(2) owner(1)])
  show ?thesis
  proof (cases "coordinates geocoder ?addr r")
    case (Inl e)
    then have "RsPanic \<notin> set e"
      using coordinates_no_panic [OF _ assms(3), of r ?addr] core assms(4) by (simp add: zero_address_def)
    then show ?thesis using owner(4) Inl assms(2) by (auto simp: Let_def)
  next
    case (Inr c)
    obtain lat lon tz where c: "c = (lat, lon, tz)" by (cases c) auto
    show ?thesis
    proof (cases ?slug)
      case (Inl e)
      then show ?thesis using owner(4) Inr c assms(2)
        by (auto simp: Let_def generateUniqueSlug_def dest!: try_slugs_Inl)
    next
      case slug: (Inr slug)
      have "finish_update L E (WithCoordinates lat lon tz (WithAddress ?addr (WithSlug slug
          (NotifyUpdated (re_clock E) (CompleteChecklistItem (re_clock E) ChecklistAddress r))))) s = (res, s')"
        using owner(4) Inr c slug by (simp add: Let_def)
      then show ?thesis using assms(2) owner(1)
        by (rule finish_update_keeps) (use core in \<open>auto intro!: row_step_With row_step_update core_address\<close>)
    qed
  qed
qed (use assms in auto)

subsection \<open>Approval, launch and the inbound event\<close>

lemma milestones_inv_append:
  assumes "milestones_inv s" "rd_restaurants s' = rd_restaurants s"
    and "rd_outbox s' = fold (outbox_Create tr) rows (rd_outbox s)"
    and "\<forall>e \<in> set rows. ob_AggregateID e \<in> rs_ID ` set (rd_restaurants s) \<and> ob_EventName e \<notin> milestone_names"
  shows "milestones_inv s'"
proof -
  have none: "filter (\<lambda>e. ob_AggregateID e = i \<and> ob_EventName e = name) rows = []" if "name \<in> milestone_names" for i name
    using assms(4) that by (auto simp: filter_empty_conv)
  show ?thesis
    using assms by (auto simp: milestones_alt fold_outbox_aggregates announced_fold none)
qed

lemma has_payout_append [simp]:
  "has_payout i st (xs @ [p]) \<longleftrightarrow> has_payout i st xs \<or> payout_where i st p"
  by (auto simp: has_payout_def)

lemma has_payout_filter: "has_payout i st tbl \<longleftrightarrow> filter (payout_where i st) tbl \<noteq> []"
  by (auto simp: has_payout_def list_ex_iff filter_empty_conv)

definition payout_facts :: "PayoutDetails list \<Rightarrow> 'd Restaurant_rs \<Rightarrow> bool" where
  "payout_facts tbl r \<longleftrightarrow> (has_payout (rs_ID r) PayoutActive tbl \<longleftrightarrow> past_review (rs_Status r)) \<and>
     (checked (rs_Checklist r) ChecklistPayout \<longrightarrow> rs_Status r \<in> {StatusDraft, StatusReview} \<longrightarrow>
        has_payout (rs_ID r) PayoutUnverified tbl)"

lemma payouts_inv_alt: "payouts_inv s \<longleftrightarrow>
    (\<forall>i st. length (filter (payout_where i st) (rd_payouts s)) \<le> 1) \<and>
    (\<forall>p \<in> set (rd_payouts s). pd_Status p \<noteq> PayoutSuperseded \<and> pd_RestaurantID p \<in> rs_ID ` set (rd_restaurants s)) \<and>
    (\<forall>r \<in> set (rd_restaurants s). payout_facts (rd_payouts s) r)"
  by (auto simp: payouts_inv_def payout_facts_def past_review_def)

lemma payouts_inv_create:
  assumes inv: "payouts_inv s" and r0: "r0 \<in> set (rd_restaurants s)" "rs_ID r = rs_ID r0" "rs_ID r = pd_RestaurantID p"
    and p: "pd_Status p = PayoutUnverified" "\<not> has_payout (pd_RestaurantID p) PayoutUnverified (rd_payouts s)"
    and s': "rd_restaurants s' = save_row rs_ID r (rd_restaurants s)" "rd_payouts s' = rd_payouts s @ [p]"
    and st: "past_review (rs_Status r) = past_review (rs_Status r0)"
  shows "payouts_inv s'"
  unfolding payouts_inv_alt s'
proof (intro conjI ballI allI)
  fix i st
  have "length (filter (payout_where i st) (rd_payouts s)) \<le> 1" using inv by (simp add: payouts_inv_alt)
  moreover have "filter (payout_where i st) (rd_payouts s) = []" if "payout_where i st p"
  proof -
    have "i = pd_RestaurantID p" "st = PayoutUnverified" using that p(1) by (auto simp: payout_where_def)
    then show ?thesis using p(2) by (simp add: has_payout_filter)
  qed
  ultimately show "length (filter (payout_where i st) (rd_payouts s @ [p])) \<le> 1" by (cases "payout_where i st p") simp_all
next
  fix x assume "x \<in> set (rd_payouts s @ [p])"
  then show "pd_Status x \<noteq> PayoutSuperseded" "pd_RestaurantID x \<in> rs_ID ` set (save_row rs_ID r (rd_restaurants s))"
    using inv p r0 save_row_image [of r0 "rd_restaurants s" rs_ID r] by (auto simp: payouts_inv_alt rev_image_eqI)
next
  fix x assume "x \<in> set (save_row rs_ID r (rd_restaurants s))"
  then consider "x = r" | "x \<in> set (rd_restaurants s)" "rs_ID x \<noteq> rs_ID r" by (auto dest: save_row_set)
  then show "payout_facts (rd_payouts s @ [p]) x"
  proof cases
    case 1
    have "payout_facts (rd_payouts s) r0" using inv r0(1) by (simp add: payouts_inv_alt)
    then show ?thesis using 1 p(1) r0 st by (auto simp: payout_facts_def payout_where_def)
  next
    case 2
    then have "payout_facts (rd_payouts s) x" using inv by (simp add: payouts_inv_alt)
    then show ?thesis using 2(2) r0(3) by (auto simp: payout_facts_def payout_where_def)
  qed
qed

text \<open>Promotion: the unverified payout of the restaurant becomes its active one.\<close>

definition promote :: "rs_env \<Rightarrow> uuid \<Rightarrow> PayoutDetails list \<Rightarrow> PayoutDetails list" where
  "promote E i = update_where (payout_where i PayoutUnverified)
     (\<lambda>p. p\<lparr> pd_Status := PayoutActive, pd_UpdatedAt := Some (re_clock E) \<rparr>)"

lemma filter_promote_other:
  "j \<noteq> i \<or> st = PayoutSuperseded \<Longrightarrow> length (filter (payout_where j st) (promote E i tbl)) = length (filter (payout_where j st) tbl)"
  unfolding promote_def by (induction tbl) (auto simp: payout_where_def)

lemma filter_promote_unverified: "filter (payout_where i PayoutUnverified) (promote E i tbl) = []"
  unfolding promote_def by (induction tbl) (auto simp: payout_where_def)

lemma filter_promote_active:
  "length (filter (payout_where i PayoutActive) (promote E i tbl)) =
    length (filter (payout_where i PayoutActive) tbl) + length (filter (payout_where i PayoutUnverified) tbl)"
  unfolding promote_def by (induction tbl) (auto simp: payout_where_def)

lemma has_payout_length: "has_payout i st tbl \<longleftrightarrow> 0 < length (filter (payout_where i st) tbl)"
  by (simp add: has_payout_filter)

lemma payouts_inv_promote:
  assumes inv: "payouts_inv s" and r0: "r0 \<in> set (rd_restaurants s)" "rs_ID r = rs_ID r0"
    and st: "rs_Status r = StatusApproved"
    and un: "has_payout (rs_ID r) PayoutUnverified (rd_payouts s)" "\<not> has_payout (rs_ID r) PayoutActive (rd_payouts s)"
    and s': "rd_restaurants s' = save_row rs_ID r (rd_restaurants s)" "rd_payouts s' = promote E (rs_ID r) (rd_payouts s)"
  shows "payouts_inv s'"
  unfolding payouts_inv_alt s'
proof (intro conjI ballI allI)
  fix i st
  have le: "length (filter (payout_where i st) (rd_payouts s)) \<le> 1" for i st using inv by (simp add: payouts_inv_alt)
  show "length (filter (payout_where i st) (promote E (rs_ID r) (rd_payouts s))) \<le> 1"
  proof (cases "i = rs_ID r")
    case False
    then show ?thesis using le filter_promote_other by metis
  next
    case True
    show ?thesis
    proof (cases st)
      case PayoutUnverified
      then show ?thesis using True by (simp add: filter_promote_unverified)
    next
      case PayoutActive
      then show ?thesis using True un(2) le [of i PayoutUnverified]
        by (simp add: filter_promote_active has_payout_filter)
    next
      case PayoutSuperseded
      then show ?thesis using le filter_promote_other by metis
    qed
  qed
next
  fix x assume "x \<in> set (promote E (rs_ID r) (rd_payouts s))"
  then show "pd_Status x \<noteq> PayoutSuperseded" "pd_RestaurantID x \<in> rs_ID ` set (save_row rs_ID r (rd_restaurants s))"
    using inv save_row_image [of r0 "rd_restaurants s" rs_ID r] r0
    by (auto simp: payouts_inv_alt promote_def set_update_where split: if_splits)
next
  fix x assume "x \<in> set (save_row rs_ID r (rd_restaurants s))"
  then consider "x = r" | "x \<in> set (rd_restaurants s)" "rs_ID x \<noteq> rs_ID r" by (auto dest: save_row_set)
  then show "payout_facts (promote E (rs_ID r) (rd_payouts s)) x"
  proof cases
    case 1
    then show ?thesis using un st
      by (simp add: payout_facts_def has_payout_length filter_promote_active past_review_def)
  next
    case 2
    then have "payout_facts (rd_payouts s) x" using inv by (simp add: payouts_inv_alt)
    then show ?thesis using 2(2) by (simp add: payout_facts_def has_payout_length filter_promote_other)
  qed
qed

subsection \<open>Composing commands\<close>

definition good :: "'d::linordered_idom lib \<Rightarrow> (rs_err, 'a) result \<times> 'd rs_db \<Rightarrow> bool" where
  "good L out \<longleftrightarrow> rs_inv L (snd out) \<and> no_panic (fst out)"

lemma good_pair [simp]: "good L (res, s) \<longleftrightarrow> rs_inv L s \<and> no_panic res"
  by (simp add: good_def)

lemma good_owned:
  assumes "rs_inv L s"
    and "\<And>r. r \<in> set (rd_restaurants s) \<Longrightarrow> rs_ID r = i \<Longrightarrow> rs_OwnerID r = own \<Longrightarrow> good L (f r s)"
  shows "good L (bind (owned_restaurant E i own) f s)"
proof (cases "bind (owned_restaurant E i own) f s")
  case (Pair res s')
  then show ?thesis
  proof (cases rule: owned_cases)
    case (refused e)
    then show ?thesis using Pair assms(1) by auto
  next
    case (owner r)
    then show ?thesis using assms(2) [of r] Pair by simp
  qed
qed

lemma good_query:
  assumes "rs_inv L s" "no_panic (q s)" "\<And>x. q s = Inr x \<Longrightarrow> good L (f x s)"
  shows "good L (bind (query q) f s)"
  using assms by (cases "q s") simp_all

lemma good_ensure:
  assumes "rs_inv L s" "RsPanic \<notin> set e" "b \<Longrightarrow> good L (f () s)"
  shows "good L (bind (ensure b e) f s)"
  using assms by simp

text \<open>A transaction: its body does not panic, and the state it commits has the invariant.\<close>

lemma good_transaction:
  assumes "rs_inv L s" "no_panic (fst (body s))" "\<And>x s1. body s = (Inr x, s1) \<Longrightarrow> rs_inv L s1 \<and> good L (f x s1)"
  shows "good L (bind (transaction F c body) f s)"
proof (cases "transaction F c body s")
  case (Pair res s1)
  then show ?thesis
  proof (cases rule: transaction_cases)
    case (rolled_back e)
    then show ?thesis using Pair assms(1,2) by (auto simp: bind_step)
  next
    case (committed x)
    then show ?thesis using Pair assms(3) by (simp add: bind_step)
  qed
qed

lemma good_transaction_last:
  assumes "rs_inv L s" "no_panic (fst (body s))" "\<And>x s1. body s = (Inr x, s1) \<Longrightarrow> rs_inv L s1"
  shows "good L (transaction F c body s)"
  using good_transaction [of L s body ret F c] assms by (simp add: bind_ret ret_def)

definition calm :: "('s, rs_err, 'a) op \<Rightarrow> bool" where
  "calm m \<longleftrightarrow> (\<forall>s. no_panic (fst (m s)))"

lemma calm_bind: "calm m \<Longrightarrow> (\<And>x s s1. m s = (Inr x, s1) \<Longrightarrow> calm (f x)) \<Longrightarrow> calm (bind m f)"
  unfolding calm_def
proof
  fix s
  assume m: "\<forall>s. no_panic (fst (m s))" and f: "\<And>x s s1. m s = (Inr x, s1) \<Longrightarrow> \<forall>s. no_panic (fst (f x s))"
  show "no_panic (fst (bind m f s))"
  proof (cases "m s")
    case (Pair res s1)
    then show ?thesis using m [rule_format, of s] f by (cases res) (auto simp: bind_step)
  qed
qed

lemma calm_basic [simp]: "calm (ret x)" "calm (fail e) \<longleftrightarrow> RsPanic \<notin> set e" "calm (query q) \<longleftrightarrow> (\<forall>s. no_panic (q s))"
  by (simp_all add: calm_def ret_def fail_def query_def)

lemma calm_io [simp]: "no_panic (io F c r) \<longleftrightarrow> F c \<or> no_panic r"
  by (simp add: io_def)

lemma calm_dispatch:
  assumes "\<And>e x. e \<in> set (rs_events r) \<Longrightarrow> rs_integration L enrichers e = Some (Inl x) \<Longrightarrow> RsPanic \<notin> set x"
  shows "calm (rs_DispatchEventsTx L E enrichers r)"
  unfolding calm_def
proof
  fix s
  show "no_panic (fst (rs_DispatchEventsTx L E enrichers r s))"
  proof (cases "rs_DispatchEventsTx L E enrichers r s")
    case (Pair res s')
    then show ?thesis using rs_DispatchEventsTx_Inl [of L E enrichers r s] assms
      by (cases res) fastforce+
  qed
qed

lemma calm_Update [simp]: "calm (Restaurant_Update E r)"
  by (auto simp: calm_def Restaurant_Update_def Let_def)

lemma calm_payouts [simp]: "calm (Payout_Create E p)" "calm (UpdateUnverified E i a b c d)" "calm (PromoteToActive E i)"
  by (auto simp: calm_def Payout_Create_def UpdateUnverified_def PromoteToActive_def Let_def)

lemma calm_pizzas [simp]: "calm (Pizza_Create E p)" "calm (Pizza_Update E p)" "calm (ReplacePrices E i ps)" "calm (UpsertPrices E ts)"
  by (auto simp: calm_def Pizza_Create_def Pizza_Update_def ReplacePrices_def UpsertPrices_def Let_def)

lemma no_panic_reads [simp]:
  "no_panic (FindActiveByRestaurant E i s)" "no_panic (ListByRestaurant E i s)" "no_panic (Size_List E s)"
  "no_panic (Topping_List E s)" "no_panic (rt_ListByRestaurant E i s)" "no_panic (rs_ListByPizza E n i s)"
  "no_panic (FindByIDAndRestaurant E p i s)" "no_panic (ToppingIDs L z)"
  by (simp_all add: FindActiveByRestaurant_def ListByRestaurant_def Size_List_def Topping_List_def
      rt_ListByRestaurant_def rs_ListByPizza_def FindByIDAndRestaurant_def ToppingIDs_def split: option.split)

lemma good_answer: "rs_inv L s \<Longrightarrow> good L (restaurant_answer E r s)"
  unfolding restaurant_answer_def by (rule good_query) (simp_all add: ret_def)

subsection \<open>The other commands on restaurants\<close>

lemma Payout_Create_Inr:
  "Payout_Create E p s = (Inr u, s') \<Longrightarrow> \<exists>p'. s' = s\<lparr> rd_payouts := rd_payouts s @ [p'] \<rparr> \<and>
    p' = p\<lparr> pd_CreatedAt := created E (pd_CreatedAt p) \<rparr> \<and>
    (pd_Status p \<noteq> PayoutSuperseded \<longrightarrow> \<not> has_payout (pd_RestaurantID p) (pd_Status p) (rd_payouts s))"
  by (auto simp: Payout_Create_def Let_def split: if_splits)

lemma PromoteToActive_Inr:
  "PromoteToActive E i s = (Inr u, s') \<Longrightarrow> s' = s\<lparr> rd_payouts := promote E i (rd_payouts s) \<rparr> \<and>
    has_payout i PayoutUnverified (rd_payouts s) \<and> \<not> has_payout i PayoutActive (rd_payouts s)"
  by (auto simp: PromoteToActive_def promote_def rows_affected_def has_payout_filter Let_def split: if_splits)

lemma restaurant_inv_saved: "restaurant_core r \<Longrightarrow> may_save E r s \<Longrightarrow> restaurant_inv (stored_rs (stamp E r))"
  by (simp add: restaurant_inv_core may_save_def)

lemma row_in: "rs_inv L s \<Longrightarrow> r \<in> set (rd_restaurants s) \<Longrightarrow> restaurant_core r \<and> rs_events r = []"
  using rs_inv_row by blast

lemma CreatePayout_good:
  assumes inv: "rs_inv L s"
  shows "good L (CreatePayout_Execute L E i own input s)"
  unfolding CreatePayout_Execute_def
proof (rule good_owned [OF inv], rule good_query [OF inv])
  fix r assume r: "r \<in> set (rd_restaurants s)"
  let ?new = "NewPayoutDetails (re_newV7 E 0) (rs_ID r) (cpr_AccountHolder input) (cpr_IBAN input)
     (cpr_BIC input) (cpr_BankName input)"
  let ?r = "CompleteChecklistItem (re_clock E) ChecklistPayout r"
  show "no_panic ?new" by (simp add: NewPayoutDetails_def split: option.split)
  have core: "restaurant_core ?r" and ev: "rs_events r = []" and step: "row_step r ?r"
    using row_in [OF inv r] IsCompleted_Complete [of "rs_Checklist r" ChecklistPayout]
    by (auto simp: restaurant_core_def intro: row_step_update)
  fix p assume "?new = Inr p"
  then have p: "pd_RestaurantID p = rs_ID r" "pd_Status p = PayoutUnverified"
    by (auto simp: NewPayoutDetails_def split: option.splits)
  have quiet: "\<And>e x. e \<in> set (rs_events ?r) \<Longrightarrow> rs_integration L [] e = Some (Inl x) \<Longrightarrow> RsPanic \<notin> set x"
    using ev by (auto simp: CompleteChecklistItem_def raise_def Let_def rs_integration_def split: if_splits)
  show "good L (bind (transaction (re_fault E) RsCommit
      (bind (Payout_Create E p) (\<lambda>_. save_and_dispatch L E (\<lambda>_. []) ?r)))
      (\<lambda>r'. ret (ToRestaurantResponse r' (Some p))) s)"
  proof (rule good_transaction [OF inv])
    have "calm (bind (Payout_Create E p) (\<lambda>_. save_and_dispatch L E (\<lambda>_. []) ?r))"
      unfolding save_and_dispatch_def
      by (intro calm_bind calm_dispatch) (auto simp: Restaurant_Update_Inr dest: quiet)
    then show "no_panic (fst (bind (Payout_Create E p) (\<lambda>_. save_and_dispatch L E (\<lambda>_. []) ?r) s))"
      by (simp add: calm_def)
  next
    fix x s1 assume "bind (Payout_Create E p) (\<lambda>_. save_and_dispatch L E (\<lambda>_. []) ?r) s = (Inr x, s1)"
    then obtain s0 where s0: "Payout_Create E p s = (Inr (), s0)"
        "save_and_dispatch L E (\<lambda>_. []) ?r s0 = (Inr x, s1)" by (auto simp: bind_Inr)
    note created = Payout_Create_Inr [OF s0(1)]
    note done1 = save_and_dispatch_Inr [OF s0(2)]
    let ?row = "stored_rs (stamp E ?r)"
    have "restaurants_inv s1"
      using restaurants_inv_save [of s r ?row] inv r restaurant_inv_saved [OF core, of E s0] done1 created
      by (auto simp: rs_inv_def saved_def restaurants_inv_def)
    moreover have "payouts_inv s1"
      by (rule payouts_inv_create [where r = ?row and r0 = r and s = s])
        (use inv r p created done1 step in \<open>auto simp: rs_inv_def saved_def row_step_def past_review_def\<close>)
    moreover have "milestones_inv s1"
      by (rule milestones_inv_save [where r = ?row and r0 = r and s = s and tr = "re_trace E"])
        (use inv r created done1 row_step_rows [OF step, where encs = "[]"] in
          \<open>auto simp: rs_inv_def saved_def rs_rows_aggregate\<close>)
    moreover have "menu_inv L s1"
      by (rule rs_inv_menu_frame [of L s]) (use inv created done1 in \<open>auto simp: rs_inv_def saved_def\<close>)
    ultimately show "rs_inv L s1 \<and> good L (ret (ToRestaurantResponse x (Some p)) s1)"
      by (simp add: rs_inv_def ret_def)
  qed
qed

lemma payout_facts_cong: "has_payout (rs_ID r) PayoutActive tbl = has_payout (rs_ID r) PayoutActive tbl' \<Longrightarrow>
    has_payout (rs_ID r) PayoutUnverified tbl = has_payout (rs_ID r) PayoutUnverified tbl' \<Longrightarrow>
    payout_facts tbl r = payout_facts tbl' r"
  by (simp add: payout_facts_def)

lemma filter_update_same:
  "(\<And>p. P p \<Longrightarrow> Q (f p) = Q p) \<Longrightarrow> length (filter Q (update_where P f tbl)) = length (filter Q tbl)"
  by (induction tbl) auto

lemma UpdatePayout_good:
  assumes inv: "rs_inv L s"
  shows "good L (UpdatePayout_Execute E i own input s)"
  unfolding UpdatePayout_Execute_def
proof (rule good_owned [OF inv])
  fix r assume "r \<in> set (rd_restaurants s)"
  let ?op = "UpdateUnverified E (rs_ID r) (cpr_AccountHolder input) (cpr_IBAN input) (cpr_BIC input) (cpr_BankName input)"
  show "good L (bind ?op (\<lambda>_. ret (ToRestaurantResponse r (Some \<lparr> pd_ID = 0, pd_RestaurantID = 0,
      pd_AccountHolder = cpr_AccountHolder input, pd_IBAN = cpr_IBAN input, pd_BIC = cpr_BIC input,
      pd_BankName = cpr_BankName input, pd_Status = PayoutUnverified, pd_CreatedAt = zero_time, pd_UpdatedAt = None \<rparr>))) s)"
  proof (cases "?op s")
    case (Pair res s1)
    have "rs_inv L s1"
    proof (cases "s1 = s")
      case False
      then obtain f where s1: "s1 = s\<lparr> rd_payouts := update_where (payout_where (rs_ID r) PayoutUnverified) f (rd_payouts s) \<rparr>"
        and f: "\<And>p. pd_RestaurantID (f p) = pd_RestaurantID p" "\<And>p. pd_Status (f p) = pd_Status p"
        using Pair unfolding UpdateUnverified_def Let_def by (auto split: if_splits)
      have same: "payout_where j st (f p) = payout_where j st p" for j st p using f by (simp add: payout_where_def)
      have len: "length (filter (payout_where j st) (rd_payouts s1)) = length (filter (payout_where j st) (rd_payouts s))" for j st
        unfolding s1 by (simp add: filter_update_same same)
      have rows: "rd_restaurants s1 = rd_restaurants s" using s1 by simp
      have pays: "payouts_inv s" using inv by (simp add: rs_inv_def)
      have "payouts_inv s1"
        unfolding payouts_inv_alt len rows
      proof (intro conjI ballI)
        show "\<forall>i st. length (filter (payout_where i st) (rd_payouts s)) \<le> 1" using pays by (simp add: payouts_inv_alt)
      next
        fix p assume "p \<in> set (rd_payouts s1)"
        then obtain p0 where "p0 \<in> set (rd_payouts s)" "pd_Status p = pd_Status p0" "pd_RestaurantID p = pd_RestaurantID p0"
          using f by (auto simp: s1 set_update_where)
        then show "pd_Status p \<noteq> PayoutSuperseded" "pd_RestaurantID p \<in> rs_ID ` set (rd_restaurants s)"
          using pays by (auto simp: payouts_inv_alt)
      next
        fix x assume "x \<in> set (rd_restaurants s)"
        then have "payout_facts (rd_payouts s) x" using pays by (simp add: payouts_inv_alt)
        then show "payout_facts (rd_payouts s1) x" by (simp add: payout_facts_def has_payout_length len)
      qed
      then show ?thesis using inv s1
        by (auto simp: rs_inv_def restaurants_inv_def milestones_inv_def menu_inv_def)
    qed (use inv in simp)
    moreover have "no_panic res"
      using calm_payouts(2) [of E "rs_ID r"] Pair unfolding calm_def by (metis fst_conv)
    ultimately show ?thesis using Pair by (cases res) (auto simp: bind_step ret_def)
  qed
qed

lemma Approve_good:
  assumes inv: "rs_inv L s"
  shows "good L (ApproveRestaurant_Execute L E i s)"
  unfolding ApproveRestaurant_Execute_def
proof (rule good_query [OF inv])
  have prep: "\<exists>r email. r \<in> set (rd_restaurants s) \<and> rs_Status r = StatusReview \<and> rs_Email r = Some email \<and>
      r1 = raise (RestaurantApproved (rs_ID r) (rs_Name r) email (re_clock E)) (r\<lparr> rs_Status := StatusApproved \<rparr>)"
    if "Approve_prepare E i s = Inr r1" for r1
    using that by (auto simp: Approve_prepare_def Restaurant_rs_FindByID_def take_restaurant_def Approve_def
        split: sum.splits option.splits if_splits dest: find_in)
  have email: False if "r \<in> set (rd_restaurants s)" "rs_Status r = StatusReview" "rs_Email r = None" for r
    using row_in [OF inv that(1)] that(2,3) IsCompleted_checked [of "rs_Checklist r" ChecklistContact]
    by (auto simp: restaurant_core_def)
  show "no_panic (Approve_prepare E i s)"
    by (auto simp: Approve_prepare_def Restaurant_rs_FindByID_def take_restaurant_def Approve_def io_def
        split: sum.splits option.splits dest!: find_in dest: email)
  fix r1 assume "Approve_prepare E i s = Inr r1"
  from prep [OF this] obtain r email where r: "r \<in> set (rd_restaurants s)" "rs_Status r = StatusReview" "rs_Email r = Some email"
    and r1: "r1 = raise (RestaurantApproved (rs_ID r) (rs_Name r) email (re_clock E)) (r\<lparr> rs_Status := StatusApproved \<rparr>)"
    by blast
  have core: "restaurant_core r1" and ev: "rs_events r1 = [RestaurantApproved (rs_ID r) (rs_Name r) email (re_clock E)]"
    and id: "rs_ID r1 = rs_ID r" and st: "rs_Status r1 = StatusApproved"
    using row_in [OF inv r(1)] r r1 by (auto simp: raise_def restaurant_core_def located_def)
  let ?body = "bind (Restaurant_Update E r1) (\<lambda>r'. bind (PromoteToActive E (rs_ID r')) (\<lambda>_. rs_DispatchEventsTx L E [] r'))"
  show "good L (Approve_commit L E r1 s)"
    unfolding Approve_commit_def
  proof (rule good_transaction [OF inv])
    have "calm ?body"
      by (intro calm_bind calm_dispatch) (auto simp: Restaurant_Update_Inr ev rs_integration_def)
    then show "no_panic (fst (?body s))" by (simp add: calm_def)
  next
    fix x s1 assume "?body s = (Inr x, s1)"
    then obtain s0 s2 where s0: "Restaurant_Update E r1 s = (Inr (stamp E r1), s0)"
        "PromoteToActive E (rs_ID r1) s0 = (Inr (), s2)" "rs_DispatchEventsTx L E [] (stamp E r1) s2 = (Inr x, s1)"
      by (auto simp: bind_Inr Restaurant_Update_Inr)
    note up = s0(1) [unfolded Restaurant_Update_Inr]
    note pr = PromoteToActive_Inr [OF s0(2)]
    note dp = rs_DispatchEventsTx_Inr [OF s0(3)]
    let ?row = "stored_rs (stamp E r1)"
    have ok: "restaurant_inv ?row" using restaurant_inv_saved [OF core, of E s] up by (simp add: may_save_def)
    have s1: "rd_restaurants s1 = save_row rs_ID ?row (rd_restaurants s)"
      "rd_payouts s1 = promote E (rs_ID r1) (rd_payouts s)"
      "rd_outbox s1 = fold (outbox_Create (re_trace E)) (rs_rows L E [] (rs_ID r1) (rs_events r1)) (rd_outbox s)"
      using up pr dp by simp_all
    have "restaurants_inv s1"
      using restaurants_inv_save [of s r ?row] inv r(1) ok id s1(1) by (simp add: rs_inv_def restaurants_inv_def)
    moreover have "payouts_inv s1"
      by (rule payouts_inv_promote [where r = ?row and r0 = r and s = s and E = E])
        (use inv r id st up pr s1 in \<open>auto simp: rs_inv_def\<close>)
    moreover have "milestones_inv s1"
      by (rule milestones_inv_save [where r = ?row and r0 = r and s = s and tr = "re_trace E"
            and rows = "rs_rows L E [] (rs_ID r1) (rs_events r1)"])
        (use inv r id st s1 ev in \<open>auto simp: rs_inv_def rs_integration_def milestone_names_def milestone_def\<close>)
    moreover have "menu_inv L s1"
      by (rule rs_inv_menu_frame [of L s]) (use inv up pr dp in \<open>auto simp: rs_inv_def\<close>)
    ultimately show "rs_inv L s1 \<and> good L (restaurant_answer E x s1)"
      using good_answer by (auto simp: rs_inv_def)
  qed
qed

lemma no_panic_catalog: "no_panic (catalog_pizzas L E sizes tops prices n ps s)"
proof (induction ps arbitrary: n)
  case Nil
  then show ?case by simp
next
  case (Cons p ps)
  have l: "e = []" if "rs_ListByPizza E n (rz_ID p) s = Inl e" for e
    using that by (auto simp: rs_ListByPizza_def io_Inl)
  have t: "e = []" if "ToppingIDs L p = Inl e" for e
    using that by (auto simp: ToppingIDs_def split: option.splits)
  have "RsPanic \<notin> set e" if "catalog_pizzas L E sizes tops prices (Suc n) ps s = Inl e" for e
    using Cons.IH [of "Suc n"] that by simp
  then show ?case using Cons.IH [of "Suc n"] by (auto split: sum.split dest: l t)
qed

lemma no_panic_PizzaCatalog: "\<exists>res. PizzaCatalog_Execute L E i s = (res, s) \<and> no_panic res"
proof -
  have "calm (PizzaCatalog_Execute L E i)"
    unfolding PizzaCatalog_Execute_def by (intro calm_bind) (simp_all add: no_panic_catalog)
  moreover have "snd (PizzaCatalog_Execute L E i s) = s"
    by (simp add: PizzaCatalog_Execute_def query_def split: sum.split)
  ultimately show ?thesis unfolding calm_def by (metis prod.collapse)
qed

lemma good_catalog:
  assumes "rs_inv L s" "\<And>ps. PizzaCatalog_Execute L' E i s = (Inr ps, s) \<Longrightarrow> good L (f ps s)"
  shows "good L (bind (PizzaCatalog_Execute L' E i) f s)"
proof -
  obtain res where res: "PizzaCatalog_Execute L' E i s = (res, s)" "no_panic res" using no_panic_PizzaCatalog by blast
  then show ?thesis using assms by (cases res) (auto simp: bind_step)
qed

lemma Launch_good:
  assumes inv: "rs_inv L s"
  shows "good L (LaunchRestaurant_Execute L E i own s)"
  unfolding LaunchRestaurant_Execute_def Let_def buildToppingPriceResponses_def bind_assoc
proof (rule good_owned [OF inv], rule good_catalog [OF inv], rule good_ensure [OF inv], simp,
    rule good_query [OF inv], simp, rule good_query [OF inv], simp, unfold bind_simps(1), rule good_query [OF inv])
  fix r :: "'a Restaurant_rs" and pizzas toppings and prices :: "'a ToppingPrice_rs list"
  assume r: "r \<in> set (rd_restaurants s)"
  let ?launch = "case Launch (re_clock E) r of Inl e \<Rightarrow> Inl (e @ [RsApp ErrConflict]) | Inr x \<Rightarrow> Inr x"
  show "no_panic ?launch" by (simp add: Launch_def)
  fix r1 assume "?launch = Inr r1"
  then have st0: "rs_Status r = StatusApproved"
    and r1: "r1 = raise (RestaurantLaunched (rs_ID r) (re_clock E)) (r\<lparr> rs_Status := StatusActive \<rparr>)"
    by (auto simp: Launch_def split: if_splits)
  have core: "restaurant_core r1" and ev: "rs_events r1 = [RestaurantLaunched (rs_ID r) (re_clock E)]"
    and id: "rs_ID r1 = rs_ID r" and st: "rs_Status r1 = StatusActive"
    using row_in [OF inv r] r1 st0 by (auto simp: raise_def restaurant_core_def located_def)
  let ?tps = "topping_price_responses (index_by tg_ID toppings) prices"
  let ?enc = "\<lambda>r'. [enrichLaunched L r' (fst (EvaluateLaunchReadiness pizzas)) ?tps]"
  have "located (stamp E r1)" using core_listed [OF core] st by (simp add: listed_def located_def)
  then obtain p where payload: "NewRestaurantUpdatedPayload (rs_ID r) (re_clock E) (stamp E r1) = Inr p"
    using updated_payload [of "stamp E r1"] by auto
  have int: "rs_integration L (?enc (stamp E r1)) (RestaurantLaunched (rs_ID r) (re_clock E)) =
      Some (Inr (''restaurant.launched'', marshal_launched L p (fst (EvaluateLaunchReadiness pizzas)) ?tps))"
    by (simp add: rs_integration_def payload)
  show "good L (bind (transaction (re_fault E) RsCommit (save_and_dispatch L E ?enc r1)) (restaurant_answer E) s)"
  proof (rule good_transaction [OF inv])
    have "calm (save_and_dispatch L E ?enc r1)"
      unfolding save_and_dispatch_def
      by (intro calm_bind calm_dispatch) (use int in \<open>auto simp: Restaurant_Update_Inr ev\<close>)
    then show "no_panic (fst (save_and_dispatch L E ?enc r1 s))" by (simp add: calm_def)
  next
    fix x s1 assume "save_and_dispatch L E ?enc r1 s = (Inr x, s1)"
    note dn = save_and_dispatch_Inr [OF this]
    let ?row = "stored_rs (stamp E r1)"
    have s1: "rd_restaurants s1 = save_row rs_ID ?row (rd_restaurants s)" "rd_payouts s1 = rd_payouts s"
      "rd_outbox s1 = fold (outbox_Create (re_trace E)) (rs_rows L E (?enc (stamp E r1)) (rs_ID r1) (rs_events r1)) (rd_outbox s)"
      using dn by (simp_all add: saved_def)
    have "restaurants_inv s1"
      using restaurants_inv_save [of s r ?row] inv r restaurant_inv_saved [OF core, of E s] dn id s1(1)
      by (simp add: rs_inv_def restaurants_inv_def)
    moreover have "payouts_inv s1"
      by (rule payouts_inv_save [where r = ?row and r0 = r and s = s])
        (use inv r id st st0 s1 r1 in \<open>auto simp: rs_inv_def past_review_def raise_def\<close>)
    moreover have "milestones_inv s1"
      by (rule milestones_inv_save [where r = ?row and r0 = r and s = s and tr = "re_trace E"
            and rows = "rs_rows L E (?enc (stamp E r1)) (rs_ID r1) (rs_events r1)"])
        (use inv r id st st0 s1 ev int in \<open>auto simp: rs_inv_def milestone_names_def milestone_def\<close>)
    moreover have "menu_inv L s1"
      by (rule rs_inv_menu_frame [of L s]) (use inv dn in \<open>auto simp: rs_inv_def saved_def\<close>)
    ultimately show "rs_inv L s1 \<and> good L (restaurant_answer E x s1)"
      using good_answer by (auto simp: rs_inv_def)
  qed
qed

end
