(* ===== verification/Restaurant_Reach.thy ===== *)
theory Restaurant_Reach
  imports Restaurant_Keeps
begin

text \<open>
  \<open>restaurant.initiated\<close> and the commands on the menu keep the invariants as well; the running service as a relation
  of reachable states.
\<close>

lemma Restaurant_Create_outcome:
  "Restaurant_Create E r s = (res, s') \<Longrightarrow> res = Inl [] \<and> s' = s \<or> res = Inr ()"
  by (auto simp: Restaurant_Create_def Let_def split: if_splits)

lemma Initiated_good:
  assumes inv: "rs_inv L s"
  shows "good L (RestaurantInitiated_Handle L E body s)"
proof (cases "RestaurantInitiated_Handle L E body s")
  case (Pair res s')
  have "(\<exists>i own name vat. Restaurant_Create E (NewRestaurant i own name vat
        (Checklist_Complete ChecklistBasic NewChecklist)) s = (res, s')) \<or> res = Inl [] \<and> s' = s"
    using Pair unfolding RestaurantInitiated_Handle_def
    by (auto simp: fail_def split: option.splits if_splits)
  moreover have "rs_inv L s'" if new: "Restaurant_Create E (NewRestaurant i own name vat
      (Checklist_Complete ChecklistBasic NewChecklist)) s = (Inr (), s')" for i own name vat
  proof -
    obtain r where r: "s' = s\<lparr> rd_restaurants := rd_restaurants s @ [r] \<rparr>" "find_row rs_ID (rs_ID r) (rd_restaurants s) = None"
        "restaurant_rs_row_ok r" "rs_Status r = StatusDraft" "rs_events r = []" "rs_Address r = zero_address"
        "rs_Checklist r = Checklist_Complete ChecklistBasic NewChecklist"
      using new unfolding Restaurant_Create_def Let_def
      by (auto simp: NewRestaurant_def restaurant_defaults_def stored_rs_def restaurant_rs_row_ok_def split: if_splits)
    have chk: "\<not> IsCompleted (rs_Checklist r)" "\<not> checked (rs_Checklist r) ChecklistContact"
      "\<not> checked (rs_Checklist r) ChecklistAddress" "\<not> checked (rs_Checklist r) ChecklistPayout"
      unfolding r(7) by (simp_all add: IsCompleted_def checklist_items_def checked_def Checklist_Complete_def NewChecklist_def)
    have fresh: "rs_ID r \<notin> rs_ID ` set (rd_restaurants s)" using r(2) by (simp add: find_row_None_image)
    have "restaurants_inv s'"
      using inv r chk fresh by (auto simp: rs_inv_def restaurants_inv_def restaurant_inv_def)
    moreover have "payouts_inv s'"
    proof -
      have "pd_RestaurantID x \<in> rs_ID ` set (rd_restaurants s)" if "x \<in> set (rd_payouts s)" for x
        using inv that by (simp add: rs_inv_def payouts_inv_alt)
      then have "\<not> has_payout (rs_ID r) PayoutActive (rd_payouts s)"
        using fresh unfolding has_payout_def list_ex_iff payout_where_def by metis
      then have "payout_facts (rd_payouts s) r" using r(4) chk by (simp add: payout_facts_def past_review_def)
      then show ?thesis using inv r(1) by (auto simp: rs_inv_def payouts_inv_alt)
    qed
    moreover have "milestones_inv s'"
    proof -
      have "ob_AggregateID e \<in> rs_ID ` set (rd_restaurants s)" if "e \<in> set (ob_rows (rd_outbox s))" for e
        using inv that by (simp add: rs_inv_def milestones_inv_def)
      then have "announced (rd_outbox s) (rs_ID r) name = 0" for name
        using fresh unfolding announced_def by (metis (mono_tags, lifting) filter_False list.size(3))
      then show ?thesis using inv r(1,4) by (auto simp: rs_inv_def milestones_inv_def)
    qed
    moreover have "menu_inv L s'" by (rule rs_inv_menu_frame [of L s]) (use inv r(1) in \<open>simp_all add: rs_inv_def\<close>)
    ultimately show ?thesis by (simp add: rs_inv_def)
  qed
  ultimately show ?thesis using Pair inv Restaurant_Create_outcome by (metis good_pair no_panic_simps empty_iff empty_set)
qed

subsection \<open>The menu\<close>

lemma menu_invD:
  assumes "menu_inv L s"
  shows "distinct (List.map rz_ID (rd_pizzas s))" "p \<in> set (rd_pizzas s) \<Longrightarrow> \<exists>ids. ToppingIDs L p = Inr ids \<and> distinct ids"
    "x \<in> set (rd_prices s) \<Longrightarrow> rp_IsActive x \<Longrightarrow> \<exists>z \<in> set (rd_pizzas s). rz_ID z = rp_PizzaID x \<and> rz_UpdatedAt z \<noteq> None"
  using assms by (auto simp: menu_inv_def)

lemma menu_inv_add_pizza:
  assumes "menu_inv L s" "find_row rz_ID (rz_ID p) (rd_pizzas s) = None" "ToppingIDs L p = Inr ids" "distinct ids"
  shows "menu_inv L (s\<lparr> rd_pizzas := rd_pizzas s @ [p] \<rparr>)"
  using assms by (fastforce simp: menu_inv_def find_row_None_image)

lemma menu_inv_save_pizza:
  assumes inv: "menu_inv L s" and p0: "p0 \<in> set (rd_pizzas s)" "rz_ID p = rz_ID p0"
    and p: "ToppingIDs L p = Inr ids" "distinct ids" "rz_UpdatedAt p \<noteq> None"
    and prices: "distinct (List.map rp_key prices)"
      "\<forall>x \<in> set prices. rp_IsActive x \<longrightarrow> rp_PizzaID x = rz_ID p \<or> x \<in> set (rd_prices s)"
  shows "menu_inv L (s\<lparr> rd_pizzas := save_row rz_ID p (rd_pizzas s), rd_prices := prices \<rparr>)"
proof -
  have mem: "\<exists>z \<in> set (save_row rz_ID p (rd_pizzas s)). rz_ID z = i \<and> rz_UpdatedAt z \<noteq> None"
    if i: "i = rz_ID p \<or> (\<exists>z \<in> set (rd_pizzas s). rz_ID z = i \<and> rz_UpdatedAt z \<noteq> None)" for i
  proof (cases "i = rz_ID p")
    case True
    then show ?thesis using p(3) save_row_mem [of p rz_ID "rd_pizzas s"] by blast
  next
    case False
    then obtain z where "z \<in> set (rd_pizzas s)" "rz_ID z = i" "rz_UpdatedAt z \<noteq> None" using i by blast
    then show ?thesis using False save_row_other [of z "rd_pizzas s" rz_ID p] by blast
  qed
  have "\<exists>ids. ToppingIDs L x = Inr ids \<and> distinct ids" if "x \<in> set (save_row rz_ID p (rd_pizzas s))" for x
    using save_row_set [OF that] menu_invD(2) [OF inv, of x] p by blast
  moreover have "\<exists>z \<in> set (save_row rz_ID p (rd_pizzas s)). rz_ID z = rp_PizzaID x \<and> rz_UpdatedAt z \<noteq> None"
    if "x \<in> set prices" "rp_IsActive x" for x
    using prices(2) menu_invD(3) [OF inv, of x] that mem by blast
  moreover have "distinct (List.map rz_ID (save_row rz_ID p (rd_pizzas s)))"
    using save_row_map_key [of p0 "rd_pizzas s" rz_ID p] p0 menu_invD(1) [OF inv] by simp
  ultimately show ?thesis using inv prices(1) unfolding menu_inv_def by simp
qed

lemma rs_inv_menu_change:
  assumes "rs_inv L s" "menu_inv L s'" "rd_restaurants s' = rd_restaurants s" "rd_payouts s' = rd_payouts s"
    and "rd_outbox s' = fold (outbox_Create tr) rows (rd_outbox s)"
    and "\<forall>e \<in> set rows. ob_AggregateID e \<in> rs_ID ` set (rd_restaurants s) \<and> ob_EventName e \<notin> milestone_names"
  shows "rs_inv L s'"
proof -
  have "milestones_inv s'"
    by (rule milestones_inv_append [OF _ assms(3,5,6)]) (use assms(1) in \<open>simp add: rs_inv_def\<close>)
  moreover have "restaurants_inv s'" using assms(1) unfolding rs_inv_def restaurants_inv_def assms(3) by blast
  moreover have "payouts_inv s'"
    unfolding payouts_inv_alt assms(3,4) using assms(1) unfolding rs_inv_def payouts_inv_alt by blast
  ultimately show ?thesis using assms(2) unfolding rs_inv_def by blast
qed

lemma select_toppings_ok:
  assumes "uuid_codec L" "select_toppings L ids tops p = Inr p'"
  shows "ToppingIDs L p' = Inr ids \<and> distinct ids \<and> rz_ID p' = rz_ID p"
proof -
  have "SetToppingIDs L ids p = Inr p'"
    using assms(2) by (auto simp: select_toppings_def ValidateToppingSelections_def split: sum.splits if_splits)
  note selected = this
  have "rz_ID p' = rz_ID p" using selected by (auto simp: SetToppingIDs_def split: if_splits)
  then show ?thesis using ToppingIDs_Set [OF assms(1) selected] by blast
qed

lemma no_panic_select [simp]: "no_panic (select_toppings L ids tops p)"
  by (simp add: select_toppings_def ValidateToppingSelections_def SetToppingIDs_def)

lemma WithDetails_simps [simp]:
  "rz_ID (WithDetails n im v st so p) = rz_ID p" "rz_Toppings (WithDetails n im v st so p) = rz_Toppings p"
  "rz_RestaurantID (WithDetails n im v st so p) = rz_RestaurantID p"
  by (simp_all add: WithDetails_def)

lemma ToppingIDs_cong: "rz_Toppings p = rz_Toppings q \<Longrightarrow> ToppingIDs L p = ToppingIDs L q"
  by (simp add: ToppingIDs_def)

lemma Pizza_Create_good:
  assumes inv: "rs_inv L s" and p: "ToppingIDs L p = Inr ids" "distinct ids"
    and "\<And>p' s'. rs_inv L s' \<Longrightarrow> good L (f p' s')"
  shows "good L (bind (Pizza_Create E p) f s)"
proof (cases "Pizza_Create E p s")
  case (Pair res s')
  show ?thesis
  proof (cases res)
    case (Inl e)
    then show ?thesis using Pair inv by (auto simp: bind_step Pizza_Create_def Let_def split: if_splits)
  next
    case (Inr p')
    then have p': "s' = s\<lparr> rd_pizzas := rd_pizzas s @ [p'] \<rparr>" "find_row rz_ID (rz_ID p') (rd_pizzas s) = None"
      "rz_Toppings p' = (if rz_Toppings p = JNull then JArr [] else rz_Toppings p)"
      using Pair by (auto simp: Pizza_Create_def Let_def split: if_splits)
    then have "ToppingIDs L p' = Inr ids" using p(1) by (auto simp: ToppingIDs_def split: if_splits)
    then have "menu_inv L s'"
      using menu_inv_add_pizza [of L s p' ids] p' inv p(2) by (simp add: rs_inv_def)
    then have "rs_inv L s'"
      by (rule rs_inv_menu_change [where tr = "[]" and rows = "[]", OF inv]) (simp_all add: p'(1))
    then show ?thesis using Pair Inr assms(4) by (simp add: bind_step)
  qed
qed

lemma good_ret [simp]: "good L (ret x s) = rs_inv L s"
  by (simp add: ret_def)

lemma CreatePizza_good:
  assumes inv: "rs_inv L s" and L: "uuid_codec L"
  shows "good L (CreatePizza_Execute L E i own input s)"
  unfolding CreatePizza_Execute_def Let_def
proof (rule good_owned [OF inv], rule good_ensure [OF inv], simp, rule good_query [OF inv], simp split: option.split)
  fix r ident
  let ?p = "WithDetails (czr_Name input) (czr_Image input) (given False (czr_IsVegetarian input))
      (given PizzaAvailable (czr_Status input)) (czr_SortOrder input) (NewPizza ident i)"
  have none: "ToppingIDs L ?p = Inr []" by (simp add: ToppingIDs_def NewPizza_def)
  let ?ids = "given [] (czr_ToppingIDs input)"
  let ?A = "bind (query (Topping_List E)) (\<lambda>toppings. bind (query (\<lambda>_. select_toppings L ?ids (index_by tg_ID toppings) ?p))
      (\<lambda>p'. bind (Pizza_Create E p') (\<lambda>p''. ret (ToPizzaResponse p'' [] Map.empty ?ids (index_by tg_ID toppings) Map.empty))))"
  let ?B = "bind (Pizza_Create E ?p) (\<lambda>p'. ret (ToPizzaResponse p' [] Map.empty [] Map.empty Map.empty))"
  have "good L (?A s)"
  proof (rule good_query [OF inv], simp, rule good_query [OF inv], simp)
    fix tops p' assume "select_toppings L ?ids (index_by tg_ID tops) ?p = Inr p'"
    then show "good L (bind (Pizza_Create E p')
        (\<lambda>p''. ret (ToPizzaResponse p'' [] Map.empty ?ids (index_by tg_ID tops) Map.empty)) s)"
      using select_toppings_ok [OF L] by (intro Pizza_Create_good [OF inv]) auto
  qed
  moreover have "good L (?B s)"
    by (rule Pizza_Create_good [OF inv none]) simp_all
  ultimately show "good L ((if ?ids \<noteq> [] then ?A else ?B) s)"
    by (rule if_split [of "\<lambda>m. good L (m s)" "?ids \<noteq> []" ?A ?B, THEN iffD2, OF conjI [OF impI impI]])
qed

lemma notify_pizza_simps:
  "rs_ID (NotifyPizzaUpdated t r) = rs_ID r" "rs_ID (NotifyToppingPricesUpdated t r) = rs_ID r"
  "rs_events r = [] \<Longrightarrow> rs_events (NotifyPizzaUpdated t r) = (if listed (rs_Status r) then [PizzaUpdated (rs_ID r) t] else [])"
  "rs_events r = [] \<Longrightarrow> rs_events (NotifyToppingPricesUpdated t r) =
     (if listed (rs_Status r) then [ToppingPricesUpdated (rs_ID r) t] else [])"
  by (simp_all add: NotifyPizzaUpdated_def NotifyToppingPricesUpdated_def raise_def)

lemma Pizza_Update_Inr:
  "Pizza_Update E p s = (Inr p', s') \<Longrightarrow> p' = p\<lparr> rz_UpdatedAt := Some (re_clock E) \<rparr> \<and>
    s' = s\<lparr> rd_pizzas := save_row rz_ID p' (rd_pizzas s) \<rparr>"
  by (auto simp: Pizza_Update_def Let_def split: if_splits)

lemma good_owned_pizza:
  assumes "rs_inv L s"
    and "\<And>p. p \<in> set (rd_pizzas s) \<Longrightarrow> rz_ID p = i \<Longrightarrow> rz_RestaurantID p = j \<Longrightarrow> good L (f p s)"
  shows "good L (bind (owned_pizza E i j) f s)"
proof -
  have "owned_pizza E i j s = (case FindByIDAndRestaurant E i j s of Inl e \<Rightarrow> (Inl e, s)
      | Inr None \<Rightarrow> (Inl [RsApp ErrNotFound], s) | Inr (Some p) \<Rightarrow> (Inr p, s))"
    by (auto simp: owned_pizza_def fail_def ret_def split: sum.split option.split)
  then show ?thesis
    using assms by (auto simp: FindByIDAndRestaurant_def bind_def io_def split: sum.splits option.splits if_splits dest!: find_in)
qed

text \<open>The event of a changed pizza: no milestone, no panic once the row has been stamped.\<close>

lemma pizza_message_event:
  assumes "rs_events r = []" "pzr_UpdatedAt output \<noteq> None"
  shows "calm (rs_DispatchEventsTx L E [enrichPizzaUpdated L output] (NotifyPizzaUpdated t r))"
    "e \<in> set (rs_rows L E [enrichPizzaUpdated L output] (rs_ID r) (rs_events (NotifyPizzaUpdated t r))) \<Longrightarrow>
      ob_AggregateID e = rs_ID r \<and> ob_EventName e = ''restaurant.pizza_updated''"
  using assms by (auto intro!: calm_dispatch simp: notify_pizza_simps rs_integration_def split: if_splits)

lemma UpdatePizza_good:
  assumes inv: "rs_inv L s" and L: "uuid_codec L"
  shows "good L (UpdatePizza_Execute L E i pid own input s)"
  unfolding UpdatePizza_Execute_def Let_def
proof (rule good_owned [OF inv], rule good_owned_pizza [OF inv], rule good_query [OF inv], simp,
    rule good_query [OF inv], simp split: option.split, rule good_query [OF inv], simp,
    rule good_query [OF inv], simp, rule good_query [OF inv], simp)
  fix r and p0 p :: Pizza_rs and tops ids sizes and prices :: "'a PizzaPrice_rs list"
  assume r: "r \<in> set (rd_restaurants s)" and p0: "p0 \<in> set (rd_pizzas s)" "rz_ID p0 = pid" "rz_RestaurantID p0 = i"
  let ?p1 = "WithDetails (czr_Name input) (czr_Image input) (given (rz_IsVegetarian p0) (czr_IsVegetarian input))
      (given (rz_Status p0) (czr_Status input)) (czr_SortOrder input) p0"
  assume sel: "(case czr_ToppingIDs input of None \<Rightarrow> Inr ?p1
      | Some ids \<Rightarrow> select_toppings L ids (index_by tg_ID tops) ?p1) = Inr p"
    and ids: "ToppingIDs L p = Inr ids"
  have "\<exists>ids. ToppingIDs L p0 = Inr ids \<and> distinct ids" using menu_invD(2) [of L s p0] inv p0(1) by (simp add: rs_inv_def)
  then have p: "rz_ID p = rz_ID p0 \<and> distinct ids"
    using sel ids select_toppings_ok [OF L] ToppingIDs_cong [of ?p1 p0 L] by (fastforce split: option.splits)
  let ?out = "\<lambda>p'. ToPizzaResponse p' prices (index_by sz_ID sizes) ids (index_by tg_ID tops) Map.empty"
  let ?body = "bind (Pizza_Update E p) (\<lambda>p'. bind (rs_DispatchEventsTx L E [enrichPizzaUpdated L (?out p')]
      (NotifyPizzaUpdated (re_clock E) r)) (\<lambda>_. ret (?out p')))"
  have ev: "rs_events r = []" using row_in [OF inv r] by simp
  have out: "pzr_UpdatedAt (?out p') \<noteq> None" if "Pizza_Update E p s1 = (Inr p', s2)" for p' s1 s2
    using Pizza_Update_Inr [OF that] by (simp add: ToPizzaResponse_def)
  show "good L (transaction (re_fault E) RsCommit ?body s)"
  proof (rule good_transaction_last [OF inv])
    have "calm ?body"
      by (intro calm_bind) (simp_all, rule pizza_message_event(1) [OF ev], erule out)
    then show "no_panic (fst (?body s))" by (simp add: calm_def)
  next
    fix x s1 assume "?body s = (Inr x, s1)"
    then obtain p' s2 r' where s2: "Pizza_Update E p s = (Inr p', s2)"
        "rs_DispatchEventsTx L E [enrichPizzaUpdated L (?out p')] (NotifyPizzaUpdated (re_clock E) r) s2 = (Inr r', s1)"
      by (auto simp: bind_Inr)
    note up = Pizza_Update_Inr [OF s2(1)]
    note dp = rs_DispatchEventsTx_Inr [OF s2(2)]
    have "menu_inv L (s\<lparr> rd_pizzas := save_row rz_ID p' (rd_pizzas s), rd_prices := rd_prices s \<rparr>)"
      by (rule menu_inv_save_pizza [of L s p0 p' ids])
        (use inv up p p0 ids in \<open>auto simp: rs_inv_def menu_inv_def ToppingIDs_def\<close>)
    then have menu: "menu_inv L s1" by (rule rs_inv_menu_frame) (use up dp in simp_all)
    show "rs_inv L s1"
    proof (rule rs_inv_menu_change [where tr = "re_trace E", OF inv menu])
      show "rd_restaurants s1 = rd_restaurants s" "rd_payouts s1 = rd_payouts s" using up dp by simp_all
      show "rd_outbox s1 = fold (outbox_Create (re_trace E)) (rs_rows L E [enrichPizzaUpdated L (?out p')]
          (rs_ID r) (rs_events (NotifyPizzaUpdated (re_clock E) r))) (rd_outbox s)"
        using up dp by (simp add: notify_pizza_simps)
      show "\<forall>e \<in> set (rs_rows L E [enrichPizzaUpdated L (?out p')] (rs_ID r) (rs_events (NotifyPizzaUpdated (re_clock E) r))).
          ob_AggregateID e \<in> rs_ID ` set (rd_restaurants s) \<and> ob_EventName e \<notin> milestone_names"
        using pizza_message_event(2) [OF ev out [OF s2(1)], of _ L E] r by (fastforce simp: milestone_names_def)
    qed
  qed
qed

lemma upsert_rp_key: "distinct (List.map rp_key tbl) \<Longrightarrow> distinct (List.map rp_key (upsert_rp p tbl))"
proof -
  have "List.map rp_key (update_where (\<lambda>x. rp_key x = rp_key p) (\<lambda>x. x\<lparr> rp_Price := rp_Price p,
      rp_IsActive := rp_IsActive p, rp_UpdatedAt := rp_UpdatedAt p \<rparr>) tbl) = List.map rp_key tbl"
    by (rule map_key_update) (simp add: rp_key_def)
  then show "distinct (List.map rp_key tbl) \<Longrightarrow> ?thesis" by (auto simp: upsert_rp_def find_row_None_image)
qed

lemma fold_upsert_rp_key: "distinct (List.map rp_key tbl) \<Longrightarrow> distinct (List.map rp_key (fold upsert_rp ps tbl))"
  by (induction ps arbitrary: tbl) (simp_all add: upsert_rp_key)

lemma upsert_rp_rows: "x \<in> set (upsert_rp p tbl) \<Longrightarrow> x \<in> set tbl \<or> rp_key x = rp_key p"
  by (auto simp: upsert_rp_def set_update_where rp_key_def split: if_splits)

lemma fold_upsert_rp_rows:
  "x \<in> set (fold upsert_rp ps tbl) \<Longrightarrow> x \<in> set tbl \<or> (\<exists>p \<in> set ps. rp_key x = rp_key p)"
  by (induction ps arbitrary: tbl) (auto dest: upsert_rp_rows)

lemma new_prices_rows:
  "new_prices E pid sizes n seen input = Inr ps \<Longrightarrow>
    List.map rp_SizeID ps = List.map fst input \<and> List.map rp_Price ps = List.map snd input \<and>
    (\<forall>p \<in> set ps. rp_PizzaID p = pid \<and> rp_IsActive p \<and> rp_CreatedAt p = zero_time) \<and>
    distinct (List.map fst input) \<and> set (List.map fst input) \<inter> set seen = {}"
proof (induction input arbitrary: n seen ps)
  case Nil
  then show ?case by simp
next
  case (Cons x input)
  obtain size price where x: "x = (size, price)" by fastforce
  obtain p rest where p: "NewPizzaPrice (re_newV7 E n) pid size price = Inr p"
      "new_prices E pid sizes (Suc n) (size # seen) input = Inr rest" "ps = p # rest" "size \<notin> set seen"
    using Cons.prems x by (auto split: if_splits sum.splits)
  have "rp_PizzaID p = pid \<and> rp_IsActive p \<and> rp_CreatedAt p = zero_time \<and> rp_SizeID p = size \<and> rp_Price p = price"
    using p(1) by (auto simp: NewPizzaPrice_def split: option.splits)
  then show ?case using Cons.IH [OF p(2)] p x by auto
qed

lemma no_panic_new_prices [simp]: "no_panic (new_prices E pid sizes n seen input)"
proof (induction input arbitrary: n seen)
  case Nil
  then show ?case by simp
next
  case (Cons x input)
  obtain size price where x: "x = (size, price)" by fastforce
  show ?case using Cons.IH [of "Suc n" "size # seen"]
    by (simp add: x NewPizzaPrice_def no_panic_def split: option.split sum.splits)
qed

lemma ReplacePrices_Inr:
  assumes "ReplacePrices E pid ps s = (Inr u, s')"
  obtains stamped where "List.map rp_key stamped = List.map rp_key ps"
    "stamped = List.map (\<lambda>p. p\<lparr> rp_CreatedAt := created E (rp_CreatedAt p), rp_UpdatedAt := Some (re_clock E) \<rparr>) ps"
    "s' = s\<lparr> rd_prices := update_where (\<lambda>p. rp_PizzaID p = pid \<and> rp_SizeID p \<notin> set (List.map rp_SizeID ps))
       (\<lambda>p. p\<lparr> rp_IsActive := False, rp_UpdatedAt := Some (re_clock E) \<rparr>) (fold upsert_rp stamped (rd_prices s)) \<rparr>"
    "list_all (rp_row_ok s) stamped"
proof -
  let ?st = "List.map (\<lambda>p. p\<lparr> rp_CreatedAt := created E (rp_CreatedAt p), rp_UpdatedAt := Some (re_clock E) \<rparr>) ps"
  have "List.map rp_key ?st = List.map rp_key ps" "List.map rp_SizeID ?st = List.map rp_SizeID ps"
    by (simp_all add: rp_key_def)
  then show ?thesis using assms that [of ?st] unfolding ReplacePrices_def Let_def by (auto split: if_splits)
qed

lemma SetPizzaPrices_good:
  assumes inv: "rs_inv L s"
  shows "good L (SetPizzaPrices_Execute L E i pid own input s)"
  unfolding SetPizzaPrices_Execute_def Let_def
proof (rule good_owned [OF inv], rule good_owned_pizza [OF inv], rule good_query [OF inv], simp,
    rule good_query [OF inv], simp, rule good_query [OF inv], simp, rule good_query [OF inv], simp)
  fix r p sizes and ps :: "'a PizzaPrice_rs list" and ids tops
  assume r: "r \<in> set (rd_restaurants s)" and p: "p \<in> set (rd_pizzas s)" "rz_ID p = pid"
    and ps: "new_prices E pid (index_by sz_ID sizes) 0 [] input = Inr ps" and ids: "ToppingIDs L p = Inr ids"
  let ?out = "\<lambda>p' updated. ToPizzaResponse p' updated (index_by sz_ID sizes) ids (index_by tg_ID tops) Map.empty"
  let ?body = "bind (ReplacePrices E pid ps) (\<lambda>_. bind (Pizza_Update E p) (\<lambda>p'.
      bind (query (rs_ListByPizza E 0 pid)) (\<lambda>updated. bind (rs_DispatchEventsTx L E
        [enrichPizzaUpdated L (?out p' updated)] (NotifyPizzaUpdated (re_clock E) r)) (\<lambda>_. ret (?out p' updated)))))"
  have ev: "rs_events r = []" using row_in [OF inv r] by simp
  have out: "pzr_UpdatedAt (?out p' updated) \<noteq> None" if "Pizza_Update E p s1 = (Inr p', s2)" for p' s1 s2 updated
    using Pizza_Update_Inr [OF that] by (simp add: ToPizzaResponse_def)
  show "good L (transaction (re_fault E) RsCommit ?body s)"
  proof (rule good_transaction_last [OF inv])
    have "calm ?body"
      by (intro calm_bind) (simp_all, rule pizza_message_event(1) [OF ev], erule out)
    then show "no_panic (fst (?body s))" by (simp add: calm_def)
  next
    fix x s1 assume "?body s = (Inr x, s1)"
    then obtain s2 p' s3 updated r' where s2: "ReplacePrices E pid ps s = (Inr (), s2)" "Pizza_Update E p s2 = (Inr p', s3)"
        "rs_DispatchEventsTx L E [enrichPizzaUpdated L (?out p' updated)] (NotifyPizzaUpdated (re_clock E) r) s3 = (Inr r', s1)"
      by (auto simp: bind_Inr simp del: bind_simps)
    from s2(1) obtain stamped where st: "List.map rp_key stamped = List.map rp_key ps"
      "s2 = s\<lparr> rd_prices := update_where (\<lambda>p. rp_PizzaID p = pid \<and> rp_SizeID p \<notin> set (List.map rp_SizeID ps))
         (\<lambda>p. p\<lparr> rp_IsActive := False, rp_UpdatedAt := Some (re_clock E) \<rparr>) (fold upsert_rp stamped (rd_prices s)) \<rparr>"
      by (rule ReplacePrices_Inr)
    note up = Pizza_Update_Inr [OF s2(2)]
    note dp = rs_DispatchEventsTx_Inr [OF s2(3)]
    have m: "menu_inv L s" using inv by (simp add: rs_inv_def)
    have "\<exists>q \<in> set ps. rp_key x = rp_key q" if "\<exists>q \<in> set stamped. rp_key x = rp_key q" for x
      using that arg_cong [OF st(1), of set] by (metis (no_types, lifting) imageE imageI list.set_map)
    then have old: "rp_PizzaID x = pid \<or> x \<in> set (rd_prices s)" if "x \<in> set (fold upsert_rp stamped (rd_prices s))" for x
      using fold_upsert_rp_rows [OF that] new_prices_rows [OF ps] by (fastforce simp: rp_key_def)
    have "distinct (List.map rp_key (rd_prices s2))"
    proof -
      have "List.map rp_key (rd_prices s2) = List.map rp_key (fold upsert_rp stamped (rd_prices s))"
        unfolding st(2) by simp (rule map_key_update, simp add: rp_key_def)
      then show ?thesis using fold_upsert_rp_key [of "rd_prices s" stamped] m by (simp add: menu_inv_def)
    qed
    moreover have "\<forall>x \<in> set (rd_prices s2). rp_IsActive x \<longrightarrow> rp_PizzaID x = rz_ID p' \<or> x \<in> set (rd_prices s)"
      using old up p(2) by (auto simp: st(2) set_update_where split: if_splits)
    ultimately have "menu_inv L (s\<lparr> rd_pizzas := save_row rz_ID p' (rd_pizzas s), rd_prices := rd_prices s2 \<rparr>)"
      by (intro menu_inv_save_pizza [OF m p(1), of p' ids])
        (use up ids menu_invD(2) [OF m p(1)] in \<open>auto simp: ToppingIDs_def\<close>)
    then have menu: "menu_inv L s1" by (rule rs_inv_menu_frame) (use up dp st(2) in simp_all)
    show "rs_inv L s1"
    proof (rule rs_inv_menu_change [where tr = "re_trace E", OF inv menu])
      show "rd_restaurants s1 = rd_restaurants s" "rd_payouts s1 = rd_payouts s" using up dp st(2) by simp_all
      show "rd_outbox s1 = fold (outbox_Create (re_trace E)) (rs_rows L E [enrichPizzaUpdated L (?out p' updated)]
          (rs_ID r) (rs_events (NotifyPizzaUpdated (re_clock E) r))) (rd_outbox s)"
        using up dp st(2) by (simp add: notify_pizza_simps)
      show "\<forall>e \<in> set (rs_rows L E [enrichPizzaUpdated L (?out p' updated)] (rs_ID r) (rs_events (NotifyPizzaUpdated (re_clock E) r))).
          ob_AggregateID e \<in> rs_ID ` set (rd_restaurants s) \<and> ob_EventName e \<notin> milestone_names"
        using pizza_message_event(2) [OF ev out [OF s2(2)], of _ L E] r by (fastforce simp: milestone_names_def)
    qed
  qed
qed

subsection \<open>Topping prices\<close>

definition in_topping_range :: "'d::linordered_idom ToppingPrice_rs \<Rightarrow> bool" where
  "in_topping_range p \<longleftrightarrow> 1 \<le> rt_ExtraPrice p \<and> rt_ExtraPrice p \<le> 3"

lemma upsert_rt_key: "distinct (List.map rt_key tbl) \<Longrightarrow> distinct (List.map rt_key (upsert_rt p tbl))"
proof -
  have "List.map rt_key (update_where (\<lambda>x. rt_key x = rt_key p) (\<lambda>x. x\<lparr> rt_ExtraPrice := rt_ExtraPrice p,
      rt_UpdatedAt := rt_UpdatedAt p \<rparr>) tbl) = List.map rt_key tbl"
    by (rule map_key_update) (simp add: rt_key_def)
  then show "distinct (List.map rt_key tbl) \<Longrightarrow> ?thesis" by (auto simp: upsert_rt_def find_row_None_image)
qed

lemma fold_upsert_rt_key: "distinct (List.map rt_key tbl) \<Longrightarrow> distinct (List.map rt_key (fold upsert_rt ps tbl))"
  by (induction ps arbitrary: tbl) (simp_all add: upsert_rt_key)

lemma upsert_rt_range:
  "\<forall>x \<in> set tbl. in_topping_range x \<Longrightarrow> in_topping_range p \<Longrightarrow> \<forall>x \<in> set (upsert_rt p tbl). in_topping_range x"
  by (auto simp: upsert_rt_def set_update_where in_topping_range_def)

lemma fold_upsert_rt_range:
  "\<forall>x \<in> set tbl. in_topping_range x \<Longrightarrow> \<forall>p \<in> set ps. in_topping_range p \<Longrightarrow>
    \<forall>x \<in> set (fold upsert_rt ps tbl). in_topping_range x"
proof (induction ps arbitrary: tbl)
  case (Cons p ps)
  have "\<forall>x \<in> set (upsert_rt p tbl). in_topping_range x" using Cons.prems by (intro upsert_rt_range) auto
  then show ?case using Cons.IH Cons.prems(2) by simp
qed simp

lemma new_topping_prices_rows:
  "new_topping_prices E i tops n seen input = Inr ps \<Longrightarrow>
    List.map (\<lambda>p. (rt_ToppingID p, rt_ExtraPrice p)) ps = input \<and>
    (\<forall>p \<in> set ps. rt_RestaurantID p = i \<and> in_topping_range p \<and> rt_CreatedAt p = zero_time) \<and>
    distinct (List.map fst input) \<and> set (List.map fst input) \<inter> set seen = {}"
proof (induction input arbitrary: n seen ps)
  case Nil
  then show ?case by simp
next
  case (Cons x input)
  obtain t price where x: "x = (t, price)" by fastforce
  obtain p rest where p: "NewToppingPrice (re_newV7 E n) i t price = Inr p"
      "new_topping_prices E i tops (Suc n) (t # seen) input = Inr rest" "ps = p # rest" "t \<notin> set seen"
      "1 \<le> price" "price \<le> 3"
    using Cons.prems x by (auto split: if_splits sum.splits)
  have "rt_RestaurantID p = i \<and> rt_CreatedAt p = zero_time \<and> rt_ToppingID p = t \<and> rt_ExtraPrice p = price"
    using p(1) by (auto simp: NewToppingPrice_def split: option.splits)
  then show ?case using Cons.IH [OF p(2)] p x by (auto simp: in_topping_range_def)
qed

lemma no_panic_new_topping_prices [simp]: "no_panic (new_topping_prices E i tops n seen input)"
proof (induction input arbitrary: n seen)
  case Nil
  then show ?case by simp
next
  case (Cons x input)
  obtain t price where x: "x = (t, price)" by fastforce
  show ?case using Cons.IH [of "Suc n" "t # seen"]
    by (simp add: x NewToppingPrice_def no_panic_def split: option.split sum.splits)
qed

lemma UpsertPrices_Inr:
  "UpsertPrices E ps s = (Inr qs, s') \<Longrightarrow>
    qs = List.map (\<lambda>p. p\<lparr> rt_CreatedAt := created E (rt_CreatedAt p), rt_UpdatedAt := Some (re_clock E) \<rparr>) ps \<and>
    s' = s\<lparr> rd_topping_prices := fold upsert_rt qs (rd_topping_prices s) \<rparr>"
  by (auto simp: UpsertPrices_def Let_def split: if_splits)

lemma topping_event:
  assumes "rs_events r = []"
  shows "calm (rs_DispatchEventsTx L E [enrichToppingPricesUpdated L ts u] (NotifyToppingPricesUpdated t r))"
    "e \<in> set (rs_rows L E [enrichToppingPricesUpdated L ts u] (rs_ID r) (rs_events (NotifyToppingPricesUpdated t r))) \<Longrightarrow>
      ob_AggregateID e = rs_ID r \<and> ob_EventName e = ''restaurant.topping_prices_updated''"
  using assms by (auto intro!: calm_dispatch simp: notify_pizza_simps rs_integration_def split: if_splits)

lemma SetToppingPrices_good:
  assumes inv: "rs_inv L s" and input: "input \<noteq> []"
  shows "good L (SetToppingPrices_Execute L E i own input s)"
  unfolding SetToppingPrices_Execute_def Let_def
proof (rule good_owned [OF inv], rule good_query [OF inv], simp, rule good_query [OF inv], simp)
  fix r and tops and ps :: "'a ToppingPrice_rs list"
  assume r: "r \<in> set (rd_restaurants s)" and ps: "new_topping_prices E i (index_by tg_ID tops) 0 [] input = Inr ps"
  let ?resp = "topping_price_responses (index_by tg_ID tops)"
  let ?send = "\<lambda>updated prices. case prices of [] \<Rightarrow> fail [RsPanic]
      | price # _ \<Rightarrow> (case rt_UpdatedAt price of None \<Rightarrow> fail [RsPanic]
        | Some u \<Rightarrow> bind (rs_DispatchEventsTx L E [enrichToppingPricesUpdated L (?resp updated) u]
            (NotifyToppingPricesUpdated (re_clock E) r)) (\<lambda>_. ret (?resp updated)))"
  let ?body = "bind (UpsertPrices E ps) (\<lambda>prices. bind (query (rt_ListByRestaurant E i)) (\<lambda>updated. ?send updated prices))"
  have ev: "rs_events r = []" using row_in [OF inv r] by simp
  have ne: "ps \<noteq> []" using new_topping_prices_rows [OF ps] input by auto
  have first: "\<exists>q rest. qs = q # rest \<and> rt_UpdatedAt q = Some (re_clock E)" if "UpsertPrices E ps s1 = (Inr qs, s2)" for qs s1 s2
    using UpsertPrices_Inr [OF that] ne by (cases ps) auto
  show "good L (transaction (re_fault E) RsCommit ?body s)"
  proof (rule good_transaction_last [OF inv])
    have send: "calm (?send updated qs)" if "UpsertPrices E ps s1 = (Inr qs, s2)" for updated qs s1 s2
    proof -
      obtain q rest where "qs = q # rest" "rt_UpdatedAt q = Some (re_clock E)" using first [OF \<open>UpsertPrices E ps s1 = (Inr qs, s2)\<close>] by blast
      then show ?thesis by (auto intro!: calm_bind topping_event(1) [OF ev])
    qed
    have "calm ?body" by (intro calm_bind, simp, simp, rule send)
    then show "no_panic (fst (?body s))" by (simp add: calm_def)
  next
    fix x s1 assume "?body s = (Inr x, s1)"
    then obtain qs s2 updated where s2: "UpsertPrices E ps s = (Inr qs, s2)" "?send updated qs s2 = (Inr x, s1)"
      by (auto simp: bind_Inr simp del: bind_simps)
    note up = UpsertPrices_Inr [OF s2(1)]
    obtain q rest where q: "qs = q # rest" "rt_UpdatedAt q = Some (re_clock E)" using first [OF s2(1)] by blast
    let ?encs = "[enrichToppingPricesUpdated L (?resp updated) (re_clock E)]"
    obtain r' where "rs_DispatchEventsTx L E ?encs (NotifyToppingPricesUpdated (re_clock E) r) s2 = (Inr r', s1)"
      using s2(2) q by (auto simp: bind_Inr)
    note dp = rs_DispatchEventsTx_Inr [OF this]
    have m: "menu_inv L s" using inv by (simp add: rs_inv_def)
    have rows: "rd_topping_prices s1 = fold upsert_rt qs (rd_topping_prices s)" using up dp by simp
    have "\<forall>p \<in> set qs. in_topping_range p" using new_topping_prices_rows [OF ps] up by (auto simp: in_topping_range_def)
    moreover have "\<forall>x \<in> set (rd_topping_prices s). in_topping_range x" using m by (simp add: menu_inv_def in_topping_range_def)
    ultimately have "\<forall>x \<in> set (rd_topping_prices s1). in_topping_range x" unfolding rows by (intro fold_upsert_rt_range)
    moreover have "distinct (List.map rt_key (rd_topping_prices s1))"
      unfolding rows by (rule fold_upsert_rt_key) (use m in \<open>simp add: menu_inv_def\<close>)
    moreover have "rd_pizzas s1 = rd_pizzas s" "rd_prices s1 = rd_prices s" using up dp by simp_all
    ultimately have menu: "menu_inv L s1" using m by (simp add: menu_inv_def in_topping_range_def)
    show "rs_inv L s1"
    proof (rule rs_inv_menu_change [where tr = "re_trace E", OF inv menu])
      show "rd_restaurants s1 = rd_restaurants s" "rd_payouts s1 = rd_payouts s" using up dp by simp_all
      show "rd_outbox s1 = fold (outbox_Create (re_trace E)) (rs_rows L E ?encs (rs_ID r)
          (rs_events (NotifyToppingPricesUpdated (re_clock E) r))) (rd_outbox s)"
        using up dp by (simp add: notify_pizza_simps)
      show "\<forall>e \<in> set (rs_rows L E ?encs (rs_ID r) (rs_events (NotifyToppingPricesUpdated (re_clock E) r))).
          ob_AggregateID e \<in> rs_ID ` set (rd_restaurants s) \<and> ob_EventName e \<notin> milestone_names"
        using topping_event(2) [OF ev, of _ L E] r by (fastforce simp: milestone_names_def)
    qed
  qed
qed

subsection \<open>The running service\<close>

text \<open>
  Every request of the API and every inbound message. A request has passed the validation of its binding, which
  requires an email and a phone number in \<open>UpdateContact\<close>, a street in \<open>UpdateAddress\<close> and at least one price in the
  two lists of prices.
\<close>

datatype 'd rs_request =
    RqAddress uuid uuid UpdateAddressRequest
  | RqContact uuid uuid UpdateContactRequest
  | RqDelivery uuid uuid "'d UpdateDeliveryRequest"
  | RqOpeningHours uuid uuid OpeningHours
  | RqTags uuid uuid "string list option"
  | RqCreatePayout uuid uuid CreatePayoutRequest
  | RqUpdatePayout uuid uuid CreatePayoutRequest
  | RqApprove uuid
  | RqLaunch uuid uuid
  | RqCreatePizza uuid uuid CreatePizzaRequest
  | RqUpdatePizza uuid uuid uuid CreatePizzaRequest
  | RqPizzaPrices uuid uuid uuid "(uuid \<times> 'd) list"
  | RqToppingPrices uuid uuid "(uuid \<times> 'd) list"
  | RqGetRestaurant uuid uuid
  | RqListPizzas uuid uuid
  | RqLaunchReadiness uuid uuid
  | RqMessage string "json option"

fun rs_run ::
  "'d::linordered_idom lib \<Rightarrow> (string \<Rightarrow> string) \<Rightarrow> rs_geocoder \<Rightarrow> rs_env \<Rightarrow> 'd rs_request \<Rightarrow> ('d, unit) rs_op" where
  "rs_run L goslug geocoder E (RqAddress i own input) = void (UpdateAddress_Execute L goslug geocoder E i own input)"
| "rs_run L goslug geocoder E (RqContact i own input) = void (UpdateContact_Execute L E i own input)"
| "rs_run L goslug geocoder E (RqDelivery i own input) = void (UpdateDelivery_Execute L E i own input)"
| "rs_run L goslug geocoder E (RqOpeningHours i own input) = void (UpdateOpeningHours_Execute L E i own input)"
| "rs_run L goslug geocoder E (RqTags i own input) = void (UpdateTags_Execute L E i own input)"
| "rs_run L goslug geocoder E (RqCreatePayout i own input) = void (CreatePayout_Execute L E i own input)"
| "rs_run L goslug geocoder E (RqUpdatePayout i own input) = void (UpdatePayout_Execute E i own input)"
| "rs_run L goslug geocoder E (RqApprove i) = void (ApproveRestaurant_Execute L E i)"
| "rs_run L goslug geocoder E (RqLaunch i own) = void (LaunchRestaurant_Execute L E i own)"
| "rs_run L goslug geocoder E (RqCreatePizza i own input) = void (CreatePizza_Execute L E i own input)"
| "rs_run L goslug geocoder E (RqUpdatePizza i p own input) = void (UpdatePizza_Execute L E i p own input)"
| "rs_run L goslug geocoder E (RqPizzaPrices i p own input) = void (SetPizzaPrices_Execute L E i p own input)"
| "rs_run L goslug geocoder E (RqToppingPrices i own input) = void (SetToppingPrices_Execute L E i own input)"
| "rs_run L goslug geocoder E (RqGetRestaurant i own) = void (GetRestaurant_Execute L E i own)"
| "rs_run L goslug geocoder E (RqListPizzas i own) = void (ListPizzas_Execute L E i own)"
| "rs_run L goslug geocoder E (RqLaunchReadiness i own) = void (GetLaunchReadiness_Execute L E i own)"
| "rs_run L goslug geocoder E (RqMessage name body) = rs_Dispatch L name E body"

fun rs_valid :: "'d rs_request \<Rightarrow> bool" where
  "rs_valid (RqAddress i own input) = (uar_Street input \<noteq> '''')"
| "rs_valid (RqContact i own input) = (ucr_Email input \<noteq> None \<and> ucr_Phone input \<noteq> None)"
| "rs_valid (RqPizzaPrices i p own input) = (input \<noteq> [])"
| "rs_valid (RqToppingPrices i own input) = (input \<noteq> [])"
| "rs_valid _ = True"

text \<open>
  The states that requests and messages reach one after another: each is finished before the next begins, with or without
  success. \<open>Restaurant_Props.approval_lost\<close> is about two that overlap.
\<close>

inductive rs_reach ::
  "'d::linordered_idom lib \<Rightarrow> (string \<Rightarrow> string) \<Rightarrow> rs_geocoder \<Rightarrow> 'd rs_db \<Rightarrow> bool"
  for L goslug geocoder where
  start: "rd_restaurants s = [] \<Longrightarrow> rd_payouts s = [] \<Longrightarrow> rd_pizzas s = [] \<Longrightarrow> rd_prices s = [] \<Longrightarrow>
    rd_topping_prices s = [] \<Longrightarrow> ob_rows (rd_outbox s) = [] \<Longrightarrow> rs_reach L goslug geocoder s"
| request: "rs_reach L goslug geocoder s \<Longrightarrow> rs_valid rq \<Longrightarrow>
    rs_reach L goslug geocoder (snd (rs_run L goslug geocoder E rq s))"

lemma good_void: "good L (m s) \<Longrightarrow> good L (void m s)"
  by (cases "m s"; cases "fst (m s)") (auto simp: void_def bind_step ret_def)

lemma good_of: "(\<And>res s'. m s = (res, s') \<Longrightarrow> rs_inv L s' \<and> no_panic res) \<Longrightarrow> good L (m s)"
  by (cases "m s") simp

lemma good_void_of: "(\<And>res s'. m s = (res, s') \<Longrightarrow> rs_inv L s' \<and> no_panic res) \<Longrightarrow> good L (void m s)"
  by (rule good_void, rule good_of)

lemma rs_run_good:
  assumes inv: "rs_inv L s" and "rs_valid rq" "geocoder_returns geocoder" "uuid_codec L"
  shows "good L (rs_run L goslug geocoder E rq s)"
proof (cases rq)
  case (RqAddress i own input)
  then show ?thesis using assms UpdateAddress_keeps [OF _ inv] by (auto intro!: good_void_of)
next
  case (RqContact i own input)
  then show ?thesis using assms UpdateContact_keeps [OF _ inv] by (auto intro!: good_void_of)
next
  case (RqDelivery i own input)
  then show ?thesis using UpdateDelivery_keeps [OF _ inv] by (auto intro!: good_void_of)
next
  case (RqOpeningHours i own input)
  then show ?thesis using UpdateOpeningHours_keeps [OF _ inv] by (auto intro!: good_void_of)
next
  case (RqTags i own input)
  then show ?thesis using UpdateTags_keeps [OF _ inv] by (auto intro!: good_void_of)
next
  case (RqCreatePayout i own input)
  then show ?thesis using CreatePayout_good [OF inv] by (simp add: good_void)
next
  case (RqUpdatePayout i own input)
  then show ?thesis using UpdatePayout_good [OF inv] by (simp add: good_void)
next
  case (RqApprove i)
  then show ?thesis using Approve_good [OF inv] by (simp add: good_void)
next
  case (RqLaunch i own)
  then show ?thesis using Launch_good [OF inv] by (simp add: good_void)
next
  case (RqCreatePizza i own input)
  then show ?thesis using CreatePizza_good [OF inv assms(4)] by (simp add: good_void)
next
  case (RqUpdatePizza i p own input)
  then show ?thesis using UpdatePizza_good [OF inv assms(4)] by (simp add: good_void)
next
  case (RqPizzaPrices i p own input)
  then show ?thesis using SetPizzaPrices_good [OF inv] by (simp add: good_void)
next
  case (RqToppingPrices i own input)
  then show ?thesis using SetToppingPrices_good [OF inv] assms(2) by (simp add: good_void)
next
  case (RqGetRestaurant i own)
  have "good L (GetRestaurant_Execute L E i own s)"
    unfolding GetRestaurant_Execute_def
    by (rule good_owned [OF inv], rule good_query [OF inv], simp, rule good_catalog [OF inv]) (simp add: inv)
  then show ?thesis using RqGetRestaurant by (simp add: good_void)
next
  case (RqListPizzas i own)
  have "good L (bind (PizzaCatalog_Execute L E i) ret s)" by (rule good_catalog [OF inv]) (simp add: inv)
  then have "good L (ListPizzas_Execute L E i own s)"
    unfolding ListPizzas_Execute_def bind_ret by (intro good_owned [OF inv])
  then show ?thesis using RqListPizzas by (simp add: good_void)
next
  case (RqLaunchReadiness i own)
  have "good L (GetLaunchReadiness_Execute L E i own s)"
    unfolding GetLaunchReadiness_Execute_def
    by (rule good_owned [OF inv], rule good_ensure [OF inv], simp, rule good_catalog [OF inv]) (simp add: inv)
  then show ?thesis using RqLaunchReadiness by (simp add: good_void)
next
  case (RqMessage name body)
  then show ?thesis using Initiated_good [OF inv] inv by (simp add: rs_Dispatch_def fail_def)
qed

lemma rs_inv_start:
  "rd_restaurants s = [] \<Longrightarrow> rd_payouts s = [] \<Longrightarrow> rd_pizzas s = [] \<Longrightarrow> rd_prices s = [] \<Longrightarrow>
    rd_topping_prices s = [] \<Longrightarrow> ob_rows (rd_outbox s) = [] \<Longrightarrow> rs_inv L s"
  by (simp add: rs_inv_def restaurants_inv_def payouts_inv_def milestones_inv_def menu_inv_def)

lemma rs_reach_inv:
  assumes "rs_reach L goslug geocoder s" "geocoder_returns geocoder" "uuid_codec L"
  shows "rs_inv L s"
  using assms
proof (induction rule: rs_reach.induct)
  case (start s)
  then show ?case by (simp add: rs_inv_start)
next
  case (request s rq E)
  then show ?case using rs_run_good [of L s rq geocoder goslug E] by (simp add: good_def)
qed

end
