(* ===== verification/Restaurant_Props.thy ===== *)
theory Restaurant_Props
  imports Restaurant_Reach
begin

text \<open>
  The properties of restaurant-service: the life of a restaurant from draft to launch, requests that do not panic,
  slugs, prices, ownership, and the approval that a concurrent update takes back.
\<close>

subsection \<open>Life of a restaurant\<close>

text \<open>
  C15. In every state that restaurant-service reaches by requests and messages that run one after another, whatever
  failed on the way: a restaurant is a draft exactly as long as its checklist has an open item; it has an active payout exactly once it is approved, and never two
  payouts of the same status; and the outbox holds one \<open>restaurant.ready_for_review\<close> for it exactly once it has left
  the draft, one \<open>restaurant.approved\<close> exactly once it is approved and one \<open>restaurant.launched\<close> exactly once it is
  active. (Overlapping requests can break this, see \<open>approval_lost\<close>.)
\<close>

theorem restaurant_lifecycle:
  assumes "rs_reach L goslug geocoder s" "geocoder_returns geocoder" "uuid_codec L" "r \<in> set (rd_restaurants s)"
  shows "rs_Status r \<in> {StatusDraft, StatusReview, StatusApproved, StatusActive} \<and>
    (rs_Status r = StatusDraft \<longleftrightarrow> \<not> IsCompleted (rs_Checklist r)) \<and>
    (has_payout (rs_ID r) PayoutActive (rd_payouts s) \<longleftrightarrow> rs_Status r \<in> {StatusApproved, StatusActive}) \<and>
    (\<forall>st. length (filter (payout_where (rs_ID r) st) (rd_payouts s)) \<le> 1) \<and>
    announced (rd_outbox s) (rs_ID r) ''restaurant.ready_for_review'' = of_bool (rs_Status r \<noteq> StatusDraft) \<and>
    announced (rd_outbox s) (rs_ID r) ''restaurant.approved'' = of_bool (rs_Status r \<in> {StatusApproved, StatusActive}) \<and>
    announced (rd_outbox s) (rs_ID r) ''restaurant.launched'' = of_bool (rs_Status r = StatusActive)"
proof -
  have inv: "rs_inv L s" by (rule rs_reach_inv [OF assms(1-3)])
  have core: "restaurant_core r" using rs_inv_row [OF inv assms(4)] by simp
  then have st: "rs_Status r \<in> {StatusDraft, StatusReview, StatusApproved, StatusActive}"
    and draft: "rs_Status r = StatusDraft \<longleftrightarrow> \<not> IsCompleted (rs_Checklist r)"
    unfolding restaurant_core_def by blast+
  have pay: "has_payout (rs_ID r) PayoutActive (rd_payouts s) \<longleftrightarrow> rs_Status r \<in> {StatusApproved, StatusActive}"
    "\<forall>st. length (filter (payout_where (rs_ID r) st) (rd_payouts s)) \<le> 1"
    using inv assms(4) unfolding rs_inv_def payouts_inv_def by blast+
  have "milestones_inv s" using inv by (simp add: rs_inv_def)
  then have ms: "announced (rd_outbox s) (rs_ID r) name = milestone (rs_Status r) name" if "name \<in> milestone_names" for name
    using assms(4) that unfolding milestones_alt by blast
  have "milestone (rs_Status r) ''restaurant.ready_for_review'' = of_bool (rs_Status r \<noteq> StatusDraft)"
    using st by (auto simp: milestone_def)
  then show ?thesis using st draft pay ms by (simp add: milestone_names_def milestone_def)
qed

text \<open>
  No request to restaurant-service makes it panic: the pointers that \<open>Approve\<close>, \<open>UpdateAddress\<close> and the
  payloads of the events follow, and the first element that \<open>SetToppingPrices\<close> takes, are there in every
  state reached by requests that run one after another, for every request that has passed the validation of its binding.
\<close>

theorem restaurant_requests_do_not_panic:
  assumes "rs_reach L goslug geocoder s" "geocoder_returns geocoder" "uuid_codec L" "rs_valid rq"
    and "fst (rs_run L goslug geocoder E rq s) = Inl e"
  shows "RsPanic \<notin> set e"
  using rs_run_good [OF rs_reach_inv [OF assms(1-3)] assms(4,2,3), of goslug E] assms(5) by (simp add: good_def)

subsection \<open>Slugs\<close>

lemma try_slugs_Inr:
  "try_slugs E i n slugs s = Inr slug \<Longrightarrow> \<exists>k < length slugs. slug = slugs ! k \<and>
    (\<forall>j < k. \<exists>r \<in> set (rd_restaurants s). rs_ID r \<noteq> i \<and> rs_Slug r = Some (slugs ! j))"
proof (induction slugs arbitrary: n)
  case Nil
  then show ?case by simp
next
  case (Cons x slugs)
  from Cons.prems consider (here) "slug = x"
    | (later) r where "r \<in> set (rd_restaurants s)" "rs_ID r \<noteq> i" "rs_Slug r = Some x" "try_slugs E i (Suc n) slugs s = Inr slug"
    by (auto simp: FindBySlug_def take_restaurant_def slug_free_def split: sum.splits option.splits if_splits dest: find_in)
  then show ?case
  proof cases
    case here
    then show ?thesis by (intro exI [of _ 0]) simp
  next
    case later
    from Cons.IH [OF later(4)] obtain k where k: "k < length slugs" "slug = slugs ! k"
      "\<forall>j < k. \<exists>r \<in> set (rd_restaurants s). rs_ID r \<noteq> i \<and> rs_Slug r = Some (slugs ! j)" by blast
    have "\<forall>j < Suc k. \<exists>r \<in> set (rd_restaurants s). rs_ID r \<noteq> i \<and> rs_Slug r = Some ((x # slugs) ! j)"
      using k(3) later(1-3) by (auto simp: less_Suc_eq_0_disj)
    then show ?thesis using k by (intro exI [of _ "Suc k"]) auto
  qed
qed

text \<open>A change of address that succeeds: where its slug comes from and what it leaves.\<close>

lemma UpdateAddress_Inr:
  assumes "UpdateAddress_Execute L goslug geocoder E i own input s = (Inr resp, s')"
  obtains r lat lon tz slug r1 where "r \<in> set (rd_restaurants s)" "rs_ID r = i" "rs_OwnerID r = own"
    "coordinates geocoder \<lparr> ra_House = uar_House input, ra_Street = uar_Street input,
       ra_PostalCode = uar_PostalCode input, ra_City = uar_City input \<rparr> r = Inr (lat, lon, tz)"
    "generateUniqueSlug goslug E i (rs_Name r) (uar_City input) (uar_Street input) s = Inr slug"
    "r1 = WithCoordinates lat lon tz (WithAddress \<lparr> ra_House = uar_House input, ra_Street = uar_Street input,
       ra_PostalCode = uar_PostalCode input, ra_City = uar_City input \<rparr> (WithSlug slug
         (NotifyUpdated (re_clock E) (CompleteChecklistItem (re_clock E) ChecklistAddress r))))"
    "s' = saved L E (\<lambda>r'. [enrichUpdated L r']) r1 s" "may_save E r1 s"
  using assms unfolding UpdateAddress_Execute_def
proof (cases rule: owned_cases)
  case (owner r)
  then obtain lat lon tz slug where c: "coordinates geocoder \<lparr> ra_House = uar_House input, ra_Street = uar_Street input,
       ra_PostalCode = uar_PostalCode input, ra_City = uar_City input \<rparr> r = Inr (lat, lon, tz)"
    "generateUniqueSlug goslug E i (rs_Name r) (uar_City input) (uar_Street input) s = Inr slug"
    "finish_update L E (WithCoordinates lat lon tz (WithAddress \<lparr> ra_House = uar_House input, ra_Street = uar_Street input,
       ra_PostalCode = uar_PostalCode input, ra_City = uar_City input \<rparr> (WithSlug slug
         (NotifyUpdated (re_clock E) (CompleteChecklistItem (re_clock E) ChecklistAddress r))))) s = (Inr resp, s')"
    by (auto simp: Let_def split: sum.splits prod.splits)
  have "s' = saved L E (\<lambda>r'. [enrichUpdated L r']) (WithCoordinates lat lon tz (WithAddress \<lparr> ra_House = uar_House input,
       ra_Street = uar_Street input, ra_PostalCode = uar_PostalCode input, ra_City = uar_City input \<rparr> (WithSlug slug
         (NotifyUpdated (re_clock E) (CompleteChecklistItem (re_clock E) ChecklistAddress r))))) s \<and>
    may_save E (WithCoordinates lat lon tz (WithAddress \<lparr> ra_House = uar_House input,
       ra_Street = uar_Street input, ra_PostalCode = uar_PostalCode input, ra_City = uar_City input \<rparr> (WithSlug slug
         (NotifyUpdated (re_clock E) (CompleteChecklistItem (re_clock E) ChecklistAddress r))))) s"
    using finish_update_cases [OF c(3)] by auto
  then show ?thesis using that owner(1-3) c(1,2) by blast
qed auto

text \<open>
  A change of address gives the restaurant the first of the nine slugs of its name, city and street (the slug
  itself, then extended by \<open>-2\<close> to \<open>-9\<close>) that no other restaurant has, and afterwards still no other restaurant has it.
\<close>

theorem address_slug:
  assumes "UpdateAddress_Execute L goslug geocoder E i own input s = (Inr resp, s')"
  shows "\<exists>r slug k. r \<in> set (rd_restaurants s) \<and> rs_ID r = i \<and> rs_OwnerID r = own \<and>
    k < 9 \<and> slug = slug_candidates (goslug (rs_Name r @ ''-'' @ uar_City input @ ''-'' @ uar_Street input)) ! k \<and>
    (\<forall>j < k. \<exists>x \<in> set (rd_restaurants s). rs_ID x \<noteq> i \<and>
       rs_Slug x = Some (slug_candidates (goslug (rs_Name r @ ''-'' @ uar_City input @ ''-'' @ uar_Street input)) ! j)) \<and>
    (\<exists>x \<in> set (rd_restaurants s'). rs_ID x = i \<and> rs_Slug x = Some slug) \<and>
    (\<forall>x \<in> set (rd_restaurants s'). rs_Slug x = Some slug \<longrightarrow> rs_ID x = i)"
  using assms
proof (rule UpdateAddress_Inr)
  fix r lat lon tz slug r1
  assume r: "r \<in> set (rd_restaurants s)" "rs_ID r = i" "rs_OwnerID r = own"
    and slug: "generateUniqueSlug goslug E i (rs_Name r) (uar_City input) (uar_Street input) s = Inr slug"
    and r1: "r1 = WithCoordinates lat lon tz (WithAddress \<lparr> ra_House = uar_House input, ra_Street = uar_Street input,
       ra_PostalCode = uar_PostalCode input, ra_City = uar_City input \<rparr> (WithSlug slug
         (NotifyUpdated (re_clock E) (CompleteChecklistItem (re_clock E) ChecklistAddress r))))"
    and s': "s' = saved L E (\<lambda>r'. [enrichUpdated L r']) r1 s" and ok: "may_save E r1 s"
  let ?c = "slug_candidates (goslug (rs_Name r @ ''-'' @ uar_City input @ ''-'' @ uar_Street input))"
  have fields: "rs_ID r1 = i" "rs_Slug r1 = Some slug" using r(2) r1 by (simp_all add: WithCoordinates_def WithAddress_def WithSlug_def)
  have len: "length ?c = 9" by (simp add: slug_candidates_def upto.simps)
  obtain k where k: "k < 9" "slug = ?c ! k"
    "\<forall>j < k. \<exists>x \<in> set (rd_restaurants s). rs_ID x \<noteq> i \<and> rs_Slug x = Some (?c ! j)"
    using try_slugs_Inr [of E i 0 ?c s slug] slug len unfolding generateUniqueSlug_def by auto
  have rows: "rd_restaurants s' = save_row rs_ID (stored_rs (stamp E r1)) (rd_restaurants s)"
    using s' by (simp add: saved_def)
  have "\<exists>x \<in> set (rd_restaurants s'). rs_ID x = i \<and> rs_Slug x = Some slug"
    unfolding rows using save_row_mem [of "stored_rs (stamp E r1)" rs_ID] fields
    by (intro bexI [of _ "stored_rs (stamp E r1)"]) simp_all
  moreover have "rs_ID x = i" if "x \<in> set (rd_restaurants s')" "rs_Slug x = Some slug" for x
  proof (rule ccontr)
    assume "rs_ID x \<noteq> i"
    then have "x \<in> set (rd_restaurants s)" using save_row_set [OF that(1) [unfolded rows]] fields by auto
    then show False using ok that(2) \<open>rs_ID x \<noteq> i\<close> fields
      by (auto simp: may_save_def restaurant_unique_def unique_in_def)
  qed
  ultimately show ?thesis using r k by blast
qed

subsection \<open>Prices\<close>

lemma find_upsert_rp:
  "find_row rp_key k (upsert_rp p tbl) = (if k = rp_key p then
     Some (case find_row rp_key k tbl of None \<Rightarrow> p
       | Some x \<Rightarrow> x\<lparr> rp_Price := rp_Price p, rp_IsActive := rp_IsActive p, rp_UpdatedAt := rp_UpdatedAt p \<rparr>)
   else find_row rp_key k tbl)"
proof (cases "find_row rp_key (rp_key p) tbl")
  case None
  then show ?thesis by (auto simp: upsert_rp_def split: option.split)
next
  case (Some x)
  let ?f = "\<lambda>x. x\<lparr> rp_Price := rp_Price p, rp_IsActive := rp_IsActive p, rp_UpdatedAt := rp_UpdatedAt p \<rparr>"
  have "find_row rp_key k (update_where (\<lambda>x. rp_key x = rp_key p) ?f tbl) =
      map_option (\<lambda>r. if rp_key r = rp_key p then ?f r else r) (find_row rp_key k tbl)"
    by (rule find_row_update_key) (simp add: rp_key_def)
  moreover have "map_option (\<lambda>r. if rp_key r = rp_key p then ?f r else r) (find_row rp_key k tbl) = find_row rp_key k tbl"
    if "k \<noteq> rp_key p"
    using that find_row_Some [of rp_key k tbl] by (cases "find_row rp_key k tbl") auto
  ultimately show ?thesis using Some by (auto simp: upsert_rp_def split: option.split dest: find_row_Some)
qed

lemma find_fold_upsert_rp_other:
  "k \<notin> rp_key ` set ps \<Longrightarrow> find_row rp_key k (fold upsert_rp ps tbl) = find_row rp_key k tbl"
  by (induction ps arbitrary: tbl) (auto simp: find_upsert_rp)

lemma find_fold_upsert_rp:
  "p \<in> set ps \<Longrightarrow> distinct (List.map rp_key ps) \<Longrightarrow> \<exists>x. find_row rp_key (rp_key p) (fold upsert_rp ps tbl) = Some x \<and>
    rp_Price x = rp_Price p \<and> rp_IsActive x = rp_IsActive p \<and> rp_UpdatedAt x = rp_UpdatedAt p"
proof (induction ps arbitrary: tbl)
  case Nil
  then show ?case by simp
next
  case (Cons q ps)
  show ?case
  proof (cases "p \<in> set ps")
    case True
    then show ?thesis using Cons.IH Cons.prems by simp
  next
    case False
    then have "p = q" "rp_key p \<notin> rp_key ` set ps" using Cons.prems by auto
    then show ?thesis by (auto simp: find_fold_upsert_rp_other find_upsert_rp split: option.split)
  qed
qed

lemma upsert_rp_filter: "rp_PizzaID p = pid \<Longrightarrow>
    filter (\<lambda>x. rp_PizzaID x \<noteq> pid) (upsert_rp p tbl) = filter (\<lambda>x. rp_PizzaID x \<noteq> pid) tbl"
proof -
  assume "rp_PizzaID p = pid"
  then have "filter (\<lambda>x. rp_PizzaID x \<noteq> pid) (update_where (\<lambda>x. rp_key x = rp_key p) (\<lambda>x. x\<lparr> rp_Price := rp_Price p,
      rp_IsActive := rp_IsActive p, rp_UpdatedAt := rp_UpdatedAt p \<rparr>) tbl) = filter (\<lambda>x. rp_PizzaID x \<noteq> pid) tbl"
    by (induction tbl) (auto simp: rp_key_def)
  then show ?thesis using \<open>rp_PizzaID p = pid\<close> by (simp add: upsert_rp_def)
qed

lemma fold_upsert_rp_filter: "\<forall>p \<in> set ps. rp_PizzaID p = pid \<Longrightarrow>
    filter (\<lambda>x. rp_PizzaID x \<noteq> pid) (fold upsert_rp ps tbl) = filter (\<lambda>x. rp_PizzaID x \<noteq> pid) tbl"
  by (induction ps arbitrary: tbl) (simp_all add: upsert_rp_filter)

lemma upsert_rp_keeps_keys: "rp_key ` set tbl \<subseteq> rp_key ` set (upsert_rp p tbl)"
proof -
  have "List.map rp_key (update_where (\<lambda>x. rp_key x = rp_key p) (\<lambda>x. x\<lparr> rp_Price := rp_Price p,
      rp_IsActive := rp_IsActive p, rp_UpdatedAt := rp_UpdatedAt p \<rparr>) tbl) = List.map rp_key tbl"
    by (rule map_key_update) (simp add: rp_key_def)
  from arg_cong [OF this, of set] show ?thesis by (auto simp: upsert_rp_def)
qed

lemma fold_upsert_rp_keeps_keys: "rp_key ` set tbl \<subseteq> rp_key ` set (fold upsert_rp ps tbl)"
  by (induction ps arbitrary: tbl) (simp_all, meson subset_trans upsert_rp_keeps_keys)

text \<open>The table after \<open>ReplacePrices\<close>.\<close>

definition replaced :: "rs_env \<Rightarrow> uuid \<Rightarrow> 'd PizzaPrice_rs list \<Rightarrow> 'd PizzaPrice_rs list \<Rightarrow> 'd PizzaPrice_rs list" where
  "replaced E pid ps tbl =
     update_where (\<lambda>p. rp_PizzaID p = pid \<and> rp_SizeID p \<notin> set (List.map rp_SizeID ps))
       (\<lambda>p. p\<lparr> rp_IsActive := False, rp_UpdatedAt := Some (re_clock E) \<rparr>)
       (fold upsert_rp (List.map (\<lambda>p. p\<lparr> rp_CreatedAt := created E (rp_CreatedAt p),
          rp_UpdatedAt := Some (re_clock E) \<rparr>) ps) tbl)"

lemma ReplacePrices_replaced:
  assumes "ReplacePrices E pid ps s = (Inr u, s')"
  shows "s' = s\<lparr> rd_prices := replaced E pid ps (rd_prices s) \<rparr>"
  using assms by (rule ReplacePrices_Inr) (simp add: replaced_def)

lemma active_after_switch_off:
  "x \<in> set (update_where (\<lambda>p. rp_PizzaID p = pid \<and> rp_SizeID p \<notin> S)
      (\<lambda>p. p\<lparr> rp_IsActive := False, rp_UpdatedAt := t \<rparr>) rows) \<and> rp_PizzaID x = pid \<and> rp_IsActive x \<longleftrightarrow>
   x \<in> set rows \<and> rp_PizzaID x = pid \<and> rp_IsActive x \<and> rp_SizeID x \<in> S"
  by (induction rows) auto

lemma others_after_switch_off:
  "filter (\<lambda>x. rp_PizzaID x \<noteq> pid) (update_where (\<lambda>p. rp_PizzaID p = pid \<and> rp_SizeID p \<notin> S)
      (\<lambda>p. p\<lparr> rp_IsActive := False, rp_UpdatedAt := t \<rparr>) rows) = filter (\<lambda>x. rp_PizzaID x \<noteq> pid) rows"
  by (induction rows) auto

lemma keys_after_switch_off:
  "List.map rp_key (update_where P (\<lambda>p. p\<lparr> rp_IsActive := False, rp_UpdatedAt := t \<rparr>) rows) = List.map rp_key rows"
  by (rule map_key_update) (simp add: rp_key_def)

lemma replaced_rows:
  assumes tbl: "distinct (List.map rp_key tbl)" and ps: "new_prices E' pid sizes n [] input = Inr ps"
  shows "{(rp_SizeID x, rp_Price x) |x. x \<in> set (replaced E pid ps tbl) \<and> rp_PizzaID x = pid \<and> rp_IsActive x} = set input"
    and "filter (\<lambda>x. rp_PizzaID x \<noteq> pid) (replaced E pid ps tbl) = filter (\<lambda>x. rp_PizzaID x \<noteq> pid) tbl"
    and "rp_key ` set tbl \<subseteq> rp_key ` set (replaced E pid ps tbl)"
    and "distinct (List.map rp_key (replaced E pid ps tbl))"
proof -
  let ?st = "List.map (\<lambda>p. p\<lparr> rp_CreatedAt := created E (rp_CreatedAt p), rp_UpdatedAt := Some (re_clock E) \<rparr>) ps"
  let ?new = "fold upsert_rp ?st tbl"
  let ?off = "\<lambda>p. rp_PizzaID p = pid \<and> rp_SizeID p \<notin> set (List.map rp_SizeID ps)"
  let ?f = "\<lambda>p. p\<lparr> rp_IsActive := False, rp_UpdatedAt := Some (re_clock E) \<rparr>"
  note facts = new_prices_rows [OF ps]
  have size_list: "List.map rp_SizeID ps = List.map fst input" and price_list: "List.map rp_Price ps = List.map snd input"
    and all: "\<forall>p \<in> set ps. rp_PizzaID p = pid \<and> rp_IsActive p" and dist: "distinct (List.map fst input)"
    using facts by auto
  have zip: "(\<lambda>p. (rp_SizeID p, rp_Price p)) ` set ps = set input"
  proof -
    have "List.map (\<lambda>p. (rp_SizeID p, rp_Price p)) ps = zip (List.map rp_SizeID ps) (List.map rp_Price ps)"
      by (induction ps) auto
    also have "\<dots> = input" using size_list price_list by (simp add: zip_map_fst_snd)
    finally show ?thesis by (metis list.set_map)
  qed
  have keys: "distinct (List.map rp_key ?st)"
  proof -
    have "List.map rp_key ?st = List.map (Pair pid) (List.map rp_SizeID ps)"
      using all by (simp add: rp_key_def)
    then show ?thesis using dist size_list by (simp add: distinct_map inj_on_def)
  qed
  have new: "distinct (List.map rp_key ?new)" by (rule fold_upsert_rp_key [OF tbl])
  have final: "replaced E pid ps tbl = update_where ?off ?f ?new" by (simp add: replaced_def)
  have on: "\<exists>x \<in> set ?new. rp_key x = (pid, rp_SizeID p) \<and> rp_Price x = rp_Price p \<and> rp_IsActive x" if "p \<in> set ps" for p
  proof -
    let ?p = "p\<lparr> rp_CreatedAt := created E (rp_CreatedAt p), rp_UpdatedAt := Some (re_clock E) \<rparr>"
    have "?p \<in> set ?st" using that by simp
    from find_fold_upsert_rp [OF this keys] obtain x where "find_row rp_key (rp_key ?p) ?new = Some x"
      "rp_Price x = rp_Price p" "rp_IsActive x = rp_IsActive p" by auto
    then show ?thesis using find_row_Some [of rp_key "rp_key ?p" ?new x] all that by (auto simp: rp_key_def)
  qed
  show "{(rp_SizeID x, rp_Price x) |x. x \<in> set (replaced E pid ps tbl) \<and> rp_PizzaID x = pid \<and> rp_IsActive x} = set input"
  proof (intro set_eqI iffI)
    fix sp assume "sp \<in> {(rp_SizeID x, rp_Price x) |x. x \<in> set (replaced E pid ps tbl) \<and> rp_PizzaID x = pid \<and> rp_IsActive x}"
    then obtain x where x: "sp = (rp_SizeID x, rp_Price x)" "rp_PizzaID x = pid"
      and act: "x \<in> set (update_where ?off ?f ?new) \<and> rp_PizzaID x = pid \<and> rp_IsActive x"
      unfolding final by blast
    have mem: "x \<in> set ?new" "rp_SizeID x \<in> set (List.map rp_SizeID ps)"
      using act unfolding active_after_switch_off by blast+
    then obtain p where p: "p \<in> set ps" "rp_SizeID p = rp_SizeID x" by auto
    obtain y where y: "y \<in> set ?new" "rp_key y = (pid, rp_SizeID p)" "rp_Price y = rp_Price p" using on [OF p(1)] by blast
    have "y = x" using new y(1,2) mem(1) x(2) p(2) by (auto simp: distinct_map rp_key_def inj_on_def)
    then show "sp \<in> set input" using imageI [OF p(1), of "\<lambda>p. (rp_SizeID p, rp_Price p)"] zip p(2) x(1) y(3) by simp
  next
    fix sp assume "sp \<in> set input"
    then obtain p where p: "p \<in> set ps" "sp = (rp_SizeID p, rp_Price p)" using zip by auto
    obtain x where x: "x \<in> set ?new" "rp_key x = (pid, rp_SizeID p)" "rp_Price x = rp_Price p" "rp_IsActive x" using on [OF p(1)] by blast
    have k: "rp_PizzaID x = pid" "rp_SizeID x = rp_SizeID p" using x(2) by (simp_all add: rp_key_def)
    have "rp_SizeID x \<in> set (List.map rp_SizeID ps)" using p(1) k(2) by simp
    then have "x \<in> set (replaced E pid ps tbl)" unfolding final using active_after_switch_off x(1,4) k(1) by blast
    then show "sp \<in> {(rp_SizeID x, rp_Price x) |x. x \<in> set (replaced E pid ps tbl) \<and> rp_PizzaID x = pid \<and> rp_IsActive x}"
      unfolding p(2) using k x(3,4) by (intro CollectI exI [of _ x]) simp
  qed
  show "filter (\<lambda>x. rp_PizzaID x \<noteq> pid) (replaced E pid ps tbl) = filter (\<lambda>x. rp_PizzaID x \<noteq> pid) tbl"
    unfolding final others_after_switch_off by (rule fold_upsert_rp_filter) (use all in simp)
  have same: "List.map rp_key (replaced E pid ps tbl) = List.map rp_key ?new"
    unfolding final keys_after_switch_off ..
  show "distinct (List.map rp_key (replaced E pid ps tbl))" using new unfolding same .
  have "rp_key ` set (replaced E pid ps tbl) = rp_key ` set ?new" using arg_cong [OF same, of set] unfolding list.set_map .
  then show "rp_key ` set tbl \<subseteq> rp_key ` set (replaced E pid ps tbl)" by (simp only: fold_upsert_rp_keeps_keys)
qed

text \<open>A successful \<open>SetPizzaPrices\<close> step by step.\<close>

lemma SetPizzaPrices_Inr:
  assumes inv: "rs_inv L s" and run: "SetPizzaPrices_Execute L E i pid own input s = (Inr resp, s')"
  obtains r p p' ps sizes ids tops where "r \<in> set (rd_restaurants s)" "rs_ID r = i" "rs_OwnerID r = own"
    "p \<in> set (rd_pizzas s)" "rz_ID p = pid" "rz_RestaurantID p = i" "p' = p\<lparr> rz_UpdatedAt := Some (re_clock E) \<rparr>"
    "new_prices E pid (index_by sz_ID sizes) 0 [] input = Inr ps"
    "resp = ToPizzaResponse p' (filter (\<lambda>x. rp_PizzaID x = pid) (replaced E pid ps (rd_prices s)))
       (index_by sz_ID sizes) ids (index_by tg_ID tops) Map.empty"
    "rd_prices s' = replaced E pid ps (rd_prices s)" "rd_pizzas s' = save_row rz_ID p' (rd_pizzas s)"
    "rd_restaurants s' = rd_restaurants s" "rd_topping_prices s' = rd_topping_prices s"
    "rd_outbox s' = fold (outbox_Create (re_trace E)) (if listed (rs_Status r)
       then [NewOutboxEvent (re_clock E) i ''restaurant.pizza_updated''
              (marshal_pizza_updated L i resp (re_clock E) (re_clock E))] else []) (rd_outbox s)"
  using run unfolding SetPizzaPrices_Execute_def Let_def
proof (cases rule: owned_cases)
  case (owner r)
  let ?out = "\<lambda>p' updated sizes ids tops. ToPizzaResponse p' updated (index_by sz_ID sizes) ids (index_by tg_ID tops) Map.empty"
  let ?body = "\<lambda>p ps sizes ids tops. bind (ReplacePrices E pid ps) (\<lambda>_. bind (Pizza_Update E p) (\<lambda>p'.
      bind (query (rs_ListByPizza E 0 pid)) (\<lambda>updated. bind (rs_DispatchEventsTx L E
        [enrichPizzaUpdated L (?out p' updated sizes ids tops)] (NotifyPizzaUpdated (re_clock E) r))
          (\<lambda>_. ret (?out p' updated sizes ids tops)))))"
  define body where "body = ?body"
  have "bind (owned_pizza E pid i) (\<lambda>p. bind (query (Size_List E)) (\<lambda>sizes.
     bind (query (\<lambda>_. new_prices E pid (index_by sz_ID sizes) 0 [] input)) (\<lambda>ps.
     bind (query (\<lambda>_. ToppingIDs L p)) (\<lambda>ids. bind (query (Topping_List E)) (\<lambda>tops.
     transaction (re_fault E) RsCommit (body p ps sizes ids tops)))))) s = (Inr resp, s')"
    unfolding body_def by (rule owner(4))
  then obtain p sizes ps ids tops where p: "owned_pizza E pid i s = (Inr p, s)"
    "new_prices E pid (index_by sz_ID sizes) 0 [] input = Inr ps"
    "transaction (re_fault E) RsCommit (body p ps sizes ids tops) s = (Inr resp, s')"
    by (auto simp: bind_Inr owned_pizza_def query_def ret_def fail_def simp del: bind_simps split: sum.splits option.splits)
  have pz: "p \<in> set (rd_pizzas s)" "rz_ID p = pid" "rz_RestaurantID p = i"
    using p(1) by (auto simp: owned_pizza_def bind_Inr FindByIDAndRestaurant_def simp del: bind_simps
        split: option.splits dest: find_in)
  from p(3) have "body p ps sizes ids tops s = (Inr resp, s')" by (cases rule: transaction_cases) auto
  then obtain s2 p' s3 updated r' where s2: "ReplacePrices E pid ps s = (Inr (), s2)" "Pizza_Update E p s2 = (Inr p', s3)"
      "rs_ListByPizza E 0 pid s3 = Inr updated"
      "rs_DispatchEventsTx L E [enrichPizzaUpdated L (?out p' updated sizes ids tops)] (NotifyPizzaUpdated (re_clock E) r) s3 = (Inr r', s')"
      "resp = ?out p' updated sizes ids tops"
    unfolding body_def by (auto simp: bind_Inr simp del: bind_simps)
  note st = ReplacePrices_replaced [OF s2(1)] Pizza_Update_Inr [OF s2(2)] rs_DispatchEventsTx_Inr [OF s2(4)]
  have up: "updated = filter (\<lambda>x. rp_PizzaID x = pid) (replaced E pid ps (rd_prices s))"
    using s2(3) st by (auto simp: rs_ListByPizza_def)
  have ev: "rs_events r = []" using row_in [OF inv owner(1)] by simp
  have at: "pzr_UpdatedAt resp = Some (re_clock E)" using s2(5) st by (simp add: ToPizzaResponse_def)
  have rows: "rs_rows L E [enrichPizzaUpdated L resp] i (rs_events (NotifyPizzaUpdated (re_clock E) r)) =
      (if listed (rs_Status r) then [NewOutboxEvent (re_clock E) i ''restaurant.pizza_updated''
        (marshal_pizza_updated L i resp (re_clock E) (re_clock E))] else [])"
    using ev owner(2) at by (simp add: notify_pizza_simps rs_rows_def rs_integration_def map_filter_simps)
  show ?thesis
  proof (rule that)
    show "rd_outbox s' = fold (outbox_Create (re_trace E)) (if listed (rs_Status r)
       then [NewOutboxEvent (re_clock E) i ''restaurant.pizza_updated''
              (marshal_pizza_updated L i resp (re_clock E) (re_clock E))] else []) (rd_outbox s)"
      unfolding rows [symmetric] using st owner(2) by (simp add: s2(5) notify_pizza_simps)
  qed (use owner(1-3) pz p(2) st s2(5) up in simp_all)
qed auto

text \<open>
  A successful \<open>SetPizzaPrices\<close> leaves the pizza with exactly the given sizes and prices as active prices, each
  size once; a size that was not given is switched off, but no row is lost, and the prices of other
  pizzas and all restaurants stay as they were. The answer shows these prices.
\<close>

theorem SetPizzaPrices_effect:
  assumes "rs_reach L goslug geocoder s" "geocoder_returns geocoder" "uuid_codec L"
    and "SetPizzaPrices_Execute L E i pid own input s = (Inr resp, s')"
  shows "{(rp_SizeID x, rp_Price x) |x. x \<in> set (rd_prices s') \<and> rp_PizzaID x = pid \<and> rp_IsActive x} = set input \<and>
    distinct (List.map fst input) \<and> distinct (List.map rp_key (rd_prices s')) \<and>
    rp_key ` set (rd_prices s) \<subseteq> rp_key ` set (rd_prices s') \<and>
    filter (\<lambda>x. rp_PizzaID x \<noteq> pid) (rd_prices s') = filter (\<lambda>x. rp_PizzaID x \<noteq> pid) (rd_prices s) \<and>
    rd_restaurants s' = rd_restaurants s \<and> rd_topping_prices s' = rd_topping_prices s \<and>
    {(ppr_SizeID q, ppr_Price q) |q. q \<in> set (pzr_Prices resp) \<and> ppr_IsActive q} = set input"
proof -
  have inv: "rs_inv L s" by (rule rs_reach_inv [OF assms(1-3)])
  then have keys: "distinct (List.map rp_key (rd_prices s))" by (simp add: rs_inv_def menu_inv_def)
  from inv assms(4) show ?thesis
  proof (rule SetPizzaPrices_Inr)
    fix p' ps sizes ids tops
    assume ps: "new_prices E pid (index_by sz_ID sizes) 0 [] input = Inr ps"
      and resp: "resp = ToPizzaResponse p' (filter (\<lambda>x. rp_PizzaID x = pid) (replaced E pid ps (rd_prices s)))
       (index_by sz_ID sizes) ids (index_by tg_ID tops) Map.empty"
      and s': "rd_prices s' = replaced E pid ps (rd_prices s)" "rd_restaurants s' = rd_restaurants s"
        "rd_topping_prices s' = rd_topping_prices s"
    note rows = replaced_rows [OF keys ps, of E]
    have "{(ppr_SizeID q, ppr_Price q) |q. q \<in> set (pzr_Prices resp) \<and> ppr_IsActive q} =
        {(rp_SizeID x, rp_Price x) |x. x \<in> set (replaced E pid ps (rd_prices s)) \<and> rp_PizzaID x = pid \<and> rp_IsActive x}"
      by (force simp: resp ToPizzaResponse_def)
    then show ?thesis using rows new_prices_rows [OF ps] s' by simp
  qed
qed

subsection \<open>Ownership\<close>

fun rs_owner :: "'d rs_request \<Rightarrow> (uuid \<times> uuid) option" where
  "rs_owner (RqApprove i) = None"
| "rs_owner (RqMessage name body) = None"
| "rs_owner (RqAddress i own input) = Some (i, own)"
| "rs_owner (RqContact i own input) = Some (i, own)"
| "rs_owner (RqDelivery i own input) = Some (i, own)"
| "rs_owner (RqOpeningHours i own input) = Some (i, own)"
| "rs_owner (RqTags i own input) = Some (i, own)"
| "rs_owner (RqCreatePayout i own input) = Some (i, own)"
| "rs_owner (RqUpdatePayout i own input) = Some (i, own)"
| "rs_owner (RqLaunch i own) = Some (i, own)"
| "rs_owner (RqCreatePizza i own input) = Some (i, own)"
| "rs_owner (RqUpdatePizza i p own input) = Some (i, own)"
| "rs_owner (RqPizzaPrices i p own input) = Some (i, own)"
| "rs_owner (RqToppingPrices i own input) = Some (i, own)"
| "rs_owner (RqGetRestaurant i own) = Some (i, own)"
| "rs_owner (RqListPizzas i own) = Some (i, own)"
| "rs_owner (RqLaunchReadiness i own) = Some (i, own)"

lemma not_owned_refused:
  assumes "\<not> re_fault E RsFind" "\<forall>r \<in> set (rd_restaurants s). \<not> (rs_ID r = i \<and> rs_OwnerID r = own)"
  shows "bind (owned_restaurant E i own) f s = (Inl [RsApp ErrForbidden], s)"
proof -
  have "List.find (\<lambda>r. rs_ID r = i \<and> rs_OwnerID r = own) (rd_restaurants s) = None"
    using assms(2) by (simp add: find_None_iff)
  then show ?thesis
    using assms(1) by (simp add: owned_restaurant_def FindByIDAndOwner_def take_restaurant_def bind_def query_def fail_def)
qed

lemma void_not_owned:
  assumes "\<not> re_fault E RsFind" "\<forall>r \<in> set (rd_restaurants s). \<not> (rs_ID r = i \<and> rs_OwnerID r = own)"
  shows "void (bind (owned_restaurant E i own) f) s = (Inl [RsApp ErrForbidden], s)"
  using not_owned_refused [OF assms, of f] by (simp add: void_def bind_def)

text \<open>
  Who does not own a restaurant can neither read nor change it: every request of the API other than the approval
  (which needs the role of an administrator) for a restaurant that is not the caller's, or does not exist, is
  answered with 403 and changes nothing.
\<close>

theorem only_the_owner:
  assumes "rs_owner rq = Some (i, own)" "\<not> re_fault E RsFind"
    and "\<forall>r \<in> set (rd_restaurants s). \<not> (rs_ID r = i \<and> rs_OwnerID r = own)"
  shows "rs_run L goslug geocoder E rq s = (Inl [RsApp ErrForbidden], s) \<and> rs_HandleError [RsApp ErrForbidden] = 403"
  using assms(1)
  by (cases rq) (simp_all add: void_not_owned [OF assms(2,3)] rs_HandleError_def errors_is_def UpdateAddress_Execute_def UpdateContact_Execute_def
    UpdateDelivery_Execute_def UpdateOpeningHours_Execute_def UpdateTags_Execute_def CreatePayout_Execute_def
    UpdatePayout_Execute_def LaunchRestaurant_Execute_def CreatePizza_Execute_def UpdatePizza_Execute_def
    SetPizzaPrices_Execute_def SetToppingPrices_Execute_def GetRestaurant_Execute_def ListPizzas_Execute_def
    GetLaunchReadiness_Execute_def del: bind_simps)

subsection \<open>Approval\<close>

lemma Approve_prepare_Inr:
  assumes "Approve_prepare E i s = Inr r1"
  obtains r email where "r \<in> set (rd_restaurants s)" "rs_ID r = i" "rs_Status r = StatusReview" "rs_Email r = Some email"
    "r1 = raise (RestaurantApproved i (rs_Name r) email (re_clock E)) (r\<lparr> rs_Status := StatusApproved \<rparr>)"
  using assms by (auto simp: Approve_prepare_def Restaurant_rs_FindByID_def take_restaurant_def Approve_def
      split: sum.splits option.splits if_splits dest: find_in)

lemma restaurant_answer_same: "restaurant_answer E r s = (res, s') \<Longrightarrow> s' = s"
  using restaurant_answer_state [of E r s] by simp

lemma Approve_Inr:
  assumes "ApproveRestaurant_Execute L E i s = (Inr resp, s1)"
  obtains r r1 where "r \<in> set (rd_restaurants s)" "rs_ID r = i" "rs_Status r = StatusReview" "rs_ID r1 = i"
    "rs_Status r1 = StatusApproved" "rd_restaurants s1 = save_row rs_ID (stored_rs (stamp E r1)) (rd_restaurants s)"
    "rd_payouts s1 = promote E i (rd_payouts s)"
proof -
  from assms obtain r1 where "Approve_prepare E i s = Inr r1" and commit: "Approve_commit L E r1 s = (Inr resp, s1)"
    by (auto simp: ApproveRestaurant_Execute_def bind_Inr simp del: bind_simps)
  from this(1) obtain r where r: "r \<in> set (rd_restaurants s)" "rs_ID r = i" "rs_Status r = StatusReview"
      "rs_ID r1 = i" "rs_Status r1 = StatusApproved"
    by (rule Approve_prepare_Inr) (auto simp: raise_def)
  let ?body = "bind (Restaurant_Update E r1) (\<lambda>r'. bind (PromoteToActive E (rs_ID r')) (\<lambda>_. rs_DispatchEventsTx L E [] r'))"
  obtain res s2 where tx: "transaction (re_fault E) RsCommit ?body s = (res, s2)" by fastforce
  then have "\<exists>x. ?body s = (Inr x, s1)"
    by (cases rule: transaction_cases) (use commit tx in \<open>auto simp: Approve_commit_def bind_step
      simp del: bind_simps dest: restaurant_answer_same\<close>)
  then obtain s0 s3 x where s0: "Restaurant_Update E r1 s = (Inr (stamp E r1), s0)"
      "PromoteToActive E (rs_ID r1) s0 = (Inr (), s3)" "rs_DispatchEventsTx L E [] (stamp E r1) s3 = (Inr x, s1)"
    by (auto simp: bind_Inr Restaurant_Update_Inr)
  have "rd_restaurants s1 = save_row rs_ID (stored_rs (stamp E r1)) (rd_restaurants s)"
    "rd_payouts s1 = promote E i (rd_payouts s)"
    using s0(1) [unfolded Restaurant_Update_Inr] PromoteToActive_Inr [OF s0(2)] rs_DispatchEventsTx_Inr [OF s0(3)] r(4) by simp_all
  then show ?thesis using that r by blast
qed

lemma Approve_refused:
  assumes "\<not> has_payout i PayoutUnverified (rd_payouts s)"
  shows "\<exists>e. ApproveRestaurant_Execute L E i s = (Inl e, s)"
proof (cases "Approve_prepare E i s")
  case (Inl e)
  then show ?thesis by (simp add: ApproveRestaurant_Execute_def bind_step)
next
  case (Inr r1)
  then have id: "rs_ID r1 = i" by (rule Approve_prepare_Inr) (simp add: raise_def)
  let ?body = "bind (Restaurant_Update E r1) (\<lambda>r'. bind (PromoteToActive E (rs_ID r')) (\<lambda>_. rs_DispatchEventsTx L E [] r'))"
  have no: "?body s \<noteq> (Inr x, s')" for x s'
    using assms id by (auto simp: bind_Inr Restaurant_Update_Inr dest!: PromoteToActive_Inr)
  obtain res s2 where tx: "transaction (re_fault E) RsCommit ?body s = (res, s2)" by fastforce
  then have "(\<exists>e. res = Inl e) \<and> s2 = s" by (cases rule: transaction_cases) (use no in auto)
  then show ?thesis using Inr tx by (auto simp: ApproveRestaurant_Execute_def Approve_commit_def bind_step)
qed


text \<open>
  C39. A change of contact details that has read the restaurant before its approval and saves it afterwards takes the
  approval back: the restaurant is in review again, although its payout is active and \<open>restaurant.approved\<close> is in the outbox,
  and no further approval can succeed, since there is no unverified payout left to promote.
\<close>

theorem approval_lost:
  assumes "rs_reach L goslug geocoder s" "geocoder_returns geocoder" "uuid_codec L"
    and r: "r \<in> set (rd_restaurants s)" "rs_ID r = i"
    and approve: "ApproveRestaurant_Execute L E i s = (Inr resp, s1)"
    and update: "finish_update L E' (WithContact email phone website
      (NotifyUpdated t (CompleteChecklistItem t ChecklistContact r))) s1 = (Inr resp', s2)"
  shows "(\<exists>r2. filter (\<lambda>x. rs_ID x = i) (rd_restaurants s2) = [r2] \<and> rs_Status r2 = StatusReview) \<and>
    has_payout i PayoutActive (rd_payouts s2) \<and> announced (rd_outbox s2) i ''restaurant.approved'' = 1 \<and>
    (\<exists>e. ApproveRestaurant_Execute L E'' i s2 = (Inl e, s2))"
proof -
  have inv: "rs_inv L s" by (rule rs_reach_inv [OF assms(1-3)])
  have inv1: "rs_inv L s1" using Approve_good [OF inv, of E i] approve by (simp add: good_def)
  let ?r = "WithContact email phone website (NotifyUpdated t (CompleteChecklistItem t ChecklistContact r))"
  from approve obtain r0 r1 where a: "r0 \<in> set (rd_restaurants s)" "rs_ID r0 = i" "rs_Status r0 = StatusReview"
    "rs_ID r1 = i" "rs_Status r1 = StatusApproved"
    "rd_restaurants s1 = save_row rs_ID (stored_rs (stamp E r1)) (rd_restaurants s)"
    "rd_payouts s1 = promote E i (rd_payouts s)"
    by (rule Approve_Inr)
  have "r = r0" using inv r a(1,2) by (auto simp: rs_inv_def restaurants_inv_def distinct_map inj_on_def)
  have ev: "rs_events ?r = []" and st: "rs_Status ?r = StatusReview" and id: "rs_ID ?r = i"
    using row_in [OF inv r(1)] a(3) \<open>r = r0\<close> r(2)
    by (auto simp: WithContact_def NotifyUpdated_def CompleteChecklistItem_def listed_def)
  have s2: "rd_restaurants s2 = save_row rs_ID (stored_rs (stamp E' ?r)) (rd_restaurants s1)"
    "rd_payouts s2 = rd_payouts s1" "rd_outbox s2 = rd_outbox s1"
    using finish_update_cases [OF update] ev by (auto simp: saved_def)
  let ?a = "stored_rs (stamp E r1)"
  have mem: "?a \<in> set (rd_restaurants s1)" using a(6) save_row_mem by metis
  have "milestones_inv s1" "payouts_inv s1" using inv1 by (simp_all add: rs_inv_def)
  then have "announced (rd_outbox s1) i ''restaurant.approved'' = 1" "has_payout i PayoutActive (rd_payouts s1)"
    using mem a(4,5) by (fastforce simp: milestones_inv_def payouts_inv_def)+
  moreover have "\<not> has_payout i PayoutUnverified (rd_payouts s2)"
    by (simp add: s2(2) a(7) has_payout_filter filter_promote_unverified)
  moreover have "filter (\<lambda>x. rs_ID x = rs_ID (stored_rs (stamp E' ?r))) (rd_restaurants s2) = [stored_rs (stamp E' ?r)]"
  proof (rule filter_key_single)
    show "distinct (List.map rs_ID (rd_restaurants s2))"
      unfolding s2(1) using inv1 mem a(4) id save_row_map_key [of ?a _ rs_ID] by (simp add: rs_inv_def restaurants_inv_def)
    show "stored_rs (stamp E' ?r) \<in> set (rd_restaurants s2)" unfolding s2(1) by (rule save_row_mem)
  qed
  then have "filter (\<lambda>x. rs_ID x = i) (rd_restaurants s2) = [stored_rs (stamp E' ?r)]" unfolding stored_rs_simps stamp_simps id .
  ultimately show ?thesis using st s2(2,3) Approve_refused [of i s2 L E''] by simp
qed

end
