(* ===== verification/Restaurant_Sample.thy ===== *)
theory Restaurant_Sample
  imports Restaurant_Props Sample
begin

text \<open>
  A restaurant from its registration to its launch, as requests to the service, with the states in between: the
  data of the witnesses.
\<close>

definition sample_geocoder :: rs_geocoder where
  "sample_geocoder addr = Inr (52, 13, ''Europe/Berlin'')"

definition rs_env0 :: rs_env where
  "rs_env0 = \<lparr> re_fault = (\<lambda>_. False), re_newV7 = (\<lambda>n. Some (of_nat n + 50)), re_clock = 7, re_trace = '''' \<rparr>"

definition rs_env1 :: rs_env where
  "rs_env1 = rs_env0\<lparr> re_newV7 := (\<lambda>n. Some (of_nat n + 60)) \<rparr>"

definition rs_env2 :: rs_env where
  "rs_env2 = rs_env0\<lparr> re_newV7 := (\<lambda>n. Some (of_nat n + 70)) \<rparr>"

definition rs_db0 :: "int rs_db" where
  "rs_db0 = \<lparr> rd_restaurants = [], rd_payouts = [], rd_pizzas = [], rd_prices = [],
     rd_sizes = [\<lparr> sz_ID = 21, sz_DiameterCm = 26 \<rparr>, \<lparr> sz_ID = 22, sz_DiameterCm = 32 \<rparr>],
     rd_toppings = [\<lparr> tg_ID = 31, tg_Name = ''olives'', tg_IsVegetarian = True \<rparr>], rd_topping_prices = [],
     rd_outbox = \<lparr> ob_rows = [], ob_seq = 1 \<rparr> \<rparr>"

definition sample_contact :: UpdateContactRequest where
  "sample_contact = \<lparr> ucr_Email = Some ''a@b.de'', ucr_Phone = Some ''+49'', ucr_Website = None \<rparr>"

definition sample_requests :: "int rs_request list" where
  "sample_requests =
   [RqMessage ''restaurant.initiated'' (Some (JObj [(''restaurant_id'', enc_uuid sample_lib 5),
      (''owner_id'', enc_uuid sample_lib 6), (''business_name'', JStr ''Roma''), (''vat_number'', JStr ''DE1'')])),
    RqAddress 5 6 \<lparr> uar_House = ''1'', uar_Street = ''Weg'', uar_City = ''Ulm'', uar_PostalCode = ''89073'' \<rparr>,
    RqContact 5 6 sample_contact,
    RqDelivery 5 6 \<lparr> udr_Pickup = True, udr_DeliveryType = ''own'', udr_DeliveryKm = Some 5,
      udr_DeliveryTimeMin = Some 20, udr_DeliveryTimeMax = Some 40, udr_DeliveryFee = 2, udr_MinimumOrder = 10 \<rparr>,
    RqOpeningHours 5 6 no_hours,
    RqCreatePayout 5 6 \<lparr> cpr_AccountHolder = ''A'', cpr_IBAN = ''DE2'', cpr_BIC = ''B'', cpr_BankName = ''C'' \<rparr>]"

definition sample_pizza :: CreatePizzaRequest where
  "sample_pizza = \<lparr> czr_Name = ''Olive'', czr_Image = None, czr_IsVegetarian = Some True, czr_Status = None,
     czr_SortOrder = 1, czr_ToppingIDs = Some [31] \<rparr>"

definition sample_menu :: "(rs_env \<times> int rs_request) list" where
  "sample_menu =
   [(rs_env0, RqCreatePizza 5 6 sample_pizza), (rs_env1, RqCreatePizza 5 6 sample_pizza),
    (rs_env0, RqPizzaPrices 5 50 6 [(21, 800)]), (rs_env1, RqPizzaPrices 5 60 6 [(22, 1000)]),
    (rs_env0, RqToppingPrices 5 6 [(31, 2)]), (rs_env0, RqApprove 5), (rs_env0, RqLaunch 5 6)]"

definition run_all :: "(rs_env \<times> int rs_request) list \<Rightarrow> int rs_db \<Rightarrow> int rs_db" where
  "run_all rqs s = fold (\<lambda>(E, rq) s. snd (rs_run sample_lib id sample_geocoder E rq s)) rqs s"

definition sample_review :: "int rs_db" where
  "sample_review = run_all (List.map (Pair rs_env0) sample_requests) rs_db0"

definition sample_pizzas :: "int rs_db" where
  "sample_pizzas = run_all (take 2 sample_menu) sample_review"

definition sample_live :: "int rs_db" where
  "sample_live = run_all sample_menu sample_review"

lemma run_all_reach:
  "rs_reach sample_lib id sample_geocoder s \<Longrightarrow> list_all (rs_valid \<circ> snd) rqs \<Longrightarrow>
    rs_reach sample_lib id sample_geocoder (run_all rqs s)"
  unfolding run_all_def
proof (induction rqs arbitrary: s)
  case (Cons x rqs)
  then show ?case using rs_reach.request [OF Cons.prems(1), of "snd x" "fst x"] by (auto simp: case_prod_beta)
qed simp

lemma sample_reach:
  "rs_reach sample_lib id sample_geocoder rs_db0" "rs_reach sample_lib id sample_geocoder sample_review"
  "rs_reach sample_lib id sample_geocoder sample_live" "geocoder_returns sample_geocoder"
  "rs_reach sample_lib id sample_geocoder sample_pizzas"
proof -
  show start: "rs_reach sample_lib id sample_geocoder rs_db0" by (rule rs_reach.start) (simp_all add: rs_db0_def)
  show review: "rs_reach sample_lib id sample_geocoder sample_review"
    unfolding sample_review_def by (rule run_all_reach [OF start]) (simp add: sample_requests_def sample_contact_def)
  show "rs_reach sample_lib id sample_geocoder sample_live"
    unfolding sample_live_def by (rule run_all_reach [OF review]) (simp add: sample_menu_def)
  show "rs_reach sample_lib id sample_geocoder sample_pizzas"
    unfolding sample_pizzas_def by (rule run_all_reach [OF review]) (simp add: sample_menu_def)
  show "geocoder_returns sample_geocoder" by (simp add: geocoder_returns_def sample_geocoder_def no_panic_def)
qed

theorem restaurant_lifecycle_witness:
  "\<exists>r. r \<in> set (rd_restaurants sample_live) \<and> rs_Status r = StatusActive \<and>
    has_payout (rs_ID r) PayoutActive (rd_payouts sample_live) \<and>
    announced (rd_outbox sample_live) (rs_ID r) ''restaurant.launched'' = 1"
proof -
  have "List.map rs_Status (rd_restaurants sample_live) = [StatusActive]" by code_simp
  then obtain r where "r \<in> set (rd_restaurants sample_live)" "rs_Status r = StatusActive"
    by (cases "rd_restaurants sample_live") auto
  then show ?thesis using restaurant_lifecycle [OF sample_reach(3,4) sample_codecs(1)] by fastforce
qed

theorem restaurant_requests_do_not_panic_witness:
  "\<exists>e. fst (rs_run sample_lib id sample_geocoder rs_env0 (RqApprove 9) rs_db0) = Inl e \<and> RsPanic \<notin> set e"
proof -
  have "fst (rs_run sample_lib id sample_geocoder rs_env0 (RqApprove 9) rs_db0) = Inl [RsApp ErrNotFound]" by code_simp
  then show ?thesis
    using restaurant_requests_do_not_panic [OF sample_reach(1,4) sample_codecs(1)] by fastforce
qed

theorem address_slug_witness:
  "\<exists>resp s'. UpdateAddress_Execute sample_lib id sample_geocoder rs_env0 5 6
      \<lparr> uar_House = ''2'', uar_Street = ''Allee'', uar_City = ''Ulm'', uar_PostalCode = ''89073'' \<rparr> sample_review = (Inr resp, s') \<and>
    (\<exists>x \<in> set (rd_restaurants s'). rs_ID x = 5 \<and> rs_Slug x \<noteq> None)"
proof -
  let ?run = "UpdateAddress_Execute sample_lib id sample_geocoder rs_env0 5 6
      \<lparr> uar_House = ''2'', uar_Street = ''Allee'', uar_City = ''Ulm'', uar_PostalCode = ''89073'' \<rparr> sample_review"
  have "\<not> isl (fst ?run)" by code_simp
  then obtain resp s' where "?run = (Inr resp, s')" by (cases ?run; cases "fst ?run") auto
  then show ?thesis using address_slug by fastforce
qed

theorem SetPizzaPrices_effect_witness:
  "\<exists>resp s'. SetPizzaPrices_Execute sample_lib rs_env2 5 60 6 [(21, 900)] sample_pizzas = (Inr resp, s') \<and>
    {(rp_SizeID x, rp_Price x) |x. x \<in> set (rd_prices s') \<and> rp_PizzaID x = 60 \<and> rp_IsActive x} = {(21, 900)}"
proof -
  let ?run = "SetPizzaPrices_Execute sample_lib rs_env2 5 60 6 [(21, 900)] sample_pizzas"
  have "\<not> isl (fst ?run)" by code_simp
  then obtain resp s' where "?run = (Inr resp, s')" by (cases ?run; cases "fst ?run") auto
  then show ?thesis using SetPizzaPrices_effect [OF sample_reach(5,4) sample_codecs(1)] by fastforce
qed

theorem only_the_owner_witness:
  "rs_run sample_lib id sample_geocoder rs_env0 (RqLaunch 5 7) sample_review = (Inl [RsApp ErrForbidden], sample_review)"
proof -
  have "list_all (\<lambda>r. rs_OwnerID r \<noteq> 7) (rd_restaurants sample_review)" by code_simp
  then show ?thesis
    using only_the_owner [of "RqLaunch 5 7" 5 7 rs_env0 sample_review] by (simp add: rs_env0_def list_all_iff)
qed

theorem approval_lost_witness:
  "\<exists>r resp s1 resp' s2. r \<in> set (rd_restaurants sample_review) \<and>
    ApproveRestaurant_Execute sample_lib rs_env0 5 sample_review = (Inr resp, s1) \<and>
    finish_update sample_lib rs_env0 (WithContact (Some ''c@b.de'') (Some ''+49'') None
      (NotifyUpdated 7 (CompleteChecklistItem 7 ChecklistContact r))) s1 = (Inr resp', s2) \<and>
    (\<exists>e. ApproveRestaurant_Execute sample_lib rs_env0 5 s2 = (Inl e, s2))"
proof -
  let ?r = "hd (rd_restaurants sample_review)"
  let ?ap = "ApproveRestaurant_Execute sample_lib rs_env0 5 sample_review"
  let ?up = "finish_update sample_lib rs_env0 (WithContact (Some ''c@b.de'') (Some ''+49'') None
      (NotifyUpdated 7 (CompleteChecklistItem 7 ChecklistContact ?r))) (snd ?ap)"
  have "List.map rs_ID (rd_restaurants sample_review) = [5]" "\<not> isl (fst ?ap)" "\<not> isl (fst ?up)" by code_simp+
  then obtain resp resp' where "?r \<in> set (rd_restaurants sample_review)" "rs_ID ?r = 5" "?ap = (Inr resp, snd ?ap)" "?up = (Inr resp', snd ?up)"
    by (cases ?ap; cases "fst ?ap"; cases ?up; cases "fst ?up"; cases "rd_restaurants sample_review") auto
  then show ?thesis
    using approval_lost [OF sample_reach(2,4) sample_codecs(1), of ?r 5 rs_env0 resp "snd ?ap" rs_env0] by blast
qed

end
