(* ===== verification/Restaurant_Order.thy ===== *)
theory Restaurant_Order
  imports Restaurant_Sample Order_Consumer
begin

text \<open>
  Restaurant-service and order-service together: the events of a live restaurant, as restaurant-service writes them
  to its outbox, in order-service's dispatcher.
\<close>

text \<open>The row order-service keeps of a restaurant.\<close>

definition as_order_restaurant :: "'d Restaurant_rs \<Rightarrow> 'd Restaurant" where
  "as_order_restaurant r = \<lparr> r_ID = rs_ID r, r_OwnerID = rs_OwnerID r, r_Name = rs_Name r,
     r_OwnerEmail = the (rs_Email r), r_Lat = the (rs_Lat r), r_Lon = the (rs_Lon r), r_DeliveryKm = rs_DeliveryKm r,
     r_DeliveryFee = rs_DeliveryFee r, r_MinimumOrder = rs_MinimumOrder r, r_Pickup = rs_Pickup r,
     r_DeliveryType = rs_DeliveryType r, r_Currency = with_default ''EUR'' (rs_Currency r), r_UpdatedAt = the (rs_UpdatedAt r) \<rparr>"

text \<open>Fee and minimum order travel as texts with two decimals.\<close>

definition in_cents :: "'d lib \<Rightarrow> 'd Restaurant_rs \<Rightarrow> 'd Restaurant_rs" where
  "in_cents L r = r\<lparr> rs_DeliveryFee := fixed2 L (rs_DeliveryFee r), rs_MinimumOrder := fixed2 L (rs_MinimumOrder r) \<rparr>"

lemma numeric_fits_fixed2:
  assumes "fixed_codec L" "numeric_fits n d"
  shows "numeric_fits n (fixed2 L d)"
proof -
  obtain k where k: "100 * fixed2 L d = of_int k" "200 * \<bar>fixed2 L d - d\<bar> \<le> 1"
    using fixed2_parsed [OF assms(1)] by metis
  have "\<bar>fixed2 L d\<bar> \<le> \<bar>fixed2 L d - d\<bar> + \<bar>d\<bar>" using abs_triangle_ineq [of "fixed2 L d - d" d] by simp
  then have "200 * \<bar>fixed2 L d\<bar> < of_int (200 * 10 ^ n)"
    using k(2) assms(2) by (simp add: numeric_fits_def)
  moreover have abs_k: "100 * \<bar>fixed2 L d\<bar> = of_int \<bar>k\<bar>" using k(1) by (metis abs_mult abs_numeral of_int_abs)
  ultimately have "of_int (2 * \<bar>k\<bar>) < (of_int (200 * 10 ^ n) :: 'a)" by simp
  then have "2 * \<bar>k\<bar> \<le> 200 * 10 ^ n - 2" unfolding of_int_less_iff by simp
  then have "of_int (2 * \<bar>k\<bar>) \<le> (of_int (200 * 10 ^ n - 2) :: 'a)" unfolding of_int_le_iff .
  then have "200 * \<bar>fixed2 L d\<bar> \<le> of_int (200 * 10 ^ n) - 2" using abs_k by simp
  then show ?thesis by (simp add: numeric_fits_def)
qed

text \<open>A live restaurant has everything its copy needs, and the copy fits the columns of order-service.\<close>

definition live :: "'d::linordered_idom Restaurant_rs \<Rightarrow> bool" where
  "live r \<longleftrightarrow> restaurant_rs_row_ok r \<and> located r \<and> rs_Email r \<noteq> None \<and> rs_UpdatedAt r \<noteq> None"

lemma live_row_ok: "fixed_codec L \<Longrightarrow> live r \<Longrightarrow> restaurant_row_ok (as_order_restaurant (in_cents L r))"
  using numeric_fits_fixed2 [of L _ "rs_DeliveryFee r"] numeric_fits_fixed2 [of L _ "rs_MinimumOrder r"]
    fixed2_nonneg [of L "rs_DeliveryFee r"] fixed2_nonneg [of L "rs_MinimumOrder r"]
  by (auto simp: live_def restaurant_rs_row_ok_def restaurant_row_ok_def as_order_restaurant_def located_def with_default_def
      in_cents_def split: option.splits elim: between.elims)

lemma member_append: "member (JObj (xs @ ys)) k = (if k \<in> fst ` set ys then member (JObj ys) k else member (JObj xs) k)"
proof -
  have "map_of (rev ys) k = None \<longleftrightarrow> k \<notin> fst ` set ys" by (simp add: map_of_eq_None_iff)
  then show ?thesis by (cases "map_of (rev ys) k") (auto simp: member_def map_add_def)
qed

lemma omitempty_simps:
  "fst ` set (omitempty key enc v) = (if v = None then {} else {key})"
  "member (JObj (omitempty key enc v)) k = (if k = key then case v of None \<Rightarrow> JNull | Some x \<Rightarrow> enc x else JNull)"
  by (auto simp: omitempty_def split: option.split)

lemma dec_enc_int16_ptr [simp]: "dec_int16_ptr (case v of None \<Rightarrow> JNull | Some x \<Rightarrow> enc_int16 x) = Some v"
proof (cases v)
  case (Some x)
  have "dec_int16_ptr (enc_int16 x) = map_option Some (dec_int16 (enc_int16 x))"
    unfolding enc_int16_def by (rule dec_int16_ptr.simps)
  then show ?thesis using Some by simp
qed simp

lemma unmarshal_updated:
  assumes "uuid_codec L" "time_codec L" "rs_Email r = Some email" "NewRestaurantUpdatedPayload (rs_ID r) t r = Inr p"
  shows "unmarshal_restaurant L (Some (marshal_updated L p)) = Some
     \<lparr> rpl_RestaurantID = rs_ID r, rpl_OwnerID = rs_OwnerID r, rpl_Name = rs_Name r, rpl_Email = Some email,
       rpl_Lat = the (rs_Lat r), rpl_Lon = the (rs_Lon r), rpl_DeliveryType = rs_DeliveryType r,
       rpl_RadiusKm = rs_DeliveryKm r, rpl_Fee = StringFixed2 L (rs_DeliveryFee r),
       rpl_MinimumOrder = StringFixed2 L (rs_MinimumOrder r), rpl_Currency = rs_Currency r, rpl_Pickup = rs_Pickup r,
       rpl_UpdatedAt = the (rs_UpdatedAt r) \<rparr>"
proof -
  have p: "rup_RestaurantID p = rs_ID r" "rup_OwnerID p = rs_OwnerID r" "rup_RestaurantName p = rs_Name r"
    "rup_Contact p = contact_response r" "rup_Lat p = the (rs_Lat r)" "rup_Lon p = the (rs_Lon r)"
    "rup_Delivery p = delivery_response r" "rup_Currency p = rs_Currency r" "rup_Pickup p = rs_Pickup r"
    "rup_UpdatedAt p = the (rs_UpdatedAt r)"
    using assms(4) by (auto simp: NewRestaurantUpdatedPayload_def split: option.splits)
  have c: "is_struct (marshal_contact (contact_response r))"
    "member (marshal_contact (contact_response r)) ''email'' = JStr email"
    using assms(3) by (simp_all add: marshal_contact_def contact_response_def member_append omitempty_simps image_Un)
  have d: "is_struct (marshal_delivery L (delivery_response r))"
    "member (marshal_delivery L (delivery_response r)) ''type'' = JStr (rs_DeliveryType r)"
    "dec_int16_ptr (member (marshal_delivery L (delivery_response r)) ''radiusKm'') = Some (rs_DeliveryKm r)"
    "member (marshal_delivery L (delivery_response r)) ''fee'' = JStr (StringFixed2 L (rs_DeliveryFee r))"
    "member (marshal_delivery L (delivery_response r)) ''minimumOrder'' = JStr (StringFixed2 L (rs_MinimumOrder r))"
    by (simp_all add: marshal_delivery_def delivery_response_def member_append omitempty_simps image_Un)
  let ?j = "marshal_updated L p"
  have m: "member ?j ''restaurant_id'' = enc_uuid L (rs_ID r)" "member ?j ''owner_id'' = enc_uuid L (rs_OwnerID r)"
    "member ?j ''restaurant_name'' = JStr (rs_Name r)" "member ?j ''contact'' = marshal_contact (contact_response r)"
    "member ?j ''lat'' = JFloat (the (rs_Lat r))" "member ?j ''lon'' = JFloat (the (rs_Lon r))"
    "member ?j ''delivery'' = marshal_delivery L (delivery_response r)" "member ?j ''currency'' = JStr (rs_Currency r)"
    "member ?j ''pickup'' = JBool (rs_Pickup r)" "member ?j ''updated_at'' = enc_time L (the (rs_UpdatedAt r))"
    "is_struct ?j"
    unfolding marshal_updated_def restaurant_fields_def p by simp_all
  show ?thesis using assms(1,2) by (simp add: unmarshal_restaurant_def Let_def m c d)
qed

text \<open>The event of a live restaurant, handled by order-service, leaves its copy as the row of the restaurant.\<close>

definition newer_than :: "time \<Rightarrow> 'd Restaurant option \<Rightarrow> bool" where
  "newer_than t found = (case found of None \<Rightarrow> True | Some old \<Rightarrow> r_UpdatedAt old < t)"

lemma updated_is_stored:
  assumes L: "uuid_codec L" "time_codec L" "fixed_codec L"
    and r: "live r" "NewRestaurantUpdatedPayload (rs_ID r) t r = Inr p"
    and db: "\<not> fault E RestaurantUpsert" "newer_than (the (rs_UpdatedAt r)) (find_row r_ID (rs_ID r) (t_restaurants db))"
  shows "\<exists>db'. Dispatch (order_dispatcher L) ''restaurant.updated'' E (Some (marshal_updated L p)) db = (Inr (), db') \<and>
    find_row r_ID (rs_ID r) (t_restaurants db') = Some (as_order_restaurant (in_cents L r))"
proof -
  let ?row = "as_order_restaurant (in_cents L r)"
  obtain email where email: "rs_Email r = Some email" using r(1) by (auto simp: live_def)
  have named: "rs_DeliveryType r \<noteq> []"
    using r(1) by (auto simp: live_def restaurant_rs_row_ok_def)
  have row: "restaurant_row_ok ?row" by (rule live_row_ok [OF L(3) r(1)])
  have money: "NewFromString L (StringFixed2 L d) = Some (fixed2 L d)" for d using fixed2_parsed [OF L(3)] by metis
  have "Dispatch (order_dispatcher L) ''restaurant.updated'' E (Some (marshal_updated L p)) db =
      Restaurant_Upsert E (?row\<lparr> r_Currency := rs_Currency r \<rparr>) db"
    using unmarshal_updated [OF L(1,2) email r(2)]
    by (simp add: Dispatch_cases UpdateRestaurant_Handle_def upsert_restaurant_def as_order_restaurant_def in_cents_def
        email money)
  also have "\<dots> = (Inr (), put_restaurant ?row db)"
    using db(1) row named by (simp add: Restaurant_Upsert_def with_default_def as_order_restaurant_def in_cents_def)
  finally have run: "Dispatch (order_dispatcher L) ''restaurant.updated'' E (Some (marshal_updated L p)) db =
      (Inr (), put_restaurant ?row db)" .
  moreover have "find_row r_ID (rs_ID r) (t_restaurants (put_restaurant ?row db)) = Some ?row"
    using db(2)
    by (auto simp: put_restaurant_def find_row_upsert_newer newer_than_def as_order_restaurant_def in_cents_def split: option.splits)
  ultimately show ?thesis by blast
qed


fun profile_update :: "'d rs_request \<Rightarrow> bool" where
  "profile_update (RqAddress i own input) = True"
| "profile_update (RqContact i own input) = True"
| "profile_update (RqDelivery i own input) = True"
| "profile_update (RqOpeningHours i own input) = True"
| "profile_update (RqTags i own input) = True"
| "profile_update _ = False"

lemma listed_event:
  "rs_events r = [] \<Longrightarrow> listed (rs_Status r) \<Longrightarrow> rs_events (NotifyUpdated t r) = [RestaurantUpdated (rs_ID r) t]"
  "rs_events r = [] \<Longrightarrow> listed (rs_Status r) \<Longrightarrow> rs_events (CompleteChecklistItem t item r) = []"
  by (auto simp: NotifyUpdated_def CompleteChecklistItem_def raise_def listed_def Let_def)

lemma With_events [simp]:
  "rs_events (WithContact e ph w r) = rs_events r" "rs_events (WithDelivery b ty km lo hi fee mo r) = rs_events r"
  "rs_events (WithOpeningHours h r) = rs_events r" "rs_events (WithTags tags r) = rs_events r"
  "rs_events (WithCoordinates lat lon tz (WithAddress addr (WithSlug slug r))) = rs_events r"
  by (simp_all add: WithContact_def WithDelivery_def WithOpeningHours_def WithTags_def WithCoordinates_def
      WithAddress_def WithSlug_def)

lemma finish_update_Inr:
  "finish_update L E r s = (Inr resp, s') \<Longrightarrow> s' = saved L E (\<lambda>r'. [enrichUpdated L r']) r s \<and> may_save E r s"
  using finish_update_cases [of L E r s "Inr resp" s'] by auto

text \<open>What a successful profile update of a listed restaurant saves.\<close>

definition announces_row :: "'d::linordered_idom lib \<Rightarrow> rs_env \<Rightarrow> uuid \<Rightarrow> 'd rs_db \<Rightarrow> 'd rs_db \<Rightarrow> bool" where
  "announces_row L E i s s' \<longleftrightarrow> (\<exists>r r1. r \<in> set (rd_restaurants s) \<and> rs_ID r = i \<and> row_step r r1 \<and> restaurant_core r1 \<and>
    rs_events r1 = [RestaurantUpdated i (re_clock E)] \<and> s' = saved L E (\<lambda>r'. [enrichUpdated L r']) r1 s \<and> may_save E r1 s)"

lemma listed_complete: "listed (rs_Status r) \<Longrightarrow> listed (rs_Status (CompleteChecklistItem t item r))"
  by (auto simp: listed_def)

lemma owned_update:
  assumes inv: "rs_inv L s" and run: "bind (owned_restaurant E i own) (\<lambda>r. finish_update L E (f r)) s = (Inr resp, s')"
    and live: "\<forall>r \<in> set (rd_restaurants s). rs_ID r = i \<longrightarrow> listed (rs_Status r)"
    and f: "\<And>r. rs_events r = [] \<Longrightarrow> restaurant_core r \<Longrightarrow> listed (rs_Status r) \<Longrightarrow>
      row_step r (f r) \<and> restaurant_core (f r) \<and> rs_events (f r) = [RestaurantUpdated (rs_ID r) (re_clock E)]"
  shows "announces_row L E i s s'"
  using run
proof (cases rule: owned_cases)
  case (owner r)
  then show ?thesis
    using finish_update_Inr [OF owner(4)] rs_inv_row [OF inv owner(1)] live f [of r] unfolding announces_row_def by blast
qed auto

lemma profile_update_Inr:
  assumes inv: "rs_inv L s" and rq: "profile_update rq" "rs_valid rq" "rs_owner rq = Some (i, own)"
    and run: "rs_run L goslug geo E rq s = (Inr (), s')"
    and live: "\<forall>r \<in> set (rd_restaurants s). rs_ID r = i \<longrightarrow> listed (rs_Status r)"
  shows "announces_row L E i s s'"
proof -
  note upd = owned_update [OF inv _ live]
  note rules = row_step_With row_step_update core_contact core_complete
  show ?thesis
  proof (cases rq)
    case (RqAddress i' own' input)
    then obtain resp where "UpdateAddress_Execute L goslug geo E i own input s = (Inr resp, s')"
      using run rq(3) by (auto simp: void_Inr)
    then show ?thesis
    proof (rule UpdateAddress_Inr)
      fix r lat lon tz slug r1
      let ?addr = "\<lparr> ra_House = uar_House input, ra_Street = uar_Street input, ra_PostalCode = uar_PostalCode input,
        ra_City = uar_City input \<rparr>"
      assume r: "r \<in> set (rd_restaurants s)" "rs_ID r = i"
        and s': "s' = saved L E (\<lambda>r'. [enrichUpdated L r']) r1 s" "may_save E r1 s"
        and r1: "r1 = WithCoordinates lat lon tz (WithAddress ?addr (WithSlug slug
           (NotifyUpdated (re_clock E) (CompleteChecklistItem (re_clock E) ChecklistAddress r))))"
      have ev: "rs_events r = []" and core: "restaurant_core r" and st: "listed (rs_Status r)"
        using rs_inv_row [OF inv r(1)] live r by auto
      have "row_step r r1" unfolding r1 by (intro row_step_With row_step_update ev)
      moreover have "restaurant_core r1" unfolding r1 by (rule core_address [OF core])
      moreover have "rs_events r1 = [RestaurantUpdated i (re_clock E)]"
        using listed_complete [OF st] r(2) by (simp add: r1 listed_event ev st del: complete_simps(3))
      ultimately show ?thesis using r s' unfolding announces_row_def by blast
    qed
  next
    case (RqContact i' own' input)
    then obtain resp where "UpdateContact_Execute L E i own input s = (Inr resp, s')" and e: "\<exists>y. ucr_Email input = Some y"
      using run rq by (auto simp: void_Inr)
    then show ?thesis unfolding UpdateContact_Execute_def
      by (elim upd) (auto simp: listed_event listed_complete e simp del: complete_simps(3) intro!: rules)
  next
    case (RqDelivery i' own' input)
    then obtain resp where "UpdateDelivery_Execute L E i own input s = (Inr resp, s')"
      using run rq by (auto simp: void_Inr)
    then show ?thesis unfolding UpdateDelivery_Execute_def
      by (elim upd) (auto simp: listed_event listed_complete simp del: complete_simps(3) intro!: rules)
  next
    case (RqOpeningHours i' own' input)
    then obtain resp where "UpdateOpeningHours_Execute L E i own input s = (Inr resp, s')"
      using run rq by (auto simp: void_Inr)
    then show ?thesis unfolding UpdateOpeningHours_Execute_def
      by (elim upd) (auto simp: listed_event listed_complete simp del: complete_simps(3) intro!: rules)
  next
    case (RqTags i' own' input)
    then obtain resp where tags: "UpdateTags_Execute L E i own input s = (Inr resp, s')"
      using run rq by (auto simp: void_Inr)
    show ?thesis
    proof (cases input)
      case None
      then show ?thesis using tags by (auto simp: UpdateTags_Execute_def bind_Inr)
    next
      case (Some ts)
      then have "bind (owned_restaurant E i own) (\<lambda>r. finish_update L E (WithTags ts (NotifyUpdated (re_clock E) r))) s = (Inr resp, s')"
        using tags by (simp add: UpdateTags_Execute_def)
      then show ?thesis by (elim upd) (auto simp: listed_event core_notify intro!: rules)
    qed
  qed (use rq in simp_all)
qed


text \<open>
  C8. What the owner of a live restaurant changes is what order-service charges and delivers by. In every state that
  restaurant-service reaches by requests that run one after another, every successful update of a live restaurant's profile
  puts exactly one event in the outbox, in the transaction that saves the row; whenever
  order-service, whose database works, handles the event and has no copy of the restaurant that is as new, its copy
  becomes the restaurant's new row: name, owner, email, coordinates and delivery as they are, fee and minimum order
  rounded to the two decimals that the event carries. Amounts that have two decimals arrive unchanged.
\<close>

theorem update_reaches_order:
  assumes "rs_reach L goslug geo s" "geocoder_returns geo"
    and L: "uuid_codec L" "time_codec L" "fixed_codec L"
    and rq: "profile_update rq" "rs_valid rq" "rs_owner rq = Some (i, own)"
    and run: "rs_run L goslug geo E rq s = (Inr (), s')"
    and live: "\<forall>r \<in> set (rd_restaurants s). rs_ID r = i \<longrightarrow> listed (rs_Status r)"
  shows "\<exists>r' body. filter (\<lambda>x. rs_ID x = i) (rd_restaurants s') = [r'] \<and>
    rd_outbox s' = outbox_Create (re_trace E) (NewOutboxEvent (re_clock E) i ''restaurant.updated'' body) (rd_outbox s) \<and>
    (\<forall>E' db. \<not> fault E' RestaurantUpsert \<longrightarrow> newer_than (re_clock E) (find_row r_ID i (t_restaurants db)) \<longrightarrow>
      (\<exists>db'. Dispatch (order_dispatcher L) ''restaurant.updated'' E' (Some body) db = (Inr (), db') \<and>
        find_row r_ID i (t_restaurants db') = Some (as_order_restaurant (in_cents L r')))) \<and>
    (\<forall>k m. 100 * rs_DeliveryFee r' = of_int k \<longrightarrow> 100 * rs_MinimumOrder r' = of_int m \<longrightarrow> in_cents L r' = r')"
proof -
  have inv: "rs_inv L s" by (rule rs_reach_inv [OF assms(1,2) L(1)])
  from profile_update_Inr [OF inv rq run live] obtain r r1 where r: "r \<in> set (rd_restaurants s)" "rs_ID r = i"
    and step: "row_step r r1" "restaurant_core r1" "rs_events r1 = [RestaurantUpdated i (re_clock E)]"
    and s': "s' = saved L E (\<lambda>r'. [enrichUpdated L r']) r1 s" "may_save E r1 s"
    unfolding announces_row_def by blast
  have st: "listed (rs_Status r1)" and id: "rs_ID r1 = i"
    using step(1) live r unfolding row_step_def by (auto simp: listed_def)
  let ?r = "stamp E r1"
  have core: "rs_Email r1 \<noteq> None"
    using step(2) st IsCompleted_checked [of "rs_Checklist r1" ChecklistContact]
    by (auto simp: restaurant_core_def listed_def)
  have "located r1" by (rule core_listed [OF step(2) st])
  then have live': "live ?r" using s'(2) core by (simp add: live_def may_save_def located_def)
  then obtain p where p: "NewRestaurantUpdatedPayload (rs_ID ?r) (re_clock E) ?r = Inr p"
    using updated_payload [of ?r] by (auto simp: live_def)
  have rows: "rs_rows L E [enrichUpdated L ?r] i [RestaurantUpdated i (re_clock E)] =
      [NewOutboxEvent (re_clock E) i ''restaurant.updated'' (marshal_updated L p)]"
    using p id by (simp add: rs_rows_def rs_integration_def map_filter_simps)
  have ob: "rd_outbox s' = outbox_Create (re_trace E) (NewOutboxEvent (re_clock E) i ''restaurant.updated''
      (marshal_updated L p)) (rd_outbox s)"
    using s'(1) step(3) id rows by (simp add: saved_def)
  have "filter (\<lambda>x. rs_ID x = rs_ID (stored_rs ?r)) (rd_restaurants s') = [stored_rs ?r]"
  proof (rule filter_key_single)
    have "rd_restaurants s' = save_row rs_ID (stored_rs ?r) (rd_restaurants s)" using s'(1) by (simp add: saved_def)
    then show "distinct (List.map rs_ID (rd_restaurants s'))" "stored_rs ?r \<in> set (rd_restaurants s')"
      using save_row_map_key [OF r(1), of rs_ID "stored_rs ?r"] save_row_mem [of "stored_rs ?r" rs_ID] inv r(2) id
      by (simp_all add: rs_inv_def restaurants_inv_def)
  qed
  then have row: "filter (\<lambda>x. rs_ID x = i) (rd_restaurants s') = [stored_rs ?r]" unfolding stored_rs_simps stamp_simps id .
  have copy: "as_order_restaurant (in_cents L (stored_rs ?r)) = as_order_restaurant (in_cents L ?r)"
    by (simp add: as_order_restaurant_def in_cents_def stored_rs_def)
  have "\<exists>db'. Dispatch (order_dispatcher L) ''restaurant.updated'' E' (Some (marshal_updated L p)) db = (Inr (), db') \<and>
        find_row r_ID i (t_restaurants db') = Some (as_order_restaurant (in_cents L (stored_rs ?r)))"
    if db: "\<not> fault E' RestaurantUpsert" "newer_than (re_clock E) (find_row r_ID i (t_restaurants db))" for E' db
    using updated_is_stored [OF L live' p db(1), of db] db(2) id copy by simp
  moreover have "in_cents L x = x" if "100 * rs_DeliveryFee x = of_int k" "100 * rs_MinimumOrder x = of_int m" for x k m
    using fixed2_exact [OF L(3) that(1)] fixed2_exact [OF L(3) that(2)] by (simp add: in_cents_def)
  ultimately show ?thesis using row ob by blast
qed

theorem update_reaches_order_witness:
  "\<exists>r' body. filter (\<lambda>x. rs_ID x = 5) (rd_restaurants (snd (rs_run sample_lib id sample_geocoder rs_env0
      (RqContact 5 6 sample_contact) sample_live))) = [r'] \<and>
    rd_outbox (snd (rs_run sample_lib id sample_geocoder rs_env0 (RqContact 5 6 sample_contact) sample_live)) =
      outbox_Create (re_trace rs_env0) (NewOutboxEvent (re_clock rs_env0) 5 ''restaurant.updated'' body) (rd_outbox sample_live)"
proof -
  let ?run = "rs_run sample_lib id sample_geocoder rs_env0 (RqContact 5 6 sample_contact) sample_live"
  have "\<not> isl (fst ?run)" "list_all (\<lambda>r. rs_ID r = 5 \<longrightarrow> listed (rs_Status r)) (rd_restaurants sample_live)" by code_simp+
  then have run: "?run = (Inr (), snd ?run)" and live: "\<forall>r \<in> set (rd_restaurants sample_live). rs_ID r = 5 \<longrightarrow> listed (rs_Status r)"
    by (cases ?run; cases "fst ?run"; auto simp: list_all_iff)+
  have money: "fixed_codec sample_lib" by (simp add: fixed_codec_def)
  show ?thesis
    using update_reaches_order [OF sample_reach(3,4) sample_codecs money _ _ _ run live, of 6]
    by (auto simp: sample_contact_def)
qed

end
