(* ===== verification/Search.thy ===== *)
theory Search
  imports Read_Model
begin

text \<open>
  Search-service, the side that keeps its index: the indexed data (\<open>domain/index/restaurant.go\<close>), the documents and
  scripts of Elasticsearch (\<open>infrastructure/elasticsearch/search_repository.go\<close>), and the handlers of
  restaurant-service's events (\<open>application/index\<close>) with their dispatcher (\<open>container/worker.go\<close>).
\<close>

subsection \<open>Indexed data\<close>

record GeoPoint =
  gp_Lat :: real
  gp_Lon :: real

record IndexedPizzaPrice =
  ixr_SizeID :: uuid
  ixr_DiameterCm :: int16
  ixr_Price :: string

record IndexedPizza =
  ixp_ID :: uuid
  ixp_Name :: string
  ixp_IsVegetarian :: bool
  ixp_Toppings :: "string list"
  ixp_Prices :: "IndexedPizzaPrice list"
  ixp_UpdatedAt :: time

record IndexedToppingPrice =
  ixt_ToppingID :: uuid
  ixt_Name :: string
  ixt_ExtraPrice :: string

record IndexedOpeningHours =
  ixh_Weekday :: string
  ixh_Open :: string
  ixh_Close :: string

text \<open>
  \<open>RestaurantFields\<close> are the fields that \<open>restaurant.updated\<close> carries; \<open>IndexedRestaurant\<close> has them and its
  identifier, its pizzas and topping prices. The record nests them; the code repeats them.
\<close>

record RestaurantFields =
  rf_Name :: string
  rf_Slug :: string
  rf_City :: string
  rf_Location :: GeoPoint
  rf_Timezone :: string
  rf_Currency :: string
  rf_Pickup :: bool
  rf_DeliveryType :: string
  rf_DeliveryKm :: "int16 option"
  rf_DeliveryTimeMin :: "int16 option"
  rf_DeliveryTimeMax :: "int16 option"
  rf_MinimumOrder :: real
  rf_Tags :: "string list"
  rf_OpeningHours :: "IndexedOpeningHours list"
  rf_Rating :: real
  rf_TotalReviews :: "32 word"
  rf_UpdatedAt :: time

record IndexedRestaurant =
  ixs_ID :: uuid
  ixs_Fields :: RestaurantFields
  ixs_Pizzas :: "IndexedPizza list"
  ixs_ToppingPrices :: "IndexedToppingPrice list"
  ixs_ToppingPricesUpdatedAt :: time

subsection \<open>Documents\<close>

text \<open>
  The document of a restaurant. Every document is written by \<open>UpsertSnapshot\<close>, so the scripts' test for a missing
  \<open>updatedAt\<close> never holds; a time is stored as the text that \<open>encoding/json\<close> makes of it, which \<open>Instant.parse\<close> reads
  back. A nil and an empty slice are not told apart.
\<close>

record esPizzaPrice =
  epr_sizeId :: uuid
  epr_diameterCm :: int16
  epr_price :: string

record esPizza =
  ep_id :: uuid
  ep_name :: string
  ep_isVegetarian :: bool
  ep_toppings :: "string list"
  ep_prices :: "esPizzaPrice list"
  ep_updatedAt :: time

record esToppingPrice =
  etp_toppingId :: uuid
  etp_name :: string
  etp_extraPrice :: string

record esOpeningHours =
  eh_weekday :: string
  eh_open :: string
  eh_close :: string

record esRestaurantFields =
  ef_name :: string
  ef_slug :: string
  ef_city :: string
  ef_location :: GeoPoint
  ef_timezone :: string
  ef_currency :: string
  ef_pickup :: bool
  ef_deliveryType :: string
  ef_deliveryKm :: "int16 option"
  ef_deliveryTimeMin :: "int16 option"
  ef_deliveryTimeMax :: "int16 option"
  ef_minimumOrder :: real
  ef_tags :: "string list"
  ef_openingHours :: "esOpeningHours list"
  ef_rating :: real
  ef_totalReviews :: "32 word"
  ef_updatedAt :: time

record esRestaurant =
  er_fields :: esRestaurantFields
  er_pizzas :: "esPizza list"
  er_toppingPrices :: "esToppingPrice list"
  er_toppingPricesUpdatedAt :: time

definition toESOpeningHours :: "IndexedOpeningHours list \<Rightarrow> esOpeningHours list" where
  "toESOpeningHours = List.map (\<lambda>h. \<lparr> eh_weekday = ixh_Weekday h, eh_open = ixh_Open h, eh_close = ixh_Close h \<rparr>)"

definition toIndexedOpeningHours :: "esOpeningHours list \<Rightarrow> IndexedOpeningHours list" where
  "toIndexedOpeningHours = List.map (\<lambda>h. \<lparr> ixh_Weekday = eh_weekday h, ixh_Open = eh_open h, ixh_Close = eh_close h \<rparr>)"

definition toESPizzaPrices :: "IndexedPizzaPrice list \<Rightarrow> esPizzaPrice list" where
  "toESPizzaPrices = List.map (\<lambda>p. \<lparr> epr_sizeId = ixr_SizeID p, epr_diameterCm = ixr_DiameterCm p, epr_price = ixr_Price p \<rparr>)"

definition toIndexedPizzaPrices :: "esPizzaPrice list \<Rightarrow> IndexedPizzaPrice list" where
  "toIndexedPizzaPrices = List.map (\<lambda>p. \<lparr> ixr_SizeID = epr_sizeId p, ixr_DiameterCm = epr_diameterCm p, ixr_Price = epr_price p \<rparr>)"

definition toESToppingPrices :: "IndexedToppingPrice list \<Rightarrow> esToppingPrice list" where
  "toESToppingPrices = List.map (\<lambda>p. \<lparr> etp_toppingId = ixt_ToppingID p, etp_name = ixt_Name p, etp_extraPrice = ixt_ExtraPrice p \<rparr>)"

definition toIndexedToppingPrices :: "esToppingPrice list \<Rightarrow> IndexedToppingPrice list" where
  "toIndexedToppingPrices = List.map (\<lambda>p. \<lparr> ixt_ToppingID = etp_toppingId p, ixt_Name = etp_name p, ixt_ExtraPrice = etp_extraPrice p \<rparr>)"

definition toESPizza :: "IndexedPizza \<Rightarrow> esPizza" where
  "toESPizza p = \<lparr> ep_id = ixp_ID p, ep_name = ixp_Name p, ep_isVegetarian = ixp_IsVegetarian p,
     ep_toppings = ixp_Toppings p, ep_prices = toESPizzaPrices (ixp_Prices p), ep_updatedAt = ixp_UpdatedAt p \<rparr>"

definition fromESPizza :: "esPizza \<Rightarrow> IndexedPizza" where
  "fromESPizza p = \<lparr> ixp_ID = ep_id p, ixp_Name = ep_name p, ixp_IsVegetarian = ep_isVegetarian p,
     ixp_Toppings = ep_toppings p, ixp_Prices = toIndexedPizzaPrices (ep_prices p), ixp_UpdatedAt = ep_updatedAt p \<rparr>"

definition toESRestaurantFields :: "RestaurantFields \<Rightarrow> esRestaurantFields" where
  "toESRestaurantFields f = \<lparr> ef_name = rf_Name f, ef_slug = rf_Slug f, ef_city = rf_City f, ef_location = rf_Location f,
     ef_timezone = rf_Timezone f, ef_currency = rf_Currency f, ef_pickup = rf_Pickup f,
     ef_deliveryType = rf_DeliveryType f, ef_deliveryKm = rf_DeliveryKm f, ef_deliveryTimeMin = rf_DeliveryTimeMin f,
     ef_deliveryTimeMax = rf_DeliveryTimeMax f, ef_minimumOrder = rf_MinimumOrder f, ef_tags = rf_Tags f,
     ef_openingHours = toESOpeningHours (rf_OpeningHours f), ef_rating = rf_Rating f,
     ef_totalReviews = rf_TotalReviews f, ef_updatedAt = rf_UpdatedAt f \<rparr>"

definition fromESRestaurantFields :: "esRestaurantFields \<Rightarrow> RestaurantFields" where
  "fromESRestaurantFields d = \<lparr> rf_Name = ef_name d, rf_Slug = ef_slug d, rf_City = ef_city d, rf_Location = ef_location d,
     rf_Timezone = ef_timezone d, rf_Currency = ef_currency d, rf_Pickup = ef_pickup d,
     rf_DeliveryType = ef_deliveryType d, rf_DeliveryKm = ef_deliveryKm d, rf_DeliveryTimeMin = ef_deliveryTimeMin d,
     rf_DeliveryTimeMax = ef_deliveryTimeMax d, rf_MinimumOrder = ef_minimumOrder d, rf_Tags = ef_tags d,
     rf_OpeningHours = toIndexedOpeningHours (ef_openingHours d), rf_Rating = ef_rating d,
     rf_TotalReviews = ef_totalReviews d, rf_UpdatedAt = ef_updatedAt d \<rparr>"

definition toESRestaurant :: "IndexedRestaurant \<Rightarrow> esRestaurant" where
  "toESRestaurant r = \<lparr> er_fields = toESRestaurantFields (ixs_Fields r), er_pizzas = List.map toESPizza (ixs_Pizzas r),
     er_toppingPrices = toESToppingPrices (ixs_ToppingPrices r),
     er_toppingPricesUpdatedAt = ixs_ToppingPricesUpdatedAt r \<rparr>"

definition fromESRestaurant :: "uuid \<Rightarrow> esRestaurant \<Rightarrow> IndexedRestaurant" where
  "fromESRestaurant i doc = \<lparr> ixs_ID = i, ixs_Fields = fromESRestaurantFields (er_fields doc),
     ixs_Pizzas = List.map fromESPizza (er_pizzas doc), ixs_ToppingPrices = toIndexedToppingPrices (er_toppingPrices doc),
     ixs_ToppingPricesUpdatedAt = er_toppingPricesUpdatedAt doc \<rparr>"

lemma from_to_parts [simp]:
  "toIndexedOpeningHours (toESOpeningHours hs) = hs" "toIndexedPizzaPrices (toESPizzaPrices ps) = ps"
  "toIndexedToppingPrices (toESToppingPrices ts) = ts"
  by (auto simp: toIndexedOpeningHours_def toESOpeningHours_def toIndexedPizzaPrices_def toESPizzaPrices_def
      toIndexedToppingPrices_def toESToppingPrices_def intro!: map_idI)

lemma from_to_pizza [simp]: "fromESPizza (toESPizza p) = p"
  by (simp add: fromESPizza_def toESPizza_def)

lemma from_to_fields [simp]: "fromESRestaurantFields (toESRestaurantFields f) = f"
  by (simp add: fromESRestaurantFields_def toESRestaurantFields_def)

lemma from_to_restaurant [simp]: "fromESRestaurant (ixs_ID r) (toESRestaurant r) = r"
  by (simp add: fromESRestaurant_def toESRestaurant_def o_def)

subsection \<open>The index\<close>

text \<open>
  The index \<open>restaurants\<close>: documents by the text of the restaurant's identifier. A request to Elasticsearch is
  answered, refused without effect, or carried out with its answer lost.
\<close>

record es_doc =
  sd_id :: string
  sd_source :: esRestaurant

type_synonym es_index = "es_doc list"

datatype ss_err = SsNotFound

type_synonym 'a ss_op = "(es_index, ss_err, 'a) op"

datatype es_answer = Answered | Refused | AnswerLost

datatype es_site = EsUpdate | EsGet | EsSearch | EsGeocodeGet | EsGeocodeIndex

record ss_env =
  se_answer :: "es_site \<Rightarrow> es_answer"

text \<open>\<open>UnixMilli\<close>, and \<open>toEpochMilli\<close> of a stored instant: both round down.\<close>

definition UnixMilli :: "time \<Rightarrow> int" where
  "UnixMilli t = t div 1000000"

text \<open>
  The scripts are functions on the document; \<open>None\<close> stands for \<open>ctx.op = 'noop'\<close>. The loops that look for the index of
  the pizza stop at the first match.
\<close>

type_synonym es_script = "esRestaurant \<Rightarrow> esRestaurant option"

definition upsertSnapshotScript :: "esRestaurant \<Rightarrow> int \<Rightarrow> es_script" where
  "upsertSnapshotScript doc updatedAtMillis source =
     (if UnixMilli (ef_updatedAt (er_fields source)) < updatedAtMillis then Some doc else None)"

definition updateFieldsScript :: "esRestaurantFields \<Rightarrow> int \<Rightarrow> es_script" where
  "updateFieldsScript doc updatedAtMillis source =
     (if UnixMilli (ef_updatedAt (er_fields source)) < updatedAtMillis then Some (source\<lparr> er_fields := doc \<rparr>) else None)"

definition toppingPricesUpdateScript :: "esToppingPrice list \<Rightarrow> time \<Rightarrow> int \<Rightarrow> es_script" where
  "toppingPricesUpdateScript toppingPrices updatedAt updatedAtMillis source =
     (if UnixMilli (er_toppingPricesUpdatedAt source) < updatedAtMillis
      then Some (source\<lparr> er_toppingPrices := toppingPrices, er_toppingPricesUpdatedAt := updatedAt \<rparr>) else None)"

fun replace_pizza :: "esPizza \<Rightarrow> int \<Rightarrow> esPizza list \<Rightarrow> esPizza list option" where
  "replace_pizza p millis [] = Some [p]"
| "replace_pizza p millis (q # qs) =
     (if ep_id q = ep_id p then (if UnixMilli (ep_updatedAt q) < millis then Some (p # qs) else None)
      else map_option ((#) q) (replace_pizza p millis qs))"

fun drop_pizza :: "uuid \<Rightarrow> int \<Rightarrow> esPizza list \<Rightarrow> esPizza list option" where
  "drop_pizza i millis [] = None"
| "drop_pizza i millis (q # qs) =
     (if ep_id q = i then (if UnixMilli (ep_updatedAt q) < millis then Some qs else None)
      else map_option ((#) q) (drop_pizza i millis qs))"

definition pizzaUpsertScript :: "esPizza \<Rightarrow> int \<Rightarrow> es_script" where
  "pizzaUpsertScript p millis source =
     map_option (\<lambda>ps. source\<lparr> er_pizzas := ps \<rparr>) (replace_pizza p millis (er_pizzas source))"

definition pizzaRemoveScript :: "uuid \<Rightarrow> int \<Rightarrow> es_script" where
  "pizzaRemoveScript i millis source =
     map_option (\<lambda>ps. source\<lparr> er_pizzas := ps \<rparr>) (drop_pizza i millis (er_pizzas source))"

text \<open>
  \<open>es.Update\<close>: the script on the document, or the document \<open>upsert\<close> where there is none; without one a missing
  document is an error (404).
\<close>

definition apply_update :: "string \<Rightarrow> es_script \<Rightarrow> esRestaurant option \<Rightarrow> es_index \<Rightarrow> es_index option" where
  "apply_update key script upsert ix = (case find_row sd_id key ix of
     Some d \<Rightarrow> (case script (sd_source d) of
         None \<Rightarrow> Some ix
       | Some source \<Rightarrow> Some (update_where (\<lambda>x. sd_id x = key) (\<lambda>x. x\<lparr> sd_source := source \<rparr>) ix))
   | None \<Rightarrow> map_option (\<lambda>source. ix @ [\<lparr> sd_id = key, sd_source = source \<rparr>]) upsert)"

definition es_Update :: "ss_env \<Rightarrow> string \<Rightarrow> es_script \<Rightarrow> esRestaurant option \<Rightarrow> unit ss_op" where
  "es_Update E key script upsert ix =
     (case se_answer E EsUpdate of
        Refused \<Rightarrow> (Inl [], ix)
      | answer \<Rightarrow> (case apply_update key script upsert ix of
           None \<Rightarrow> (Inl [], ix)
         | Some ix' \<Rightarrow> (if answer = AnswerLost then Inl [] else Inr (), ix')))"

definition UpsertSnapshot :: "'d lib \<Rightarrow> ss_env \<Rightarrow> IndexedRestaurant \<Rightarrow> unit ss_op" where
  "UpsertSnapshot L E r =
     (let doc = toESRestaurant r in
      es_Update E (uuidString L (ixs_ID r)) (upsertSnapshotScript doc (UnixMilli (rf_UpdatedAt (ixs_Fields r)))) (Some doc))"

definition UpdateFields :: "'d lib \<Rightarrow> ss_env \<Rightarrow> uuid \<Rightarrow> RestaurantFields \<Rightarrow> unit ss_op" where
  "UpdateFields L E i f =
     es_Update E (uuidString L i) (updateFieldsScript (toESRestaurantFields f) (UnixMilli (rf_UpdatedAt f))) None"

definition UpsertPizza :: "'d lib \<Rightarrow> ss_env \<Rightarrow> uuid \<Rightarrow> IndexedPizza \<Rightarrow> unit ss_op" where
  "UpsertPizza L E restaurantID p =
     es_Update E (uuidString L restaurantID) (pizzaUpsertScript (toESPizza p) (UnixMilli (ixp_UpdatedAt p))) None"

definition RemovePizza :: "'d lib \<Rightarrow> ss_env \<Rightarrow> uuid \<Rightarrow> uuid \<Rightarrow> time \<Rightarrow> unit ss_op" where
  "RemovePizza L E restaurantID pizzaID updatedAt =
     es_Update E (uuidString L restaurantID) (pizzaRemoveScript pizzaID (UnixMilli updatedAt)) None"

definition UpdateToppingPrices :: "'d lib \<Rightarrow> ss_env \<Rightarrow> uuid \<Rightarrow> IndexedToppingPrice list \<Rightarrow> time \<Rightarrow> unit ss_op" where
  "UpdateToppingPrices L E restaurantID prices updatedAt =
     es_Update E (uuidString L restaurantID)
       (toppingPricesUpdateScript (toESToppingPrices prices) updatedAt (UnixMilli updatedAt)) None"

definition ss_FindByID :: "'d lib \<Rightarrow> ss_env \<Rightarrow> uuid \<Rightarrow> es_index \<Rightarrow> (ss_err, IndexedRestaurant) result" where
  "ss_FindByID L E i ix =
     (if se_answer E EsGet \<noteq> Answered then Inl []
      else case find_row sd_id (uuidString L i) ix of
        None \<Rightarrow> Inl [SsNotFound]
      | Some d \<Rightarrow> Inr (fromESRestaurant i (sd_source d)))"

end
