(* ===== verification/Search_Events.thy ===== *)
theory Search_Events
  imports Search
begin

text \<open>
  The payloads of restaurant-service's events as search-service reads them, and their handlers
  (\<open>application/index\<close>). The shapes of prices and topping prices are those order-service reads as well, so their
  decoders of \<open>Read_Model\<close> stand for both.
\<close>

subsection \<open>Numbers\<close>

text \<open>
  \<open>strconv.ParseFloat\<close> on plain decimal numerals. A text it refuses gives 0, since the callers ignore the error.
  Exponents, hexadecimal numerals, infinities and NaN are left out: they give 0 here.
\<close>

definition is_digit :: "char \<Rightarrow> bool" where
  "is_digit c \<longleftrightarrow> 48 \<le> (of_char c :: nat) \<and> (of_char c :: nat) \<le> 57"

definition digits_value :: "string \<Rightarrow> nat" where
  "digits_value s = foldl (\<lambda>n c. 10 * n + (of_char c - 48)) 0 s"

definition ParseFloat :: "string \<Rightarrow> real" where
  "ParseFloat s =
     (let sign = (if s \<noteq> [] \<and> hd s = CHR ''-'' then - 1 else 1);
          body = (if s \<noteq> [] \<and> hd s \<in> {CHR ''-'', CHR ''+''} then tl s else s);
          whole = takeWhile (\<lambda>c. c \<noteq> CHR ''.'') body;
          fraction = tl (dropWhile (\<lambda>c. c \<noteq> CHR ''.'') body) in
      if whole @ fraction = [] \<or> \<not> list_all is_digit (whole @ fraction) then 0
      else sign * of_nat (digits_value (whole @ fraction)) / 10 ^ length fraction)"

definition dec_int32 :: "json \<Rightarrow> (32 word) option" where
  "dec_int32 j = (case j of
     JNull \<Rightarrow> Some 0
   | JInt i \<Rightarrow> if - 2147483648 \<le> i \<and> i \<le> 2147483647 then Some (word_of_int i) else None
   | _ \<Rightarrow> None)"

definition dec_float_ptr :: "json \<Rightarrow> real option option" where
  "dec_float_ptr j = (case j of JNull \<Rightarrow> Some None | _ \<Rightarrow> map_option Some (dec_float j))"

subsection \<open>Payloads\<close>

record wireOpeningHours =
  wh_Monday :: "(string \<times> string) list"
  wh_Tuesday :: "(string \<times> string) list"
  wh_Wednesday :: "(string \<times> string) list"
  wh_Thursday :: "(string \<times> string) list"
  wh_Friday :: "(string \<times> string) list"
  wh_Saturday :: "(string \<times> string) list"
  wh_Sunday :: "(string \<times> string) list"

definition dec_day_range :: "json \<Rightarrow> (string \<times> string) option" where
  "dec_day_range j =
     (if \<not> is_struct j then None
      else case (dec_str (member j ''open''), dec_str (member j ''close'')) of
        (Some opening, Some closing) \<Rightarrow> Some (opening, closing) | _ \<Rightarrow> None)"

definition dec_hours :: "json \<Rightarrow> wireOpeningHours option" where
  "dec_hours j =
     (let day = \<lambda>key. dec_list dec_day_range (member j key) in
      if \<not> is_struct j then None
      else case (day ''monday'', day ''tuesday'', day ''wednesday'', day ''thursday'', day ''friday'', day ''saturday'',
                 day ''sunday'') of
        (Some mo, Some tu, Some we, Some th, Some fr, Some sa, Some su) \<Rightarrow>
          Some \<lparr> wh_Monday = mo, wh_Tuesday = tu, wh_Wednesday = we, wh_Thursday = th, wh_Friday = fr,
                 wh_Saturday = sa, wh_Sunday = su \<rparr>
      | _ \<Rightarrow> None)"

definition flattenOpeningHours :: "wireOpeningHours \<Rightarrow> IndexedOpeningHours list" where
  "flattenOpeningHours w =
     concat (List.map (\<lambda>(weekday, ranges).
         List.map (\<lambda>(opening, closing). \<lparr> ixh_Weekday = weekday, ixh_Open = opening, ixh_Close = closing \<rparr>) ranges)
       [(''monday'', wh_Monday w), (''tuesday'', wh_Tuesday w), (''wednesday'', wh_Wednesday w),
        (''thursday'', wh_Thursday w), (''friday'', wh_Friday w), (''saturday'', wh_Saturday w), (''sunday'', wh_Sunday w)])"

record deliveryWire =
  dw_Type :: string
  dw_RadiusKm :: "int16 option"
  dw_EstimatedMinutesMin :: "int16 option"
  dw_EstimatedMinutesMax :: "int16 option"
  dw_MinimumOrder :: string

definition dec_delivery :: "json \<Rightarrow> deliveryWire option" where
  "dec_delivery d =
     (if \<not> is_struct d then None
      else case (dec_str (member d ''type''), dec_int16_ptr (member d ''radiusKm''),
                 dec_int16_ptr (member d ''estimatedMinutesMin''), dec_int16_ptr (member d ''estimatedMinutesMax''),
                 dec_str (member d ''minimumOrder'')) of
        (Some ty, Some radius, Some lo, Some hi, Some minimum) \<Rightarrow>
          Some \<lparr> dw_Type = ty, dw_RadiusKm = radius, dw_EstimatedMinutesMin = lo, dw_EstimatedMinutesMax = hi,
                 dw_MinimumOrder = minimum \<rparr>
      | _ \<Rightarrow> None)"

text \<open>
  The part that \<open>restaurant.launched\<close> and \<open>restaurant.updated\<close> share: \<open>slug\<close>, \<open>lat\<close> and \<open>lon\<close> are pointers in the first and
  plain fields in the second, where \<open>null\<close> and a missing key give the zero value.
\<close>

record restaurantWire =
  rw_RestaurantID :: uuid
  rw_RestaurantName :: string
  rw_UpdatedAt :: time
  rw_Slug :: "string option"
  rw_City :: string
  rw_Lat :: "real option"
  rw_Lon :: "real option"
  rw_Timezone :: string
  rw_Delivery :: deliveryWire
  rw_Currency :: string
  rw_Rating :: real
  rw_TotalReviews :: "32 word"
  rw_Pickup :: bool
  rw_Tags :: "string list"
  rw_OpeningHours :: wireOpeningHours

definition dec_city :: "json \<Rightarrow> string option" where
  "dec_city a = (if \<not> is_struct a then None else dec_str (member a ''city''))"

definition restaurantUpdatedPayload :: "'d lib \<Rightarrow> json \<Rightarrow> restaurantWire option" where
  "restaurantUpdatedPayload L j =
     (if \<not> is_struct j then None
      else case ((dec_uuid L (member j ''restaurant_id''), dec_str (member j ''restaurant_name''),
                  dec_time L (member j ''updated_at''), dec_str_ptr (member j ''slug''), dec_city (member j ''address'')),
                 (dec_float_ptr (member j ''lat''), dec_float_ptr (member j ''lon''), dec_str (member j ''timezone''),
                  dec_delivery (member j ''delivery''), dec_str (member j ''currency'')),
                 (dec_float (member j ''rating''), dec_int32 (member j ''total_reviews''), dec_bool (member j ''pickup''),
                  dec_list dec_str (member j ''tags''), dec_hours (member j ''opening_hours''))) of
        ((Some i, Some name, Some updatedAt, Some slug, Some city), (Some lat, Some lon, Some tz, Some delivery, Some currency),
         (Some rating, Some reviews, Some pickup, Some tags, Some hours)) \<Rightarrow>
          Some \<lparr> rw_RestaurantID = i, rw_RestaurantName = name, rw_UpdatedAt = updatedAt, rw_Slug = slug, rw_City = city,
                 rw_Lat = lat, rw_Lon = lon, rw_Timezone = tz, rw_Delivery = delivery, rw_Currency = currency,
                 rw_Rating = rating, rw_TotalReviews = reviews, rw_Pickup = pickup, rw_Tags = tags, rw_OpeningHours = hours \<rparr>
      | _ \<Rightarrow> None)"

record pizzaWire =
  pw_ID :: uuid
  pw_Name :: string
  pw_IsVegetarian :: bool
  pw_Status :: string
  pw_Prices :: "pizzaPriceWire list"
  pw_Toppings :: "string list"

definition dec_topping_name :: "json \<Rightarrow> string option" where
  "dec_topping_name j = (if \<not> is_struct j then None else dec_str (member j ''name''))"

text \<open>The pizza of a \<open>restaurant.pizza_updated\<close>; those of a \<open>restaurant.launched\<close> are read without their status.\<close>

definition dec_pizza_wire :: "'d lib \<Rightarrow> bool \<Rightarrow> json \<Rightarrow> pizzaWire option" where
  "dec_pizza_wire L with_status p =
     (if \<not> is_struct p then None
      else case (dec_uuid L (member p ''id''), dec_str (member p ''name''), dec_bool (member p ''isVegetarian''),
                 (if with_status then dec_str (member p ''status'') else Some ''''),
                 dec_list (dec_price_wire L) (member p ''prices''), dec_list dec_topping_name (member p ''toppings'')) of
        (Some i, Some name, Some vegetarian, Some status, Some prices, Some toppings) \<Rightarrow>
          Some \<lparr> pw_ID = i, pw_Name = name, pw_IsVegetarian = vegetarian, pw_Status = status, pw_Prices = prices,
                 pw_Toppings = toppings \<rparr>
      | _ \<Rightarrow> None)"

definition restaurantLaunchedPayload ::
  "'d lib \<Rightarrow> json \<Rightarrow> (restaurantWire \<times> pizzaWire list \<times> toppingPriceWire list) option" where
  "restaurantLaunchedPayload L j =
     (case (restaurantUpdatedPayload L j, dec_list (dec_pizza_wire L False) (member j ''pizzas''),
            dec_list (dec_topping_wire L) (member j ''topping_prices'')) of
        (Some r, Some pizzas, Some toppings) \<Rightarrow> Some (r, pizzas, toppings)
      | _ \<Rightarrow> None)"

record pizzaUpdatedPayload_ss =
  pus_RestaurantID :: uuid
  pus_UpdatedAt :: time
  pus_Pizza :: pizzaWire

definition unmarshal_pizza_updated_ss :: "'d lib \<Rightarrow> json \<Rightarrow> pizzaUpdatedPayload_ss option" where
  "unmarshal_pizza_updated_ss L j =
     (if \<not> is_struct j then None
      else case (dec_uuid L (member j ''restaurant_id''), dec_time L (member j ''updated_at''),
                 dec_pizza_wire L True (member j ''pizza'')) of
        (Some i, Some updatedAt, Some p) \<Rightarrow> Some \<lparr> pus_RestaurantID = i, pus_UpdatedAt = updatedAt, pus_Pizza = p \<rparr>
      | _ \<Rightarrow> None)"

definition unmarshal_toppings_updated_ss :: "'d lib \<Rightarrow> json \<Rightarrow> (uuid \<times> toppingPriceWire list \<times> time) option" where
  "unmarshal_toppings_updated_ss L j =
     (if \<not> is_struct j then None
      else case (dec_uuid L (member j ''restaurant_id''), dec_list (dec_topping_wire L) (member j ''topping_prices''),
                 dec_time L (member j ''updated_at'')) of
        (Some i, Some prices, Some updatedAt) \<Rightarrow> Some (i, prices, updatedAt)
      | _ \<Rightarrow> None)"

subsection \<open>Handlers\<close>

definition active_prices :: "pizzaPriceWire list \<Rightarrow> IndexedPizzaPrice list" where
  "active_prices prices = List.map (\<lambda>p. \<lparr> ixr_SizeID = ppw_SizeID p, ixr_DiameterCm = ppw_DiameterCm p,
     ixr_Price = ppw_Price p \<rparr>) (filter ppw_IsActive prices)"

definition indexed_pizza :: "time \<Rightarrow> pizzaWire \<Rightarrow> IndexedPizza" where
  "indexed_pizza updatedAt p = \<lparr> ixp_ID = pw_ID p, ixp_Name = pw_Name p, ixp_IsVegetarian = pw_IsVegetarian p,
     ixp_Toppings = pw_Toppings p, ixp_Prices = active_prices (pw_Prices p), ixp_UpdatedAt = updatedAt \<rparr>"

definition toIndexedPizza :: "pizzaUpdatedPayload_ss \<Rightarrow> IndexedPizza" where
  "toIndexedPizza p = indexed_pizza (pus_UpdatedAt p) (pus_Pizza p)"

definition indexed_toppings :: "toppingPriceWire list \<Rightarrow> IndexedToppingPrice list" where
  "indexed_toppings = List.map (\<lambda>t. \<lparr> ixt_ToppingID = tpw_ToppingID t, ixt_Name = tpw_Name t, ixt_ExtraPrice = tpw_ExtraPrice t \<rparr>)"

text \<open>A pointer that is nil becomes the zero value, by the decoding or by the mapping.\<close>

definition toRestaurantFields :: "restaurantWire \<Rightarrow> RestaurantFields" where
  "toRestaurantFields p =
   \<lparr> rf_Name = rw_RestaurantName p, rf_Slug = (case rw_Slug p of None \<Rightarrow> '''' | Some s \<Rightarrow> s), rf_City = rw_City p,
     rf_Location = \<lparr> gp_Lat = (case rw_Lat p of None \<Rightarrow> 0 | Some x \<Rightarrow> x), gp_Lon = (case rw_Lon p of None \<Rightarrow> 0 | Some x \<Rightarrow> x) \<rparr>,
     rf_Timezone = rw_Timezone p, rf_Currency = rw_Currency p, rf_Pickup = rw_Pickup p,
     rf_DeliveryType = dw_Type (rw_Delivery p), rf_DeliveryKm = dw_RadiusKm (rw_Delivery p),
     rf_DeliveryTimeMin = dw_EstimatedMinutesMin (rw_Delivery p),
     rf_DeliveryTimeMax = dw_EstimatedMinutesMax (rw_Delivery p),
     rf_MinimumOrder = ParseFloat (dw_MinimumOrder (rw_Delivery p)), rf_Tags = rw_Tags p,
     rf_OpeningHours = flattenOpeningHours (rw_OpeningHours p), rf_Rating = rw_Rating p,
     rf_TotalReviews = rw_TotalReviews p, rf_UpdatedAt = rw_UpdatedAt p \<rparr>"

text \<open>The pizzas and the topping prices of a snapshot have the zero time.\<close>

definition toIndexedRestaurant :: "restaurantWire \<Rightarrow> pizzaWire list \<Rightarrow> toppingPriceWire list \<Rightarrow> IndexedRestaurant" where
  "toIndexedRestaurant p pizzas toppings =
   \<lparr> ixs_ID = rw_RestaurantID p, ixs_Fields = toRestaurantFields p,
     ixs_Pizzas = List.map (indexed_pizza zero_time) pizzas, ixs_ToppingPrices = indexed_toppings toppings,
     ixs_ToppingPricesUpdatedAt = zero_time \<rparr>"

type_synonym ss_handler = "ss_env \<Rightarrow> json option \<Rightarrow> unit ss_op"

definition UpsertSnapshot_Handle :: "'d lib \<Rightarrow> ss_handler" where
  "UpsertSnapshot_Handle L E body = (case Option.bind body (restaurantLaunchedPayload L) of
     None \<Rightarrow> fail []
   | Some (p, pizzas, toppings) \<Rightarrow>
       if rw_Lat p = None \<or> rw_Lon p = None then fail []
       else UpsertSnapshot L E (toIndexedRestaurant p pizzas toppings))"

definition UpdateRestaurantFields_Handle :: "'d lib \<Rightarrow> ss_handler" where
  "UpdateRestaurantFields_Handle L E body = (case Option.bind body (restaurantUpdatedPayload L) of
     None \<Rightarrow> fail []
   | Some p \<Rightarrow> UpdateFields L E (rw_RestaurantID p) (toRestaurantFields p))"

definition hasActivePrice_ss :: "pizzaWire \<Rightarrow> bool" where
  "hasActivePrice_ss p \<longleftrightarrow> list_ex ppw_IsActive (pw_Prices p)"

definition SyncPizza_Handle_ss :: "'d lib \<Rightarrow> ss_handler" where
  "SyncPizza_Handle_ss L E body = (case Option.bind body (unmarshal_pizza_updated_ss L) of
     None \<Rightarrow> fail []
   | Some p \<Rightarrow>
       if pw_Status (pus_Pizza p) = ''archived'' \<or> \<not> hasActivePrice_ss (pus_Pizza p)
       then RemovePizza L E (pus_RestaurantID p) (pw_ID (pus_Pizza p)) (pus_UpdatedAt p)
       else UpsertPizza L E (pus_RestaurantID p) (toIndexedPizza p))"

definition SyncToppingPrices_Handle_ss :: "'d lib \<Rightarrow> ss_handler" where
  "SyncToppingPrices_Handle_ss L E body = (case Option.bind body (unmarshal_toppings_updated_ss L) of
     None \<Rightarrow> fail []
   | Some (i, prices, updatedAt) \<Rightarrow> UpdateToppingPrices L E i (indexed_toppings prices) updatedAt)"

definition ss_Dispatch :: "'d lib \<Rightarrow> string \<Rightarrow> ss_handler" where
  "ss_Dispatch L name E body =
     (if name = ''restaurant.topping_prices_updated'' then SyncToppingPrices_Handle_ss L E body
      else if name = ''restaurant.pizza_updated'' then SyncPizza_Handle_ss L E body
      else if name = ''restaurant.updated'' then UpdateRestaurantFields_Handle L E body
      else if name = ''restaurant.launched'' then UpsertSnapshot_Handle L E body
      else fail [])"

end
