(* ===== verification/Search_Index.thy ===== *)
theory Search_Index
  imports Search_Events
begin

text \<open>
  What search-service's index converges to when messages are redelivered and reordered. A document is three
  tables of versioned rows in one: the restaurant's fields, its topping prices and its pizzas, each guarded by
  a time of its own, compared in milliseconds.
\<close>

subsection \<open>Versioned rows as maps\<close>

definition put_newer :: "('r \<Rightarrow> 'k) \<Rightarrow> ('r \<Rightarrow> time) \<Rightarrow> 'r \<Rightarrow> ('k \<rightharpoonup> 'r) \<Rightarrow> ('k \<rightharpoonup> 'r)" where
  "put_newer key ts r t = t(key r := newer ts r (t (key r)))"

interpretation row_map: versioned_rows "\<lambda>t k. t k" "put_newer key ts" key ts
  for key :: "'r \<Rightarrow> 'k" and ts :: "'r \<Rightarrow> time"
  by unfold_locales (simp add: put_newer_def)

subsection \<open>Deliveries\<close>

fun ss_deliver :: "'d lib \<Rightarrow> (ss_env \<times> message) list \<Rightarrow> es_index \<Rightarrow> message list \<times> es_index" where
  "ss_deliver L [] ix = ([], ix)"
| "ss_deliver L ((E, m) # ds) ix =
     (case ss_Dispatch L (fst m) E (snd m) ix of
        (r, ix1) \<Rightarrow> (case ss_deliver L ds ix1 of
           (handled, ix2) \<Rightarrow> (if isl r then handled else m # handled, ix2)))"

text \<open>
  \<open>carries look put P m rows\<close>: as far as \<open>look\<close> goes, in a state with \<open>P\<close> the operation does all the writes \<open>rows\<close> or
  none, all of them when it succeeds, and keeps \<open>P\<close>.
\<close>

definition carries ::
  "('s \<Rightarrow> ('k \<rightharpoonup> 'r)) \<Rightarrow> ('r \<Rightarrow> ('k \<rightharpoonup> 'r) \<Rightarrow> ('k \<rightharpoonup> 'r)) \<Rightarrow> ('s \<Rightarrow> bool) \<Rightarrow> ('s, 'e, 'a) op \<Rightarrow> 'r list \<Rightarrow> bool" where
  "carries look put P m rows \<longleftrightarrow> (\<forall>s. P s \<longrightarrow> P (snd (m s)) \<and>
     (look (snd (m s)) = fold put rows (look s) \<or> isl (fst (m s)) \<and> look (snd (m s)) = look s))"

lemma ss_deliver_carries:
  assumes "\<And>E m. m \<in> M \<Longrightarrow> carries look put P (ss_Dispatch L (fst m) E (snd m)) (rows m)"
  shows "ss_deliver L ds s = (handled, s') \<Longrightarrow> snd ` set ds \<subseteq> M \<Longrightarrow> P s \<Longrightarrow> P s' \<and> (\<exists>ws. look s' = fold put ws (look s) \<and>
    (\<Union>m \<in> set handled. set (rows m)) \<subseteq> set ws \<and> set ws \<subseteq> (\<Union>m \<in> snd ` set ds. set (rows m)))"
proof (induction ds arbitrary: s handled)
  case Nil
  then show ?case by (auto intro: exI [of _ "[]"])
next
  case (Cons d ds)
  obtain E m where d: "d = (E, m)" by (cases d)
  obtain r s1 where step: "ss_Dispatch L (fst m) E (snd m) s = (r, s1)" by fastforce
  obtain handled1 where tail: "ss_deliver L ds s1 = (handled1, s')"
    and handled: "handled = (if isl r then handled1 else m # handled1)"
    using Cons.prems(1) step d by (auto split: prod.splits)
  have here: "P s1 \<and> (look s1 = fold put (rows m) (look s) \<or> isl r \<and> look s1 = look s)"
    using assms [of m E] Cons.prems step d unfolding carries_def by (metis fst_conv image_subset_iff list.set_intros(1) snd_conv)
  obtain ws where ws: "look s' = fold put ws (look s1)" "(\<Union>m \<in> set handled1. set (rows m)) \<subseteq> set ws"
      "set ws \<subseteq> (\<Union>m \<in> snd ` set ds. set (rows m))" and P: "P s'"
    using Cons.IH [OF tail] here Cons.prems(2) by auto
  show ?case
  proof (cases "isl r \<and> look s1 = look s")
    case True
    then have "look s' = fold put ws (look s)" "(\<Union>m \<in> set handled. set (rows m)) \<subseteq> set ws"
      "set ws \<subseteq> (\<Union>m \<in> snd ` set (d # ds). set (rows m))" using ws d handled by auto
    then show ?thesis using P by blast
  next
    case False
    then have "look s' = fold put (rows m @ ws) (look s)" "(\<Union>m \<in> set handled. set (rows m)) \<subseteq> set (rows m @ ws)"
      "set (rows m @ ws) \<subseteq> (\<Union>m \<in> snd ` set (d # ds). set (rows m))" using here ws d handled by auto
    then show ?thesis using P by blast
  qed
qed

lemma ss_deliveries_agree:
  assumes "\<And>E m. m \<in> snd ` set ds \<Longrightarrow> carries look (put_newer key ts) P (ss_Dispatch L (fst m) E (snd m)) (rows m)" "P s"
    and runs: "ss_deliver L ds s = (handled, s1)" "ss_deliver L ds' s = (handled', s2)"
    and all: "set handled = snd ` set ds" "set handled' = snd ` set ds'" "snd ` set ds = snd ` set ds'"
    and versions: "consistent_versions key ts (\<Union>m \<in> snd ` set ds. set (rows m))"
  shows "P s1 \<and> P s2 \<and> look s1 k = look s2 k \<and>
    (\<forall>m \<in> snd ` set ds. \<forall>row \<in> set (rows m). \<exists>r. look s1 (key row) = Some r \<and> ts row \<le> ts r)"
proof -
  obtain ws where ws: "look s1 = fold (put_newer key ts) ws (look s)" "set ws = (\<Union>m \<in> snd ` set ds. set (rows m))" and P1: "P s1"
    using ss_deliver_carries [OF assms(1) runs(1) subset_refl assms(2)] all(1) by blast
  obtain ws' where ws': "look s2 = fold (put_newer key ts) ws' (look s)" "set ws' = (\<Union>m \<in> snd ` set ds. set (rows m))" and P2: "P s2"
    using ss_deliver_carries [OF assms(1) runs(2) _ assms(2)] all by (metis subset_antisym subset_refl)
  have same: "look s1 k = look s2 k"
    unfolding ws(1) ws'(1)
    by (rule row_map.redelivery_irrelevant) (use ws ws' versions in \<open>auto simp: consistent_versions_def\<close>)
  have "\<exists>r. look s1 (key row) = Some r \<and> ts row \<le> ts r" if "m \<in> snd ` set ds" "row \<in> set (rows m)" for m row
    unfolding ws(1) by (rule row_map.stored_newest) (use that ws in blast)
  then show ?thesis using same P1 P2 by blast
qed

subsection \<open>What a message writes\<close>

definition message_snapshot :: "'d lib \<Rightarrow> message \<Rightarrow> IndexedRestaurant option" where
  "message_snapshot L m = (if fst m \<noteq> ''restaurant.launched'' then None
     else case Option.bind (snd m) (restaurantLaunchedPayload L) of
       Some (p, pizzas, toppings) \<Rightarrow>
         if rw_Lat p = None \<or> rw_Lon p = None then None else Some (toIndexedRestaurant p pizzas toppings)
     | None \<Rightarrow> None)"

definition message_pizza :: "'d lib \<Rightarrow> message \<Rightarrow> pizzaUpdatedPayload_ss option" where
  "message_pizza L m = (if fst m \<noteq> ''restaurant.pizza_updated'' then None
     else Option.bind (snd m) (unmarshal_pizza_updated_ss L))"

definition sellable :: "pizzaUpdatedPayload_ss \<Rightarrow> bool" where
  "sellable p \<longleftrightarrow> pw_Status (pus_Pizza p) \<noteq> ''archived'' \<and> hasActivePrice_ss (pus_Pizza p)"

type_synonym topping_state = "esToppingPrice list \<times> time"

text \<open>The rows for the document \<open>key\<close>.\<close>

definition field_rows :: "'d lib \<Rightarrow> string \<Rightarrow> message \<Rightarrow> esRestaurantFields list" where
  "field_rows L key m = (if fst m \<noteq> ''restaurant.updated'' then []
     else case Option.bind (snd m) (restaurantUpdatedPayload L) of
       Some p \<Rightarrow> if uuidString L (rw_RestaurantID p) = key then [toESRestaurantFields (toRestaurantFields p)] else []
     | None \<Rightarrow> [])"

definition topping_rows :: "'d lib \<Rightarrow> string \<Rightarrow> message \<Rightarrow> topping_state list" where
  "topping_rows L key m = (if fst m \<noteq> ''restaurant.topping_prices_updated'' then []
     else case Option.bind (snd m) (unmarshal_toppings_updated_ss L) of
       Some (i, prices, t) \<Rightarrow> if uuidString L i = key then [(toESToppingPrices (indexed_toppings prices), t)] else []
     | None \<Rightarrow> [])"

definition pizza_rows :: "'d lib \<Rightarrow> string \<Rightarrow> message \<Rightarrow> esPizza list" where
  "pizza_rows L key m = (case message_pizza L m of
       Some p \<Rightarrow> if uuidString L (pus_RestaurantID p) = key then [toESPizza (toIndexedPizza p)] else []
     | None \<Rightarrow> [])"

subsection \<open>What an update does to a document\<close>

abbreviation source_of :: "string \<Rightarrow> es_index \<Rightarrow> esRestaurant option" where
  "source_of key ix \<equiv> map_option sd_source (find_row sd_id key ix)"

definition scripted :: "es_script \<Rightarrow> esRestaurant \<Rightarrow> esRestaurant" where
  "scripted script source = (case script source of None \<Rightarrow> source | Some source' \<Rightarrow> source')"

lemma apply_update_source:
  assumes "apply_update key script upsert ix = Some ix'"
  shows "source_of k ix' = (if k \<noteq> key then source_of k ix else case source_of k ix of
       None \<Rightarrow> upsert | Some source \<Rightarrow> Some (scripted script source))"
proof -
  have key: "find_row sd_id k ix = Some d \<Longrightarrow> sd_id d = k" for k d by (auto dest: find_row_Some)
  show ?thesis
    using assms by (cases "find_row sd_id k ix")
      (auto simp: apply_update_def find_row_update_key scripted_def key split: option.splits if_splits)
qed

lemma es_Update_source:
  assumes "es_Update E key script upsert ix = (r, ix')" "source_of k ix = Some source"
  shows "ix' = ix \<and> isl r \<or> source_of k ix' = Some (if k = key then scripted script source else source)"
proof (cases "se_answer E EsUpdate = Refused \<or> apply_update key script upsert ix = None")
  case True
  then show ?thesis using assms by (auto simp: es_Update_def split: es_answer.splits)
next
  case False
  then obtain ix1 where app: "apply_update key script upsert ix = Some ix1" by auto
  have "ix' = ix1" using assms False app by (auto simp: es_Update_def split: es_answer.splits)
  then show ?thesis using apply_update_source [OF app, of k] assms(2) by auto
qed

text \<open>The document \<open>key\<close> after the message \<open>m\<close>, if it was there before.\<close>

definition document_after :: "'d lib \<Rightarrow> string \<Rightarrow> message \<Rightarrow> esRestaurant \<Rightarrow> esRestaurant" where
  "document_after L key m source =
     (case message_snapshot L m of
        Some r \<Rightarrow> if uuidString L (ixs_ID r) = key
          then scripted (upsertSnapshotScript (toESRestaurant r) (UnixMilli (rf_UpdatedAt (ixs_Fields r)))) source else source
      | None \<Rightarrow>
     (case message_pizza L m of
        Some p \<Rightarrow> if uuidString L (pus_RestaurantID p) = key
          then scripted (if sellable p then pizzaUpsertScript (toESPizza (toIndexedPizza p)) (UnixMilli (pus_UpdatedAt p))
            else pizzaRemoveScript (pw_ID (pus_Pizza p)) (UnixMilli (pus_UpdatedAt p))) source else source
      | None \<Rightarrow>
          fold (\<lambda>(prices, t). scripted (toppingPricesUpdateScript prices t (UnixMilli t))) (topping_rows L key m)
            (fold (\<lambda>f. scripted (updateFieldsScript f (UnixMilli (ef_updatedAt f)))) (field_rows L key m) source)))"

lemma toES_times [simp]: "ef_updatedAt (toESRestaurantFields f) = rf_UpdatedAt f" "ep_updatedAt (toESPizza p) = ixp_UpdatedAt p"
  "ep_id (toESPizza p) = ixp_ID p" "ixp_UpdatedAt (toIndexedPizza p') = pus_UpdatedAt p'"
  "ixp_ID (toIndexedPizza p') = pw_ID (pus_Pizza p')"
  by (simp_all add: toESRestaurantFields_def toESPizza_def toIndexedPizza_def indexed_pizza_def)

lemma dispatch_document:
  assumes run: "ss_Dispatch L name E body ix = (r, ix')" and src: "source_of key ix = Some source"
  shows "ix' = ix \<and> isl r \<or> source_of key ix' = Some (document_after L key (name, body) source)"
proof -
  note upd = es_Update_source [where k = key, OF _ src]
  consider "name = ''restaurant.topping_prices_updated''" | "name = ''restaurant.pizza_updated''"
    | "name = ''restaurant.updated''" | "name = ''restaurant.launched''"
    | "ss_Dispatch L name E body ix = (Inl [], ix)"
    by atomize_elim (auto simp: ss_Dispatch_def fail_def)
  then show ?thesis
  proof cases
    case 1
    show ?thesis
    proof (cases "Option.bind body (unmarshal_toppings_updated_ss L)")
      case None
      then show ?thesis using run 1 by (auto simp: ss_Dispatch_def SyncToppingPrices_Handle_ss_def fail_def)
    next
      case (Some m)
      then show ?thesis using run 1 upd
        by (cases m) (auto simp: ss_Dispatch_def SyncToppingPrices_Handle_ss_def UpdateToppingPrices_def document_after_def
            message_snapshot_def message_pizza_def topping_rows_def field_rows_def dest!: upd)
    qed
  next
    case 2
    show ?thesis
    proof (cases "Option.bind body (unmarshal_pizza_updated_ss L)")
      case None
      then show ?thesis using run 2 by (auto simp: ss_Dispatch_def SyncPizza_Handle_ss_def fail_def)
    next
      case (Some p)
      then show ?thesis using run 2
        by (auto simp: ss_Dispatch_def SyncPizza_Handle_ss_def UpsertPizza_def RemovePizza_def document_after_def
            message_snapshot_def message_pizza_def sellable_def dest!: upd split: if_splits)
    qed
  next
    case 3
    show ?thesis
    proof (cases "Option.bind body (restaurantUpdatedPayload L)")
      case None
      then show ?thesis using run 3 by (auto simp: ss_Dispatch_def UpdateRestaurantFields_Handle_def fail_def)
    next
      case (Some p)
      then show ?thesis using run 3
        by (auto simp: ss_Dispatch_def UpdateRestaurantFields_Handle_def UpdateFields_def document_after_def
            message_snapshot_def message_pizza_def topping_rows_def field_rows_def dest!: upd)
    qed
  next
    case 4
    show ?thesis
    proof (cases "Option.bind body (restaurantLaunchedPayload L)")
      case None
      then show ?thesis using run 4 by (auto simp: ss_Dispatch_def UpsertSnapshot_Handle_def fail_def)
    next
      case (Some m)
      obtain p pizzas toppings where m: "m = (p, pizzas, toppings)" by (cases m) auto
      show ?thesis using run 4 Some m
        by (auto simp: ss_Dispatch_def UpsertSnapshot_Handle_def UpsertSnapshot_def Let_def document_after_def
            message_snapshot_def fail_def dest!: upd split: if_splits)
    qed
  next
    case 5
    then show ?thesis using run by simp
  qed
qed

subsection \<open>The three tables of a document\<close>

definition field_millis :: "esRestaurantFields \<Rightarrow> int" where
  "field_millis f = UnixMilli (ef_updatedAt f)"

definition topping_millis :: "topping_state \<Rightarrow> int" where
  "topping_millis t = UnixMilli (snd t)"

definition pizza_millis :: "esPizza \<Rightarrow> int" where
  "pizza_millis p = UnixMilli (ep_updatedAt p)"

definition topping_state :: "esRestaurant \<Rightarrow> topping_state" where
  "topping_state source = (er_toppingPrices source, er_toppingPricesUpdatedAt source)"

text \<open>No snapshot in \<open>m\<close> is newer than the milliseconds \<open>B\<close>.\<close>

definition no_newer_snapshot :: "'d lib \<Rightarrow> string \<Rightarrow> int \<Rightarrow> message \<Rightarrow> bool" where
  "no_newer_snapshot L key B m \<longleftrightarrow> (case message_snapshot L m of None \<Rightarrow> True
     | Some r \<Rightarrow> uuidString L (ixs_ID r) = key \<longrightarrow> UnixMilli (rf_UpdatedAt (ixs_Fields r)) \<le> B)"

definition no_removal :: "'d lib \<Rightarrow> string \<Rightarrow> message \<Rightarrow> bool" where
  "no_removal L key m \<longleftrightarrow> (case message_pizza L m of None \<Rightarrow> True
     | Some p \<Rightarrow> uuidString L (pus_RestaurantID p) = key \<longrightarrow> sellable p)"

lemma scripted_cases:
  "scripted (upsertSnapshotScript doc t) source = (if field_millis (er_fields source) < t then doc else source)"
  "scripted (updateFieldsScript f t) source = (if field_millis (er_fields source) < t then source\<lparr> er_fields := f \<rparr> else source)"
  "scripted (toppingPricesUpdateScript ps u t) source =
     (if UnixMilli (er_toppingPricesUpdatedAt source) < t
      then source\<lparr> er_toppingPrices := ps, er_toppingPricesUpdatedAt := u \<rparr> else source)"
  by (auto simp: scripted_def upsertSnapshotScript_def updateFieldsScript_def toppingPricesUpdateScript_def field_millis_def)

lemma scripted_pizza_frames [simp]:
  "er_fields (scripted (pizzaUpsertScript p t) source) = er_fields source"
  "er_fields (scripted (pizzaRemoveScript i t) source) = er_fields source"
  "topping_state (scripted (pizzaUpsertScript p t) source) = topping_state source"
  "topping_state (scripted (pizzaRemoveScript i t) source) = topping_state source"
  by (auto simp: scripted_def pizzaUpsertScript_def pizzaRemoveScript_def topping_state_def split: option.split)

lemma find_replaced:
  "replace_pizza p t ps = Some ps' \<Longrightarrow> find_row ep_id i ps' = (if i = ep_id p then Some p else find_row ep_id i ps) \<and>
    (\<forall>q. find_row ep_id (ep_id p) ps = Some q \<longrightarrow> pizza_millis q < t)"
  by (induction ps arbitrary: ps') (auto simp: pizza_millis_def split: if_splits)

lemma find_not_replaced:
  "replace_pizza p t ps = None \<Longrightarrow> \<exists>q. find_row ep_id (ep_id p) ps = Some q \<and> \<not> pizza_millis q < t"
  by (induction ps) (auto simp: pizza_millis_def split: if_splits)

lemma find_replace_pizza:
  "find_row ep_id i (case replace_pizza p (pizza_millis p) ps of None \<Rightarrow> ps | Some ps' \<Rightarrow> ps') =
    (if i = ep_id p then newer pizza_millis p (find_row ep_id i ps) else find_row ep_id i ps)"
proof (cases "replace_pizza p (pizza_millis p) ps")
  case None
  then show ?thesis using find_not_replaced [OF None] by auto
next
  case (Some ps')
  then show ?thesis using find_replaced [OF Some, of i] by (cases "find_row ep_id (ep_id p) ps") auto
qed

lemma fold_state: "(\<And>x source. g (f x source) = h x (g source)) \<Longrightarrow> g (fold f xs source) = fold h xs (g source)"
  by (induction xs arbitrary: source) simp_all

lemma fold_frame: "(\<And>x source. g (f x source) = g source) \<Longrightarrow> g (fold f xs source) = g source"
  by (induction xs arbitrary: source) simp_all

abbreviation write_fields :: "esRestaurantFields \<Rightarrow> esRestaurant \<Rightarrow> esRestaurant" where
  "write_fields \<equiv> \<lambda>f. scripted (updateFieldsScript f (UnixMilli (ef_updatedAt f)))"

abbreviation write_toppings :: "topping_state \<Rightarrow> esRestaurant \<Rightarrow> esRestaurant" where
  "write_toppings \<equiv> \<lambda>(prices, t). scripted (toppingPricesUpdateScript prices t (UnixMilli t))"

lemma fold_fields:
  "Some (er_fields (fold write_fields fs source)) = fold (newer field_millis) fs (Some (er_fields source))"
  "topping_state (fold write_fields fs source) = topping_state source"
  "er_pizzas (fold write_fields fs source) = er_pizzas source"
  by (rule fold_state [where g = "\<lambda>s. Some (er_fields s)"] fold_frame [where g = topping_state]
      fold_frame [where g = er_pizzas]; simp add: scripted_cases topping_state_def field_millis_def)+

lemma fold_toppings:
  "Some (topping_state (fold write_toppings ts source)) = fold (newer topping_millis) ts (Some (topping_state source))"
  "er_fields (fold write_toppings ts source) = er_fields source"
  "er_pizzas (fold write_toppings ts source) = er_pizzas source"
  by (rule fold_state [where g = "\<lambda>s. Some (topping_state s)"] fold_frame [where g = er_fields]
      fold_frame [where g = er_pizzas]; auto simp: scripted_cases topping_state_def topping_millis_def)+

lemma message_kinds:
  "message_snapshot L m = Some r \<Longrightarrow> message_pizza L m = None \<and> field_rows L key m = [] \<and> topping_rows L key m = []"
  "message_pizza L m = Some p \<Longrightarrow> message_snapshot L m = None \<and> field_rows L key m = [] \<and> topping_rows L key m = []"
  by (auto simp: message_snapshot_def message_pizza_def field_rows_def topping_rows_def split: if_splits)

text \<open>Each table of the document gets the rows of the message.\<close>

lemma document_after_tables:
  assumes old: "no_newer_snapshot L key B m" "B \<le> field_millis (er_fields source)"
  shows "Some (er_fields (document_after L key m source)) = fold (newer field_millis) (field_rows L key m) (Some (er_fields source)) \<and>
    Some (topping_state (document_after L key m source)) =
      fold (newer topping_millis) (topping_rows L key m) (Some (topping_state source)) \<and>
    (no_removal L key m \<longrightarrow> find_row ep_id i (er_pizzas (document_after L key m source)) =
      fold (newer pizza_millis) (filter (\<lambda>p. ep_id p = i) (pizza_rows L key m)) (find_row ep_id i (er_pizzas source)))"
proof (cases "message_snapshot L m")
  case (Some r)
  have "document_after L key m source = source"
    using Some old by (auto simp: document_after_def no_newer_snapshot_def scripted_cases)
  then show ?thesis using message_kinds(1) [OF Some] by (simp add: pizza_rows_def)
next
  case none: None
  show ?thesis
  proof (cases "message_pizza L m")
    case None
    then show ?thesis
      by (simp add: document_after_def none pizza_rows_def fold_fields fold_toppings)
  next
    case (Some p)
    define q where "q = toESPizza (toIndexedPizza p)"
    have "UnixMilli (pus_UpdatedAt p) = pizza_millis q" by (simp add: pizza_millis_def q_def)
    moreover have "er_pizzas (scripted (pizzaUpsertScript q (pizza_millis q)) source) =
        (case replace_pizza q (pizza_millis q) (er_pizzas source) of None \<Rightarrow> er_pizzas source | Some ps \<Rightarrow> ps)"
      by (simp add: scripted_def pizzaUpsertScript_def split: option.split)
    ultimately show ?thesis using Some message_kinds(2) [OF Some] find_replace_pizza [of i "er_pizzas source" q]
      by (simp add: document_after_def pizza_rows_def no_removal_def q_def [symmetric])
  qed
qed

definition indexed_since :: "string \<Rightarrow> int \<Rightarrow> es_index \<Rightarrow> bool" where
  "indexed_since key B ix \<longleftrightarrow> (\<exists>source. source_of key ix = Some source \<and> B \<le> field_millis (er_fields source))"

lemma fold_newer_mono: "fold (newer ts) rs (Some old) = Some new \<Longrightarrow> ts old \<le> ts new"
proof (induction rs arbitrary: old)
  case (Cons r rs)
  then show ?case by (cases "ts old < ts r") force+
qed simp

definition table_of :: "string \<Rightarrow> (esRestaurant \<Rightarrow> ('k \<rightharpoonup> 'r)) \<Rightarrow> es_index \<Rightarrow> ('k \<rightharpoonup> 'r)" where
  "table_of key look ix = (case source_of key ix of None \<Rightarrow> Map.empty | Some source \<Rightarrow> look source)"

lemma dispatch_carries:
  assumes old: "no_newer_snapshot L key B m"
    and rows: "\<And>source. B \<le> field_millis (er_fields source) \<Longrightarrow> look (document_after L key m source) = fold put rows (look source)"
  shows "carries (table_of key look) put (indexed_since key B) (ss_Dispatch L (fst m) E (snd m)) rows"
  unfolding carries_def
proof (intro allI impI)
  fix ix assume P: "indexed_since key B ix"
  then obtain source where src: "source_of key ix = Some source" "B \<le> field_millis (er_fields source)"
    by (auto simp: indexed_since_def)
  obtain r ix' where run: "ss_Dispatch L (fst m) E (snd m) ix = (r, ix')" by fastforce
  have "field_millis (er_fields source) \<le> field_millis (er_fields (document_after L key m source))"
    using document_after_tables [OF old src(2)] fold_newer_mono [of field_millis] by metis
  then have later: "indexed_since key B ix'"
    using dispatch_document [OF run src(1)] P src by (auto simp: indexed_since_def)
  consider "ix' = ix \<and> isl r" | "source_of key ix' = Some (document_after L key m source)"
    using dispatch_document [OF run src(1)] by auto
  then show "indexed_since key B (snd (ss_Dispatch L (fst m) E (snd m) ix)) \<and>
      (table_of key look (snd (ss_Dispatch L (fst m) E (snd m) ix)) = fold put rows (table_of key look ix) \<or>
       isl (fst (ss_Dispatch L (fst m) E (snd m) ix)) \<and> table_of key look (snd (ss_Dispatch L (fst m) E (snd m) ix)) = table_of key look ix)"
  proof cases
    case 1
    then show ?thesis using later run by simp
  next
    case 2
    then have "table_of key look ix' = fold put rows (table_of key look ix)"
      unfolding table_of_def 2 src(1) using rows [OF src(2)] by simp
    then show ?thesis using later run by simp
  qed
qed

lemma dispatch_tables:
  assumes old: "no_newer_snapshot L key B m"
  shows "carries (table_of key (\<lambda>source (_::unit). Some (er_fields source))) (put_newer (\<lambda>_. ()) field_millis)
      (indexed_since key B) (ss_Dispatch L (fst m) E (snd m)) (field_rows L key m)"
    and "carries (table_of key (\<lambda>source (_::unit). Some (topping_state source))) (put_newer (\<lambda>_. ()) topping_millis)
      (indexed_since key B) (ss_Dispatch L (fst m) E (snd m)) (topping_rows L key m)"
    and "no_removal L key m \<Longrightarrow> carries (table_of key (\<lambda>source i. find_row ep_id i (er_pizzas source))) (put_newer ep_id pizza_millis)
      (indexed_since key B) (ss_Dispatch L (fst m) E (snd m)) (pizza_rows L key m)"
  by (rule dispatch_carries [OF old], use document_after_tables [OF old] in \<open>simp add: fun_eq_iff row_map.lookup_fold\<close>)+

text \<open>
  C10. The index converges. Take a restaurant that has been indexed, and two sequences of deliveries of the same
  messages, in any order, with any repetitions, refused requests and lost answers in between, in each of which every
  message is handled successfully at least once. Let the launch of the restaurant not be newer than the
  document, and let two messages with the same version, to the millisecond, say the same. Then the document has the same
  fields and topping prices after both, each as new as every message about it; and, if no pizza of it is withdrawn, the
  same pizzas, also as new as every message (a withdrawal can be lost, see \<open>withdrawn_pizza_returns\<close>).
\<close>

theorem index_converges:
  assumes start: "find_row sd_id (uuidString L i) ix = Some d"
    and runs: "ss_deliver L ds ix = (handled, ix1)" "ss_deliver L ds' ix = (handled', ix2)"
    and all: "set handled = snd ` set ds" "set handled' = snd ` set ds'" "snd ` set ds = snd ` set ds'"
    and messages: "\<forall>m \<in> snd ` set ds. no_newer_snapshot L (uuidString L i) (field_millis (er_fields (sd_source d))) m"
    and versions: "consistent_versions (\<lambda>_. ()) field_millis (\<Union>m \<in> snd ` set ds. set (field_rows L (uuidString L i) m))"
      "consistent_versions (\<lambda>_. ()) topping_millis (\<Union>m \<in> snd ` set ds. set (topping_rows L (uuidString L i) m))"
      "consistent_versions ep_id pizza_millis (\<Union>m \<in> snd ` set ds. set (pizza_rows L (uuidString L i) m))"
  shows "\<exists>d1 d2. find_row sd_id (uuidString L i) ix1 = Some d1 \<and> find_row sd_id (uuidString L i) ix2 = Some d2 \<and>
    er_fields (sd_source d1) = er_fields (sd_source d2) \<and> topping_state (sd_source d1) = topping_state (sd_source d2) \<and>
    (\<forall>m \<in> snd ` set ds.
       (\<forall>f \<in> set (field_rows L (uuidString L i) m). field_millis f \<le> field_millis (er_fields (sd_source d1))) \<and>
       (\<forall>t \<in> set (topping_rows L (uuidString L i) m). topping_millis t \<le> topping_millis (topping_state (sd_source d1)))) \<and>
    ((\<forall>m \<in> snd ` set ds. no_removal L (uuidString L i) m) \<longrightarrow>
       (\<forall>p. find_row ep_id p (er_pizzas (sd_source d1)) = find_row ep_id p (er_pizzas (sd_source d2))) \<and>
       (\<forall>m \<in> snd ` set ds. \<forall>p \<in> set (pizza_rows L (uuidString L i) m).
          \<exists>q. find_row ep_id (ep_id p) (er_pizzas (sd_source d1)) = Some q \<and> pizza_millis p \<le> pizza_millis q))"
proof -
  let ?key = "uuidString L i"
  let ?B = "field_millis (er_fields (sd_source d))"
  have P: "indexed_since ?key ?B ix" using start by (simp add: indexed_since_def)
  have msg: "no_newer_snapshot L ?key ?B m" if "m \<in> snd ` set ds" for m
    using messages that by blast
  note agree = ss_deliveries_agree [where P = "indexed_since ?key ?B", OF _ P runs all]
  note f = agree [where look = "table_of ?key (\<lambda>source (_::unit). Some (er_fields source))" and key = "\<lambda>_. ()"
      and ts = field_millis and rows = "field_rows L ?key", OF dispatch_tables(1) versions(1), OF msg]
  note t = agree [where look = "table_of ?key (\<lambda>source (_::unit). Some (topping_state source))" and key = "\<lambda>_. ()"
      and ts = topping_millis and rows = "topping_rows L ?key", OF dispatch_tables(2) versions(2), OF msg]
  obtain d1 d2 where d: "find_row sd_id ?key ix1 = Some d1" "find_row sd_id ?key ix2 = Some d2"
    using f unfolding indexed_since_def by blast
  have look: "table_of ?key look ix1 = look (sd_source d1)" "table_of ?key look ix2 = look (sd_source d2)"
    for look :: "esRestaurant \<Rightarrow> ('x \<rightharpoonup> 'y)" using d by (simp_all add: table_of_def)
  have A: "er_fields (sd_source d1) = er_fields (sd_source d2) \<and>
      (\<forall>m \<in> snd ` set ds. \<forall>x \<in> set (field_rows L ?key m). field_millis x \<le> field_millis (er_fields (sd_source d1)))"
    using f by (auto simp: look)
  have B: "topping_state (sd_source d1) = topping_state (sd_source d2) \<and>
      (\<forall>m \<in> snd ` set ds. \<forall>x \<in> set (topping_rows L ?key m). topping_millis x \<le> topping_millis (topping_state (sd_source d1)))"
    using t by (auto simp: look)
  have C: "find_row ep_id k (er_pizzas (sd_source d1)) = find_row ep_id k (er_pizzas (sd_source d2)) \<and>
      (\<forall>m \<in> snd ` set ds. \<forall>x \<in> set (pizza_rows L ?key m). \<exists>q. find_row ep_id (ep_id x) (er_pizzas (sd_source d1)) = Some q \<and>
      pizza_millis x \<le> pizza_millis q)" if removals: "\<forall>m \<in> snd ` set ds. no_removal L ?key m" for k
  proof -
    have none: "no_removal L ?key m" if "m \<in> snd ` set ds" for m using removals that by blast
    note p = agree [where look = "table_of ?key (\<lambda>source i. find_row ep_id i (er_pizzas source))" and key = ep_id
        and ts = pizza_millis and rows = "pizza_rows L ?key", OF dispatch_tables(3) versions(3), OF msg none]
    show ?thesis using p [of k, unfolded look] by blast
  qed
  show ?thesis
    by (rule exI [of _ d1], rule exI [of _ d2], intro conjI ballI impI allI) (use d A B C in blast)+
qed

lemma update_answered:
  "se_answer E EsUpdate = Answered \<Longrightarrow> source_of key ix = Some source \<Longrightarrow>
    \<exists>ix'. es_Update E key script upsert ix = (Inr (), ix') \<and> source_of key ix' = Some (scripted script source)"
  using es_Update_source [of E key script upsert ix _ _ key source]
  by (cases "es_Update E key script upsert ix")
    (auto simp: es_Update_def apply_update_def split: option.splits)

lemma pizza_event:
  assumes "message_pizza L m = Some p" "se_answer E EsUpdate = Answered" "source_of (uuidString L (pus_RestaurantID p)) ix = Some source"
  shows "\<exists>ix'. ss_Dispatch L (fst m) E (snd m) ix = (Inr (), ix') \<and> source_of (uuidString L (pus_RestaurantID p)) ix' =
    Some (scripted (if sellable p then pizzaUpsertScript (toESPizza (toIndexedPizza p)) (UnixMilli (pus_UpdatedAt p))
            else pizzaRemoveScript (pw_ID (pus_Pizza p)) (UnixMilli (pus_UpdatedAt p))) source)"
  using assms update_answered [OF assms(2,3)]
  by (auto simp: message_pizza_def ss_Dispatch_def SyncPizza_Handle_ss_def UpsertPizza_def RemovePizza_def sellable_def split: if_splits)

lemma drop_newer:
  "find_row ep_id i ps = Some q \<Longrightarrow> distinct (List.map ep_id ps) \<Longrightarrow> UnixMilli (ep_updatedAt q) < t \<Longrightarrow>
    \<exists>ps'. drop_pizza i t ps = Some ps' \<and> find_row ep_id i ps' = None"
  by (induction ps) (auto simp: find_row_None_image split: if_splits)

lemma replace_absent: "find_row ep_id (ep_id p) ps = None \<Longrightarrow> replace_pizza p t ps = Some (ps @ [p])"
  by (induction ps) (auto split: if_splits)

lemma replaced_keys: "replace_pizza p t ps = Some ps' \<Longrightarrow> find_row ep_id (ep_id p) ps \<noteq> None \<Longrightarrow>
    List.map ep_id ps' = List.map ep_id ps"
  by (induction ps arbitrary: ps') (auto split: if_splits)

text \<open>
  A withdrawn pizza can come back. A pizza is in the index, and of two newer messages about it the first sells it
  and the second withdraws it. Delivered in this order, they leave the index without it. In the other order, which a
  retry of the first makes, both are handled successfully and the index offers the pizza as the first message
  describes it: its removal leaves nothing for the older message to be compared with.
\<close>

theorem withdrawn_pizza_returns:
  assumes up: "se_answer E EsUpdate = Answered"
    and doc: "find_row sd_id (uuidString L i) ix = Some d" "distinct (List.map ep_id (er_pizzas (sd_source d)))"
    and old: "message_pizza L m1 = Some p1" "sellable p1" and new: "message_pizza L m2 = Some p2" "\<not> sellable p2"
    and about: "pus_RestaurantID p1 = i" "pus_RestaurantID p2 = i" "pw_ID (pus_Pizza p1) = pid" "pw_ID (pus_Pizza p2) = pid"
    and order: "find_row ep_id pid (er_pizzas (sd_source d)) = Some q" "pizza_millis q < UnixMilli (pus_UpdatedAt p1)"
      "UnixMilli (pus_UpdatedAt p1) < UnixMilli (pus_UpdatedAt p2)"
  shows "\<exists>ix1 ix2 d1 d2. ss_deliver L [(E, m1), (E, m2)] ix = ([m1, m2], ix1) \<and> ss_deliver L [(E, m2), (E, m1)] ix = ([m2, m1], ix2) \<and>
    find_row sd_id (uuidString L i) ix1 = Some d1 \<and> find_row ep_id pid (er_pizzas (sd_source d1)) = None \<and>
    find_row sd_id (uuidString L i) ix2 = Some d2 \<and>
    find_row ep_id pid (er_pizzas (sd_source d2)) = Some (toESPizza (toIndexedPizza p1))"
proof -
  let ?key = "uuidString L i" and ?q = "toESPizza (toIndexedPizza p1)"
  let ?add = "scripted (pizzaUpsertScript ?q (UnixMilli (pus_UpdatedAt p1)))"
  let ?del = "scripted (pizzaRemoveScript pid (UnixMilli (pus_UpdatedAt p2)))"
  let ?src = "sd_source d"
  have qid: "ep_id ?q = pid" using about(3) by simp
  have src: "source_of ?key ix = Some ?src" using doc(1) by simp
  note ev1 = pizza_event [OF old(1) up, unfolded about, simplified old(2), simplified]
  note ev2 = pizza_event [OF new(1) up, unfolded about, simplified new(2), simplified]
  have run1: "\<exists>ix'. ss_Dispatch L (fst m1) E (snd m1) x = (Inr (), ix') \<and> source_of ?key ix' = Some (?add source)"
    and run2: "\<exists>ix'. ss_Dispatch L (fst m2) E (snd m2) x = (Inr (), ix') \<and> source_of ?key ix' = Some (?del source)"
    if "source_of ?key x = Some source" for x source
    using pizza_event [OF old(1) up, of x source] pizza_event [OF new(1) up, of x source] that old(2) new(2) about by simp_all
  obtain a b where a: "ss_Dispatch L (fst m1) E (snd m1) ix = (Inr (), a)" "source_of ?key a = Some (?add ?src)"
    and b: "ss_Dispatch L (fst m2) E (snd m2) a = (Inr (), b)" "source_of ?key b = Some (?del (?add ?src))"
    using run1 [OF src] run2 by blast
  obtain c e where c: "ss_Dispatch L (fst m2) E (snd m2) ix = (Inr (), c)" "source_of ?key c = Some (?del ?src)"
    and e: "ss_Dispatch L (fst m1) E (snd m1) c = (Inr (), e)" "source_of ?key e = Some (?add (?del ?src))"
    using run2 [OF src] run1 by blast
  have "replace_pizza ?q (UnixMilli (pus_UpdatedAt p1)) (er_pizzas ?src) \<noteq> None"
    using find_not_replaced [of ?q "UnixMilli (pus_UpdatedAt p1)" "er_pizzas ?src"] qid order by auto
  then obtain ps where ps: "replace_pizza ?q (UnixMilli (pus_UpdatedAt p1)) (er_pizzas ?src) = Some ps" by auto
  have ps_q: "find_row ep_id pid ps = Some ?q" "distinct (List.map ep_id ps)"
    using find_replaced [OF ps, of pid] replaced_keys [OF ps] qid order doc(2) by auto
  obtain ps1 where ps1: "drop_pizza pid (UnixMilli (pus_UpdatedAt p2)) ps = Some ps1" "find_row ep_id pid ps1 = None"
    using drop_newer [OF ps_q] order about by auto
  obtain ps2 where ps2: "drop_pizza pid (UnixMilli (pus_UpdatedAt p2)) (er_pizzas ?src) = Some ps2" "find_row ep_id pid ps2 = None"
    using drop_newer [OF order(1) doc(2), of "UnixMilli (pus_UpdatedAt p2)"] order by (auto simp: pizza_millis_def)
  have "er_pizzas (?del (?add ?src)) = ps1" using ps ps1 by (simp add: scripted_def pizzaUpsertScript_def pizzaRemoveScript_def)
  moreover have "er_pizzas (?add (?del ?src)) = ps2 @ [?q]"
    using ps2 replace_absent [of ?q ps2 "UnixMilli (pus_UpdatedAt p1)"] qid
    by (simp add: scripted_def pizzaUpsertScript_def pizzaRemoveScript_def)
  ultimately show ?thesis using a b c e ps1(2) ps2(2) qid by auto
qed

end
