(* ===== verification/Search_Query.thy ===== *)
theory Search_Query
  imports Search Restaurant_Events
begin

text \<open>
  Search-service, the side that answers customers: the query it sends to Elasticsearch and its scripts
  (\<open>infrastructure/elasticsearch/search_repository.go\<close>), the geocode cache (\<open>geocode_repository.go\<close>), the two queries
  (\<open>application/query\<close>) and their HTTP handlers. Elasticsearch is a parameter: \<open>es_lib\<close> has what the scripts call of
  it and of \<open>java.time\<close>, the matching of texts, and the order and length of its answer.
\<close>

subsection \<open>The query\<close>

record SearchQuery =
  sq_Text :: string
  sq_Location :: GeoPoint
  sq_Fulfillment :: string
  sq_Tags :: "string list"
  sq_OpenNow :: bool
  sq_Sort :: string

datatype es_must = MatchAll | MultiMatch string

datatype es_filter =
    DeliveryRange real real
  | PickupTerm
  | TagTerm string
  | OpenNow int

datatype es_sort = GeoDistance real real | ByMinimumOrder | ByDeliveryTimeMin

record es_search =
  es_query_must :: es_must
  es_query_filter :: "es_filter list"
  es_query_sort :: "es_sort option"

text \<open>
  The boost by rating is the same in every query, so it belongs to the ranking. \<open>nowMillis\<close> is the clock in
  milliseconds.
\<close>

definition buildSearchQuery :: "int \<Rightarrow> SearchQuery \<Rightarrow> es_search" where
  "buildSearchQuery nowMillis q =
   \<lparr> es_query_must = (if sq_Text q = '''' then MatchAll else MultiMatch (sq_Text q)),
     es_query_filter =
       [if sq_Fulfillment q = ''pickup'' then PickupTerm
        else DeliveryRange (gp_Lat (sq_Location q)) (gp_Lon (sq_Location q))] @
       List.map TagTerm (sq_Tags q) @
       (if sq_OpenNow q then [OpenNow nowMillis] else []),
     es_query_sort =
       (if sq_Sort q = ''distance'' then Some (GeoDistance (gp_Lat (sq_Location q)) (gp_Lon (sq_Location q)))
        else if sq_Sort q = ''minimumOrder'' then Some ByMinimumOrder
        else if sq_Sort q = ''deliveryTime'' then Some ByDeliveryTimeMin
        else None) \<rparr>"

subsection \<open>The scripts\<close>

text \<open>
  \<^item> \<open>el_arcDistance\<close>: metres between a stored point and a latitude and longitude;
  \<^item> \<open>el_docValues\<close>: what \<open>doc[field]\<close> lists of a keyword field with these values;
  \<^item> \<open>el_get\<close>: \<open>get(i)\<close> on such a list, \<open>None\<close> where it raises an exception;
  \<^item> \<open>el_local\<close>: weekday in lower case, hour and minute in a time zone, \<open>None\<close> where \<open>ZoneId.of\<close> raises an exception;
  \<^item> \<open>el_text\<close>: does the \<open>multi_match\<close> clause match; \<open>el_rank\<close>: the hits among the matching documents;
  \<^item> \<open>el_eager\<close>: is a filter evaluated on a document that another filter rejects.
\<close>

record es_lib =
  el_arcDistance :: "GeoPoint \<Rightarrow> real \<Rightarrow> real \<Rightarrow> real"
  el_docValues :: "string list \<Rightarrow> string list"
  el_get :: "string list \<Rightarrow> nat \<Rightarrow> string option"
  el_local :: "string \<Rightarrow> int \<Rightarrow> (string \<times> nat \<times> nat) option"
  el_text :: "string \<Rightarrow> esRestaurant \<Rightarrow> bool"
  el_rank :: "es_search \<Rightarrow> es_doc list \<Rightarrow> es_doc list"
  el_eager :: "es_doc \<Rightarrow> bool"

text \<open>A script gives a truth value or raises an exception.\<close>

definition deliveryRangeScript :: "es_lib \<Rightarrow> real \<Rightarrow> real \<Rightarrow> esRestaurantFields \<Rightarrow> bool option" where
  "deliveryRangeScript ES lat lon doc = (case ef_deliveryKm doc of
     None \<Rightarrow> Some False
   | Some km \<Rightarrow> Some (el_arcDistance ES (ef_location doc) lat lon \<le> of_int (sint km) * 1000))"

definition two_digits :: "nat \<Rightarrow> string" where
  "two_digits n = (if n < 10 then ''0'' @ show_nat n else show_nat n)"

definition clock_text :: "nat \<Rightarrow> nat \<Rightarrow> string" where
  "clock_text hh mm = two_digits hh @ '':'' @ two_digits mm"

text \<open>The loop over \<open>i\<close>, with the places that are left.\<close>

fun open_loop ::
  "es_lib \<Rightarrow> string \<Rightarrow> string \<Rightarrow> string list \<Rightarrow> string list \<Rightarrow> string list \<Rightarrow> nat list \<Rightarrow> bool option" where
  "open_loop ES weekday now weekdays opens closes [] = Some False"
| "open_loop ES weekday now weekdays opens closes (i # rest) =
     (case el_get ES weekdays i of None \<Rightarrow> None | Some day \<Rightarrow>
        if day \<noteq> weekday then open_loop ES weekday now weekdays opens closes rest
        else case el_get ES opens i of None \<Rightarrow> None | Some opening \<Rightarrow>
          if \<not> opening \<le> now then open_loop ES weekday now weekdays opens closes rest
          else case el_get ES closes i of None \<Rightarrow> None | Some closing \<Rightarrow>
            if now < closing then Some True else open_loop ES weekday now weekdays opens closes rest)"

definition openNowScript :: "es_lib \<Rightarrow> int \<Rightarrow> esRestaurantFields \<Rightarrow> bool option" where
  "openNowScript ES nowMillis doc =
     (if ef_timezone doc = '''' then Some False
      else case el_local ES (ef_timezone doc) nowMillis of
        None \<Rightarrow> None
      | Some (weekday, hh, mm) \<Rightarrow>
          (let weekdays = el_docValues ES (List.map eh_weekday (ef_openingHours doc));
               opens = el_docValues ES (List.map eh_open (ef_openingHours doc));
               closes = el_docValues ES (List.map eh_close (ef_openingHours doc)) in
           open_loop ES weekday (clock_text hh mm) weekdays opens closes [0..<length weekdays]))"

fun filter_doc :: "es_lib \<Rightarrow> es_filter \<Rightarrow> esRestaurantFields \<Rightarrow> bool option" where
  "filter_doc ES (DeliveryRange lat lon) doc = deliveryRangeScript ES lat lon doc"
| "filter_doc ES PickupTerm doc = Some (ef_pickup doc)"
| "filter_doc ES (TagTerm tag) doc = Some (tag \<in> set (ef_tags doc))"
| "filter_doc ES (OpenNow nowMillis) doc = openNowScript ES nowMillis doc"

fun must_doc :: "es_lib \<Rightarrow> es_must \<Rightarrow> esRestaurant \<Rightarrow> bool" where
  "must_doc ES MatchAll doc = True"
| "must_doc ES (MultiMatch text) doc = el_text ES text doc"

definition matching :: "es_lib \<Rightarrow> es_search \<Rightarrow> es_doc \<Rightarrow> bool" where
  "matching ES q d \<longleftrightarrow> must_doc ES (es_query_must q) (sd_source d) \<and>
     list_all (\<lambda>f. filter_doc ES f (er_fields (sd_source d)) = Some True) (es_query_filter q)"

text \<open>
  An exception of a script fails the whole search. It is raised where no other clause rejects the document, and
  elsewhere if the filter is evaluated all the same.
\<close>

definition raising :: "es_lib \<Rightarrow> es_search \<Rightarrow> es_doc \<Rightarrow> bool" where
  "raising ES q d \<longleftrightarrow> list_ex (\<lambda>f. filter_doc ES f (er_fields (sd_source d)) = None) (es_query_filter q) \<and>
     (el_eager ES d \<or> must_doc ES (es_query_must q) (sd_source d) \<and>
        list_all (\<lambda>f. filter_doc ES f (er_fields (sd_source d)) \<noteq> Some False) (es_query_filter q))"

definition es_Search :: "es_lib \<Rightarrow> es_search \<Rightarrow> es_index \<Rightarrow> (ss_err, es_doc list) result" where
  "es_Search ES q ix =
     (if list_ex (raising ES q) ix then Inl [] else Inr (el_rank ES q (filter (matching ES q) ix)))"

fun hit_restaurants :: "'d lib \<Rightarrow> es_doc list \<Rightarrow> IndexedRestaurant list" where
  "hit_restaurants L [] = []"
| "hit_restaurants L (d # ds) = (case uuidParse L (sd_id d) of
     None \<Rightarrow> hit_restaurants L ds
   | Some i \<Rightarrow> fromESRestaurant i (sd_source d) # hit_restaurants L ds)"

definition ss_Search ::
  "'d lib \<Rightarrow> es_lib \<Rightarrow> ss_env \<Rightarrow> int \<Rightarrow> SearchQuery \<Rightarrow> es_index \<Rightarrow> (ss_err, IndexedRestaurant list) result" where
  "ss_Search L ES E nowMillis q ix =
     (if se_answer E EsSearch \<noteq> Answered then Inl []
      else case es_Search ES (buildSearchQuery nowMillis q) ix of
        Inl e \<Rightarrow> Inl e
      | Inr hits \<Rightarrow> Inr (hit_restaurants L hits))"

subsection \<open>Geocoding\<close>

text \<open>The index \<open>geocode\<close>. The address has the fields of order-service's.\<close>

record geo_doc =
  gc_key :: string
  gc_Lat :: real
  gc_Lon :: real

type_synonym ss_geocoder = "Address \<Rightarrow> (ss_err, real \<times> real) result"

definition addressCacheKey :: "(string \<Rightarrow> string) \<Rightarrow> Address \<Rightarrow> string" where
  "addressCacheKey sha256hex addr = sha256hex (join ''|'' [normalizeAddressPart (House addr),
     normalizeAddressPart (Street addr), normalizeAddressPart (City addr), normalizeAddressPart (PostalCode addr)])"

definition cache_lookup :: "ss_env \<Rightarrow> string \<Rightarrow> geo_doc list \<Rightarrow> (ss_err, (real \<times> real) option) result" where
  "cache_lookup E key cache =
     (if se_answer E EsGeocodeGet \<noteq> Answered then Inl []
      else Inr (map_option (\<lambda>g. (gc_Lat g, gc_Lon g)) (find_row gc_key key cache)))"

definition cache_store :: "ss_env \<Rightarrow> string \<Rightarrow> real \<Rightarrow> real \<Rightarrow> (geo_doc list, ss_err, unit) op" where
  "cache_store E key lat lon cache =
     (let cache' = save_row gc_key \<lparr> gc_key = key, gc_Lat = lat, gc_Lon = lon \<rparr> cache in
      case se_answer E EsGeocodeIndex of
        Answered \<Rightarrow> (Inr (), cache') | AnswerLost \<Rightarrow> (Inl [], cache') | Refused \<Rightarrow> (Inl [], cache))"

definition ss_Geocode ::
  "(string \<Rightarrow> string) \<Rightarrow> ss_env \<Rightarrow> ss_geocoder \<Rightarrow> Address \<Rightarrow> (geo_doc list, ss_err, real \<times> real) op" where
  "ss_Geocode sha256hex E inner addr =
     (let key = addressCacheKey sha256hex addr in
      bind (query (cache_lookup E key)) (\<lambda>found. case found of
        Some point \<Rightarrow> ret point
      | None \<Rightarrow>
          bind (query (\<lambda>_. inner addr)) (\<lambda>(lat, lon).
          bind (cache_store E key lat lon) (\<lambda>_. ret (lat, lon)))))"

subsection \<open>Queries and handlers\<close>

record SearchRestaurantsRequest =
  srr_Address :: Address
  srr_Text :: string
  srr_Fulfillment :: string
  srr_Tags :: "string list"
  srr_OpenNow :: bool
  srr_Sort :: string

definition SearchRestaurants_Execute ::
  "'d lib \<Rightarrow> (string \<Rightarrow> string) \<Rightarrow> es_lib \<Rightarrow> ss_env \<Rightarrow> ss_geocoder \<Rightarrow> int \<Rightarrow> es_index \<Rightarrow> SearchRestaurantsRequest \<Rightarrow>
    (geo_doc list, ss_err, IndexedRestaurant list) op" where
  "SearchRestaurants_Execute L sha256hex ES E inner nowMillis ix req =
     bind (ss_Geocode sha256hex E inner (srr_Address req)) (\<lambda>(lat, lon).
     query (\<lambda>_. ss_Search L ES E nowMillis
       \<lparr> sq_Text = srr_Text req, sq_Location = \<lparr> gp_Lat = lat, gp_Lon = lon \<rparr>, sq_Fulfillment = srr_Fulfillment req,
         sq_Tags = srr_Tags req, sq_OpenNow = srr_OpenNow req, sq_Sort = srr_Sort req \<rparr> ix))"

text \<open>\<open>strings.Split\<close> at commas.\<close>

fun split_comma :: "string \<Rightarrow> string \<Rightarrow> string list" where
  "split_comma word [] = [word]"
| "split_comma word (c # cs) = (if c = CHR '','' then word # split_comma '''' cs else split_comma (word @ [c]) cs)"

record searchRequest =
  sr_House :: string
  sr_Street :: string
  sr_City :: string
  sr_PostalCode :: string
  sr_Q :: string
  sr_Fulfillment :: string
  sr_Tags :: string
  sr_OpenNow :: bool
  sr_Sort :: string

text \<open>The answer: status and results. A bound request has the fields with \<open>binding:"required"\<close>.\<close>

definition SearchHandler_Search ::
  "'d lib \<Rightarrow> (string \<Rightarrow> string) \<Rightarrow> es_lib \<Rightarrow> ss_env \<Rightarrow> ss_geocoder \<Rightarrow> int \<Rightarrow> es_index \<Rightarrow> searchRequest \<Rightarrow> geo_doc list \<Rightarrow>
    (nat \<times> IndexedRestaurant list) \<times> geo_doc list" where
  "SearchHandler_Search L sha256hex ES E inner nowMillis ix req cache =
     (if sr_House req = '''' \<or> sr_Street req = '''' \<or> sr_City req = '''' \<or> sr_PostalCode req = '''' then ((400, []), cache)
      else case SearchRestaurants_Execute L sha256hex ES E inner nowMillis ix
          \<lparr> srr_Address = \<lparr> House = sr_House req, Street = sr_Street req, PostalCode = sr_PostalCode req,
              City = sr_City req \<rparr>,
            srr_Text = sr_Q req, srr_Fulfillment = sr_Fulfillment req,
            srr_Tags = (if sr_Tags req = '''' then [] else split_comma '''' (sr_Tags req)),
            srr_OpenNow = sr_OpenNow req, srr_Sort = sr_Sort req \<rparr> cache of
        (Inl _, cache') \<Rightarrow> ((500, []), cache')
      | (Inr results, cache') \<Rightarrow> ((200, results), cache'))"

definition ss_GetRestaurant_Execute :: "'d lib \<Rightarrow> ss_env \<Rightarrow> uuid \<Rightarrow> es_index \<Rightarrow> (ss_err, IndexedRestaurant) result" where
  "ss_GetRestaurant_Execute L E i ix = ss_FindByID L E i ix"

definition GetRestaurantHandler_Get :: "'d lib \<Rightarrow> ss_env \<Rightarrow> string \<Rightarrow> es_index \<Rightarrow> nat \<times> IndexedRestaurant option" where
  "GetRestaurantHandler_Get L E param ix = (case uuidParse L param of
     None \<Rightarrow> (400, None)
   | Some i \<Rightarrow> (case ss_GetRestaurant_Execute L E i ix of
       Inl e \<Rightarrow> (if errors_is e SsNotFound then (404, None) else (500, None))
     | Inr r \<Rightarrow> (200, Some r)))"

end
