(* ===== verification/Search_Answers.thy ===== *)
theory Search_Answers
  imports Search_Query Search_Events
begin

text \<open>
  What a customer's search returns, and the filter on opening hours.
\<close>

subsection \<open>Results\<close>

text \<open>
  The documented behaviour of Elasticsearch without \<open>size\<close> and \<open>from\<close>: the hits are documents of the result, each once,
  and ten of them at most.
\<close>

definition es_ranking :: "es_lib \<Rightarrow> bool" where
  "es_ranking ES \<longleftrightarrow> (\<forall>q ds. mset (el_rank ES q ds) \<subseteq># mset ds \<and> length (el_rank ES q ds) = min 10 (length ds))"

lemma rank_subset: "es_ranking ES \<Longrightarrow> set (el_rank ES q ds) \<subseteq> set ds"
  unfolding es_ranking_def using set_mset_mono by fastforce

lemma rank_all: "es_ranking ES \<Longrightarrow> length ds \<le> 10 \<Longrightarrow> set (el_rank ES q ds) = set ds"
proof -
  assume rank: "es_ranking ES" "length ds \<le> 10"
  have "mset (el_rank ES q ds) \<subseteq># mset ds" "size (mset (el_rank ES q ds)) = size (mset ds)"
    using rank by (simp_all add: es_ranking_def)
  then have "mset (el_rank ES q ds) = mset ds" by (metis mset_subset_size subset_mset.le_imp_less_or_eq less_irrefl)
  then show ?thesis by (metis set_mset_mset)
qed

lemma to_from_fields [simp]: "toESRestaurantFields (fromESRestaurantFields d) = d"
proof -
  have "toESOpeningHours (toIndexedOpeningHours hs) = hs" for hs
    by (auto simp: toESOpeningHours_def toIndexedOpeningHours_def intro!: map_idI)
  then show ?thesis by (simp add: toESRestaurantFields_def fromESRestaurantFields_def)
qed

lemma to_from_restaurant [simp]: "toESRestaurant (fromESRestaurant i d) = d"
proof -
  have "toESPizzaPrices (toIndexedPizzaPrices ps) = ps" for ps
    by (auto simp: toESPizzaPrices_def toIndexedPizzaPrices_def intro!: map_idI)
  then have "toESPizza (fromESPizza p) = p" for p by (simp add: toESPizza_def fromESPizza_def)
  moreover have "toESToppingPrices (toIndexedToppingPrices ts) = ts" for ts
    by (auto simp: toESToppingPrices_def toIndexedToppingPrices_def intro!: map_idI)
  ultimately show ?thesis by (simp add: toESRestaurant_def fromESRestaurant_def o_def)
qed

lemma hit_restaurants_set:
  "r \<in> set (hit_restaurants L ds) \<longleftrightarrow> (\<exists>d \<in> set ds. \<exists>i. uuidParse L (sd_id d) = Some i \<and> r = fromESRestaurant i (sd_source d))"
  by (induction ds) (auto split: option.splits)

lemma hit_restaurants_length: "length (hit_restaurants L ds) \<le> length ds"
  by (induction ds) (auto split: option.splits)

lemma from_fields_simps [simp]:
  "rf_Pickup (fromESRestaurantFields f) = ef_pickup f" "rf_DeliveryKm (fromESRestaurantFields f) = ef_deliveryKm f"
  "rf_Location (fromESRestaurantFields f) = ef_location f" "rf_Tags (fromESRestaurantFields f) = ef_tags f"
  by (simp_all add: fromESRestaurantFields_def)

text \<open>What a customer may expect of a result, whenever he looks.\<close>

definition fits_query :: "es_lib \<Rightarrow> SearchQuery \<Rightarrow> IndexedRestaurant \<Rightarrow> bool" where
  "fits_query ES q r \<longleftrightarrow> (let f = ixs_Fields r in
     (if sq_Fulfillment q = ''pickup'' then rf_Pickup f
      else \<exists>km. rf_DeliveryKm f = Some km \<and>
        el_arcDistance ES (rf_Location f) (gp_Lat (sq_Location q)) (gp_Lon (sq_Location q)) \<le> of_int (sint km) * 1000) \<and>
     set (sq_Tags q) \<subseteq> set (rf_Tags f) \<and>
     (sq_Text q \<noteq> '''' \<longrightarrow> el_text ES (sq_Text q) (toESRestaurant r)))"

lemma matching_fits:
  "matching ES (buildSearchQuery nowMillis q) d \<longleftrightarrow> fits_query ES q (fromESRestaurant i (sd_source d)) \<and>
     (sq_OpenNow q \<longrightarrow> openNowScript ES nowMillis (er_fields (sd_source d)) = Some True)"
proof -
  let ?r = "fromESRestaurant i (sd_source d)"
  have "ixs_Fields ?r = fromESRestaurantFields (er_fields (sd_source d))" by (simp add: fromESRestaurant_def)
  moreover have "list_all (\<lambda>tag. tag \<in> A) tags \<longleftrightarrow> set tags \<subseteq> A" for tags :: "string list" and A
    by (auto simp: list_all_iff)
  ultimately show ?thesis
    by (auto simp: matching_def fits_query_def Let_def buildSearchQuery_def deliveryRangeScript_def list.pred_map o_def
        split: option.splits)
qed

text \<open>
  C11. A search shows the customer only what fits: restaurants of the index that deliver to the address (or, if asked for,
  hand out at the door), carry every tag that is asked for and match the text; ten of them at most. When no more than
  ten fit and it is not asked for open ones only, it shows all of them. What the filter on opening hours leaves out
  besides is another matter (\<open>open_now_misjudges\<close>).
\<close>

theorem search_answers:
  assumes rank: "es_ranking ES" and run: "ss_Search L ES E nowMillis q ix = Inr rs"
  shows "length rs \<le> 10 \<and>
    (\<forall>r \<in> set rs. fits_query ES q r \<and>
       (\<exists>d \<in> set ix. uuidParse L (sd_id d) = Some (ixs_ID r) \<and> r = fromESRestaurant (ixs_ID r) (sd_source d))) \<and>
    (\<not> sq_OpenNow q \<longrightarrow> length (filter (\<lambda>d. fits_query ES q (fromESRestaurant 0 (sd_source d))) ix) \<le> 10 \<longrightarrow>
      (\<forall>d \<in> set ix. \<forall>i. uuidParse L (sd_id d) = Some i \<longrightarrow> fits_query ES q (fromESRestaurant i (sd_source d)) \<longrightarrow>
         fromESRestaurant i (sd_source d) \<in> set rs))"
proof -
  let ?q = "buildSearchQuery nowMillis q" and ?found = "filter (matching ES (buildSearchQuery nowMillis q)) ix"
  have rs: "rs = hit_restaurants L (el_rank ES ?q ?found)"
    using run by (auto simp: ss_Search_def es_Search_def split: if_splits)
  have "length rs \<le> 10"
    using hit_restaurants_length [of L "el_rank ES ?q ?found"] rank rs by (simp add: es_ranking_def)
  moreover have "fits_query ES q r \<and>
      (\<exists>d \<in> set ix. uuidParse L (sd_id d) = Some (ixs_ID r) \<and> r = fromESRestaurant (ixs_ID r) (sd_source d))" if r: "r \<in> set rs" for r
  proof -
    obtain d i where d: "d \<in> set ix" "matching ES ?q d" "uuidParse L (sd_id d) = Some i" "r = fromESRestaurant i (sd_source d)"
      using r rank_subset [OF rank, of ?q ?found] unfolding rs hit_restaurants_set by fastforce
    then have "ixs_ID r = i" by (simp add: fromESRestaurant_def)
    then show ?thesis using d matching_fits [of ES nowMillis q d i] by metis
  qed
  moreover have "fromESRestaurant i (sd_source d) \<in> set rs"
    if q: "\<not> sq_OpenNow q" "length (filter (\<lambda>d. fits_query ES q (fromESRestaurant 0 (sd_source d))) ix) \<le> 10"
      and d: "d \<in> set ix" "uuidParse L (sd_id d) = Some i" "fits_query ES q (fromESRestaurant i (sd_source d))" for d i
  proof -
    have "matching ES ?q = (\<lambda>d. fits_query ES q (fromESRestaurant 0 (sd_source d)))"
      using q(1) matching_fits [of ES nowMillis q _ 0] by (simp add: fun_eq_iff)
    then have few: "length ?found \<le> 10" using q(2) by simp
    have "matching ES ?q d" using matching_fits [of ES nowMillis q d i] q(1) d(3) by blast
    then show ?thesis using rank_all [OF rank few, of ?q] d(1,2) by (auto simp: rs hit_restaurants_set)
  qed
  ultimately show ?thesis by blast
qed

subsection \<open>Opening hours\<close>

text \<open>
  The documented behaviour of Elasticsearch and Java: the doc values of a keyword field are sorted and each there once,
  and \<open>get(i)\<close> inside a list is its element.
\<close>

definition es_lists :: "es_lib \<Rightarrow> bool" where
  "es_lists ES \<longleftrightarrow> (\<forall>vs. el_docValues ES vs = sorted_list_of_set (set vs)) \<and>
     (\<forall>vs i. i < length vs \<longrightarrow> el_get ES vs i = Some (vs ! i))"

definition open_at :: "string \<Rightarrow> string \<Rightarrow> esOpeningHours list \<Rightarrow> bool" where
  "open_at weekday now hs \<longleftrightarrow> (\<exists>h \<in> set hs. eh_weekday h = weekday \<and> eh_open h \<le> now \<and> now < eh_close h)"

lemma two_values: "x < y \<Longrightarrow> sorted_list_of_set {x, y} = [x, y]" "x < y \<Longrightarrow> sorted_list_of_set {y, x} = [x, y]"
  for x :: "'a::linorder"
  by (simp_all add: insert_commute less_imp_le)

text \<open>
  C34. The filter on opening hours takes open restaurants for closed and closed ones for open. Elasticsearch lists the
  values of a keyword field sorted and each once, so what the script finds in one place of its three lists need not
  belong together. Take a restaurant that on one day opens earlier and closes later than on another that is behind it in
  the alphabet, say on Monday from 11:00 to 22:00 and on Tuesday from 17:00 to 20:00. Between the two closing times a
  search for open restaurants that it fits otherwise finds it on Tuesday, when it is closed, and not on Monday, when it is
  open.
\<close>

theorem open_now_misjudges:
  assumes lists: "es_lists ES" and q: "sq_OpenNow q" "fits_query ES q (fromESRestaurant i (sd_source d))"
    and hours: "ef_openingHours (er_fields (sd_source d)) =
      [\<lparr> eh_weekday = day, eh_open = opening, eh_close = closing \<rparr>,
       \<lparr> eh_weekday = day', eh_open = opening', eh_close = closing' \<rparr>]"
      "day < day'" "opening < opening'" "opening' < closing'" "closing' < closing"
    and now: "ef_timezone (er_fields (sd_source d)) \<noteq> ''''"
      "el_local ES (ef_timezone (er_fields (sd_source d))) nowMillis = Some (weekday, hh, mm)"
      "weekday \<in> {day, day'}" "closing' \<le> clock_text hh mm" "clock_text hh mm < closing"
  shows "(matching ES (buildSearchQuery nowMillis q) d \<longleftrightarrow> weekday = day') \<and>
    (open_at weekday (clock_text hh mm) (ef_openingHours (er_fields (sd_source d))) \<longleftrightarrow> weekday = day)"
proof
  let ?f = "er_fields (sd_source d)" and ?now = "clock_text hh mm"
  have vals: "el_docValues ES (List.map eh_weekday (ef_openingHours ?f)) = [day, day']"
    "el_docValues ES (List.map eh_open (ef_openingHours ?f)) = [opening, opening']"
    "el_docValues ES (List.map eh_close (ef_openingHours ?f)) = [closing', closing]"
    using lists two_values(1) [OF hours(2)] two_values(1) [OF hours(3)] two_values(2) [OF hours(5)]
    unfolding es_lists_def hours(1) by (simp_all only: list.map list.set esOpeningHours.select_convs)
  have get: "el_get ES [x, y] 0 = Some x" "el_get ES [x, y] (Suc 0) = Some y" for x y
    using lists by (simp_all add: es_lists_def)
  have times: "opening \<le> ?now" "opening' \<le> ?now" using hours(3,4) now(4) by (meson less_imp_le less_le_trans)+
  have "openNowScript ES nowMillis ?f = Some (weekday = day')"
    using now hours(2) times by (auto simp: openNowScript_def Let_def vals get upt_conv_Cons)
  then show "matching ES (buildSearchQuery nowMillis q) d \<longleftrightarrow> weekday = day'"
    using q by (simp add: matching_fits [of ES nowMillis q d i])
  show "open_at weekday ?now (ef_openingHours ?f) \<longleftrightarrow> weekday = day"
    using now(3-5) hours(2) times by (auto simp: open_at_def hours(1))
qed

end
