(* ===== verification/Restaurant_Search.thy ===== *)
theory Restaurant_Search
  imports Restaurant_Order Search_Index Search_Answers
begin

text \<open>
  Restaurant-service and search-service together: the launch of a restaurant, as restaurant-service announces it, in
  search-service's dispatcher, and the document a customer gets.
\<close>

subsection \<open>What the index keeps of a restaurant\<close>

definition flat_hours :: "OpeningHours \<Rightarrow> IndexedOpeningHours list" where
  "flat_hours h = concat (List.map (\<lambda>(weekday, ranges). List.map (\<lambda>d. \<lparr> ixh_Weekday = weekday, ixh_Open = dr_Open d, ixh_Close = dr_Close d \<rparr>) ranges)
     [(''monday'', oh_Monday h), (''tuesday'', oh_Tuesday h), (''wednesday'', oh_Wednesday h), (''thursday'', oh_Thursday h),
      (''friday'', oh_Friday h), (''saturday'', oh_Saturday h), (''sunday'', oh_Sunday h)])"

definition as_indexed_fields :: "'d lib \<Rightarrow> 'd Restaurant_rs \<Rightarrow> RestaurantFields" where
  "as_indexed_fields L r = \<lparr> rf_Name = rs_Name r, rf_Slug = the (rs_Slug r), rf_City = ra_City (rs_Address r),
     rf_Location = \<lparr> gp_Lat = the (rs_Lat r), gp_Lon = the (rs_Lon r) \<rparr>, rf_Timezone = the (rs_Timezone r),
     rf_Currency = rs_Currency r, rf_Pickup = rs_Pickup r, rf_DeliveryType = rs_DeliveryType r,
     rf_DeliveryKm = rs_DeliveryKm r, rf_DeliveryTimeMin = rs_DeliveryTimeMin r, rf_DeliveryTimeMax = rs_DeliveryTimeMax r,
     rf_MinimumOrder = ParseFloat (StringFixed2 L (rs_MinimumOrder r)), rf_Tags = rs_Tags r,
     rf_OpeningHours = flat_hours (rs_OpeningHours r), rf_Rating = rs_Rating r, rf_TotalReviews = rs_TotalReviews r,
     rf_UpdatedAt = the (rs_UpdatedAt r) \<rparr>"

definition as_indexed_pizza :: "'d lib \<Rightarrow> 'd PizzaResponse \<Rightarrow> IndexedPizza" where
  "as_indexed_pizza L p = \<lparr> ixp_ID = pzr_ID p, ixp_Name = pzr_Name p, ixp_IsVegetarian = pzr_IsVegetarian p,
     ixp_Toppings = List.map tor_Name (pzr_Toppings p),
     ixp_Prices = List.map (\<lambda>x. \<lparr> ixr_SizeID = ppr_SizeID x, ixr_DiameterCm = ppr_DiameterCm x,
       ixr_Price = StringFixed2 L (ppr_Price x) \<rparr>) (filter ppr_IsActive (pzr_Prices p)),
     ixp_UpdatedAt = zero_time \<rparr>"

definition as_indexed_topping :: "'d lib \<Rightarrow> 'd ToppingPriceResponse \<Rightarrow> IndexedToppingPrice" where
  "as_indexed_topping L t = \<lparr> ixt_ToppingID = tpr_ToppingID t, ixt_Name = tpr_Name t, ixt_ExtraPrice = StringFixed2 L (tpr_ExtraPrice t) \<rparr>"

subsection \<open>Decoding what restaurant-service writes\<close>

definition price_wire :: "'d lib \<Rightarrow> 'd PizzaPriceResponse \<Rightarrow> pizzaPriceWire" where
  "price_wire L x = \<lparr> ppw_SizeID = ppr_SizeID x, ppw_DiameterCm = ppr_DiameterCm x, ppw_Price = StringFixed2 L (ppr_Price x),
     ppw_IsActive = ppr_IsActive x \<rparr>"

lemma dec_price: "uuid_codec L \<Longrightarrow> dec_price_wire L (marshal_price L x) = Some (price_wire L x)"
  by (simp add: dec_price_wire_def marshal_price_def price_wire_def)

lemma dec_topping: "dec_topping_name (marshal_topping L t) = Some (tor_Name t)"
  by (simp add: dec_topping_name_def marshal_topping_def member_append omitempty_simps)

lemma dec_topping_price: "uuid_codec L \<Longrightarrow> dec_topping_wire L (marshal_topping_price L t) =
    Some \<lparr> tpw_ToppingID = tpr_ToppingID t, tpw_Name = tpr_Name t, tpw_ExtraPrice = StringFixed2 L (tpr_ExtraPrice t) \<rparr>"
  by (simp add: dec_topping_wire_def marshal_topping_price_def)

lemma dec_pizza:
  assumes "uuid_codec L"
  shows "dec_pizza_wire L False (marshal_pizza L p) = Some \<lparr> pw_ID = pzr_ID p, pw_Name = pzr_Name p,
    pw_IsVegetarian = pzr_IsVegetarian p, pw_Status = '''', pw_Prices = List.map (price_wire L) (pzr_Prices p),
    pw_Toppings = List.map tor_Name (pzr_Toppings p) \<rparr>"
proof -
  let ?j = "marshal_pizza L p"
  have "is_struct ?j" "member ?j ''id'' = enc_uuid L (pzr_ID p)" "member ?j ''name'' = JStr (pzr_Name p)"
    "member ?j ''isVegetarian'' = JBool (pzr_IsVegetarian p)"
    "member ?j ''prices'' = JArr (List.map (marshal_price L) (pzr_Prices p))"
    "member ?j ''toppings'' = JArr (List.map (marshal_topping L) (pzr_Toppings p))"
    by (simp_all add: marshal_pizza_def member_append omitempty_simps image_Un)
  then show ?thesis using assms
    by (simp add: dec_pizza_wire_def dec_list_encoded [of "dec_price_wire L" "marshal_price L" "price_wire L", OF dec_price]
        dec_list_encoded [of dec_topping_name "marshal_topping L" tor_Name, OF dec_topping] del: dec_list.simps)
qed

lemma dec_day: "dec_list dec_day_range (marshal_day ds) = Some (List.map (\<lambda>d. (dr_Open d, dr_Close d)) ds)"
  unfolding marshal_day_def by (rule dec_list_encoded) (simp add: dec_day_range_def)

lemma dec_hours_marshal:
  "dec_hours (marshal_hours h) = Some w \<Longrightarrow> flattenOpeningHours w = flat_hours h" "dec_hours (marshal_hours h) \<noteq> None"
proof -
  let ?day = "\<lambda>ds. List.map (\<lambda>d. (dr_Open d, dr_Close d)) ds"
  have dec: "dec_hours (marshal_hours h) = Some \<lparr> wh_Monday = ?day (oh_Monday h), wh_Tuesday = ?day (oh_Tuesday h),
      wh_Wednesday = ?day (oh_Wednesday h), wh_Thursday = ?day (oh_Thursday h), wh_Friday = ?day (oh_Friday h),
      wh_Saturday = ?day (oh_Saturday h), wh_Sunday = ?day (oh_Sunday h) \<rparr>"
    by (simp add: dec_hours_def marshal_hours_def dec_day)
  then show "dec_hours (marshal_hours h) \<noteq> None" by simp
  show "flattenOpeningHours w = flat_hours h" if "dec_hours (marshal_hours h) = Some w"
    using that dec by (auto simp: flattenOpeningHours_def flat_hours_def)
qed

lemma dec_reviews: "dec_int32 (JInt (sint (n :: 32 word))) = Some n"
  using sint_range_size [of n] by (simp add: dec_int32_def word_size)

lemma dec_delivery_marshal:
  "dec_delivery (marshal_delivery L (delivery_response r)) = Some \<lparr> dw_Type = rs_DeliveryType r, dw_RadiusKm = rs_DeliveryKm r,
     dw_EstimatedMinutesMin = rs_DeliveryTimeMin r, dw_EstimatedMinutesMax = rs_DeliveryTimeMax r,
     dw_MinimumOrder = StringFixed2 L (rs_MinimumOrder r) \<rparr>"
  by (simp add: dec_delivery_def marshal_delivery_def delivery_response_def member_append omitempty_simps image_Un)

lemma dec_strings: "dec_list dec_str (JArr (List.map JStr xs)) = Some xs"
  using dec_list_encoded [of dec_str JStr "\<lambda>x. x" xs] by simp

text \<open>A document with the restaurant's fields and, besides them, only \<open>updated_at\<close> and keys that are not read.\<close>

lemma fields_payload:
  assumes L: "uuid_codec L" "time_codec L" and p: "NewRestaurantUpdatedPayload (rs_ID r) t r = Inr p"
    and extra: "fst ` set extra \<inter> {''restaurant_id'', ''restaurant_name'', ''slug'', ''address'', ''lat'', ''lon'', ''timezone'',
       ''delivery'', ''currency'', ''rating'', ''total_reviews'', ''pickup'', ''tags'', ''opening_hours''} = {}"
      "''updated_at'' \<in> fst ` set extra" "member (JObj extra) ''updated_at'' = enc_time L (rup_UpdatedAt p)"
  shows "\<exists>w. restaurantUpdatedPayload L (JObj (restaurant_fields L name p @ extra)) = Some w \<and> rw_RestaurantID w = rs_ID r \<and>
    toRestaurantFields w = as_indexed_fields L r \<and> rw_Lat w \<noteq> None \<and> rw_Lon w \<noteq> None"
proof -
  have r: "rs_Slug r = Some (rup_Slug p)" "rs_Lat r = Some (rup_Lat p)" "rs_Lon r = Some (rup_Lon p)"
    "rs_Timezone r = Some (rup_Timezone p)" "rs_UpdatedAt r = Some (rup_UpdatedAt p)" "rup_RestaurantID p = rs_ID r"
    "rup_RestaurantName p = rs_Name r" "rup_Address p = rs_Address r" "rup_Delivery p = delivery_response r"
    "rup_Currency p = rs_Currency r" "rup_Rating p = rs_Rating r" "rup_TotalReviews p = rs_TotalReviews r"
    "rup_Pickup p = rs_Pickup r" "rup_Tags p = rs_Tags r" "rup_OpeningHours p = rs_OpeningHours r"
    using p by (auto simp: NewRestaurantUpdatedPayload_def split: option.splits)
  let ?j = "JObj (restaurant_fields L name p @ extra)"
  have m: "member ?j ''restaurant_id'' = enc_uuid L (rs_ID r)" "member ?j ''restaurant_name'' = JStr (rs_Name r)"
    "member ?j ''slug'' = JStr (rup_Slug p)" "member ?j ''address'' = marshal_address (rs_Address r)"
    "member ?j ''lat'' = JFloat (rup_Lat p)" "member ?j ''lon'' = JFloat (rup_Lon p)"
    "member ?j ''timezone'' = JStr (rup_Timezone p)" "member ?j ''delivery'' = marshal_delivery L (delivery_response r)"
    "member ?j ''currency'' = JStr (rs_Currency r)" "member ?j ''rating'' = JFloat (rs_Rating r)"
    "member ?j ''total_reviews'' = JInt (sint (rs_TotalReviews r))" "member ?j ''pickup'' = JBool (rs_Pickup r)"
    "member ?j ''tags'' = JArr (List.map JStr (rs_Tags r))" "member ?j ''opening_hours'' = marshal_hours (rs_OpeningHours r)"
    "member ?j ''updated_at'' = enc_time L (rup_UpdatedAt p)"
    using extra by (simp_all add: member_append restaurant_fields_def r del: member_Cons) (simp_all add: disjoint_iff)
  obtain w where w: "dec_hours (marshal_hours (rs_OpeningHours r)) = Some w" "flattenOpeningHours w = flat_hours (rs_OpeningHours r)"
    using dec_hours_marshal [of "rs_OpeningHours r"] by blast
  have "dec_city (marshal_address (rs_Address r)) = Some (ra_City (rs_Address r))"
    by (simp add: dec_city_def marshal_address_def)
  then show ?thesis using L w r
    by (simp add: restaurantUpdatedPayload_def m dec_float_ptr_def dec_reviews dec_strings dec_delivery_marshal
        toRestaurantFields_def as_indexed_fields_def del: dec_list.simps)
qed

lemma launched_payload:
  assumes L: "uuid_codec L" "time_codec L" and p: "NewRestaurantUpdatedPayload (rs_ID r) t r = Inr p"
  shows "\<exists>w pws tws. restaurantLaunchedPayload L (marshal_launched L p pizzas toppings) = Some (w, pws, tws) \<and>
    rw_Lat w \<noteq> None \<and> rw_Lon w \<noteq> None \<and> toIndexedRestaurant w pws tws =
      \<lparr> ixs_ID = rs_ID r, ixs_Fields = as_indexed_fields L r, ixs_Pizzas = List.map (as_indexed_pizza L) pizzas,
        ixs_ToppingPrices = List.map (as_indexed_topping L) toppings, ixs_ToppingPricesUpdatedAt = zero_time \<rparr>"
proof -
  let ?extra = "[(''pizzas'', JArr (List.map (marshal_pizza L) pizzas)),
    (''topping_prices'', JArr (List.map (marshal_topping_price L) toppings)),
    (''updated_at'', enc_time L (rup_UpdatedAt p)), (''occurred_at'', enc_time L (rup_OccurredAt p))]"
  obtain w where w: "restaurantUpdatedPayload L (marshal_launched L p pizzas toppings) = Some w" "rw_RestaurantID w = rs_ID r"
    "toRestaurantFields w = as_indexed_fields L r" "rw_Lat w \<noteq> None" "rw_Lon w \<noteq> None"
    using fields_payload [OF L p, of ?extra "''restaurant.launched''"] unfolding marshal_launched_def by fastforce
  have m: "member (marshal_launched L p pizzas toppings) ''pizzas'' = JArr (List.map (marshal_pizza L) pizzas)"
    "member (marshal_launched L p pizzas toppings) ''topping_prices'' = JArr (List.map (marshal_topping_price L) toppings)"
    by (simp_all add: marshal_launched_def member_append)
  let ?pw = "\<lambda>p. \<lparr> pw_ID = pzr_ID p, pw_Name = pzr_Name p, pw_IsVegetarian = pzr_IsVegetarian p, pw_Status = '''',
    pw_Prices = List.map (price_wire L) (pzr_Prices p), pw_Toppings = List.map tor_Name (pzr_Toppings p) \<rparr>"
  let ?tw = "\<lambda>t. \<lparr> tpw_ToppingID = tpr_ToppingID t, tpw_Name = tpr_Name t, tpw_ExtraPrice = StringFixed2 L (tpr_ExtraPrice t) \<rparr>"
  have dec: "dec_list (dec_pizza_wire L False) (JArr (List.map (marshal_pizza L) pizzas)) = Some (List.map ?pw pizzas)"
    "dec_list (dec_topping_wire L) (JArr (List.map (marshal_topping_price L) toppings)) = Some (List.map ?tw toppings)"
    by (rule dec_list_encoded, rule dec_pizza [OF L(1)], rule dec_list_encoded, rule dec_topping_price [OF L(1)])
  have "indexed_pizza zero_time (?pw p) = as_indexed_pizza L p" for p
    by (simp add: indexed_pizza_def as_indexed_pizza_def active_prices_def price_wire_def filter_map o_def)
  moreover have "indexed_toppings (List.map ?tw toppings) = List.map (as_indexed_topping L) toppings"
    by (simp add: indexed_toppings_def as_indexed_topping_def)
  ultimately show ?thesis
    unfolding restaurantLaunchedPayload_def w(1) m dec using w by (simp add: toIndexedRestaurant_def)
qed

subsection \<open>The launch\<close>

lemma Launch_Inr:
  assumes inv: "rs_inv L s" and run: "LaunchRestaurant_Execute L E i own s = (Inr resp, s')"
  shows "\<exists>r pizzas toppings r1. r \<in> set (rd_restaurants s) \<and> rs_ID r = i \<and> rs_OwnerID r = own \<and>
    PizzaCatalog_Execute L E i s = (Inr pizzas, s) \<and> 2 \<le> length (filter HasActivePrice pizzas) \<and>
    buildToppingPriceResponses E i s = (Inr toppings, s) \<and>
    Launch (re_clock E) r = Inr r1 \<and> may_save E r1 s \<and>
    s' = saved L E (\<lambda>r'. [enrichLaunched L r' (filter HasActivePrice pizzas) toppings]) r1 s"
  using run unfolding LaunchRestaurant_Execute_def
proof (cases rule: owned_cases)
  case (owner r)
  obtain res where "PizzaCatalog_Execute L E i s = (res, s)" using no_panic_PizzaCatalog by blast
  moreover have "snd (buildToppingPriceResponses E i s) = s"
    by (simp add: buildToppingPriceResponses_def ret_def split: sum.split)
  then obtain res' where "buildToppingPriceResponses E i s = (res', s)" by (metis prod.collapse)
  ultimately show ?thesis using owner
    by (auto simp: bind_Inr EvaluateLaunchReadiness_def MeetsMinimum_def MinPizzasToLaunch_def Let_def simp del: bind_simps
        split: sum.splits dest!: save_and_dispatch_Inr restaurant_answer_same)
qed auto


text \<open>
  C9. A restaurant that goes live can be found. The launch puts exactly one event in the outbox, in the transaction that
  makes the restaurant active; when search-service, which has no document of it, handles the event with a working
  Elasticsearch, a customer who asks for the restaurant by its identifier gets 200 and its data: name, slug, city,
  place, time zone, delivery terms, tags and opening hours as the owner has set them, its topping prices, and at least
  two pizzas, namely those of the menu that have an active price, with just these prices.
\<close>

theorem launch_reaches_search:
  assumes "rs_reach L goslug geo s" "geocoder_returns geo" and L: "uuid_codec L" "time_codec L"
    and run: "rs_run L goslug geo E (RqLaunch i own) s = (Inr (), s')"
  shows "\<exists>r' pizzas toppings body. filter (\<lambda>x. rs_ID x = i) (rd_restaurants s') = [r'] \<and> rs_Status r' = StatusActive \<and>
    PizzaCatalog_Execute L E i s = (Inr pizzas, s) \<and> 2 \<le> length (filter HasActivePrice pizzas) \<and>
    buildToppingPriceResponses E i s = (Inr toppings, s) \<and>
    rd_outbox s' = outbox_Create (re_trace E) (NewOutboxEvent (re_clock E) i ''restaurant.launched'' body) (rd_outbox s) \<and>
    (\<forall>E' ix. se_answer E' EsUpdate = Answered \<longrightarrow> se_answer E' EsGet = Answered \<longrightarrow> find_row sd_id (uuidString L i) ix = None \<longrightarrow>
      (\<exists>ix'. ss_Dispatch L ''restaurant.launched'' E' (Some body) ix = (Inr (), ix') \<and>
        GetRestaurantHandler_Get L E' (uuidString L i) ix' = (200, Some
          \<lparr> ixs_ID = i, ixs_Fields = as_indexed_fields L r', ixs_Pizzas = List.map (as_indexed_pizza L) (filter HasActivePrice pizzas),
            ixs_ToppingPrices = List.map (as_indexed_topping L) toppings, ixs_ToppingPricesUpdatedAt = zero_time \<rparr>)))"
proof -
  have inv: "rs_inv L s" by (rule rs_reach_inv [OF assms(1,2) L(1)])
  obtain resp where "LaunchRestaurant_Execute L E i own s = (Inr resp, s')" using run by (auto simp: void_Inr)
  from Launch_Inr [OF inv this] obtain r pizzas toppings r1 where r: "r \<in> set (rd_restaurants s)" "rs_ID r = i"
    and menu: "PizzaCatalog_Execute L E i s = (Inr pizzas, s)" "2 \<le> length (filter HasActivePrice pizzas)"
      "buildToppingPriceResponses E i s = (Inr toppings, s)"
    and launch: "Launch (re_clock E) r = Inr r1" and s': "s' = saved L E (\<lambda>r'. [enrichLaunched L r' (filter HasActivePrice pizzas) toppings]) r1 s"
    by blast
  have r1: "r1 = raise (RestaurantLaunched i (re_clock E)) (r\<lparr> rs_Status := StatusActive \<rparr>)" and st0: "rs_Status r = StatusApproved"
    using launch r(2) by (auto simp: Launch_def split: if_splits)
  have ev: "rs_events r1 = [RestaurantLaunched i (re_clock E)]" and id: "rs_ID r1 = i" and st: "rs_Status r1 = StatusActive"
    and core: "restaurant_core r1"
    using rs_inv_row [OF inv r(1)] r st0 by (auto simp: r1 raise_def restaurant_core_def located_def)
  let ?r = "stamp E r1"
  have "located ?r" using core_listed [OF core] st by (simp add: listed_def located_def)
  then obtain p where p: "NewRestaurantUpdatedPayload (rs_ID ?r) (re_clock E) ?r = Inr p"
    using updated_payload [of ?r] by auto
  let ?body = "marshal_launched L p (filter HasActivePrice pizzas) toppings"
  have "rs_rows L E [enrichLaunched L ?r (filter HasActivePrice pizzas) toppings] i [RestaurantLaunched i (re_clock E)] =
      [NewOutboxEvent (re_clock E) i ''restaurant.launched'' ?body]"
    using p id by (simp add: rs_rows_def rs_integration_def map_filter_simps)
  then have ob: "rd_outbox s' = outbox_Create (re_trace E) (NewOutboxEvent (re_clock E) i ''restaurant.launched'' ?body) (rd_outbox s)"
    using ev id by (simp add: s' saved_def)
  have "filter (\<lambda>x. rs_ID x = rs_ID (stored_rs ?r)) (rd_restaurants s') = [stored_rs ?r]"
  proof (rule filter_key_single)
    have "rd_restaurants s' = save_row rs_ID (stored_rs ?r) (rd_restaurants s)" by (simp add: s' saved_def)
    then show "distinct (List.map rs_ID (rd_restaurants s'))" "stored_rs ?r \<in> set (rd_restaurants s')"
      using save_row_map_key [OF r(1), of rs_ID "stored_rs ?r"] save_row_mem [of "stored_rs ?r" rs_ID] inv r(2) id
      by (simp_all add: rs_inv_def restaurants_inv_def)
  qed
  then have row: "filter (\<lambda>x. rs_ID x = i) (rd_restaurants s') = [stored_rs ?r]" unfolding stored_rs_simps stamp_simps id .
  obtain w pws tws where doc: "restaurantLaunchedPayload L ?body = Some (w, pws, tws)" "rw_Lat w \<noteq> None" "rw_Lon w \<noteq> None"
    and indexed: "toIndexedRestaurant w pws tws = \<lparr> ixs_ID = i, ixs_Fields = as_indexed_fields L ?r,
      ixs_Pizzas = List.map (as_indexed_pizza L) (filter HasActivePrice pizzas),
      ixs_ToppingPrices = List.map (as_indexed_topping L) toppings, ixs_ToppingPricesUpdatedAt = zero_time \<rparr>" (is "_ = ?x")
    using launched_payload [OF L p, of "filter HasActivePrice pizzas" toppings] id by auto
  have same: "as_indexed_fields L (stored_rs ?r) = as_indexed_fields L ?r" by (simp add: as_indexed_fields_def stored_rs_def)
  have "ss_Dispatch L ''restaurant.launched'' E' (Some ?body) ix = (Inr (), ix @ [\<lparr> sd_id = uuidString L i, sd_source = toESRestaurant ?x \<rparr>]) \<and>
      GetRestaurantHandler_Get L E' (uuidString L i) (ix @ [\<lparr> sd_id = uuidString L i, sd_source = toESRestaurant ?x \<rparr>]) = (200, Some ?x)"
    if "se_answer E' EsUpdate = Answered" "se_answer E' EsGet = Answered" "find_row sd_id (uuidString L i) ix = None" for E' ix
    using that doc L(1) from_to_restaurant [of ?x]
    by (simp add: ss_Dispatch_def UpsertSnapshot_Handle_def UpsertSnapshot_def indexed es_Update_def apply_update_def Let_def
        GetRestaurantHandler_Get_def ss_GetRestaurant_Execute_def ss_FindByID_def)
  then have handled: "\<forall>E' ix. se_answer E' EsUpdate = Answered \<longrightarrow> se_answer E' EsGet = Answered \<longrightarrow>
      find_row sd_id (uuidString L i) ix = None \<longrightarrow> (\<exists>ix'. ss_Dispatch L ''restaurant.launched'' E' (Some ?body) ix = (Inr (), ix') \<and>
        GetRestaurantHandler_Get L E' (uuidString L i) ix' = (200, Some ?x))" by blast
  have "rs_Status (stored_rs ?r) = StatusActive" using st by simp
  then show ?thesis using row menu ob handled unfolding same [symmetric]
    by - (rule exI [of _ "stored_rs ?r"], rule exI [of _ pizzas], rule exI [of _ toppings], rule exI [of _ ?body], intro conjI; assumption)
qed

lemma launch_exists: "rs_run sample_lib id sample_geocoder rs_env0 (RqLaunch 5 6) s = (r, s') \<Longrightarrow> \<not> isl r \<Longrightarrow>
    rs_run sample_lib id sample_geocoder rs_env0 (RqLaunch 5 6) s = (Inr (), s')"
  by (cases r) auto

text \<open>The restaurant of \<open>Restaurant_Sample\<close>, before its launch.\<close>

definition sample_approved :: "int rs_db" where
  "sample_approved = run_all (take 6 sample_menu) sample_review"

theorem launch_reaches_search_witness:
  "\<exists>s' r'. rs_run sample_lib id sample_geocoder rs_env0 (RqLaunch 5 6) sample_approved = (Inr (), s') \<and>
    filter (\<lambda>x. rs_ID x = 5) (rd_restaurants s') = [r'] \<and> rs_Status r' = StatusActive"
proof -
  have reach: "rs_reach sample_lib id sample_geocoder sample_approved"
    unfolding sample_approved_def by (rule run_all_reach [OF sample_reach(2)]) (simp add: sample_menu_def)
  have "\<not> isl (fst (rs_run sample_lib id sample_geocoder rs_env0 (RqLaunch 5 6) sample_approved))" by code_simp
  then obtain s' where run: "rs_run sample_lib id sample_geocoder rs_env0 (RqLaunch 5 6) sample_approved = (Inr (), s')"
    using launch_exists by (metis prod.collapse)
  show ?thesis
    using launch_reaches_search [OF reach sample_reach(4) sample_codecs run] run by blast
qed

end
