(* ===== verification/Search_Sample.thy ===== *)
theory Search_Sample
  imports Sample Search_Index Search_Answers
begin

text \<open>
  A small index and messages about its restaurant: the witnesses of the properties of search-service.
\<close>

subsection \<open>An index with one restaurant\<close>

definition es_env0 :: ss_env where
  "es_env0 = \<lparr> se_answer = (\<lambda>_. Answered) \<rparr>"

definition es_lost :: ss_env where
  "es_lost = \<lparr> se_answer = (\<lambda>_. AnswerLost) \<rparr>"

definition week :: "string list" where
  "week = [''monday'', ''tuesday'']"

definition sample_fields :: "string \<Rightarrow> time \<Rightarrow> esRestaurantFields" where
  "sample_fields name t = \<lparr> ef_name = name, ef_slug = '''', ef_city = '''', ef_location = \<lparr> gp_Lat = 0, gp_Lon = 0 \<rparr>,
     ef_timezone = ''Europe/Berlin'', ef_currency = '''', ef_pickup = True, ef_deliveryType = '''', ef_deliveryKm = Some 5,
     ef_deliveryTimeMin = None, ef_deliveryTimeMax = None, ef_minimumOrder = 0, ef_tags = [],
     ef_openingHours = List.map (\<lambda>day. \<lparr> eh_weekday = day, eh_open = ''11:00'', eh_close = ''22:00'' \<rparr>) week,
     ef_rating = 0, ef_totalReviews = 0, ef_updatedAt = t \<rparr>"

definition sample_es_pizza :: "string \<Rightarrow> time \<Rightarrow> esPizza" where
  "sample_es_pizza name t = \<lparr> ep_id = 9, ep_name = name, ep_isVegetarian = False, ep_toppings = [], ep_prices = [], ep_updatedAt = t \<rparr>"

definition sample_doc :: es_doc where
  "sample_doc = \<lparr> sd_id = uuidString sample_lib 5, sd_source = \<lparr> er_fields = sample_fields ''A'' 1000000,
     er_pizzas = [sample_es_pizza ''Olive'' 0], er_toppingPrices = [], er_toppingPricesUpdatedAt = 0 \<rparr> \<rparr>"

subsection \<open>Messages\<close>

definition renamed :: "string \<Rightarrow> time \<Rightarrow> message" where
  "renamed name t = (''restaurant.updated'', Some (JObj [(''restaurant_id'', enc_uuid sample_lib 5),
     (''restaurant_name'', JStr name), (''updated_at'', enc_time sample_lib t)]))"

definition pizza_message :: "string \<Rightarrow> time \<Rightarrow> message" where
  "pizza_message status t = (''restaurant.pizza_updated'', Some (JObj [(''restaurant_id'', enc_uuid sample_lib 5),
     (''updated_at'', enc_time sample_lib t), (''pizza'', JObj [(''id'', enc_uuid sample_lib 9), (''status'', JStr status),
       (''prices'', JArr [JObj [(''isActive'', JBool True)]])])]))"

definition pizza_payload :: "string \<Rightarrow> time \<Rightarrow> pizzaUpdatedPayload_ss" where
  "pizza_payload status t = \<lparr> pus_RestaurantID = 5, pus_UpdatedAt = t, pus_Pizza = \<lparr> pw_ID = 9, pw_Name = '''', pw_IsVegetarian = False,
     pw_Status = status, pw_Prices = [\<lparr> ppw_SizeID = 0, ppw_DiameterCm = 0, ppw_Price = '''', ppw_IsActive = True \<rparr>], pw_Toppings = [] \<rparr> \<rparr>"

lemma pizza_message_payload: "message_pizza sample_lib (pizza_message status t) = Some (pizza_payload status t)"
  by (simp add: message_pizza_def pizza_message_def pizza_payload_def unmarshal_pizza_updated_ss_def dec_pizza_wire_def dec_price_wire_def
      sample_codecs)

definition renamed_fields :: "string \<Rightarrow> time \<Rightarrow> esRestaurantFields" where
  "renamed_fields name t = (sample_fields name t)\<lparr> ef_timezone := '''', ef_pickup := False, ef_deliveryKm := None, ef_openingHours := [] \<rparr>"

lemma renamed_rows:
  "field_rows sample_lib key (renamed name t) = (if uuidString sample_lib 5 = key then [renamed_fields name t] else [])"
  "topping_rows sample_lib key (renamed name t) = []" "pizza_rows sample_lib key (renamed name t) = []"
  "message_snapshot sample_lib (renamed name t) = None" "message_pizza sample_lib (renamed name t) = None"
  by (simp_all add: field_rows_def topping_rows_def pizza_rows_def message_snapshot_def message_pizza_def renamed_def
      restaurantUpdatedPayload_def dec_float_ptr_def dec_int32_def dec_delivery_def dec_hours_def dec_city_def sample_codecs
      toRestaurantFields_def toESRestaurantFields_def renamed_fields_def sample_fields_def ParseFloat_def flattenOpeningHours_def
      toESOpeningHours_def)

theorem withdrawn_pizza_returns_witness:
  "\<exists>ix1 ix2 d1 d2. ss_deliver sample_lib [(es_env0, pizza_message ''available'' 2000000), (es_env0, pizza_message ''archived'' 3000000)]
      [sample_doc] = ([pizza_message ''available'' 2000000, pizza_message ''archived'' 3000000], ix1) \<and>
    ss_deliver sample_lib [(es_env0, pizza_message ''archived'' 3000000), (es_env0, pizza_message ''available'' 2000000)]
      [sample_doc] = ([pizza_message ''archived'' 3000000, pizza_message ''available'' 2000000], ix2) \<and>
    find_row sd_id (uuidString sample_lib 5) ix1 = Some d1 \<and> find_row ep_id 9 (er_pizzas (sd_source d1)) = None \<and>
    find_row sd_id (uuidString sample_lib 5) ix2 = Some d2 \<and> find_row ep_id 9 (er_pizzas (sd_source d2)) \<noteq> None"
proof -
  have "sellable (pizza_payload ''available'' 2000000)" "\<not> sellable (pizza_payload ''archived'' 3000000)"
    by (simp_all add: sellable_def pizza_payload_def hasActivePrice_ss_def)
  moreover have "find_row sd_id (uuidString sample_lib 5) [sample_doc] = Some sample_doc"
    "distinct (List.map ep_id (er_pizzas (sd_source sample_doc)))"
    "find_row ep_id 9 (er_pizzas (sd_source sample_doc)) = Some (sample_es_pizza ''Olive'' 0)"
    by (simp_all add: sample_doc_def sample_es_pizza_def)
  ultimately show ?thesis
    using withdrawn_pizza_returns [of es_env0 sample_lib 5 "[sample_doc]" sample_doc "pizza_message ''available'' 2000000"
        "pizza_payload ''available'' 2000000" "pizza_message ''archived'' 3000000" "pizza_payload ''archived'' 3000000" 9
        "sample_es_pizza ''Olive'' 0"] pizza_message_payload
    by (simp add: es_env0_def pizza_payload_def pizza_millis_def sample_es_pizza_def UnixMilli_def) blast
qed

lemma ss_deliver_renamed:
  "se_answer E EsUpdate \<noteq> Refused \<Longrightarrow> source_of (uuidString sample_lib 5) ix = Some source \<Longrightarrow>
    \<exists>ix'. ss_Dispatch sample_lib (fst (renamed name t)) E (snd (renamed name t)) ix =
      (if se_answer E EsUpdate = AnswerLost then Inl [] else Inr (), ix') \<and> source_of (uuidString sample_lib 5) ix' \<noteq> None"
  using dispatch_document [of sample_lib "fst (renamed name t)" E "snd (renamed name t)" ix _ _ "uuidString sample_lib 5" source]
  by (cases "se_answer E EsUpdate"; cases "ss_Dispatch sample_lib (fst (renamed name t)) E (snd (renamed name t)) ix")
    (auto simp: renamed_def ss_Dispatch_def UpdateRestaurantFields_Handle_def UpdateFields_def es_Update_def apply_update_def
      restaurantUpdatedPayload_def dec_float_ptr_def dec_int32_def dec_delivery_def dec_hours_def dec_city_def split: option.splits)

theorem index_converges_witness:
  "\<exists>ix1 ix2 d1 d2. ss_deliver sample_lib [(es_env0, renamed ''A'' 2000000), (es_env0, renamed ''B'' 3000000)] [sample_doc] =
      ([renamed ''A'' 2000000, renamed ''B'' 3000000], ix1) \<and>
    ss_deliver sample_lib [(es_lost, renamed ''A'' 2000000), (es_env0, renamed ''B'' 3000000), (es_env0, renamed ''A'' 2000000)] [sample_doc] =
      ([renamed ''B'' 3000000, renamed ''A'' 2000000], ix2) \<and>
    find_row sd_id (uuidString sample_lib 5) ix1 = Some d1 \<and> find_row sd_id (uuidString sample_lib 5) ix2 = Some d2 \<and>
    er_fields (sd_source d1) = er_fields (sd_source d2)"
proof -
  let ?a = "renamed ''A'' 2000000" and ?b = "renamed ''B'' 3000000" and ?key = "uuidString sample_lib 5"
  have start: "find_row sd_id ?key [sample_doc] = Some sample_doc" by (simp add: sample_doc_def)
  have env: "se_answer es_env0 EsUpdate = Answered" "se_answer es_lost EsUpdate = AnswerLost" by (simp_all add: es_env0_def es_lost_def)
  have step: "\<exists>ix'. ss_Dispatch sample_lib (fst (renamed name t)) es_env0 (snd (renamed name t)) ix = (Inr (), ix') \<and> source_of ?key ix' \<noteq> None"
    "\<exists>ix'. ss_Dispatch sample_lib (fst (renamed name t)) es_lost (snd (renamed name t)) ix = (Inl [], ix') \<and> source_of ?key ix' \<noteq> None"
    if "source_of ?key ix \<noteq> None" for name t ix
    using ss_deliver_renamed [of es_env0 ix _ name t] ss_deliver_renamed [of es_lost ix _ name t] that env by auto
  have src: "source_of ?key [sample_doc] \<noteq> None" using start by simp
  obtain a b where a: "ss_Dispatch sample_lib (fst ?a) es_env0 (snd ?a) [sample_doc] = (Inr (), a)"
    "ss_Dispatch sample_lib (fst ?b) es_env0 (snd ?b) a = (Inr (), b)" using step(1) src by meson
  obtain c d e where c: "ss_Dispatch sample_lib (fst ?a) es_lost (snd ?a) [sample_doc] = (Inl [], c)"
    "ss_Dispatch sample_lib (fst ?b) es_env0 (snd ?b) c = (Inr (), d)" "ss_Dispatch sample_lib (fst ?a) es_env0 (snd ?a) d = (Inr (), e)"
    using step src by meson
  let ?ds = "[(es_env0, ?a), (es_env0, ?b)]" and ?ds' = "[(es_lost, ?a), (es_env0, ?b), (es_env0, ?a)]"
  have runs: "ss_deliver sample_lib ?ds [sample_doc] = ([?a, ?b], b)" "ss_deliver sample_lib ?ds' [sample_doc] = ([?b, ?a], e)"
    using a c by simp_all
  have all: "set [?a, ?b] = snd ` set ?ds" "set [?b, ?a] = snd ` set ?ds'" "snd ` set ?ds = snd ` set ?ds'" by auto
  have fields: "(\<Union>m \<in> snd ` set ?ds. set (field_rows sample_lib ?key m)) = {renamed_fields ''A'' 2000000, renamed_fields ''B'' 3000000}"
    "(\<Union>m \<in> snd ` set ?ds. set (topping_rows sample_lib ?key m)) = {}" "(\<Union>m \<in> snd ` set ?ds. set (pizza_rows sample_lib ?key m)) = {}"
    by (auto simp: renamed_rows)
  have versions: "consistent_versions (\<lambda>_. ()) field_millis (\<Union>m \<in> snd ` set ?ds. set (field_rows sample_lib ?key m))"
    "consistent_versions (\<lambda>_. ()) topping_millis (\<Union>m \<in> snd ` set ?ds. set (topping_rows sample_lib ?key m))"
    "consistent_versions ep_id pizza_millis (\<Union>m \<in> snd ` set ?ds. set (pizza_rows sample_lib ?key m))"
    unfolding fields by (auto simp: consistent_versions_def field_millis_def renamed_fields_def sample_fields_def UnixMilli_def)
  have messages: "\<forall>m \<in> snd ` set ?ds. no_newer_snapshot sample_lib ?key (field_millis (er_fields (sd_source sample_doc))) m"
    by (auto simp: no_newer_snapshot_def renamed_rows)
  show ?thesis
    using index_converges [OF start runs all messages versions] runs by blast
qed

subsection \<open>A search\<close>

definition sample_es :: es_lib where
  "sample_es = \<lparr> el_arcDistance = (\<lambda>_ _ _. 3000), el_docValues = (\<lambda>vs. sorted_list_of_set (set vs)),
     el_get = (\<lambda>vs i. if i < length vs then Some (vs ! i) else None),
     el_local = (\<lambda>_ _. Some (''tuesday'', 21, 0)), el_text = (\<lambda>_ _. True), el_rank = (\<lambda>_ ds. take 10 ds), el_eager = (\<lambda>_. False) \<rparr>"

definition sample_search :: SearchQuery where
  "sample_search = \<lparr> sq_Text = '''', sq_Location = \<lparr> gp_Lat = 0, gp_Lon = 0 \<rparr>, sq_Fulfillment = '''', sq_Tags = [], sq_OpenNow = False,
     sq_Sort = '''' \<rparr>"

lemma sample_matching: "matching sample_es (buildSearchQuery 0 sample_search) sample_doc"
  by (simp add: matching_def buildSearchQuery_def sample_search_def deliveryRangeScript_def sample_doc_def sample_fields_def sample_es_def)

theorem search_answers_witness:
  "\<exists>rs. ss_Search sample_lib sample_es es_env0 0 sample_search [sample_doc] = Inr rs \<and>
    fromESRestaurant 5 (sd_source sample_doc) \<in> set rs \<and> (\<forall>r \<in> set rs. fits_query sample_es sample_search r)"
proof -
  have "mset (take 10 ds) \<subseteq># mset ds" for ds :: "es_doc list"
    using mset_subset_eq_add_left [of "mset (take 10 ds)" "mset (drop 10 ds)"] by (simp flip: mset_append)
  then have rank: "es_ranking sample_es" by (simp add: es_ranking_def sample_es_def min.commute)
  have "\<not> raising sample_es (buildSearchQuery 0 sample_search) sample_doc"
    by (simp add: raising_def buildSearchQuery_def sample_search_def deliveryRangeScript_def sample_doc_def sample_fields_def)
  then obtain rs where run: "ss_Search sample_lib sample_es es_env0 0 sample_search [sample_doc] = Inr rs"
    by (auto simp: ss_Search_def es_Search_def es_env0_def)
  have id: "uuidParse sample_lib (sd_id sample_doc) = Some 5" by (simp add: sample_doc_def)
  have "\<not> sq_OpenNow sample_search" by (simp add: sample_search_def)
  then show ?thesis
    using search_answers [OF rank run] run id sample_matching matching_fits [of sample_es 0 sample_search sample_doc 5]
    by (simp split: if_splits)
qed

definition evening_doc :: es_doc where
  "evening_doc = sample_doc\<lparr> sd_source := (sd_source sample_doc)\<lparr> er_fields := (er_fields (sd_source sample_doc))\<lparr> ef_openingHours :=
     [\<lparr> eh_weekday = ''monday'', eh_open = ''11:00'', eh_close = ''22:00'' \<rparr>,
      \<lparr> eh_weekday = ''tuesday'', eh_open = ''17:00'', eh_close = ''20:00'' \<rparr>] \<rparr> \<rparr> \<rparr>"

text \<open>On Tuesday at nine in the evening.\<close>

theorem open_now_misjudges_witness:
  "matching sample_es (buildSearchQuery 0 (sample_search\<lparr> sq_OpenNow := True \<rparr>)) evening_doc \<and>
   \<not> open_at ''tuesday'' ''21:00'' (ef_openingHours (er_fields (sd_source evening_doc)))"
proof -
  have lists: "es_lists sample_es" by (simp add: es_lists_def sample_es_def)
  have fits: "fits_query sample_es (sample_search\<lparr> sq_OpenNow := True \<rparr>) (fromESRestaurant 5 (sd_source evening_doc))"
    by (simp add: fits_query_def Let_def fromESRestaurant_def evening_doc_def sample_doc_def sample_fields_def sample_search_def sample_es_def)
  have hours: "ef_openingHours (er_fields (sd_source evening_doc)) =
      [\<lparr> eh_weekday = ''monday'', eh_open = ''11:00'', eh_close = ''22:00'' \<rparr>,
       \<lparr> eh_weekday = ''tuesday'', eh_open = ''17:00'', eh_close = ''20:00'' \<rparr>]"
    "ef_timezone (er_fields (sd_source evening_doc)) \<noteq> ''''" by (simp_all add: evening_doc_def sample_doc_def sample_fields_def)
  have order: "''monday'' < ''tuesday''" "''11:00'' < ''17:00''" "''17:00'' < ''20:00''" "''20:00'' < ''22:00''" by code_simp+
  have clock: "clock_text 21 0 = ''21:00''" "''20:00'' \<le> clock_text 21 0" "clock_text 21 0 < ''22:00''" by code_simp+
  have local: "el_local sample_es tz t = Some (''tuesday'', 21, 0)" for tz t by (simp add: sample_es_def)
  show ?thesis
    using open_now_misjudges [OF lists _ fits hours(1) order hours(2) local _ clock(2,3), of 0] clock(1) by simp
qed

end
