(* ===== verification/Mail_Templates.thy ===== *)
theory Mail_Templates
  imports Prelude
begin

text \<open>
  The templates of notification-service's mails (\<open>infrastructure/notification/email/templates\<close>) and their loader
  (\<open>template_loader.go\<close>). A file is a list of pieces, texts and actions \<open>{{.key}}\<close>; texts are bytes of UTF-8.
\<close>

datatype piece = Lit string | Dot string

definition lines :: "piece list list \<Rightarrow> piece list" where
  "lines ls = concat (List.map (\<lambda>l. l @ [Lit [CHR 0x0A]]) ls)"

definition customer_welcome_email_body :: "piece list" where
  "customer_welcome_email_body = lines
   [[Lit ''Hi '', Dot ''first_name'', Lit '',''],
    [],
    [Lit (''We'' @ [CHR 0xE2, CHR 0x80, CHR 0x99] @ ''re thrilled to have you at ''), Dot ''app_name'', Lit ('' '' @
       [CHR 0xE2, CHR 0x80, CHR 0x94] @ '' where every slice is just a tap away!'')],
    [],
    [Lit (''Here'' @ [CHR 0xE2, CHR 0x80, CHR 0x99] @ ''s what you can do with the app:'')],
    [Lit (''- '' @ [CHR 0xF0, CHR 0x9F, CHR 0x9B, CHR 0xB5] @ '' Order from top local pizza joints'')],
    [Lit (''- '' @ [CHR 0xF0, CHR 0x9F, CHR 0x8D, CHR 0x95] @ '' Customize your pie just how you like it'')],
    [Lit (''- '' @ [CHR 0xF0, CHR 0x9F, CHR 0x92, CHR 0xB8] @ '' Score tasty deals and app-only discounts'')],
    [],
    [Lit (''We can'' @ [CHR 0xE2, CHR 0x80, CHR 0x99] @ ''t wait to serve up your first slice!'')],
    [Lit ([CHR 0xE2, CHR 0x80, CHR 0x94] @ '' The ''), Dot ''app_name'', Lit '' Team''],
    [],
    [Lit ''Need help? Reach us at '', Dot ''support_email'']]"

definition customer_welcome_email_subject :: "piece list" where
  "customer_welcome_email_subject = [Lit ''Welcome to '', Dot ''app_name'', Lit ('' '' @
       [CHR 0xE2, CHR 0x80, CHR 0x93] @ '' Let'' @ [CHR 0xE2, CHR 0x80, CHR 0x99] @ ''s get that first slice!'')]"

definition email_verification_body :: "piece list" where
  "email_verification_body = lines
   [[Lit ''Hello '', Dot ''email'', Lit '',''],
    [],
    [Lit ''To continue setting up your '', Dot ''app_name'',
       Lit '' account, please verify your email using the code below:''],
    [],
    [Dot ''code''],
    [],
    [Lit ''This code will expire in '', Dot ''token_expiry_minutes'', Lit '' minutes. Please do not share it with anyone.''],
    [Lit ''If you did not request this, you can safely ignore this email.'']]"

definition email_verification_subject :: "piece list" where
  "email_verification_subject = [Lit ''Your verification code for '', Dot ''app_name'']"

definition order_confirmed_customer_body :: "piece list" where
  "order_confirmed_customer_body = lines
   [[Lit ''Hello,''],
    [],
    [Lit ''Your order from \"'', Dot ''restaurant_name'', Lit ''\" has been confirmed.''],
    [],
    [Lit ''Order: '', Dot ''items''],
    [Lit ''Total: '', Dot ''total'', Lit '' '', Dot ''currency''],
    [],
    [Lit ''Confirmed at: '', Dot ''confirmed_at''],
    []] @ [Lit ''The '', Dot ''app_name'', Lit '' Team'']"

definition order_confirmed_customer_subject :: "piece list" where
  "order_confirmed_customer_subject = [Lit ''Your order from \"'', Dot ''restaurant_name'', Lit ''\" is confirmed'']"

definition order_confirmed_owner_body :: "piece list" where
  "order_confirmed_owner_body = lines
   [[Lit ''Hello,''],
    [],
    [Lit ''You have a new confirmed order for \"'', Dot ''restaurant_name'', Lit ''\".''],
    [],
    [Lit ''Order: '', Dot ''items''],
    [Lit ''Total: '', Dot ''total'', Lit '' '', Dot ''currency''],
    [],
    [Lit ''Confirmed at: '', Dot ''confirmed_at''],
    []] @ [Lit ''The '', Dot ''app_name'', Lit '' Team'']"

definition order_confirmed_owner_subject :: "piece list" where
  "order_confirmed_owner_subject = [Lit ''New order for \"'', Dot ''restaurant_name'', Lit ''\"'']"

definition owner_welcome_email_body :: "piece list" where
  "owner_welcome_email_body = lines
   [[Lit ''Hi '', Dot ''first_name'', Lit '',''],
    [],
    [Lit ''Welcome to '', Dot ''app_name'', Lit '', where your delicious pizza meets hungry customers fast.''],
    [],
    [Lit (''We'' @ [CHR 0xE2, CHR 0x80, CHR 0x99] @ ''re excited to have your restaurant on board! With ''),
       Dot ''app_name'', Lit '', you'll be able to:''],
    [Lit (''- '' @ [CHR 0xF0, CHR 0x9F, CHR 0x93, CHR 0xB1] @ '' Accept online orders with ease '')],
    [Lit (''- '' @ [CHR 0xF0, CHR 0x9F, CHR 0x8D, CHR 0x95] @ '' Reach more local customers '')],
    [Lit (''- '' @ [CHR 0xF0, CHR 0x9F, CHR 0x9A, CHR 0x97] @ '' Manage deliveries and pickup all in one place '')],
    [Lit (''- '' @ [CHR 0xF0, CHR 0x9F, CHR 0x92, CHR 0xB8] @ '' Boost your revenue without extra hassle '')],
    [],
    [Lit (''What'' @ [CHR 0xE2, CHR 0x80, CHR 0x99] @ ''s next?'')],
    [Lit ([CHR 0xF0, CHR 0x9F, CHR 0x91, CHR 0x89] @ '' Log in to your dashboard'')],
    [Lit ([CHR 0xF0, CHR 0x9F, CHR 0x91, CHR 0x89] @ '' Add your menu & business hours'')],
    [Lit ([CHR 0xF0, CHR 0x9F, CHR 0x91, CHR 0x89] @ '' Start accepting orders'' @ [CHR 0xE2, CHR 0x80, CHR 0x94] @
       ''just like that!'')],
    [],
    [Lit ''Need help setting things up? Our team is here for you every step of the way. Reach us at '',
       Dot ''support_email'', Lit ''.''],
    [],
    [Lit ''Thanks again for joining the '', Dot ''app_name'', Lit '' family. We can't wait to help your business grow!''],
    [],
    [Lit ''Warm regards,''],
    [Lit ''The '', Dot ''app_name'', Lit '' Team'']]"

definition owner_welcome_email_subject :: "piece list" where
  "owner_welcome_email_subject = [Lit ''Welcome to '', Dot ''app_name'', Lit ('' '' @
       [CHR 0xE2, CHR 0x80, CHR 0x93] @ '' Let'' @ [CHR 0xE2, CHR 0x80, CHR 0x99] @ ''s Fire Up the Oven '' @
       [CHR 0xF0, CHR 0x9F, CHR 0x94, CHR 0xA5])]"

definition restaurant_approved_body :: "piece list" where
  "restaurant_approved_body = lines
   [[Lit ''Hello,''],
    [],
    [Lit ''Great news! Your restaurant \"'', Dot ''restaurant_name'', Lit ''\" has been approved on '',
       Dot ''app_name'', Lit ''.''],
    [],
    [Lit ''You can now launch it to start accepting orders.''],
    [],
    [Lit ''Approved at: '', Dot ''approved_at''],
    []] @ [Lit ''The '', Dot ''app_name'', Lit '' Team'']"

definition restaurant_approved_subject :: "piece list" where
  "restaurant_approved_subject = [Lit ''Your restaurant \"'', Dot ''restaurant_name'',
       Lit ''\" has been approved on '', Dot ''app_name'']"

definition restaurant_ready_for_review_body :: "piece list" where
  "restaurant_ready_for_review_body = lines
   [[Lit ''Hello,''],
    [],
    [Lit ''Restaurant \"'', Dot ''restaurant_name'', Lit ''\" (ID: '', Dot ''restaurant_id'',
       Lit '') has completed onboarding and is ready for review.''],
    [],
    [Lit ''Submitted at: '', Dot ''ready_at''],
    [],
    [Lit ''Please review this restaurant in the admin dashboard.''],
    []] @ [Lit ''The '', Dot ''app_name'', Lit '' Team'']"

definition restaurant_ready_for_review_subject :: "piece list" where
  "restaurant_ready_for_review_subject = [Lit ''A restaurant is ready for review on '', Dot ''app_name'']"

definition template_files :: "(string \<times> piece list) list" where
  "template_files =
   [(''customer_welcome_email_body.html'', customer_welcome_email_body),
    (''customer_welcome_email_subject.html'', customer_welcome_email_subject),
    (''email_verification_body.html'', email_verification_body),
    (''email_verification_subject.html'', email_verification_subject),
    (''order_confirmed_customer_body.html'', order_confirmed_customer_body),
    (''order_confirmed_customer_subject.html'', order_confirmed_customer_subject),
    (''order_confirmed_owner_body.html'', order_confirmed_owner_body),
    (''order_confirmed_owner_subject.html'', order_confirmed_owner_subject),
    (''owner_welcome_email_body.html'', owner_welcome_email_body),
    (''owner_welcome_email_subject.html'', owner_welcome_email_subject),
    (''restaurant_approved_body.html'', restaurant_approved_body),
    (''restaurant_approved_subject.html'', restaurant_approved_subject),
    (''restaurant_ready_for_review_body.html'', restaurant_ready_for_review_body),
    (''restaurant_ready_for_review_subject.html'', restaurant_ready_for_review_subject)]"

text \<open>
  \<open>Execute\<close> on a \<open>map[string]string\<close>: nothing is escaped (\<open>text/template\<close>), and a key that the map does not have is
  shown as \<open><no value>\<close>.
\<close>

definition Execute_template :: "piece list \<Rightarrow> (string \<times> string) list \<Rightarrow> string" where
  "Execute_template ps data = concat (List.map (\<lambda>p. case p of
       Lit s \<Rightarrow> s
     | Dot key \<Rightarrow> (case map_of data key of Some v \<Rightarrow> v | None \<Rightarrow> ''<no value>'')) ps)"

text \<open>\<open>Render\<close>; \<open>readable\<close> says which files can be read.\<close>

definition Render :: "(string \<Rightarrow> bool) \<Rightarrow> string \<Rightarrow> (string \<times> string) list \<Rightarrow> ('e, string) result" where
  "Render readable name data =
     (if \<not> readable name then Inl []
      else case map_of template_files name of
        None \<Rightarrow> Inl []
      | Some ps \<Rightarrow> Inr (Execute_template ps data))"

end
