(* ===== verification/Notification.thy ===== *)
theory Notification
  imports Mail_Templates Consumer Restaurant_Events
begin

text \<open>
  Notification-service: the mails it sends (\<open>infrastructure/notification/email/smtp_sender.go\<close>), the handlers of the
  other services' events (\<open>application/notification\<close>) and their dispatcher (\<open>container/container.go\<close>). Its state is the list
  of the mails that the SMTP server has taken.
\<close>

subsection \<open>Sending\<close>

record Message =
  msg_To :: string
  msg_Subject :: string
  msg_Body :: string

record mail =
  ml_To :: string
  ml_Raw :: string

text \<open>
  The configuration: the environment's variables, the sender's address, and a time as
  \<open>In("Europe/Berlin").Format("Jan 2, 2006 3:04 PM MST")\<close> writes it. An environment says which template files can be read,
  and what becomes of the first and the second mail of a handler.
\<close>

record nt_config =
  nc_getenv :: "string \<Rightarrow> string"
  nc_from :: string
  nc_local :: "time \<Rightarrow> string"

datatype smtp_answer = MailTaken | MailRefused | MailTakenAnswerLost

record nt_env =
  ne_read :: "string \<Rightarrow> bool"
  ne_smtp :: "nat \<Rightarrow> smtp_answer"

type_synonym nt_op = "(mail list, apperr, unit) op"

definition crlf :: string where
  "crlf = [CHR 0x0D, CHR 0x0A]"

definition raw_mail :: "string \<Rightarrow> Message \<Rightarrow> string" where
  "raw_mail from_addr msg =
     ''From: '' @ from_addr @ crlf @
     ''To: '' @ msg_To msg @ crlf @
     ''Subject: '' @ msg_Subject msg @ crlf @
     ''MIME-Version: 1.0'' @ crlf @
     ''Content-Type: text/plain; charset=\"UTF-8\"'' @ crlf @
     ''Content-Transfer-Encoding: 8bit'' @ crlf @
     crlf @ msg_Body msg @ crlf"

text \<open>
  \<open>smtp.SendMail\<close> of Go refuses an address with a line break before it connects. Of the message it checks nothing.
\<close>

definition validateLine :: "string \<Rightarrow> bool" where
  "validateLine line \<longleftrightarrow> CHR 0x0D \<notin> set line \<and> CHR 0x0A \<notin> set line"

definition Send :: "nt_config \<Rightarrow> nt_env \<Rightarrow> nat \<Rightarrow> Message \<Rightarrow> nt_op" where
  "Send C E n msg sent =
     (let sent' = sent @ [\<lparr> ml_To = msg_To msg, ml_Raw = raw_mail (nc_from C) msg \<rparr>] in
      if \<not> validateLine (nc_from C) \<or> \<not> validateLine (msg_To msg) then (Inl [], sent)
      else case ne_smtp E n of
        MailTaken \<Rightarrow> (Inr (), sent') | MailTakenAnswerLost \<Rightarrow> (Inl [], sent') | MailRefused \<Rightarrow> (Inl [], sent))"

text \<open>The way all handlers end: subject, body, \<open>Send\<close>.\<close>

definition render_and_send ::
  "nt_config \<Rightarrow> nt_env \<Rightarrow> nat \<Rightarrow> string \<Rightarrow> string \<Rightarrow> (string \<times> string) list \<Rightarrow> string \<Rightarrow> (string \<times> string) list \<Rightarrow> nt_op" where
  "render_and_send C E n receiver subjectTemplate subjectData bodyTemplate bodyData =
     bind (query (\<lambda>_. Render (ne_read E) subjectTemplate subjectData)) (\<lambda>subject.
     bind (query (\<lambda>_. Render (ne_read E) bodyTemplate bodyData)) (\<lambda>body.
     Send C E n \<lparr> msg_To = receiver, msg_Subject = subject, msg_Body = body \<rparr>))"

subsection \<open>Handlers\<close>

definition dec_fields :: "json \<Rightarrow> string list \<Rightarrow> string list option" where
  "dec_fields j keys = (if \<not> is_struct j then None else those (List.map (\<lambda>key. dec_str (member j key)) keys))"

definition EmailVerificationCreated_Handle :: "nt_config \<Rightarrow> nt_env \<Rightarrow> json option \<Rightarrow> nt_op" where
  "EmailVerificationCreated_Handle C E body =
     (case Option.bind body (\<lambda>j. dec_fields j [''email'', ''code'']) of
        Some [email, code] \<Rightarrow>
          render_and_send C E 0 email
            ''email_verification_subject.html'' [(''app_name'', nc_getenv C ''APP_NAME'')]
            ''email_verification_body.html''
              [(''email'', email), (''code'', code), (''app_name'', nc_getenv C ''APP_NAME''),
               (''token_expiry_minutes'', nc_getenv C ''TOKEN_EXPIRY_MINUTES'')]
      | _ \<Rightarrow> fail [])"

definition UserRegistered_Handle_nt :: "nt_config \<Rightarrow> nt_env \<Rightarrow> json option \<Rightarrow> nt_op" where
  "UserRegistered_Handle_nt C E body =
     (case Option.bind body (\<lambda>j. dec_fields j [''email'', ''first_name'', ''role'', ''timestamp'']) of
        Some [email, firstName, role, timestamp] \<Rightarrow>
          if role \<notin> {''customer'', ''owner''} then fail []
          else render_and_send C E 0 email
            (role @ ''_welcome_email_subject.html'') [(''app_name'', nc_getenv C ''APP_NAME'')]
            (role @ ''_welcome_email_body.html'')
              [(''first_name'', firstName), (''app_name'', nc_getenv C ''APP_NAME''),
               (''support_email'', nc_getenv C ''SUPPORT_EMAIL'')]
      | _ \<Rightarrow> fail [])"

record ready_payload =
  rdp_RestaurantID :: string
  rdp_RestaurantName :: string
  rdp_ReadyAt :: time

definition unmarshal_ready :: "'d lib \<Rightarrow> json \<Rightarrow> ready_payload option" where
  "unmarshal_ready L j =
     (if \<not> is_struct j then None
      else case (dec_str (member j ''restaurant_id''), dec_str (member j ''restaurant_name''), dec_time L (member j ''ready_at'')) of
        (Some i, Some name, Some t) \<Rightarrow> Some \<lparr> rdp_RestaurantID = i, rdp_RestaurantName = name, rdp_ReadyAt = t \<rparr>
      | _ \<Rightarrow> None)"

definition RestaurantReadyForReview_Handle :: "'d lib \<Rightarrow> nt_config \<Rightarrow> nt_env \<Rightarrow> json option \<Rightarrow> nt_op" where
  "RestaurantReadyForReview_Handle L C E body = (case Option.bind body (unmarshal_ready L) of
     None \<Rightarrow> fail []
   | Some p \<Rightarrow>
       render_and_send C E 0 (nc_getenv C ''ADMIN_EMAIL'')
         ''restaurant_ready_for_review_subject.html'' [(''app_name'', nc_getenv C ''APP_NAME'')]
         ''restaurant_ready_for_review_body.html''
           [(''restaurant_id'', rdp_RestaurantID p), (''restaurant_name'', rdp_RestaurantName p),
            (''ready_at'', nc_local C (rdp_ReadyAt p)), (''app_name'', nc_getenv C ''APP_NAME'')])"

record approved_payload =
  apd_RestaurantID :: string
  apd_RestaurantName :: string
  apd_Email :: string
  apd_ApprovedAt :: time

definition unmarshal_approved :: "'d lib \<Rightarrow> json \<Rightarrow> approved_payload option" where
  "unmarshal_approved L j =
     (if \<not> is_struct j then None
      else case (dec_str (member j ''restaurant_id''), dec_str (member j ''restaurant_name''), dec_str (member j ''email''),
                 dec_time L (member j ''approved_at'')) of
        (Some i, Some name, Some email, Some t) \<Rightarrow>
          Some \<lparr> apd_RestaurantID = i, apd_RestaurantName = name, apd_Email = email, apd_ApprovedAt = t \<rparr>
      | _ \<Rightarrow> None)"

definition RestaurantApproved_Handle :: "'d lib \<Rightarrow> nt_config \<Rightarrow> nt_env \<Rightarrow> json option \<Rightarrow> nt_op" where
  "RestaurantApproved_Handle L C E body = (case Option.bind body (unmarshal_approved L) of
     None \<Rightarrow> fail []
   | Some p \<Rightarrow>
       render_and_send C E 0 (apd_Email p)
         ''restaurant_approved_subject.html''
           [(''restaurant_name'', apd_RestaurantName p), (''app_name'', nc_getenv C ''APP_NAME'')]
         ''restaurant_approved_body.html''
           [(''restaurant_name'', apd_RestaurantName p), (''approved_at'', nc_local C (apd_ApprovedAt p)),
            (''app_name'', nc_getenv C ''APP_NAME'')])"

record confirmed_item =
  cfi_Name :: string
  cfi_Quantity :: "64 word"

record confirmed_payload =
  cfp_OrderID :: string
  cfp_RestaurantID :: string
  cfp_RestaurantName :: string
  cfp_CustomerEmail :: string
  cfp_OwnerEmail :: string
  cfp_Items :: "confirmed_item list"
  cfp_Total :: string
  cfp_Currency :: string
  cfp_ConfirmedAt :: time

definition dec_int64 :: "json \<Rightarrow> (64 word) option" where
  "dec_int64 j = (case j of
     JNull \<Rightarrow> Some 0
   | JInt i \<Rightarrow> if - (2 ^ 63) \<le> i \<and> i < 2 ^ 63 then Some (word_of_int i) else None
   | _ \<Rightarrow> None)"

definition dec_confirmed_item :: "json \<Rightarrow> confirmed_item option" where
  "dec_confirmed_item j =
     (if \<not> is_struct j then None
      else case (dec_str (member j ''name''), dec_int64 (member j ''quantity'')) of
        (Some name, Some q) \<Rightarrow> Some \<lparr> cfi_Name = name, cfi_Quantity = q \<rparr>
      | _ \<Rightarrow> None)"

definition unmarshal_confirmed :: "'d lib \<Rightarrow> json \<Rightarrow> confirmed_payload option" where
  "unmarshal_confirmed L j =
     (if \<not> is_struct j then None
      else case ((dec_str (member j ''order_id''), dec_str (member j ''restaurant_id''), dec_str (member j ''restaurant_name''),
                  dec_str (member j ''customer_email''), dec_str (member j ''owner_email'')),
                 (dec_list dec_confirmed_item (member j ''items''), dec_str (member j ''total''), dec_str (member j ''currency''),
                  dec_time L (member j ''confirmed_at''))) of
        ((Some oid, Some rid, Some name, Some customer, Some owner), (Some items, Some amount, Some currency, Some t)) \<Rightarrow>
          Some \<lparr> cfp_OrderID = oid, cfp_RestaurantID = rid, cfp_RestaurantName = name, cfp_CustomerEmail = customer,
                 cfp_OwnerEmail = owner, cfp_Items = items, cfp_Total = amount, cfp_Currency = currency, cfp_ConfirmedAt = t \<rparr>
      | _ \<Rightarrow> None)"

definition item_line :: "confirmed_item \<Rightarrow> string" where
  "item_line i = show_int (sint (cfi_Quantity i)) @ ''x '' @ cfi_Name i"

definition confirmed_data :: "nt_config \<Rightarrow> confirmed_payload \<Rightarrow> (string \<times> string) list" where
  "confirmed_data C p =
     [(''restaurant_name'', cfp_RestaurantName p), (''order_id'', cfp_OrderID p),
      (''items'', join '', '' (List.map item_line (cfp_Items p))), (''total'', cfp_Total p),
      (''currency'', cfp_Currency p), (''confirmed_at'', nc_local C (cfp_ConfirmedAt p)),
      (''app_name'', nc_getenv C ''APP_NAME'')]"

definition sendEmail :: "nt_config \<Rightarrow> nt_env \<Rightarrow> nat \<Rightarrow> string \<Rightarrow> string \<Rightarrow> (string \<times> string) list \<Rightarrow> nt_op" where
  "sendEmail C E n receiver templatePrefix data =
     render_and_send C E n receiver (templatePrefix @ ''_subject.html'') data (templatePrefix @ ''_body.html'') data"

definition OrderConfirmed_Handle :: "'d lib \<Rightarrow> nt_config \<Rightarrow> nt_env \<Rightarrow> json option \<Rightarrow> nt_op" where
  "OrderConfirmed_Handle L C E body = (case Option.bind body (unmarshal_confirmed L) of
     None \<Rightarrow> fail []
   | Some p \<Rightarrow>
       bind (sendEmail C E 0 (cfp_CustomerEmail p) ''order_confirmed_customer'' (confirmed_data C p)) (\<lambda>_.
       sendEmail C E 1 (cfp_OwnerEmail p) ''order_confirmed_owner'' (confirmed_data C p)))"

definition nt_Dispatch :: "'d lib \<Rightarrow> nt_config \<Rightarrow> string \<Rightarrow> nt_env \<Rightarrow> json option \<Rightarrow> nt_op" where
  "nt_Dispatch L C name E body =
     (if name = ''order.confirmed'' then OrderConfirmed_Handle L C E body
      else if name = ''restaurant.approved'' then RestaurantApproved_Handle L C E body
      else if name = ''restaurant.ready_for_review'' then RestaurantReadyForReview_Handle L C E body
      else if name = ''email.verification_created'' then EmailVerificationCreated_Handle C E body
      else if name = ''user.registered'' then UserRegistered_Handle_nt C E body
      else fail [])"

end
