(* ===== verification/Notification_Props.thy ===== *)
theory Notification_Props
  imports Notification
begin

text \<open>
  What notification-service's mails say and when they are sent: the specification of the mails of a message, the handlers
  against it, and the histories of the consumer.
\<close>

subsection \<open>The mails of a message\<close>

definition mail_to ::
  "nt_config \<Rightarrow> string \<Rightarrow> piece list \<Rightarrow> (string \<times> string) list \<Rightarrow> piece list \<Rightarrow> (string \<times> string) list \<Rightarrow> mail" where
  "mail_to C receiver subject subjectData body bodyData =
     \<lparr> ml_To = receiver, ml_Raw = raw_mail (nc_from C)
        \<lparr> msg_To = receiver, msg_Subject = Execute_template subject subjectData, msg_Body = Execute_template body bodyData \<rparr> \<rparr>"

definition app_name :: "nt_config \<Rightarrow> (string \<times> string) list" where
  "app_name C = [(''app_name'', nc_getenv C ''APP_NAME'')]"

definition confirmed_mails :: "nt_config \<Rightarrow> confirmed_payload \<Rightarrow> mail list" where
  "confirmed_mails C p =
     [mail_to C (cfp_CustomerEmail p) order_confirmed_customer_subject (confirmed_data C p)
        order_confirmed_customer_body (confirmed_data C p),
      mail_to C (cfp_OwnerEmail p) order_confirmed_owner_subject (confirmed_data C p)
        order_confirmed_owner_body (confirmed_data C p)]"

definition approved_mail :: "nt_config \<Rightarrow> approved_payload \<Rightarrow> mail" where
  "approved_mail C p =
     mail_to C (apd_Email p)
       restaurant_approved_subject ((''restaurant_name'', apd_RestaurantName p) # app_name C)
       restaurant_approved_body ([(''restaurant_name'', apd_RestaurantName p), (''approved_at'', nc_local C (apd_ApprovedAt p))] @ app_name C)"

definition ready_mail :: "nt_config \<Rightarrow> ready_payload \<Rightarrow> mail" where
  "ready_mail C p =
     mail_to C (nc_getenv C ''ADMIN_EMAIL'') restaurant_ready_for_review_subject (app_name C)
       restaurant_ready_for_review_body ([(''restaurant_id'', rdp_RestaurantID p), (''restaurant_name'', rdp_RestaurantName p),
         (''ready_at'', nc_local C (rdp_ReadyAt p))] @ app_name C)"

definition code_mail :: "nt_config \<Rightarrow> string \<Rightarrow> string \<Rightarrow> mail" where
  "code_mail C email code =
     mail_to C email email_verification_subject (app_name C)
       email_verification_body ([(''email'', email), (''code'', code)] @ app_name C @
         [(''token_expiry_minutes'', nc_getenv C ''TOKEN_EXPIRY_MINUTES'')])"

definition welcome_mail :: "nt_config \<Rightarrow> bool \<Rightarrow> string \<Rightarrow> string \<Rightarrow> mail" where
  "welcome_mail C customer email firstName =
     (let data = [(''first_name'', firstName)] @ app_name C @ [(''support_email'', nc_getenv C ''SUPPORT_EMAIL'')] in
      if customer then mail_to C email customer_welcome_email_subject (app_name C) customer_welcome_email_body data
      else mail_to C email owner_welcome_email_subject (app_name C) owner_welcome_email_body data)"

definition mails_of :: "'d lib \<Rightarrow> nt_config \<Rightarrow> message \<Rightarrow> mail list" where
  "mails_of L C m = (case m of
     (_, None) \<Rightarrow> []
   | (name, Some j) \<Rightarrow>
       if name = ''order.confirmed'' then (case unmarshal_confirmed L j of Some p \<Rightarrow> confirmed_mails C p | None \<Rightarrow> [])
       else if name = ''restaurant.approved'' then
         (case unmarshal_approved L j of Some p \<Rightarrow> [approved_mail C p] | None \<Rightarrow> [])
       else if name = ''restaurant.ready_for_review'' then
         (case unmarshal_ready L j of Some p \<Rightarrow> [ready_mail C p] | None \<Rightarrow> [])
       else if name = ''email.verification_created'' then
         (case dec_fields j [''email'', ''code''] of Some [email, code] \<Rightarrow> [code_mail C email code] | _ \<Rightarrow> [])
       else if name = ''user.registered'' then
         (case dec_fields j [''email'', ''first_name'', ''role'', ''timestamp''] of
            Some [email, firstName, role, _] \<Rightarrow>
              if role = ''customer'' then [welcome_mail C True email firstName]
              else if role = ''owner'' then [welcome_mail C False email firstName] else []
          | _ \<Rightarrow> [])
       else [])"

text \<open>\<open>sends ms m\<close>: the operation sends a first part of the mails \<open>ms\<close>, all of them if it succeeds, and then there is one.\<close>

definition sends :: "mail list \<Rightarrow> nt_op \<Rightarrow> bool" where
  "sends ms m \<longleftrightarrow> (\<forall>sent r sent'. m sent = (r, sent') \<longrightarrow>
     (\<exists>k. sent' = sent @ take k ms \<and> (isl r \<or> ms \<noteq> [] \<and> length ms \<le> k)))"

lemma sends_fail: "sends ms (fail e)"
  by (auto simp: sends_def fail_def intro: exI [of _ 0])

lemma render_and_send_sends:
  assumes "map_of template_files subject = Some s" "map_of template_files body = Some b"
  shows "sends [mail_to C receiver s sd b bd] (render_and_send C E n receiver subject sd body bd)"
  unfolding sends_def
proof (intro allI impI)
  fix sent r sent'
  assume run: "render_and_send C E n receiver subject sd body bd sent = (r, sent')"
  let ?msg = "\<lparr> msg_To = receiver, msg_Subject = Execute_template s sd, msg_Body = Execute_template b bd \<rparr>"
  consider "isl r \<and> sent' = sent" | "Send C E n ?msg sent = (r, sent')"
    using run assms by (auto simp: render_and_send_def Render_def bind_def query_def split: if_splits)
  then show "\<exists>k. sent' = sent @ take k [mail_to C receiver s sd b bd] \<and> (isl r \<or> [mail_to C receiver s sd b bd] \<noteq> [] \<and>
      length [mail_to C receiver s sd b bd] \<le> k)"
  proof cases
    case 1
    then show ?thesis by (intro exI [of _ 0]) simp
  next
    case 2
    then consider "isl r \<and> sent' = sent" | "sent' = sent @ [mail_to C receiver s sd b bd]"
      by (auto simp: Send_def Let_def mail_to_def split: if_splits smtp_answer.splits)
    then show ?thesis by cases (auto intro: exI [of _ 0] exI [of _ 1])
  qed
qed

lemma sends_bind:
  assumes m: "sends [x] m" and f: "\<And>u. sends ms (f u)"
  shows "sends (x # ms) (bind m f)"
  unfolding sends_def
proof (intro allI impI)
  fix sent r sent'
  assume run: "bind m f sent = (r, sent')"
  obtain r1 sent1 where 1: "m sent = (r1, sent1)" by fastforce
  obtain k where k: "sent1 = sent @ take k [x]" "isl r1 \<or> 1 \<le> k"
    using m 1 by (fastforce simp: sends_def)
  show "\<exists>k. sent' = sent @ take k (x # ms) \<and> (isl r \<or> x # ms \<noteq> [] \<and> length (x # ms) \<le> k)"
  proof (cases r1)
    case (Inl e)
    then have "sent' = sent @ take (min k 1) (x # ms)" "isl r" using run 1 k by (auto simp: bind_def min_def take_Cons')
    then show ?thesis by blast
  next
    case (Inr u)
    then have sent1: "sent1 = sent @ [x]" and rest: "f u sent1 = (r, sent')" using run 1 k by (auto simp: bind_def take_Cons')
    obtain k' where "sent' = sent1 @ take k' ms" "isl r \<or> ms \<noteq> [] \<and> length ms \<le> k'"
      using f [of u] rest unfolding sends_def by blast
    then show ?thesis using sent1 by (intro exI [of _ "Suc k'"]) auto
  qed
qed

lemma template_simps [simp]:
  "map_of template_files ''order_confirmed_customer_subject.html'' = Some order_confirmed_customer_subject"
  "map_of template_files ''order_confirmed_customer_body.html'' = Some order_confirmed_customer_body"
  "map_of template_files ''order_confirmed_owner_subject.html'' = Some order_confirmed_owner_subject"
  "map_of template_files ''order_confirmed_owner_body.html'' = Some order_confirmed_owner_body"
  "map_of template_files ''restaurant_approved_subject.html'' = Some restaurant_approved_subject"
  "map_of template_files ''restaurant_approved_body.html'' = Some restaurant_approved_body"
  "map_of template_files ''restaurant_ready_for_review_subject.html'' = Some restaurant_ready_for_review_subject"
  "map_of template_files ''restaurant_ready_for_review_body.html'' = Some restaurant_ready_for_review_body"
  "map_of template_files ''email_verification_subject.html'' = Some email_verification_subject"
  "map_of template_files ''email_verification_body.html'' = Some email_verification_body"
  "map_of template_files ''customer_welcome_email_subject.html'' = Some customer_welcome_email_subject"
  "map_of template_files ''customer_welcome_email_body.html'' = Some customer_welcome_email_body"
  "map_of template_files ''owner_welcome_email_subject.html'' = Some owner_welcome_email_subject"
  "map_of template_files ''owner_welcome_email_body.html'' = Some owner_welcome_email_body"
  by (simp_all add: template_files_def)

lemma sends_confirmed:
  "sends (confirmed_mails C p) (bind (sendEmail C E 0 (cfp_CustomerEmail p) ''order_confirmed_customer'' (confirmed_data C p))
     (\<lambda>_. sendEmail C E 1 (cfp_OwnerEmail p) ''order_confirmed_owner'' (confirmed_data C p)))"
  unfolding confirmed_mails_def sendEmail_def
  by (rule sends_bind; rule render_and_send_sends; simp)

lemma dispatch_sends: "sends (mails_of L C (name, body)) (nt_Dispatch L C name E body)"
proof -
  have "sends (mails_of L C (''order.confirmed'', body)) (OrderConfirmed_Handle L C E body)"
    using sends_confirmed by (auto simp: OrderConfirmed_Handle_def mails_of_def sends_fail split: option.split Option.bind_split)
  moreover have "sends (mails_of L C (''restaurant.approved'', body)) (RestaurantApproved_Handle L C E body)"
    by (auto simp: RestaurantApproved_Handle_def mails_of_def approved_mail_def app_name_def sends_fail
        split: option.split Option.bind_split intro!: render_and_send_sends)
  moreover have "sends (mails_of L C (''restaurant.ready_for_review'', body)) (RestaurantReadyForReview_Handle L C E body)"
    by (auto simp: RestaurantReadyForReview_Handle_def mails_of_def ready_mail_def app_name_def sends_fail
        split: option.split Option.bind_split intro!: render_and_send_sends)
  moreover have "sends (mails_of L C (''email.verification_created'', body)) (EmailVerificationCreated_Handle C E body)"
    by (auto simp: EmailVerificationCreated_Handle_def mails_of_def code_mail_def app_name_def sends_fail
        split: option.split list.split Option.bind_split intro!: render_and_send_sends)
  moreover have "sends (mails_of L C (''user.registered'', body)) (UserRegistered_Handle_nt C E body)"
    by (auto simp: UserRegistered_Handle_nt_def mails_of_def welcome_mail_def app_name_def sends_fail Let_def
        split: option.split list.split Option.bind_split intro!: render_and_send_sends)
  moreover have "sends (mails_of L C (name, body)) (fail e)" for name e by (rule sends_fail)
  ultimately show ?thesis by (auto simp: nt_Dispatch_def)
qed

subsection \<open>Histories of the consumer\<close>

definition nt_handle :: "'d lib \<Rightarrow> nt_config \<Rightarrow> nt_env \<Rightarrow> (mail list, apperr) dispatch" where
  "nt_handle L C E name body = nt_Dispatch L C name E body"

lemma nt_reach_mails:
  assumes "broker_reach (nt_handle L C) [] b"
  shows "(\<forall>m \<in> set (bk_handled b). mails_of L C m \<noteq> [] \<and> set (mails_of L C m) \<subseteq> set (bk_db b)) \<and>
    (\<forall>x \<in> set (bk_db b). \<exists>m \<in> set (bk_published b). x \<in> set (mails_of L C m))"
proof (rule broker_reach_keeps [where Q = "\<lambda>s H A. (\<forall>m \<in> set H. mails_of L C m \<noteq> [] \<and> set (mails_of L C m) \<subseteq> set s) \<and>
    (\<forall>x \<in> set s. \<exists>m \<in> A. x \<in> set (mails_of L C m))", OF _ _ _ assms])
  fix E m sent H A r sent'
  assume Q: "(\<forall>m \<in> set H. mails_of L C m \<noteq> [] \<and> set (mails_of L C m) \<subseteq> set sent) \<and>
      (\<forall>x \<in> set sent. \<exists>m \<in> A. x \<in> set (mails_of L C m))"
    and m: "m \<in> A" and run: "nt_handle L C E (fst m) (snd m) sent = (r, sent')"
  obtain k where k: "sent' = sent @ take k (mails_of L C m)" "isl r \<or> mails_of L C m \<noteq> [] \<and> length (mails_of L C m) \<le> k"
    using dispatch_sends [of L C "fst m" "snd m" E] run unfolding sends_def nt_handle_def prod.collapse by blast
  have "\<exists>m \<in> A. x \<in> set (mails_of L C m)" if "x \<in> set sent'" for x
    using that Q m in_set_takeD [of x k "mails_of L C m"] unfolding k(1) by auto
  then show "(\<forall>m' \<in> set (if isl r then H else H @ [m]). mails_of L C m' \<noteq> [] \<and> set (mails_of L C m') \<subseteq> set sent') \<and>
      (\<forall>x \<in> set sent'. \<exists>m \<in> A. x \<in> set (mails_of L C m))"
    using Q k by auto
qed (simp, blast)

text \<open>
  C12. Mails follow events. Whatever fails and however often messages are redelivered: every event that was published
  to notification-service has had all its mails sent (there is at least one: to the customer and the owner of a
  confirmed order, to the owner of an approved restaurant, to the administrator about one that waits for review, the
  code or the welcome to a user), or it is still in the queue or in the dead-letter queue; and no mail is sent that
  is not one of the mails of a published event.
\<close>

theorem mails_follow_events:
  assumes "broker_reach (nt_handle L C) [] b"
  shows "(\<forall>m \<in> set (bk_published b). mails_of L C m \<noteq> [] \<and> set (mails_of L C m) \<subseteq> set (bk_db b) \<or>
      (\<exists>msg \<in> set (bk_queue b) \<union> set (bk_dlq b). getEventName msg = fst m \<and> dl_Body msg = snd m)) \<and>
    (\<forall>x \<in> set (bk_db b). \<exists>m \<in> set (bk_published b). x \<in> set (mails_of L C m))"
proof -
  have "m \<in> set (bk_handled b) \<or> (\<exists>msg \<in> set (bk_queue b) \<union> set (bk_dlq b). getEventName msg = fst m \<and> dl_Body msg = snd m)"
    if "m \<in> set (bk_published b)" for m
    using broker_reach_inv [OF assms] that by (fastforce simp: broker_inv_def event_payload_def)
  then show ?thesis using nt_reach_mails [OF assms] by blast
qed

subsection \<open>With a working server\<close>

definition works :: "nt_config \<Rightarrow> nt_env \<Rightarrow> bool" where
  "works C E \<longleftrightarrow> (\<forall>f. ne_read E f) \<and> (\<forall>n. ne_smtp E n = MailTaken) \<and> validateLine (nc_from C)"

lemma render_and_send_works:
  assumes "works C E" "validateLine receiver" "map_of template_files subject = Some s" "map_of template_files body = Some b"
  shows "render_and_send C E n receiver subject sd body bd sent = (Inr (), sent @ [mail_to C receiver s sd b bd])"
  using assms by (simp add: works_def render_and_send_def Render_def bind_def query_def Send_def Let_def mail_to_def)

lemma works_confirmed:
  assumes "works C E" "unmarshal_confirmed L j = Some p" "validateLine (cfp_CustomerEmail p)" "validateLine (cfp_OwnerEmail p)"
  shows "nt_Dispatch L C ''order.confirmed'' E (Some j) sent = (Inr (), sent @ confirmed_mails C p)"
  using assms by (simp add: nt_Dispatch_def OrderConfirmed_Handle_def sendEmail_def bind_def render_and_send_works confirmed_mails_def)

lemma works_approved:
  assumes "works C E" "unmarshal_approved L j = Some p" "validateLine (apd_Email p)"
  shows "nt_Dispatch L C ''restaurant.approved'' E (Some j) sent = (Inr (), sent @ [approved_mail C p])"
  using assms by (simp add: nt_Dispatch_def RestaurantApproved_Handle_def render_and_send_works approved_mail_def app_name_def)

subsection \<open>Header lines\<close>

text \<open>The lines of a mail up to the first empty one, as a mail client reads them.\<close>

fun split_crlf :: "string \<Rightarrow> string \<Rightarrow> string list" where
  "split_crlf line [] = [line]"
| "split_crlf line [c] = [line @ [c]]"
| "split_crlf line (c # d # cs) =
     (if c = CHR 0x0D \<and> d = CHR 0x0A then line # split_crlf '''' cs else split_crlf (line @ [c]) (d # cs))"

definition header_lines :: "string \<Rightarrow> string list" where
  "header_lines raw = takeWhile (\<lambda>l. l \<noteq> '''') (split_crlf '''' raw)"

lemma split_crlf_line: "validateLine x \<Longrightarrow> split_crlf line (x @ crlf @ y) = (line @ x) # split_crlf '''' y"
proof (induction x arbitrary: line)
  case Nil
  then show ?case by (simp add: crlf_def)
next
  case (Cons c x)
  then have c: "c \<noteq> CHR 0x0D" and x: "validateLine x" by (auto simp: validateLine_def)
  show ?case using Cons.IH [OF x, of "line @ [c]"] c by (cases x) (simp_all add: crlf_def)
qed

lemma header_lines_line: "validateLine x \<Longrightarrow> x \<noteq> '''' \<Longrightarrow> header_lines (x @ crlf @ y) = x # header_lines y"
  by (simp add: header_lines_def split_crlf_line)

lemma validateLine_append [simp]: "validateLine (x @ y) \<longleftrightarrow> validateLine x \<and> validateLine y"
  by (auto simp: validateLine_def)

lemma subject_lines:
  assumes "validateLine from_addr" "validateLine receiver" "validateLine a" "validateLine h" "h \<noteq> ''''"
  shows "h \<in> set (header_lines (raw_mail from_addr \<lparr> msg_To = receiver, msg_Subject = a @ crlf @ h @ crlf @ b, msg_Body = body \<rparr>))"
proof -
  have v: "validateLine (''From: '' @ from_addr)" "validateLine (''To: '' @ receiver)" "validateLine (''Subject: '' @ a)"
    using assms by (simp_all add: validateLine_def)
  show ?thesis
    using header_lines_line [OF v(1)] header_lines_line [OF v(2)] header_lines_line [OF v(3)] header_lines_line [OF assms(4,5)]
    by (simp add: raw_mail_def)
qed

end
