(* ===== verification/Mail_Flows.thy ===== *)
theory Mail_Flows
  imports Notification_Props Order_Props Order_Consumer Restaurant_Sample Identity_Commands
begin

text \<open>
  What happens in order-service and restaurant-service, in the mails of notification-service; and the witnesses.
\<close>

subsection \<open>A confirmed order\<close>

text \<open>The text of the two mails about a confirmed order.\<close>

definition confirmed_text :: "nt_config \<Rightarrow> string \<Rightarrow> string \<Rightarrow> string \<Rightarrow> time \<Rightarrow> string" where
  "confirmed_text C opening items amount t = join [CHR 0x0A]
     [''Hello,'', '''', opening, '''', ''Order: '' @ items, ''Total: '' @ amount, '''', ''Confirmed at: '' @ nc_local C t, '''',
      ''The '' @ nc_getenv C ''APP_NAME'' @ '' Team'']"

definition order_mails :: "'d lib \<Rightarrow> nt_config \<Rightarrow> 'd Order \<Rightarrow> 'd OrderItem list \<Rightarrow> string \<Rightarrow> string \<Rightarrow> time \<Rightarrow> mail list" where
  "order_mails L C ord items restaurantName ownerEmail t =
     (let text = \<lambda>opening. confirmed_text C opening
            (join '', '' (List.map (\<lambda>i. show_int (sint (oi_Quantity i)) @ ''x '' @ oi_PizzaName i) items))
            (StringFixed2 L (o_Total ord) @ '' '' @ o_Currency ord) t;
          mail = \<lambda>receiver subject body. \<lparr> ml_To = receiver,
            ml_Raw = raw_mail (nc_from C) \<lparr> msg_To = receiver, msg_Subject = subject, msg_Body = body \<rparr> \<rparr> in
      [mail (o_ContactEmail ord) (''Your order from \"'' @ restaurantName @ ''\" is confirmed'')
         (text (''Your order from \"'' @ restaurantName @ ''\" has been confirmed.'')),
       mail ownerEmail (''New order for \"'' @ restaurantName @ ''\"'')
         (text (''You have a new confirmed order for \"'' @ restaurantName @ ''\".''))])"

lemma sint_widen [simp]: "sint (scast (q :: int16) :: 64 word) = sint q"
  by (rule sint_up_scast) (simp add: is_up_def source_size_def target_size_def)

lemma dec_quantity: "dec_int64 (enc_int16 q) = Some (scast q)"
  using sint_range_size [of q] by (simp add: dec_int64_def enc_int16_def word_size)

definition received :: "'d lib \<Rightarrow> OrderConfirmedPayload \<Rightarrow> confirmed_payload" where
  "received L p = \<lparr> cfp_OrderID = uuidString L (ocp_OrderID p), cfp_RestaurantID = uuidString L (ocp_RestaurantID p),
     cfp_RestaurantName = ocp_RestaurantName p, cfp_CustomerEmail = ocp_CustomerEmail p, cfp_OwnerEmail = ocp_OwnerEmail p,
     cfp_Items = List.map (\<lambda>i. \<lparr> cfi_Name = oip_Name i, cfi_Quantity = scast (oip_Quantity i) \<rparr>) (ocp_Items p),
     cfp_Total = ocp_Total p, cfp_Currency = ocp_Currency p, cfp_ConfirmedAt = ocp_ConfirmedAt p \<rparr>"

lemma unmarshal_received: "time_codec L \<Longrightarrow> unmarshal_confirmed L (marshal_OrderConfirmed L p) = Some (received L p)"
proof -
  assume L: "time_codec L"
  let ?enc = "\<lambda>i. JObj [(''name'', JStr (oip_Name i)), (''quantity'', enc_int16 (oip_Quantity i))]"
  have "dec_list dec_confirmed_item (JArr (List.map ?enc (ocp_Items p))) =
      Some (List.map (\<lambda>i. \<lparr> cfi_Name = oip_Name i, cfi_Quantity = scast (oip_Quantity i) \<rparr>) (ocp_Items p))"
    by (rule dec_list_encoded) (simp add: dec_confirmed_item_def dec_quantity)
  then show ?thesis
    using L by (simp add: unmarshal_confirmed_def marshal_OrderConfirmed_def received_def enc_uuid_def del: dec_list.simps)
qed

lemmas execute_defs = Execute_template_def lines_def

lemma confirmed_mails_text:
  "confirmed_mails C (received L p) =
    (let text = \<lambda>opening. confirmed_text C opening
          (join '', '' (List.map (\<lambda>i. show_int (sint (oip_Quantity i)) @ ''x '' @ oip_Name i) (ocp_Items p)))
          (ocp_Total p @ '' '' @ ocp_Currency p) (ocp_ConfirmedAt p);
         mail = \<lambda>receiver subject body. \<lparr> ml_To = receiver,
           ml_Raw = raw_mail (nc_from C) \<lparr> msg_To = receiver, msg_Subject = subject, msg_Body = body \<rparr> \<rparr>;
         name = ocp_RestaurantName p in
     [mail (ocp_CustomerEmail p) (''Your order from \"'' @ name @ ''\" is confirmed'')
        (text (''Your order from \"'' @ name @ ''\" has been confirmed.'')),
      mail (ocp_OwnerEmail p) (''New order for \"'' @ name @ ''\"'') (text (''You have a new confirmed order for \"'' @ name @ ''\".''))])"
proof -
  let ?data = "confirmed_data C (received L p)"
  have items: "List.map item_line (cfp_Items (received L p)) =
      List.map (\<lambda>i. show_int (sint (oip_Quantity i)) @ ''x '' @ oip_Name i) (ocp_Items p)"
    by (simp add: received_def item_line_def)
  have data: "map_of ?data ''restaurant_name'' = Some (ocp_RestaurantName p)" "map_of ?data ''total'' = Some (ocp_Total p)"
    "map_of ?data ''items'' = Some (join '', '' (List.map (\<lambda>i. show_int (sint (oip_Quantity i)) @ ''x '' @ oip_Name i) (ocp_Items p)))"
    "map_of ?data ''currency'' = Some (ocp_Currency p)" "map_of ?data ''confirmed_at'' = Some (nc_local C (ocp_ConfirmedAt p))"
    "map_of ?data ''app_name'' = Some (nc_getenv C ''APP_NAME'')"
    by (simp_all add: confirmed_data_def items) (simp_all add: received_def)
  have "Execute_template order_confirmed_customer_subject ?data = ''Your order from \"'' @ ocp_RestaurantName p @ ''\" is confirmed''"
    "Execute_template order_confirmed_owner_subject ?data = ''New order for \"'' @ ocp_RestaurantName p @ ''\"''"
    by (simp_all add: execute_defs order_confirmed_customer_subject_def order_confirmed_owner_subject_def data)
  moreover have "Execute_template order_confirmed_customer_body ?data =
      confirmed_text C (''Your order from \"'' @ ocp_RestaurantName p @ ''\" has been confirmed.'')
        (join '', '' (List.map (\<lambda>i. show_int (sint (oip_Quantity i)) @ ''x '' @ oip_Name i) (ocp_Items p)))
        (ocp_Total p @ '' '' @ ocp_Currency p) (ocp_ConfirmedAt p)"
    by (simp add: execute_defs order_confirmed_customer_body_def data confirmed_text_def)
  moreover have "Execute_template order_confirmed_owner_body ?data =
      confirmed_text C (''You have a new confirmed order for \"'' @ ocp_RestaurantName p @ ''\".'')
        (join '', '' (List.map (\<lambda>i. show_int (sint (oip_Quantity i)) @ ''x '' @ oip_Name i) (ocp_Items p)))
        (ocp_Total p @ '' '' @ ocp_Currency p) (ocp_ConfirmedAt p)"
    by (simp add: execute_defs order_confirmed_owner_body_def data confirmed_text_def)
  ultimately show ?thesis by (simp add: confirmed_mails_def mail_to_def Let_def) (simp add: received_def)
qed

text \<open>
  C13. A paid order is mailed. When a payment event changes anything, it confirms a pending order and puts one event in
  the outbox, in the same transaction. When notification-service handles that event, with an SMTP server that works,
  it sends exactly two mails, to the customer's address of contact and to the owner of the restaurant, that name the
  restaurant, list the items of the order with their quantities, and give its total and the time of confirmation.
\<close>

theorem confirmation_is_mailed:
  fixes L :: "'d::linordered_idom lib"
  assumes inv: "orders_inv s" and run: "PaymentSucceeded_Handle L E body s = (Inr (), s')" "s' \<noteq> s" and L: "time_codec L"
  shows "\<exists>row restaurant ev. row \<in> set (t_orders s) \<and> o_Status row = StatusPending \<and> restaurant \<in> set (t_restaurants s) \<and>
    r_ID restaurant = o_RestaurantID row \<and> t_outbox s' = outbox_Create (traceParent E) ev (t_outbox s) \<and>
    (\<forall>C E' sent. works C E' \<longrightarrow> validateLine (o_ContactEmail row) \<longrightarrow> validateLine (r_OwnerEmail restaurant) \<longrightarrow>
      nt_Dispatch L C (ob_EventName ev) E' (Some (ob_Payload ev)) sent =
        (Inr (), sent @ order_mails L C row (items_of s (o_ID row)) (r_Name restaurant) (r_OwnerEmail restaurant) (clock E)))"
  using run(1) inv
proof (cases rule: PaymentSucceeded_Inr)
  case (confirmed payload row restaurant)
  let ?p = "\<lparr> ocp_OrderID = o_ID row, ocp_RestaurantID = o_RestaurantID row,
      ocp_RestaurantName = r_Name restaurant, ocp_CustomerEmail = o_ContactEmail row, ocp_OwnerEmail = r_OwnerEmail restaurant,
      ocp_Items = List.map (\<lambda>i. \<lparr> oip_Name = oi_PizzaName i, oip_Quantity = oi_Quantity i \<rparr>) (items_of s (o_ID row)),
      ocp_Total = StringFixed2 L (o_Total row), ocp_Currency = o_Currency row, ocp_ConfirmedAt = clock E \<rparr>"
  let ?ev = "confirmed_event L E s row restaurant"
  have ev: "ob_EventName ?ev = ''order.confirmed''" "ob_Payload ?ev = marshal_OrderConfirmed L ?p"
    by (simp_all add: confirmed_event_def NewOutboxEvent_def)
  have mails: "confirmed_mails C (received L ?p) =
      order_mails L C row (items_of s (o_ID row)) (r_Name restaurant) (r_OwnerEmail restaurant) (clock E)" for C
    by (simp add: confirmed_mails_text order_mails_def o_def Let_def)
  have "nt_Dispatch L C (ob_EventName ?ev) E' (Some (ob_Payload ?ev)) sent =
      (Inr (), sent @ order_mails L C row (items_of s (o_ID row)) (r_Name restaurant) (r_OwnerEmail restaurant) (clock E))"
    if "works C E'" "validateLine (o_ContactEmail row)" "validateLine (r_OwnerEmail restaurant)" for C E' sent
    unfolding ev mails [symmetric] by (rule works_confirmed [OF that(1) unmarshal_received [OF L]]) (simp_all add: received_def that)
  moreover have "row \<in> set (t_orders s)" "restaurant \<in> set (t_restaurants s)" "r_ID restaurant = o_RestaurantID row"
    using find_row_Some [OF confirmed(3)] find_row_Some [OF confirmed(5)] by simp_all
  ultimately show ?thesis using confirmed(4,6) by (intro exI [of _ row] exI [of _ restaurant] exI [of _ ?ev]) simp
qed (use run(2) in simp_all)

subsection \<open>An approved restaurant\<close>

text \<open>
  C35. The mail about an approval does not tell when it was. The approval of a restaurant puts one event in the outbox,
  whose document gives the time under the key occurred_at. Notification-service reads approved_at, which is not there, so
  whatever the clock says the owner's mail shows the zero time, a day of the year 1.
\<close>

theorem approval_mail_undated:
  assumes reach: "rs_reach L goslug geo s" "geocoder_returns geo" and L: "uuid_codec L"
    and run: "rs_run L goslug geo E (RqApprove i) s = (Inr (), s')"
  shows "\<exists>r email body. r \<in> set (rd_restaurants s) \<and> rs_ID r = i \<and> rs_Email r = Some email \<and>
    rd_outbox s' = outbox_Create (re_trace E) (NewOutboxEvent (re_clock E) i ''restaurant.approved'' body) (rd_outbox s) \<and>
    member body ''occurred_at'' = enc_time L (re_clock E) \<and>
    (\<forall>C E' sent. works C E' \<longrightarrow> validateLine email \<longrightarrow>
      nt_Dispatch L C ''restaurant.approved'' E' (Some body) sent = (Inr (), sent @
        [\<lparr> ml_To = email, ml_Raw = raw_mail (nc_from C) \<lparr> msg_To = email,
             msg_Subject = ''Your restaurant \"'' @ rs_Name r @ ''\" has been approved on '' @ nc_getenv C ''APP_NAME'',
             msg_Body = join [CHR 0x0A] [''Hello,'', '''',
               ''Great news! Your restaurant \"'' @ rs_Name r @ ''\" has been approved on '' @ nc_getenv C ''APP_NAME'' @ ''.'', '''',
               ''You can now launch it to start accepting orders.'', '''',
               ''Approved at: '' @ nc_local C zero_time, '''', ''The '' @ nc_getenv C ''APP_NAME'' @ '' Team''] \<rparr> \<rparr>]))"
proof -
  have inv: "rs_inv L s" by (rule rs_reach_inv [OF reach L])
  obtain resp where "ApproveRestaurant_Execute L E i s = (Inr resp, s')" using run by (auto simp: void_Inr)
  then obtain r1 where "Approve_prepare E i s = Inr r1" and commit: "Approve_commit L E r1 s = (Inr resp, s')"
    by (auto simp: ApproveRestaurant_Execute_def bind_Inr simp del: bind_simps)
  from this(1) obtain r email where r: "r \<in> set (rd_restaurants s)" "rs_ID r = i" "rs_Email r = Some email"
      "r1 = raise (RestaurantApproved i (rs_Name r) email (re_clock E)) (r\<lparr> rs_Status := StatusApproved \<rparr>)"
    by (rule Approve_prepare_Inr)
  let ?body = "marshal_approved L i (rs_Name r) email (re_clock E)"
  have events: "rs_events r1 = [RestaurantApproved i (rs_Name r) email (re_clock E)]" "rs_ID r1 = i"
    using row_in [OF inv r(1)] r by (simp_all add: raise_def)
  let ?tx = "bind (Restaurant_Update E r1) (\<lambda>r'. bind (PromoteToActive E (rs_ID r')) (\<lambda>_. rs_DispatchEventsTx L E [] r'))"
  obtain res s2 where tx: "transaction (re_fault E) RsCommit ?tx s = (res, s2)" by fastforce
  then have "\<exists>x. ?tx s = (Inr x, s')"
    by (cases rule: transaction_cases) (use commit tx in \<open>auto simp: Approve_commit_def bind_step
      simp del: bind_simps dest: restaurant_answer_same\<close>)
  then obtain s0 s3 x where s0: "Restaurant_Update E r1 s = (Inr (stamp E r1), s0)"
      "PromoteToActive E (rs_ID r1) s0 = (Inr (), s3)" "rs_DispatchEventsTx L E [] (stamp E r1) s3 = (Inr x, s')"
    by (auto simp: bind_Inr Restaurant_Update_Inr)
  have ob: "rd_outbox s' = outbox_Create (re_trace E) (NewOutboxEvent (re_clock E) i ''restaurant.approved'' ?body) (rd_outbox s)"
    using s0(1) [unfolded Restaurant_Update_Inr] PromoteToActive_Inr [OF s0(2)] rs_DispatchEventsTx_Inr [OF s0(3)] events
    by (simp add: append_outbox_def rs_integration_def)
  let ?p = "\<lparr> apd_RestaurantID = uuidString L i, apd_RestaurantName = rs_Name r, apd_Email = email, apd_ApprovedAt = zero_time \<rparr>"
  have p: "unmarshal_approved L ?body = Some ?p"
    by (simp add: unmarshal_approved_def marshal_approved_def enc_uuid_def)
  have mail: "approved_mail C ?p = \<lparr> ml_To = email, ml_Raw = raw_mail (nc_from C) \<lparr> msg_To = email,
      msg_Subject = ''Your restaurant \"'' @ rs_Name r @ ''\" has been approved on '' @ nc_getenv C ''APP_NAME'',
      msg_Body = join [CHR 0x0A] [''Hello,'', '''',
        ''Great news! Your restaurant \"'' @ rs_Name r @ ''\" has been approved on '' @ nc_getenv C ''APP_NAME'' @ ''.'', '''',
        ''You can now launch it to start accepting orders.'', '''',
        ''Approved at: '' @ nc_local C zero_time, '''', ''The '' @ nc_getenv C ''APP_NAME'' @ '' Team''] \<rparr> \<rparr>" for C
    by (simp add: approved_mail_def mail_to_def execute_defs restaurant_approved_subject_def restaurant_approved_body_def app_name_def)
  show ?thesis
    using r ob works_approved [OF _ p] unfolding mail
    by (intro exI [of _ r] exI [of _ email] exI [of _ ?body]) (simp add: marshal_approved_def)
qed

text \<open>The same with the mail to the administrator: \<open>ready_at\<close> is not in the document either.\<close>

lemma ready_mail_undated:
  "unmarshal_ready L (marshal_ready_for_review L i name t) =
     Some \<lparr> rdp_RestaurantID = uuidString L i, rdp_RestaurantName = name, rdp_ReadyAt = zero_time \<rparr>"
  by (simp add: unmarshal_ready_def marshal_ready_for_review_def enc_uuid_def)

subsection \<open>A user\<close>

text \<open>The code that identity-service makes is mailed to the address it was made for; a registration is welcomed.\<close>

lemma code_is_mailed:
  "works C E \<Longrightarrow> validateLine email \<Longrightarrow>
    nt_Dispatch L C ''email.verification_created'' E (Some (marshal_EmailVerificationCreated L email code t)) sent =
      (Inr (), sent @ [code_mail C email code])"
  by (simp add: nt_Dispatch_def EmailVerificationCreated_Handle_def marshal_EmailVerificationCreated_def dec_fields_def
      render_and_send_works code_mail_def app_name_def)

lemma registration_is_welcomed:
  "works C E \<Longrightarrow> validateLine email \<Longrightarrow> role \<in> {''customer'', ''owner''} \<Longrightarrow>
    nt_Dispatch L C ''user.registered'' E (Some (marshal_UserRegistered L i email firstName lastName role t)) sent =
      (Inr (), sent @ [welcome_mail C (role = ''customer'') email firstName])"
  by (auto simp: nt_Dispatch_def UserRegistered_Handle_nt_def marshal_UserRegistered_def dec_fields_def
      render_and_send_works welcome_mail_def app_name_def Let_def)

subsection \<open>A restaurant's name\<close>

text \<open>
  C36. The name of a restaurant can forge header lines. Nothing keeps line breaks out of the subject: if the name of the
  restaurant has a line of its own, that line is a header line of the mail which notification-service sends to the
  customer about a confirmed order.
\<close>

theorem name_forges_header:
  assumes "works C E" "time_codec L" and name: "ocp_RestaurantName p = a @ crlf @ h @ crlf @ b" "validateLine a" "validateLine h" "h \<noteq> ''''"
    and to: "validateLine (ocp_CustomerEmail p)" "validateLine (ocp_OwnerEmail p)"
  shows "\<exists>x y. nt_Dispatch L C ''order.confirmed'' E (Some (marshal_OrderConfirmed L p)) sent = (Inr (), sent @ [x, y]) \<and>
    ml_To x = ocp_CustomerEmail p \<and> h \<in> set (header_lines (ml_Raw x))"
proof -
  have "validateLine (nc_from C)" using assms(1) by (simp add: works_def)
  moreover have "validateLine (''Your order from \"'' @ a)" using name(2) by (simp add: validateLine_def)
  ultimately have "h \<in> set (header_lines (raw_mail (nc_from C) \<lparr> msg_To = ocp_CustomerEmail p,
      msg_Subject = (''Your order from \"'' @ a) @ crlf @ h @ crlf @ (b @ ''\" is confirmed''), msg_Body = body \<rparr>))" for body
    using subject_lines [of "nc_from C" "ocp_CustomerEmail p" "''Your order from \"'' @ a" h] name to by blast
  then have "h \<in> set (header_lines (ml_Raw (hd (confirmed_mails C (received L p)))))"
    by (simp add: confirmed_mails_text Let_def name(1))
  moreover have "ml_To (hd (confirmed_mails C (received L p))) = ocp_CustomerEmail p"
    by (simp add: confirmed_mails_text Let_def)
  moreover have "nt_Dispatch L C ''order.confirmed'' E (Some (marshal_OrderConfirmed L p)) sent = (Inr (), sent @ confirmed_mails C (received L p))"
    by (rule works_confirmed [OF assms(1) unmarshal_received [OF assms(2)]]) (simp_all add: received_def to)
  ultimately show ?thesis by (auto simp: confirmed_mails_def)
qed

subsection \<open>Witnesses\<close>

definition sample_config :: nt_config where
  "sample_config = \<lparr> nc_getenv = (\<lambda>_. ''Pizza''), nc_from = ''pizza@b.de'', nc_local = show_int \<rparr>"

definition sample_mailer :: nt_env where
  "sample_mailer = \<lparr> ne_read = (\<lambda>_. True), ne_smtp = (\<lambda>_. MailTaken) \<rparr>"

lemma sample_works: "works sample_config sample_mailer"
  by (simp add: works_def sample_config_def sample_mailer_def validateLine_def)

definition sample_code_message :: message where
  "sample_code_message = (''email.verification_created'', Some (marshal_EmailVerificationCreated sample_lib ''a@b.de'' ''123456'' 5))"

lemma sample_code_mails: "mails_of sample_lib C sample_code_message = [code_mail C ''a@b.de'' ''123456'']"
  by (simp add: mails_of_def sample_code_message_def marshal_EmailVerificationCreated_def dec_fields_def)

theorem mails_follow_events_witness:
  "\<exists>b. broker_reach (nt_handle sample_lib sample_config) [] b \<and> bk_published b = [sample_code_message] \<and> bk_queue b = [] \<and>
     code_mail sample_config ''a@b.de'' ''123456'' \<in> set (bk_db b)"
proof -
  let ?msg = "sample_message (fst sample_code_message) (snd sample_code_message)"
  let ?b = "(empty_broker [])\<lparr> bk_queue := [?msg], bk_published := [sample_code_message] \<rparr> :: mail list broker"
  let ?c = "runOnce (nt_handle sample_lib sample_config sample_mailer) True ?b"
  have "broker_reach (nt_handle sample_lib sample_config) [] ?b"
    using broker_reach.step [OF broker_reach.start broker_step.publish [of ?msg]]
    by (simp add: empty_broker_def sample_code_message_def)
  then have reach: "broker_reach (nt_handle sample_lib sample_config) [] ?c"
    by (rule broker_reach.step) (rule broker_step.message)
  have "nt_Dispatch sample_lib sample_config (fst sample_code_message) sample_mailer (snd sample_code_message) [] =
      (Inr (), [code_mail sample_config ''a@b.de'' ''123456''])"
    using code_is_mailed [OF sample_works, of "''a@b.de''" sample_lib "''123456''" 5 "[]"]
    by (simp add: sample_code_message_def validateLine_def)
  then have "bk_queue ?c = [] \<and> bk_dlq ?c = []"
    by (simp add: runOnce_def dispatched_def nt_handle_def empty_broker_def sample_message_def getEventName_def settle_message_def)
  moreover have "bk_published ?c = [sample_code_message]" by simp
  ultimately show ?thesis
    using mails_follow_events [OF reach] sample_code_mails [of sample_config] reach by (intro exI [of _ ?c]) auto
qed

theorem confirmation_is_mailed_witness:
  "\<exists>s' ev x y. PaymentSucceeded_Handle sample_lib sample_env sample_paid sample_order_db = (Inr (), s') \<and>
    t_outbox s' = outbox_Create '''' ev (t_outbox sample_order_db) \<and>
    nt_Dispatch sample_lib sample_config (ob_EventName ev) sample_mailer (Some (ob_Payload ev)) [] = (Inr (), [x, y])"
proof -
  obtain s' where run: "PaymentSucceeded_Handle sample_lib sample_env sample_paid sample_order_db = (Inr (), s')" "s' \<noteq> sample_order_db"
    using sample_paid_Inr by blast
  have addresses: "validateLine (o_ContactEmail row)" "validateLine (r_OwnerEmail restaurant)"
    if "row \<in> set (t_orders sample_order_db)" "restaurant \<in> set (t_restaurants sample_order_db)" for row restaurant
    using that by (auto simp: sample_order_db_def sample_pending_def NewOrder_def sample_defs validateLine_def)
  have "traceParent sample_env = ''''" by (simp add: sample_env_def)
  then show ?thesis
    using confirmation_is_mailed [OF sample_order_db_inv run sample_codecs(2)] addresses sample_works run(1)
    unfolding order_mails_def Let_def by fastforce
qed

theorem approval_mail_undated_witness:
  "\<exists>s' body x. rs_run sample_lib id sample_geocoder rs_env0 (RqApprove 5) sample_review = (Inr (), s') \<and>
    rd_outbox s' = outbox_Create (re_trace rs_env0) (NewOutboxEvent (re_clock rs_env0) 5 ''restaurant.approved'' body) (rd_outbox sample_review) \<and>
    nt_Dispatch sample_lib sample_config ''restaurant.approved'' sample_mailer (Some body) [] = (Inr (), [x])"
proof -
  let ?run = "rs_run sample_lib id sample_geocoder rs_env0 (RqApprove 5) sample_review"
  have "\<not> isl (fst ?run)" by code_simp
  then obtain s' where run: "?run = (Inr (), s')" by (cases ?run; cases "fst ?run") auto
  have "list_all (\<lambda>r. case rs_Email r of None \<Rightarrow> True | Some email \<Rightarrow> validateLine email) (rd_restaurants sample_review)" by code_simp
  then have "validateLine email" if "r \<in> set (rd_restaurants sample_review)" "rs_Email r = Some email" for r email
    using that by (fastforce simp: list_all_iff)
  then show ?thesis
    using approval_mail_undated [OF sample_reach(2,4) sample_codecs(1) run] sample_works run by fastforce
qed

theorem name_forges_header_witness:
  "\<exists>p x y. nt_Dispatch sample_lib sample_config ''order.confirmed'' sample_mailer (Some (marshal_OrderConfirmed sample_lib p)) [] =
      (Inr (), [x, y]) \<and> ''Reply-To: x@y.de'' \<in> set (header_lines (ml_Raw x))"
proof -
  let ?p = "\<lparr> ocp_OrderID = 1, ocp_RestaurantID = 2, ocp_RestaurantName = ''P'' @ crlf @ ''Reply-To: x@y.de'' @ crlf @ ''X: '',
      ocp_CustomerEmail = ''a@b.de'', ocp_OwnerEmail = ''c@d.de'', ocp_Items = [], ocp_Total = ''9.00'', ocp_Currency = ''EUR'',
      ocp_ConfirmedAt = 7 \<rparr>"
  have "\<exists>x y. nt_Dispatch sample_lib sample_config ''order.confirmed'' sample_mailer (Some (marshal_OrderConfirmed sample_lib ?p)) [] =
      (Inr (), [] @ [x, y]) \<and> ml_To x = ocp_CustomerEmail ?p \<and> ''Reply-To: x@y.de'' \<in> set (header_lines (ml_Raw x))"
    by (rule name_forges_header [OF sample_works sample_codecs(2), of ?p "''P''" "''Reply-To: x@y.de''" "''X: ''"])
      (simp_all add: validateLine_def)
  then show ?thesis by (intro exI [of _ ?p]) auto
qed

end
