(* ===== verification/Http.thy ===== *)
theory Http
  imports Json
begin

text \<open>
  What the HTTP interfaces of the services have in common: requests as gin hands them on, the parsing of identifiers, the
  middleware that reads the caller from the headers the gateway sets (\<open>auth_middleware.go\<close>, \<open>role_middleware.go\<close>, the same
  files in customer-, order- and restaurant-service). The texts of errors are left out, and with them the health routes and
  gin's redirects of paths that end in a slash.
\<close>

text \<open>
  A path is the list of its segments, none empty. A missing header or query parameter is the empty text; the body is
  \<open>None\<close> when it is no JSON document.
\<close>

record web_request =
  hq_Method :: string
  hq_Path :: "string list"
  hq_UserID :: string
  hq_UserRole :: string
  hq_Query :: "string \<Rightarrow> string"
  hq_Body :: "json option"

text \<open>The body of an answer: an error, nothing after a panic (\<open>gin.Recovery\<close>), or what the handler has put together.\<close>

datatype 'b reply = Failed | Panicked | Reply 'b

type_synonym ('s, 'b) http_op = "'s \<Rightarrow> (nat \<times> 'b reply) \<times> 's"

definition http_error :: "nat \<Rightarrow> ('s, 'b) http_op" where
  "http_error status s = ((status, Failed), s)"

text \<open>\<open>if err != nil { HandleError } else { ctx.JSON(status, res) }\<close>.\<close>

definition respond :: "('e list \<Rightarrow> nat) \<Rightarrow> nat \<Rightarrow> ('a \<Rightarrow> 'b) \<Rightarrow> ('s, 'e, 'a) op \<Rightarrow> ('s, 'b) http_op" where
  "respond handle status answer m s = (case m s of
     (Inl e, s') \<Rightarrow> ((handle e, Failed), s') | (Inr x, s') \<Rightarrow> ((status, Reply (answer x)), s'))"

text \<open>\<open>uuid.Parse\<close> of a parameter or header, and \<open>ShouldBindJSON\<close>.\<close>

definition with_uuid :: "'d lib \<Rightarrow> string \<Rightarrow> (uuid \<Rightarrow> ('s, 'b) http_op) \<Rightarrow> ('s, 'b) http_op" where
  "with_uuid L s k = (case uuidParse L s of None \<Rightarrow> http_error 400 | Some i \<Rightarrow> k i)"

definition with_body :: "'a option \<Rightarrow> ('a \<Rightarrow> ('s, 'b) http_op) \<Rightarrow> ('s, 'b) http_op" where
  "with_body bound k = (case bound of None \<Rightarrow> http_error 422 | Some input \<Rightarrow> k input)"

definition header_auth :: "web_request \<Rightarrow> ('s, 'b) http_op \<Rightarrow> ('s, 'b) http_op" where
  "header_auth r next_handler = (if hq_UserID r = '''' \<or> hq_UserRole r = '''' then http_error 401 else next_handler)"

definition RequireRole :: "string \<Rightarrow> web_request \<Rightarrow> ('s, 'b) http_op \<Rightarrow> ('s, 'b) http_op" where
  "RequireRole expectedRole r next_handler = (if hq_UserRole r \<noteq> expectedRole then http_error 403 else next_handler)"

text \<open>\<open>strconv.Atoi\<close> with its error ignored: 0 on a text that is no number, the nearest \<open>int\<close> on one out of range.\<close>

definition is_decimal :: "char \<Rightarrow> bool" where
  "is_decimal c \<longleftrightarrow> 48 \<le> (of_char c :: nat) \<and> (of_char c :: nat) \<le> 57"

definition Atoi :: "string \<Rightarrow> int" where
  "Atoi s =
     (let body = (if s \<noteq> [] \<and> hd s \<in> {CHR ''-'', CHR ''+''} then tl s else s);
          n = int (foldl (\<lambda>n c. 10 * n + (of_char c - 48)) 0 body) in
      if body = [] \<or> \<not> list_all is_decimal body then 0
      else if hd s = CHR ''-'' then max (- n) (- (2 ^ 63)) else min n (2 ^ 63 - 1))"

text \<open>Fields that JSON may leave out: a pointer, a slice whose absence counts.\<close>

definition dec_opt :: "(json \<Rightarrow> 'a option) \<Rightarrow> json \<Rightarrow> 'a option option" where
  "dec_opt f j = (if j = JNull then Some None else map_option Some (f j))"

lemma snd_respond [simp]: "snd (respond handle status answer m s) = snd (m s)"
  by (simp add: respond_def split: prod.split sum.split)

end
