(* ===== verification/Order_Http.thy ===== *)
theory Order_Http
  imports Http Order_Props Checkout_Props Order_Cursor
begin

text \<open>
  The HTTP interface of order-service (\<open>internal/interfaces/http\<close>): routes, the middleware that reads the caller's
  identity from the headers, the binding of bodies with their validation tags, the handlers.
\<close>

subsection \<open>Answers\<close>

datatype 'd http_answer =
    NoContent
  | CheckoutAnswer CheckoutResponse
  | OrderAnswer "'d OrderResponse"
  | OrdersAnswer "'d ListOrdersResponse"
  | CartAnswer "'d GetCartResponse"
  | ItemAnswer AddItemResponse
  | QuantityAnswer uuid int16

type_synonym 'd order_op = "('d db, 'd http_answer) http_op"

subsection \<open>Bodies\<close>

text \<open>\<open>ShouldBindJSON\<close>: decoding and the tags \<open>required\<close>, \<open>oneof\<close>, \<open>required_if\<close>, \<open>min\<close>. \<open>None\<close> is status 422.\<close>

definition dec_address_input :: "json \<Rightarrow> AddressInput option option" where
  "dec_address_input j =
     (if j = JNull then Some None
      else if \<not> is_struct j then None
      else case (dec_str (member j ''house''), dec_str (member j ''street''), dec_str (member j ''postalCode''),
                 dec_str (member j ''city'')) of
        (Some house, Some street, Some postalCode, Some city) \<Rightarrow>
          Some (Some \<lparr> ai_House = house, ai_Street = street, ai_PostalCode = postalCode, ai_City = city \<rparr>)
      | _ \<Rightarrow> None)"

definition address_input_ok :: "AddressInput \<Rightarrow> bool" where
  "address_input_ok a \<longleftrightarrow> ai_House a \<noteq> '''' \<and> ai_Street a \<noteq> '''' \<and> ai_PostalCode a \<noteq> '''' \<and> ai_City a \<noteq> ''''"

definition bind_checkout :: "json option \<Rightarrow> CheckoutRequest option" where
  "bind_checkout body = Option.bind body (\<lambda>j.
     if \<not> is_struct j then None
     else case (dec_str (member j ''fulfillment''), dec_address_input (member j ''deliveryAddress''), dec_bool (member j ''saveAddress'')) of
       (Some fulfillment, Some address, Some save) \<Rightarrow>
         if fulfillment \<notin> {''delivery'', ''pickup''} \<or> (fulfillment = ''delivery'' \<and> address = None) \<or>
            (\<exists>a. address = Some a \<and> \<not> address_input_ok a) then None
         else Some \<lparr> cr_Fulfillment = (if fulfillment = ''delivery'' then FulfillmentDelivery else FulfillmentPickup),
                     cr_DeliveryAddress = address, cr_SaveAddress = save \<rparr>
     | _ \<Rightarrow> None)"

definition bind_add_item :: "'d lib \<Rightarrow> json option \<Rightarrow> AddItemRequest option" where
  "bind_add_item L body = Option.bind body (\<lambda>j.
     if \<not> is_struct j then None
     else case (dec_uuid L (member j ''pizzaId''), dec_uuid L (member j ''sizeId''), dec_int16 (member j ''quantity''),
                dec_list (dec_uuid L) (member j ''extraToppingIds'')) of
       (Some pizza, Some sz, Some q, Some toppings) \<Rightarrow>
         if pizza = 0 \<or> sz = 0 \<or> sint q < 1 then None
         else Some \<lparr> air_PizzaID = pizza, air_SizeID = sz, air_Quantity = q, air_ExtraToppingIDs = toppings \<rparr>
     | _ \<Rightarrow> None)"

definition bind_quantity :: "json option \<Rightarrow> int16 option" where
  "bind_quantity body = Option.bind body (\<lambda>j.
     if \<not> is_struct j then None
     else Option.bind (dec_int16 (member j ''quantity'')) (\<lambda>q. if sint q < 1 then None else Some q))"

subsection \<open>Handlers\<close>

record 'd http_service =
  sv_lib :: "'d lib"
  sv_env :: env
  sv_geocoder :: "'d geocode_op"
  sv_provider :: "'d provider"
  sv_frontendBaseURL :: string

definition OrderHandler_Checkout :: "'d::linordered_idom http_service \<Rightarrow> web_request \<Rightarrow> 'd order_op" where
  "OrderHandler_Checkout S r =
     with_body (bind_checkout (hq_Body r)) (\<lambda>input.
       with_uuid (sv_lib S) (hq_UserID r) (\<lambda>customerID.
       respond HandleError 201 CheckoutAnswer
         (Checkout_Execute (sv_lib S) (sv_env S) (sv_geocoder S) (sv_provider S) (sv_frontendBaseURL S) customerID input)))"

definition OrderHandler_GetOrder :: "'d http_service \<Rightarrow> web_request \<Rightarrow> string \<Rightarrow> 'd order_op" where
  "OrderHandler_GetOrder S r param =
     with_uuid (sv_lib S) param (\<lambda>orderID.
     with_uuid (sv_lib S) (hq_UserID r) (\<lambda>userID.
     respond HandleError 200 OrderAnswer (query (GetOrder_Execute (sv_env S) orderID userID (hq_UserRole r)))))"

definition OrderHandler_ListMyOrders :: "'d::linordered_idom http_service \<Rightarrow> web_request \<Rightarrow> 'd order_op" where
  "OrderHandler_ListMyOrders S r =
     with_uuid (sv_lib S) (hq_UserID r) (\<lambda>customerID.
     respond HandleError 200 OrdersAnswer (query (ListMyOrders_Execute (sv_lib S) (sv_env S) customerID (hq_Query r ''cursor'')
       (Atoi (hq_Query r ''limit'')))))"

definition OrderHandler_ListRestaurantOrders :: "'d::linordered_idom http_service \<Rightarrow> web_request \<Rightarrow> string \<Rightarrow> 'd order_op" where
  "OrderHandler_ListRestaurantOrders S r param =
     with_uuid (sv_lib S) param (\<lambda>restaurantID.
     with_uuid (sv_lib S) (hq_UserID r) (\<lambda>ownerID.
     respond HandleError 200 OrdersAnswer (query (ListRestaurantOrders_Execute (sv_lib S) (sv_env S) restaurantID ownerID
       (hq_Query r ''cursor'') (Atoi (hq_Query r ''limit''))))))"

definition OrderHandler_MarkReady :: "'d::linordered_idom http_service \<Rightarrow> web_request \<Rightarrow> string \<Rightarrow> 'd order_op" where
  "OrderHandler_MarkReady S r param =
     with_uuid (sv_lib S) param (\<lambda>orderID.
     with_uuid (sv_lib S) (hq_UserID r) (\<lambda>ownerID.
     respond HandleError 200 OrderAnswer (MarkReady_Execute (sv_env S) orderID ownerID)))"

definition OrderHandler_Complete :: "'d::linordered_idom http_service \<Rightarrow> web_request \<Rightarrow> string \<Rightarrow> 'd order_op" where
  "OrderHandler_Complete S r param =
     with_uuid (sv_lib S) param (\<lambda>orderID.
     with_uuid (sv_lib S) (hq_UserID r) (\<lambda>ownerID.
     respond HandleError 200 OrderAnswer (Complete_Execute (sv_env S) orderID ownerID)))"

definition OrderHandler_Cancel :: "'d::linordered_idom http_service \<Rightarrow> web_request \<Rightarrow> string \<Rightarrow> 'd order_op" where
  "OrderHandler_Cancel S r param =
     with_uuid (sv_lib S) param (\<lambda>orderID.
     with_uuid (sv_lib S) (hq_UserID r) (\<lambda>userID.
     respond HandleError 200 OrderAnswer (Cancel_Execute (sv_env S) (sv_provider S) orderID userID (hq_UserRole r))))"

definition CartHandler_AddItem :: "'d http_service \<Rightarrow> web_request \<Rightarrow> 'd order_op" where
  "CartHandler_AddItem S r =
     with_body (bind_add_item (sv_lib S) (hq_Body r)) (\<lambda>input.
       with_uuid (sv_lib S) (hq_UserID r) (\<lambda>customerID.
       respond HandleError 201 ItemAnswer (AddItem_Execute (sv_lib S) (sv_env S) customerID input)))"

definition CartHandler_UpdateItemQuantity :: "'d http_service \<Rightarrow> web_request \<Rightarrow> string \<Rightarrow> 'd order_op" where
  "CartHandler_UpdateItemQuantity S r param =
     with_uuid (sv_lib S) param (\<lambda>itemID.
     with_body (bind_quantity (hq_Body r)) (\<lambda>quantity.
         with_uuid (sv_lib S) (hq_UserID r) (\<lambda>customerID.
         respond HandleError 200 (\<lambda>(i, q). QuantityAnswer i q) (UpdateItemQuantity_Execute (sv_env S) customerID itemID quantity))))"

definition CartHandler_RemoveItem :: "'d http_service \<Rightarrow> web_request \<Rightarrow> string \<Rightarrow> 'd order_op" where
  "CartHandler_RemoveItem S r param =
     with_uuid (sv_lib S) param (\<lambda>itemID.
     with_uuid (sv_lib S) (hq_UserID r) (\<lambda>customerID.
     respond HandleError 204 (\<lambda>_. NoContent) (RemoveItem_Execute (sv_env S) customerID itemID)))"

definition CartHandler_GetCart :: "'d::linordered_idom http_service \<Rightarrow> web_request \<Rightarrow> 'd order_op" where
  "CartHandler_GetCart S r =
     with_uuid (sv_lib S) (hq_UserID r) (\<lambda>customerID.
     respond HandleError 200 CartAnswer (query (GetCart_Execute (sv_env S) customerID)))"

subsection \<open>Routes\<close>

definition cart_routes :: "'d::linordered_idom http_service \<Rightarrow> web_request \<Rightarrow> 'd order_op option" where
  "cart_routes S r = (case (hq_Method r, hq_Path r) of
     (m, [c]) \<Rightarrow> if c = ''cart'' \<and> m = ''GET'' then Some (header_auth r (CartHandler_GetCart S r)) else None
   | (m, [c, i]) \<Rightarrow>
       if c = ''cart'' \<and> i = ''items'' \<and> m = ''POST'' then Some (header_auth r (CartHandler_AddItem S r)) else None
   | (m, [c, i, itemId]) \<Rightarrow>
       if c = ''cart'' \<and> i = ''items'' \<and> m = ''PATCH'' then Some (header_auth r (CartHandler_UpdateItemQuantity S r itemId))
       else if c = ''cart'' \<and> i = ''items'' \<and> m = ''DELETE'' then Some (header_auth r (CartHandler_RemoveItem S r itemId))
       else None
   | _ \<Rightarrow> None)"

definition order_routes :: "'d::linordered_idom http_service \<Rightarrow> web_request \<Rightarrow> 'd order_op option" where
  "order_routes S r =
     (let owner_only = \<lambda>h. header_auth r (RequireRole ''owner'' r h) in
      case (hq_Method r, hq_Path r) of
        (m, [c]) \<Rightarrow>
          if c \<noteq> ''orders'' then None
          else if m = ''POST'' then Some (header_auth r (OrderHandler_Checkout S r))
          else if m = ''GET'' then Some (header_auth r (OrderHandler_ListMyOrders S r)) else None
      | (m, [c, i]) \<Rightarrow>
          if c = ''orders'' \<and> m = ''GET'' then Some (header_auth r (OrderHandler_GetOrder S r i)) else None
      | (m, [c, i, a]) \<Rightarrow>
          if c \<noteq> ''orders'' then None
          else if m = ''GET'' then (if i = ''restaurants'' then Some (owner_only (OrderHandler_ListRestaurantOrders S r a)) else None)
          else if m = ''POST'' then
            (if a = ''cancel'' then Some (header_auth r (OrderHandler_Cancel S r i))
             else if a = ''ready'' then Some (owner_only (OrderHandler_MarkReady S r i))
             else if a = ''complete'' then Some (owner_only (OrderHandler_Complete S r i)) else None)
          else None
      | _ \<Rightarrow> None)"

definition order_http :: "'d::linordered_idom http_service \<Rightarrow> web_request \<Rightarrow> 'd order_op" where
  "order_http S r = (case cart_routes S r of
     Some h \<Rightarrow> h
   | None \<Rightarrow> (case order_routes S r of Some h \<Rightarrow> h | None \<Rightarrow> http_error 404))"

end
