(* ===== verification/Order_Access.thy ===== *)
theory Order_Access
  imports Order_Http
begin

text \<open>
  Whose data a request to order-service changes: the caller's own, whatever the request is.
\<close>

subsection \<open>What a caller may change\<close>

definition own_order :: "'d db \<Rightarrow> string \<Rightarrow> uuid \<Rightarrow> 'd Order \<Rightarrow> bool" where
  "own_order s role u row \<longleftrightarrow> o_CustomerID row = u \<or> role = ''owner'' \<and> owned_by s u row"

abbreviation lines_in :: "'d db \<Rightarrow> uuid \<Rightarrow> CartItem list" where
  "lines_in s cartID \<equiv> filter (\<lambda>i. ci_CartID i = cartID) (t_cart_items s)"

text \<open>
  \<open>touches_own\<close>: from \<open>s\<close> to \<open>s'\<close> nobody else's order, order lines, cart or cart lines change, and an order gets
  ready or completed only by the owner of its restaurant.
\<close>

definition advanced :: "OrderStatus \<Rightarrow> bool" where
  "advanced st \<longleftrightarrow> st \<notin> {StatusPending, StatusCancelled}"

definition touches_own :: "string \<Rightarrow> uuid \<Rightarrow> 'd db \<Rightarrow> 'd db \<Rightarrow> bool" where
  "touches_own role u s s' \<longleftrightarrow>
     (\<forall>row \<in> set (t_orders s). \<not> own_order s role u row \<longrightarrow> row \<in> set (t_orders s')) \<and>
     (\<forall>row \<in> set (t_orders s). items_of s' (o_ID row) = items_of s (o_ID row)) \<and>
     (\<forall>row \<in> set (t_orders s') - set (t_orders s). own_order s role u row \<and>
        (advanced (o_Status row) \<longrightarrow> role = ''owner'' \<and> owned_by s u row)) \<and>
     (\<forall>c \<in> set (t_carts s). c_CustomerID c \<noteq> u \<longrightarrow> c \<in> set (t_carts s') \<and> lines_in s' (c_ID c) = lines_in s (c_ID c)) \<and>
     (\<forall>c \<in> set (t_carts s') - set (t_carts s). c_CustomerID c = u)"

lemma touches_own_refl [simp]: "touches_own role u s s"
  by (simp add: touches_own_def)

lemma touches_own_cong:
  "t_orders s' = t_orders s \<Longrightarrow> t_order_items s' = t_order_items s \<Longrightarrow> t_carts s' = t_carts s \<Longrightarrow>
    t_cart_items s' = t_cart_items s \<Longrightarrow> touches_own role u s s'"
  by (simp add: touches_own_def items_of_def)

lemma touches_own_frame:
  "touches_own role u s0 s \<Longrightarrow> t_orders s' = t_orders s \<Longrightarrow> t_order_items s' = t_order_items s \<Longrightarrow> t_carts s' = t_carts s \<Longrightarrow>
    t_cart_items s' = t_cart_items s \<Longrightarrow> touches_own role u s0 s'"
  by (simp only: touches_own_def items_of_def)

text \<open>A change of carts alone.\<close>

definition touches_cart :: "uuid \<Rightarrow> 'd db \<Rightarrow> 'd db \<Rightarrow> bool" where
  "touches_cart u s s' \<longleftrightarrow> t_orders s' = t_orders s \<and> t_order_items s' = t_order_items s \<and>
     (\<forall>c \<in> set (t_carts s). c_CustomerID c \<noteq> u \<longrightarrow> c \<in> set (t_carts s') \<and> lines_in s' (c_ID c) = lines_in s (c_ID c)) \<and>
     (\<forall>c \<in> set (t_carts s') - set (t_carts s). c_CustomerID c = u)"

lemma touches_cart_own: "touches_cart u s s' \<Longrightarrow> touches_own role u s s'"
  by (simp add: touches_cart_def touches_own_def items_of_def)

lemma touches_cart_refl [simp]: "touches_cart u s s"
  by (simp add: touches_cart_def)

definition not_others :: "'d db \<Rightarrow> uuid \<Rightarrow> uuid \<Rightarrow> bool" where
  "not_others s u cartID \<longleftrightarrow> (\<forall>c \<in> set (t_carts s). c_CustomerID c \<noteq> u \<longrightarrow> c_ID c \<noteq> cartID)"

lemma own_cart:
  assumes "cart_inv s" "Cart_FindByCustomer E u s = Inr (Some c)"
  shows "not_others s u (c_ID c)"
proof -
  obtain c0 where c0: "c0 \<in> set (t_carts s)" "c_CustomerID c0 = u" "c_ID c = c_ID c0"
    using assms(2) by (auto simp: Cart_FindByCustomer_def preload_cart_def dest: find_row_Some)
  have "c1 = c0" if "c1 \<in> set (t_carts s)" "c_ID c1 = c_ID c0" for c1
    using assms(1) c0(1) that by (auto simp: cart_inv_def distinct_map dest: inj_onD)
  then show ?thesis using c0 by (auto simp: not_others_def)
qed

lemma filter_update_untouched:
  "(\<And>x. P x \<Longrightarrow> \<not> Q x \<and> \<not> Q (f x)) \<Longrightarrow> filter Q (update_where P f xs) = filter Q xs"
  by (induction xs) (auto simp: update_where_def)

lemma filter_delete_untouched: "(\<And>x. P x \<Longrightarrow> \<not> Q x) \<Longrightarrow> filter Q (delete_where P xs) = filter Q xs"
  by (induction xs) (auto simp: delete_where_def)

lemma after_bind:
  assumes "\<And>e s1. m s = (Inl e, s1) \<Longrightarrow> P s1" "\<And>x s1. m s = (Inr x, s1) \<Longrightarrow> P (snd (f x s1))"
  shows "P (snd (bind m f s))"
  using assms by (auto simp: bind_def split: prod.splits sum.splits)

lemma snd_bind_ret: "snd (bind m (\<lambda>_. ret x) s) = snd (m s)"
  by (auto simp: bind_def ret_def split: prod.splits sum.splits)

lemma after_ensure:
  "(\<not> b \<Longrightarrow> P s) \<Longrightarrow> (b \<Longrightarrow> P (snd (f () s))) \<Longrightarrow> P (snd (bind (ensure b e) f s))"
  by (simp add: bind_def ensure_def)

lemma after_query:
  assumes "\<And>e. g s = Inl e \<Longrightarrow> P s" "\<And>x. g s = Inr x \<Longrightarrow> P (snd (f x s))"
  shows "P (snd (bind (query g) f s))"
  using assms by (auto simp: bind_def query_def split: sum.splits)

subsection \<open>Carts\<close>

lemma cart_item_writes:
  assumes t: "touches_cart u s0 s" and c: "not_others s0 u cartID"
  shows "touches_cart u s0 (snd (Cart_AddOrMergeItem E cartID item s))"
    and "touches_cart u s0 (snd (Cart_UpdateItemQuantity E cartID itemID q s))"
    and "touches_cart u s0 (snd (Cart_DeleteItem E cartID itemID s))"
proof -
  have frame: "touches_cart u s0 s'"
    if "t_carts s' = t_carts s" "t_orders s' = t_orders s" "t_order_items s' = t_order_items s"
      "\<And>i. i \<noteq> cartID \<Longrightarrow> lines_in s' i = lines_in s i" for s'
    using t c that by (auto simp: touches_cart_def not_others_def)
  show "touches_cart u s0 (snd (Cart_AddOrMergeItem E cartID item s))"
    by (rule frame) (auto simp: Cart_AddOrMergeItem_def Let_def line_key_def intro!: filter_update_untouched
        split: option.split)
  show "touches_cart u s0 (snd (Cart_UpdateItemQuantity E cartID itemID q s))"
    by (rule frame) (auto simp: Cart_UpdateItemQuantity_def Let_def intro!: filter_update_untouched)
  show "touches_cart u s0 (snd (Cart_DeleteItem E cartID itemID s))"
    by (rule frame) (auto simp: Cart_DeleteItem_def Let_def intro!: filter_delete_untouched)
qed

lemma delete_cart_own:
  assumes "touches_cart u s0 s" "not_others s0 u cartID"
  shows "touches_cart u s0 (delete_cart cartID s)"
  using assms by (auto simp: touches_cart_def not_others_def delete_cart_def set_delete_where filter_delete_untouched)

lemma AddItem_cart_own:
  assumes inv: "cart_inv s" and run: "AddItem_cart E u rid s = (r, s')"
  shows "touches_cart u s s' \<and> (\<forall>cartID n. r = Inr (cartID, n) \<longrightarrow> not_others s u cartID)"
proof (cases "Cart_FindByCustomer E u s")
  case (Inl e) then show ?thesis using run by (auto simp: AddItem_cart_def bind_def query_def)
next
  case (Inr found)
  show ?thesis
  proof (cases found)
    case None
    then show ?thesis using run Inr
      by (auto simp: AddItem_cart_def bind_def query_def Cart_Create_def NewCart_def fail_def ret_def touches_cart_def
          not_others_def find_row_None split: option.splits if_splits)
  next
    case (Some c)
    then show ?thesis using run Inr own_cart [OF inv, of E u c]
      by (auto simp: AddItem_cart_def bind_def query_def ret_def split: sum.splits)
  qed
qed

lemma AddItem_own:
  assumes inv: "cart_inv s" shows "touches_cart u s (snd (AddItem_Execute L E u input s))"
proof -
  have add: "touches_cart u s (snd (bind (Cart_AddOrMergeItem E cartID item) (\<lambda>_. ret x) s1))"
    if "touches_cart u s s1" "not_others s u cartID" for cartID item s1 and x :: AddItemResponse
    using cart_item_writes(1) [OF that, of E item]
    by (simp add: snd_bind_ret)
  have rest: "touches_cart u s (snd (bind (AddItem_cart E u rid)
      (\<lambda>(cartID, n). case newV7 E n of None \<Rightarrow> fail [] | Some itemID \<Rightarrow>
         let item = g itemID in bind (Cart_AddOrMergeItem E cartID item) (\<lambda>_. ret (h item))) s))"
    for rid and g :: "uuid \<Rightarrow> CartItem" and h :: "CartItem \<Rightarrow> AddItemResponse"
  proof (rule after_bind [where P = "touches_cart u s"], goal_cases)
    case 1 then show ?case using AddItem_cart_own [OF inv] by blast
  next
    case (2 p s1)
    then show ?case
      using AddItem_cart_own [OF inv 2] add by (cases p) (auto simp: fail_def Let_def split: option.split)
  qed
  show ?thesis
    unfolding AddItem_Execute_def
    by (rule after_query [where P = "touches_cart u s"], simp, rule after_query [where P = "touches_cart u s"], simp,
        rule after_ensure [where P = "touches_cart u s"], simp, rule after_query [where P = "touches_cart u s"], simp, rule rest)
qed

lemma UpdateItemQuantity_own:
  assumes inv: "cart_inv s" shows "touches_cart u s (snd (UpdateItemQuantity_Execute E u itemID q s))"
  unfolding UpdateItemQuantity_Execute_def
proof (rule after_query [where P = "touches_cart u s"], simp)
  fix found assume found: "Cart_FindByCustomer E u s = Inr found"
  show "touches_cart u s (snd ((case found of None \<Rightarrow> fail [App ErrNotFound]
      | Some c \<Rightarrow> bind (Cart_UpdateItemQuantity E (c_ID c) itemID q) (\<lambda>_. ret (itemID, q))) s))"
  proof (cases found)
    case (Some c)
    show ?thesis
      using cart_item_writes(2) [OF touches_cart_refl own_cart [OF inv found [unfolded Some]], of E itemID q]
      by (simp add: Some snd_bind_ret)
  qed (simp add: fail_def)
qed

lemma RemoveItem_own:
  assumes inv: "cart_inv s" shows "touches_cart u s (snd (RemoveItem_Execute E u itemID s))"
  unfolding RemoveItem_Execute_def
proof (rule after_query [where P = "touches_cart u s"], simp)
  fix found assume found: "Cart_FindByCustomer E u s = Inr found"
  show "touches_cart u s (snd ((case found of None \<Rightarrow> fail [App ErrNotFound] | Some c \<Rightarrow> Cart_RemoveItem E (c_ID c) itemID) s))"
  proof (cases found)
    case (Some c)
    note own = own_cart [OF inv found [unfolded Some]]
    have item: "touches_cart u s (snd (Cart_DeleteItem E (c_ID c) itemID s))"
      by (rule cart_item_writes(3) [OF touches_cart_refl own])
    have clear: "touches_cart u s s2" if "Cart_Clear E (c_ID c) s1 = (r, s2)" "touches_cart u s s1" for s1 s2 r
      using delete_cart_own [OF that(2) own] that by (auto simp: Cart_Clear_def split: if_splits)
    show ?thesis
      using item clear by (auto simp: Some Cart_RemoveItem_def transaction_def bind_def query_def ret_def fail_def
          split: prod.splits sum.splits)
  qed (simp add: fail_def)
qed

subsection \<open>Orders\<close>

lemma items_of_cong: "t_order_items s' = t_order_items s \<Longrightarrow> items_of s' i = items_of s i"
  by (simp add: items_of_def)

text \<open>An own order is replaced by a version of it with the same customer and restaurant.\<close>

lemma replace_own:
  assumes inv: "orders_inv s" and row: "row \<in> set (t_orders s)" and own: "own_order s role u row"
    and same: "same_terms row ord'" and adv: "advanced (o_Status ord') \<Longrightarrow> role = ''owner'' \<and> owned_by s u row"
    and s': "t_orders s' = save_order ord' (t_orders s)" "t_order_items s' = t_order_items s" "t_carts s' = t_carts s"
      "t_cart_items s' = t_cart_items s" "t_restaurants s' = t_restaurants s"
  shows "touches_own role u s s'"
proof -
  have id': "o_ID ord' = o_ID row" using same by (simp add: same_terms_def)
  have tbl: "t_orders s' = update_where (\<lambda>x. o_ID x = o_ID row) (\<lambda>_. stored ord') (t_orders s)"
    using save_order_existing [OF row id'] s'(1) by simp
  have only: "x = row" if "x \<in> set (t_orders s)" "o_ID x = o_ID row" for x
    using inv row that by (auto simp: orders_inv_def distinct_map dest: inj_onD)
  have new: "own_order s role u (stored ord') \<and> (advanced (o_Status (stored ord')) \<longrightarrow> role = ''owner'' \<and> owned_by s u (stored ord'))"
    using own same adv by (auto simp: own_order_def same_terms_def stored_def owned_by_def)
  have set': "set (t_orders s') = (\<lambda>x. if o_ID x = o_ID row then stored ord' else x) ` set (t_orders s)"
    by (auto simp: tbl update_where_def)
  show ?thesis unfolding touches_own_def set'
    using own only new by (auto simp: items_of_cong [OF s'(2)] s' image_iff)
qed


lemma find_for_role_own:
  assumes "find_for_role E i u role s = Inr ord"
  shows "\<exists>row \<in> set (t_orders s). ord = preload_order s row \<and> own_order s role u row"
  using assms by (auto simp: find_for_role_def Order_FindByIDAndRestaurantOwner_def Order_FindByIDAndCustomer_def
      own_order_def dest!: find_order_Inr split: if_splits)

lemma find_by_owner_own:
  assumes "Order_FindByIDAndRestaurantOwner E i u s = Inr ord"
  shows "\<exists>row \<in> set (t_orders s). ord = preload_order s row \<and> owned_by s u row"
  using assms by (auto simp: Order_FindByIDAndRestaurantOwner_def dest!: find_order_Inr)

lemma Order_Update_own:
  assumes inv: "orders_inv s" and row: "row \<in> set (t_orders s)" "own_order s role u row"
    and same: "same_terms row ord'" and adv: "advanced (o_Status ord') \<Longrightarrow> role = ''owner'' \<and> owned_by s u row"
    and run: "Order_Update E ord' s = (r, s1)"
  shows "touches_own role u s s1"
proof (cases r)
  case (Inl e) then show ?thesis using run by (auto dest: Order_Update_Inl)
next
  case (Inr x)
  then have "s1 = s\<lparr> t_orders := save_order ord' (t_orders s) \<rparr>" using run by (auto simp: Order_Update_Inr)
  then show ?thesis using replace_own [OF inv row same adv, of s1] by simp
qed

lemma Cancel_own:
  assumes inv: "orders_inv s" shows "touches_own role u s (snd (Cancel_Execute E P i u role s))"
  unfolding Cancel_Execute_def
proof (rule after_query [where P = "touches_own role u s"], simp, rule after_query [where P = "touches_own role u s"],
    simp, rule after_query [where P = "touches_own role u s"], simp, goal_cases)
  case (1 ord _ ord')
  obtain row where row: "row \<in> set (t_orders s)" "ord = preload_order s row" "own_order s role u row"
    using find_for_role_own [of E i u role s ord] 1(1) by auto
  have same: "same_terms row ord'"
    using transition_same_terms(4) [OF iffD1 [OF conflict_Inr 1(3)]] by (simp add: row(2))
  have st: "\<not> advanced (o_Status ord')" using 1(3) by (auto simp: advanced_def)
  have upd: "touches_own role u s s1" if "Order_Update E ord' s = (r, s1)" for r s1
    using Order_Update_own [OF inv row(1,3) same _ that] st by simp
  have gateway: "touches_own role u s (snd (cancel_at_gateway P ord' s1))" if "touches_own role u s s1" for s1
  proof (rule touches_own_frame [OF that])
  qed (simp_all add: cancel_at_gateway_def cancel_payment_def split: option.split)
  show ?case
    by (rule after_bind [where P = "touches_own role u s"], erule upd, unfold snd_bind_ret, rule gateway, erule upd)
qed

lemma advance_own:
  assumes inv: "orders_inv s" and step: "\<And>ord ord'. t ord = Inr ord' \<Longrightarrow> same_terms ord ord'"
  shows "touches_own ''owner'' u s (snd (bind (query (\<lambda>s. forbid_missing (Order_FindByIDAndRestaurantOwner E i u s))) (\<lambda>ord.
     bind (query (\<lambda>_. conflict (t ord))) (\<lambda>ord'. bind (Order_Update E ord') (\<lambda>_. ret (ToOrderResponse ord')))) s))"
proof (rule after_query [where P = "touches_own ''owner'' u s"], simp, rule after_query [where P = "touches_own ''owner'' u s"],
    simp, goal_cases)
  case (1 ord ord')
  obtain row where row: "row \<in> set (t_orders s)" "ord = preload_order s row" "owned_by s u row"
    using find_by_owner_own [of E i u s ord] 1(1) by auto
  have same: "same_terms row ord'" using 1(2) step [of ord ord'] row(2) by simp
  show ?case
    using Order_Update_own [OF inv row(1) _ same, of "''owner''" u E "fst (Order_Update E ord' s)"] row(3)
    by (simp add: snd_bind_ret own_order_def)
qed

lemma MarkReady_own: "orders_inv s \<Longrightarrow> touches_own ''owner'' u s (snd (MarkReady_Execute E i u s))"
  unfolding MarkReady_Execute_def by (erule advance_own) (rule transition_same_terms(2))

lemma Complete_own: "orders_inv s \<Longrightarrow> touches_own ''owner'' u s (snd (Complete_Execute E i u s))"
  unfolding Complete_Execute_def by (erule advance_own) (rule transition_same_terms(3))

text \<open>A new order is the customer's, and the cart it empties is his.\<close>

lemma checked_out_own:
  assumes inv: "orders_inv s" "cart_inv s" and c: "cart_of s u = Some c"
    and co: "checked_out L base u input s c row items s'"
  shows "touches_own role u s s'"
proof -
  have tabs: "t_orders s' = t_orders s @ [row]" "t_order_items s' = t_order_items s @ items"
    "t_carts s' = delete_where (\<lambda>x. c_ID x = c_ID c) (t_carts s)"
    "t_cart_items s' = delete_where (\<lambda>i. ci_CartID i = c_ID c) (t_cart_items s)"
    and own: "o_CustomerID row = u" "\<not> advanced (o_Status row)"
    and fresh: "\<forall>x \<in> set (t_orders s). o_ID x \<noteq> o_ID row" "\<forall>i \<in> set items. oi_OrderID i = o_ID row"
    using co by (auto simp: checked_out_def advanced_def)
  have others: "c1 \<in> set (t_carts s) \<Longrightarrow> c_CustomerID c1 \<noteq> u \<Longrightarrow> c_ID c1 \<noteq> c_ID c" for c1
    using inv(2) find_row_Some [of c_CustomerID u "t_carts s" c] c
    by (auto simp: cart_inv_def cart_of_def distinct_map dest: inj_onD)
  have "items_of s' (o_ID x) = items_of s (o_ID x)" if "x \<in> set (t_orders s)" for x
    using fresh that by (auto simp: items_of_def tabs filter_empty_conv)
  then show ?thesis
    using own others by (auto simp: touches_own_def tabs own_order_def set_delete_where intro!: filter_delete_untouched)
qed

lemma Checkout_own:
  assumes inv: "orders_inv s" "cart_inv s"
  shows "touches_own role u s (snd (Checkout_Execute L E (CachingGeocoder_Geocode sha256hex E' inner) P base u input s))"
proof -
  obtain r s' where run: "Checkout_Execute L E (CachingGeocoder_Geocode sha256hex E' inner) P base u input s = (r, s')"
    by fastforce
  have "touches_own role u s s'"
  proof (cases r)
    case (Inl e)
    from caching.checkout_failure [OF run [unfolded Inl]] show ?thesis
      using checked_out_own [OF inv] touches_own_cong but_geocode_eqD(1-4) by metis
  next
    case (Inr resp)
    from caching.checkout_success [OF run [unfolded Inr]] show ?thesis using checked_out_own [OF inv] by blast
  qed
  then show ?thesis by (simp add: run)
qed


subsection \<open>The invariants\<close>

lemma Order_Update_keeps_cart [keeps_intro]: "keeps cart_inv (Order_Update E ord)"
  by (rule keepsI) (simp add: Order_Update_def cart_inv_def)

lemma cancel_at_gateway_keeps_cart [keeps_intro]: "keeps cart_inv (cancel_at_gateway P ord)"
  by (rule cancel_at_gateway_keeps) (simp add: cart_inv_def)

lemma keeps_snd: "keeps P m \<Longrightarrow> P s \<Longrightarrow> P (snd (m s))"
  by (simp add: keeps_def)

lemma order_commands_keep_cart:
  "keeps cart_inv (Cancel_Execute E P i u role)" "keeps cart_inv (MarkReady_Execute E i u)"
  "keeps cart_inv (Complete_Execute E i u)"
  unfolding Cancel_Execute_def MarkReady_Execute_def Complete_Execute_def by (intro keeps_intro)+

lemma order_commands_invs:
  assumes "orders_inv s" "cart_inv s"
  shows "orders_inv (snd (Cancel_Execute E P i u role s))" "cart_inv (snd (Cancel_Execute E P i u role s))"
    "orders_inv (snd (MarkReady_Execute E i u s))" "cart_inv (snd (MarkReady_Execute E i u s))"
    "orders_inv (snd (Complete_Execute E i u s))" "cart_inv (snd (Complete_Execute E i u s))"
  by (rule keeps_snd; (rule Cancel_Execute_keeps_orders MarkReady_Execute_keeps_orders Complete_Execute_keeps_orders
      order_commands_keep_cart assms))+

lemma cart_commands_invs:
  assumes "orders_inv s" "cart_inv s"
  shows "orders_inv (snd (AddItem_Execute L E u input s))" "cart_inv (snd (AddItem_Execute L E u input s))"
    "orders_inv (snd (UpdateItemQuantity_Execute E u itemID q s))" "cart_inv (snd (UpdateItemQuantity_Execute E u itemID q s))"
    "orders_inv (snd (RemoveItem_Execute E u itemID s))" "cart_inv (snd (RemoveItem_Execute E u itemID s))"
proof -
  have cong: "orders_inv s'" if "touches_cart u s s'" for s'
    using that assms(1) orders_inv_cong [of s' s] by (simp add: touches_cart_def)
  show "orders_inv (snd (AddItem_Execute L E u input s))" "orders_inv (snd (UpdateItemQuantity_Execute E u itemID q s))"
    "orders_inv (snd (RemoveItem_Execute E u itemID s))"
    by (intro cong AddItem_own UpdateItemQuantity_own RemoveItem_own assms)+
  show "cart_inv (snd (AddItem_Execute L E u input s))" "cart_inv (snd (UpdateItemQuantity_Execute E u itemID q s))"
    "cart_inv (snd (RemoveItem_Execute E u itemID s))"
    by (rule keeps_snd; (rule cart_commands_keep assms(2)))+
qed

lemma Checkout_invs:
  assumes inv: "orders_inv s" "cart_inv s"
  shows "orders_inv (snd (Checkout_Execute L E (CachingGeocoder_Geocode sha256hex E' inner) P base u input s)) \<and>
    cart_inv (snd (Checkout_Execute L E (CachingGeocoder_Geocode sha256hex E' inner) P base u input s))"
proof -
  obtain r s' where run: "Checkout_Execute L E (CachingGeocoder_Geocode sha256hex E' inner) P base u input s = (r, s')"
    by fastforce
  have co: "cart_inv s'" if "checked_out L base u input s c row items s'" for c row items
    using delete_cart_inv [OF inv(2), of "c_ID c"] that by (simp add: checked_out_def cart_inv_def delete_cart_def)
  have "cart_inv s'"
  proof (cases r)
    case (Inl e)
    from caching.checkout_failure [OF run [unfolded Inl]] show ?thesis
      using co inv(2) but_geocode_eqD(1,2) [of s' s] by (auto simp: cart_inv_def)
  next
    case (Inr resp)
    from caching.checkout_success [OF run [unfolded Inr]] show ?thesis using co by blast
  qed
  then show ?thesis
    using keepsD [OF caching.checkout_keeps_orders run inv(1)] by (simp add: run)
qed

subsection \<open>Requests\<close>

text \<open>Every handler is a write the caller may make, or none.\<close>

text \<open>
  \<open>guarded\<close>: the invariants are kept, and without the caller's identifier nothing is written and the answer is an error.
\<close>

definition guarded :: "'d::linordered_idom http_service \<Rightarrow> web_request \<Rightarrow> 'd order_op \<Rightarrow> bool" where
  "guarded S r h \<longleftrightarrow> (\<forall>s. orders_inv s \<and> cart_inv s \<longrightarrow> orders_inv (snd (h s)) \<and> cart_inv (snd (h s)) \<and>
     (case uuidParse (sv_lib S) (hq_UserID r) of
        None \<Rightarrow> snd (h s) = s \<and> 400 \<le> fst (fst (h s))
      | Some u \<Rightarrow> touches_own (hq_UserRole r) u s (snd (h s))))"

lemma guarded_error: "400 \<le> status \<Longrightarrow> guarded S r (http_error status)"
  by (simp add: guarded_def http_error_def split: option.split)

lemma guarded_body: "(\<And>input. guarded S r (k input)) \<Longrightarrow> guarded S r (with_body bound k)"
  by (cases bound) (simp_all add: with_body_def guarded_error)

lemma guarded_uuid: "(\<And>i. guarded S r (k i)) \<Longrightarrow> guarded S r (with_uuid (sv_lib S) x k)"
  by (cases "uuidParse (sv_lib S) x") (simp_all add: with_uuid_def guarded_error)

lemma guarded_user:
  assumes "\<And>u s. orders_inv s \<Longrightarrow> cart_inv s \<Longrightarrow> touches_own (hq_UserRole r) u s (snd (m u s))"
    and "\<And>u s. orders_inv s \<Longrightarrow> cart_inv s \<Longrightarrow> orders_inv (snd (m u s)) \<and> cart_inv (snd (m u s))"
  shows "guarded S r (with_uuid (sv_lib S) (hq_UserID r) (\<lambda>u. respond HandleError status answer (m u)))"
proof (cases "uuidParse (sv_lib S) (hq_UserID r)")
  case (Some u)
  then show ?thesis using assms by (simp add: guarded_def with_uuid_def Some)
qed (simp add: with_uuid_def guarded_error)

lemma guarded_read:
  "guarded S r (with_uuid (sv_lib S) (hq_UserID r) (\<lambda>u. respond HandleError status answer (query (q u))))"
  by (rule guarded_user) (simp_all add: query_def)

lemma guarded_Checkout:
  "sv_geocoder S = CachingGeocoder_Geocode sha256hex E inner \<Longrightarrow> guarded S r (OrderHandler_Checkout S r)"
  unfolding OrderHandler_Checkout_def
  by (rule guarded_body) (simp add: guarded_user Checkout_own Checkout_invs)

lemma guarded_cart:
  "guarded S r (CartHandler_AddItem S r)" "guarded S r (CartHandler_UpdateItemQuantity S r i)"
  "guarded S r (CartHandler_RemoveItem S r i)" "guarded S r (CartHandler_GetCart S r)"
proof -
  note writes = guarded_user touches_cart_own AddItem_own UpdateItemQuantity_own RemoveItem_own cart_commands_invs
  show "guarded S r (CartHandler_AddItem S r)"
    unfolding CartHandler_AddItem_def by (rule guarded_body) (simp add: writes)
  show "guarded S r (CartHandler_UpdateItemQuantity S r i)"
    unfolding CartHandler_UpdateItemQuantity_def by (rule guarded_uuid, rule guarded_body) (simp add: writes)
  show "guarded S r (CartHandler_RemoveItem S r i)"
    unfolding CartHandler_RemoveItem_def by (rule guarded_uuid) (simp add: writes)
  show "guarded S r (CartHandler_GetCart S r)"
    unfolding CartHandler_GetCart_def by (rule guarded_read)
qed

lemma guarded_orders:
  "guarded S r (OrderHandler_GetOrder S r i)" "guarded S r (OrderHandler_ListMyOrders S r)"
  "guarded S r (OrderHandler_ListRestaurantOrders S r i)" "guarded S r (OrderHandler_Cancel S r i)"
  unfolding OrderHandler_GetOrder_def OrderHandler_ListMyOrders_def OrderHandler_ListRestaurantOrders_def
    OrderHandler_Cancel_def
  by (intro guarded_uuid guarded_user guarded_read Cancel_own order_commands_invs conjI; assumption)+

lemma guarded_owner:
  "hq_UserRole r = ''owner'' \<Longrightarrow> guarded S r (OrderHandler_MarkReady S r i)"
  "hq_UserRole r = ''owner'' \<Longrightarrow> guarded S r (OrderHandler_Complete S r i)"
  unfolding OrderHandler_MarkReady_def OrderHandler_Complete_def
  by (intro guarded_uuid guarded_user; simp add: MarkReady_own Complete_own order_commands_invs)+

lemma guarded_RequireRole: "(hq_UserRole r = e \<Longrightarrow> guarded S r h) \<Longrightarrow> guarded S r (RequireRole e r h)"
  by (simp add: RequireRole_def guarded_error)

lemma guarded_header_auth: "guarded S r h \<Longrightarrow> guarded S r (header_auth r h)"
  by (simp add: header_auth_def guarded_error)

lemma guarded_order_http:
  assumes "sv_geocoder S = CachingGeocoder_Geocode sha256hex E inner"
  shows "guarded S r (order_http S r)"
proof -
  have "guarded S r h" if "cart_routes S r = Some h" for h
    using that by (auto simp: cart_routes_def intro!: guarded_header_auth guarded_cart split: list.splits if_splits)
  moreover have "guarded S r h" if "order_routes S r = Some h" for h
    using that by (auto simp: order_routes_def Let_def intro!: guarded_header_auth guarded_RequireRole guarded_orders
        guarded_owner guarded_Checkout [OF assms] split: list.splits if_splits)
  ultimately show ?thesis by (simp add: order_http_def guarded_error split: option.split)
qed

text \<open>A request without the two headers the gateway sets goes nowhere.\<close>

lemma order_http_anonymous:
  assumes "hq_UserID r = '''' \<or> hq_UserRole r = ''''"
  shows "order_http S r s = ((401, Failed), s) \<or> order_http S r s = ((404, Failed), s)"
  using assms by (auto simp: order_http_def cart_routes_def order_routes_def Let_def header_auth_def http_error_def
      split: list.splits option.splits if_splits)

text \<open>
  C4. Whatever a request to order-service asks, it can change only what its caller may: orders he placed, as an owner
  also the orders of his restaurants, and his own cart; only an owner gets an order ready or completed, and only one of
  his restaurant. A request that names no caller, or none that can be read, changes nothing and is answered by an error.
  The invariants of orders and carts hold after it.
\<close>

theorem requests_touch_own_data:
  assumes "sv_geocoder S = CachingGeocoder_Geocode sha256hex E inner" and "orders_inv s" "cart_inv s"
    and run: "order_http S r s = ((status, answer), s')"
  shows "orders_inv s' \<and> cart_inv s' \<and>
    (hq_UserID r = '''' \<or> hq_UserRole r = '''' \<longrightarrow> s' = s \<and> status \<in> {401, 404}) \<and>
    (uuidParse (sv_lib S) (hq_UserID r) = None \<longrightarrow> s' = s \<and> 400 \<le> status) \<and>
    (\<forall>u. uuidParse (sv_lib S) (hq_UserID r) = Some u \<longrightarrow> touches_own (hq_UserRole r) u s s')"
  using guarded_order_http [OF assms(1), of r] assms(2,3) order_http_anonymous [of r S s]
  by (auto simp: guarded_def run dest!: spec [of _ s])

definition sample_service :: "int http_service" where
  "sample_service = \<lparr> sv_lib = sample_lib, sv_env = sample_env,
     sv_geocoder = CachingGeocoder_Geocode (\<lambda>x. x) sample_env (\<lambda>_. Inr (0, 0)),
     sv_provider = sample_provider, sv_frontendBaseURL = ''b'' \<rparr>"

definition cancel_request :: "uuid \<Rightarrow> web_request" where
  "cancel_request u = \<lparr> hq_Method = ''POST'', hq_Path = [''orders'', uuidString sample_lib 9, ''cancel''],
     hq_UserID = uuidString sample_lib u, hq_UserRole = ''customer'', hq_Query = (\<lambda>_. ''''), hq_Body = None \<rparr>"

lemma nat_bin_not_empty: "0 < n \<Longrightarrow> nat_bin n \<noteq> []"
  by (simp add: nat_bin.simps [of n])

text \<open>The order of customer 6 survives the request of customer 7, and not that of customer 6.\<close>

theorem requests_touch_own_data_witness:
  "sample_pending \<in> set (t_orders (snd (order_http sample_service (cancel_request 7) sample_order_db))) \<and>
   sample_pending \<notin> set (t_orders (snd (order_http sample_service (cancel_request 6) sample_order_db)))"
proof
  obtain status answer s' where run: "order_http sample_service (cancel_request 7) sample_order_db = ((status, answer), s')"
    by (metis surj_pair)
  have "sv_geocoder sample_service = CachingGeocoder_Geocode (\<lambda>x. x) sample_env (\<lambda>_. Inr (0, 0))"
    by (simp add: sample_service_def)
  moreover have "cart_inv sample_order_db" by (simp add: cart_inv_def sample_order_db_def)
  moreover have "uuidParse (sv_lib sample_service) (hq_UserID (cancel_request 7)) = Some 7"
    by (simp add: sample_service_def cancel_request_def sample_lib_def)
  ultimately have "touches_own ''customer'' 7 sample_order_db s'"
    using requests_touch_own_data [OF _ sample_order_db_inv _ run] by (simp add: cancel_request_def)
  moreover have "\<not> own_order sample_order_db ''customer'' 7 sample_pending" "sample_pending \<in> set (t_orders sample_order_db)"
    by (simp_all add: own_order_def sample_pending_def NewOrder_def sample_order_db_def)
  ultimately show "sample_pending \<in> set (t_orders (snd (order_http sample_service (cancel_request 7) sample_order_db)))"
    unfolding run snd_conv touches_own_def by blast
next
  have "order_http sample_service (cancel_request 6) = respond HandleError 200 OrderAnswer (Cancel_Execute sample_env sample_provider 9 6 ''customer'')"
    by (simp add: order_http_def cart_routes_def order_routes_def Let_def cancel_request_def header_auth_def
        OrderHandler_Cancel_def with_uuid_def sample_service_def sample_lib_def nat_bin_not_empty)
  then show "sample_pending \<notin> set (t_orders (snd (order_http sample_service (cancel_request 6) sample_order_db)))"
    by (simp add: respond_def Cancel_Execute_def bind_def query_def ret_def find_for_role_def Order_FindByIDAndCustomer_def
        find_order_def io_def sample_order_db_def sample_pending_def NewOrder_def sample_defs forbid_missing_def
        preload_order_def check_payment_def conflict_def Cancel_def Order_Update_def order_row_ok_def payment_id_free_def
        save_order_def stored_def cancel_at_gateway_def cancel_payment_def update_where_def numeric_fits_def)
qed

end
