(* ===== verification/Restaurant_Http.thy ===== *)
theory Restaurant_Http
  imports Http Restaurant_Commands "HOL-Library.List_Lexorder" "HOL-Library.Char_ord"
begin

text \<open>
  The HTTP interface of restaurant-service (\<open>internal/interfaces/http\<close>): its validators, the binding of bodies, handlers and
  routes. The validations of package validator the tags name (\<open>email\<close>, \<open>url\<close>, \<open>bic\<close>), the decimals of package decimal in
  JSON and the Unicode tables of letters and digits outside ASCII are arguments.
\<close>

record 'd web_lib =
  wl_email :: "string \<Rightarrow> bool"
  wl_url :: "string \<Rightarrow> bool"
  wl_bic :: "string \<Rightarrow> bool"
  wl_decimal :: "json \<Rightarrow> 'd option"
  wl_letter :: "nat \<Rightarrow> bool"
  wl_number :: "nat \<Rightarrow> bool"

subsection \<open>Runes\<close>

text \<open>The runes of a text in UTF-8 (what \<open>encoding/json\<close> decodes is valid): bytes still missing, bits so far.\<close>

fun utf8 :: "nat \<Rightarrow> nat \<Rightarrow> string \<Rightarrow> nat list" where
  "utf8 n acc [] = []"
| "utf8 n acc (c # cs) =
     (let b = of_char c in
      if n = 0 then
        (if b < 128 then b # utf8 0 0 cs
         else if b < 224 then utf8 1 (b - 192) cs
         else if b < 240 then utf8 2 (b - 224) cs else utf8 3 (b - 240) cs)
      else if n = 1 then (64 * acc + (b - 128)) # utf8 0 0 cs
      else utf8 (n - 1) (64 * acc + (b - 128)) cs)"

abbreviation runes :: "string \<Rightarrow> nat list" where
  "runes \<equiv> utf8 0 0"

definition max_runes :: "nat \<Rightarrow> string \<Rightarrow> bool" where
  "max_runes n s \<longleftrightarrow> length (runes s) \<le> n"

definition digit_char :: "char \<Rightarrow> bool" where
  "digit_char c \<longleftrightarrow> CHR ''0'' \<le> c \<and> c \<le> CHR ''9''"

definition is_upper :: "char \<Rightarrow> bool" where
  "is_upper c \<longleftrightarrow> CHR ''A'' \<le> c \<and> c \<le> CHR ''Z''"

definition rune_letter :: "'d web_lib \<Rightarrow> nat \<Rightarrow> bool" where
  "rune_letter W u \<longleftrightarrow> 65 \<le> u \<and> u \<le> 90 \<or> 97 \<le> u \<and> u \<le> 122 \<or> 128 \<le> u \<and> wl_letter W u"

definition rune_number :: "'d web_lib \<Rightarrow> nat \<Rightarrow> bool" where
  "rune_number W u \<longleftrightarrow> 48 \<le> u \<and> u \<le> 57 \<or> 128 \<le> u \<and> wl_number W u"

definition rune_in :: "string \<Rightarrow> nat \<Rightarrow> bool" where
  "rune_in cs u \<longleftrightarrow> u \<in> of_char ` set cs"

subsection \<open>Validators\<close>

text \<open>
  \<open>strings.ToUpper\<close>, as far as \<open>isIban\<close> can tell: besides the ASCII letters only the runes U+0131 and U+017F have an upper
  case in ASCII; other runes are refused in either case.
\<close>

definition upper :: "char \<Rightarrow> char" where
  "upper c = (if CHR ''a'' \<le> c \<and> c \<le> CHR ''z'' then char_of ((of_char c :: nat) - 32) else c)"

fun ToUpper_ascii :: "string \<Rightarrow> string" where
  "ToUpper_ascii [] = []"
| "ToUpper_ascii (c # cs) =
     (case cs of
        d # ds \<Rightarrow>
          if (of_char c :: nat) = 196 \<and> (of_char d :: nat) = 177 then CHR ''I'' # ToUpper_ascii ds
          else if (of_char c :: nat) = 197 \<and> (of_char d :: nat) = 191 then CHR ''S'' # ToUpper_ascii ds
          else upper c # ToUpper_ascii cs
      | [] \<Rightarrow> [upper c])"

text \<open>The number of a letter, 10 to 35, in two digits.\<close>

definition letter_digits :: "char \<Rightarrow> string" where
  "letter_digits c = (let n = of_char c - of_char CHR ''A'' + 10 in [char_of (48 + n div 10 :: nat), char_of (48 + n mod 10)])"

definition mod97 :: "string \<Rightarrow> nat" where
  "mod97 numeric = foldl (\<lambda>remainder r. (remainder * 10 + (of_char r - 48)) mod 97) 0 numeric"

definition iban_numeric :: "string \<Rightarrow> string" where
  "iban_numeric rearranged = concat (List.map (\<lambda>c. if is_upper c then letter_digits c else [c]) rearranged)"

definition isIban :: "string \<Rightarrow> bool" where
  "isIban value =
     (let iban = ToUpper_ascii (filter (\<lambda>c. c \<noteq> CHR '' '') value) in
      if length iban < 15 \<or> length iban > 34 then False
      else if \<not> list_all is_upper (take 2 iban) \<or> \<not> list_all (\<lambda>c. digit_char c \<or> is_upper c) (drop 2 iban) then False
      else mod97 (iban_numeric (drop 4 iban @ take 4 iban)) = 1)"

definition isHHMM :: "string \<Rightarrow> bool" where
  "isHHMM value = (case value of
     [h, h', c, m, m'] \<Rightarrow>
       (h \<in> {CHR ''0'', CHR ''1''} \<and> digit_char h' \<or> h = CHR ''2'' \<and> CHR ''0'' \<le> h' \<and> h' \<le> CHR ''3'') \<and>
       c = CHR '':'' \<and> CHR ''0'' \<le> m \<and> m \<le> CHR ''5'' \<and> digit_char m'
   | _ \<Rightarrow> False)"

definition isPhone :: "string \<Rightarrow> bool" where
  "isPhone value =
     (let body = (if value \<noteq> [] \<and> hd value = CHR ''+'' then tl value else value) in
      6 \<le> length body \<and> length body \<le> 32 \<and>
      list_all (\<lambda>c. digit_char c \<or> c \<in> set ''()-'' \<or> of_char c \<in> {9, 10, 12, 13, 32 :: nat}) body \<and>
      6 \<le> length (filter digit_char value))"

definition trimmed_runes :: "(nat \<Rightarrow> bool) \<Rightarrow> string \<Rightarrow> bool" where
  "trimmed_runes allowed value = (let v = TrimSpace value in v \<noteq> '''' \<and> list_all allowed (runes v))"

definition isHouseNumber :: "'d web_lib \<Rightarrow> string \<Rightarrow> bool" where
  "isHouseNumber W = trimmed_runes (\<lambda>u. rune_letter W u \<or> rune_number W u \<or> rune_in '' ()/-'' u)"

definition isStreet :: "'d web_lib \<Rightarrow> string \<Rightarrow> bool" where
  "isStreet W = trimmed_runes (\<lambda>u. rune_letter W u \<or> rune_number W u \<or> rune_in ('' .-'' @ [CHR 0x27]) u)"

definition isCity :: "'d web_lib \<Rightarrow> string \<Rightarrow> bool" where
  "isCity W = trimmed_runes (\<lambda>u. rune_letter W u \<or> rune_in ('' .-'' @ [CHR 0x27]) u)"

definition isPostalCode :: "'d web_lib \<Rightarrow> string \<Rightarrow> bool" where
  "isPostalCode W = trimmed_runes (\<lambda>u. u < 128 \<and> (rune_letter W u \<or> rune_number W u) \<or> rune_in '' -'' u)"

subsection \<open>Bodies\<close>

text \<open>
  \<open>ShouldBindJSON\<close>: decoding, the tags of \<open>schema.go\<close>, the struct validations. \<open>None\<close> is status 422. A pointer that is set
  counts as present whatever it points to.
\<close>

definition checked_by :: "('a \<Rightarrow> bool) \<Rightarrow> 'a option \<Rightarrow> 'a option" where
  "checked_by ok x = Option.bind x (\<lambda>v. if ok v then Some v else None)"

definition opt_ok :: "('a \<Rightarrow> bool) \<Rightarrow> 'a option \<Rightarrow> bool" where
  "opt_ok ok x \<longleftrightarrow> (case x of None \<Rightarrow> True | Some v \<Rightarrow> ok v)"

definition decode_struct :: "(json \<Rightarrow> 'a option) \<Rightarrow> json option \<Rightarrow> 'a option" where
  "decode_struct dec body = Option.bind body (\<lambda>j. if is_struct j then dec j else None)"

definition bind_address :: "'d web_lib \<Rightarrow> json option \<Rightarrow> UpdateAddressRequest option" where
  "bind_address W = decode_struct (\<lambda>j.
     case (dec_str (member j ''house''), dec_str (member j ''street''), dec_str (member j ''city''),
           dec_str (member j ''postalCode'')) of
       (Some house, Some street, Some city, Some postalCode) \<Rightarrow>
         checked_by (\<lambda>a. uar_House a \<noteq> '''' \<and> max_runes 64 (uar_House a) \<and> isHouseNumber W (uar_House a) \<and>
             uar_Street a \<noteq> '''' \<and> max_runes 128 (uar_Street a) \<and> isStreet W (uar_Street a) \<and>
             uar_City a \<noteq> '''' \<and> max_runes 64 (uar_City a) \<and> isCity W (uar_City a) \<and>
             uar_PostalCode a \<noteq> '''' \<and> max_runes 12 (uar_PostalCode a) \<and> isPostalCode W (uar_PostalCode a))
           (Some \<lparr> uar_House = house, uar_Street = street, uar_City = city, uar_PostalCode = postalCode \<rparr>)
     | _ \<Rightarrow> None)"

definition bind_contact :: "'d web_lib \<Rightarrow> json option \<Rightarrow> UpdateContactRequest option" where
  "bind_contact W = decode_struct (\<lambda>j.
     case (dec_str_ptr (member j ''email''), dec_str_ptr (member j ''phone''), dec_str_ptr (member j ''website'')) of
       (Some email, Some phone, Some website) \<Rightarrow>
         checked_by (\<lambda>c. ucr_Email c \<noteq> None \<and> opt_ok (\<lambda>e. wl_email W e \<and> max_runes 255 e) (ucr_Email c) \<and>
             ucr_Phone c \<noteq> None \<and> opt_ok isPhone (ucr_Phone c) \<and>
             opt_ok (\<lambda>u. wl_url W u \<and> max_runes 255 u) (ucr_Website c))
           (Some \<lparr> ucr_Email = email, ucr_Phone = phone, ucr_Website = website \<rparr>)
     | _ \<Rightarrow> None)"

definition validateDelivery :: "'d UpdateDeliveryRequest \<Rightarrow> bool" where
  "validateDelivery req \<longleftrightarrow>
     (udr_DeliveryType req \<noteq> ''none'' \<longrightarrow>
        udr_DeliveryKm req \<noteq> None \<and> udr_DeliveryTimeMin req \<noteq> None \<and> udr_DeliveryTimeMax req \<noteq> None) \<and>
     (case (udr_DeliveryTimeMin req, udr_DeliveryTimeMax req) of
        (Some lo, Some hi) \<Rightarrow> \<not> sint hi \<le> sint lo
      | _ \<Rightarrow> True)"

definition int_between :: "int \<Rightarrow> int \<Rightarrow> int16 \<Rightarrow> bool" where
  "int_between lo hi i \<longleftrightarrow> lo \<le> sint i \<and> sint i \<le> hi"

text \<open>A missing decimal and \<open>null\<close> are zero.\<close>

definition dec_decimal :: "'d::zero web_lib \<Rightarrow> json \<Rightarrow> 'd option" where
  "dec_decimal W j = (if j = JNull then Some 0 else wl_decimal W j)"

definition bind_delivery :: "'d::zero web_lib \<Rightarrow> json option \<Rightarrow> 'd UpdateDeliveryRequest option" where
  "bind_delivery W = decode_struct (\<lambda>j.
     case (dec_bool (member j ''pickup''), dec_str (member j ''deliveryType''), dec_int16_ptr (member j ''deliveryKm''),
           dec_int16_ptr (member j ''deliveryTimeMin''), dec_int16_ptr (member j ''deliveryTimeMax''),
           dec_decimal W (member j ''deliveryFee''), dec_decimal W (member j ''minimumOrder'')) of
       (Some pickup, Some deliveryType, Some km, Some lo, Some hi, Some fee, Some minimum) \<Rightarrow>
         checked_by (\<lambda>d. udr_DeliveryType d \<in> {''own'', ''external'', ''none''} \<and> opt_ok (int_between 1 25) (udr_DeliveryKm d) \<and>
             opt_ok (int_between 5 120) (udr_DeliveryTimeMin d) \<and> opt_ok (int_between 5 120) (udr_DeliveryTimeMax d) \<and>
             validateDelivery d)
           (Some \<lparr> udr_Pickup = pickup, udr_DeliveryType = deliveryType, udr_DeliveryKm = km, udr_DeliveryTimeMin = lo,
              udr_DeliveryTimeMax = hi, udr_DeliveryFee = fee, udr_MinimumOrder = minimum \<rparr>)
     | _ \<Rightarrow> None)"

text \<open>A body without tags leaves the slice nil.\<close>

definition bind_tags :: "json option \<Rightarrow> string list option option" where
  "bind_tags = decode_struct (\<lambda>j.
     if member j ''tags'' = JNull then Some None
     else map_option Some
       (checked_by (\<lambda>tags. distinct tags \<and> set tags \<subseteq> {''vegetarian'', ''vegan'', ''glutenfree'', ''halal''})
         (dec_list dec_str (member j ''tags''))))"

text \<open>The comparison \<open>dr.Open >= dr.Close\<close> is the one of texts, byte by byte.\<close>

definition validateDayRange :: "DayRange \<Rightarrow> bool" where
  "validateDayRange dr \<longleftrightarrow> (isHHMM (dr_Open dr) \<and> isHHMM (dr_Close dr) \<longrightarrow> dr_Open dr < dr_Close dr)"

definition bind_day_range :: "json \<Rightarrow> DayRange option" where
  "bind_day_range j =
     (if \<not> is_struct j then None
      else case (dec_str (member j ''open''), dec_str (member j ''close'')) of
        (Some open_text, Some close_text) \<Rightarrow>
          checked_by (\<lambda>dr. dr_Open dr \<noteq> '''' \<and> isHHMM (dr_Open dr) \<and> dr_Close dr \<noteq> '''' \<and> isHHMM (dr_Close dr) \<and> validateDayRange dr)
            (Some \<lparr> dr_Open = open_text, dr_Close = close_text \<rparr>)
      | _ \<Rightarrow> None)"

definition bind_opening_hours :: "json option \<Rightarrow> OpeningHours option" where
  "bind_opening_hours = decode_struct (\<lambda>j.
     let day = \<lambda>k. dec_list bind_day_range (member j k) in
     case (day ''monday'', day ''tuesday'', day ''wednesday'', day ''thursday'', day ''friday'', day ''saturday'', day ''sunday'') of
       (Some mo, Some tu, Some we, Some th, Some fr, Some sa, Some su) \<Rightarrow>
         Some \<lparr> oh_Monday = mo, oh_Tuesday = tu, oh_Wednesday = we, oh_Thursday = th, oh_Friday = fr, oh_Saturday = sa,
                oh_Sunday = su \<rparr>
     | _ \<Rightarrow> None)"

definition bind_payout :: "'d web_lib \<Rightarrow> json option \<Rightarrow> CreatePayoutRequest option" where
  "bind_payout W = decode_struct (\<lambda>j.
     case (dec_str (member j ''accountHolder''), dec_str (member j ''iban''), dec_str (member j ''bic''),
           dec_str (member j ''bankName'')) of
       (Some holder, Some iban, Some bic, Some bank) \<Rightarrow>
         checked_by (\<lambda>p. cpr_AccountHolder p \<noteq> '''' \<and> max_runes 100 (cpr_AccountHolder p) \<and> cpr_IBAN p \<noteq> '''' \<and>
             isIban (cpr_IBAN p) \<and> cpr_BIC p \<noteq> '''' \<and> wl_bic W (cpr_BIC p) \<and> cpr_BankName p \<noteq> '''' \<and>
             max_runes 100 (cpr_BankName p))
           (Some \<lparr> cpr_AccountHolder = holder, cpr_IBAN = iban, cpr_BIC = bic, cpr_BankName = bank \<rparr>)
     | _ \<Rightarrow> None)"

fun dec_int :: "json \<Rightarrow> 64 word option" where
  "dec_int JNull = Some 0"
| "dec_int (JInt i) = (if - (2 ^ 63) \<le> i \<and> i < 2 ^ 63 then Some (word_of_int i) else None)"
| "dec_int _ = None"

definition pizza_statuses :: "(string \<times> PizzaStatus) list" where
  "pizza_statuses = [(''available'', PizzaAvailable), (''unavailable'', PizzaUnavailable), (''archived'', PizzaArchived)]"

text \<open>\<open>null\<close> for a slice is \<open>nil\<close>, which the commands tell from an empty one.\<close>

definition bind_pizza :: "'d lib \<Rightarrow> 'd web_lib \<Rightarrow> json option \<Rightarrow> CreatePizzaRequest option" where
  "bind_pizza L W = decode_struct (\<lambda>j.
     case (dec_str (member j ''name''), dec_str_ptr (member j ''image''), dec_opt dec_bool (member j ''isVegetarian''),
           dec_str_ptr (member j ''status''), dec_int (member j ''sortOrder''),
           dec_opt (dec_list (dec_uuid L)) (member j ''toppingIds'')) of
       (Some name, Some picture, Some vegetarian, Some status, Some sortOrder, Some toppings) \<Rightarrow>
         if name = '''' \<or> \<not> max_runes 255 name \<or> \<not> opt_ok (max_runes 255) picture \<or>
            \<not> opt_ok (\<lambda>st. st \<in> fst ` set pizza_statuses) status \<or> sint sortOrder < 0 then None
         else Some \<lparr> czr_Name = name, czr_Image = picture, czr_IsVegetarian = vegetarian,
                     czr_Status = Option.bind status (map_of pizza_statuses), czr_SortOrder = sortOrder,
                     czr_ToppingIDs = toppings \<rparr>
     | _ \<Rightarrow> None)"

definition dec_price_input :: "'d::zero lib \<Rightarrow> 'd web_lib \<Rightarrow> string \<Rightarrow> string \<Rightarrow> json \<Rightarrow> (uuid \<times> 'd) option" where
  "dec_price_input L W idKey priceKey j =
     (if \<not> is_struct j then None
      else case (dec_uuid L (member j idKey), dec_decimal W (member j priceKey)) of
        (Some i, Some price) \<Rightarrow> if i = 0 then None else Some (i, price)
      | _ \<Rightarrow> None)"

definition bind_prices :: "'d::zero lib \<Rightarrow> 'd web_lib \<Rightarrow> string \<Rightarrow> string \<Rightarrow> json option \<Rightarrow> (uuid \<times> 'd) list option" where
  "bind_prices L W idKey priceKey = decode_struct (\<lambda>j.
     checked_by (\<lambda>prices. prices \<noteq> []) (dec_list (dec_price_input L W idKey priceKey) (member j ''prices'')))"

definition bind_pizza_prices :: "'d::zero lib \<Rightarrow> 'd web_lib \<Rightarrow> json option \<Rightarrow> (uuid \<times> 'd) list option" where
  "bind_pizza_prices L W = bind_prices L W ''sizeId'' ''price''"

definition bind_topping_prices :: "'d::zero lib \<Rightarrow> 'd web_lib \<Rightarrow> json option \<Rightarrow> (uuid \<times> 'd) list option" where
  "bind_topping_prices L W = bind_prices L W ''toppingId'' ''extraPrice''"

subsection \<open>Handlers\<close>

record 'd rs_service =
  rv_lib :: "'d lib"
  rv_web :: "'d web_lib"
  rv_goslug :: "string \<Rightarrow> string"
  rv_geocoder :: rs_geocoder
  rv_env :: rs_env

datatype 'd rs_answer =
    RestaurantAnswer "'d RestaurantResponse"
  | WithPizzasAnswer "'d RestaurantResponse" "'d PizzaResponse list"
  | PizzaAnswer "'d PizzaResponse"
  | PizzasAnswer "'d PizzaResponse list"
  | ToppingPricesAnswer "'d ToppingPriceResponse list"
  | ReadinessAnswer "'d LaunchReadinessResponse"

type_synonym 'd rs_http = "('d rs_db, 'd rs_answer) http_op"

definition rs_respond :: "nat \<Rightarrow> ('a \<Rightarrow> 'd rs_answer) \<Rightarrow> ('d, 'a) rs_op \<Rightarrow> 'd rs_http" where
  "rs_respond status answer m s = (case m s of
     (Inl e, s') \<Rightarrow> (if RsPanic \<in> set e then (500, Panicked) else (rs_HandleError e, Failed), s')
   | (Inr x, s') \<Rightarrow> ((status, Reply (answer x)), s'))"

text \<open>\<open>k\<close> gets the identifier of the path and, after the binding of the body, the one of the caller.\<close>

definition owner_only :: "'d rs_service \<Rightarrow> web_request \<Rightarrow> string \<Rightarrow> (uuid \<Rightarrow> uuid \<Rightarrow> 'd rs_http) \<Rightarrow> 'd rs_http" where
  "owner_only S r param k =
     with_uuid (rv_lib S) param (\<lambda>restaurantID.
     with_uuid (rv_lib S) (hq_UserID r) (\<lambda>ownerID. k restaurantID ownerID))"

definition owner_input ::
  "'d rs_service \<Rightarrow> web_request \<Rightarrow> string \<Rightarrow> (json option \<Rightarrow> 'a option) \<Rightarrow> (uuid \<Rightarrow> uuid \<Rightarrow> 'a \<Rightarrow> 'd rs_http) \<Rightarrow> 'd rs_http" where
  "owner_input S r param bind_input k =
     with_uuid (rv_lib S) param (\<lambda>restaurantID.
     with_body (bind_input (hq_Body r)) (\<lambda>input.
     with_uuid (rv_lib S) (hq_UserID r) (\<lambda>ownerID. k restaurantID ownerID input)))"

definition pizza_input ::
  "'d rs_service \<Rightarrow> web_request \<Rightarrow> string \<Rightarrow> string \<Rightarrow> (json option \<Rightarrow> 'a option) \<Rightarrow>
    (uuid \<Rightarrow> uuid \<Rightarrow> uuid \<Rightarrow> 'a \<Rightarrow> 'd rs_http) \<Rightarrow> 'd rs_http" where
  "pizza_input S r param pizzaParam bind_input k =
     with_uuid (rv_lib S) param (\<lambda>restaurantID.
     with_uuid (rv_lib S) pizzaParam (\<lambda>pizzaID.
     with_body (bind_input (hq_Body r)) (\<lambda>input.
     with_uuid (rv_lib S) (hq_UserID r) (\<lambda>ownerID. k restaurantID pizzaID ownerID input))))"

definition GetRestaurantHandler_GetRestaurant :: "'d rs_service \<Rightarrow> web_request \<Rightarrow> string \<Rightarrow> 'd rs_http" where
  "GetRestaurantHandler_GetRestaurant S r param = owner_only S r param (\<lambda>restaurantID ownerID.
     rs_respond 200 (\<lambda>(res, pizzas). WithPizzasAnswer res pizzas)
       (GetRestaurant_Execute (rv_lib S) (rv_env S) restaurantID ownerID))"

definition AddressHandler_UpdateAddress :: "'d::linordered_idom rs_service \<Rightarrow> web_request \<Rightarrow> string \<Rightarrow> 'd rs_http" where
  "AddressHandler_UpdateAddress S r param = owner_input S r param (bind_address (rv_web S)) (\<lambda>restaurantID ownerID input.
     rs_respond 200 RestaurantAnswer
       (UpdateAddress_Execute (rv_lib S) (rv_goslug S) (rv_geocoder S) (rv_env S) restaurantID ownerID input))"

definition ContactHandler_UpdateContact :: "'d::linordered_idom rs_service \<Rightarrow> web_request \<Rightarrow> string \<Rightarrow> 'd rs_http" where
  "ContactHandler_UpdateContact S r param = owner_input S r param (bind_contact (rv_web S)) (\<lambda>restaurantID ownerID input.
     rs_respond 200 RestaurantAnswer (UpdateContact_Execute (rv_lib S) (rv_env S) restaurantID ownerID input))"

definition DeliveryHandler_UpdateDelivery :: "'d::linordered_idom rs_service \<Rightarrow> web_request \<Rightarrow> string \<Rightarrow> 'd rs_http" where
  "DeliveryHandler_UpdateDelivery S r param = owner_input S r param (bind_delivery (rv_web S)) (\<lambda>restaurantID ownerID input.
     rs_respond 200 RestaurantAnswer (UpdateDelivery_Execute (rv_lib S) (rv_env S) restaurantID ownerID input))"

definition TagsHandler_UpdateTags :: "'d::linordered_idom rs_service \<Rightarrow> web_request \<Rightarrow> string \<Rightarrow> 'd rs_http" where
  "TagsHandler_UpdateTags S r param = owner_input S r param bind_tags (\<lambda>restaurantID ownerID input.
     rs_respond 200 RestaurantAnswer (UpdateTags_Execute (rv_lib S) (rv_env S) restaurantID ownerID input))"

definition OpeningHoursHandler_UpdateOpeningHours :: "'d::linordered_idom rs_service \<Rightarrow> web_request \<Rightarrow> string \<Rightarrow> 'd rs_http" where
  "OpeningHoursHandler_UpdateOpeningHours S r param = owner_input S r param bind_opening_hours (\<lambda>restaurantID ownerID input.
     rs_respond 200 RestaurantAnswer (UpdateOpeningHours_Execute (rv_lib S) (rv_env S) restaurantID ownerID input))"

definition PayoutHandler_CreatePayout :: "'d::linordered_idom rs_service \<Rightarrow> web_request \<Rightarrow> string \<Rightarrow> 'd rs_http" where
  "PayoutHandler_CreatePayout S r param = owner_input S r param (bind_payout (rv_web S)) (\<lambda>restaurantID ownerID input.
     rs_respond 201 RestaurantAnswer (CreatePayout_Execute (rv_lib S) (rv_env S) restaurantID ownerID input))"

definition PayoutHandler_UpdatePayout :: "'d rs_service \<Rightarrow> web_request \<Rightarrow> string \<Rightarrow> 'd rs_http" where
  "PayoutHandler_UpdatePayout S r param = owner_input S r param (bind_payout (rv_web S)) (\<lambda>restaurantID ownerID input.
     rs_respond 200 RestaurantAnswer (UpdatePayout_Execute (rv_env S) restaurantID ownerID input))"

definition ToppingPriceHandler_SetToppingPrices :: "'d::linordered_idom rs_service \<Rightarrow> web_request \<Rightarrow> string \<Rightarrow> 'd rs_http" where
  "ToppingPriceHandler_SetToppingPrices S r param =
     owner_input S r param (bind_topping_prices (rv_lib S) (rv_web S)) (\<lambda>restaurantID ownerID input.
     rs_respond 200 ToppingPricesAnswer (SetToppingPrices_Execute (rv_lib S) (rv_env S) restaurantID ownerID input))"

definition PizzaHandler_ListPizzas :: "'d rs_service \<Rightarrow> web_request \<Rightarrow> string \<Rightarrow> 'd rs_http" where
  "PizzaHandler_ListPizzas S r param = owner_only S r param (\<lambda>restaurantID ownerID.
     rs_respond 200 PizzasAnswer (ListPizzas_Execute (rv_lib S) (rv_env S) restaurantID ownerID))"

definition PizzaHandler_CreatePizza :: "'d rs_service \<Rightarrow> web_request \<Rightarrow> string \<Rightarrow> 'd rs_http" where
  "PizzaHandler_CreatePizza S r param = owner_input S r param (bind_pizza (rv_lib S) (rv_web S)) (\<lambda>restaurantID ownerID input.
     rs_respond 201 PizzaAnswer (CreatePizza_Execute (rv_lib S) (rv_env S) restaurantID ownerID input))"

definition PizzaHandler_UpdatePizza :: "'d::linordered_idom rs_service \<Rightarrow> web_request \<Rightarrow> string \<Rightarrow> string \<Rightarrow> 'd rs_http" where
  "PizzaHandler_UpdatePizza S r param pizzaParam =
     pizza_input S r param pizzaParam (bind_pizza (rv_lib S) (rv_web S)) (\<lambda>restaurantID pizzaID ownerID input.
     rs_respond 200 PizzaAnswer (UpdatePizza_Execute (rv_lib S) (rv_env S) restaurantID pizzaID ownerID input))"

definition PizzaHandler_SetPizzaPrices :: "'d::linordered_idom rs_service \<Rightarrow> web_request \<Rightarrow> string \<Rightarrow> string \<Rightarrow> 'd rs_http" where
  "PizzaHandler_SetPizzaPrices S r param pizzaParam =
     pizza_input S r param pizzaParam (bind_pizza_prices (rv_lib S) (rv_web S)) (\<lambda>restaurantID pizzaID ownerID input.
     rs_respond 200 PizzaAnswer (SetPizzaPrices_Execute (rv_lib S) (rv_env S) restaurantID pizzaID ownerID input))"

definition LaunchHandler_Launch :: "'d::linordered_idom rs_service \<Rightarrow> web_request \<Rightarrow> string \<Rightarrow> 'd rs_http" where
  "LaunchHandler_Launch S r param = owner_only S r param (\<lambda>restaurantID ownerID.
     rs_respond 200 RestaurantAnswer (LaunchRestaurant_Execute (rv_lib S) (rv_env S) restaurantID ownerID))"

definition LaunchHandler_LaunchReadiness :: "'d rs_service \<Rightarrow> web_request \<Rightarrow> string \<Rightarrow> 'd rs_http" where
  "LaunchHandler_LaunchReadiness S r param = owner_only S r param (\<lambda>restaurantID ownerID.
     rs_respond 200 ReadinessAnswer (GetLaunchReadiness_Execute (rv_lib S) (rv_env S) restaurantID ownerID))"

definition ApproveHandler_Approve :: "'d::linordered_idom rs_service \<Rightarrow> string \<Rightarrow> 'd rs_http" where
  "ApproveHandler_Approve S param = with_uuid (rv_lib S) param (\<lambda>restaurantID.
     rs_respond 200 RestaurantAnswer (ApproveRestaurant_Execute (rv_lib S) (rv_env S) restaurantID))"

subsection \<open>Routes\<close>

definition restaurant_route :: "'d::linordered_idom rs_service \<Rightarrow> web_request \<Rightarrow> 'd rs_http option" where
  "restaurant_route S r =
     (let ensure_owner = \<lambda>h. Some (header_auth r (RequireRole ''owner'' r h));
          ensure_admin = \<lambda>h. Some (header_auth r (RequireRole ''admin'' r h));
          m = hq_Method r in
      case hq_Path r of
        [c, i] \<Rightarrow> if c = ''restaurants'' \<and> m = ''GET'' then ensure_owner (GetRestaurantHandler_GetRestaurant S r i) else None
      | [c, i, a] \<Rightarrow>
          if c \<noteq> ''restaurants'' then None
          else if m = ''PATCH'' then
            (if a = ''address'' then ensure_owner (AddressHandler_UpdateAddress S r i)
             else if a = ''contact'' then ensure_owner (ContactHandler_UpdateContact S r i)
             else if a = ''delivery'' then ensure_owner (DeliveryHandler_UpdateDelivery S r i)
             else if a = ''tags'' then ensure_owner (TagsHandler_UpdateTags S r i)
             else if a = ''opening-hours'' then ensure_owner (OpeningHoursHandler_UpdateOpeningHours S r i) else None)
          else if a = ''launch'' \<and> m = ''POST'' then ensure_owner (LaunchHandler_Launch S r i)
          else if a = ''launch'' \<and> m = ''GET'' then ensure_owner (LaunchHandler_LaunchReadiness S r i)
          else if a = ''approve'' \<and> m = ''POST'' then ensure_admin (ApproveHandler_Approve S i)
          else None
      | _ \<Rightarrow> None)"

definition payout_route :: "'d::linordered_idom rs_service \<Rightarrow> web_request \<Rightarrow> 'd rs_http option" where
  "payout_route S r =
     (let ensure_owner = \<lambda>h. Some (header_auth r (RequireRole ''owner'' r h)) in
      case hq_Path r of
        [c, i, a] \<Rightarrow>
          if c \<noteq> ''restaurants'' \<or> a \<noteq> ''payout-details'' then None
          else if hq_Method r = ''POST'' then ensure_owner (PayoutHandler_CreatePayout S r i)
          else if hq_Method r = ''PUT'' then ensure_owner (PayoutHandler_UpdatePayout S r i) else None
      | _ \<Rightarrow> None)"

definition topping_price_route :: "'d::linordered_idom rs_service \<Rightarrow> web_request \<Rightarrow> 'd rs_http option" where
  "topping_price_route S r = (case hq_Path r of
     [c, i, a] \<Rightarrow>
       if c = ''restaurants'' \<and> a = ''topping-prices'' \<and> hq_Method r = ''PUT''
       then Some (header_auth r (RequireRole ''owner'' r (ToppingPriceHandler_SetToppingPrices S r i))) else None
   | _ \<Rightarrow> None)"

definition pizza_route :: "'d::linordered_idom rs_service \<Rightarrow> web_request \<Rightarrow> 'd rs_http option" where
  "pizza_route S r =
     (let ensure_owner = \<lambda>h. Some (header_auth r (RequireRole ''owner'' r h)); m = hq_Method r in
      case hq_Path r of
        [c, i, a] \<Rightarrow>
          if c \<noteq> ''restaurants'' \<or> a \<noteq> ''pizzas'' then None
          else if m = ''GET'' then ensure_owner (PizzaHandler_ListPizzas S r i)
          else if m = ''POST'' then ensure_owner (PizzaHandler_CreatePizza S r i) else None
      | [c, i, a, p] \<Rightarrow>
          if c = ''restaurants'' \<and> a = ''pizzas'' \<and> m = ''PUT'' then ensure_owner (PizzaHandler_UpdatePizza S r i p) else None
      | [c, i, a, p, b] \<Rightarrow>
          if c = ''restaurants'' \<and> a = ''pizzas'' \<and> b = ''prices'' \<and> m = ''PUT''
          then ensure_owner (PizzaHandler_SetPizzaPrices S r i p) else None
      | _ \<Rightarrow> None)"

fun first_route :: "'a option list \<Rightarrow> 'a option" where
  "first_route [] = None"
| "first_route (Some h # hs) = Some h"
| "first_route (None # hs) = first_route hs"

definition restaurant_http :: "'d::linordered_idom rs_service \<Rightarrow> web_request \<Rightarrow> 'd rs_http" where
  "restaurant_http S r =
     (case first_route [restaurant_route S r, payout_route S r, topping_price_route S r, pizza_route S r] of
        Some h \<Rightarrow> h
      | None \<Rightarrow> http_error 404)"

end
