(* ===== verification/Restaurant_Access.thy ===== *)
theory Restaurant_Access
  imports Restaurant_Http Restaurant_Props Restaurant_Sample
begin

text \<open>
  What HTTP requests can do to restaurant-service: every handler refuses, or runs one command on an input that its binding
  has validated.
\<close>

subsection \<open>Handlers and commands\<close>

definition run_request :: "'d::linordered_idom rs_service \<Rightarrow> 'd rs_request \<Rightarrow> ('d, unit) rs_op" where
  "run_request S = rs_run (rv_lib S) (rv_goslug S) (rv_geocoder S) (rv_env S)"

text \<open>\<open>refuses\<close>: an error, and nothing done. \<open>serves\<close>: the state of a command and the answer that goes with its outcome.\<close>

definition refuses :: "'d rs_http \<Rightarrow> 'd rs_db \<Rightarrow> bool" where
  "refuses h s \<longleftrightarrow> (\<exists>status. h s = ((status, Failed), s) \<and> status \<in> {400, 401, 403, 404, 422})"

definition serves :: "'d::linordered_idom rs_service \<Rightarrow> 'd rs_request \<Rightarrow> 'd rs_http \<Rightarrow> 'd rs_db \<Rightarrow> bool" where
  "serves S rq h s \<longleftrightarrow> snd (h s) = snd (run_request S rq s) \<and>
     (case fst (run_request S rq s) of
        Inl e \<Rightarrow> fst (h s) = (if RsPanic \<in> set e then (500, Panicked) else (rs_HandleError e, Failed))
      | Inr _ \<Rightarrow> \<exists>answer. fst (h s) \<in> {(200, Reply answer), (201, Reply answer)})"

definition runs_only :: "'d::linordered_idom rs_service \<Rightarrow> ('d rs_request \<Rightarrow> bool) \<Rightarrow> 'd rs_http \<Rightarrow> bool" where
  "runs_only S P h \<longleftrightarrow> (\<forall>s. refuses h s \<or> (\<exists>rq. P rq \<and> rs_valid rq \<and> serves S rq h s))"

lemma serves_respond:
  "run_request S rq = void m \<Longrightarrow> status \<in> {200, 201} \<Longrightarrow> serves S rq (rs_respond status answer m) s"
  by (auto simp: serves_def rs_respond_def void_def bind_def ret_def split: prod.split sum.split)

lemma runs_only_error: "status \<in> {400, 401, 403, 404, 422} \<Longrightarrow> runs_only S P (http_error status)"
  by (simp add: runs_only_def refuses_def http_error_def)

lemma runs_only_respond:
  "P rq \<Longrightarrow> rs_valid rq \<Longrightarrow> run_request S rq = void m \<Longrightarrow> status \<in> {200, 201} \<Longrightarrow> runs_only S P (rs_respond status answer m)"
  unfolding runs_only_def by (blast intro: serves_respond)

lemma runs_only_uuid: "(\<And>i. uuidParse L x = Some i \<Longrightarrow> runs_only S P (k i)) \<Longrightarrow> runs_only S P (with_uuid L x k)"
  by (cases "uuidParse L x") (simp_all add: with_uuid_def runs_only_error)

lemma runs_only_body: "(\<And>input. bound = Some input \<Longrightarrow> runs_only S P (k input)) \<Longrightarrow> runs_only S P (with_body bound k)"
  by (cases bound) (simp_all add: with_body_def runs_only_error)

lemma runs_only_auth: "runs_only S P h \<Longrightarrow> runs_only S P (header_auth r h)"
  by (simp add: header_auth_def runs_only_error)

lemma runs_only_role: "runs_only S P h \<Longrightarrow> runs_only S P (RequireRole role r h)"
  by (simp add: RequireRole_def runs_only_error)

subsection \<open>What the bindings let through\<close>

lemma decode_struct_Some: "decode_struct dec body = Some x \<Longrightarrow> \<exists>j. dec j = Some x"
  by (auto simp: decode_struct_def split: bind_splits if_splits)

lemma checked_by_Some [simp]: "checked_by ok x = Some v \<longleftrightarrow> x = Some v \<and> ok v"
  by (auto simp: checked_by_def split: bind_splits)

lemma bind_address_valid: "bind_address W body = Some a \<Longrightarrow> uar_Street a \<noteq> ''''"
  by (auto simp: bind_address_def dest!: decode_struct_Some split: option.splits)

lemma bind_contact_valid: "bind_contact W body = Some c \<Longrightarrow> ucr_Email c \<noteq> None \<and> ucr_Phone c \<noteq> None"
  by (auto simp: bind_contact_def dest!: decode_struct_Some split: option.splits)

lemma bind_prices_valid: "bind_prices L W idKey priceKey body = Some prices \<Longrightarrow> prices \<noteq> []"
  by (auto simp: bind_prices_def dest!: decode_struct_Some)

lemmas bindings_valid = bind_address_valid bind_contact_valid bind_prices_valid

subsection \<open>Handlers\<close>

text \<open>The commands a caller may reach on the restaurant of the path: those of its owner under his own identifier.\<close>

definition as_owner :: "'d rs_service \<Rightarrow> web_request \<Rightarrow> string \<Rightarrow> 'd rs_request \<Rightarrow> bool" where
  "as_owner S r param rq \<longleftrightarrow> (\<exists>i own. uuidParse (rv_lib S) param = Some i \<and> uuidParse (rv_lib S) (hq_UserID r) = Some own \<and>
     rs_owner rq = Some (i, own))"

lemma runs_only_owner_only:
  assumes "\<And>i own. rs_owner (rq i own) = Some (i, own)" "\<And>i own. rs_valid (rq i own)"
    and "\<And>i own. run_request S (rq i own) = void (m i own)" "status \<in> {200, 201}"
  shows "runs_only S (as_owner S r param) (owner_only S r param (\<lambda>i own. rs_respond status answer (m i own)))"
  unfolding owner_only_def
  by (intro runs_only_uuid runs_only_respond [where rq = "rq i own" for i own]) (use assms in \<open>auto simp: as_owner_def\<close>)

lemma runs_only_owner_input:
  assumes "\<And>i own x. rs_owner (rq i own x) = Some (i, own)" "\<And>i own x. bind_input (hq_Body r) = Some x \<Longrightarrow> rs_valid (rq i own x)"
    and "\<And>i own x. run_request S (rq i own x) = void (m i own x)" "status \<in> {200, 201}"
  shows "runs_only S (as_owner S r param) (owner_input S r param bind_input (\<lambda>i own x. rs_respond status answer (m i own x)))"
  unfolding owner_input_def
  by (intro runs_only_uuid runs_only_body runs_only_respond [where rq = "rq i own x" for i own x]) (use assms in \<open>auto simp: as_owner_def\<close>)

lemma runs_only_pizza_input:
  assumes "\<And>i p own x. rs_owner (rq i p own x) = Some (i, own)"
    and "\<And>i p own x. bind_input (hq_Body r) = Some x \<Longrightarrow> rs_valid (rq i p own x)"
    and "\<And>i p own x. run_request S (rq i p own x) = void (m i p own x)" "status \<in> {200, 201}"
  shows "runs_only S (as_owner S r param)
    (pizza_input S r param pizzaParam bind_input (\<lambda>i p own x. rs_respond status answer (m i p own x)))"
  unfolding pizza_input_def
  by (intro runs_only_uuid runs_only_body runs_only_respond [where rq = "rq i p own x" for i p own x])
    (use assms in \<open>auto simp: as_owner_def\<close>)


lemma reads_run:
  "runs_only S (as_owner S r p) (GetRestaurantHandler_GetRestaurant S r p)"
  "runs_only S (as_owner S r p) (PizzaHandler_ListPizzas S r p)"
  "runs_only S (as_owner S r p) (LaunchHandler_LaunchReadiness S r p)"
  "runs_only S (as_owner S r p) (LaunchHandler_Launch S r p)"
  unfolding GetRestaurantHandler_GetRestaurant_def PizzaHandler_ListPizzas_def LaunchHandler_LaunchReadiness_def
    LaunchHandler_Launch_def
  by (rule runs_only_owner_only [where rq = RqGetRestaurant] runs_only_owner_only [where rq = RqListPizzas]
      runs_only_owner_only [where rq = RqLaunchReadiness] runs_only_owner_only [where rq = RqLaunch];
      simp add: run_request_def)+

lemma updates_run:
  "runs_only S (as_owner S r p) (AddressHandler_UpdateAddress S r p)"
  "runs_only S (as_owner S r p) (ContactHandler_UpdateContact S r p)"
  "runs_only S (as_owner S r p) (DeliveryHandler_UpdateDelivery S r p)"
  "runs_only S (as_owner S r p) (TagsHandler_UpdateTags S r p)"
  "runs_only S (as_owner S r p) (OpeningHoursHandler_UpdateOpeningHours S r p)"
  unfolding AddressHandler_UpdateAddress_def ContactHandler_UpdateContact_def DeliveryHandler_UpdateDelivery_def
    TagsHandler_UpdateTags_def OpeningHoursHandler_UpdateOpeningHours_def
  by (rule runs_only_owner_input [where rq = RqAddress] runs_only_owner_input [where rq = RqContact]
      runs_only_owner_input [where rq = RqDelivery] runs_only_owner_input [where rq = RqTags]
      runs_only_owner_input [where rq = RqOpeningHours]; simp add: run_request_def bindings_valid)+

lemma menu_run:
  "runs_only S (as_owner S r p) (PayoutHandler_CreatePayout S r p)"
  "runs_only S (as_owner S r p) (PayoutHandler_UpdatePayout S r p)"
  "runs_only S (as_owner S r p) (ToppingPriceHandler_SetToppingPrices S r p)"
  "runs_only S (as_owner S r p) (PizzaHandler_CreatePizza S r p)"
  unfolding PayoutHandler_CreatePayout_def PayoutHandler_UpdatePayout_def ToppingPriceHandler_SetToppingPrices_def
    PizzaHandler_CreatePizza_def
  by (rule runs_only_owner_input [where rq = RqCreatePayout] runs_only_owner_input [where rq = RqUpdatePayout]
      runs_only_owner_input [where rq = RqToppingPrices] runs_only_owner_input [where rq = RqCreatePizza];
      simp add: run_request_def bind_topping_prices_def bindings_valid)+

lemma pizzas_run:
  "runs_only S (as_owner S r p) (PizzaHandler_UpdatePizza S r p q)"
  "runs_only S (as_owner S r p) (PizzaHandler_SetPizzaPrices S r p q)"
  unfolding PizzaHandler_UpdatePizza_def PizzaHandler_SetPizzaPrices_def
  by (rule runs_only_pizza_input [where rq = RqUpdatePizza] runs_only_pizza_input [where rq = RqPizzaPrices];
      simp add: run_request_def bind_pizza_prices_def bindings_valid)+

lemma approve_runs: "runs_only S (\<lambda>rq. \<exists>i. rq = RqApprove i) (ApproveHandler_Approve S p)"
  unfolding ApproveHandler_Approve_def
  by (rule runs_only_uuid, rule runs_only_respond [where rq = "RqApprove i" for i]) (auto simp: run_request_def)

lemmas handlers_run = reads_run updates_run menu_run pizzas_run

subsection \<open>Requests\<close>

text \<open>Who may run what: an owner the commands on the restaurant of the path in his own name, an administrator the approval.\<close>

definition permitted :: "'d rs_service \<Rightarrow> web_request \<Rightarrow> 'd rs_request \<Rightarrow> bool" where
  "permitted S r rq \<longleftrightarrow> hq_UserID r \<noteq> '''' \<and>
     (hq_UserRole r = ''owner'' \<and> as_owner S r (hq_Path r ! 1) rq \<or> hq_UserRole r = ''admin'' \<and> (\<exists>i. rq = RqApprove i))"

lemma runs_only_mono: "runs_only S P h \<Longrightarrow> (\<And>rq. P rq \<Longrightarrow> Q rq) \<Longrightarrow> runs_only S Q h"
  unfolding runs_only_def by blast

lemma owner_route:
  "runs_only S (as_owner S r (hq_Path r ! 1)) h \<Longrightarrow> runs_only S (permitted S r) (header_auth r (RequireRole ''owner'' r h))"
  by (auto simp: header_auth_def RequireRole_def runs_only_error permitted_def elim: runs_only_mono)

lemma admin_route:
  "runs_only S (\<lambda>rq. \<exists>i. rq = RqApprove i) h \<Longrightarrow> runs_only S (permitted S r) (header_auth r (RequireRole ''admin'' r h))"
  by (auto simp: header_auth_def RequireRole_def runs_only_error permitted_def elim: runs_only_mono)

lemma routes_run:
  "restaurant_route S r = Some h \<Longrightarrow> runs_only S (permitted S r) h"
  "payout_route S r = Some h \<Longrightarrow> runs_only S (permitted S r) h"
  "topping_price_route S r = Some h \<Longrightarrow> runs_only S (permitted S r) h"
  "pizza_route S r = Some h \<Longrightarrow> runs_only S (permitted S r) h"
  by (auto simp: restaurant_route_def payout_route_def topping_price_route_def pizza_route_def Let_def handlers_run
      approve_runs intro!: owner_route admin_route split: list.splits if_splits)

lemma first_route_Some: "first_route hs = Some h \<Longrightarrow> Some h \<in> set hs"
  by (induction hs rule: first_route.induct) auto

lemma restaurant_http_runs: "runs_only S (permitted S r) (restaurant_http S r)"
proof (cases "first_route [restaurant_route S r, payout_route S r, topping_price_route S r, pizza_route S r]")
  case (Some h)
  then have "restaurant_route S r = Some h \<or> payout_route S r = Some h \<or> topping_price_route S r = Some h \<or> pizza_route S r = Some h"
    using first_route_Some [OF Some] by auto
  then have "runs_only S (permitted S r) h" using routes_run by blast
  then show ?thesis by (simp add: restaurant_http_def Some)
qed (simp add: restaurant_http_def runs_only_error)

lemma not_owned_stops:
  assumes "\<forall>row \<in> set (rd_restaurants s). \<not> (rs_ID row = i \<and> rs_OwnerID row = own)"
  shows "\<exists>e. void (bind (owned_restaurant E i own) f) s = (Inl e, s)"
proof (cases "re_fault E RsFind")
  case True
  then have "owned_restaurant E i own s = (Inl [], s)"
    by (simp add: owned_restaurant_def FindByIDAndOwner_def take_restaurant_def bind_def query_def io_def)
  then show ?thesis by (simp add: void_def bind_def)
qed (use void_not_owned [OF _ assms] in blast)

lemma owner_request_stops:
  assumes "rs_owner rq = Some (i, own)" "\<forall>row \<in> set (rd_restaurants s). \<not> (rs_ID row = i \<and> rs_OwnerID row = own)"
  shows "\<exists>e. run_request S rq s = (Inl e, s)"
  using assms(1)
  by (cases rq) (simp_all add: run_request_def not_owned_stops [OF assms(2)] UpdateAddress_Execute_def UpdateContact_Execute_def
    UpdateDelivery_Execute_def UpdateOpeningHours_Execute_def UpdateTags_Execute_def CreatePayout_Execute_def
    UpdatePayout_Execute_def LaunchRestaurant_Execute_def CreatePizza_Execute_def UpdatePizza_Execute_def
    SetPizzaPrices_Execute_def SetToppingPrices_Execute_def GetRestaurant_Execute_def ListPizzas_Execute_def
    GetLaunchReadiness_Execute_def del: bind_simps)

lemma rs_HandleError_refuses: "400 \<le> rs_HandleError e"
  by (simp add: rs_HandleError_def)

text \<open>
  C14. No HTTP request makes restaurant-service panic, whatever is in its path, its headers and its body, and it leads from
  reachable states to reachable states. It is answered by more than an error, or changes something, only in the name of an
  owner whose restaurant the path names, or as the approval by an administrator.
\<close>

theorem restaurant_requests_checked:
  assumes reach: "rs_reach (rv_lib S) (rv_goslug S) (rv_geocoder S) s"
    and outside: "geocoder_returns (rv_geocoder S)" "uuid_codec (rv_lib S)"
    and run: "restaurant_http S r s = ((status, answer), s')"
  shows "rs_reach (rv_lib S) (rv_goslug S) (rv_geocoder S) s' \<and> answer \<noteq> Panicked \<and>
    (s' = s \<and> answer = Failed \<and> 400 \<le> status \<or>
     hq_UserRole r = ''owner'' \<and> (\<exists>row \<in> set (rd_restaurants s).
       uuidParse (rv_lib S) (hq_Path r ! 1) = Some (rs_ID row) \<and> uuidParse (rv_lib S) (hq_UserID r) = Some (rs_OwnerID row)) \<or>
     hq_UserRole r = ''admin'' \<and> (\<exists>i. s' = snd (run_request S (RqApprove i) s)))"
proof -
  from restaurant_http_runs [of S r, unfolded runs_only_def, THEN spec [of _ s]]
  consider "refuses (restaurant_http S r) s"
    | rq where "permitted S r rq" "rs_valid rq" "serves S rq (restaurant_http S r) s" by blast
  then show ?thesis
  proof cases
    case 1 then show ?thesis using reach by (auto simp: refuses_def run)
  next
    case (2 rq)
    have state: "s' = snd (run_request S rq s)" using 2(3) by (simp add: serves_def run)
    have calm: "RsPanic \<notin> set e" if "fst (run_request S rq s) = Inl e" for e
      using restaurant_requests_do_not_panic [OF reach outside 2(2)] that by (simp add: run_request_def)
    have "answer \<noteq> Panicked" using 2(3) calm by (auto simp: serves_def run split: sum.splits if_splits)
    moreover have "rs_reach (rv_lib S) (rv_goslug S) (rv_geocoder S) s'"
      using rs_reach.request [OF reach 2(2)] by (simp add: state run_request_def)
    moreover have "s' = s \<and> answer = Failed \<and> 400 \<le> status"
      if "rs_owner rq = Some (i, own)" "\<forall>row \<in> set (rd_restaurants s). \<not> (rs_ID row = i \<and> rs_OwnerID row = own)" for i own
    proof -
      note stops = owner_request_stops [OF that, of S]
      then obtain e where e: "run_request S rq s = (Inl e, s)" by blast
      then show ?thesis using 2(3) calm by (auto simp: serves_def run rs_HandleError_refuses)
    qed
    ultimately show ?thesis using 2(1) state by (fastforce simp: permitted_def as_owner_def)
  qed
qed

definition sample_rs_service :: "int rs_service" where
  "sample_rs_service = \<lparr> rv_lib = sample_lib,
     rv_web = \<lparr> wl_email = (\<lambda>_. True), wl_url = (\<lambda>_. True), wl_bic = (\<lambda>_. True), wl_decimal = (\<lambda>_. None),
       wl_letter = (\<lambda>_. False), wl_number = (\<lambda>_. False) \<rparr>,
     rv_goslug = id, rv_geocoder = sample_geocoder, rv_env = rs_env0 \<rparr>"

definition tags_request :: "uuid \<Rightarrow> web_request" where
  "tags_request u = \<lparr> hq_Method = ''PATCH'', hq_Path = [''restaurants'', uuidString sample_lib 5, ''tags''],
     hq_UserID = uuidString sample_lib u, hq_UserRole = ''owner'', hq_Query = (\<lambda>_. ''''),
     hq_Body = Some (JObj [(''tags'', JArr [JStr ''vegan''])]) \<rparr>"

text \<open>Owner 6 can tag his restaurant, owner 7 cannot.\<close>

theorem restaurant_requests_checked_witness:
  "snd (restaurant_http sample_rs_service (tags_request 7) sample_review) = sample_review \<and>
   List.map rs_Tags (rd_restaurants (snd (restaurant_http sample_rs_service (tags_request 6) sample_review))) = [[''vegan'']]"
proof
  obtain status answer s' where run: "restaurant_http sample_rs_service (tags_request 7) sample_review = ((status, answer), s')"
    by (metis surj_pair)
  have "list_all (\<lambda>row. rs_OwnerID row \<noteq> 7) (rd_restaurants sample_review)" by code_simp
  moreover have "rs_reach (rv_lib sample_rs_service) (rv_goslug sample_rs_service) (rv_geocoder sample_rs_service) sample_review"
    "geocoder_returns (rv_geocoder sample_rs_service)" "uuid_codec (rv_lib sample_rs_service)"
    using sample_reach by (simp_all add: sample_rs_service_def)
  ultimately have "s' = sample_review"
    using restaurant_requests_checked [OF _ _ _ run]
    by (simp add: list_all_iff tags_request_def sample_rs_service_def sample_lib_def)
  then show "snd (restaurant_http sample_rs_service (tags_request 7) sample_review) = sample_review"
    by (simp only: run snd_conv)
next
  show "List.map rs_Tags (rd_restaurants (snd (restaurant_http sample_rs_service (tags_request 6) sample_review))) = [[''vegan'']]"
    by code_simp
qed

end
