(* ===== verification/Body_Checks.thy ===== *)
theory Body_Checks
  imports Restaurant_Http
begin

text \<open>
  What the checks of bodies in restaurant-service catch: the usual typing errors in an IBAN, opening hours that end before
  they begin.
\<close>

subsection \<open>The checksum\<close>

text \<open>The characters of an IBAN with their numbers, and how many places each takes in the number that \<open>mod97\<close> divides.\<close>

definition iban_char :: "char \<Rightarrow> bool" where
  "iban_char c \<longleftrightarrow> digit_char c \<or> is_upper c"

definition char_value :: "char \<Rightarrow> int" where
  "char_value c = (if is_upper c then int (of_char c) - 55 else int (of_char c) - 48)"

definition char_base :: "char \<Rightarrow> int" where
  "char_base c = (if is_upper c then 100 else 10)"

fun iban_value :: "string \<Rightarrow> int" where
  "iban_value [] = 0"
| "iban_value (c # cs) = char_value c * prod_list (List.map char_base cs) + iban_value cs"

lemma of_char_bounds:
  "digit_char c \<Longrightarrow> 48 \<le> (of_char c :: nat) \<and> (of_char c :: nat) \<le> 57"
  "is_upper c \<Longrightarrow> 65 \<le> (of_char c :: nat) \<and> (of_char c :: nat) \<le> 90"
  by (auto simp: digit_char_def is_upper_def less_eq_char_def)

lemma digit_not_upper: "digit_char c \<Longrightarrow> \<not> is_upper c"
  using of_char_bounds [of c] by linarith

lemma char_value_range:
  "digit_char c \<Longrightarrow> 0 \<le> char_value c \<and> char_value c \<le> 9"
  "is_upper c \<Longrightarrow> 10 \<le> char_value c \<and> char_value c \<le> 35"
  using of_char_bounds [of c] digit_not_upper [of c] by (simp_all add: char_value_def)

lemma char_value_inject: "is_upper c = is_upper d \<Longrightarrow> char_value c = char_value d \<Longrightarrow> c = d"
  by (auto simp: char_value_def split: if_splits)

abbreviation digit_step :: "nat \<Rightarrow> char \<Rightarrow> nat" where
  "digit_step remainder r \<equiv> (remainder * 10 + (of_char r - 48)) mod 97"

lemma char_step:
  assumes "iban_char c"
  shows "int (foldl digit_step acc (if is_upper c then letter_digits c else [c])) = (int acc * char_base c + char_value c) mod 97"
proof (cases "is_upper c")
  case True
  define n where "n = (of_char c - 65 + 10 :: nat)"
  have n: "n < 36" "int n = char_value c"
    using of_char_bounds(2) [OF True] True by (auto simp: char_value_def n_def)
  have digits: "letter_digits c = [char_of (48 + n div 10), char_of (48 + n mod 10)]"
    by (simp add: letter_digits_def n_def)
  have "foldl digit_step acc (letter_digits c) = ((acc * 10 + n div 10) mod 97 * 10 + n mod 10) mod 97"
    using n(1) by (simp add: digits)
  also have "\<dots> = ((acc * 10 + n div 10) * 10 + n mod 10) mod 97" by (metis mod_add_left_eq mod_mult_left_eq)
  also have "(acc * 10 + n div 10) * 10 + n mod 10 = acc * 100 + n"
    using div_mult_mod_eq [of n 10] by (simp add: distrib_right)
  finally show ?thesis using True n(2) by (simp add: char_base_def zmod_int)
next
  case False
  then have "48 \<le> (of_char c :: nat)" using assms of_char_bounds(1) by (auto simp: iban_char_def)
  then have "int (of_char c - 48) = char_value c" using False by (simp add: char_value_def of_nat_diff)
  then show ?thesis using False by (simp add: char_base_def zmod_int)
qed

lemma mod97_value:
  assumes "list_all iban_char cs"
  shows "int (foldl digit_step acc (iban_numeric cs)) mod 97 = (int acc * prod_list (List.map char_base cs) + iban_value cs) mod 97"
  using assms
proof (induction cs arbitrary: acc)
  case (Cons c cs)
  let ?acc = "foldl digit_step acc (if is_upper c then letter_digits c else [c])"
  have "int (foldl digit_step acc (iban_numeric (c # cs))) mod 97 =
      (int ?acc * prod_list (List.map char_base cs) + iban_value cs) mod 97"
    using Cons by (simp add: iban_numeric_def)
  also have "\<dots> = ((int acc * char_base c + char_value c) mod 97 * prod_list (List.map char_base cs) + iban_value cs) mod 97"
    using Cons.prems char_step [of c acc] by simp
  also have "\<dots> = ((int acc * char_base c + char_value c) * prod_list (List.map char_base cs) + iban_value cs) mod 97"
    by (metis mod_add_left_eq mod_mult_left_eq)
  finally show ?case by (simp add: algebra_simps)
qed (simp add: iban_numeric_def)

lemma checksum_value:
  assumes "list_all iban_char cs" "mod97 (iban_numeric cs) = 1"
  shows "iban_value cs mod 97 = 1"
  using mod97_value [OF assms(1), of 0] assms(2) by (simp add: mod97_def)

text \<open>No place has a weight that 97 divides, so an error in one place shows, and so do two numbers in each other's place.\<close>

lemma cancel_factor:
  fixes x :: int
  assumes "b * a = 97 * q + 1" "97 dvd x * b"
  shows "97 dvd x"
proof -
  have "x * b * a = x * (97 * q + 1)" using assms(1) by (simp only: mult.assoc)
  also have "\<dots> = 97 * (q * x) + x" by (simp add: algebra_simps)
  finally have "x * b * a = 97 * (q * x) + x" .
  then show ?thesis using assms(2) by (metis dvd_add_right_iff dvd_mult2 dvd_triv_left)
qed

lemma char_weight:
  assumes "97 dvd x * char_base c" shows "97 dvd x"
proof (cases "is_upper c")
  case True
  then have "97 dvd x * 100" using assms by (simp only: char_base_def if_True)
  then show ?thesis by (rule cancel_factor [rotated, where a = 65 and q = 67]) simp
next
  case False
  then have "97 dvd x * 10" using assms by (simp only: char_base_def if_False)
  then show ?thesis by (rule cancel_factor [rotated, where a = 68 and q = 7]) simp
qed

lemma swap_weight:
  assumes "97 dvd x * (char_base c - 1)" shows "97 dvd x"
proof (cases "is_upper c")
  case True
  then have "97 dvd x * 99" using assms by (simp add: char_base_def)
  then show ?thesis by (rule cancel_factor [rotated, where a = 49 and q = 50]) simp
next
  case False
  then have "97 dvd x * 9" using assms by (simp add: char_base_def)
  then show ?thesis by (rule cancel_factor [rotated, where a = 54 and q = 5]) simp
qed

lemma weight_kept:
  fixes x :: int
  assumes "97 dvd x * prod_list (List.map char_base cs)"
  shows "97 dvd x"
  using assms
proof (induction cs arbitrary: x)
  case (Cons c cs)
  have "97 dvd (x * char_base c) * prod_list (List.map char_base cs)" using Cons.prems by (simp add: mult.assoc)
  then have "97 dvd x * char_base c" by (rule Cons.IH)
  then show ?case by (rule char_weight)
qed simp

lemma value_append:
  "iban_value (xs @ ys) = iban_value xs * prod_list (List.map char_base ys) + iban_value ys"
  by (induction xs) (simp_all add: algebra_simps)

definition same_kind :: "char \<Rightarrow> char \<Rightarrow> bool" where
  "same_kind c d \<longleftrightarrow> iban_char c \<and> iban_char d \<and> is_upper c = is_upper d"

lemma same_kind_values:
  assumes "same_kind c d" "97 dvd char_value c - char_value d"
  shows "c = d"
proof -
  have "\<bar>char_value c - char_value d\<bar> < 97"
    using assms(1) char_value_range [of c] char_value_range [of d] by (auto simp: same_kind_def iban_char_def)
  then have "char_value c - char_value d = 0" using assms(2) by (metis abs_ge_zero dvd_imp_le_int not_less abs_numeral)
  then show ?thesis using assms(1) char_value_inject by (simp add: same_kind_def)
qed

lemma checksum_change:
  assumes "same_kind c d" "list_all iban_char (p @ c # q)"
    and "mod97 (iban_numeric (p @ c # q)) = 1" "mod97 (iban_numeric (p @ d # q)) = 1"
  shows "c = d"
proof -
  have ok: "list_all iban_char (p @ d # q)" using assms(1,2) by (simp add: same_kind_def)
  have base: "char_base c = char_base d" using assms(1) by (simp add: same_kind_def char_base_def)
  have "97 dvd iban_value (p @ c # q) - iban_value (p @ d # q)"
    unfolding mod_eq_dvd_iff [symmetric] using checksum_value [OF assms(2,3)] checksum_value [OF ok assms(4)] by simp
  then have "97 dvd (char_value c - char_value d) * prod_list (List.map char_base q)"
    by (simp add: value_append base algebra_simps)
  then show ?thesis by (rule same_kind_values [OF assms(1) weight_kept])
qed

lemma checksum_swap:
  assumes "same_kind c d" "list_all iban_char (p @ c # d # q)"
    and "mod97 (iban_numeric (p @ c # d # q)) = 1" "mod97 (iban_numeric (p @ d # c # q)) = 1"
  shows "c = d"
proof -
  have ok: "list_all iban_char (p @ d # c # q)" using assms(1,2) by (simp add: same_kind_def)
  have base: "char_base c = char_base d" using assms(1) by (simp add: same_kind_def char_base_def)
  have "97 dvd iban_value (p @ c # d # q) - iban_value (p @ d # c # q)"
    unfolding mod_eq_dvd_iff [symmetric] using checksum_value [OF assms(2,3)] checksum_value [OF ok assms(4)] by simp
  then have "97 dvd ((char_value c - char_value d) * (char_base d - 1)) * prod_list (List.map char_base q)"
    by (simp add: value_append base algebra_simps)
  from weight_kept [OF this] have "97 dvd char_value c - char_value d"
    by (rule swap_weight)
  then show ?thesis by (rule same_kind_values [OF assms(1)])
qed

text \<open>
  Two characters at the ends: their weights differ by a power of ten less one, and no power of ten up to the 66th leaves 1.
\<close>

lemma weights_are_powers:
  "\<exists>k. length cs \<le> k \<and> k \<le> 2 * length cs \<and> prod_list (List.map char_base cs) = 10 ^ k"
proof (induction cs)
  case (Cons c cs)
  then obtain k where k: "length cs \<le> k" "k \<le> 2 * length cs" "prod_list (List.map char_base cs) = 10 ^ k" by blast
  show ?case
  proof (cases "is_upper c")
    case True
    then have "char_base c = 10 ^ 2" by (simp add: char_base_def)
    then show ?thesis using k by (intro exI [of _ "k + 2"]) (simp add: power_add)
  next
    case False
    then have "char_base c = 10" by (simp add: char_base_def)
    then show ?thesis using k by (intro exI [of _ "k + 1"]) simp
  qed
qed simp

lemma power_not_one: "1 \<le> k \<Longrightarrow> k \<le> 66 \<Longrightarrow> (10 ^ k :: int) mod 97 \<noteq> 1"
proof -
  assume k: "1 \<le> k" "k \<le> 66"
  have "list_all (\<lambda>k. (10 ^ k :: int) mod 97 \<noteq> 1) [1..<67]" by code_simp
  then show ?thesis using k by (simp add: list_all_iff)
qed

lemma cancel_97:
  fixes x y :: int
  assumes "y mod 97 \<noteq> 0" "97 dvd x * y"
  shows "97 dvd x"
proof -
  have all: "list_all (\<lambda>m. list_ex (\<lambda>a. m * a mod 97 = (1 :: int)) (List.map int [1..<97])) (List.map int [1..<97])" by code_simp
  have "y mod 97 = int (nat (y mod 97))" "nat (y mod 97) \<in> set [1..<97]"
    using assms(1) pos_mod_bound [of 97 y] pos_mod_sign [of 97 y] by auto
  then have "y mod 97 \<in> set (List.map int [1..<97])" by (metis image_eqI list.set_map)
  then obtain a where "y mod 97 * a mod 97 = 1" using all unfolding list_all_iff list_ex_iff by blast
  then have "y * a mod 97 = 1" by (simp add: mod_mult_left_eq)
  then have "y * a = 97 * (y * a div 97) + 1" using mult_div_mod_eq [of 97 "y * a"] by simp
  then show ?thesis using assms(2) by (rule cancel_factor)
qed

lemma ends_weight:
  assumes "97 dvd x * (prod_list (List.map char_base cs) - 1)" "cs \<noteq> []" "length cs \<le> 33"
  shows "97 dvd x"
proof -
  obtain k where k: "length cs \<le> k" "k \<le> 2 * length cs" "prod_list (List.map char_base cs) = 10 ^ k"
    using weights_are_powers by blast
  have "1 \<le> length cs" using assms(2) by (cases cs) simp_all
  then have "(10 ^ k - 1 :: int) mod 97 \<noteq> 0"
    using power_not_one [of k] k(1,2) assms(3) mod_eq_dvd_iff [of "10 ^ k" 97 "1 :: int"] by auto
  then show ?thesis using assms(1) unfolding k(3) by (rule cancel_97)
qed

lemma checksum_ends:
  assumes "same_kind c d" "list_all iban_char (c # m @ [d])" "length m \<le> 32"
    and "mod97 (iban_numeric (c # m @ [d])) = 1" "mod97 (iban_numeric (d # m @ [c])) = 1"
  shows "c = d"
proof -
  have ok: "list_all iban_char (d # m @ [c])" using assms(1,2) by (simp add: same_kind_def)
  have base: "char_base c = char_base d" using assms(1) by (simp add: same_kind_def char_base_def)
  have "97 dvd iban_value (c # m @ [d]) - iban_value (d # m @ [c])"
    unfolding mod_eq_dvd_iff [symmetric] using checksum_value [OF assms(2,4)] checksum_value [OF ok assms(5)] by simp
  then have "97 dvd (char_value c - char_value d) * (prod_list (List.map char_base (m @ [d])) - 1)"
    by (simp add: value_append base algebra_simps)
  then show ?thesis by (rule same_kind_values [OF assms(1) ends_weight]) (use assms(3) in simp_all)
qed

subsection \<open>Typing errors\<close>

text \<open>
  What is typed is read without spaces and in upper case. An error is one character replaced by another of its kind (digits
  by digits, letters by letters), or two neighbours of a kind in each other's place.
\<close>

definition iban_form :: "string \<Rightarrow> string" where
  "iban_form s = ToUpper_ascii (filter (\<lambda>c. c \<noteq> CHR '' '') s)"

definition typo :: "string \<Rightarrow> string \<Rightarrow> bool" where
  "typo s s' \<longleftrightarrow> s' \<noteq> s \<and>
     ((\<exists>p c d q. s = p @ c # q \<and> s' = p @ d # q \<and> same_kind c d) \<or>
      (\<exists>p c d q. s = p @ c # d # q \<and> s' = p @ d # c # q \<and> same_kind c d))"

lemma isIban_form:
  assumes "isIban s"
  shows "list_all iban_char (iban_form s)" "length (iban_form s) \<le> 34"
    "mod97 (iban_numeric (drop 4 (iban_form s) @ take 4 (iban_form s))) = 1"
proof -
  have parts: "list_all is_upper (take 2 (iban_form s))" "list_all (\<lambda>c. digit_char c \<or> is_upper c) (drop 2 (iban_form s))"
    using assms by (auto simp: isIban_def iban_form_def Let_def split: if_splits)
  then have "list_all iban_char (take 2 (iban_form s) @ drop 2 (iban_form s))"
    unfolding list_all_append by (auto simp: iban_char_def list_all_iff)
  then show "list_all iban_char (iban_form s)" by simp
  show "length (iban_form s) \<le> 34" "mod97 (iban_numeric (drop 4 (iban_form s) @ take 4 (iban_form s))) = 1"
    using assms by (auto simp: isIban_def iban_form_def Let_def split: if_splits)
qed

lemma rearranged_change:
  "\<exists>P Q. drop 4 (p @ c # q) @ take 4 (p @ c # q) = P @ c # Q \<and> drop 4 (p @ d # q) @ take 4 (p @ d # q) = P @ d # Q"
proof (cases "length p < 4")
  case True
  then have "drop 4 (p @ x # q) = drop (3 - length p) q" "take 4 (p @ x # q) = p @ x # take (3 - length p) q" for x
    by (auto simp: drop_Cons' take_Cons' Suc_diff_Suc)
  then show ?thesis by (intro exI [of _ "drop (3 - length p) q @ p"] exI [of _ "take (3 - length p) q"]) simp
next
  case False
  then show ?thesis by (intro exI [of _ "drop 4 p"] exI [of _ "q @ take 4 p"]) simp
qed

lemma rearranged_swap:
  assumes "length p \<noteq> 3"
  shows "\<exists>P Q. drop 4 (p @ c # d # q) @ take 4 (p @ c # d # q) = P @ c # d # Q \<and>
    drop 4 (p @ d # c # q) @ take 4 (p @ d # c # q) = P @ d # c # Q"
proof (cases "length p < 3")
  case True
  then have "drop 4 (p @ x # y # q) = drop (2 - length p) q" "take 4 (p @ x # y # q) = p @ x # y # take (2 - length p) q" for x y
    by (auto simp: drop_Cons' take_Cons' numeral_eq_Suc)
  then show ?thesis by (intro exI [of _ "drop (2 - length p) q @ p"] exI [of _ "take (2 - length p) q"]) simp
next
  case False
  then show ?thesis using assms by (intro exI [of _ "drop 4 p"] exI [of _ "q @ take 4 p"]) simp
qed

text \<open>
  C30. A typing error in an accepted IBAN is caught, however it is spaced and in whatever case: with one character replaced
  by another of its kind, or with two neighbours of a kind in each other's place, the IBAN is refused.
\<close>

theorem isIban_catches_typos:
  assumes "isIban s" "typo (iban_form s) (iban_form s')"
  shows "\<not> isIban s'"
proof
  assume ok': "isIban s'"
  define t t' where "t = iban_form s" and "t' = iban_form s'"
  note ok = isIban_form [OF assms(1), folded t_def] and sum' = isIban_form(3) [OF ok', folded t'_def]
  have chars: "list_all iban_char (drop 4 t @ take 4 t)"
    using ok(1) by (metis append_take_drop_id list_all_append)
  have other: "t' \<noteq> t" using assms(2) by (simp add: typo_def t_def t'_def)
  from assms(2) consider
      (replaced) p c d q where "t = p @ c # q" "t' = p @ d # q" "same_kind c d"
    | (swapped) p c d q where "t = p @ c # d # q" "t' = p @ d # c # q" "same_kind c d"
    unfolding typo_def t_def t'_def by blast
  then show False
  proof cases
    case (replaced p c d q)
    obtain P Q where "drop 4 t @ take 4 t = P @ c # Q" "drop 4 t' @ take 4 t' = P @ d # Q"
      using rearranged_change [of p c q d] replaced(1,2) by auto
    then show False using checksum_change [OF replaced(3), of P Q] chars ok(3) sum' replaced(1,2) other by auto
  next
    case (swapped p c d q)
    show False
    proof (cases "length p = 3")
      case True
      then have "drop 4 t @ take 4 t = d # (q @ p) @ [c]" "drop 4 t' @ take 4 t' = c # (q @ p) @ [d]" "length (q @ p) \<le> 32"
        using ok(2) by (simp_all add: swapped(1,2))
      moreover have "same_kind d c" using swapped(3) by (simp add: same_kind_def)
      ultimately show False using checksum_ends [of d c "q @ p"] chars ok(3) sum' swapped(1,2) other by auto
    next
      case False
      obtain P Q where "drop 4 t @ take 4 t = P @ c # d # Q" "drop 4 t' @ take 4 t' = P @ d # c # Q"
        using rearranged_swap [OF False, of c d q] swapped(1,2) by auto
      then show False using checksum_swap [OF swapped(3), of P Q] chars ok(3) sum' swapped(1,2) other by auto
    qed
  qed
qed

theorem isIban_catches_typos_witness:
  "isIban ''de89 3704 0044 0532 0130 00'' \<and> \<not> isIban ''de89 3704 0044 0532 0130 01'' \<and> \<not> isIban ''DE83 9704 0044 0532 0130 00''"
proof (intro conjI)
  have ok: "isIban ''de89 3704 0044 0532 0130 00''" by code_simp
  have forms: "iban_form ''de89 3704 0044 0532 0130 00'' = ''DE89370400440532013000''"
    "iban_form ''de89 3704 0044 0532 0130 01'' = ''DE89370400440532013001''"
    "iban_form ''DE83 9704 0044 0532 0130 00'' = ''DE83970400440532013000''" by code_simp+
  have "typo ''DE89370400440532013000'' ''DE89370400440532013001''"
    unfolding typo_def by (intro conjI disjI1 exI [of _ "''DE8937040044053201300''"] exI [of _ "CHR ''0''"] exI [of _ "CHR ''1''"]
      exI [of _ "[]"]) (simp_all add: same_kind_def iban_char_def digit_char_def is_upper_def less_eq_char_def)
  then show "\<not> isIban ''de89 3704 0044 0532 0130 01''" by (intro isIban_catches_typos [OF ok]) (simp only: forms)
  have "typo ''DE89370400440532013000'' ''DE83970400440532013000''"
    unfolding typo_def by (intro conjI disjI2 exI [of _ "''DE8''"] exI [of _ "CHR ''9''"] exI [of _ "CHR ''3''"]
      exI [of _ "''70400440532013000''"]) (simp_all add: same_kind_def iban_char_def digit_char_def is_upper_def less_eq_char_def)
  then show "\<not> isIban ''DE83 9704 0044 0532 0130 00''" by (intro isIban_catches_typos [OF ok]) (simp only: forms)
  show "isIban ''de89 3704 0044 0532 0130 00''" by (rule ok)
qed

subsection \<open>Opening hours\<close>

definition digit_of :: "char \<Rightarrow> nat" where
  "digit_of c = of_char c - 48"

definition minutes :: "string \<Rightarrow> nat" where
  "minutes value = 60 * (10 * digit_of (value ! 0) + digit_of (value ! 1)) + 10 * digit_of (value ! 3) + digit_of (value ! 4)"

text \<open>The order of the texts is the one of the times: every range that is accepted ends after it begins, on the same day.\<close>

lemma lex_digits:
  fixes h h' e e' k :: nat
  assumes "e < k" "e' < k"
  shows "h < h' \<or> h = h' \<and> e < e' \<longleftrightarrow> k * h + e < k * h' + e'"
proof -
  have less: "k * x + y < k * x' + y'" if "x < x'" "y < k" for x x' y y'
  proof -
    have "k * x + y < k * (x + 1)" using that(2) by simp
    also have "\<dots> \<le> k * x'" using that(1) by (intro mult_le_mono2) simp
    finally show ?thesis by simp
  qed
  show ?thesis using less [of h h' e e'] less [of h' h e' e] assms by (cases h h' rule: linorder_cases) auto
qed

lemma hhmm_parts:
  assumes "isHHMM a"
  obtains h h' m m' where "a = [h, h', CHR '':'', m, m']" "digit_char h" "digit_char h'" "digit_char m" "digit_char m'"
    "digit_of m < 6" "10 * digit_of h + digit_of h' < 24"
  using assms
  by (auto simp: isHHMM_def digit_char_def digit_of_def less_eq_char_def split: list.splits)

lemma digit_bound: "digit_char c \<Longrightarrow> digit_of c < 10"
  using of_char_bounds(1) [of c] unfolding digit_of_def by linarith

lemma digit_order:
  assumes "digit_char c" "digit_char d"
  shows "(c < d \<longleftrightarrow> digit_of c < digit_of d) \<and> (c = d \<longleftrightarrow> digit_of c = digit_of d)"
proof -
  have range: "48 \<le> (of_char c :: nat)" "48 \<le> (of_char d :: nat)" using assms of_char_bounds(1) by blast+
  have less: "c < d \<longleftrightarrow> digit_of c < digit_of d" using range unfolding digit_of_def less_char_def by linarith
  have "(of_char c :: nat) = of_char d" if "digit_of c = digit_of d" using that range unfolding digit_of_def by linarith
  then show ?thesis using less by auto
qed

lemma hhmm_order:
  assumes "isHHMM a" "isHHMM b"
  shows "a < b \<longleftrightarrow> minutes a < minutes b" and "minutes a < 1440"
proof -
  obtain h h' m m' where a: "a = [h, h', CHR '':'', m, m']" "digit_char h" "digit_char h'" "digit_char m" "digit_char m'"
    "digit_of m < 6" "10 * digit_of h + digit_of h' < 24"
    using hhmm_parts [OF assms(1)] by metis
  obtain k k' n n' where b: "b = [k, k', CHR '':'', n, n']" "digit_char k" "digit_char k'" "digit_char n" "digit_char n'"
    "digit_of n < 6" "10 * digit_of k + digit_of k' < 24"
    using hhmm_parts [OF assms(2)] by metis
  note bounds = digit_bound [OF a(3)] digit_bound [OF a(5)] digit_bound [OF b(3)] digit_bound [OF b(5)]
  have "a < b \<longleftrightarrow> (digit_of h < digit_of k \<or> digit_of h = digit_of k \<and> digit_of h' < digit_of k') \<or>
      10 * digit_of h + digit_of h' = 10 * digit_of k + digit_of k' \<and>
      (digit_of m < digit_of n \<or> digit_of m = digit_of n \<and> digit_of m' < digit_of n')"
    using digit_order [OF a(2) b(2)] digit_order [OF a(3) b(3)] digit_order [OF a(4) b(4)] digit_order [OF a(5) b(5)] bounds
    by (auto simp: a(1) b(1))
  also have "\<dots> \<longleftrightarrow> 10 * digit_of h + digit_of h' < 10 * digit_of k + digit_of k' \<or>
      10 * digit_of h + digit_of h' = 10 * digit_of k + digit_of k' \<and> 10 * digit_of m + digit_of m' < 10 * digit_of n + digit_of n'"
    by (simp only: lex_digits [OF bounds(1,3)] lex_digits [OF bounds(2,4)])
  also have "\<dots> \<longleftrightarrow> minutes a < minutes b"
    using lex_digits [of "10 * digit_of m + digit_of m'" 60 "10 * digit_of n + digit_of n'"] a(6) b(6) bounds
    by (simp add: minutes_def a(1) b(1) add.assoc)
  finally show "a < b \<longleftrightarrow> minutes a < minutes b" .
  show "minutes a < 1440" using a(6,7) bounds(2) by (simp add: minutes_def a(1))
qed

lemma opening_hours_in_order:
  assumes "bind_day_range j = Some dr"
  shows "minutes (dr_Open dr) < minutes (dr_Close dr) \<and> minutes (dr_Close dr) < 1440"
  using assms hhmm_order [of "dr_Open dr" "dr_Close dr"] hhmm_order(2) [of "dr_Close dr"]
  by (auto simp: bind_day_range_def checked_by_def validateDayRange_def split: if_splits option.splits bind_splits)

end
