(* ===== verification/Spec2Isabelle.thy ===== *)
theory Spec2Isabelle
  imports Outbox_Worker Order_Payment Accounts Identity_Code Restaurant_Search Search_Sample Mail_Flows Order_Access
    Restaurant_Access Body_Checks
begin

text \<open>
  The pizza marketplace is a set of services in Go that share no database. Each has its own PostgreSQL
  tables, calls another service over gRPC where it needs an answer, and announces what happened to the
  others by events: a row in its outbox table, written in the transaction of the change, which a worker
  relays to RabbitMQ, whose messages the consumers of the other services handle. This development is a
  model of \<open>order-service\<close>, \<open>payment-service\<close>, \<open>restaurant-service\<close>, \<open>identity-service\<close>, \<open>customer-service\<close>,
  \<open>search-service\<close> and \<open>notification-service\<close> with the theorems that make them correct, alone and together.

  \<^bold>\<open>How the program is modelled.\<close> A Go struct is a record, an enumeration a datatype, \<open>uuid.UUID\<close> a 128-bit
  word, Go's integers words of their width, \<open>float64\<close> a real number, \<open>decimal.Decimal\<close> a type variable of class
  \<open>linordered_idom\<close>, a string the list of its bytes. A table
  is the list of its rows in any order; the database of a service is a record of tables. A repository method is
  a function on that record with the constraints of the migrations (unique keys, NOT NULL, widths and ranges of
  columns; \<open>VARCHAR(n)\<close> counts characters, not bytes). A method that returns an error returns \<open>Inl\<close> of it. A transaction is a function whose state change is
  dropped when it returns an error. Every call that leaves the process, and every statement the database may
  refuse for a reason of its own, takes an argument that says whether it fails, so the theorems quantify over all
  failures. Time is an argument. Payloads are JSON trees; the texts of numbers, times and identifiers are given
  by a record of codecs with their laws (\<open>uuid_codec\<close>, \<open>time_codec\<close>, \<open>fixed_codec\<close> for amounts, which are rounded to two
  decimals), of which \<open>Sample\<close> has an instance.

  \<^bold>\<open>Shared theories.\<close> \<open>Prelude\<close>: errors, external calls, transactions, texts, the codecs. \<open>Table\<close>: the SQL statements on
  lists of rows, and the locale \<open>versioned_rows\<close> of tables whose rows are replaced only by newer ones. \<open>Json\<close>: the
  trees and the decoding rules of \<open>encoding/json\<close>. \<open>Http\<close>: requests, answers and the middleware the services share. \<open>Outbox\<close>: the outbox row, its repository and \<open>OutboxEvent\<close>.

  \<^bold>\<open>order-service\<close> (\<open>order-service/internal\<close>).
  \<^item> \<open>Order_Domain\<close> (\<open>domain/order\<close>): the aggregate with its status machine pending, confirmed, ready, completed,
    cancelled. Every sequence of its methods keeps the agreement of status and timestamps.
  \<^item> \<open>Order_Store\<close>, \<open>Readmodel_Store\<close> (\<open>infrastructure/persistence\<close>): the tables and the repositories.
  \<^item> \<open>Cart\<close> (\<open>domain/cart\<close>, \<open>application/cart\<close>), \<open>Geo\<close> (\<open>shared/geo\<close>, the caching geocoder; locale \<open>geocoder\<close> for what checkout
    relies on), \<open>Order_Events\<close> (\<open>application/order/events.go\<close>, \<open>dispatch.go\<close>), \<open>Checkout\<close> (\<open>commands/checkout.go\<close>),
    \<open>Pricing\<close> and \<open>Checkout_Props\<close>: a checkout turns the cart into one pending order with the prices the cart shows.
  \<^item> \<open>Order_Commands\<close> (cancel, mark ready, complete, the handlers of payment events, \<open>GetOrder\<close>), \<open>Order_Inv\<close> (the
    invariant of orders and their items under every operation), \<open>Order_Props\<close>.
  \<^item> \<open>Order_Cursor\<close>: the cursor codec and the two list queries; following the cursors gives every order once.
  \<^item> \<open>Read_Model\<close> (\<open>application/readmodel\<close>, \<open>container/worker.go\<close>): the handlers that copy restaurants, pizzas, prices,
    toppings and customers, the dispatcher; any order and repetition of deliveries gives the same rows.
  \<^item> \<open>Outbox_Worker\<close> (\<open>application/outbox\<close>): leases, retries, backoff; every interleaving of workers as a step relation.
  \<^item> \<open>Consumer\<close>, \<open>Order_Consumer\<close> (\<open>infrastructure/messaging/rabbitmq_consumer.go\<close>): retries and the dead-letter queue
    as a step relation; no message is lost, and the queue drains.
  \<^item> \<open>Order_Http\<close> (\<open>interfaces/http\<close>): routes, the middleware that reads the caller from the headers, binding of bodies,
    handlers. \<open>Order_Access\<close>: a request changes only what belongs to its caller, and keeps the invariants.
  \<^item> \<open>Sample_Order\<close>: a small state, for the witnesses.

  \<^bold>\<open>payment-service\<close> (\<open>payment-service/internal\<close>).
  \<^item> \<open>Payment\<close>: the domain, the table, the Mollie client, the commands, the query, the gRPC server, the webhook. The
    webhook is in two halves, before and after it reads the gateway's answer, so that calls can overlap.
    The step relation \<open>pay_step\<close> of \<open>Payment_Webhook\<close> also takes \<open>CreatePayment\<close> in its steps.
  \<^item> \<open>Payment_Inv\<close> (the table's invariant), \<open>Payment_Create\<close> (one payment per subject; a repetition recovers a failed
    call), \<open>Payment_Webhook\<close> (a payment is settled by the gateway's word alone, with events that agree, however
    webhook calls overlap), \<open>Payment_Sample\<close> (witnesses).
  \<^item> \<open>Order_Payment\<close>: order-service's gRPC client and circuit breaker over payment-service's server, and the events
    of payment-service in order-service's dispatcher.

  \<^bold>\<open>restaurant-service\<close> (\<open>restaurant-service/internal\<close>).
  \<^item> \<open>Restaurant_Domain\<close> (\<open>domain\<close>): the restaurant with its status machine, pizzas, toppings, opening hours, prices.
    \<open>Restaurant_Events\<close>: the integration events and their payloads. \<open>Restaurant_Store\<close>: tables and repositories.
  \<^item> \<open>Restaurant_Commands\<close> (\<open>application\<close>): every command and query, as the handlers call them.
  \<^item> \<open>Restaurant_Inv\<close>, \<open>Restaurant_Keeps\<close>, \<open>Restaurant_Reach\<close>: the invariant of the tables and of the outbox, kept by every
    command, and the states reachable by requests; \<open>Restaurant_Props\<close>: owner's rights, launch, toppings and prices;
    \<open>Restaurant_Sample\<close>: witnesses.
  \<^item> \<open>Restaurant_Http\<close> (\<open>interfaces/http\<close>, \<open>application/*/schema.go\<close>): routes, validators, binding of bodies, handlers.
    \<open>Restaurant_Access\<close>: no request makes the service panic, and what it changes is its caller's; \<open>Body_Checks\<close>: typing errors
    in an IBAN are caught, opening hours are in order.
  \<^item> \<open>Restaurant_Order\<close>: its events in the read model of order-service.

  \<^bold>\<open>identity-service\<close> (\<open>identity-service/internal\<close>).
  \<^item> \<open>Identity\<close> (\<open>domain\<close>, \<open>infrastructure/persistence\<close>, Redis), \<open>Identity_Commands\<close> (registration, one-time codes, login,
    refresh, logout, the middleware, the mapping of errors to HTTP statuses). The check of a code is in two halves,
    before and after the guess is counted, so that requests can overlap.
  \<^item> \<open>Identity_Inv\<close>: requests, the relay, reachability and the invariant; \<open>Identity_Props\<close>: no account without the code
    that was mailed, the cap on guesses, alone and under overlapping requests, rotation of refresh tokens;
    \<open>Identity_Code\<close>: the six digits are uniform; \<open>Identity_Sample\<close>: witnesses.

  \<^bold>\<open>customer-service\<close> (\<open>customer-service/internal\<close>).
  \<^item> \<open>Customer_Service\<close>: profiles, addresses, the handler of registrations, the commands. \<open>Customer_Props\<close>: the address
    book's invariant (one default among a customer's addresses), its commands; \<open>Customer_Sample\<close>: witnesses.
  \<^item> \<open>Accounts\<close>: identity-service's events in the consumers of customer-service, restaurant-service and
    order-service, and a saved address in order-service.

  \<^bold>\<open>search-service\<close> (\<open>search-service/internal\<close>). Its database is an Elasticsearch index, a list of documents by the text of the
  restaurant's identifier.
  \<^item> \<open>Search\<close> (\<open>domain/index\<close>, \<open>infrastructure/elasticsearch/search_repository.go\<close>): the indexed data, the documents, and the
    Painless scripts as functions on a document. \<open>Search_Events\<close> (\<open>application/index\<close>): payloads, handlers, dispatcher.
  \<^item> \<open>Search_Index\<close>: a document is three tables of versioned rows in one, so any order and repetition of deliveries gives
    the same restaurant data and topping prices, and the same pizzas as long as none is withdrawn; a withdrawn one can come back.
  \<^item> \<open>Search_Query\<close> (the query and the two scripts that filter, \<open>geocode_repository.go\<close>, \<open>application/query\<close>, the HTTP
    handlers), \<open>Search_Answers\<close>: what a search shows, and why its filter on opening hours errs; \<open>Search_Sample\<close>: witnesses.
    \<open>Restaurant_Search\<close>: a launch of restaurant-service in the index and in the answer to a customer.
  \<^item> Parameters (\<open>es_lib\<close>): distances, doc values and \<open>get\<close> on their lists, local time, matching of texts, ranking; \<open>es_ranking\<close> and
    \<open>es_lists\<close> are the documented behaviour. The guards compare milliseconds, as the scripts do. \<open>ParseFloat\<close> reads plain decimals.

  \<^bold>\<open>notification-service\<close> (\<open>notification-service/internal\<close>). Its state is the list of the mails that the SMTP server has taken.
  \<^item> \<open>Mail_Templates\<close>: the template files, byte for byte, and their loader. \<open>Notification\<close> (\<open>smtp_sender.go\<close>,
    \<open>application/notification\<close>): the text of a mail, the handlers, the dispatcher.
  \<^item> \<open>Notification_Props\<close>: the mails of an event as a specification, and the consumer's histories against it.
    \<open>Mail_Flows\<close>: a confirmed order, an approved restaurant and a registered user in their mails; witnesses.

  \<^bold>\<open>Bounds and fuel.\<close> The recursions are structural or on a bounded count: the queue drains within four dispatches
  per message, since a message is republished at most three times (\<open>Consumer.queue_drains\<close>), and a healthy worker
  drains the outbox within as many batches as there are due rows. Quantities are words; where a
  result depends on their not wrapping, the theorem has the bound the code checks or the column's range. The
  overlapping guesses of \<open>Identity_Props.guess_cap_race\<close> are at most 30,000, far below the range of the counter.

  \<^bold>\<open>Overlapping requests.\<close> The outbox workers, the webhook and \<open>CreatePayment\<close>, the consumers, and one request or message
  between the halves of another (\<open>cancel_overwrites_confirmation\<close>, \<open>approval_lost\<close>, \<open>guess_cap_race\<close>,
  \<open>repeated_create_undoes_settlement\<close>) are modelled with their interleavings. The states of \<open>rs_reach\<close> and \<open>id_reach\<close> are
  those that requests to restaurant-service and identity-service reach one after another.

  \<^bold>\<open>Not modelled.\<close> Network and database connections, configuration, wiring, logging and telemetry. The clients of
  OpenCage and of the gRPC stub, the breakers of gobreaker, the HTTP exchange with Mollie, Elasticsearch, SMTP, SHA-256, bcrypt and the
  signing of tokens are arguments of the definitions (\<open>jwt_law\<close>: a signed token parses back). \<open>strings.ToLower\<close> and
  \<open>strings.TrimSpace\<close> are the ASCII ones. HTTP routing and request binding of identity-, customer- and search-service.
  Package validator's \<open>email\<close>, \<open>url\<close> and \<open>bic\<close>, package decimal's JSON and the Unicode tables are arguments too. Rounding of \<open>float64\<close>.
\<close>

end
